(* ===== verification/Gpon_Prelude.thy ===== *)
theory Gpon_Prelude
  imports Main "HOL-Library.Word"
begin

text \<open>
  Shared vocabulary of the development: the machine integers of the C sources, the packing of
  four octets into a big-endian word and back, the index arithmetic of the ring buffers, the
  memory-mapped I/O accessors of the kernel as a parameter record, and the interfaces (locales)
  that several components implement: a bounded FIFO, and a set of device registers that store
  what is written to them.
\<close>

unbundle bit_operations_syntax

section \<open>Machine integers and automation collections\<close>

type_synonym u8 = "8 word"
type_synonym u16 = "16 word"
type_synonym u32 = "32 word"
type_synonym u64 = "64 word"

named_theorems frame_simps \<open>fields an operation leaves alone\<close>
named_theorems pack_simps \<open>octets and words\<close>
named_theorems ring_simps \<open>ring index arithmetic\<close>

section \<open>Memory-mapped I/O\<close>

text \<open>
  The accessors \<^term>\<open>ioread32be\<close> and \<^term>\<open>iowrite32be\<close> belong to the Linux kernel and the
  registers behind them to the chip; both are parameters. The type variable stands for everything
  outside the driver's own structures: device registers and the targets of callbacks.
\<close>

record 'w mmio =
  ioread32be :: "u32 \<Rightarrow> 'w \<Rightarrow> u32 \<times> 'w"
  iowrite32be :: "u32 \<Rightarrow> u32 \<Rightarrow> 'w \<Rightarrow> 'w"

text \<open>A callback pointer that may be NULL.\<close>

definition call_cb :: "('a \<Rightarrow> 'w \<Rightarrow> 'w) option \<Rightarrow> 'a \<Rightarrow> 'w \<Rightarrow> 'w" where
  "call_cb cb x w = (case cb of None \<Rightarrow> w | Some f \<Rightarrow> f x w)"

text \<open>
  Delayed work items of the kernel: a pending item keeps its delay, queueing an item that is
  already pending does nothing, cancelling leaves nothing pending.
\<close>

type_synonym delayed_work = "nat option"

definition schedule_delayed_work :: "nat \<Rightarrow> delayed_work \<Rightarrow> delayed_work" where
  "schedule_delayed_work d p = (case p of None \<Rightarrow> Some d | Some t \<Rightarrow> Some t)"

definition cancel_delayed_work :: "delayed_work \<Rightarrow> delayed_work" where
  "cancel_delayed_work p = None"

text \<open>A bank of registers that only store, the simplest device behind the accessors.\<close>

definition bank_hw :: "(u32 \<Rightarrow> u32) mmio" where
  "bank_hw = \<lparr> ioread32be = (\<lambda>a r. (r a, r)), iowrite32be = (\<lambda>v a r. r(a := v)) \<rparr>"

section \<open>Octets and big-endian words\<close>

definition be32 :: "u8 \<Rightarrow> u8 \<Rightarrow> u8 \<Rightarrow> u8 \<Rightarrow> u32" where
  "be32 a b c d = push_bit 24 (ucast a) OR push_bit 16 (ucast b) OR push_bit 8 (ucast c) OR ucast d"

definition octet :: "nat \<Rightarrow> u32 \<Rightarrow> u8" where
  "octet n w = ucast (drop_bit n w AND 0xFF)"

section \<open>Ring buffers\<close>

text \<open>The elements of a ring of \<^term>\<open>N\<close> slots between the read and the write index, oldest first.\<close>

definition ring_len :: "nat \<Rightarrow> nat \<Rightarrow> nat \<Rightarrow> nat" where
  "ring_len N h t = (h + N - t) mod N"

definition ring_elems :: "nat \<Rightarrow> 'a list \<Rightarrow> nat \<Rightarrow> nat \<Rightarrow> 'a list" where
  "ring_elems N buf h t = map (\<lambda>i. buf ! ((t + i) mod N)) [0..<ring_len N h t]"

section \<open>Interfaces\<close>

text \<open>
  A bounded FIFO: \<^term>\<open>cap\<close> elements fit, a push below the capacity appends, a pop takes the
  oldest element. \<^term>\<open>fits\<close> are the elements a slot can hold. What a push does at the capacity
  differs between the implementations.
\<close>

locale bounded_fifo =
  fixes invar :: "'s \<Rightarrow> bool"
    and contents :: "'s \<Rightarrow> 'a list"
    and push :: "'a \<Rightarrow> 's \<Rightarrow> 's"
    and pop :: "'s \<Rightarrow> ('a \<times> 's) option"
    and cap :: nat
    and fits :: "'a \<Rightarrow> bool"
  assumes push_invar: "invar s \<Longrightarrow> fits x \<Longrightarrow> invar (push x s)"
    and push_contents: "invar s \<Longrightarrow> fits x \<Longrightarrow> length (contents s) < cap \<Longrightarrow> contents (push x s) = contents s @ [x]"
    and contents_bound: "invar s \<Longrightarrow> length (contents s) \<le> cap"
    and pop_None: "invar s \<Longrightarrow> pop s = None \<longleftrightarrow> contents s = []"
    and pop_Some: "invar s \<Longrightarrow> pop s = Some (x, s') \<Longrightarrow> contents s = x # contents s' \<and> invar s'"
begin

fun push_all :: "'a list \<Rightarrow> 's \<Rightarrow> 's" where
  "push_all [] s = s"
| "push_all (x # xs) s = push_all xs (push x s)"

fun pop_n :: "nat \<Rightarrow> 's \<Rightarrow> 'a list \<times> 's" where
  "pop_n 0 s = ([], s)"
| "pop_n (Suc n) s = (case pop s of None \<Rightarrow> ([], s)
     | Some (x, s') \<Rightarrow> (let (xs, s'') = pop_n n s' in (x # xs, s'')))"

lemma push_all_invar: "invar s \<Longrightarrow> list_all fits xs \<Longrightarrow> invar (push_all xs s)"
  by (induction xs arbitrary: s) (auto intro: push_invar)

lemma push_all_contents:
  "invar s \<Longrightarrow> list_all fits xs \<Longrightarrow> length (contents s) + length xs \<le> cap \<Longrightarrow> contents (push_all xs s) = contents s @ xs"
  by (induction xs arbitrary: s) (auto simp: push_contents push_invar)

lemma pop_nonempty:
  assumes "invar s" and "contents s = x # xs"
  obtains s' where "pop s = Some (x, s')" "contents s' = xs" "invar s'"
proof -
  from assms have "pop s \<noteq> None" by (simp add: pop_None)
  then obtain y s' where "pop s = Some (y, s')" by auto
  with assms pop_Some[of s y s'] that show thesis by auto
qed

lemma pop_n_takes:
  "invar s \<Longrightarrow> fst (pop_n n s) = take n (contents s) \<and> contents (snd (pop_n n s)) = drop n (contents s)
     \<and> invar (snd (pop_n n s))"
proof (induction n arbitrary: s)
  case (Suc n)
  show ?case
  proof (cases "contents s")
    case Nil
    with Suc.prems have "pop s = None" by (simp add: pop_None)
    with Nil Suc.prems show ?thesis by simp
  next
    case (Cons x xs)
    with Suc.prems obtain s' where "pop s = Some (x, s')" "contents s' = xs" "invar s'"
      by (rule pop_nonempty)
    with Suc.IH[of s'] Cons show ?thesis by (simp add: case_prod_beta)
  qed
qed simp

lemma fifo_order:
  assumes "invar s" "list_all fits xs" "contents s = []" "length xs \<le> cap"
  shows "fst (pop_n (length xs) (push_all xs s)) = xs"
  using pop_n_takes[OF push_all_invar[OF assms(1,2)], of "length xs"] push_all_contents[OF assms(1,2)] assms
  by simp

end

text \<open>
  Device registers that hold what was written last. \<^term>\<open>plain\<close> are the addresses whose reads
  return the register; a read changes no register anywhere.
\<close>

locale register_file =
  fixes hw :: "'w mmio" and reg :: "'w \<Rightarrow> u32 \<Rightarrow> u32" and plain :: "u32 set"
  assumes read_reg: "a \<in> plain \<Longrightarrow> fst (ioread32be hw a w) = reg w a"
    and read_keeps: "reg (snd (ioread32be hw a w)) = reg w"
    and write_reg: "reg (iowrite32be hw v a w) = (reg w)(a := v)"
begin

lemmas reg_simps = read_reg read_keeps write_reg

lemma modify_reg:
  assumes "a \<in> plain"
  shows "reg (iowrite32be hw (f (fst (ioread32be hw a w))) a (snd (ioread32be hw a w))) = (reg w)(a := f (reg w a))"
  using assms by (simp add: reg_simps)

lemma fold_write_other:
  "a \<notin> g ` set xs \<Longrightarrow> reg (fold (\<lambda>i. iowrite32be hw (f i) (g i)) xs w) a = reg w a"
  by (induction xs arbitrary: w) (auto simp: reg_simps)

lemma fold_write:
  "distinct xs \<Longrightarrow> inj_on g (set xs) \<Longrightarrow> i \<in> set xs \<Longrightarrow>
    reg (fold (\<lambda>i. iowrite32be hw (f i) (g i)) xs w) (g i) = f i"
proof (induction xs arbitrary: w)
  case (Cons x xs)
  show ?case
  proof (cases "i = x")
    case True
    with Cons.prems have "g i \<notin> g ` set xs" by (auto simp: inj_on_def)
    with True show ?thesis by (simp add: fold_write_other reg_simps)
  qed (use Cons in simp)
qed simp

end

interpretation bank: register_file bank_hw "\<lambda>r. r" UNIV
  by unfold_locales (auto simp: bank_hw_def)

section \<open>Lemmas on octets\<close>

lemma call_cb_simps [simp]: "call_cb None x w = w" "call_cb (Some f) x w = f x w"
  by (simp_all add: call_cb_def)

lemma bit_ucast_u8: "bit (ucast (a :: u8) :: u32) n \<longleftrightarrow> bit a n"
  using bit_imp_le_length[of a n] by (auto simp: bit_simps)

lemma octet_bit: "bit (octet k w) n \<longleftrightarrow> n < 8 \<and> bit w (k + n)"
proof -
  have ff: "(0xFF :: u32) = mask 8" by (simp add: mask_eq_exp_minus_1)
  show ?thesis unfolding octet_def ff by (auto simp: bit_simps dest: bit_imp_le_length)
qed


lemma u8_bit_ge: "8 \<le> n \<Longrightarrow> \<not> bit (a :: u8) n"
  using bit_imp_le_length[of a n] by auto

lemma be32_bit:
  "bit (be32 a b c d) n \<longleftrightarrow> n < 32 \<and>
     (if n < 8 then bit d n else if n < 16 then bit c (n - 8) else if n < 24 then bit b (n - 16) else bit a (n - 24))"
proof -
  have "n < 8 \<or> (8 \<le> n \<and> n < 16) \<or> (16 \<le> n \<and> n < 24) \<or> 24 \<le> n" by auto
  then show ?thesis
    unfolding be32_def by (elim disjE conjE) (simp_all add: bit_or_iff bit_push_bit_iff bit_ucast_u8 u8_bit_ge conj_commute possible_bit_word)
qed

lemma octet_be32 [pack_simps, simp]:
  "octet 24 (be32 a b c d) = a" "octet 16 (be32 a b c d) = b"
  "octet 8 (be32 a b c d) = c" "octet 0 (be32 a b c d) = d"
  by (rule bit_word_eqI, simp add: octet_bit be32_bit)+

lemma be32_octets [pack_simps, simp]: "be32 (octet 24 w) (octet 16 w) (octet 8 w) (octet 0 w) = w"
  by (rule bit_word_eqI) (auto simp: octet_bit be32_bit)

lemma be32_inject [simp]:
  "be32 a b c d = be32 a' b' c' d' \<longleftrightarrow> a = a' \<and> b = b' \<and> c = c' \<and> d = d'"
  by (metis octet_be32)

lemma unat_and_mask: "unat (x AND mask n) = unat x mod 2 ^ n" for x :: "'a :: len word"
proof -
  have "unat (x AND mask n) = take_bit n (unat x)"
    by (simp only: unsigned_take_bit_eq flip: take_bit_eq_mask)
  then show ?thesis by (simp add: take_bit_eq_mod)
qed

lemma and_mask_less: "unat x < 2 ^ n \<Longrightarrow> x AND mask n = x" for x :: "'a :: len word"
  by (simp only: word_unat_eq_iff unat_and_mask mod_less)

section \<open>Lemmas on ring indices\<close>

lemma mod_wrap: "a < 2 * N \<Longrightarrow> a mod N = (if a < N then a else a - N)" for a N :: nat
  by (simp add: le_mod_geq)

lemma ring_len_less [ring_simps]: "0 < N \<Longrightarrow> ring_len N h t < N"
  by (simp add: ring_len_def)

lemma ring_len_empty [ring_simps]: "h < N \<Longrightarrow> t < N \<Longrightarrow> ring_len N h t = 0 \<longleftrightarrow> h = t"
  by (auto simp: ring_len_def mod_if split: if_splits)

lemma ring_len_split:
  "h < N \<Longrightarrow> t < N \<Longrightarrow> ring_len N h t = (if t \<le> h then h - t else h + N - t)"
  by (auto simp: ring_len_def mod_if)

lemma ring_elems_length [ring_simps, simp]: "length (ring_elems N buf h t) = ring_len N h t"
  by (simp add: ring_elems_def)

lemma ring_elems_empty [ring_simps]: "h < N \<Longrightarrow> t < N \<Longrightarrow> ring_elems N buf h t = [] \<longleftrightarrow> h = t"
  by (simp add: ring_elems_def ring_len_empty)

lemma ring_slot_distinct:
  assumes "h < N" "t < N" "i < ring_len N h t"
  shows "(t + i) mod N \<noteq> h"
proof -
  from assms(3) ring_len_less[of N h t] assms(1) have "i < N" by linarith
  with assms show ?thesis by (auto simp: mod_wrap ring_len_split split: if_splits)
qed

lemma ring_next:
  "h < N \<Longrightarrow> Suc h mod N = (if Suc h = N then 0 else Suc h)"
  by (simp add: mod_wrap)

lemma ring_push:
  assumes "h < N" "t < N" "length buf = N" "Suc (ring_len N h t) < N"
  shows "ring_elems N (buf[h := x]) (Suc h mod N) t = ring_elems N buf h t @ [x]"
proof -
  have len: "ring_len N (Suc h mod N) t = Suc (ring_len N h t)"
    using assms by (auto simp: ring_next ring_len_split split: if_splits)
  have slot: "(t + ring_len N h t) mod N = h"
    using assms by (auto simp: ring_len_split)
  show ?thesis
    unfolding ring_elems_def len using assms slot ring_slot_distinct[OF assms(1,2), THEN not_sym]
    by auto
qed

lemma ring_pop:
  assumes "h < N" "t < N" "h \<noteq> t"
  shows "ring_elems N buf h t = buf ! t # ring_elems N buf h (Suc t mod N)"
proof -
  have len: "ring_len N h t = Suc (ring_len N h (Suc t mod N))"
    using assms by (auto simp: ring_next ring_len_split split: if_splits)
  show ?thesis
    unfolding ring_elems_def len using assms(2)
    by (auto simp: map_upt_Suc mod_simps simp del: upt_Suc)
qed

lemma ring_full_push_empty:
  assumes "h < N" "t < N" "Suc (ring_len N h t) = N"
  shows "Suc h mod N = t"
  using assms by (auto simp: ring_next ring_len_split split: if_splits)

end
