(* ===== verification/Falcon_Ploam.thy ===== *)
theory Falcon_Ploam
  imports Gpon_Prelude
begin

text \<open>
  The PLOAM protocol engine of \<^verbatim>\<open>falcon_ploam.c\<close>: message packing for the GTC FIFO registers, the
  activation state machine O1..O7 with its two timers, the receive ring filled by the interrupt
  handler and drained by the worker, and the step relation that interleaves interrupts, worker
  iterations, line events and timer expiries. Every operation takes the register accessors as a
  parameter and passes the context and the outside world explicitly.
\<close>

section \<open>Data (falcon_ploam.h)\<close>

datatype gpon_ploam_state =
    PLOAM_STATE_O1_INITIAL_RUN
  | PLOAM_STATE_O2_STANDBY
  | PLOAM_STATE_O3_SERIAL_NUM
  | PLOAM_STATE_O4_RANGING
  | PLOAM_STATE_O5_OPERATION
  | PLOAM_STATE_O6_POPUP
  | PLOAM_STATE_O7_EMERGENCY

fun ploam_state_code :: "gpon_ploam_state \<Rightarrow> u32" where
  "ploam_state_code PLOAM_STATE_O1_INITIAL_RUN = 1"
| "ploam_state_code PLOAM_STATE_O2_STANDBY = 2"
| "ploam_state_code PLOAM_STATE_O3_SERIAL_NUM = 3"
| "ploam_state_code PLOAM_STATE_O4_RANGING = 4"
| "ploam_state_code PLOAM_STATE_O5_OPERATION = 5"
| "ploam_state_code PLOAM_STATE_O6_POPUP = 6"
| "ploam_state_code PLOAM_STATE_O7_EMERGENCY = 7"

abbreviation (input) PLOAM_DS_UPSTREAM_OVERHEAD :: u8 where "PLOAM_DS_UPSTREAM_OVERHEAD \<equiv> 0x01"
abbreviation (input) PLOAM_DS_ASSIGN_ONU_ID :: u8 where "PLOAM_DS_ASSIGN_ONU_ID \<equiv> 0x03"
abbreviation (input) PLOAM_DS_RANGING_TIME :: u8 where "PLOAM_DS_RANGING_TIME \<equiv> 0x04"
abbreviation (input) PLOAM_DS_DEACTIVATE_ONU_ID :: u8 where "PLOAM_DS_DEACTIVATE_ONU_ID \<equiv> 0x05"
abbreviation (input) PLOAM_DS_DISABLE_SERIAL_NUM :: u8 where "PLOAM_DS_DISABLE_SERIAL_NUM \<equiv> 0x06"
abbreviation (input) PLOAM_DS_REQUEST_PASSWORD :: u8 where "PLOAM_DS_REQUEST_PASSWORD \<equiv> 0x09"
abbreviation (input) PLOAM_US_SERIAL_NUMBER_ONU :: u8 where "PLOAM_US_SERIAL_NUMBER_ONU \<equiv> 0x01"
abbreviation (input) PLOAM_US_PASSWORD :: u8 where "PLOAM_US_PASSWORD \<equiv> 0x02"
abbreviation (input) PLOAM_US_ACKNOWLEDGE :: u8 where "PLOAM_US_ACKNOWLEDGE \<equiv> 0x09"

abbreviation (input) GTC_PLOAM_DS_CTRL :: u32 where "GTC_PLOAM_DS_CTRL \<equiv> 0x05C"
abbreviation (input) GTC_PLOAM_DS_DATA0 :: u32 where "GTC_PLOAM_DS_DATA0 \<equiv> 0x060"
abbreviation (input) GTC_PLOAM_DS_DATA1 :: u32 where "GTC_PLOAM_DS_DATA1 \<equiv> 0x064"
abbreviation (input) GTC_PLOAM_DS_DATA2 :: u32 where "GTC_PLOAM_DS_DATA2 \<equiv> 0x068"
abbreviation (input) GTC_ONU_ID_REG :: u32 where "GTC_ONU_ID_REG \<equiv> 0x06C"
abbreviation (input) GTC_DELAY_CTRL :: u32 where "GTC_DELAY_CTRL \<equiv> 0x100"
abbreviation (input) GTC_RANGED_DELAY :: u32 where "GTC_RANGED_DELAY \<equiv> 0x104"
abbreviation (input) GTC_DELAY_CTRL_EN :: u32 where "GTC_DELAY_CTRL_EN \<equiv> 0x10000000"
abbreviation (input) GTC_PLOAM_US_CTRL :: u32 where "GTC_PLOAM_US_CTRL \<equiv> 0x128"
abbreviation (input) GTC_PLOAM_US_DATA0 :: u32 where "GTC_PLOAM_US_DATA0 \<equiv> 0x12C"
abbreviation (input) GTC_PLOAM_US_DATA1 :: u32 where "GTC_PLOAM_US_DATA1 \<equiv> 0x130"
abbreviation (input) GTC_PLOAM_US_DATA2 :: u32 where "GTC_PLOAM_US_DATA2 \<equiv> 0x134"

text \<open>\<^verbatim>\<open>payload\<close> stands for an array of nine octets.\<close>

record gpon_ploam_msg =
  onu_id :: u8
  msg_id :: u8
  seq_num :: u8
  payload :: "u8 list"

record gpon_us_overhead =
  preamble_len :: u8
  delimiter_len :: u8
  preamble_pat :: "u8 list"
  delimiter_pat :: "u8 list"
  power_level_mode :: u8

text \<open>
  \<^verbatim>\<open>fsm_work\<close> and the timers record whether the work item is pending. The callbacks act on the
  outside world.
\<close>

record 'w falcon_ploam_ctx =
  gtc_base :: u32
  state :: gpon_ploam_state
  assigned_onu_id :: u8
  serial_number :: "u8 list"
  password :: "u8 list"
  eqd :: u32
  overhead :: gpon_us_overhead
  rx_queue :: "gpon_ploam_msg list"
  rx_head :: u8
  rx_tail :: u8
  fsm_work :: bool
  to1_timer :: delayed_work
  to2_timer :: delayed_work
  laser_set_enable :: "(bool \<Rightarrow> 'w \<Rightarrow> 'w) option"
  carrier_set :: "(bool \<Rightarrow> 'w \<Rightarrow> 'w) option"
  state_change_cb :: "(gpon_ploam_state \<times> gpon_ploam_state \<Rightarrow> 'w \<Rightarrow> 'w) option"

type_synonym 'w ploam_conf = "'w falcon_ploam_ctx \<times> 'w"

section \<open>Operations (falcon_ploam.c)\<close>

definition falcon_ploam_state_str :: "u32 \<Rightarrow> string" where
  "falcon_ploam_state_str s =
    (if s = 1 then ''O1 (Initial-Run)'' else if s = 2 then ''O2 (Standby)''
     else if s = 3 then ''O3 (Serial Number)'' else if s = 4 then ''O4 (Ranging)''
     else if s = 5 then ''O5 (Operation)'' else if s = 6 then ''O6 (POPUP)''
     else if s = 7 then ''O7 (Emergency Stop)'' else ''UNKNOWN'')"

definition gtc_read :: "'w mmio \<Rightarrow> 'w falcon_ploam_ctx \<Rightarrow> u32 \<Rightarrow> 'w \<Rightarrow> u32 \<times> 'w" where
  "gtc_read hw ctx reg w = ioread32be hw (gtc_base ctx + reg) w"

definition gtc_write :: "'w mmio \<Rightarrow> 'w falcon_ploam_ctx \<Rightarrow> u32 \<Rightarrow> u32 \<Rightarrow> 'w \<Rightarrow> 'w" where
  "gtc_write hw ctx val reg w = iowrite32be hw val (gtc_base ctx + reg) w"

text \<open>The three words a message is written as, and the message three words are read as.\<close>

definition ploam_words :: "gpon_ploam_msg \<Rightarrow> u32 \<times> u32 \<times> u32" where
  "ploam_words msg =
    (be32 (onu_id msg) (msg_id msg) (seq_num msg) (payload msg ! 0),
     be32 (payload msg ! 1) (payload msg ! 2) (payload msg ! 3) (payload msg ! 4),
     be32 (payload msg ! 5) (payload msg ! 6) (payload msg ! 7) (payload msg ! 8))"

definition ploam_of_words :: "u32 \<Rightarrow> u32 \<Rightarrow> u32 \<Rightarrow> gpon_ploam_msg" where
  "ploam_of_words w0 w1 w2 =
    \<lparr> onu_id = octet 24 w0, msg_id = octet 16 w0, seq_num = octet 8 w0,
      payload = [octet 0 w0, octet 24 w1, octet 16 w1, octet 8 w1, octet 0 w1,
                 octet 24 w2, octet 16 w2, octet 8 w2, octet 0 w2] \<rparr>"

definition gtc_ploam_send :: "'w mmio \<Rightarrow> 'w falcon_ploam_ctx \<Rightarrow> gpon_ploam_msg \<Rightarrow> 'w \<Rightarrow> 'w" where
  "gtc_ploam_send hw ctx msg w =
    (let (w0, w1, w2) = ploam_words msg;
         w = gtc_write hw ctx w0 GTC_PLOAM_US_DATA0 w;
         w = gtc_write hw ctx w1 GTC_PLOAM_US_DATA1 w;
         w = gtc_write hw ctx w2 GTC_PLOAM_US_DATA2 w
     in gtc_write hw ctx 0x01 GTC_PLOAM_US_CTRL w)"

definition onu_id_filter :: "u8 \<Rightarrow> gpon_ploam_msg \<Rightarrow> bool" where
  "onu_id_filter own msg = (\<not> (onu_id msg \<noteq> 0xFF \<and> onu_id msg \<noteq> own \<and> own \<noteq> 0))"

text \<open>\<^term>\<open>None\<close> is the return value false: the FIFO is empty or the message is for another ONU.\<close>

definition gtc_ploam_rd :: "'w mmio \<Rightarrow> 'w falcon_ploam_ctx \<Rightarrow> 'w \<Rightarrow> gpon_ploam_msg option \<times> 'w" where
  "gtc_ploam_rd hw ctx w =
    (let (status, w) = gtc_read hw ctx GTC_PLOAM_DS_CTRL w in
     if status AND 0x01 = 0 then (None, w)
     else
       let (w0, w) = gtc_read hw ctx GTC_PLOAM_DS_DATA0 w;
           (w1, w) = gtc_read hw ctx GTC_PLOAM_DS_DATA1 w;
           (w2, w) = gtc_read hw ctx GTC_PLOAM_DS_DATA2 w;
           msg = ploam_of_words w0 w1 w2
       in if onu_id_filter (assigned_onu_id ctx) msg then (Some msg, w) else (None, w))"

definition ploam_state_transition ::
    "'w mmio \<Rightarrow> gpon_ploam_state \<Rightarrow> 'w ploam_conf \<Rightarrow> 'w ploam_conf" where
  "ploam_state_transition hw new_state = (\<lambda>(ctx, w).
    let old_state = state ctx in
    if old_state = new_state then (ctx, w)
    else
      let ctx = ctx\<lparr>state := new_state\<rparr>;
          w = call_cb (state_change_cb ctx) (new_state, old_state) w;
          off = (\<lambda>w. call_cb (carrier_set ctx) False (call_cb (laser_set_enable ctx) False w))
      in case new_state of
           PLOAM_STATE_O1_INITIAL_RUN \<Rightarrow>
             (ctx\<lparr>assigned_onu_id := 0\<rparr>, gtc_write hw ctx 0 GTC_ONU_ID_REG (off w))
         | PLOAM_STATE_O2_STANDBY \<Rightarrow>
             (ctx\<lparr>assigned_onu_id := 0\<rparr>, gtc_write hw ctx 0 GTC_ONU_ID_REG (off w))
         | PLOAM_STATE_O3_SERIAL_NUM \<Rightarrow>
             (ctx\<lparr>to1_timer := schedule_delayed_work 10000 (to1_timer ctx)\<rparr>,
              call_cb (laser_set_enable ctx) True w)
         | PLOAM_STATE_O4_RANGING \<Rightarrow>
             (ctx\<lparr>to1_timer := cancel_delayed_work (to1_timer ctx)\<rparr>, w)
         | PLOAM_STATE_O5_OPERATION \<Rightarrow>
             (ctx\<lparr>to1_timer := cancel_delayed_work (to1_timer ctx),
                  to2_timer := cancel_delayed_work (to2_timer ctx)\<rparr>,
              call_cb (carrier_set ctx) True w)
         | PLOAM_STATE_O6_POPUP \<Rightarrow>
             (ctx\<lparr>to2_timer := schedule_delayed_work 100 (to2_timer ctx)\<rparr>,
              call_cb (laser_set_enable ctx) False w)
         | PLOAM_STATE_O7_EMERGENCY \<Rightarrow> (ctx, off w))"

definition send_ack :: "'w mmio \<Rightarrow> 'w falcon_ploam_ctx \<Rightarrow> u8 \<Rightarrow> 'w \<Rightarrow> 'w" where
  "send_ack hw ctx seq = gtc_ploam_send hw ctx
    \<lparr> onu_id = assigned_onu_id ctx, msg_id = PLOAM_US_ACKNOWLEDGE, seq_num = seq,
      payload = replicate 9 0 \<rparr>"

definition send_serial_number_onu :: "'w mmio \<Rightarrow> 'w falcon_ploam_ctx \<Rightarrow> 'w \<Rightarrow> 'w" where
  "send_serial_number_onu hw ctx = gtc_ploam_send hw ctx
    \<lparr> onu_id = 0xFF, msg_id = PLOAM_US_SERIAL_NUMBER_ONU, seq_num = 0x01,
      payload = take 8 (serial_number ctx) @ [0x00] \<rparr>"

definition send_password :: "'w mmio \<Rightarrow> 'w falcon_ploam_ctx \<Rightarrow> u8 \<Rightarrow> 'w \<Rightarrow> 'w" where
  "send_password hw ctx seq = gtc_ploam_send hw ctx
    \<lparr> onu_id = assigned_onu_id ctx, msg_id = PLOAM_US_PASSWORD, seq_num = seq,
      payload = take 9 (password ctx) \<rparr>"

text \<open>The switch of the worker, one function per message type.\<close>

definition on_upstream_overhead :: "'w mmio \<Rightarrow> gpon_ploam_msg \<Rightarrow> 'w ploam_conf \<Rightarrow> 'w ploam_conf" where
  "on_upstream_overhead hw msg = (\<lambda>(ctx, w).
    let ctx = ctx\<lparr>overhead := (overhead ctx)\<lparr>preamble_len := payload msg ! 0,
                delimiter_len := payload msg ! 1, power_level_mode := payload msg ! 8\<rparr>\<rparr>
    in if state ctx = PLOAM_STATE_O1_INITIAL_RUN \<or> state ctx = PLOAM_STATE_O2_STANDBY then
         let (ctx, w) = ploam_state_transition hw PLOAM_STATE_O3_SERIAL_NUM (ctx, w)
         in (ctx, send_serial_number_onu hw ctx w)
       else (ctx, w))"

definition on_assign_onu_id :: "'w mmio \<Rightarrow> gpon_ploam_msg \<Rightarrow> 'w ploam_conf \<Rightarrow> 'w ploam_conf" where
  "on_assign_onu_id hw msg = (\<lambda>(ctx, w).
    if take 8 (payload msg) = take 8 (serial_number ctx) then
      let ctx = ctx\<lparr>assigned_onu_id := payload msg ! 8\<rparr>;
          w = gtc_write hw ctx (ucast (assigned_onu_id ctx)) GTC_ONU_ID_REG w;
          w = send_ack hw ctx (seq_num msg) w
      in ploam_state_transition hw PLOAM_STATE_O4_RANGING (ctx, w)
    else (ctx, w))"

definition on_ranging_time :: "'w mmio \<Rightarrow> gpon_ploam_msg \<Rightarrow> 'w ploam_conf \<Rightarrow> 'w ploam_conf" where
  "on_ranging_time hw msg = (\<lambda>(ctx, w).
    if state ctx = PLOAM_STATE_O4_RANGING \<or> state ctx = PLOAM_STATE_O5_OPERATION then
      let d = be32 (payload msg ! 0) (payload msg ! 1) (payload msg ! 2) (payload msg ! 3);
          ctx = ctx\<lparr>eqd := d\<rparr>;
          w = gtc_write hw ctx d GTC_RANGED_DELAY w;
          (v, w) = gtc_read hw ctx GTC_DELAY_CTRL w;
          w = gtc_write hw ctx (v OR GTC_DELAY_CTRL_EN) GTC_DELAY_CTRL w;
          w = send_ack hw ctx (seq_num msg) w
      in ploam_state_transition hw PLOAM_STATE_O5_OPERATION (ctx, w)
    else (ctx, w))"

definition ploam_handle_msg :: "'w mmio \<Rightarrow> gpon_ploam_msg \<Rightarrow> 'w ploam_conf \<Rightarrow> 'w ploam_conf" where
  "ploam_handle_msg hw msg s =
    (if msg_id msg = PLOAM_DS_UPSTREAM_OVERHEAD then on_upstream_overhead hw msg s
     else if msg_id msg = PLOAM_DS_ASSIGN_ONU_ID then on_assign_onu_id hw msg s
     else if msg_id msg = PLOAM_DS_RANGING_TIME then on_ranging_time hw msg s
     else if msg_id msg = PLOAM_DS_REQUEST_PASSWORD then
       (fst s, send_password hw (fst s) (seq_num msg) (snd s))
     else if msg_id msg = PLOAM_DS_DEACTIVATE_ONU_ID then
       ploam_state_transition hw PLOAM_STATE_O2_STANDBY s
     else if msg_id msg = PLOAM_DS_DISABLE_SERIAL_NUM then
       ploam_state_transition hw PLOAM_STATE_O7_EMERGENCY s
     else s)"

text \<open>The locked sections: take the oldest message, or append one.\<close>

definition ploam_ring_pop :: "'w falcon_ploam_ctx \<Rightarrow> (gpon_ploam_msg \<times> 'w falcon_ploam_ctx) option" where
  "ploam_ring_pop ctx =
    (if rx_head ctx = rx_tail ctx then None
     else Some (rx_queue ctx ! unat (rx_tail ctx), ctx\<lparr>rx_tail := (rx_tail ctx + 1) AND 0x3F\<rparr>))"

definition ploam_ring_push :: "gpon_ploam_msg \<Rightarrow> 'w falcon_ploam_ctx \<Rightarrow> 'w falcon_ploam_ctx" where
  "ploam_ring_push msg ctx =
    ctx\<lparr>rx_queue := (rx_queue ctx)[unat (rx_head ctx) := msg], rx_head := (rx_head ctx + 1) AND 0x3F\<rparr>"

text \<open>One iteration of the worker's loop; \<^term>\<open>None\<close> is the exit.\<close>

definition fsm_worker_iter :: "'w mmio \<Rightarrow> 'w ploam_conf \<Rightarrow> 'w ploam_conf option" where
  "fsm_worker_iter hw = (\<lambda>(ctx, w).
    case ploam_ring_pop ctx of None \<Rightarrow> None
    | Some (msg, ctx) \<Rightarrow> Some (ploam_handle_msg hw msg (ctx, w)))"

partial_function (option) falcon_ploam_fsm_worker ::
    "'w mmio \<Rightarrow> 'w ploam_conf \<Rightarrow> 'w ploam_conf option" where
  "falcon_ploam_fsm_worker hw s =
    (case fsm_worker_iter hw s of None \<Rightarrow> Some s | Some s' \<Rightarrow> falcon_ploam_fsm_worker hw s')"

definition to1_timer_fn :: "'w mmio \<Rightarrow> 'w ploam_conf \<Rightarrow> 'w ploam_conf" where
  "to1_timer_fn hw = ploam_state_transition hw PLOAM_STATE_O2_STANDBY"

definition to2_timer_fn :: "'w mmio \<Rightarrow> 'w ploam_conf \<Rightarrow> 'w ploam_conf" where
  "to2_timer_fn hw = ploam_state_transition hw PLOAM_STATE_O1_INITIAL_RUN"

text \<open>The receive loop ends when the FIFO reports empty; a FIFO that never does keeps it running.\<close>

partial_function (option) ploam_rx_loop :: "'w mmio \<Rightarrow> 'w ploam_conf \<Rightarrow> 'w ploam_conf option" where
  "ploam_rx_loop hw s =
    (case gtc_ploam_rd hw (fst s) (snd s) of
       (None, w) \<Rightarrow> Some (fst s, w)
     | (Some msg, w) \<Rightarrow> ploam_rx_loop hw (ploam_ring_push msg (fst s), w))"

definition falcon_ploam_rx_irq_handler :: "'w mmio \<Rightarrow> 'w ploam_conf \<Rightarrow> 'w ploam_conf option" where
  "falcon_ploam_rx_irq_handler hw s =
    (case ploam_rx_loop hw s of None \<Rightarrow> None | Some (ctx, w) \<Rightarrow> Some (ctx\<lparr>fsm_work := True\<rparr>, w))"

definition falcon_ploam_event_los :: "'w mmio \<Rightarrow> bool \<Rightarrow> 'w ploam_conf \<Rightarrow> 'w ploam_conf" where
  "falcon_ploam_event_los hw los s =
    (if los then ploam_state_transition hw PLOAM_STATE_O1_INITIAL_RUN s else s)"

definition falcon_ploam_event_lof :: "'w mmio \<Rightarrow> bool \<Rightarrow> 'w ploam_conf \<Rightarrow> 'w ploam_conf" where
  "falcon_ploam_event_lof hw lof s =
    (if lof then
       if state (fst s) = PLOAM_STATE_O5_OPERATION then ploam_state_transition hw PLOAM_STATE_O6_POPUP s
       else ploam_state_transition hw PLOAM_STATE_O1_INITIAL_RUN s
     else if state (fst s) = PLOAM_STATE_O1_INITIAL_RUN then
       ploam_state_transition hw PLOAM_STATE_O2_STANDBY s
     else s)"

text \<open>
  The serial number and password arguments are pointers: the octets found there, or NULL. The
  zeroed structure is what \<^verbatim>\<open>memset\<close> leaves, the state and base being assigned right after.
\<close>

definition zero_ploam_msg :: gpon_ploam_msg where
  "zero_ploam_msg = \<lparr> onu_id = 0, msg_id = 0, seq_num = 0, payload = replicate 9 0 \<rparr>"

definition falcon_ploam_init ::
    "u32 \<Rightarrow> (nat \<Rightarrow> u8) option \<Rightarrow> (nat \<Rightarrow> u8) option \<Rightarrow> 'w falcon_ploam_ctx" where
  "falcon_ploam_init base sn pwd =
    \<lparr> gtc_base = base, state = PLOAM_STATE_O1_INITIAL_RUN, assigned_onu_id = 0,
      serial_number = (case sn of Some p \<Rightarrow> map p [0..<8]
                       | None \<Rightarrow> [0x5A, 0x59, 0x58, 0x45, 0x12, 0x34, 0x56, 0x78]),
      password = (case pwd of Some p \<Rightarrow> map p [0..<10] | None \<Rightarrow> replicate 10 0),
      eqd = 0,
      overhead = \<lparr> preamble_len = 0, delimiter_len = 0, preamble_pat = replicate 3 0,
                   delimiter_pat = replicate 3 0, power_level_mode = 0 \<rparr>,
      rx_queue = replicate 64 zero_ploam_msg, rx_head = 0, rx_tail = 0,
      fsm_work = False, to1_timer = None, to2_timer = None,
      laser_set_enable = None, carrier_set = None, state_change_cb = None \<rparr>"

definition falcon_ploam_destroy :: "'w mmio \<Rightarrow> 'w ploam_conf \<Rightarrow> 'w ploam_conf" where
  "falcon_ploam_destroy hw = (\<lambda>(ctx, w).
    ploam_state_transition hw PLOAM_STATE_O1_INITIAL_RUN
      (ctx\<lparr>to1_timer := cancel_delayed_work (to1_timer ctx),
           to2_timer := cancel_delayed_work (to2_timer ctx), fsm_work := False\<rparr>, w))"

section \<open>Interleaving of interrupts, worker and timers\<close>

text \<open>
  One step is an interrupt handler, one iteration of the worker (the work item leaves the pending
  state when the worker starts), a line event, or the expiry of a pending timer, which clears the
  timer before its function runs. The outside world moves on its own along \<^term>\<open>env\<close>.
\<close>

inductive ploam_step ::
    "'w mmio \<Rightarrow> ('w \<Rightarrow> 'w \<Rightarrow> bool) \<Rightarrow> 'w ploam_conf \<Rightarrow> 'w ploam_conf \<Rightarrow> bool" for hw env where
  step_rx: "falcon_ploam_rx_irq_handler hw s = Some s' \<Longrightarrow> ploam_step hw env s s'"
| step_work_start: "fsm_work ctx \<Longrightarrow> ploam_step hw env (ctx, w) (ctx\<lparr>fsm_work := False\<rparr>, w)"
| step_work: "fsm_worker_iter hw s = Some s' \<Longrightarrow> ploam_step hw env s s'"
| step_los: "ploam_step hw env s (falcon_ploam_event_los hw los s)"
| step_lof: "ploam_step hw env s (falcon_ploam_event_lof hw lof s)"
| step_to1: "to1_timer ctx = Some d \<Longrightarrow>
    ploam_step hw env (ctx, w) (to1_timer_fn hw (ctx\<lparr>to1_timer := None\<rparr>, w))"
| step_to2: "to2_timer ctx = Some d \<Longrightarrow>
    ploam_step hw env (ctx, w) (to2_timer_fn hw (ctx\<lparr>to2_timer := None\<rparr>, w))"
| step_world: "env w w' \<Longrightarrow> ploam_step hw env (ctx, w) (ctx, w')"

inductive_cases ploam_stepE: "ploam_step hw env s s'"

text \<open>The receive ring as a list, and the well-formedness of its indices.\<close>

definition ploam_ring_inv :: "'w falcon_ploam_ctx \<Rightarrow> bool" where
  "ploam_ring_inv ctx \<longleftrightarrow> rx_head ctx < 64 \<and> rx_tail ctx < 64 \<and> length (rx_queue ctx) = 64"

definition ploam_ring_list :: "'w falcon_ploam_ctx \<Rightarrow> gpon_ploam_msg list" where
  "ploam_ring_list ctx = ring_elems 64 (rx_queue ctx) (unat (rx_head ctx)) (unat (rx_tail ctx))"

text \<open>The activation invariant: which ONU-ID and which timers go with which state.\<close>

definition ploam_act_inv :: "'w falcon_ploam_ctx \<Rightarrow> bool" where
  "ploam_act_inv ctx \<longleftrightarrow>
    (state ctx \<in> {PLOAM_STATE_O1_INITIAL_RUN, PLOAM_STATE_O2_STANDBY, PLOAM_STATE_O3_SERIAL_NUM}
       \<longrightarrow> assigned_onu_id ctx = 0)
    \<and> (state ctx = PLOAM_STATE_O3_SERIAL_NUM \<longrightarrow> to1_timer ctx \<noteq> None)
    \<and> (state ctx = PLOAM_STATE_O4_RANGING \<longrightarrow> to1_timer ctx = None)
    \<and> (state ctx = PLOAM_STATE_O5_OPERATION \<longrightarrow> to1_timer ctx = None \<and> to2_timer ctx = None)
    \<and> (state ctx = PLOAM_STATE_O6_POPUP \<longrightarrow> to2_timer ctx \<noteq> None)"

definition ploam_inv :: "'w falcon_ploam_ctx \<Rightarrow> bool" where
  "ploam_inv ctx \<longleftrightarrow> ploam_ring_inv ctx \<and> ploam_act_inv ctx
     \<and> length (serial_number ctx) = 8 \<and> length (password ctx) = 10"

text \<open>The abstract activation automaton: the events a state reacts to, without context or hardware.\<close>

datatype line_event = Overhead | Assign_Own | Ranging | Deactivate | Disable | Ignored
  | LOS_Up | LOF_Up | LOF_Clear | TO1_Expired | TO2_Expired

fun activation :: "gpon_ploam_state \<Rightarrow> line_event \<Rightarrow> gpon_ploam_state" where
  "activation s Overhead =
    (if s = PLOAM_STATE_O1_INITIAL_RUN \<or> s = PLOAM_STATE_O2_STANDBY then PLOAM_STATE_O3_SERIAL_NUM else s)"
| "activation s Assign_Own = PLOAM_STATE_O4_RANGING"
| "activation s Ranging =
    (if s = PLOAM_STATE_O4_RANGING \<or> s = PLOAM_STATE_O5_OPERATION then PLOAM_STATE_O5_OPERATION else s)"
| "activation s Deactivate = PLOAM_STATE_O2_STANDBY"
| "activation s Disable = PLOAM_STATE_O7_EMERGENCY"
| "activation s Ignored = s"
| "activation s LOS_Up = PLOAM_STATE_O1_INITIAL_RUN"
| "activation s LOF_Up =
    (if s = PLOAM_STATE_O5_OPERATION then PLOAM_STATE_O6_POPUP else PLOAM_STATE_O1_INITIAL_RUN)"
| "activation s LOF_Clear =
    (if s = PLOAM_STATE_O1_INITIAL_RUN then PLOAM_STATE_O2_STANDBY else s)"
| "activation s TO1_Expired = PLOAM_STATE_O2_STANDBY"
| "activation s TO2_Expired = PLOAM_STATE_O1_INITIAL_RUN"

definition msg_event :: "u8 list \<Rightarrow> gpon_ploam_msg \<Rightarrow> line_event" where
  "msg_event sn msg =
    (if msg_id msg = PLOAM_DS_UPSTREAM_OVERHEAD then Overhead
     else if msg_id msg = PLOAM_DS_ASSIGN_ONU_ID then
       (if take 8 (payload msg) = take 8 sn then Assign_Own else Ignored)
     else if msg_id msg = PLOAM_DS_RANGING_TIME then Ranging
     else if msg_id msg = PLOAM_DS_DEACTIVATE_ONU_ID then Deactivate
     else if msg_id msg = PLOAM_DS_DISABLE_SERIAL_NUM then Disable
     else Ignored)"

text \<open>The fields the activation machine never touches: ring, identity, callbacks, pending work.\<close>

definition ploam_frame :: "'w falcon_ploam_ctx \<Rightarrow> _" where
  "ploam_frame ctx = (rx_queue ctx, rx_head ctx, rx_tail ctx, gtc_base ctx, serial_number ctx, password ctx,
     fsm_work ctx, laser_set_enable ctx, carrier_set ctx, state_change_cb ctx)"

text \<open>
  A reference GTC device for the interfaces below: a downstream FIFO read through the control and
  data registers, where reading the last data word removes the message, and plain registers elsewhere.
\<close>

record gtc_dev =
  ds_fifo :: "(u32 \<times> u32 \<times> u32) list"
  dev_regs :: "u32 \<Rightarrow> u32"

definition gtc_dev_hw :: "u32 \<Rightarrow> 'a gtc_dev_scheme mmio" where
  "gtc_dev_hw base =
    \<lparr> ioread32be = (\<lambda>a d.
        if a = base + GTC_PLOAM_DS_CTRL then (if ds_fifo d = [] then 0 else 1, d)
        else case ds_fifo d of
          (x, y, z) # q \<Rightarrow>
            if a = base + GTC_PLOAM_DS_DATA0 then (x, d)
            else if a = base + GTC_PLOAM_DS_DATA1 then (y, d)
            else if a = base + GTC_PLOAM_DS_DATA2 then (z, d\<lparr>ds_fifo := q\<rparr>)
            else (dev_regs d a, d)
        | [] \<Rightarrow> (dev_regs d a, d)),
      iowrite32be = (\<lambda>v a d. d\<lparr>dev_regs := (dev_regs d)(a := v)\<rparr>) \<rparr>"

definition words_msg :: "u32 \<times> u32 \<times> u32 \<Rightarrow> gpon_ploam_msg" where
  "words_msg = (\<lambda>(a, b, c). ploam_of_words a b c)"

text \<open>The messages of a hardware FIFO one run of the receive loop accepts, and the words it leaves.\<close>

definition rx_accepted :: "u8 \<Rightarrow> (u32 \<times> u32 \<times> u32) list \<Rightarrow> gpon_ploam_msg list" where
  "rx_accepted own q = takeWhile (onu_id_filter own) (map words_msg q)"

definition rx_left :: "u8 \<Rightarrow> (u32 \<times> u32 \<times> u32) list \<Rightarrow> (u32 \<times> u32 \<times> u32) list" where
  "rx_left own q = tl (dropWhile (\<lambda>m. onu_id_filter own (words_msg m)) q)"

text \<open>The contexts whose callbacks and register base are the given ones.\<close>

definition wired_to ::
    "u32 \<Rightarrow> (bool \<Rightarrow> 'w \<Rightarrow> 'w) option \<Rightarrow> (bool \<Rightarrow> 'w \<Rightarrow> 'w) option \<Rightarrow>
     (gpon_ploam_state \<times> gpon_ploam_state \<Rightarrow> 'w \<Rightarrow> 'w) option \<Rightarrow> 'w falcon_ploam_ctx \<Rightarrow> bool" where
  "wired_to base l c sc ctx \<longleftrightarrow>
    gtc_base ctx = base \<and> laser_set_enable ctx = l \<and> carrier_set ctx = c \<and> state_change_cb ctx = sc"

text \<open>The initialised context with callbacks installed afterwards.\<close>

definition ploam_start ::
    "u32 \<Rightarrow> (nat \<Rightarrow> u8) option \<Rightarrow> (nat \<Rightarrow> u8) option \<Rightarrow> (bool \<Rightarrow> 'w \<Rightarrow> 'w) option \<Rightarrow>
     (bool \<Rightarrow> 'w \<Rightarrow> 'w) option \<Rightarrow> (gpon_ploam_state \<times> gpon_ploam_state \<Rightarrow> 'w \<Rightarrow> 'w) option \<Rightarrow>
     'w falcon_ploam_ctx" where
  "ploam_start base sn pwd l c sc =
    (falcon_ploam_init base sn pwd)\<lparr>laser_set_enable := l, carrier_set := c, state_change_cb := sc\<rparr>"

text \<open>What entering a state does to the laser and to the carrier: set, clear or keep.\<close>

fun laser_entry :: "gpon_ploam_state \<Rightarrow> bool option" where
  "laser_entry PLOAM_STATE_O3_SERIAL_NUM = Some True"
| "laser_entry PLOAM_STATE_O4_RANGING = None"
| "laser_entry PLOAM_STATE_O5_OPERATION = None"
| "laser_entry _ = Some False"

fun carrier_entry :: "gpon_ploam_state \<Rightarrow> bool option" where
  "carrier_entry PLOAM_STATE_O5_OPERATION = Some True"
| "carrier_entry PLOAM_STATE_O3_SERIAL_NUM = None"
| "carrier_entry PLOAM_STATE_O4_RANGING = None"
| "carrier_entry PLOAM_STATE_O6_POPUP = None"
| "carrier_entry _ = Some False"

text \<open>The register contents after an upstream message was written.\<close>

definition us_regs :: "u32 \<Rightarrow> gpon_ploam_msg \<Rightarrow> (u32 \<Rightarrow> u32) \<Rightarrow> u32 \<Rightarrow> u32" where
  "us_regs base m r = (case ploam_words m of (a, b, c) \<Rightarrow>
    r(base + GTC_PLOAM_US_DATA0 := a, base + GTC_PLOAM_US_DATA1 := b,
      base + GTC_PLOAM_US_DATA2 := c, base + GTC_PLOAM_US_CTRL := 1))"

definition ack_msg :: "u8 \<Rightarrow> u8 \<Rightarrow> gpon_ploam_msg" where
  "ack_msg i n = \<lparr> onu_id = i, msg_id = PLOAM_US_ACKNOWLEDGE, seq_num = n, payload = replicate 9 0 \<rparr>"

section \<open>Interfaces to the device\<close>

text \<open>The downstream FIFO: its status bit tells whether it is empty, three reads take a message.\<close>

locale gtc_ds_fifo =
  fixes hw :: "'w mmio" and base :: u32 and fifo :: "'w \<Rightarrow> (u32 \<times> u32 \<times> u32) list"
  assumes ds_ctrl: "ioread32be hw (base + GTC_PLOAM_DS_CTRL) w = (v, w') \<Longrightarrow>
      (v AND 0x01 = 0 \<longleftrightarrow> fifo w = []) \<and> fifo w' = fifo w"
    and ds_data: "fifo w = (a, b, c) # q \<Longrightarrow> \<exists>wa wb wc.
      ioread32be hw (base + GTC_PLOAM_DS_DATA0) w = (a, wa) \<and>
      ioread32be hw (base + GTC_PLOAM_DS_DATA1) wa = (b, wb) \<and>
      ioread32be hw (base + GTC_PLOAM_DS_DATA2) wb = (c, wc) \<and> fifo wc = q"
begin

lemma rd_empty:
  assumes "gtc_base ctx = base" "fifo w = []"
  shows "\<exists>w'. gtc_ploam_rd hw ctx w = (None, w') \<and> fifo w' = []"
  using assms ds_ctrl[of w] by (cases "gtc_read hw ctx GTC_PLOAM_DS_CTRL w") (auto simp: gtc_ploam_rd_def gtc_read_def)

lemma rd_nonempty:
  assumes "gtc_base ctx = base" "fifo w = m # q"
  shows "\<exists>w'. gtc_ploam_rd hw ctx w =
    (if onu_id_filter (assigned_onu_id ctx) (words_msg m) then Some (words_msg m) else None, w') \<and> fifo w' = q"
proof -
  obtain a b c where m: "m = (a, b, c)" by (cases m)
  obtain v w1 where c0: "ioread32be hw (base + GTC_PLOAM_DS_CTRL) w = (v, w1)" by fastforce
  with ds_ctrl[OF c0] assms(2) have v: "v AND 0x01 \<noteq> 0" and w1: "fifo w1 = m # q" by auto
  from ds_data[of w1 a b c q] w1 m obtain wa wb wc where
    "ioread32be hw (base + GTC_PLOAM_DS_DATA0) w1 = (a, wa)"
    "ioread32be hw (base + GTC_PLOAM_DS_DATA1) wa = (b, wb)"
    "ioread32be hw (base + GTC_PLOAM_DS_DATA2) wb = (c, wc)" "fifo wc = q" by auto
  with c0 v m assms(1) show ?thesis by (auto simp: gtc_ploam_rd_def gtc_read_def words_msg_def)
qed

lemma rx_loop_drains:
  "gtc_base ctx = base \<Longrightarrow> \<exists>w'. ploam_rx_loop hw (ctx, w) =
      Some (fold ploam_ring_push (rx_accepted (assigned_onu_id ctx) (fifo w)) ctx, w')
    \<and> fifo w' = rx_left (assigned_onu_id ctx) (fifo w)"
proof (induction "fifo w" arbitrary: ctx w)
  case Nil
  from rd_empty[OF Nil.prems Nil.hyps[symmetric]] obtain w' where
    "gtc_ploam_rd hw ctx w = (None, w')" "fifo w' = []" by blast
  with Nil show ?case
    by (subst ploam_rx_loop.simps) (simp add: rx_accepted_def rx_left_def flip: Nil.hyps)
next
  case (Cons m q)
  from rd_nonempty[OF Cons.prems Cons.hyps(2)[symmetric]] obtain w1 where
    rd: "gtc_ploam_rd hw ctx w =
      (if onu_id_filter (assigned_onu_id ctx) (words_msg m) then Some (words_msg m) else None, w1)"
    and w1: "fifo w1 = q" by blast
  show ?case
  proof (cases "onu_id_filter (assigned_onu_id ctx) (words_msg m)")
    case True
    have c: "gtc_base (ploam_ring_push (words_msg m) ctx) = base"
      "assigned_onu_id (ploam_ring_push (words_msg m) ctx) = assigned_onu_id ctx"
      using Cons.prems by (simp_all add: ploam_ring_push_def)
    from Cons.hyps(1)[OF w1[symmetric] c(1)] rd True c(2) w1 show ?thesis
      by (subst ploam_rx_loop.simps) (simp add: rx_accepted_def rx_left_def flip: Cons.hyps(2))
  next
    case False
    with rd w1 show ?thesis
      by (subst ploam_rx_loop.simps) (simp add: rx_accepted_def rx_left_def flip: Cons.hyps(2))
  qed
qed

end

text \<open>An observable of the world that the accesses to the GTC registers leave alone.\<close>

locale gtc_quiet =
  fixes hw :: "'w mmio" and base :: u32 and env :: "'w \<Rightarrow> 'w \<Rightarrow> bool" and obs :: "'w \<Rightarrow> bool"
  assumes read_obs: "r < 0x1000 \<Longrightarrow> obs (snd (ioread32be hw (base + r) w)) = obs w"
    and write_obs: "r < 0x1000 \<Longrightarrow> obs (iowrite32be hw v (base + r) w) = obs w"
    and env_obs: "env w w' \<Longrightarrow> obs w' = obs w"
begin

lemma gtc_read_obs: "gtc_base ctx = base \<Longrightarrow> r < 0x1000 \<Longrightarrow> obs (snd (gtc_read hw ctx r w)) = obs w"
  by (simp add: gtc_read_def read_obs)

lemma gtc_write_obs: "gtc_base ctx = base \<Longrightarrow> r < 0x1000 \<Longrightarrow> obs (gtc_write hw ctx v r w) = obs w"
  by (simp add: gtc_write_def write_obs)

lemma send_obs: "gtc_base ctx = base \<Longrightarrow> obs (gtc_ploam_send hw ctx m w) = obs w"
  by (simp add: gtc_ploam_send_def ploam_words_def Let_def gtc_write_obs)

lemma rd_obs: "gtc_base ctx = base \<Longrightarrow> obs (snd (gtc_ploam_rd hw ctx w)) = obs w"
  by (simp add: gtc_ploam_rd_def Let_def case_prod_beta gtc_read_obs)

lemma rx_loop_obs:
  assumes "ploam_rx_loop hw' s = Some s'"
  shows "hw' = hw \<Longrightarrow> gtc_base (fst s) = base \<Longrightarrow> obs (snd s') = obs (snd s)"
  using assms
proof (induction hw' s s' rule: ploam_rx_loop.raw_induct[rotated, consumes 1, case_names step])
  case (step rec hw' s s')
  obtain r w1 where rd: "gtc_ploam_rd hw' (fst s) (snd s) = (r, w1)" by fastforce
  then have "obs w1 = obs (snd s)" using rd_obs[of "fst s" "snd s"] step.prems by simp
  then show ?case using step rd by (cases r) (auto simp: ploam_ring_push_def)
qed

end

section \<open>Frames\<close>

text \<open>The context after a transition does not depend on the hardware or the callbacks.\<close>

lemma transition_ctx:
  "fst (ploam_state_transition hw n (ctx, w)) =
    (if state ctx = n then ctx
     else ctx\<lparr>state := n,
       assigned_onu_id := (if n = PLOAM_STATE_O1_INITIAL_RUN \<or> n = PLOAM_STATE_O2_STANDBY then 0
                           else assigned_onu_id ctx),
       to1_timer := (if n = PLOAM_STATE_O3_SERIAL_NUM then schedule_delayed_work 10000 (to1_timer ctx)
                     else if n = PLOAM_STATE_O4_RANGING \<or> n = PLOAM_STATE_O5_OPERATION then None
                     else to1_timer ctx),
       to2_timer := (if n = PLOAM_STATE_O6_POPUP then schedule_delayed_work 100 (to2_timer ctx)
                     else if n = PLOAM_STATE_O5_OPERATION then None
                     else to2_timer ctx)\<rparr>)"
  by (cases n) (simp_all add: ploam_state_transition_def Let_def cancel_delayed_work_def)

lemma schedule_pending [simp]:
  "\<exists>t. schedule_delayed_work d p = Some t" "schedule_delayed_work d p = None \<longleftrightarrow> False"
  by (simp_all add: schedule_delayed_work_def split: option.split)

lemma transition_frame [frame_simps]: "ploam_frame (fst (ploam_state_transition hw n s)) = ploam_frame (fst s)"
  by (cases s) (simp add: transition_ctx ploam_frame_def)

lemma transition_state [simp]: "state (fst (ploam_state_transition hw n s)) = n"
  by (cases s) (simp add: transition_ctx)

lemma handle_ctx:
  "fst (ploam_handle_msg hw m (ctx, w)) =
    (case msg_event (serial_number ctx) m of
       Overhead \<Rightarrow> (let ctx = ctx\<lparr>overhead := (overhead ctx)\<lparr>preamble_len := payload m ! 0,
                      delimiter_len := payload m ! 1, power_level_mode := payload m ! 8\<rparr>\<rparr>
                  in if state ctx = PLOAM_STATE_O1_INITIAL_RUN \<or> state ctx = PLOAM_STATE_O2_STANDBY
                     then fst (ploam_state_transition hw PLOAM_STATE_O3_SERIAL_NUM (ctx, w)) else ctx)
     | Assign_Own \<Rightarrow> fst (ploam_state_transition hw PLOAM_STATE_O4_RANGING (ctx\<lparr>assigned_onu_id := payload m ! 8\<rparr>, w))
     | Ranging \<Rightarrow> (if state ctx = PLOAM_STATE_O4_RANGING \<or> state ctx = PLOAM_STATE_O5_OPERATION
                 then fst (ploam_state_transition hw PLOAM_STATE_O5_OPERATION (ctx\<lparr>eqd :=
                   be32 (payload m ! 0) (payload m ! 1) (payload m ! 2) (payload m ! 3)\<rparr>, w)) else ctx)
     | Deactivate \<Rightarrow> fst (ploam_state_transition hw PLOAM_STATE_O2_STANDBY (ctx, w))
     | Disable \<Rightarrow> fst (ploam_state_transition hw PLOAM_STATE_O7_EMERGENCY (ctx, w))
     | _ \<Rightarrow> ctx)"
  unfolding ploam_handle_msg_def msg_event_def on_upstream_overhead_def on_assign_onu_id_def on_ranging_time_def
  by (simp add: Let_def case_prod_beta transition_ctx)

lemma handle_frame [frame_simps]: "ploam_frame (fst (ploam_handle_msg hw m s)) = ploam_frame (fst s)"
  by (cases s) (simp add: handle_ctx frame_simps Let_def split: line_event.split, simp add: ploam_frame_def)

lemma frame_ring:
  assumes "ploam_frame c = ploam_frame c'"
  shows "ploam_ring_inv c = ploam_ring_inv c'" "ploam_ring_list c = ploam_ring_list c'"
    "serial_number c = serial_number c'" "password c = password c'" "rx_tail c = rx_tail c'" "rx_head c = rx_head c'"
  using assms by (simp_all add: ploam_frame_def ploam_ring_inv_def ploam_ring_list_def)

section \<open>Message packing\<close>

lemma ploam_of_words_words:
  assumes "length (payload m) = 9"
  shows "(case ploam_words m of (a, b, c) \<Rightarrow> ploam_of_words a b c) = m"
proof -
  from assms obtain p0 p1 p2 p3 p4 p5 p6 p7 p8 where "payload m = [p0, p1, p2, p3, p4, p5, p6, p7, p8]"
    by (auto simp: length_Suc_conv eval_nat_numeral)
  then show ?thesis by (cases m) (simp add: ploam_words_def ploam_of_words_def)
qed

lemma ploam_words_of_words: "ploam_words (ploam_of_words a b c) = (a, b, c)"
  by (simp add: ploam_words_def ploam_of_words_def)

section \<open>The receive ring\<close>

lemma ring_index_next: "x < 64 \<Longrightarrow> unat ((x + 1) AND 0x3F :: u8) = Suc (unat x) mod 64"
proof -
  assume "x < 64"
  then have lt: "unat x < 64" by (simp add: word_less_nat_alt)
  have "(0x3F :: u8) = mask 6" by (simp add: mask_eq_exp_minus_1)
  then have "unat ((x + 1) AND 0x3F) = unat (x + 1) mod 64"
    using unat_and_mask[of "x + 1" 6] by simp
  also have "unat (x + 1) = Suc (unat x)" using lt by (simp add: unat_word_ariths)
  finally show ?thesis .
qed

lemma ring_index_bound: "((x :: u8) AND 0x3F) < 64"
proof -
  have "x AND 0x3F \<le> 0x3F" by (rule word_and_le1)
  then show ?thesis by (rule order.strict_trans1) simp
qed

lemma ring_inv_unat:
  "ploam_ring_inv ctx \<Longrightarrow> unat (rx_head ctx) < 64 \<and> unat (rx_tail ctx) < 64 \<and> length (rx_queue ctx) = 64"
  by (simp add: ploam_ring_inv_def word_less_nat_alt)

lemma ring_push_inv: "ploam_ring_inv ctx \<Longrightarrow> ploam_ring_inv (ploam_ring_push m ctx)"
  by (simp add: ploam_ring_inv_def ploam_ring_push_def ring_index_bound)

lemma ring_push_list:
  assumes "ploam_ring_inv ctx" "length (ploam_ring_list ctx) < 63"
  shows "ploam_ring_list (ploam_ring_push m ctx) = ploam_ring_list ctx @ [m]"
  using assms ring_inv_unat[OF assms(1)]
  by (simp add: ploam_ring_list_def ploam_ring_push_def ploam_ring_inv_def ring_index_next ring_push)

lemma ring_pop_Some:
  assumes "ploam_ring_inv ctx" "ploam_ring_pop ctx = Some (m, ctx')"
  shows "ploam_ring_list ctx = m # ploam_ring_list ctx' \<and> ploam_ring_inv ctx'"
  using assms ring_inv_unat[OF assms(1)]
  by (auto simp: ploam_ring_pop_def ploam_ring_list_def ploam_ring_inv_def ring_index_next ring_index_bound
      intro!: ring_pop dest: word_unat_eq_iff[THEN iffD2] split: if_splits)

lemma ring_pop_None: "ploam_ring_inv ctx \<Longrightarrow> ploam_ring_pop ctx = None \<longleftrightarrow> ploam_ring_list ctx = []"
  using ring_inv_unat[of ctx] by (auto simp: ploam_ring_pop_def ploam_ring_list_def ring_elems_empty dest: word_unat_eq_iff[THEN iffD2])

lemma ring_list_bound: "length (ploam_ring_list ctx) \<le> 63"
  using ring_len_less[of 64 "unat (rx_head ctx)" "unat (rx_tail ctx)"] by (simp add: ploam_ring_list_def)

interpretation ploam_ring: bounded_fifo ploam_ring_inv ploam_ring_list ploam_ring_push ploam_ring_pop 63 "\<lambda>_. True"
  by unfold_locales (auto simp: ring_push_inv ring_push_list ring_pop_None ring_list_bound dest: ring_pop_Some)

text \<open>At 63 waiting messages the next push makes the ring look empty.\<close>

lemma ring_push_full:
  assumes "ploam_ring_inv ctx" "length (ploam_ring_list ctx) = 63"
  shows "ploam_ring_list (ploam_ring_push m ctx) = []"
  using assms ring_inv_unat[OF assms(1)] ring_full_push_empty[of "unat (rx_head ctx)" 64 "unat (rx_tail ctx)"]
  by (simp add: ploam_ring_list_def ploam_ring_push_def ploam_ring_inv_def ring_index_next ring_elems_empty)

section \<open>The worker\<close>

text \<open>Handling a message commutes with moving the read index.\<close>

lemma transition_rx_tail:
  "ploam_state_transition hw n (ctx\<lparr>rx_tail := t\<rparr>, w) =
    apfst (rx_tail_update (\<lambda>_. t)) (ploam_state_transition hw n (ctx, w))"
  by (cases n) (simp_all add: ploam_state_transition_def Let_def gtc_write_def)

lemma send_rx_tail:
  "gtc_ploam_send hw (ctx\<lparr>rx_tail := t\<rparr>) = gtc_ploam_send hw ctx"
  by (simp add: fun_eq_iff gtc_ploam_send_def gtc_write_def)

lemma handle_rx_tail:
  "ploam_handle_msg hw m (ctx\<lparr>rx_tail := t\<rparr>, w) = apfst (rx_tail_update (\<lambda>_. t)) (ploam_handle_msg hw m (ctx, w))"
proof -
  have u: "ctx\<lparr>rx_tail := t, overhead := v\<rparr> = ctx\<lparr>overhead := v, rx_tail := t\<rparr>"
    "ctx\<lparr>rx_tail := t, assigned_onu_id := i\<rparr> = ctx\<lparr>assigned_onu_id := i, rx_tail := t\<rparr>"
    "ctx\<lparr>rx_tail := t, eqd := e\<rparr> = ctx\<lparr>eqd := e, rx_tail := t\<rparr>" for v i e
    by simp_all
  show ?thesis
    unfolding ploam_handle_msg_def on_upstream_overhead_def on_assign_onu_id_def on_ranging_time_def
      send_ack_def send_serial_number_onu_def send_password_def gtc_write_def gtc_read_def
    by (simp add: Let_def case_prod_beta u transition_rx_tail send_rx_tail)
qed

lemma fold_handle_rx_tail:
  "fold (ploam_handle_msg hw) ms (ctx\<lparr>rx_tail := t\<rparr>, w) =
    apfst (rx_tail_update (\<lambda>_. t)) (fold (ploam_handle_msg hw) ms (ctx, w))"
proof (induction ms arbitrary: ctx w)
  case (Cons m ms)
  obtain c' w' where "ploam_handle_msg hw m (ctx, w) = (c', w')" by (cases "ploam_handle_msg hw m (ctx, w)")
  with Cons.IH[of c' w'] show ?case by (simp add: handle_rx_tail)
qed simp

lemma worker_fold:
  "ploam_ring_inv ctx \<Longrightarrow> falcon_ploam_fsm_worker hw (ctx, w) =
    Some (fold (ploam_handle_msg hw) (ploam_ring_list ctx) (ctx\<lparr>rx_tail := rx_head ctx\<rparr>, w))"
proof (induction "ploam_ring_list ctx" arbitrary: ctx w)
  case Nil
  then have "ploam_ring_pop ctx = None" by (simp add: ring_pop_None)
  then have "rx_head ctx = rx_tail ctx" by (simp add: ploam_ring_pop_def split: if_splits)
  with Nil show ?case
    by (subst falcon_ploam_fsm_worker.simps) (simp add: fsm_worker_iter_def ploam_ring_pop_def)
next
  case (Cons m ms)
  obtain c1 where pop: "ploam_ring_pop ctx = Some (m, c1)" and l1: "ploam_ring_list c1 = ms" and i1: "ploam_ring_inv c1"
    using ploam_ring.pop_nonempty[OF Cons.prems Cons.hyps(2)[symmetric]] by blast
  obtain c2 w2 where h: "ploam_handle_msg hw m (c1, w) = (c2, w2)" by (cases "ploam_handle_msg hw m (c1, w)")
  have fr: "ploam_frame c2 = ploam_frame c1" using handle_frame[of hw m "(c1, w)"] h by simp
  have head: "rx_head c1 = rx_head ctx" "c1\<lparr>rx_tail := rx_head ctx\<rparr> = ctx\<lparr>rx_tail := rx_head ctx\<rparr>"
    using pop by (auto simp: ploam_ring_pop_def split: if_splits)
  have "falcon_ploam_fsm_worker hw (ctx, w) = falcon_ploam_fsm_worker hw (c2, w2)"
    by (subst falcon_ploam_fsm_worker.simps) (simp add: fsm_worker_iter_def pop h)
  also have "\<dots> = Some (fold (ploam_handle_msg hw) ms (c2\<lparr>rx_tail := rx_head c2\<rparr>, w2))"
    using Cons.hyps(1)[of c2 w2] i1 l1 frame_ring[OF fr] by simp
  also have "(c2\<lparr>rx_tail := rx_head c2\<rparr>, w2) = ploam_handle_msg hw m (c1\<lparr>rx_tail := rx_head ctx\<rparr>, w)"
    unfolding handle_rx_tail h using frame_ring(6)[OF fr] head(1) by simp
  finally show ?case using Cons.hyps(2) head by (simp flip: Cons.hyps(2))
qed

section \<open>Invariants of every step\<close>

lemma transition_act_inv:
  assumes "ploam_act_inv (fst s)"
    and "n = PLOAM_STATE_O3_SERIAL_NUM \<Longrightarrow> assigned_onu_id (fst s) = 0"
  shows "ploam_act_inv (fst (ploam_state_transition hw n s))"
  using assms by (cases s; cases n) (simp_all add: ploam_act_inv_def transition_ctx)

lemma assign_act_inv:
  "ploam_act_inv ctx \<Longrightarrow>
    ploam_act_inv (fst (ploam_state_transition hw PLOAM_STATE_O4_RANGING (ctx\<lparr>assigned_onu_id := i\<rparr>, w)))"
  by (simp add: ploam_act_inv_def transition_ctx)

lemma handle_act_inv:
  assumes "ploam_act_inv (fst s)"
  shows "ploam_act_inv (fst (ploam_handle_msg hw m s))"
proof (cases s)
  case (Pair ctx w)
  have "ploam_act_inv (ctx\<lparr>overhead := v, eqd := e\<rparr>) = ploam_act_inv ctx" for v e
    by (simp add: ploam_act_inv_def)
  moreover have "ploam_act_inv (ctx\<lparr>overhead := v\<rparr>) = ploam_act_inv ctx" "ploam_act_inv (ctx\<lparr>eqd := e\<rparr>) = ploam_act_inv ctx"
    for v e by (simp_all add: ploam_act_inv_def)
  ultimately show ?thesis
    using assms unfolding Pair handle_ctx
    by (auto simp: Let_def assign_act_inv intro!: transition_act_inv split: line_event.split)
      (auto simp: ploam_act_inv_def)
qed

lemma inv_frame:
  assumes "ploam_frame c = ploam_frame c'" "ploam_inv c'" "ploam_act_inv c"
  shows "ploam_inv c"
  using assms(2,3) frame_ring[OF assms(1)] by (simp add: ploam_inv_def)

lemma inv_act: "ploam_inv c \<Longrightarrow> ploam_act_inv c"
  by (simp add: ploam_inv_def)

lemma transition_inv:
  "ploam_inv (fst s) \<Longrightarrow> n \<noteq> PLOAM_STATE_O3_SERIAL_NUM \<Longrightarrow> ploam_inv (fst (ploam_state_transition hw n s))"
  by (rule inv_frame[OF transition_frame]) (auto intro: transition_act_inv inv_act)

lemma handle_inv: "ploam_inv (fst s) \<Longrightarrow> ploam_inv (fst (ploam_handle_msg hw m s))"
  by (rule inv_frame[OF handle_frame]) (auto intro: handle_act_inv inv_act)

lemma ring_push_ploam_inv: "ploam_inv ctx \<Longrightarrow> ploam_inv (ploam_ring_push m ctx)"
  using ring_push_inv[of ctx m] by (simp add: ploam_inv_def ploam_act_inv_def ploam_ring_push_def)

lemma ring_pop_ploam_inv:
  assumes "ploam_inv ctx" "ploam_ring_pop ctx = Some (m, c')"
  shows "ploam_inv c'"
proof -
  from assms(2) have c': "c' = ctx\<lparr>rx_tail := (rx_tail ctx + 1) AND 0x3F\<rparr>"
    by (simp add: ploam_ring_pop_def split: if_splits)
  from assms(1) show ?thesis
    unfolding c' by (simp add: ploam_inv_def ploam_act_inv_def ploam_ring_inv_def ring_index_bound)
qed

lemma worker_iter_inv: "ploam_inv (fst s) \<Longrightarrow> fsm_worker_iter hw s = Some s' \<Longrightarrow> ploam_inv (fst s')"
  by (auto simp: fsm_worker_iter_def handle_inv split: prod.splits option.splits dest: ring_pop_ploam_inv)

text \<open>What the receive loop does to the context: it pushes messages and nothing else.\<close>

lemma rx_loop_pushes:
  assumes "ploam_rx_loop hw s = Some s'"
  shows "\<exists>ms. fst s' = fold ploam_ring_push ms (fst s)"
  using assms
proof (induction hw s s' rule: ploam_rx_loop.raw_induct[rotated, consumes 1, case_names step])
  case (step rec hw s s')
  show ?case
  proof (cases "gtc_ploam_rd hw (fst s) (snd s)")
    case (Pair r w)
    show ?thesis
    proof (cases r)
      case None
      with step Pair show ?thesis by (auto intro: exI[of _ "[]"])
    next
      case (Some m)
      with step.hyps Pair have "rec hw (ploam_ring_push m (fst s), w) = Some s'" by simp
      from step.IH[OF this] obtain ms where "fst s' = fold ploam_ring_push ms (ploam_ring_push m (fst s))"
        by auto
      then show ?thesis by (intro exI[of _ "m # ms"]) simp
    qed
  qed
qed

lemma fold_push_inv: "ploam_inv c \<Longrightarrow> ploam_inv (fold ploam_ring_push ms c)"
  by (induction ms arbitrary: c) (auto simp: ring_push_ploam_inv)

lemma rx_irq_inv: "ploam_inv (fst s) \<Longrightarrow> falcon_ploam_rx_irq_handler hw s = Some s' \<Longrightarrow> ploam_inv (fst s')"
proof -
  assume inv: "ploam_inv (fst s)" and rx: "falcon_ploam_rx_irq_handler hw s = Some s'"
  then obtain c w where "ploam_rx_loop hw s = Some (c, w)" and s': "s' = (c\<lparr>fsm_work := True\<rparr>, w)"
    by (auto simp: falcon_ploam_rx_irq_handler_def split: option.splits)
  with inv have "ploam_inv c" using rx_loop_pushes[of hw s "(c, w)"] by (auto simp: fold_push_inv)
  then show ?thesis by (simp add: s' ploam_inv_def ploam_ring_inv_def ploam_act_inv_def)
qed

lemma timer_inv:
  "ploam_inv ctx \<Longrightarrow> ploam_inv (fst (to1_timer_fn hw (ctx\<lparr>to1_timer := None\<rparr>, w)))"
  "ploam_inv ctx \<Longrightarrow> ploam_inv (fst (to2_timer_fn hw (ctx\<lparr>to2_timer := None\<rparr>, w)))"
  by (cases "state ctx"; simp add: to1_timer_fn_def to2_timer_fn_def transition_ctx ploam_inv_def ploam_ring_inv_def
      ploam_act_inv_def)+

lemma step_inv: "ploam_step hw env s s' \<Longrightarrow> ploam_inv (fst s) \<Longrightarrow> ploam_inv (fst s')"
proof (induction rule: ploam_step.induct)
  case (step_rx s s')
  then show ?case by (simp add: rx_irq_inv)
next
  case (step_work_start ctx w)
  then show ?case by (simp add: ploam_inv_def ploam_ring_inv_def ploam_act_inv_def)
next
  case (step_work s s')
  then show ?case by (simp add: worker_iter_inv)
qed (simp_all add: falcon_ploam_event_los_def falcon_ploam_event_lof_def timer_inv transition_inv)

lemma init_inv: "ploam_inv (falcon_ploam_init base sn pwd)"
  by (simp add: ploam_inv_def ploam_ring_inv_def ploam_act_inv_def falcon_ploam_init_def split: option.split)

lemma reachable_inv: "(ploam_step hw env)\<^sup>*\<^sup>* s s' \<Longrightarrow> ploam_inv (fst s) \<Longrightarrow> ploam_inv (fst s')"
  by (induction rule: rtranclp_induct) (auto intro: step_inv)

section \<open>Outputs of the state machine\<close>

interpretation gtc_dev: gtc_ds_fifo "gtc_dev_hw base" base ds_fifo
proof
  show "(v AND 0x01 = 0 \<longleftrightarrow> ds_fifo w = []) \<and> ds_fifo w' = ds_fifo w"
    if "ioread32be (gtc_dev_hw base) (base + GTC_PLOAM_DS_CTRL) w = (v, w')" for w v w'
    using that by (auto simp: gtc_dev_hw_def split: if_splits)
  show "\<exists>wa wb wc. ioread32be (gtc_dev_hw base) (base + GTC_PLOAM_DS_DATA0) w = (a, wa) \<and>
      ioread32be (gtc_dev_hw base) (base + GTC_PLOAM_DS_DATA1) wa = (b, wb) \<and>
      ioread32be (gtc_dev_hw base) (base + GTC_PLOAM_DS_DATA2) wb = (c, wc) \<and> ds_fifo wc = q"
    if "ds_fifo w = (a, b, c) # q" for w a b c q
    using that by (simp add: gtc_dev_hw_def)
qed

text \<open>
  An output of the state machine that every transition sets, clears or leaves alone depending on
  the state entered, observable in a world whose callbacks are wired to the context.
\<close>

locale ploam_output = gtc_quiet hw base env obs
  for hw :: "'w mmio" and base :: u32 and env :: "'w \<Rightarrow> 'w \<Rightarrow> bool" and obs :: "'w \<Rightarrow> bool" +
  fixes wired :: "'w falcon_ploam_ctx \<Rightarrow> bool"
    and entry :: "gpon_ploam_state \<Rightarrow> bool option"
    and allowed :: "gpon_ploam_state set"
  assumes wired_base: "wired ctx \<Longrightarrow> gtc_base ctx = base"
    and wired_frame: "wired ctx \<Longrightarrow> gtc_base ctx' = gtc_base ctx \<Longrightarrow>
      laser_set_enable ctx' = laser_set_enable ctx \<Longrightarrow> carrier_set ctx' = carrier_set ctx \<Longrightarrow>
      state_change_cb ctx' = state_change_cb ctx \<Longrightarrow> wired ctx'"
    and entry_obs: "wired ctx \<Longrightarrow> state ctx \<noteq> n \<Longrightarrow>
      obs (snd (ploam_state_transition hw n (ctx, w))) = (case entry n of None \<Rightarrow> obs w | Some b \<Rightarrow> b)"
    and entry_allowed: "entry n = Some True \<Longrightarrow> n \<in> allowed"
    and edge_allowed: "old \<in> allowed \<Longrightarrow> entry (activation old ev) = None \<Longrightarrow> activation old ev \<in> allowed"
begin

definition output_inv :: "'w ploam_conf \<Rightarrow> bool" where
  "output_inv s \<longleftrightarrow> wired (fst s) \<and> (obs (snd s) \<longrightarrow> state (fst s) \<in> allowed)"

lemma wired_upd:
  "wired ctx \<Longrightarrow> ploam_frame ctx' = ploam_frame ctx \<Longrightarrow> wired ctx'"
  by (rule wired_frame) (simp_all add: ploam_frame_def)

lemma wired_ring:
  "wired ctx \<Longrightarrow> ploam_ring_pop ctx = Some (m, ctx') \<Longrightarrow> wired ctx'"
  "wired ctx \<Longrightarrow> wired (ploam_ring_push m ctx)"
  by (rule wired_frame[of ctx]; auto simp: ploam_ring_pop_def ploam_ring_push_def split: if_splits)+

lemma transition_output:
  assumes "wired (fst s)" "obs (snd s) \<Longrightarrow> state (fst s) \<in> allowed" "n = activation (state (fst s)) ev"
  shows "output_inv (ploam_state_transition hw n s)"
proof (cases s)
  case (Pair ctx w)
  have "wired (fst (ploam_state_transition hw n s))"
    using assms(1) transition_frame by (rule wired_upd)
  moreover have "n \<in> allowed" if "obs (snd (ploam_state_transition hw n s))" "state ctx \<noteq> n"
    using that entry_obs[of ctx n w] assms entry_allowed[of n] edge_allowed[of "state ctx" ev] Pair
    by (auto split: option.splits)
  moreover have "ploam_state_transition hw n s = s" if "state ctx = n"
    using that Pair by (simp add: ploam_state_transition_def)
  ultimately show ?thesis
    using assms(2) Pair by (cases "state ctx = n") (auto simp: output_inv_def)
qed

lemma output_send:
  "wired ctx \<Longrightarrow> output_inv (ctx, gtc_ploam_send hw ctx m w) \<longleftrightarrow> output_inv (ctx, w)"
  by (simp add: output_inv_def send_obs wired_base)

lemma overhead_output:
  assumes "output_inv s"
  shows "output_inv (on_upstream_overhead hw m s)"
proof (cases s)
  case (Pair ctx w)
  let ?c = "ctx\<lparr>overhead := (overhead ctx)\<lparr>preamble_len := payload m ! 0, delimiter_len := payload m ! 1,
    power_level_mode := payload m ! 8\<rparr>\<rparr>"
  have w: "wired ?c" using assms Pair by - (rule wired_upd[of ctx], auto simp: output_inv_def ploam_frame_def)
  have inv: "output_inv (?c, w)" using assms Pair w by (simp add: output_inv_def)
  show ?thesis
  proof (cases "state ctx = PLOAM_STATE_O1_INITIAL_RUN \<or> state ctx = PLOAM_STATE_O2_STANDBY")
    case True
    have "output_inv (ploam_state_transition hw PLOAM_STATE_O3_SERIAL_NUM (?c, w))"
      using inv True by (intro transition_output[where ev = Overhead]) (auto simp: output_inv_def)
    moreover from this have "wired (fst (ploam_state_transition hw PLOAM_STATE_O3_SERIAL_NUM (?c, w)))"
      by (simp add: output_inv_def)
    ultimately show ?thesis
      using True unfolding Pair on_upstream_overhead_def
      by (simp add: Let_def case_prod_beta output_send send_serial_number_onu_def)
  qed (use inv Pair in \<open>simp add: on_upstream_overhead_def Let_def\<close>)
qed

lemma assign_output:
  assumes "output_inv s"
  shows "output_inv (on_assign_onu_id hw m s)"
proof (cases s)
  case (Pair ctx w)
  let ?c = "ctx\<lparr>assigned_onu_id := payload m ! 8\<rparr>"
  have w: "wired ?c" using assms Pair by - (rule wired_upd[of ctx], auto simp: output_inv_def ploam_frame_def)
  then have "gtc_base ?c = base" by (rule wired_base)
  moreover have "output_inv (ploam_state_transition hw PLOAM_STATE_O4_RANGING (?c, w'))" if "obs w' = obs w" for w'
    using assms w Pair that by (intro transition_output[where ev = Assign_Own]) (auto simp: output_inv_def)
  ultimately show ?thesis
    using assms unfolding Pair on_assign_onu_id_def by (simp add: Let_def send_ack_def send_obs gtc_write_obs)
qed

lemma ranging_output:
  assumes "output_inv s"
  shows "output_inv (on_ranging_time hw m s)"
proof (cases s)
  case (Pair ctx w)
  let ?c = "ctx\<lparr>eqd := be32 (payload m ! 0) (payload m ! 1) (payload m ! 2) (payload m ! 3)\<rparr>"
  have w: "wired ?c" using assms Pair by - (rule wired_upd[of ctx], auto simp: output_inv_def ploam_frame_def)
  then have "gtc_base ?c = base" by (rule wired_base)
  moreover have "output_inv (ploam_state_transition hw PLOAM_STATE_O5_OPERATION (?c, w'))"
    if "obs w' = obs w" "state ctx = PLOAM_STATE_O4_RANGING \<or> state ctx = PLOAM_STATE_O5_OPERATION" for w'
    using assms w Pair that by (intro transition_output[where ev = Ranging]) (auto simp: output_inv_def)
  ultimately show ?thesis
    using assms unfolding Pair on_ranging_time_def
    by (simp add: Let_def case_prod_beta send_ack_def send_obs gtc_write_obs gtc_read_obs)
qed

lemma transition_output':
  "output_inv s \<Longrightarrow> n = activation (state (fst s)) ev \<Longrightarrow> output_inv (ploam_state_transition hw n s)"
  by (rule transition_output) (auto simp: output_inv_def)

lemma handle_output:
  assumes "output_inv s"
  shows "output_inv (ploam_handle_msg hw m s)"
proof -
  have "wired (fst s)" using assms by (simp add: output_inv_def)
  with assms show ?thesis
    unfolding ploam_handle_msg_def
    by (simp add: overhead_output assign_output ranging_output output_send send_password_def
        transition_output'[where ev = Deactivate] transition_output'[where ev = Disable])
qed

lemma step_output: "ploam_step hw env s s' \<Longrightarrow> output_inv s \<Longrightarrow> output_inv s'"
proof (induction rule: ploam_step.induct)
  case (step_rx s s')
  then obtain c w where l: "ploam_rx_loop hw s = Some (c, w)" and s': "s' = (c\<lparr>fsm_work := True\<rparr>, w)"
    by (auto simp: falcon_ploam_rx_irq_handler_def split: option.splits)
  obtain ms where c: "c = fold ploam_ring_push ms (fst s)" using rx_loop_pushes[OF l] by auto
  have f: "wired d \<Longrightarrow> wired (fold ploam_ring_push ms d) \<and> state (fold ploam_ring_push ms d) = state d" for d
    by (induction ms arbitrary: d) (auto simp: wired_ring(2), simp add: ploam_ring_push_def)
  have "wired (c\<lparr>fsm_work := True\<rparr>)"
    using f[of "fst s"] step_rx c by - (rule wired_frame[of c], auto simp: output_inv_def)
  with rx_loop_obs[OF l] step_rx f[of "fst s"] c show ?case by (simp add: s' output_inv_def wired_base)
next
  case (step_work_start ctx w)
  then show ?case using wired_frame[of ctx "ctx\<lparr>fsm_work := False\<rparr>"] by (simp add: output_inv_def)
next
  case (step_work s s')
  then obtain ctx w m c where "s = (ctx, w)" and pop: "ploam_ring_pop ctx = Some (m, c)"
    and s': "s' = ploam_handle_msg hw m (c, w)"
    by (auto simp: fsm_worker_iter_def split: prod.splits option.splits)
  moreover have "state c = state ctx" using pop by (auto simp: ploam_ring_pop_def split: if_splits)
  ultimately have "output_inv (c, w)" using step_work.prems wired_ring(1)[OF _ pop] by (simp add: output_inv_def)
  then show ?case unfolding s' by (rule handle_output)
next
  case (step_to1 ctx d w)
  then show ?case unfolding to1_timer_fn_def
    using wired_frame[of ctx "ctx\<lparr>to1_timer := None\<rparr>"]
    by (intro transition_output'[where ev = TO1_Expired]) (simp_all add: output_inv_def)
next
  case (step_to2 ctx d w)
  then show ?case unfolding to2_timer_fn_def
    using wired_frame[of ctx "ctx\<lparr>to2_timer := None\<rparr>"]
    by (intro transition_output'[where ev = TO2_Expired]) (simp_all add: output_inv_def)
next
  case (step_world w w' ctx)
  then show ?case by (simp add: output_inv_def env_obs)
qed (simp_all add: falcon_ploam_event_los_def falcon_ploam_event_lof_def transition_output'[where ev = LOS_Up]
      transition_output'[where ev = LOF_Up] transition_output'[where ev = LOF_Clear])

lemma reachable_output: "(ploam_step hw env)\<^sup>*\<^sup>* s s' \<Longrightarrow> output_inv s \<Longrightarrow> output_inv s'"
  by (induction rule: rtranclp_induct) (auto intro: step_output)

end

text \<open>A laser switched by the laser callback, and a carrier switched by the carrier callback.\<close>

locale laser_line = gtc_quiet hw base env laser_on
  for hw :: "'w mmio" and base :: u32 and env :: "'w \<Rightarrow> 'w \<Rightarrow> bool" and laser_on :: "'w \<Rightarrow> bool" +
  fixes laser_cb :: "bool \<Rightarrow> 'w \<Rightarrow> 'w" and carrier_cb :: "(bool \<Rightarrow> 'w \<Rightarrow> 'w) option"
    and state_cb :: "(gpon_ploam_state \<times> gpon_ploam_state \<Rightarrow> 'w \<Rightarrow> 'w) option"
  assumes laser_sets: "laser_on (laser_cb b w) = b"
    and carrier_keeps: "laser_on (call_cb carrier_cb b w) = laser_on w"
    and state_keeps: "laser_on (call_cb state_cb x w) = laser_on w"

sublocale laser_line < laser: ploam_output hw base env laser_on
  "wired_to base (Some laser_cb) carrier_cb state_cb" laser_entry
  "{PLOAM_STATE_O3_SERIAL_NUM, PLOAM_STATE_O4_RANGING, PLOAM_STATE_O5_OPERATION}"
proof
  show "laser_on (snd (ploam_state_transition hw n (ctx, w))) =
      (case laser_entry n of None \<Rightarrow> laser_on w | Some b \<Rightarrow> b)"
    if "wired_to base (Some laser_cb) carrier_cb state_cb ctx" "state ctx \<noteq> n" for ctx n w
    using that by (cases n)
      (auto simp: ploam_state_transition_def Let_def wired_to_def gtc_write_obs carrier_keeps state_keeps laser_sets)
  show "n \<in> {PLOAM_STATE_O3_SERIAL_NUM, PLOAM_STATE_O4_RANGING, PLOAM_STATE_O5_OPERATION}"
    if "laser_entry n = Some True" for n
    using that by (cases n) auto
  show "activation old ev \<in> {PLOAM_STATE_O3_SERIAL_NUM, PLOAM_STATE_O4_RANGING, PLOAM_STATE_O5_OPERATION}"
    if "laser_entry (activation old ev) = None" for old ev
    using that by (cases "activation old ev") auto
qed (auto simp: wired_to_def)

locale carrier_line = gtc_quiet hw base env carrier_on
  for hw :: "'w mmio" and base :: u32 and env :: "'w \<Rightarrow> 'w \<Rightarrow> bool" and carrier_on :: "'w \<Rightarrow> bool" +
  fixes laser_cb :: "(bool \<Rightarrow> 'w \<Rightarrow> 'w) option" and carrier_cb :: "bool \<Rightarrow> 'w \<Rightarrow> 'w"
    and state_cb :: "(gpon_ploam_state \<times> gpon_ploam_state \<Rightarrow> 'w \<Rightarrow> 'w) option"
  assumes carrier_sets: "carrier_on (carrier_cb b w) = b"
    and laser_keeps: "carrier_on (call_cb laser_cb b w) = carrier_on w"
    and state_keeps: "carrier_on (call_cb state_cb x w) = carrier_on w"

sublocale carrier_line < carrier: ploam_output hw base env carrier_on
  "wired_to base laser_cb (Some carrier_cb) state_cb" carrier_entry
  "{PLOAM_STATE_O4_RANGING, PLOAM_STATE_O5_OPERATION, PLOAM_STATE_O6_POPUP}"
proof
  show "carrier_on (snd (ploam_state_transition hw n (ctx, w))) =
      (case carrier_entry n of None \<Rightarrow> carrier_on w | Some b \<Rightarrow> b)"
    if "wired_to base laser_cb (Some carrier_cb) state_cb ctx" "state ctx \<noteq> n" for ctx n w
    using that by (cases n)
      (auto simp: ploam_state_transition_def Let_def wired_to_def gtc_write_obs laser_keeps state_keeps carrier_sets)
  show "n \<in> {PLOAM_STATE_O4_RANGING, PLOAM_STATE_O5_OPERATION, PLOAM_STATE_O6_POPUP}"
    if "carrier_entry n = Some True" for n
    using that by (cases n) auto
  show "activation old ev \<in> {PLOAM_STATE_O4_RANGING, PLOAM_STATE_O5_OPERATION, PLOAM_STATE_O6_POPUP}"
    if "old \<in> {PLOAM_STATE_O4_RANGING, PLOAM_STATE_O5_OPERATION, PLOAM_STATE_O6_POPUP}"
      "carrier_entry (activation old ev) = None" for old ev
    using that by (cases ev) (auto split: if_splits)
qed (auto simp: wired_to_def)

section \<open>Functional behaviour\<close>

interpretation gtc_regs: register_file "gtc_dev_hw base" dev_regs
  "- {base + GTC_PLOAM_DS_CTRL, base + GTC_PLOAM_DS_DATA0, base + GTC_PLOAM_DS_DATA1, base + GTC_PLOAM_DS_DATA2}"
  by unfold_locales (auto simp: gtc_dev_hw_def split: list.splits)

lemma msg_event_range [simp]:
  "msg_event sn m \<noteq> LOS_Up" "msg_event sn m \<noteq> LOF_Up" "msg_event sn m \<noteq> LOF_Clear"
  "msg_event sn m \<noteq> TO1_Expired" "msg_event sn m \<noteq> TO2_Expired"
  by (simp_all add: msg_event_def)

lemma handle_activation:
  "state (fst (ploam_handle_msg hw m s)) = activation (state (fst s)) (msg_event (serial_number (fst s)) m)"
  by (cases s) (simp add: handle_ctx Let_def split: line_event.split)

context register_file
begin

lemma send_regs: "reg (gtc_ploam_send hw ctx m w) = us_regs (gtc_base ctx) m (reg w)"
  by (simp add: gtc_ploam_send_def ploam_words_def us_regs_def gtc_write_def Let_def reg_simps)

lemma rd_regs: "reg (snd (gtc_ploam_rd hw ctx w)) = reg w"
  by (simp add: gtc_ploam_rd_def Let_def case_prod_beta gtc_read_def reg_simps)

lemma rx_loop_regs:
  assumes "ploam_rx_loop hw' s = Some s'"
  shows "hw' = hw \<Longrightarrow> reg (snd s') = reg (snd s)"
  using assms
proof (induction hw' s s' rule: ploam_rx_loop.raw_induct[rotated, consumes 1, case_names step])
  case (step rec hw' s s')
  obtain r w1 where rd: "gtc_ploam_rd hw' (fst s) (snd s) = (r, w1)" by fastforce
  then have "reg w1 = reg (snd s)" using rd_regs[of "fst s" "snd s"] step.prems by simp
  then show ?case using step rd by (cases r) auto
qed

lemma rx_irq_regs:
  assumes "falcon_ploam_rx_irq_handler hw s = Some s'"
  shows "reg (snd s') = reg (snd s)"
  using assms rx_loop_regs[of hw s] by (auto simp: falcon_ploam_rx_irq_handler_def split: option.splits)

lemma assign_regs:
  assumes "take 8 (payload m) = take 8 (serial_number ctx)"
    and "\<And>x w. reg (call_cb (state_change_cb ctx) x w) = reg w"
  shows "reg (snd (on_assign_onu_id hw m (ctx, w))) = us_regs (gtc_base ctx) (ack_msg (payload m ! 8) (seq_num m))
           ((reg w)(gtc_base ctx + GTC_ONU_ID_REG := ucast (payload m ! 8)))"
  using assms
  by (simp add: on_assign_onu_id_def Let_def ploam_state_transition_def send_ack_def ack_msg_def send_regs
      gtc_write_def reg_simps)

lemma ranging_regs:
  assumes "state ctx = PLOAM_STATE_O4_RANGING \<or> state ctx = PLOAM_STATE_O5_OPERATION"
    and "gtc_base ctx + GTC_DELAY_CTRL \<in> plain"
    and "\<And>x w. reg (call_cb (state_change_cb ctx) x w) = reg w"
    and "\<And>x w. reg (call_cb (carrier_set ctx) x w) = reg w"
  shows "reg (snd (on_ranging_time hw m (ctx, w))) = us_regs (gtc_base ctx) (ack_msg (assigned_onu_id ctx) (seq_num m))
           ((reg w)(gtc_base ctx + GTC_RANGED_DELAY := be32 (payload m ! 0) (payload m ! 1) (payload m ! 2) (payload m ! 3),
                    gtc_base ctx + GTC_DELAY_CTRL := reg w (gtc_base ctx + GTC_DELAY_CTRL) OR GTC_DELAY_CTRL_EN))"
  using assms
  by (auto simp: on_ranging_time_def Let_def case_prod_beta ploam_state_transition_def send_ack_def ack_msg_def
      send_regs gtc_write_def gtc_read_def reg_simps)

end

lemma start_inv: "ploam_inv (ploam_start base sn pwd l c sc)"
  using init_inv[of base sn pwd]
  by (simp add: ploam_start_def ploam_inv_def ploam_ring_inv_def ploam_act_inv_def)

lemma start_wired: "wired_to base l c sc (ploam_start base sn pwd l c sc)"
  by (simp add: ploam_start_def wired_to_def falcon_ploam_init_def)

lemma rx_irq_state:
  assumes "falcon_ploam_rx_irq_handler hw s = Some s'"
  shows "state (fst s') = state (fst s)"
proof -
  obtain c w where l: "ploam_rx_loop hw s = Some (c, w)" and s': "s' = (c\<lparr>fsm_work := True\<rparr>, w)"
    using assms by (auto simp: falcon_ploam_rx_irq_handler_def split: option.splits)
  have "state (fold ploam_ring_push ms d) = state d" for ms and d :: "'a falcon_ploam_ctx"
    by (induction ms arbitrary: d) (simp_all add: ploam_ring_push_def)
  with rx_loop_pushes[OF l] show ?thesis by (auto simp: s')
qed

text \<open>What the outputs of a run that starts with the output off are.\<close>

context laser_line
begin

lemma reachable_laser:
  assumes "(ploam_step hw env)\<^sup>*\<^sup>* (ploam_start base sn pwd (Some laser_cb) carrier_cb state_cb, w) (ctx, w')"
    and "\<not> laser_on w" "laser_on w'"
  shows "state ctx \<in> {PLOAM_STATE_O3_SERIAL_NUM, PLOAM_STATE_O4_RANGING, PLOAM_STATE_O5_OPERATION}"
  using laser.reachable_output[OF assms(1)] assms(2,3) by (simp add: laser.output_inv_def start_wired)

end

context carrier_line
begin

lemma reachable_carrier:
  assumes "(ploam_step hw env)\<^sup>*\<^sup>* (ploam_start base sn pwd laser_cb (Some carrier_cb) state_cb, w) (ctx, w')"
    and "\<not> carrier_on w" "carrier_on w'"
  shows "state ctx \<in> {PLOAM_STATE_O4_RANGING, PLOAM_STATE_O5_OPERATION, PLOAM_STATE_O6_POPUP}"
  using carrier.reachable_output[OF assms(1)] assms(2,3) by (simp add: carrier.output_inv_def start_wired)

end

section \<open>Properties\<close>

text \<open>
  C2: In every configuration reachable from initialisation by interrupts, worker iterations, line
  events and timer expiries, in any order and on any hardware, the ONU-ID is clear before ranging,
  the serial-number state has its 10 s timer running, ranging has cancelled it, operation has both
  timers cancelled and POPUP has its 100 ms timer running, and the ring indices stay in range.
\<close>

theorem ploam_reachable_safe:
  assumes "(ploam_step hw env)\<^sup>*\<^sup>* (ploam_start base sn pwd l c sc, w) (ctx, w')"
  shows "(state ctx \<in> {PLOAM_STATE_O1_INITIAL_RUN, PLOAM_STATE_O2_STANDBY, PLOAM_STATE_O3_SERIAL_NUM}
           \<longrightarrow> assigned_onu_id ctx = 0)
    \<and> (state ctx = PLOAM_STATE_O3_SERIAL_NUM \<longrightarrow> to1_timer ctx \<noteq> None)
    \<and> (state ctx = PLOAM_STATE_O4_RANGING \<longrightarrow> to1_timer ctx = None)
    \<and> (state ctx = PLOAM_STATE_O5_OPERATION \<longrightarrow> to1_timer ctx = None \<and> to2_timer ctx = None)
    \<and> (state ctx = PLOAM_STATE_O6_POPUP \<longrightarrow> to2_timer ctx \<noteq> None)
    \<and> rx_head ctx < 64 \<and> rx_tail ctx < 64 \<and> length (rx_queue ctx) = 64"
  using reachable_inv[OF assms] start_inv[of base sn pwd l c sc]
  by (simp add: ploam_inv_def ploam_act_inv_def ploam_ring_inv_def)

text \<open>A run on the reference device: the frame is found, and the machine is in standby.\<close>

lemma ploam_reachable_safe_witness:
  "rx_tail (fst (falcon_ploam_event_lof (gtc_dev_hw 0) False
      (ploam_start 0 None None None None None, \<lparr>ds_fifo = [], dev_regs = (\<lambda>_. 0)\<rparr>))) < 64"
  using ploam_reachable_safe[of "gtc_dev_hw 0" "\<lambda>_ _. False" 0 None None None None None
      "\<lparr>ds_fifo = [], dev_regs = (\<lambda>_. 0)\<rparr>"
      "fst (falcon_ploam_event_lof (gtc_dev_hw 0) False
        (ploam_start 0 None None None None None, \<lparr>ds_fifo = [], dev_regs = (\<lambda>_. 0)\<rparr>))"
      "snd (falcon_ploam_event_lof (gtc_dev_hw 0) False
        (ploam_start 0 None None None None None, \<lparr>ds_fifo = [], dev_regs = (\<lambda>_. 0)\<rparr>))",
      OF r_into_rtranclp[of "ploam_step (gtc_dev_hw 0) (\<lambda>_ _. False)"]]
  by (simp add: step_lof)

text \<open>
  C13: The worker returns for every ring in range, whatever the hardware and callbacks do, and its
  effect is to handle the waiting messages one after the other, oldest first, leaving the ring empty.
\<close>

theorem fsm_worker_returns:
  assumes "ploam_ring_inv ctx"
  shows "falcon_ploam_fsm_worker hw (ctx, w) =
    Some (fold (ploam_handle_msg hw) (ploam_ring_list ctx) (ctx\<lparr>rx_tail := rx_head ctx\<rparr>, w))"
  using assms by (rule worker_fold)

lemma fsm_worker_returns_witness:
  "falcon_ploam_fsm_worker (gtc_dev_hw 0) (falcon_ploam_init 0 None None, \<lparr>ds_fifo = [], dev_regs = (\<lambda>_. 0)\<rparr>) =
    Some (falcon_ploam_init 0 None None, \<lparr>ds_fifo = [], dev_regs = (\<lambda>_. 0)\<rparr>)"
  using fsm_worker_returns[of "falcon_ploam_init 0 None None" "gtc_dev_hw 0" "\<lparr>ds_fifo = [], dev_regs = (\<lambda>_. 0)\<rparr>"]
  by (simp add: ploam_ring_inv_def falcon_ploam_init_def ploam_ring_list_def ring_elems_def ring_len_def)

text \<open>
  C15: On a device whose downstream FIFO behaves as its registers say, the receive interrupt returns,
  queues the accepted messages behind those already waiting, in order, and schedules the worker, which
  handles exactly that list. The loop stops at the first unicast message for another ONU, which
  it removes, and leaves what is behind it in the device.
\<close>

theorem rx_irq_then_worker:
  assumes "gtc_ds_fifo hw base fifo" "gtc_base ctx = base" "ploam_ring_inv ctx"
    and "length (ploam_ring_list ctx) + length (rx_accepted (assigned_onu_id ctx) (fifo w)) \<le> 63"
  shows "\<exists>c' w'. falcon_ploam_rx_irq_handler hw (ctx, w) = Some (c', w') \<and> fsm_work c'
    \<and> ploam_ring_list c' = ploam_ring_list ctx @ rx_accepted (assigned_onu_id ctx) (fifo w)
    \<and> fifo w' = rx_left (assigned_onu_id ctx) (fifo w)
    \<and> falcon_ploam_fsm_worker hw (c', w') = Some (fold (ploam_handle_msg hw) (ploam_ring_list c')
        (c'\<lparr>rx_tail := rx_head c'\<rparr>, w'))"
proof -
  let ?ms = "rx_accepted (assigned_onu_id ctx) (fifo w)"
  have fold_push: "fold ploam_ring_push ms c = ploam_ring.push_all ms c" for ms and c :: "'a falcon_ploam_ctx"
    by (induction ms arbitrary: c) auto
  obtain w' where "ploam_rx_loop hw (ctx, w) = Some (fold ploam_ring_push ?ms ctx, w')"
    and "fifo w' = rx_left (assigned_onu_id ctx) (fifo w)"
    using gtc_ds_fifo.rx_loop_drains[OF assms(1,2)] by blast
  moreover have "ploam_ring_inv (c\<lparr>fsm_work := b\<rparr>) = ploam_ring_inv c"
    "ploam_ring_list (c\<lparr>fsm_work := b\<rparr>) = ploam_ring_list c" for c :: "'a falcon_ploam_ctx" and b
    by (simp_all add: ploam_ring_inv_def ploam_ring_list_def)
  ultimately show ?thesis
    using assms(3,4)
    by (simp add: falcon_ploam_rx_irq_handler_def worker_fold fold_push ploam_ring.push_all_invar
        ploam_ring.push_all_contents list_all_iff)
qed

lemma rx_irq_then_worker_witness:
  "\<exists>c' w'. falcon_ploam_rx_irq_handler (gtc_dev_hw 0) (falcon_ploam_init 0 None None,
      \<lparr>ds_fifo = [(0xFF010000, 0, 0)], dev_regs = (\<lambda>_. 0)\<rparr>) = Some (c', w')
    \<and> ploam_ring_list c' = [ploam_of_words 0xFF010000 0 0] \<and> ds_fifo w' = []"
  using rx_irq_then_worker[of "gtc_dev_hw 0" 0 ds_fifo "falcon_ploam_init 0 None None"
      "\<lparr>ds_fifo = [(0xFF010000, 0, 0)], dev_regs = (\<lambda>_. 0)\<rparr>", OF gtc_dev.gtc_ds_fifo_axioms]
  by (fastforce simp: ploam_ring_inv_def falcon_ploam_init_def ploam_ring_list_def ring_elems_def ring_len_def
      rx_accepted_def rx_left_def words_msg_def onu_id_filter_def)

text \<open>
  C14: The detailed machine refines the abstract activation automaton: handling a message, a signal or
  frame event, and a timer expiry each move the state exactly as the automaton does, independently of
  hardware, callbacks and the rest of the context.
\<close>

theorem ploam_refines_activation:
  "state (fst (ploam_handle_msg hw m s)) = activation (state (fst s)) (msg_event (serial_number (fst s)) m)
   \<and> state (fst (falcon_ploam_event_los hw los s)) = activation (state (fst s)) (if los then LOS_Up else Ignored)
   \<and> state (fst (falcon_ploam_event_lof hw lof s)) = activation (state (fst s)) (if lof then LOF_Up else LOF_Clear)
   \<and> state (fst (to1_timer_fn hw s)) = activation (state (fst s)) TO1_Expired
   \<and> state (fst (to2_timer_fn hw s)) = activation (state (fst s)) TO2_Expired"
  by (simp add: handle_activation falcon_ploam_event_los_def falcon_ploam_event_lof_def to1_timer_fn_def to2_timer_fn_def)

text \<open>
  A message of nine payload octets survives the three register words it is sent as, and every
  triple of words is the packing of the message read from it.
\<close>

theorem ploam_words_roundtrip:
  "(length (payload m) = 9 \<longrightarrow> (case ploam_words m of (a, b, c) \<Rightarrow> ploam_of_words a b c) = m)
   \<and> ploam_words (ploam_of_words x y z) = (x, y, z)"
  by (simp add: ploam_of_words_words ploam_words_of_words)

lemma ploam_words_roundtrip_witness:
  "(case ploam_words zero_ploam_msg of (a, b, c) \<Rightarrow> ploam_of_words a b c) = zero_ploam_msg"
  using ploam_words_roundtrip[of zero_ploam_msg] by (simp add: zero_ploam_msg_def)

text \<open>
  C35: A Ranging_Time message in the ranging or operation state programs the equalisation delay: the
  delay register holds the big-endian word of the first four payload octets, the delay enable bit is
  set and the other bits of that register kept, an acknowledge with the own ONU-ID and the message's
  sequence number is sent, the state is operation and both timers are off. In any other state the
  message changes nothing.
\<close>

theorem ranging_programs_delay:
  assumes "register_file hw reg plain" "gtc_base ctx + GTC_DELAY_CTRL \<in> plain"
    and "\<And>x w. reg (call_cb (state_change_cb ctx) x w) = reg w"
    and "\<And>x w. reg (call_cb (carrier_set ctx) x w) = reg w"
    and "ploam_act_inv ctx" "msg_id m = PLOAM_DS_RANGING_TIME"
    and "r = ploam_handle_msg hw m (ctx, w)"
  shows "if state ctx = PLOAM_STATE_O4_RANGING \<or> state ctx = PLOAM_STATE_O5_OPERATION
    then state (fst r) = PLOAM_STATE_O5_OPERATION \<and> to1_timer (fst r) = None \<and> to2_timer (fst r) = None
      \<and> eqd (fst r) = be32 (payload m ! 0) (payload m ! 1) (payload m ! 2) (payload m ! 3)
      \<and> reg (snd r) = us_regs (gtc_base ctx) (ack_msg (assigned_onu_id ctx) (seq_num m))
          ((reg w)(gtc_base ctx + GTC_RANGED_DELAY := eqd (fst r),
             gtc_base ctx + GTC_DELAY_CTRL := reg w (gtc_base ctx + GTC_DELAY_CTRL) OR GTC_DELAY_CTRL_EN))
    else r = (ctx, w)"
proof -
  have h: "ploam_handle_msg hw m (ctx, w) = on_ranging_time hw m (ctx, w)"
    using assms(6) by (simp add: ploam_handle_msg_def)
  have c: "fst r = fst (ploam_state_transition hw PLOAM_STATE_O5_OPERATION (ctx\<lparr>eqd :=
      be32 (payload m ! 0) (payload m ! 1) (payload m ! 2) (payload m ! 3)\<rparr>, w))"
    if "state ctx = PLOAM_STATE_O4_RANGING \<or> state ctx = PLOAM_STATE_O5_OPERATION"
    using that assms(6,7) by (simp add: handle_ctx msg_event_def)
  show ?thesis
    using register_file.ranging_regs[OF assms(1) _ assms(2-4), of m w] assms(5,7) c
    by (auto simp: h on_ranging_time_def transition_ctx ploam_act_inv_def)
qed

lemma ranging_programs_delay_witness:
  "dev_regs (snd (ploam_handle_msg (gtc_dev_hw 0)
      \<lparr>onu_id = 1, msg_id = PLOAM_DS_RANGING_TIME, seq_num = 7, payload = [0, 0, 1, 2, 0, 0, 0, 0, 0]\<rparr>
      ((falcon_ploam_init 0 None None)\<lparr>state := PLOAM_STATE_O4_RANGING\<rparr>,
       \<lparr>ds_fifo = [], dev_regs = (\<lambda>_. 0)\<rparr>))) GTC_RANGED_DELAY = 0x102"
  using ranging_programs_delay[OF gtc_regs.register_file_axioms, where base1 = 0 and w = "\<lparr>ds_fifo = [], dev_regs = (\<lambda>_. 0)\<rparr>",
      of "(falcon_ploam_init 0 None None)\<lparr>state := PLOAM_STATE_O4_RANGING\<rparr>"
      "\<lparr>onu_id = 1, msg_id = PLOAM_DS_RANGING_TIME, seq_num = 7, payload = [0, 0, 1, 2, 0, 0, 0, 0, 0]\<rparr>", OF _ _ _ _ _ refl]
  by (simp add: falcon_ploam_init_def ploam_act_inv_def us_regs_def ploam_words_def be32_def)

text \<open>
  An Assign_ONU-ID message is obeyed exactly when its first eight payload octets are the own
  serial number: then the ninth octet becomes the ONU-ID in the context and in the ONU-ID register, an
  acknowledge is sent under the new ID and the state is ranging, from whatever state; otherwise
  neither the context nor the world changes.
\<close>

theorem assign_onu_id_behaviour:
  assumes "register_file hw reg plain" "\<And>x w. reg (call_cb (state_change_cb ctx) x w) = reg w"
    and "msg_id m = PLOAM_DS_ASSIGN_ONU_ID" "r = ploam_handle_msg hw m (ctx, w)"
  shows "if take 8 (payload m) = take 8 (serial_number ctx)
    then state (fst r) = PLOAM_STATE_O4_RANGING \<and> assigned_onu_id (fst r) = payload m ! 8
      \<and> reg (snd r) = us_regs (gtc_base ctx) (ack_msg (payload m ! 8) (seq_num m))
          ((reg w)(gtc_base ctx + GTC_ONU_ID_REG := ucast (payload m ! 8)))
    else r = (ctx, w)"
proof -
  have h: "ploam_handle_msg hw m (ctx, w) = on_assign_onu_id hw m (ctx, w)"
    using assms(3) by (simp add: ploam_handle_msg_def)
  have c: "fst r = fst (ploam_state_transition hw PLOAM_STATE_O4_RANGING (ctx\<lparr>assigned_onu_id := payload m ! 8\<rparr>, w))"
    if "take 8 (payload m) = take 8 (serial_number ctx)"
    using that assms(3,4) by (simp add: handle_ctx msg_event_def)
  show ?thesis
    using register_file.assign_regs[OF assms(1) _ assms(2), of m w] assms(4) c
    by (auto simp: h on_assign_onu_id_def transition_ctx)
qed

lemma assign_onu_id_behaviour_witness:
  "assigned_onu_id (fst (ploam_handle_msg (gtc_dev_hw 0)
      \<lparr>onu_id = 0xFF, msg_id = PLOAM_DS_ASSIGN_ONU_ID, seq_num = 1,
       payload = [0x5A, 0x59, 0x58, 0x45, 0x12, 0x34, 0x56, 0x78, 9]\<rparr>
      (falcon_ploam_init 0 None None, \<lparr>ds_fifo = [], dev_regs = (\<lambda>_. 0)\<rparr>))) = 9"
  using assign_onu_id_behaviour[OF gtc_regs.register_file_axioms, where base1 = 0 and w = "\<lparr>ds_fifo = [], dev_regs = (\<lambda>_. 0)\<rparr>",
      of "falcon_ploam_init 0 None None"
      "\<lparr>onu_id = 0xFF, msg_id = PLOAM_DS_ASSIGN_ONU_ID, seq_num = 1,
       payload = [0x5A, 0x59, 0x58, 0x45, 0x12, 0x34, 0x56, 0x78, 9]\<rparr>", OF _ _ refl]
  by (simp add: falcon_ploam_init_def)

text \<open>
  The activation cannot hang in the two timed states: in the serial-number state and in POPUP the
  timer is pending, its expiry is a possible step, and the step leads back to standby (O1 from POPUP)
  with the ONU-ID cleared.
\<close>

theorem timed_states_escape:
  assumes "ploam_inv ctx"
  shows "(state ctx = PLOAM_STATE_O3_SERIAL_NUM \<longrightarrow> (\<exists>s'. ploam_step hw env (ctx, w) s' \<and>
            state (fst s') = PLOAM_STATE_O2_STANDBY \<and> to1_timer (fst s') = None \<and> assigned_onu_id (fst s') = 0))
    \<and> (state ctx = PLOAM_STATE_O6_POPUP \<longrightarrow> (\<exists>s'. ploam_step hw env (ctx, w) s' \<and>
            state (fst s') = PLOAM_STATE_O1_INITIAL_RUN \<and> to2_timer (fst s') = None \<and> assigned_onu_id (fst s') = 0))"
proof (intro conjI impI)
  assume s: "state ctx = PLOAM_STATE_O3_SERIAL_NUM"
  with assms obtain d where "to1_timer ctx = Some d" by (auto simp: ploam_inv_def ploam_act_inv_def)
  from step_to1[OF this] s show "\<exists>s'. ploam_step hw env (ctx, w) s' \<and> state (fst s') = PLOAM_STATE_O2_STANDBY \<and>
      to1_timer (fst s') = None \<and> assigned_onu_id (fst s') = 0"
    by (intro exI[of _ "to1_timer_fn hw (ctx\<lparr>to1_timer := None\<rparr>, w)"]) (simp add: to1_timer_fn_def transition_ctx)
next
  assume s: "state ctx = PLOAM_STATE_O6_POPUP"
  with assms obtain d where "to2_timer ctx = Some d" by (auto simp: ploam_inv_def ploam_act_inv_def)
  from step_to2[OF this] s show "\<exists>s'. ploam_step hw env (ctx, w) s' \<and> state (fst s') = PLOAM_STATE_O1_INITIAL_RUN \<and>
      to2_timer (fst s') = None \<and> assigned_onu_id (fst s') = 0"
    by (intro exI[of _ "to2_timer_fn hw (ctx\<lparr>to2_timer := None\<rparr>, w)"]) (simp add: to2_timer_fn_def transition_ctx)
qed

lemma timed_states_escape_witness:
  "\<exists>s'. ploam_step (gtc_dev_hw 0) (\<lambda>_ _. False)
      ((falcon_ploam_init 0 None None)\<lparr>state := PLOAM_STATE_O6_POPUP, to2_timer := Some 100\<rparr>,
       \<lparr>ds_fifo = [], dev_regs = (\<lambda>_. 0)\<rparr>) s' \<and> state (fst s') = PLOAM_STATE_O1_INITIAL_RUN"
  using timed_states_escape[of "(falcon_ploam_init 0 None None)\<lparr>state := PLOAM_STATE_O6_POPUP, to2_timer := Some 100\<rparr>"
      "gtc_dev_hw 0" "\<lambda>_ _. False" "\<lparr>ds_fifo = [], dev_regs = (\<lambda>_. 0)\<rparr>"] init_inv[of 0 None None]
  by (auto simp: ploam_inv_def ploam_act_inv_def ploam_ring_inv_def falcon_ploam_init_def)

text \<open>
  The receive ring has no full check: with 63 messages waiting, the next one received makes the
  write index meet the read index, and all 64 messages are lost to the worker, which finds the ring empty.
\<close>

theorem rx_ring_overflow_loses_all:
  assumes "ploam_ring_inv ctx" "length (ploam_ring_list ctx) = 63"
  shows "ploam_ring_list (ploam_ring_push m ctx) = []
    \<and> falcon_ploam_fsm_worker hw (ploam_ring_push m ctx, w) = Some (ploam_ring_push m ctx, w)"
proof -
  have e: "ploam_ring_list (ploam_ring_push m ctx) = []" using assms by (rule ring_push_full)
  have i: "ploam_ring_inv (ploam_ring_push m ctx)" using assms(1) by (rule ring_push_inv)
  have "rx_head (ploam_ring_push m ctx) = rx_tail (ploam_ring_push m ctx)"
    using ring_pop_None[OF i] e by (simp add: ploam_ring_pop_def split: if_splits)
  with e i show ?thesis by (simp add: worker_fold)
qed

lemma rx_ring_overflow_loses_all_witness:
  "ploam_ring_list (ploam_ring_push zero_ploam_msg ((falcon_ploam_init 0 None None)\<lparr>rx_head := 63\<rparr>)) = []"
  by (rule rx_ring_overflow_loses_all[THEN conjunct1])
    (simp_all add: ploam_ring_inv_def falcon_ploam_init_def ploam_ring_list_def ring_elems_def ring_len_def)

end
