(* ===== verification/Falcon_Bosa.thy ===== *)
theory Falcon_Bosa
  imports Gpon_Prelude
begin

text \<open>
  The optical transceiver driver of \<^verbatim>\<open>falcon_bosa.c\<close>: laser enable, automatic power control loops,
  photodiode voltage, bias and modulation currents. The spinlock only serialises the operations and
  has no state of its own here. GPIO access is a parameter like the register accessors.
\<close>

section \<open>Data\<close>

record 'w gpiolib =
  gpio_is_valid :: "int \<Rightarrow> bool"
  gpio_set_value :: "int \<Rightarrow> int \<Rightarrow> 'w \<Rightarrow> 'w"

record falcon_bosa_dev =
  pma :: u32
  dcdc_core :: u32
  dcdc_apd :: u32
  pin_tx_disable :: int
  pin_tx_fault :: int

record bosa_calib_data =
  bias_dac_val :: u16
  mod_dac_val :: u16
  apd_voltage_mv :: u32
  apc_bias_enable :: bool
  apc_mod_enable :: bool

abbreviation (input) PMA_REG_MOD_DAC :: u32 where "PMA_REG_MOD_DAC \<equiv> 0x0190"
abbreviation (input) PMA_REG_BIAS_DAC :: u32 where "PMA_REG_BIAS_DAC \<equiv> 0x0194"
abbreviation (input) PMA_REG_BIAS_LOOP_CTRL :: u32 where "PMA_REG_BIAS_LOOP_CTRL \<equiv> 0x01A0"
abbreviation (input) PMA_REG_MOD_LOOP_CTRL :: u32 where "PMA_REG_MOD_LOOP_CTRL \<equiv> 0x01A4"
abbreviation (input) PMA_REG_TX_ACTIVATE_CH0 :: u32 where "PMA_REG_TX_ACTIVATE_CH0 \<equiv> 0x0200"
abbreviation (input) DCDC_APD_REG_VOLTAGE_DAC :: u32 where "DCDC_APD_REG_VOLTAGE_DAC \<equiv> 0x002C"
abbreviation (input) DCDC_APD_REG_CONTROL :: u32 where "DCDC_APD_REG_CONTROL \<equiv> 0x0054"

section \<open>Operations\<close>

definition falcon_bosa_tx_enable :: "'w mmio \<Rightarrow> 'w gpiolib \<Rightarrow> falcon_bosa_dev \<Rightarrow> int \<Rightarrow> 'w \<Rightarrow> 'w" where
  "falcon_bosa_tx_enable hw gp bosa enable w =
    (if enable \<noteq> 0 then
       let w = (if gpio_is_valid gp (pin_tx_disable bosa) then gpio_set_value gp (pin_tx_disable bosa) 0 w else w);
           (val, w) = ioread32be hw (pma bosa + PMA_REG_TX_ACTIVATE_CH0) w;
           val = val AND NOT 0x08;
           val = val OR 0x05
       in iowrite32be hw val (pma bosa + PMA_REG_TX_ACTIVATE_CH0) w
     else
       let w = (if gpio_is_valid gp (pin_tx_disable bosa) then gpio_set_value gp (pin_tx_disable bosa) 1 w else w);
           (val, w) = ioread32be hw (pma bosa + PMA_REG_TX_ACTIVATE_CH0) w;
           val = val OR 0x08;
           val = val OR 0x05
       in iowrite32be hw val (pma bosa + PMA_REG_TX_ACTIVATE_CH0) w)"

definition falcon_bosa_set_apc_loop :: "'w mmio \<Rightarrow> falcon_bosa_dev \<Rightarrow> int \<Rightarrow> int \<Rightarrow> 'w \<Rightarrow> 'w" where
  "falcon_bosa_set_apc_loop hw bosa bias_loop_closed mod_loop_closed w =
    (let (val, w) = ioread32be hw (pma bosa + PMA_REG_BIAS_LOOP_CTRL) w;
         val = val AND NOT 0x03;
         val = (if bias_loop_closed \<noteq> 0 then val OR 0x01 else val);
         w = iowrite32be hw val (pma bosa + PMA_REG_BIAS_LOOP_CTRL) w;
         (val, w) = ioread32be hw (pma bosa + PMA_REG_MOD_LOOP_CTRL) w;
         val = val AND NOT 0x03;
         val = (if mod_loop_closed \<noteq> 0 then val OR 0x01 else val)
     in iowrite32be hw val (pma bosa + PMA_REG_MOD_LOOP_CTRL) w)"

definition falcon_bosa_set_apd_voltage :: "'w mmio \<Rightarrow> falcon_bosa_dev \<Rightarrow> u8 \<Rightarrow> 'w \<Rightarrow> 'w" where
  "falcon_bosa_set_apd_voltage hw bosa voltage_dac w =
    iowrite32be hw (ucast voltage_dac) (dcdc_apd bosa + DCDC_APD_REG_VOLTAGE_DAC)
      (iowrite32be hw 0 (dcdc_apd bosa + DCDC_APD_REG_CONTROL) w)"

definition falcon_bosa_set_bias_mod_current :: "'w mmio \<Rightarrow> falcon_bosa_dev \<Rightarrow> u16 \<Rightarrow> u16 \<Rightarrow> 'w \<Rightarrow> 'w" where
  "falcon_bosa_set_bias_mod_current hw bosa bias_dac mod_dac w =
    iowrite32be hw (ucast mod_dac AND 0x7FF) (pma bosa + PMA_REG_MOD_DAC)
      (iowrite32be hw (ucast bias_dac AND 0x7FF) (pma bosa + PMA_REG_BIAS_DAC) w)"

definition falcon_bosa_init ::
    "'w mmio \<Rightarrow> u32 \<Rightarrow> u32 \<Rightarrow> bosa_calib_data option \<Rightarrow> falcon_bosa_dev \<times> 'w \<Rightarrow> falcon_bosa_dev \<times> 'w" where
  "falcon_bosa_init hw pma_base apd_base calib = (\<lambda>(bosa, w).
    let bosa = bosa\<lparr>pma := pma_base, dcdc_apd := apd_base, pin_tx_disable := - 1, pin_tx_fault := - 1\<rparr>
    in case calib of
         None \<Rightarrow> (bosa, w)
       | Some c \<Rightarrow>
           let w = falcon_bosa_set_bias_mod_current hw bosa (bias_dac_val c) (mod_dac_val c) w;
               w = falcon_bosa_set_apc_loop hw bosa (of_bool (apc_bias_enable c)) (of_bool (apc_mod_enable c)) w;
               w = falcon_bosa_set_apd_voltage hw bosa 0x96 w
           in (bosa, w))"

definition falcon_bosa_shutdown :: "'w mmio \<Rightarrow> 'w gpiolib \<Rightarrow> falcon_bosa_dev \<Rightarrow> 'w \<Rightarrow> 'w" where
  "falcon_bosa_shutdown hw gp bosa w =
    falcon_bosa_set_apc_loop hw bosa 0 0 (falcon_bosa_tx_enable hw gp bosa 0 w)"

text \<open>The transmitter is enabled when bit 3 of the channel 0 activation register is clear.\<close>

definition tx_active :: "u32 \<Rightarrow> bool" where
  "tx_active v \<longleftrightarrow> v AND 0x08 = 0"

text \<open>The value the activation register gets, and the value a loop control register gets.\<close>

definition tx_value :: "bool \<Rightarrow> u32 \<Rightarrow> u32" where
  "tx_value on v = (if on then v AND NOT 0x08 else v OR 0x08) OR 0x05"

definition loop_value :: "bool \<Rightarrow> u32 \<Rightarrow> u32" where
  "loop_value closed v = (v AND NOT 0x03) OR (if closed then 0x01 else 0)"

text \<open>A board without GPIO lines wired to registers.\<close>

definition no_gpio :: "'w gpiolib" where
  "no_gpio = \<lparr> gpio_is_valid = (\<lambda>p. 0 \<le> p), gpio_set_value = (\<lambda>_ _ w. w) \<rparr>"

section \<open>Lemmas\<close>

context register_file
begin

lemma tx_enable_regs:
  assumes "pma bosa + PMA_REG_TX_ACTIVATE_CH0 \<in> plain" "\<And>p v w. reg (gpio_set_value gp p v w) = reg w"
  shows "reg (falcon_bosa_tx_enable hw gp bosa e w) = (reg w)(pma bosa + PMA_REG_TX_ACTIVATE_CH0 :=
    tx_value (e \<noteq> 0) (reg w (pma bosa + PMA_REG_TX_ACTIVATE_CH0)))"
  using assms by (simp add: falcon_bosa_tx_enable_def tx_value_def Let_def case_prod_beta reg_simps)

lemma apc_loop_regs:
  assumes "{pma bosa + PMA_REG_BIAS_LOOP_CTRL, pma bosa + PMA_REG_MOD_LOOP_CTRL} \<subseteq> plain"
  shows "reg (falcon_bosa_set_apc_loop hw bosa b m w) =
    (reg w)(pma bosa + PMA_REG_BIAS_LOOP_CTRL := loop_value (b \<noteq> 0) (reg w (pma bosa + PMA_REG_BIAS_LOOP_CTRL)),
            pma bosa + PMA_REG_MOD_LOOP_CTRL := loop_value (m \<noteq> 0) (reg w (pma bosa + PMA_REG_MOD_LOOP_CTRL)))"
  using assms by (simp add: falcon_bosa_set_apc_loop_def loop_value_def Let_def case_prod_beta reg_simps)

lemma current_regs:
  "reg (falcon_bosa_set_bias_mod_current hw bosa b m w) =
    (reg w)(pma bosa + PMA_REG_BIAS_DAC := ucast b AND 0x7FF, pma bosa + PMA_REG_MOD_DAC := ucast m AND 0x7FF)"
  by (simp add: falcon_bosa_set_bias_mod_current_def reg_simps)

lemma apd_regs:
  "reg (falcon_bosa_set_apd_voltage hw bosa v w) =
    (reg w)(dcdc_apd bosa + DCDC_APD_REG_CONTROL := 0, dcdc_apd bosa + DCDC_APD_REG_VOLTAGE_DAC := ucast v)"
  by (simp add: falcon_bosa_set_apd_voltage_def reg_simps)

lemma shutdown_regs:
  assumes "{pma bosa + PMA_REG_TX_ACTIVATE_CH0, pma bosa + PMA_REG_BIAS_LOOP_CTRL, pma bosa + PMA_REG_MOD_LOOP_CTRL} \<subseteq> plain"
    and "\<And>p v w. reg (gpio_set_value gp p v w) = reg w"
  shows "reg (falcon_bosa_shutdown hw gp bosa w) =
    (reg w)(pma bosa + PMA_REG_TX_ACTIVATE_CH0 := tx_value False (reg w (pma bosa + PMA_REG_TX_ACTIVATE_CH0)),
            pma bosa + PMA_REG_BIAS_LOOP_CTRL := loop_value False (reg w (pma bosa + PMA_REG_BIAS_LOOP_CTRL)),
            pma bosa + PMA_REG_MOD_LOOP_CTRL := loop_value False (reg w (pma bosa + PMA_REG_MOD_LOOP_CTRL)))"
  using assms by (simp add: falcon_bosa_shutdown_def tx_enable_regs apc_loop_regs)

lemma init_regs:
  assumes "{p + PMA_REG_BIAS_LOOP_CTRL, p + PMA_REG_MOD_LOOP_CTRL} \<subseteq> plain"
  shows "reg (snd (falcon_bosa_init hw p d (Some c) (bosa, w))) =
    (reg w)(p + PMA_REG_BIAS_DAC := ucast (bias_dac_val c) AND 0x7FF, p + PMA_REG_MOD_DAC := ucast (mod_dac_val c) AND 0x7FF,
            p + PMA_REG_BIAS_LOOP_CTRL := loop_value (apc_bias_enable c) (reg w (p + PMA_REG_BIAS_LOOP_CTRL)),
            p + PMA_REG_MOD_LOOP_CTRL := loop_value (apc_mod_enable c) (reg w (p + PMA_REG_MOD_LOOP_CTRL)),
            d + DCDC_APD_REG_CONTROL := 0, d + DCDC_APD_REG_VOLTAGE_DAC := 0x96)"
  using assms by (simp add: falcon_bosa_init_def Let_def current_regs apc_loop_regs apd_regs)

end

lemma bit_masks: "bit (0x08 :: u32) n \<longleftrightarrow> n = 3" "bit (0x05 :: u32) n \<longleftrightarrow> n = 0 \<or> n = 2"
proof -
  have "bit ((2 :: u32) ^ 3) n \<longleftrightarrow> n = 3" by (subst bit_exp_iff) auto
  then show "bit (0x08 :: u32) n \<longleftrightarrow> n = 3" by simp
  have "bit ((2 :: u32) ^ 0 OR 2 ^ 2) n \<longleftrightarrow> n = 0 \<or> n = 2" by (subst bit_or_iff, subst (1 2) bit_exp_iff) auto
  then show "bit (0x05 :: u32) n \<longleftrightarrow> n = 0 \<or> n = 2" by simp
qed

lemma tx_value_bits:
  "bit (tx_value on v) n \<longleftrightarrow> (if n = 3 then \<not> on else n = 0 \<or> n = 2 \<or> bit v n)"
  unfolding tx_value_def
  by (cases on; simp only: if_True if_False bit_or_iff bit_and_iff bit_not_iff bit_masks possible_bit_word)
    (auto dest: bit_imp_le_length)

lemma tx_active_bit: "tx_active v \<longleftrightarrow> \<not> bit v 3"
  unfolding tx_active_def
  by (simp only: bit_eq_iff[of "v AND 0x08"] bit_and_iff bit_masks bit_0_eq) (auto simp: possible_bit_word dest: spec[of _ 3])

lemma tx_active_value [simp]: "tx_active (tx_value on v) \<longleftrightarrow> on"
  by (simp add: tx_active_bit tx_value_bits)

lemma dac_bound: "(ucast (v :: u16) AND 0x7FF :: u32) \<le> 0x7FF"
  by (rule word_and_le1)

section \<open>Properties\<close>

text \<open>
  Switching the transmitter changes the activation register of channel 0 and no other register:
  its disable bit is the negation of the request, bits 0 and 2 are set, every other bit is kept; so the
  transmitter is active afterwards exactly when it was switched on.
\<close>

theorem bosa_tx_enable_correct:
  assumes "register_file hw reg plain" "pma bosa + PMA_REG_TX_ACTIVATE_CH0 \<in> plain"
    and "\<And>p v w. reg (gpio_set_value gp p v w) = reg w"
    and "w' = falcon_bosa_tx_enable hw gp bosa e w" "tx = pma bosa + PMA_REG_TX_ACTIVATE_CH0"
  shows "(\<forall>a. a \<noteq> tx \<longrightarrow> reg w' a = reg w a) \<and> (tx_active (reg w' tx) \<longleftrightarrow> e \<noteq> 0)
    \<and> (\<forall>n. n \<noteq> 3 \<longrightarrow> bit (reg w' tx) n = (n = 0 \<or> n = 2 \<or> bit (reg w tx) n))"
  using register_file.tx_enable_regs[OF assms(1-3), of e w] assms(4,5) by (simp add: tx_value_bits)

lemma bosa_tx_enable_correct_witness:
  "tx_active (falcon_bosa_tx_enable bank_hw no_gpio
      \<lparr>pma = 0x1000, dcdc_core = 0, dcdc_apd = 0x2000, pin_tx_disable = 5, pin_tx_fault = - 1\<rparr> 1 (\<lambda>_. 0xFF) 0x1200)"
  using bosa_tx_enable_correct[OF bank.register_file_axioms, where gp = no_gpio and e = 1 and w = "\<lambda>_. 0xFF" and
      bosa = "\<lparr>pma = 0x1000, dcdc_core = 0, dcdc_apd = 0x2000, pin_tx_disable = 5, pin_tx_fault = - 1\<rparr>",
      OF _ _ refl refl]
  by (simp add: no_gpio_def)

text \<open>
  C40: Initialisation with calibration data programs the two current DACs with at most their 11 bits,
  closes the control loops that are asked for (bit 0 set, bit 1 clear), clears the photodiode
  converter's control register and sets its voltage to 0x96, whatever the calibrated millivolts, and
  leaves the transmitter's activation register alone, for converter registers outside the PMA block.
\<close>

theorem bosa_init_calibrates:
  assumes "register_file hw reg plain" "{p + PMA_REG_BIAS_LOOP_CTRL, p + PMA_REG_MOD_LOOP_CTRL} \<subseteq> plain"
    and "\<And>r. r < 0x1000 \<Longrightarrow> p + r \<noteq> d + DCDC_APD_REG_VOLTAGE_DAC \<and> p + r \<noteq> d + DCDC_APD_REG_CONTROL"
    and "(bosa', w') = falcon_bosa_init hw p d (Some c) (bosa, w)"
  shows "reg w' (p + PMA_REG_BIAS_DAC) = ucast (bias_dac_val c) AND 0x7FF \<and> reg w' (p + PMA_REG_BIAS_DAC) \<le> 0x7FF
    \<and> reg w' (p + PMA_REG_MOD_DAC) = ucast (mod_dac_val c) AND 0x7FF \<and> reg w' (p + PMA_REG_MOD_DAC) \<le> 0x7FF
    \<and> reg w' (p + PMA_REG_BIAS_LOOP_CTRL) = loop_value (apc_bias_enable c) (reg w (p + PMA_REG_BIAS_LOOP_CTRL))
    \<and> reg w' (p + PMA_REG_MOD_LOOP_CTRL) = loop_value (apc_mod_enable c) (reg w (p + PMA_REG_MOD_LOOP_CTRL))
    \<and> reg w' (d + DCDC_APD_REG_CONTROL) = 0 \<and> reg w' (d + DCDC_APD_REG_VOLTAGE_DAC) = 0x96
    \<and> reg w' (p + PMA_REG_TX_ACTIVATE_CH0) = reg w (p + PMA_REG_TX_ACTIVATE_CH0)
    \<and> pin_tx_disable bosa' = - 1"
proof -
  have w': "w' = snd (falcon_bosa_init hw p d (Some c) (bosa, w))" and
    b: "pin_tx_disable bosa' = - 1"
    using assms(4) by (simp_all add: falcon_bosa_init_def Let_def flip: assms(4))
  have "p + r \<noteq> d + DCDC_APD_REG_VOLTAGE_DAC" "p + r \<noteq> d + DCDC_APD_REG_CONTROL" if "r < 0x1000" for r
    using assms(3)[OF that] by simp_all
  then show ?thesis
    using b unfolding w' register_file.init_regs[OF assms(1,2)] by (simp add: dac_bound)
qed

lemma bosa_init_calibrates_witness:
  "snd (falcon_bosa_init bank_hw 0x1000 0x4000
      (Some \<lparr>bias_dac_val = 0x2A0, mod_dac_val = 0xF340, apd_voltage_mv = 30000, apc_bias_enable = True, apc_mod_enable = True\<rparr>)
      (\<lparr>pma = 0, dcdc_core = 0, dcdc_apd = 0, pin_tx_disable = 0, pin_tx_fault = 0\<rparr>, \<lambda>_. 0)) 0x1190 = 0x340"
proof -
  have "0x1000 + r \<noteq> 0x4000 + DCDC_APD_REG_VOLTAGE_DAC \<and> 0x1000 + r \<noteq> 0x4000 + DCDC_APD_REG_CONTROL"
    if "r < 0x1000" for r :: u32
    using that by unat_arith
  from bosa_init_calibrates[OF bank.register_file_axioms _ this,
      of _ _ "\<lparr>bias_dac_val = 0x2A0, mod_dac_val = 0xF340, apd_voltage_mv = 30000, apc_bias_enable = True, apc_mod_enable = True\<rparr>"
        "\<lparr>pma = 0, dcdc_core = 0, dcdc_apd = 0, pin_tx_disable = 0, pin_tx_fault = 0\<rparr>" "\<lambda>_. 0", OF _ _ prod.collapse]
  show ?thesis by simp
qed

text \<open>
  Shutting down leaves the transmitter disabled and both power control loops open, and touches
  no register besides the three involved.
\<close>

theorem bosa_shutdown_safe:
  assumes "register_file hw reg plain"
    and "{pma bosa + PMA_REG_TX_ACTIVATE_CH0, pma bosa + PMA_REG_BIAS_LOOP_CTRL, pma bosa + PMA_REG_MOD_LOOP_CTRL} \<subseteq> plain"
    and "\<And>p v w. reg (gpio_set_value gp p v w) = reg w" "w' = falcon_bosa_shutdown hw gp bosa w"
  shows "\<not> tx_active (reg w' (pma bosa + PMA_REG_TX_ACTIVATE_CH0))
    \<and> reg w' (pma bosa + PMA_REG_BIAS_LOOP_CTRL) AND 0x03 = 0 \<and> reg w' (pma bosa + PMA_REG_MOD_LOOP_CTRL) AND 0x03 = 0
    \<and> (\<forall>a. a \<notin> {pma bosa + PMA_REG_TX_ACTIVATE_CH0, pma bosa + PMA_REG_BIAS_LOOP_CTRL, pma bosa + PMA_REG_MOD_LOOP_CTRL}
         \<longrightarrow> reg w' a = reg w a)"
proof -
  have "(v AND NOT 0x03) AND (0x03 :: u32) = 0" for v by (simp add: and.assoc)
  then show ?thesis
    using register_file.shutdown_regs[OF assms(1-3), of w] assms(4) by (simp add: loop_value_def)
qed

lemma bosa_shutdown_safe_witness:
  "\<not> tx_active (falcon_bosa_shutdown bank_hw no_gpio
      \<lparr>pma = 0x1000, dcdc_core = 0, dcdc_apd = 0x2000, pin_tx_disable = - 1, pin_tx_fault = - 1\<rparr> (\<lambda>_. 0) 0x1200)"
  using bosa_shutdown_safe[OF bank.register_file_axioms, where gp = no_gpio and w = "\<lambda>_. 0" and
      bosa = "\<lparr>pma = 0x1000, dcdc_core = 0, dcdc_apd = 0x2000, pin_tx_disable = - 1, pin_tx_fault = - 1\<rparr>",
      OF _ _ refl]
  by (simp add: no_gpio_def)

end
