(* ===== verification/Falcon_Dma.thy ===== *)
theory Falcon_Dma
  imports Gpon_Prelude
begin

text \<open>
  The packet engine driver of \<^verbatim>\<open>falcon_dma.c\<close>: the microcode upload into the instruction memory of
  both cores, the free segment queue, and the transmission of a packet through a buffer segment, a
  polled wait for a free slot and a four-word descriptor. Kernel error numbers are the negative
  return values of the source.
\<close>

section \<open>Data\<close>

abbreviation (input) EINVAL :: int where "EINVAL \<equiv> 22"
abbreviation (input) ENOMEM :: int where "ENOMEM \<equiv> 12"
abbreviation (input) EBUSY :: int where "EBUSY \<equiv> 16"

abbreviation (input) FALCON_FSQM_NULL_SEGMENT :: u16 where "FALCON_FSQM_NULL_SEGMENT \<equiv> 0x7FFF"
abbreviation (input) LINK_REG_CMD :: u32 where "LINK_REG_CMD \<equiv> 0x0000"
abbreviation (input) LINK_REG_FIFO_STATUS :: u32 where "LINK_REG_FIFO_STATUS \<equiv> 0x0020"
abbreviation (input) LINK_REG_DATA_LOW :: u32 where "LINK_REG_DATA_LOW \<equiv> 0x0024"
abbreviation (input) LINK_REG_DATA_HIGH :: u32 where "LINK_REG_DATA_HIGH \<equiv> 0x0028"
abbreviation (input) PCTRL_REG_RESET :: u32 where "PCTRL_REG_RESET \<equiv> 0x0030"
abbreviation (input) PCTRL_REG_RUN :: u32 where "PCTRL_REG_RUN \<equiv> 0x0040"

record falcon_dma_desc =
  word0 :: u32
  word1 :: u32
  word2 :: u32
  word3 :: u32

text \<open>\<^verbatim>\<open>memcpy_toio\<close> belongs to the kernel: destination and octets.\<close>

type_synonym 'w toio = "u32 \<Rightarrow> u8 list \<Rightarrow> 'w \<Rightarrow> 'w"

section \<open>Microcode upload\<close>

definition fw_word :: "u8 list \<Rightarrow> nat \<Rightarrow> u32" where
  "fw_word img i = be32 (img ! (16 + 4 * i)) (img ! (16 + 4 * i + 1)) (img ! (16 + 4 * i + 2)) (img ! (16 + 4 * i + 3))"

definition pe_offset :: "nat \<Rightarrow> nat \<Rightarrow> u32" where
  "pe_offset core i = push_bit 2 (push_bit 14 (of_nat core) + of_nat i + 0x2000)"

definition load_core :: "'w mmio \<Rightarrow> u32 \<Rightarrow> u32 \<Rightarrow> u8 list \<Rightarrow> nat \<Rightarrow> 'w \<Rightarrow> 'w" where
  "load_core hw pctrl pe_ram img core w =
    (let w = iowrite32be hw (push_bit core 1) (pctrl + PCTRL_REG_RESET) w;
         w = fold (\<lambda>i. iowrite32be hw (fw_word img i) (pe_ram + pe_offset core i)) [0..<(length img - 16) div 4] w
     in iowrite32be hw 0xFFFFFFFF (pctrl + PCTRL_REG_RUN) w)"

text \<open>\<^term>\<open>request_firmware\<close> is the kernel's loader: an error number or the image found under the name.\<close>

definition falcon_gpe_load_firmware ::
    "'w mmio \<Rightarrow> (string \<Rightarrow> int + u8 list) \<Rightarrow> u32 \<Rightarrow> u32 \<Rightarrow> string option \<Rightarrow> 'w \<Rightarrow> int \<times> 'w" where
  "falcon_gpe_load_firmware hw request_firmware pctrl pe_ram fw_name w =
    (case request_firmware (case fw_name of Some n \<Rightarrow> n | None \<Rightarrow> ''sfu/falcon_gpe_fw.bin'') of
       Inl ret \<Rightarrow> (ret, w)
     | Inr img \<Rightarrow>
         if length img < 16 then (- EINVAL, w)
         else (0, fold (load_core hw pctrl pe_ram img) [0..<2] w))"

section \<open>Segments and transmission\<close>

definition falcon_fsqm_alloc_segment :: "'w mmio \<Rightarrow> u32 \<Rightarrow> 'w \<Rightarrow> u16 \<times> 'w" where
  "falcon_fsqm_alloc_segment hw fsqm_base w =
    (let (seg, w) = ioread32be hw (fsqm_base + 0x00) w in (ucast (seg AND 0x7FFF), w))"

definition falcon_fsqm_free_segment :: "'w mmio \<Rightarrow> u32 \<Rightarrow> u16 \<Rightarrow> 'w \<Rightarrow> 'w" where
  "falcon_fsqm_free_segment hw fsqm_base segment_id w =
    iowrite32be hw (ucast segment_id AND 0x7FFF) (fsqm_base + 0x04) w"

text \<open>
  The polling loop, a do-while that counts \<^term>\<open>timeout\<close> down: the result is the value of
  \<^term>\<open>timeout\<close> at its exit.
\<close>

fun wait_link_slot :: "'w mmio \<Rightarrow> u32 \<Rightarrow> nat \<Rightarrow> 'w \<Rightarrow> nat \<times> 'w" where
  "wait_link_slot hw link_base 0 w = (0, w)"
| "wait_link_slot hw link_base (Suc n) w =
    (let (fifo_status, w) = ioread32be hw (link_base + LINK_REG_FIFO_STATUS) w
     in if 0 < fifo_status AND 0x1F then (Suc n, w)
        else if 0 < n then wait_link_slot hw link_base n w else (0, w))"

text \<open>The status words of the first \<^term>\<open>n\<close> polls.\<close>

fun link_polls :: "'w mmio \<Rightarrow> u32 \<Rightarrow> nat \<Rightarrow> 'w \<Rightarrow> u32 list" where
  "link_polls hw link_base 0 w = []"
| "link_polls hw link_base (Suc n) w =
    (let (v, w) = ioread32be hw (link_base + LINK_REG_FIFO_STATUS) w in v # link_polls hw link_base n w)"

definition pdu_desc :: "u16 \<Rightarrow> u32 \<Rightarrow> falcon_dma_desc" where
  "pdu_desc seg_id len =
    \<lparr> word0 = push_bit 16 (ucast seg_id) OR (len AND 0xFFFF), word1 = 0x00010000,
      word2 = push_bit 16 (ucast FALCON_FSQM_NULL_SEGMENT), word3 = 0 \<rparr>"

definition push_desc :: "'w mmio \<Rightarrow> u32 \<Rightarrow> falcon_dma_desc \<Rightarrow> 'w \<Rightarrow> 'w" where
  "push_desc hw link_base desc w =
    (let w = iowrite32be hw (word0 desc) (link_base + LINK_REG_DATA_LOW) w;
         w = iowrite32be hw (word1 desc) (link_base + LINK_REG_DATA_HIGH) w;
         w = iowrite32be hw (word2 desc) (link_base + LINK_REG_DATA_LOW) w;
         w = iowrite32be hw (word3 desc) (link_base + LINK_REG_DATA_HIGH) w
     in iowrite32be hw 0x01 (link_base + LINK_REG_CMD) w)"

text \<open>The data pointer is NULL or the octets found there.\<close>

definition falcon_net_pdu_write ::
    "'w mmio \<Rightarrow> 'w toio \<Rightarrow> u32 \<Rightarrow> u32 \<Rightarrow> u32 \<Rightarrow> (nat \<Rightarrow> u8) option \<Rightarrow> u32 \<Rightarrow> 'w \<Rightarrow> int \<times> 'w" where
  "falcon_net_pdu_write hw memcpy_toio sram_base fsqm_base link_base data len w =
    (case data of None \<Rightarrow> (- EINVAL, w)
     | Some p \<Rightarrow>
       if len = 0 then (- EINVAL, w)
       else
         let (seg_id, w) = falcon_fsqm_alloc_segment hw fsqm_base w in
         if seg_id = FALCON_FSQM_NULL_SEGMENT then (- ENOMEM, w)
         else
           let dest_buf = sram_base + push_bit 6 (ucast seg_id);
               w = memcpy_toio dest_buf (map p [0..<unat len]) w;
               (timeout, w) = wait_link_slot hw link_base 1000 w
           in if timeout = 0 then (- EBUSY, falcon_fsqm_free_segment hw fsqm_base seg_id w)
              else (0, push_desc hw link_base (pdu_desc seg_id len) w))"

text \<open>
  A reference packet engine: a pool of free segments, a stream of free-slot counts for successive
  polls of the status register, a buffer memory, and the log of register writes.
\<close>

record gpe_dev =
  free_segs :: "u16 list"
  slots :: "u32 list"
  sram :: "u32 \<Rightarrow> u8"
  gpe_log :: "(u32 \<times> u32) list"

definition gpe_dev_hw :: "u32 \<Rightarrow> u32 \<Rightarrow> gpe_dev mmio" where
  "gpe_dev_hw fsqm_base link_base =
    \<lparr> ioread32be = (\<lambda>a d.
        if a = fsqm_base then
          case free_segs d of [] \<Rightarrow> (0x7FFF, d) | s # ss \<Rightarrow> (ucast s, d\<lparr>free_segs := ss\<rparr>)
        else if a = link_base + LINK_REG_FIFO_STATUS then
          case slots d of [] \<Rightarrow> (0, d) | v # vs \<Rightarrow> (v, d\<lparr>slots := vs\<rparr>)
        else (0, d)),
      iowrite32be = (\<lambda>v a d.
        if a = fsqm_base + 0x04 then d\<lparr>free_segs := free_segs d @ [ucast v]\<rparr>
        else d\<lparr>gpe_log := gpe_log d @ [(a, v)]\<rparr>) \<rparr>"

definition gpe_dev_toio :: "gpe_dev toio" where
  "gpe_dev_toio dest bs d =
    d\<lparr>sram := (\<lambda>a. if unat (a - dest) < length bs then bs ! unat (a - dest) else sram d a)\<rparr>"

section \<open>Interfaces\<close>

text \<open>
  A free segment queue: a read of its allocation register takes a segment out of the pool, a write
  to its release register puts one back, and nothing else touches the pool.
\<close>

locale fsqm =
  fixes hw :: "'w mmio" and memcpy_toio :: "'w toio" and fsqm_base :: u32 and link_base :: u32
    and pool :: "'w \<Rightarrow> u16 list"
  assumes alloc_some: "pool w = s # ss \<Longrightarrow> \<exists>v w'. ioread32be hw (fsqm_base + 0x00) w = (v, w')
      \<and> ucast (v AND 0x7FFF) = s \<and> pool w' = ss"
    and alloc_none: "pool w = [] \<Longrightarrow> \<exists>v w'. ioread32be hw (fsqm_base + 0x00) w = (v, w')
      \<and> v AND 0x7FFF = 0x7FFF \<and> pool w' = []"
    and release: "s < FALCON_FSQM_NULL_SEGMENT \<Longrightarrow> pool (iowrite32be hw (ucast s AND 0x7FFF) (fsqm_base + 0x04) w) = pool w @ [s]"
    and poll_keeps: "pool (snd (ioread32be hw (link_base + LINK_REG_FIFO_STATUS) w)) = pool w"
    and link_keeps: "r < 0x100 \<Longrightarrow> pool (iowrite32be hw v (link_base + r) w) = pool w"
    and toio_keeps: "pool (memcpy_toio a bs w) = pool w"
begin

lemma wait_pool: "pool (snd (wait_link_slot hw link_base n w)) = pool w"
  by (induction n arbitrary: w) (auto simp: Let_def case_prod_beta poll_keeps)

lemma push_desc_pool: "pool (push_desc hw link_base d w) = pool w"
  by (simp add: push_desc_def Let_def link_keeps link_keeps[of 0, simplified])

lemma alloc_pool_Cons:
  assumes "pool w = s # ss" "s < FALCON_FSQM_NULL_SEGMENT"
  obtains w' where "falcon_fsqm_alloc_segment hw fsqm_base w = (s, w')" "pool w' = ss" "s \<noteq> FALCON_FSQM_NULL_SEGMENT"
proof -
  from alloc_some[OF assms(1)] obtain v w' where "ioread32be hw (fsqm_base + 0x00) w = (v, w')"
    "ucast (v AND 0x7FFF) = s" "pool w' = ss" by blast
  with assms(2) show ?thesis using that by (simp add: falcon_fsqm_alloc_segment_def)
qed

lemma alloc_pool_Nil:
  assumes "pool w = []"
  obtains w' where "falcon_fsqm_alloc_segment hw fsqm_base w = (FALCON_FSQM_NULL_SEGMENT, w')" "pool w' = []"
  using alloc_none[OF assms] that by (auto simp: falcon_fsqm_alloc_segment_def)

text \<open>A transmission takes one segment when it succeeds and none when it fails.\<close>

lemma pdu_write_pool:
  assumes "falcon_net_pdu_write hw memcpy_toio sram_base fsqm_base link_base data len w = (r, w')"
    and valid: "list_all (\<lambda>s. s < FALCON_FSQM_NULL_SEGMENT) (pool w)"
  shows "if data = None \<or> len = 0 then r = - EINVAL \<and> w' = w
    else if pool w = [] then r = - ENOMEM \<and> pool w' = []
    else r = 0 \<and> pool w' = tl (pool w) \<or> r = - EBUSY \<and> pool w' = rotate1 (pool w)"
proof (cases "data = None \<or> len = 0")
  case True
  with assms show ?thesis by (auto simp: falcon_net_pdu_write_def split: option.splits)
next
  case False
  then obtain p where p: "data = Some p" "len \<noteq> 0" by auto
  show ?thesis
  proof (cases "pool w")
    case Nil
    then obtain w1 where "falcon_fsqm_alloc_segment hw fsqm_base w = (FALCON_FSQM_NULL_SEGMENT, w1)" "pool w1 = []"
      by (rule alloc_pool_Nil)
    with assms p Nil show ?thesis by (simp add: falcon_net_pdu_write_def)
  next
    case (Cons s ss)
    with valid have s: "s < FALCON_FSQM_NULL_SEGMENT" by simp
    from Cons s obtain w1 where w1: "falcon_fsqm_alloc_segment hw fsqm_base w = (s, w1)" "pool w1 = ss"
      "s \<noteq> FALCON_FSQM_NULL_SEGMENT" by (rule alloc_pool_Cons)
    show ?thesis
      using assms(1) p w1 Cons s
      by (auto simp: falcon_net_pdu_write_def falcon_fsqm_free_segment_def Let_def case_prod_beta push_desc_pool
          wait_pool toio_keeps release split: if_splits)
  qed
qed

end

lemma seg_mask: "unat s < 2 ^ 15 \<Longrightarrow> s AND 0x7FFF = s" for s :: "'a :: len word"
proof -
  have m: "(0x7FFF :: 'a word) = mask 15" by (simp add: mask_eq_exp_minus_1)
  assume "unat s < 2 ^ 15"
  then show ?thesis unfolding m by (rule and_mask_less)
qed

lemma ucast_down_up: "(ucast (ucast (s :: u16) :: u32) :: u16) = s"
  by (rule bit_word_eqI) (simp add: bit_simps)

lemma ucast_mask: "(ucast (ucast (s :: u16) AND 0x7FFF :: u32) :: u16) = s AND 0x7FFF"
proof -
  have m: "(0x7FFF :: u32) = mask 15" "(0x7FFF :: u16) = mask 15" by (simp_all add: mask_eq_exp_minus_1)
  show ?thesis unfolding m by (rule bit_word_eqI) (auto simp: bit_simps)
qed

lemma seg_ok_mask: "s < FALCON_FSQM_NULL_SEGMENT \<Longrightarrow> s AND 0x7FFF = s"
  by (rule seg_mask) (simp add: word_less_nat_alt)

interpretation gpe: fsqm "gpe_dev_hw 0x1000 0x2000" gpe_dev_toio "0x1000" "0x2000" "\<lambda>d. map (\<lambda>s. s AND 0x7FFF) (free_segs d)"
proof
  show "map (\<lambda>s. s AND 0x7FFF) (free_segs (iowrite32be (gpe_dev_hw 0x1000 0x2000) v (0x2000 + r) w)) =
      map (\<lambda>s. s AND 0x7FFF) (free_segs w)" if "r < 0x100" for r v and w :: gpe_dev
  proof -
    from that have "unat r < 0x100" by (simp add: word_less_nat_alt)
    then have "unat (0x2000 + r) \<noteq> unat (0x1004 :: u32)" by (simp add: unat_word_ariths)
    then have "0x2000 + r \<noteq> 0x1004" by metis
    then show ?thesis by (simp add: gpe_dev_hw_def)
  qed
qed (auto simp: gpe_dev_hw_def gpe_dev_toio_def ucast_mask seg_ok_mask split: list.split)

section \<open>Lemmas\<close>

text \<open>The wait gives up exactly when every one of its polls found no free slot.\<close>

lemma wait_timeout:
  "0 < n \<Longrightarrow> fst (wait_link_slot hw link_base n w) = 0 \<longleftrightarrow> (\<forall>v \<in> set (link_polls hw link_base n w). v AND 0x1F = 0)"
  by (induction n arbitrary: w) (auto simp: Let_def case_prod_beta word_gt_0)

lemma pe_offset_unat:
  assumes "core < 2" "i < 0x4000"
  shows "unat (pe_offset core i) = 4 * (0x4000 * core + i + 0x2000)"
proof -
  have "unat (push_bit 14 (of_nat core :: u32)) = 0x4000 * core"
    using assms(1) by (simp add: less_2_cases_iff) auto
  then have "unat (push_bit 14 (of_nat core :: u32) + of_nat i + 0x2000) = 0x4000 * core + i + 0x2000"
    using assms by (simp add: unat_word_ariths unat_of_nat)
  moreover have "unat (push_bit 2 (x :: u32)) = 4 * unat x" if "unat x < 2 ^ 30" for x
    using that by (simp add: push_bit_eq_mult unat_word_ariths)
  ultimately show ?thesis using assms by (simp add: pe_offset_def)
qed

lemma pe_offset_inj:
  assumes "core < 2" "core' < 2" "i < 0x4000" "i' < 0x4000"
  shows "pe_offset core i = pe_offset core' i' \<longleftrightarrow> core = core' \<and> i = i'"
proof
  assume "pe_offset core i = pe_offset core' i'"
  then have "0x4000 * core + i = 0x4000 * core' + i'"
    using pe_offset_unat[of core i] pe_offset_unat[of core' i'] assms by simp
  moreover from this have "core = core'" using assms by (auto simp: less_2_cases_iff)
  ultimately show "core = core' \<and> i = i'" by simp
qed simp

context register_file
begin

lemma load_core_word:
  assumes "core < 2" "i < (length img - 16) div 4" "(length img - 16) div 4 \<le> 0x4000"
    and "pe_ram + pe_offset core i \<noteq> pctrl + PCTRL_REG_RUN"
  shows "reg (load_core hw pctrl pe_ram img core w) (pe_ram + pe_offset core i) = fw_word img i"
proof -
  have "inj_on (\<lambda>i. pe_ram + pe_offset core i) (set [0..<(length img - 16) div 4])"
    using assms by (auto simp: inj_on_def pe_offset_inj)
  from fold_write[OF _ this, of i] assms show ?thesis by (simp add: load_core_def Let_def write_reg)
qed

lemma load_core_other:
  assumes "a \<notin> {pctrl + PCTRL_REG_RESET, pctrl + PCTRL_REG_RUN}"
    and "\<And>i. i < (length img - 16) div 4 \<Longrightarrow> a \<noteq> pe_ram + pe_offset core i"
  shows "reg (load_core hw pctrl pe_ram img core w) a = reg w a"
proof -
  have "a \<notin> (\<lambda>i. pe_ram + pe_offset core i) ` set [0..<(length img - 16) div 4]" 
    unfolding image_iff set_upt using assms(2) by (metis atLeastLessThan_iff)
  from fold_write_other[OF this] assms(1) show ?thesis by (simp add: load_core_def Let_def write_reg)
qed

end

section \<open>Properties\<close>

text \<open>
  A firmware image of at least 16 octets and at most 0x4000 instruction words is loaded into both
  cores: afterwards word i of the instruction memory of core 0 and of core 1 holds the i-th big-endian
  word behind the 16-octet header, provided the control registers lie outside the instruction memory.
  A shorter image is refused and a loader error is passed on, without any register access.
\<close>

theorem gpe_firmware_loaded:
  assumes "register_file hw reg plain"
    and "\<And>c i. c < 2 \<Longrightarrow> i < 0x4000 \<Longrightarrow> pe_ram + pe_offset c i \<noteq> pctrl + PCTRL_REG_RESET \<and> pe_ram + pe_offset c i \<noteq> pctrl + PCTRL_REG_RUN"
    and "falcon_gpe_load_firmware hw rf pctrl pe_ram name w = (r, w')"
    and "res = rf (case name of Some n \<Rightarrow> n | None \<Rightarrow> ''sfu/falcon_gpe_fw.bin'')"
  shows "case res of
      Inl e \<Rightarrow> r = e \<and> w' = w
    | Inr img \<Rightarrow> if length img < 16 then r = - EINVAL \<and> w' = w
        else r = 0 \<and> ((length img - 16) div 4 \<le> 0x4000 \<longrightarrow>
          (\<forall>core i. core < 2 \<longrightarrow> i < (length img - 16) div 4 \<longrightarrow> reg w' (pe_ram + pe_offset core i) = fw_word img i))"
proof -
  have "reg (load_core hw pctrl pe_ram img (Suc 0) (load_core hw pctrl pe_ram img 0 w)) (pe_ram + pe_offset core i) = fw_word img i"
    if a: "core < 2" "i < (length img - 16) div 4" "(length img - 16) div 4 \<le> 0x4000" for img core i
  proof (cases "core = Suc 0")
    case True
    with register_file.load_core_word[OF assms(1) a] assms(2)[of core i] a show ?thesis by simp
  next
    case False
    with a(1) have c: "core = 0" by simp
    have "pe_ram + pe_offset core i \<noteq> pe_ram + pe_offset (Suc 0) j" if "j < (length img - 16) div 4" for j
      using pe_offset_inj[of core "Suc 0" i j] a that c by simp
    then show ?thesis
      using register_file.load_core_other[OF assms(1)] register_file.load_core_word[OF assms(1) a] assms(2)[of core i] a c
      by simp
  qed
  then show ?thesis
    using assms(3,4) by (auto simp: falcon_gpe_load_firmware_def numeral_2_eq_2 split: sum.splits if_splits)
qed

lemma gpe_firmware_loaded_witness:
  "snd (falcon_gpe_load_firmware bank_hw (\<lambda>_. Inr (replicate 16 0 @ [1, 2, 3, 4])) 0 0x100000 None (\<lambda>_. 0))
     (0x100000 + pe_offset 1 0) = 0x01020304"
proof -
  let ?img = "replicate 16 0 @ [1, 2, 3, 4] :: u8 list"
  have sep: "0x100000 + pe_offset c i \<noteq> 0 + PCTRL_REG_RESET \<and> 0x100000 + pe_offset c i \<noteq> 0 + PCTRL_REG_RUN"
    if "c < 2" "i < 0x4000" for c i
  proof -
    have "unat (0x100000 + pe_offset c i) = 0x100000 + unat (pe_offset c i)"
      using pe_offset_unat[OF that] that by (simp add: unat_word_ariths)
    then have "unat (0x100000 + pe_offset c i) \<noteq> unat (PCTRL_REG_RESET :: u32)"
      "unat (0x100000 + pe_offset c i) \<noteq> unat (PCTRL_REG_RUN :: u32)" by simp_all
    then show ?thesis by (metis add_0)
  qed
  from gpe_firmware_loaded[OF bank.register_file_axioms sep prod.collapse[symmetric] refl,
      of "\<lambda>_. Inr ?img" None "\<lambda>_. 0"]
  have "snd (falcon_gpe_load_firmware bank_hw (\<lambda>_. Inr ?img) 0 0x100000 None (\<lambda>_. 0)) (0x100000 + pe_offset 1 0) = fw_word ?img 0"
    by (simp add: bank_hw_def)
  also have "\<dots> = 0x01020304" by (simp add: fw_word_def be32_def nth_append)
  finally show ?thesis .
qed

text \<open>
  C33: A transmission never leaks a segment. Without data it is refused and nothing is touched; with
  an empty pool it fails with ENOMEM; otherwise it either succeeds and keeps exactly the segment it took,
  which now belongs to the descriptor, or fails with EBUSY and has returned the segment to the pool. It fails with
  EBUSY exactly when a thousand polls of the link FIFO found no free slot.
\<close>

theorem pdu_write_no_leak:
  assumes "fsqm hw toio fsqm_base link_base pool" "list_all (\<lambda>s. s < FALCON_FSQM_NULL_SEGMENT) (pool w)"
    and "falcon_net_pdu_write hw toio sram_base fsqm_base link_base data len w = (r, w')"
  shows "(if data = None \<or> len = 0 then r = - EINVAL \<and> w' = w
    else if pool w = [] then r = - ENOMEM \<and> pool w' = []
    else r = 0 \<and> pool w' = tl (pool w) \<or> r = - EBUSY \<and> pool w' = rotate1 (pool w))
    \<and> (\<forall>p seg w1. data = Some p \<longrightarrow> len \<noteq> 0 \<longrightarrow> falcon_fsqm_alloc_segment hw fsqm_base w = (seg, w1) \<longrightarrow>
        seg \<noteq> FALCON_FSQM_NULL_SEGMENT \<longrightarrow> (r = - EBUSY \<longleftrightarrow>
          (\<forall>v \<in> set (link_polls hw link_base 1000 (toio (sram_base + push_bit 6 (ucast seg)) (map p [0..<unat len]) w1)).
             v AND 0x1F = 0)))"
proof
  show "\<forall>p seg w1. data = Some p \<longrightarrow> len \<noteq> 0 \<longrightarrow> falcon_fsqm_alloc_segment hw fsqm_base w = (seg, w1) \<longrightarrow>
        seg \<noteq> FALCON_FSQM_NULL_SEGMENT \<longrightarrow> (r = - EBUSY \<longleftrightarrow>
          (\<forall>v \<in> set (link_polls hw link_base 1000 (toio (sram_base + push_bit 6 (ucast seg)) (map p [0..<unat len]) w1)).
             v AND 0x1F = 0))"
    using assms(3) by (auto simp: falcon_net_pdu_write_def Let_def case_prod_beta simp flip: wait_timeout split: if_splits)
qed (rule fsqm.pdu_write_pool[OF assms(1,3,2)])

lemma pdu_write_no_leak_witness:
  "free_segs (snd (falcon_net_pdu_write (gpe_dev_hw 0x1000 0x2000) gpe_dev_toio 0 0x1000 0x2000 (Some (\<lambda>_. 7)) 60
      \<lparr>free_segs = [5, 6], slots = [], sram = (\<lambda>_. 0), gpe_log = []\<rparr>)) \<noteq> []"
  using pdu_write_no_leak[OF gpe.fsqm_axioms _ prod.collapse[symmetric], where sram_base = 0 and data = "Some (\<lambda>_. 7)" and len = 60 and
      w = "\<lparr>free_segs = [5, 6], slots = [], sram = (\<lambda>_. 0), gpe_log = []\<rparr>"]
  by auto

text \<open>
  The descriptor of a transmission names the segment in the upper and the packet length in the
  lower half of its first word, so the segment and every length below 2 to the 16 can be read back,
  and its third word is the end-of-packet marker.
\<close>

theorem pdu_desc_decodes:
  "ucast (drop_bit 16 (word0 (pdu_desc seg len))) = seg
   \<and> unat (word0 (pdu_desc seg len) AND 0xFFFF) = unat len mod 2 ^ 16
   \<and> drop_bit 16 (word2 (pdu_desc seg len)) = 0x7FFF"
proof -
  have m: "(0xFFFF :: u32) = mask 16" by (simp add: mask_eq_exp_minus_1)
  have low: "word0 (pdu_desc seg len) AND mask 16 = len AND mask 16"
    unfolding pdu_desc_def m by (rule bit_word_eqI) (auto simp: bit_simps)
  have "ucast (drop_bit 16 (word0 (pdu_desc seg len))) = seg"
    unfolding pdu_desc_def m by (rule bit_word_eqI) (simp add: bit_simps)
  with low unat_and_mask[of len 16] show ?thesis unfolding m by (simp add: pdu_desc_def)
qed

end
