(* ===== verification/Falcon_Onu_Dev.thy ===== *)
theory Falcon_Onu_Dev
  imports Falcon_Ploam
begin

text \<open>
  The character devices of \<^verbatim>\<open>falcon_onu_dev.c\<close>: the event ring between the driver and the OMCI
  daemon, which drops its oldest event when full, the notification callbacks that fill it, and the
  ioctl handlers of \<^verbatim>\<open>/dev/onu0\<close> and \<^verbatim>\<open>/dev/optic0\<close>. Multi-octet fields are in the target's
  big-endian order. The kernel's user-memory access and device registration are parameters.
\<close>

section \<open>Data\<close>

text \<open>
  A FIFO entry: the packed header and the 2048 octets of the data union.
\<close>

record onu_fifo_data =
  ev_id :: u32
  ev_len :: u32
  ev_data :: "u8 list"

record falcon_onu_event_ring =
  events :: "onu_fifo_data list"
  head :: u32
  tail :: u32

abbreviation (input) EAGAIN :: int where "EAGAIN \<equiv> 11"
abbreviation (input) EFAULT :: int where "EFAULT \<equiv> 14"
abbreviation (input) ONU_FIFO_DEPTH :: nat where "ONU_FIFO_DEPTH \<equiv> 64"
abbreviation (input) ONU_MAGIC :: u32 where "ONU_MAGIC \<equiv> 1"
abbreviation (input) ONU_EVENT_MAGIC :: u32 where "ONU_EVENT_MAGIC \<equiv> 2"
abbreviation (input) GPE_MAGIC :: u32 where "GPE_MAGIC \<equiv> 4"
abbreviation (input) OPTIC_MAGIC :: u32 where "OPTIC_MAGIC \<equiv> 9"
abbreviation (input) OPTIC_EVENT_MAGIC :: u32 where "OPTIC_EVENT_MAGIC \<equiv> 10"
abbreviation (input) ONU_EVENT_STATE_CHANGE :: u32 where "ONU_EVENT_STATE_CHANGE \<equiv> 3"
abbreviation (input) ONU_EVENT_OMCI_RECEIVE :: u32 where "ONU_EVENT_OMCI_RECEIVE \<equiv> 4"
abbreviation (input) ONU_GPE_MAX_OMCI_FRAME_LEN :: u32 where "ONU_GPE_MAX_OMCI_FRAME_LEN \<equiv> 1980"

definition be32_bytes :: "u32 \<Rightarrow> u8 list" where
  "be32_bytes w = [octet 24 w, octet 16 w, octet 8 w, octet 0 w]"

text \<open>The octets of an entry in memory.\<close>

definition ev_bytes :: "onu_fifo_data \<Rightarrow> u8 list" where
  "ev_bytes ev = be32_bytes (ev_id ev) @ be32_bytes (ev_len ev) @ ev_data ev"

section \<open>The event ring\<close>

text \<open>The entry after the copy: the data octets over the slot's old ones, or the slot cleared.\<close>

definition fill_entry :: "u32 \<Rightarrow> (nat \<Rightarrow> u8) option \<Rightarrow> u32 \<Rightarrow> onu_fifo_data \<Rightarrow> onu_fifo_data" where
  "fill_entry eid data len entry =
    entry\<lparr>ev_id := eid, ev_len := len,
          ev_data := (case data of
              Some p \<Rightarrow> if 0 < len then map p [0..<unat len] @ drop (unat len) (ev_data entry) else replicate 2048 0
            | None \<Rightarrow> replicate 2048 0)\<rparr>"

definition falcon_onu_push_event ::
    "u32 \<Rightarrow> (nat \<Rightarrow> u8) option \<Rightarrow> u32 \<Rightarrow> falcon_onu_event_ring \<Rightarrow> falcon_onu_event_ring" where
  "falcon_onu_push_event eid data len ring =
    (let len = (if 2048 < len then 2048 else len);
         next = (head ring + 1) mod 64;
         ring = (if next = tail ring then ring\<lparr>tail := (tail ring + 1) mod 64\<rparr> else ring);
         entry = fill_entry eid data len (events ring ! unat (head ring))
     in ring\<lparr>events := (events ring)[unat (head ring) := entry], head := next\<rparr>)"

definition falcon_onu_notify_ploam_state ::
    "gpon_ploam_state \<Rightarrow> gpon_ploam_state \<Rightarrow> falcon_onu_event_ring \<Rightarrow> falcon_onu_event_ring" where
  "falcon_onu_notify_ploam_state new_state old_state =
    (let st = be32_bytes (ploam_state_code new_state) @ be32_bytes (ploam_state_code old_state) @ be32_bytes 0
     in falcon_onu_push_event ONU_EVENT_STATE_CHANGE (Some ((!) st)) 12)"

definition falcon_onu_notify_omci_rx ::
    "(nat \<Rightarrow> u8) option \<Rightarrow> u32 \<Rightarrow> falcon_onu_event_ring \<Rightarrow> falcon_onu_event_ring" where
  "falcon_onu_notify_omci_rx data len ring =
    (case data of None \<Rightarrow> ring
     | Some p \<Rightarrow>
       if len = 0 then ring
       else
         let n = (if ONU_GPE_MAX_OMCI_FRAME_LEN < len then ONU_GPE_MAX_OMCI_FRAME_LEN else len);
             msg = be32_bytes n @ map p [0..<unat n]
         in falcon_onu_push_event ONU_EVENT_OMCI_RECEIVE (Some ((!) msg)) (4 + n) ring)"

definition falcon_onu_poll :: "falcon_onu_event_ring \<Rightarrow> bool" where
  "falcon_onu_poll ring \<longleftrightarrow> head ring \<noteq> tail ring"

definition ring_pop_event :: "falcon_onu_event_ring \<Rightarrow> (onu_fifo_data \<times> falcon_onu_event_ring) option" where
  "ring_pop_event ring =
    (if head ring = tail ring then None
     else Some (events ring ! unat (tail ring), ring\<lparr>tail := (tail ring + 1) mod 64\<rparr>))"

section \<open>ioctl\<close>

text \<open>The fields of an ioctl command word; \<^verbatim>\<open>ioc_read\<close> is the read bit of its direction.\<close>

record ioctl_cmd =
  ioc_type :: u32
  ioc_nr :: u32
  ioc_size :: u32
  ioc_read :: bool

text \<open>
  User memory: the copies return the number of octets they could not transfer; \<^verbatim>\<open>copy_from_user\<close>
  also returns the octets obtained.
\<close>

record 'u uaccess =
  copy_to_user :: "u32 \<Rightarrow> u8 list \<Rightarrow> 'u \<Rightarrow> nat \<times> 'u"
  copy_from_user :: "u32 \<Rightarrow> nat \<Rightarrow> 'u \<Rightarrow> nat \<times> u8 list \<times> 'u"
  clear_user :: "u32 \<Rightarrow> nat \<Rightarrow> 'u \<Rightarrow> nat \<times> 'u"

definition put_user_bytes :: "'u uaccess \<Rightarrow> u32 \<Rightarrow> u8 list \<Rightarrow> 'u \<Rightarrow> int \<times> 'u" where
  "put_user_bytes ua argp bs u =
    (let (left, u) = copy_to_user ua argp bs u in if left \<noteq> 0 then (- EFAULT, u) else (0, u))"

definition gpe_capability :: "u8 list" where
  "gpe_capability = concat (map be32_bytes [64, 32, 1, 0, 8, 0x01, 0])"

definition strscpy80 :: "string \<Rightarrow> u8 list" where
  "strscpy80 s = (let bs = take 79 (map of_char s) in bs @ replicate (80 - length bs) 0)"

definition onu_version_string :: "u8 list" where
  "onu_version_string = concat (map strscpy80
    [''OpenWrt 25 GPON Falcon'', ''6.12.108-gpon'', ''1.0'', ''4.5.0'', ''PEF98036'', ''SFP-ONU''])"

definition ioctl_default :: "'u uaccess \<Rightarrow> ioctl_cmd \<Rightarrow> u32 \<Rightarrow> 'u \<Rightarrow> int \<times> 'u" where
  "ioctl_default ua cmd argp u =
    (if ioc_read cmd \<and> 0 < ioc_size cmd \<and> argp \<noteq> 0 then
       let (left, u) = clear_user ua argp (unat (ioc_size cmd)) u
       in if left \<noteq> 0 then (- EFAULT, u) else (0, u)
     else (0, u))"

definition falcon_onu_ioctl ::
    "'u uaccess \<Rightarrow> ioctl_cmd \<Rightarrow> u32 \<Rightarrow> falcon_onu_event_ring \<times> 'u \<Rightarrow> int \<times> falcon_onu_event_ring \<times> 'u" where
  "falcon_onu_ioctl ua cmd argp = (\<lambda>(ring, u).
    if ioc_type cmd = ONU_EVENT_MAGIC \<and> ioc_nr cmd = 200 then
      (case ring_pop_event ring of None \<Rightarrow> (- EAGAIN, ring, u)
       | Some (ev, ring) \<Rightarrow>
           let copy_len = 8 + ev_len ev;
               copy_len = (if 0 < ioc_size cmd \<and> ioc_size cmd < copy_len then ioc_size cmd else copy_len);
               (r, u) = put_user_bytes ua argp (take (unat copy_len) (ev_bytes ev)) u
           in (r, ring, u))
    else if ioc_type cmd = GPE_MAGIC \<and> ioc_nr cmd = 0x61 then
      (let (r, u) = put_user_bytes ua argp (take (unat (ioc_size cmd)) gpe_capability) u in (r, ring, u))
    else if ioc_type cmd = GPE_MAGIC \<and> ioc_nr cmd = 0x24 then
      (let (left, tx_msg, u) = copy_from_user ua argp 1984 u in if left \<noteq> 0 then (- EFAULT, ring, u) else (0, ring, u))
    else if ioc_type cmd = ONU_MAGIC \<and> ioc_nr cmd = 4 then
      (let (r, u) = put_user_bytes ua argp (take (unat (ioc_size cmd)) onu_version_string) u in (r, ring, u))
    else if ioc_type cmd = ONU_MAGIC \<and> ioc_nr cmd = 6 then
      (let (r, u) = put_user_bytes ua argp (be32_bytes 1) u in (r, ring, u))
    else (let (r, u) = ioctl_default ua cmd argp u in (r, ring, u)))"

definition falcon_optic_ioctl :: "'u uaccess \<Rightarrow> ioctl_cmd \<Rightarrow> u32 \<Rightarrow> 'u \<Rightarrow> int \<times> 'u" where
  "falcon_optic_ioctl ua cmd argp u =
    (if ioc_type cmd = OPTIC_EVENT_MAGIC \<and> ioc_nr cmd = 0 then (- EAGAIN, u)
     else if ioc_type cmd = OPTIC_MAGIC \<and> ioc_nr cmd = 4 then
       put_user_bytes ua argp (take (unat (ioc_size cmd)) (strscpy80 ''6.12-bosa-1.0'')) u
     else ioctl_default ua cmd argp u)"

section \<open>Registration\<close>

text \<open>
  The misc-device registry: registration returns an error number, 0 for success. The state is the set
  of registered names beside the ring.
\<close>

definition falcon_onu_dev_init ::
    "(string \<Rightarrow> int) \<Rightarrow> falcon_onu_event_ring \<times> string list \<Rightarrow> int \<times> falcon_onu_event_ring \<times> string list" where
  "falcon_onu_dev_init misc_register = (\<lambda>(ring, devs).
    let ring = ring\<lparr>head := 0, tail := 0\<rparr>;
        ret = misc_register ''onu0''
    in if ret \<noteq> 0 then (ret, ring, devs)
       else
         let devs = ''onu0'' # devs;
             ret = misc_register ''optic0''
         in if ret \<noteq> 0 then (ret, ring, removeAll ''onu0'' devs)
            else (0, ring, ''optic0'' # devs))"

definition falcon_onu_dev_exit :: "string list \<Rightarrow> string list" where
  "falcon_onu_dev_exit devs = removeAll ''onu0'' (removeAll ''optic0'' devs)"

section \<open>Abstraction\<close>

definition onu_ring_inv :: "falcon_onu_event_ring \<Rightarrow> bool" where
  "onu_ring_inv ring \<longleftrightarrow> head ring < 64 \<and> tail ring < 64 \<and> length (events ring) = 64
     \<and> list_all (\<lambda>e. length (ev_data e) = 2048 \<and> ev_len e \<le> 2048) (events ring)"

definition onu_ring_list :: "falcon_onu_event_ring \<Rightarrow> onu_fifo_data list" where
  "onu_ring_list ring = ring_elems 64 (events ring) (unat (head ring)) (unat (tail ring))"

text \<open>What a reader can tell of an event: its identifier and the octets its length covers.\<close>

definition ev_view :: "onu_fifo_data \<Rightarrow> u32 \<times> u8 list" where
  "ev_view e = (ev_id e, take (unat (ev_len e)) (ev_data e))"

definition onu_ring_view :: "falcon_onu_event_ring \<Rightarrow> (u32 \<times> u8 list) list" where
  "onu_ring_view ring = map ev_view (onu_ring_list ring)"

text \<open>The last \<^term>\<open>n\<close> elements of a list.\<close>

definition last_n :: "nat \<Rightarrow> 'a list \<Rightarrow> 'a list" where
  "last_n n xs = drop (length xs - n) xs"

text \<open>Pushing a whole list of octets.\<close>

definition push_view :: "u32 \<times> u8 list \<Rightarrow> falcon_onu_event_ring \<Rightarrow> falcon_onu_event_ring" where
  "push_view e = falcon_onu_push_event (fst e) (Some ((!) (snd e))) (of_nat (length (snd e)))"

text \<open>The statically zeroed ring, and user memory that accepts every transfer.\<close>

definition zero_ring :: falcon_onu_event_ring where
  "zero_ring = \<lparr> events = replicate 64 \<lparr> ev_id = 0, ev_len = 0, ev_data = replicate 2048 0 \<rparr>, head = 0, tail = 0 \<rparr>"

definition user_log :: "(u32 \<times> u8 list) list uaccess" where
  "user_log = \<lparr> copy_to_user = (\<lambda>a bs u. (0, u @ [(a, bs)])), copy_from_user = (\<lambda>a n u. (0, replicate n 0, u)),
     clear_user = (\<lambda>a n u. (0, u @ [(a, replicate n 0)])) \<rparr>"

text \<open>The octets an event read transfers.\<close>

definition copy_count :: "u32 \<Rightarrow> onu_fifo_data \<Rightarrow> nat" where
  "copy_count sz e = (if 0 < sz \<and> unat sz < 8 + unat (ev_len e) then unat sz else 8 + unat (ev_len e))"

section \<open>Lemmas\<close>

lemma ring_next64: "x < 64 \<Longrightarrow> unat ((x + 1) mod 64 :: u32) = Suc (unat x) mod 64"
proof -
  assume "x < 64"
  then have "unat x < 64" by (simp add: word_less_nat_alt)
  then have "unat (x + 1) = Suc (unat x)" by (simp add: unat_word_ariths)
  then show ?thesis by (simp add: unat_mod_distrib)
qed

lemma ring_bound64: "((x :: u32) mod 64) < 64"
  by (simp add: word_less_nat_alt unat_mod_distrib)

lemma onu_inv_unat:
  "onu_ring_inv r \<Longrightarrow> unat (head r) < 64 \<and> unat (tail r) < 64 \<and> length (events r) = 64"
  by (simp add: onu_ring_inv_def word_less_nat_alt)

lemma fill_entry_ok:
  assumes "length (ev_data e) = 2048" "n \<le> 2048"
  shows "length (ev_data (fill_entry i d n e)) = 2048 \<and> ev_len (fill_entry i d n e) \<le> 2048"
  using assms by (auto simp: fill_entry_def word_le_nat_alt split: option.split)

lemma push_event_inv:
  assumes "onu_ring_inv r"
  shows "onu_ring_inv (falcon_onu_push_event i d n r)"
proof -
  have e: "length (ev_data (events r ! unat (head r))) = 2048"
    using assms onu_inv_unat[OF assms] by (auto simp: onu_ring_inv_def list_all_length)
  show ?thesis
    using assms fill_entry_ok[OF e, of "if 2048 < n then 2048 else n" i d]
    by (auto simp: onu_ring_inv_def falcon_onu_push_event_def Let_def ring_bound64 list_all_iff
        dest!: set_update_subset_insert[THEN subsetD] split: if_splits)
qed

text \<open>The list of waiting events after a push: at most the 63 newest.\<close>

lemma push_event_list:
  assumes "onu_ring_inv r"
  shows "onu_ring_list (falcon_onu_push_event i d n r) =
    last_n 63 (onu_ring_list r @ [fill_entry i d (if 2048 < n then 2048 else n) (events r ! unat (head r))])"
proof -
  let ?h = "unat (head r)" and ?t = "unat (tail r)"
  let ?e = "fill_entry i d (if 2048 < n then 2048 else n) (events r ! ?h)"
  have b: "?h < 64" "?t < 64" "length (events r) = 64" and lt: "head r < 64" "tail r < 64"
    using onu_inv_unat[OF assms] assms by (simp_all add: onu_ring_inv_def)
  show ?thesis
  proof (cases "(head r + 1) mod 64 = tail r")
    case True
    then have t: "Suc ?h mod 64 = ?t" using ring_next64[OF lt(1)] by simp
    then have len: "ring_len 64 ?h ?t = 63" "?h \<noteq> ?t" using b by (auto simp: ring_next ring_len_split split: if_splits)
    let ?t' = "Suc ?t mod 64"
    have p: "ring_elems 64 (events r) ?h ?t = events r ! ?t # ring_elems 64 (events r) ?h ?t'"
      using b(1,2) len(2) by (rule ring_pop)
    then have len': "ring_len 64 ?h ?t' = 62" using len(1) by (metis ring_elems_length length_Cons nat.inject numeral_eq_Suc pred_numeral_simps(3) BitM.simps)
    then have "ring_elems 64 ((events r)[?h := ?e]) (Suc ?h mod 64) ?t' = ring_elems 64 (events r) ?h ?t' @ [?e]"
      using b by (intro ring_push) simp_all
    with True t p len' lt show ?thesis
      by (simp add: onu_ring_list_def falcon_onu_push_event_def Let_def last_n_def ring_next64)
  next
    case False
    then have "Suc ?h mod 64 \<noteq> ?t" using ring_next64[OF lt(1)] by (metis word_unat_eq_iff)
    then have "ring_len 64 ?h ?t < 63" using b ring_full_push_empty[of ?h 64 ?t] ring_len_less[of 64 ?h ?t] by fastforce
    with False b lt show ?thesis
      by (simp add: onu_ring_list_def falcon_onu_push_event_def Let_def last_n_def ring_next64 ring_push)
  qed
qed

lemma last_n_append: "last_n n (last_n n xs @ [x]) = last_n n (xs @ [x])" if "0 < n"
  using that by (cases "length xs \<le> n") (auto simp: last_n_def Suc_diff_le)

lemma fill_entry_view:
  "length (ev_data e) = 2048 \<Longrightarrow> n \<le> 2048 \<Longrightarrow> ev_view (fill_entry i (Some p) n e) = (i, map p [0..<unat n])"
  by (auto simp: ev_view_def fill_entry_def word_le_nat_alt word_less_nat_alt)

lemma push_event_view:
  assumes "onu_ring_inv r" "n \<le> 2048"
  shows "onu_ring_view (falcon_onu_push_event i (Some p) n r) = last_n 63 (onu_ring_view r @ [(i, map p [0..<unat n])])"
proof -
  have "length (ev_data (events r ! unat (head r))) = 2048"
    using assms onu_inv_unat[OF assms(1)] by (auto simp: onu_ring_inv_def list_all_length)
  with assms show ?thesis
    by (simp add: onu_ring_view_def push_event_list last_n_def fill_entry_view flip: drop_map)
qed

lemma push_view_view:
  assumes "onu_ring_inv r" "length (snd e) \<le> 2048"
  shows "onu_ring_view (push_view e r) = last_n 63 (onu_ring_view r @ [e])"
proof -
  have "unat (of_nat (length (snd e)) :: u32) = length (snd e)" using assms(2) by (simp add: unat_of_nat)
  with assms push_event_view[of r "of_nat (length (snd e))" "fst e" "(!) (snd e)"] show ?thesis
    by (simp add: push_view_def word_le_nat_alt map_nth)
qed

lemma pop_event_Some:
  assumes "onu_ring_inv r" "ring_pop_event r = Some (e, r')"
  shows "onu_ring_list r = e # onu_ring_list r' \<and> onu_ring_inv r'"
  using assms onu_inv_unat[OF assms(1)]
  by (auto simp: ring_pop_event_def onu_ring_list_def onu_ring_inv_def ring_next64 ring_bound64
      intro!: ring_pop dest: word_unat_eq_iff[THEN iffD2] split: if_splits)

lemma pop_event_None: "onu_ring_inv r \<Longrightarrow> ring_pop_event r = None \<longleftrightarrow> onu_ring_list r = []"
  using onu_inv_unat[of r] by (auto simp: ring_pop_event_def onu_ring_list_def ring_elems_empty dest: word_unat_eq_iff[THEN iffD2])

lemma onu_ring_list_bound: "length (onu_ring_list r) \<le> 63"
  using ring_len_less[of 64 "unat (head r)" "unat (tail r)"] by (simp add: onu_ring_list_def)

interpretation onu_ring: bounded_fifo onu_ring_inv onu_ring_view push_view
  "\<lambda>r. map_option (map_prod ev_view (\<lambda>r. r)) (ring_pop_event r)" 63 "\<lambda>e. length (snd e) \<le> 2048"
proof
  show "onu_ring_inv (push_view x s)" if "onu_ring_inv s" for s x
    using that by (simp add: push_view_def push_event_inv)
  show "onu_ring_view (push_view x s) = onu_ring_view s @ [x]"
    if "onu_ring_inv s" "length (snd x) \<le> 2048" "length (onu_ring_view s) < 63" for s x
    using that by (simp add: push_view_view last_n_def)
  show "(map_option (map_prod ev_view (\<lambda>r. r)) (ring_pop_event s) = None) = (onu_ring_view s = [])"
    if "onu_ring_inv s" for s
    using that by (simp add: pop_event_None onu_ring_view_def)
qed (auto simp: onu_ring_view_def onu_ring_list_bound dest: pop_event_Some)

lemma dev_init_inv:
  "length (events r) = 64 \<Longrightarrow> list_all (\<lambda>e. length (ev_data e) = 2048 \<and> ev_len e \<le> 2048) (events r) \<Longrightarrow>
    onu_ring_inv (r\<lparr>head := 0, tail := 0\<rparr>) \<and> onu_ring_view (r\<lparr>head := 0, tail := 0\<rparr>) = []"
  by (simp add: onu_ring_inv_def onu_ring_view_def onu_ring_list_def ring_elems_def ring_len_def)

lemma zero_ring_ok: "onu_ring_inv zero_ring" "onu_ring_view zero_ring = []" "onu_ring_list zero_ring = []"
  by (simp_all add: zero_ring_def onu_ring_inv_def onu_ring_view_def onu_ring_list_def ring_elems_def ring_len_def list_all_iff)

lemma pop_event_Cons:
  assumes "onu_ring_inv r" "onu_ring_list r = e # es"
  obtains r1 where "ring_pop_event r = Some (e, r1)" "onu_ring_list r1 = es" "onu_ring_inv r1" "unat (ev_len e) \<le> 2048"
proof -
  have "ring_pop_event r \<noteq> None" using pop_event_None[OF assms(1)] assms(2) by simp
  then obtain e' r1 where p: "ring_pop_event r = Some (e', r1)" by auto
  from pop_event_Some[OF assms(1) p] assms(2) have e: "e' = e" "onu_ring_list r1 = es" "onu_ring_inv r1" by auto
  have "e \<in> set (events r)"
    using p e(1) onu_inv_unat[OF assms(1)] by (auto simp: ring_pop_event_def split: if_splits)
  then have "unat (ev_len e) \<le> 2048"
    using assms(1) by (auto simp: onu_ring_inv_def list_all_iff word_le_nat_alt)
  with p e that show ?thesis by simp
qed

lemma event_ioctl_Some:
  assumes "ring_pop_event r = Some (e, r1)" "unat (ev_len e) \<le> 2048" "ioc_type cmd = ONU_EVENT_MAGIC" "ioc_nr cmd = 200"
  shows "falcon_onu_ioctl ua cmd argp (r, u) =
    (let (left, u') = copy_to_user ua argp (take (copy_count (ioc_size cmd) e) (ev_bytes e)) u
     in (if left = 0 then 0 else - EFAULT, r1, u'))"
proof -
  have "unat (8 + ev_len e) = 8 + unat (ev_len e)" using assms(2) by (simp add: unat_word_ariths)
  then have c: "copy_count (ioc_size cmd) e =
      (if 0 < ioc_size cmd \<and> ioc_size cmd < 8 + ev_len e then unat (ioc_size cmd) else unat (8 + ev_len e))"
    by (simp add: copy_count_def word_less_nat_alt)
  show ?thesis
    using assms(1,3,4) unfolding c
    by (cases "0 < ioc_size cmd \<and> ioc_size cmd < 8 + ev_len e")
      (auto simp: falcon_onu_ioctl_def put_user_bytes_def Let_def case_prod_beta)
qed

section \<open>Properties\<close>

text \<open>
  C27: Whatever sequence of events is pushed into an empty ring, the ring holds the newest 63 of
  them, unaltered and in the order of arrival: nothing is dropped before the ring is full, and then the oldest.
\<close>

theorem onu_ring_keeps_newest:
  assumes "onu_ring_inv r" "onu_ring_view r = []" "list_all (\<lambda>e. length (snd e) \<le> 2048) xs"
  shows "onu_ring_inv (fold push_view xs r) \<and> onu_ring_view (fold push_view xs r) = last_n 63 xs"
  using assms(3)
proof (induction xs rule: rev_induct)
  case Nil
  with assms show ?case by (simp add: last_n_def)
next
  case (snoc x xs)
  then show ?case by (simp add: push_view_view last_n_append onu_ring.push_invar)
qed

lemma onu_ring_keeps_newest_witness:
  "onu_ring_view (fold push_view [(3, [1, 2]), (4, [7])] zero_ring) = [(3, [1, 2]), (4, [7])]"
  using onu_ring_keeps_newest[of zero_ring "[(3, [1, 2]), (4, [7])]"] by (simp add: zero_ring_ok last_n_def)

text \<open>
  The event ioctl reports EAGAIN exactly on an empty ring and then changes nothing; otherwise it
  removes the oldest event and hands its header and the octets its length covers to user memory,
  cut to the size encoded in the command when that is smaller, and returns EFAULT only when
  the copy fails.
\<close>

theorem onu_event_ioctl:
  assumes "onu_ring_inv r" "ioc_type cmd = ONU_EVENT_MAGIC" "ioc_nr cmd = 200"
  shows "case onu_ring_list r of
      [] \<Rightarrow> falcon_onu_ioctl ua cmd argp (r, u) = (- EAGAIN, r, u)
    | e # es \<Rightarrow> (\<exists>r'. onu_ring_inv r' \<and> onu_ring_list r' = es \<and>
        falcon_onu_ioctl ua cmd argp (r, u) =
          (let (left, u') = copy_to_user ua argp (take (copy_count (ioc_size cmd) e) (ev_bytes e)) u
           in (if left = 0 then 0 else - EFAULT, r', u')))"
proof (cases "onu_ring_list r")
  case Nil
  with assms pop_event_None[OF assms(1)] show ?thesis by (simp add: falcon_onu_ioctl_def)
next
  case (Cons e es)
  with assms(1) obtain r1 where "ring_pop_event r = Some (e, r1)" "onu_ring_list r1 = es" "onu_ring_inv r1" "unat (ev_len e) \<le> 2048"
    by (rule pop_event_Cons)
  with event_ioctl_Some[of r e r1 cmd ua argp u] assms Cons show ?thesis by auto
qed

lemma onu_event_ioctl_witness:
  "falcon_onu_ioctl user_log \<lparr>ioc_type = 2, ioc_nr = 200, ioc_size = 8, ioc_read = True\<rparr> 0x400 (zero_ring, []) =
    (- EAGAIN, zero_ring, [])"
  using onu_event_ioctl[of zero_ring "\<lparr>ioc_type = 2, ioc_nr = 200, ioc_size = 8, ioc_read = True\<rparr>" user_log "0x400" "[]"]
  by (simp add: zero_ring_ok)

text \<open>
  The command word the daemon uses for reading events encodes the size of the header alone, so
  every event it reads arrives without its data: the copy is cut to the identifier and the length.
\<close>

theorem onu_event_header_only:
  assumes "onu_ring_inv r" "onu_ring_list r = e # es"
    and "cmd = \<lparr>ioc_type = ONU_EVENT_MAGIC, ioc_nr = 200, ioc_size = 8, ioc_read = True\<rparr>"
  shows "\<exists>r'. onu_ring_list r' = es \<and>
    falcon_onu_ioctl user_log cmd argp (r, u) = (0, r', u @ [(argp, be32_bytes (ev_id e) @ be32_bytes (ev_len e))])"
proof -
  from assms(1,2) obtain r1 where p: "ring_pop_event r = Some (e, r1)" "onu_ring_list r1 = es" "unat (ev_len e) \<le> 2048"
    by (rule pop_event_Cons)
  have "take (copy_count 8 e) (ev_bytes e) = be32_bytes (ev_id e) @ be32_bytes (ev_len e)"
    by (simp add: copy_count_def ev_bytes_def be32_bytes_def)
  with p event_ioctl_Some[OF p(1,3), of cmd user_log argp u] assms(3) show ?thesis
    by (simp add: user_log_def)
qed

lemma onu_event_header_only_witness:
  "\<exists>r'. onu_ring_list r' = [] \<and> falcon_onu_ioctl user_log \<lparr>ioc_type = 2, ioc_nr = 200, ioc_size = 8, ioc_read = True\<rparr> 0x400
      (zero_ring\<lparr>head := 1\<rparr>, []) = (0, r', [(0x400, [0, 0, 0, 0, 0, 0, 0, 0])])"
  using onu_event_header_only[of "zero_ring\<lparr>head := 1\<rparr>" "\<lparr>ev_id = 0, ev_len = 0, ev_data = replicate 2048 0\<rparr>" "[]" _ "0x400" "[]", OF _ _ refl]
  by (simp add: zero_ring_def onu_ring_inv_def onu_ring_list_def ring_elems_def ring_len_def list_all_iff be32_bytes_def octet_def)

text \<open>
  A received OMCI frame becomes the newest event, with its length (at most 1980) as a big-endian
  word followed by its octets; a missing or empty frame leaves the ring alone.
\<close>

theorem omci_rx_event:
  assumes "onu_ring_inv r" "n = min (unat len) 1980"
  shows "onu_ring_view (falcon_onu_notify_omci_rx data len r) = (case data of None \<Rightarrow> onu_ring_view r
    | Some p \<Rightarrow> if len = 0 then onu_ring_view r
        else last_n 63 (onu_ring_view r @ [(ONU_EVENT_OMCI_RECEIVE, be32_bytes (of_nat n) @ map p [0..<n])]))"
proof (cases "data = None \<or> len = 0")
  case False
  then obtain p where p: "data = Some p" "len \<noteq> 0" by auto
  let ?n = "if ONU_GPE_MAX_OMCI_FRAME_LEN < len then ONU_GPE_MAX_OMCI_FRAME_LEN else len"
  have n: "unat ?n = n" "of_nat n = ?n" using assms(2) by (auto simp: word_less_nat_alt min_def)
  then have "n \<le> 1980" and u: "unat (4 + ?n) = 4 + n" using assms(2) by (simp_all add: unat_word_ariths)
  moreover have "map ((!) (be32_bytes ?n @ map p [0..<n])) [0..<4 + n] = be32_bytes ?n @ map p [0..<n]"
    by (rule nth_equalityI) (simp_all add: be32_bytes_def)
  ultimately show ?thesis
    using push_event_view[OF assms(1), of "4 + ?n" ONU_EVENT_OMCI_RECEIVE "(!) (be32_bytes ?n @ map p [0..<n])"] p n
    by (simp add: falcon_onu_notify_omci_rx_def Let_def word_le_nat_alt)
qed (auto simp: falcon_onu_notify_omci_rx_def split: option.split)

lemma omci_rx_event_witness:
  "onu_ring_view (falcon_onu_notify_omci_rx (Some (\<lambda>i. 9)) 2 zero_ring) = [(4, [0, 0, 0, 2, 9, 9])]"
  using omci_rx_event[of zero_ring 2 2 "Some (\<lambda>i. 9)"]
  by (simp add: zero_ring_ok last_n_def be32_bytes_def octet_def upt_rec)

end
