(* ===== verification/Falcon_Core.thy ===== *)
theory Falcon_Core
  imports Falcon_Ploam Falcon_Bosa Falcon_Dma Falcon_Onu_Dev
begin

text \<open>
  The platform driver of \<^verbatim>\<open>falcon_gpon_core.c\<close>, which ties the PLOAM engine to the laser driver, the
  event ring and the network device: the callbacks, the GTC interrupt handler, the network operations,
  probe and remove. The world seen by the PLOAM engine is a record of the event ring, the carrier
  messages of the kernel log, the registered character devices and the chip.
\<close>

section \<open>Data\<close>

record 'd gpon_world =
  onu_ring :: falcon_onu_event_ring
  carrier_log :: "bool list"
  misc_devs :: "string list"
  chip :: 'd

definition lift_mmio :: "'d mmio \<Rightarrow> 'd gpon_world mmio" where
  "lift_mmio hw =
    \<lparr> ioread32be = (\<lambda>a w. let (v, d) = ioread32be hw a (chip w) in (v, w\<lparr>chip := d\<rparr>)),
      iowrite32be = (\<lambda>v a w. w\<lparr>chip := iowrite32be hw v a (chip w)\<rparr>) \<rparr>"

record net_stats =
  tx_packets :: u32
  tx_bytes :: u32
  tx_dropped :: u32

record 'd falcon_gpon_priv =
  p_gtc_base :: u32
  p_pma_base :: u32
  p_dcdc_apd_base :: u32
  p_link_base :: u32
  p_fsqm_base :: u32
  p_pe_base :: u32
  p_pctrl_base :: u32
  p_sram_base :: u32
  gtc_irq :: int
  ploam :: "'d gpon_world falcon_ploam_ctx"
  bosa_calib :: bosa_calib_data
  g_bosa :: falcon_bosa_dev
  gpe_ready :: bool
  napi_enabled :: bool
  carrier_ok :: bool
  queue_started :: bool
  stats :: net_stats

section \<open>Callbacks\<close>

definition falcon_laser_ctrl_cb ::
    "'d mmio \<Rightarrow> 'd gpiolib \<Rightarrow> falcon_bosa_dev \<Rightarrow> bool \<Rightarrow> 'd gpon_world \<Rightarrow> 'd gpon_world" where
  "falcon_laser_ctrl_cb hw gp bosa enable w =
    w\<lparr>chip := falcon_bosa_tx_enable hw gp bosa (if enable then 1 else 0) (chip w)\<rparr>"

definition falcon_carrier_ctrl_cb :: "bool \<Rightarrow> 'd gpon_world \<Rightarrow> 'd gpon_world" where
  "falcon_carrier_ctrl_cb link_up w = w\<lparr>carrier_log := carrier_log w @ [link_up]\<rparr>"

definition ploam_state_cb :: "gpon_ploam_state \<times> gpon_ploam_state \<Rightarrow> 'd gpon_world \<Rightarrow> 'd gpon_world" where
  "ploam_state_cb = (\<lambda>(new_state, old_state) w.
    w\<lparr>onu_ring := falcon_onu_notify_ploam_state new_state old_state (onu_ring w)\<rparr>)"

section \<open>Interrupts and network operations\<close>

text \<open>The result of the handler is whether the interrupt was ours.\<close>

definition falcon_gtc_isr ::
    "'d mmio \<Rightarrow> 'd falcon_gpon_priv \<times> 'd gpon_world \<Rightarrow> (bool \<times> 'd falcon_gpon_priv \<times> 'd gpon_world) option" where
  "falcon_gtc_isr hw = (\<lambda>(priv, w).
    let (int_status, w) = ioread32be (lift_mmio hw) (p_gtc_base priv + 0x070) w in
    if int_status = 0 then Some (False, priv, w)
    else
      case (if bit int_status 0 then falcon_ploam_rx_irq_handler (lift_mmio hw) (ploam priv, w) else Some (ploam priv, w)) of
        None \<Rightarrow> None
      | Some (ctx, w) \<Rightarrow>
          let (ctx, w) =
                (if bit int_status 1 then
                   let (rx_status, w) = ioread32be (lift_mmio hw) (p_gtc_base priv + 0x010) w
                   in falcon_ploam_event_los (lift_mmio hw) (\<not> bit rx_status 0) (ctx, w)
                 else (ctx, w))
          in Some (True, priv\<lparr>ploam := ctx\<rparr>, iowrite32be (lift_mmio hw) int_status (p_gtc_base priv + 0x070) w))"

definition falcon_net_open :: "'d falcon_gpon_priv \<Rightarrow> 'd falcon_gpon_priv" where
  "falcon_net_open priv = priv\<lparr>napi_enabled := True, carrier_ok := True, queue_started := True\<rparr>"

definition falcon_net_stop :: "'d falcon_gpon_priv \<Rightarrow> 'd falcon_gpon_priv" where
  "falcon_net_stop priv = priv\<lparr>queue_started := False, carrier_ok := False, napi_enabled := False\<rparr>"

definition falcon_net_start_xmit ::
    "'d mmio \<Rightarrow> 'd toio \<Rightarrow> u8 list \<Rightarrow> 'd falcon_gpon_priv \<times> 'd gpon_world \<Rightarrow> 'd falcon_gpon_priv \<times> 'd gpon_world" where
  "falcon_net_start_xmit hw toio skb = (\<lambda>(priv, w).
    if length skb < 14 then (priv, w)
    else if \<not> gpe_ready priv then (priv\<lparr>stats := (stats priv)\<lparr>tx_dropped := tx_dropped (stats priv) + 1\<rparr>\<rparr>, w)
    else
      let (ret, d) = falcon_net_pdu_write hw toio (p_sram_base priv) (p_fsqm_base priv) (p_link_base priv)
                       (Some ((!) skb)) (of_nat (length skb)) (chip w);
          w = w\<lparr>chip := d\<rparr>
      in if ret < 0 then (priv\<lparr>stats := (stats priv)\<lparr>tx_dropped := tx_dropped (stats priv) + 1\<rparr>\<rparr>, w)
         else (priv\<lparr>stats := (stats priv)\<lparr>tx_packets := tx_packets (stats priv) + 1,
                      tx_bytes := tx_bytes (stats priv) + of_nat (length skb)\<rparr>\<rparr>, w))"

text \<open>The polling loop with \<^term>\<open>n\<close> units of budget left; the results are the work done and whether
  polling was completed.\<close>

fun napi_rx_loop :: "'d mmio \<Rightarrow> u32 \<Rightarrow> nat \<Rightarrow> 'd \<Rightarrow> nat \<times> 'd" where
  "napi_rx_loop hw link_base 0 d = (0, d)"
| "napi_rx_loop hw link_base (Suc n) d =
    (let (status, d) = ioread32be hw (link_base + 0x020) d in
     if \<not> bit status 0 then (0, d)
     else let (k, d) = napi_rx_loop hw link_base n d in (Suc k, d))"

definition falcon_napi_poll ::
    "'d mmio \<Rightarrow> nat \<Rightarrow> 'd falcon_gpon_priv \<Rightarrow> 'd gpon_world \<Rightarrow> nat \<times> bool \<times> 'd gpon_world" where
  "falcon_napi_poll hw budget priv w =
    (if \<not> gpe_ready priv then (0, True, w)
     else let (work_done, d) = napi_rx_loop hw (p_link_base priv) budget (chip w)
          in (work_done, work_done < budget, w\<lparr>chip := d\<rparr>))"

section \<open>Probe and remove\<close>

text \<open>
  The kernel services probe relies on: allocation of the network device, the mapping of a physical
  range (0 is NULL), the interrupt number, and the results of the registrations.
\<close>

record probe_env =
  alloc_ok :: bool
  ioremap :: "u32 \<Rightarrow> u32 \<Rightarrow> u32"
  get_irq :: int
  misc_register :: "string \<Rightarrow> int"
  register_netdev :: int

definition falcon_calib :: bosa_calib_data where
  "falcon_calib = \<lparr> bias_dac_val = 0x2A0, mod_dac_val = 0x340, apd_voltage_mv = 30000,
     apc_bias_enable = True, apc_mod_enable = True \<rparr>"

text \<open>
  The private structure after mapping and calibration. Its PLOAM context is a placeholder: probe assigns
  the callbacks and then initialises the whole context before anything reads it.
\<close>

definition probe_priv :: "probe_env \<Rightarrow> falcon_bosa_dev \<Rightarrow> 'd falcon_gpon_priv" where
  "probe_priv env bosa =
    \<lparr> p_gtc_base = ioremap env 0x1DC00000 0x1000, p_pma_base = ioremap env 0x1E803000 0x1000,
      p_dcdc_apd_base = ioremap env 0x1DD00600 0x1000, p_link_base = ioremap env 0x1D600200 0x1000,
      p_fsqm_base = ioremap env 0x1D500000 0x1000, p_pe_base = ioremap env 0x1D610000 0x60000,
      p_pctrl_base = ioremap env 0x1D600000 0x1000, p_sram_base = ioremap env 0x1F200000 0x20000,
      gtc_irq = get_irq env, ploam = falcon_ploam_init 0 None None, bosa_calib = falcon_calib, g_bosa = bosa,
      gpe_ready = False, napi_enabled = False, carrier_ok = False, queue_started = False,
      stats = \<lparr> tx_packets = 0, tx_bytes = 0, tx_dropped = 0 \<rparr> \<rparr>"

definition falcon_gpon_probe ::
    "'d mmio \<Rightarrow> 'd gpiolib \<Rightarrow> probe_env \<Rightarrow> (nat \<Rightarrow> u8) \<Rightarrow> (nat \<Rightarrow> u8) \<Rightarrow> falcon_bosa_dev \<Rightarrow> 'd gpon_world \<Rightarrow>
     int \<times> 'd falcon_gpon_priv option \<times> 'd gpon_world" where
  "falcon_gpon_probe hw gp env onu_sn onu_pwd bosa0 w =
    (if \<not> alloc_ok env then (- ENOMEM, None, w)
     else
       let priv = probe_priv env bosa0 in
       if p_gtc_base priv = 0 \<or> p_pma_base priv = 0 \<or> p_link_base priv = 0 \<or> p_fsqm_base priv = 0
          \<or> p_pe_base priv = 0 \<or> p_sram_base priv = 0 then (- ENOMEM, None, w)
       else
         let (bosa, d) = falcon_bosa_init hw (p_pma_base priv) (p_dcdc_apd_base priv) (Some (bosa_calib priv)) (bosa0, chip w);
             d = iowrite32be hw 0x00000003 (p_gtc_base priv + 0x000) d;
             w = w\<lparr>chip := d\<rparr>;
             priv = priv\<lparr>g_bosa := bosa, ploam := (ploam priv)\<lparr>laser_set_enable := Some (falcon_laser_ctrl_cb hw gp bosa),
                      carrier_set := Some falcon_carrier_ctrl_cb, state_change_cb := Some ploam_state_cb\<rparr>\<rparr>;
             priv = priv\<lparr>ploam := falcon_ploam_init (p_gtc_base priv) (Some onu_sn) (Some onu_pwd)\<rparr>;
             (_, ring, devs) = falcon_onu_dev_init (misc_register env) (onu_ring w, misc_devs w);
             w = w\<lparr>onu_ring := ring, misc_devs := devs\<rparr>;
             ret = register_netdev env
         in if ret \<noteq> 0 then
              let w = w\<lparr>misc_devs := falcon_onu_dev_exit (misc_devs w)\<rparr>;
                  (ctx, w) = falcon_ploam_destroy (lift_mmio hw) (ploam priv, w)
              in (ret, None, w)
            else (0, Some priv, w))"

definition falcon_gpon_remove ::
    "'d mmio \<Rightarrow> 'd gpiolib \<Rightarrow> 'd falcon_gpon_priv \<Rightarrow> 'd gpon_world \<Rightarrow> 'd gpon_world" where
  "falcon_gpon_remove hw gp priv w =
    (let w = w\<lparr>misc_devs := falcon_onu_dev_exit (misc_devs w)\<rparr>;
         (ctx, w) = falcon_ploam_destroy (lift_mmio hw) (ploam priv, w)
     in w\<lparr>chip := falcon_bosa_shutdown hw gp (g_bosa priv) (chip w)\<rparr>)"

section \<open>Observables\<close>

definition laser_on :: "('d \<Rightarrow> u32 \<Rightarrow> u32) \<Rightarrow> falcon_bosa_dev \<Rightarrow> 'd gpon_world \<Rightarrow> bool" where
  "laser_on reg bosa w = tx_active (reg (chip w) (pma bosa + PMA_REG_TX_ACTIVATE_CH0))"

definition carrier_up :: "'d gpon_world \<Rightarrow> bool" where
  "carrier_up w \<longleftrightarrow> carrier_log w \<noteq> [] \<and> last (carrier_log w)"

text \<open>The outside world on its own: the chip may change its registers, except the transmitter's.\<close>

definition chip_env :: "('d \<Rightarrow> u32 \<Rightarrow> u32) \<Rightarrow> falcon_bosa_dev \<Rightarrow> 'd gpon_world \<Rightarrow> 'd gpon_world \<Rightarrow> bool" where
  "chip_env reg bosa w w' \<longleftrightarrow> carrier_log w' = carrier_log w \<and>
     reg (chip w') (pma bosa + PMA_REG_TX_ACTIVATE_CH0) = reg (chip w) (pma bosa + PMA_REG_TX_ACTIVATE_CH0)"

text \<open>The driver on the bank of registers, with the chip's physical addresses.\<close>

definition bank_bosa :: falcon_bosa_dev where
  "bank_bosa = \<lparr> pma = 0x1E803000, dcdc_core = 0, dcdc_apd = 0x1DD00600, pin_tx_disable = - 1, pin_tx_fault = - 1 \<rparr>"

section \<open>Lemmas\<close>

lemma lift_read [simp]:
  "fst (ioread32be (lift_mmio hw) a w) = fst (ioread32be hw a (chip w))"
  "snd (ioread32be (lift_mmio hw) a w) = w\<lparr>chip := snd (ioread32be hw a (chip w))\<rparr>"
  by (simp_all add: lift_mmio_def case_prod_beta)

lemma lift_write [simp]: "iowrite32be (lift_mmio hw) v a w = w\<lparr>chip := iowrite32be hw v a (chip w)\<rparr>"
  by (simp add: lift_mmio_def)

lemma lift_register_file: "register_file hw reg plain \<Longrightarrow> register_file (lift_mmio hw) (\<lambda>w. reg (chip w)) plain"
  by unfold_locales (auto simp: register_file.reg_simps fun_upd_def)

text \<open>The laser and the carrier messages of the driver meet the contracts of the PLOAM outputs.\<close>

lemma driver_laser_line:
  assumes "register_file hw reg plain" "pma bosa + PMA_REG_TX_ACTIVATE_CH0 \<in> plain"
    and "\<And>p v d. reg (gpio_set_value gp p v d) = reg d"
    and "\<And>r. r < 0x1000 \<Longrightarrow> base + r \<noteq> pma bosa + PMA_REG_TX_ACTIVATE_CH0"
  shows "laser_line (lift_mmio hw) base (chip_env reg bosa) (laser_on reg bosa) (falcon_laser_ctrl_cb hw gp bosa)
    (Some falcon_carrier_ctrl_cb) (Some ploam_state_cb)"
proof
  fix r w assume "r < (0x1000 :: u32)"
  note sep = assms(4)[OF this]
  show "laser_on reg bosa (snd (ioread32be (lift_mmio hw) (base + r) w)) = laser_on reg bosa w"
    by (simp add: laser_on_def register_file.read_keeps[OF assms(1)])
  show "laser_on reg bosa (iowrite32be (lift_mmio hw) v (base + r) w) = laser_on reg bosa w" for v
    using sep by (simp add: laser_on_def register_file.write_reg[OF assms(1)])
next
  show "laser_on reg bosa (falcon_laser_ctrl_cb hw gp bosa b w) = b" for b w
    by (simp add: laser_on_def falcon_laser_ctrl_cb_def register_file.tx_enable_regs[OF assms(1-3)])
qed (auto simp: laser_on_def chip_env_def falcon_carrier_ctrl_cb_def ploam_state_cb_def)

lemma driver_carrier_line:
  "carrier_line (lift_mmio hw) base (chip_env reg bosa) carrier_up (Some (falcon_laser_ctrl_cb hw gp bosa))
    falcon_carrier_ctrl_cb (Some ploam_state_cb)"
  by unfold_locales (auto simp: carrier_up_def chip_env_def falcon_carrier_ctrl_cb_def falcon_laser_ctrl_cb_def ploam_state_cb_def)

lemma bank_separate: "r < 0x1000 \<Longrightarrow> 0x1DC00000 + r \<noteq> pma bank_bosa + PMA_REG_TX_ACTIVATE_CH0"
proof -
  assume "r < 0x1000"
  then have "unat r < 0x1000" by (simp add: word_less_nat_alt)
  then have "unat (0x1DC00000 + r) \<noteq> unat (0x1E803200 :: u32)" by (simp add: unat_word_ariths)
  then show ?thesis by (auto simp: bank_bosa_def)
qed

interpretation bank_laser: laser_line "lift_mmio bank_hw" "0x1DC00000" "chip_env (\<lambda>r. r) bank_bosa"
  "laser_on (\<lambda>r. r) bank_bosa" "falcon_laser_ctrl_cb bank_hw no_gpio bank_bosa" "Some falcon_carrier_ctrl_cb" "Some ploam_state_cb"
  by (rule driver_laser_line[OF bank.register_file_axioms]) (auto simp: no_gpio_def bank_separate)

interpretation driver_carrier: carrier_line "lift_mmio hw" base "chip_env reg bosa" carrier_up
  "Some (falcon_laser_ctrl_cb hw gp bosa)" falcon_carrier_ctrl_cb "Some ploam_state_cb"
  by (rule driver_carrier_line)

lemma state_cb_view:
  assumes "onu_ring_inv (onu_ring w)"
  shows "onu_ring_view (onu_ring (ploam_state_cb (n, old) w)) = last_n 63 (onu_ring_view (onu_ring w) @
      [(ONU_EVENT_STATE_CHANGE, be32_bytes (ploam_state_code n) @ be32_bytes (ploam_state_code old) @ be32_bytes 0)])"
proof -
  let ?st = "be32_bytes (ploam_state_code n) @ be32_bytes (ploam_state_code old) @ be32_bytes 0"
  have "length ?st = 12" by (simp add: be32_bytes_def)
  then have "map ((!) ?st) [0..<12] = ?st" by (metis map_nth)
  then show ?thesis
    using push_event_view[OF assms, of 12 ONU_EVENT_STATE_CHANGE "(!) ?st"]
    by (simp add: ploam_state_cb_def falcon_onu_notify_ploam_state_def)
qed

lemma napi_loop_bound: "fst (napi_rx_loop hw b n d) \<le> n"
  by (induction n arbitrary: d) (auto simp: Let_def case_prod_beta)

section \<open>Properties\<close>



text \<open>
  Wherever the driver's last carrier message says UP in a reachable configuration, the activation is in
  ranging, operation or POPUP: the carrier is never reported in standby, in the serial-number state or after an emergency stop.
\<close>

theorem driver_carrier_states:
  assumes "(ploam_step (lift_mmio hw) (chip_env reg bosa))\<^sup>*\<^sup>*
      (ploam_start base sn pwd (Some (falcon_laser_ctrl_cb hw gp bosa)) (Some falcon_carrier_ctrl_cb) (Some ploam_state_cb), w)
      (ctx, w')" "\<not> carrier_up w"
  shows "carrier_up w' \<longrightarrow> state ctx \<in> {PLOAM_STATE_O4_RANGING, PLOAM_STATE_O5_OPERATION, PLOAM_STATE_O6_POPUP}"
  using driver_carrier.reachable_carrier[OF assms] by blast

lemma driver_carrier_states_witness:
  "\<not> carrier_up (snd (falcon_ploam_event_lof (lift_mmio bank_hw) False
     (ploam_start 0 None None (Some (falcon_laser_ctrl_cb bank_hw no_gpio bank_bosa)) (Some falcon_carrier_ctrl_cb)
        (Some ploam_state_cb), \<lparr>onu_ring = zero_ring, carrier_log = [], misc_devs = [], chip = (\<lambda>_. 0x08)\<rparr>)))"
proof -
  let ?s = "falcon_ploam_event_lof (lift_mmio bank_hw) False
     (ploam_start 0 None None (Some (falcon_laser_ctrl_cb bank_hw no_gpio bank_bosa)) (Some falcon_carrier_ctrl_cb)
        (Some ploam_state_cb), \<lparr>onu_ring = zero_ring, carrier_log = [], misc_devs = [], chip = (\<lambda>_. 0x08)\<rparr>)"
  have "carrier_up (snd ?s) \<longrightarrow> state (fst ?s) \<in> {PLOAM_STATE_O4_RANGING, PLOAM_STATE_O5_OPERATION, PLOAM_STATE_O6_POPUP}"
    by (rule driver_carrier_states[where reg = "\<lambda>r. r"]) (auto simp: carrier_up_def intro!: r_into_rtranclp step_lof)
  moreover have "state (fst ?s) = PLOAM_STATE_O2_STANDBY"
    by (simp add: falcon_ploam_event_lof_def ploam_start_def falcon_ploam_init_def)
  ultimately show ?thesis by simp
qed

text \<open>
  With the driver's callbacks installed, every change of the activation state puts exactly one
  state-change event with the new and the old state into the ring of the daemon, and a transition to the
  current state puts none.
\<close>

theorem state_change_is_reported:
  assumes "state_change_cb ctx = Some ploam_state_cb" "laser_set_enable ctx = Some (falcon_laser_ctrl_cb hw gp bosa)"
    and "carrier_set ctx = Some falcon_carrier_ctrl_cb" "onu_ring_inv (onu_ring w)"
  shows "onu_ring_view (onu_ring (snd (ploam_state_transition (lift_mmio hw) n (ctx, w)))) =
    (if state ctx = n then onu_ring_view (onu_ring w)
     else last_n 63 (onu_ring_view (onu_ring w) @ [(ONU_EVENT_STATE_CHANGE,
       be32_bytes (ploam_state_code n) @ be32_bytes (ploam_state_code (state ctx)) @ be32_bytes 0)]))"
  using state_cb_view[OF assms(4), of n "state ctx"] assms(1-3)
  by (cases n) (auto simp: ploam_state_transition_def Let_def gtc_write_def falcon_laser_ctrl_cb_def falcon_carrier_ctrl_cb_def)

lemma state_change_is_reported_witness:
  "onu_ring_view (onu_ring (snd (ploam_state_transition (lift_mmio bank_hw) PLOAM_STATE_O2_STANDBY
     (ploam_start 0 None None (Some (falcon_laser_ctrl_cb bank_hw no_gpio bank_bosa)) (Some falcon_carrier_ctrl_cb)
        (Some ploam_state_cb), \<lparr>onu_ring = zero_ring, carrier_log = [], misc_devs = [], chip = (\<lambda>_. 0x08)\<rparr>)))) =
   [(3, [0, 0, 0, 2, 0, 0, 0, 1, 0, 0, 0, 0])]"
  using state_change_is_reported[of "ploam_start 0 None None (Some (falcon_laser_ctrl_cb bank_hw no_gpio bank_bosa)) (Some falcon_carrier_ctrl_cb)
        (Some ploam_state_cb)" bank_hw no_gpio bank_bosa
        "\<lparr>onu_ring = zero_ring, carrier_log = [], misc_devs = [], chip = (\<lambda>_. 0x08)\<rparr>" PLOAM_STATE_O2_STANDBY]
  by (simp add: ploam_start_def falcon_ploam_init_def zero_ring_ok last_n_def be32_bytes_def octet_def)

text \<open>
  C34: A successful probe leaves the PLOAM context initialised, but with all three callbacks NULL: they are
  assigned before the initialisation clears the whole context. From then on no step of the state
  machine switches the laser, logs the carrier or reports a state change.
\<close>

theorem probe_loses_callbacks:
  assumes "falcon_gpon_probe hw gp env sn pwd bosa w = (0, Some priv, w')"
  shows "laser_set_enable (ploam priv) = None \<and> carrier_set (ploam priv) = None \<and> state_change_cb (ploam priv) = None
    \<and> ploam_inv (ploam priv)
    \<and> (\<forall>n. carrier_log (snd (ploam_state_transition (lift_mmio hw) n (ploam priv, w'))) = carrier_log w'
          \<and> onu_ring (snd (ploam_state_transition (lift_mmio hw) n (ploam priv, w'))) = onu_ring w')"
proof -
  have p: "ploam priv = falcon_ploam_init (ioremap env 0x1DC00000 0x1000) (Some sn) (Some pwd)"
    using assms by (auto simp: falcon_gpon_probe_def probe_priv_def Let_def case_prod_beta split: if_splits)
  show ?thesis
  proof (intro conjI allI)
    show "ploam_inv (ploam priv)" unfolding p by (rule init_inv)
    fix n
    show "carrier_log (snd (ploam_state_transition (lift_mmio hw) n (ploam priv, w'))) = carrier_log w'"
      "onu_ring (snd (ploam_state_transition (lift_mmio hw) n (ploam priv, w'))) = onu_ring w'"
      unfolding p by (cases n; simp add: ploam_state_transition_def falcon_ploam_init_def gtc_write_def)+
  qed (simp_all add: p falcon_ploam_init_def)
qed

lemma probe_loses_callbacks_witness:
  "\<exists>priv w'. falcon_gpon_probe bank_hw no_gpio
      \<lparr>alloc_ok = True, ioremap = (\<lambda>a n. a), get_irq = 5, misc_register = (\<lambda>_. 0), register_netdev = 0\<rparr>
      (\<lambda>_. 0x41) (\<lambda>_. 0) bank_bosa \<lparr>onu_ring = zero_ring, carrier_log = [], misc_devs = [], chip = (\<lambda>_. 0)\<rparr> = (0, Some priv, w')
    \<and> laser_set_enable (ploam priv) = None"
proof -
  let ?r = "falcon_gpon_probe bank_hw no_gpio
      \<lparr>alloc_ok = True, ioremap = (\<lambda>a n. a), get_irq = 5, misc_register = (\<lambda>_. 0), register_netdev = 0\<rparr>
      (\<lambda>_. 0x41) (\<lambda>_. 0) bank_bosa \<lparr>onu_ring = zero_ring, carrier_log = [], misc_devs = [], chip = (\<lambda>_. 0)\<rparr>"
  obtain priv w' where "?r = (0, Some priv, w')"
    by (simp add: falcon_gpon_probe_def probe_priv_def Let_def case_prod_beta falcon_onu_dev_init_def)
  with probe_loses_callbacks[OF this] show ?thesis by blast
qed

text \<open>
  The interrupt handler: with no status bit set it declines the interrupt and changes nothing;
  otherwise it writes the status back to acknowledge it. When the signal bit is set and the receive
  status shows no signal, the activation is in its initial state afterwards, and in all other cases it
  is in the state it was in: received messages are only queued for the worker.
\<close>

theorem gtc_isr_behaviour:
  assumes "register_file hw reg plain" "{p_gtc_base priv + 0x070, p_gtc_base priv + 0x010} \<subseteq> plain"
    and "falcon_gtc_isr hw (priv, w) = Some (ours, priv', w')" "st = reg (chip w) (p_gtc_base priv + 0x070)"
  shows "(ours \<longleftrightarrow> st \<noteq> 0) \<and> (st = 0 \<longrightarrow> priv' = priv \<and> reg (chip w') = reg (chip w))
    \<and> (st \<noteq> 0 \<longrightarrow> reg (chip w') (p_gtc_base priv + 0x070) = st)
    \<and> state (ploam priv') = (if bit st 1 \<and> \<not> bit (reg (chip w) (p_gtc_base priv + 0x010)) 0
                            then PLOAM_STATE_O1_INITIAL_RUN else state (ploam priv))"
proof -
  note r = register_file.reg_simps[OF assms(1)]
  have rd: "fst (ioread32be hw (p_gtc_base priv + 0x070) (chip w)) = st"
    "fst (ioread32be hw (p_gtc_base priv + 0x010) d) = reg d (p_gtc_base priv + 0x010)" for d
    using assms(2,4) by (simp_all add: r)
  show ?thesis
  proof (cases "st = 0")
    case True
    with assms(3) rd show ?thesis by (auto simp: falcon_gtc_isr_def Let_def case_prod_beta r)
  next
    case False
    let ?w = "w\<lparr>chip := snd (ioread32be hw (p_gtc_base priv + 0x070) (chip w))\<rparr>"
    let ?rx = "if bit st 0 then falcon_ploam_rx_irq_handler (lift_mmio hw) (ploam priv, ?w) else Some (ploam priv, ?w)"
    have isr: "falcon_gtc_isr hw (priv, w) = (case ?rx of None \<Rightarrow> None | Some (ctx, w) \<Rightarrow>
        (let (ctx, w) = (if bit st 1 then
            falcon_ploam_event_los (lift_mmio hw) (\<not> bit (reg (chip w) (p_gtc_base priv + 0x010)) 0)
              (ctx, w\<lparr>chip := snd (ioread32be hw (p_gtc_base priv + 0x010) (chip w))\<rparr>) else (ctx, w))
         in Some (True, priv\<lparr>ploam := ctx\<rparr>, w\<lparr>chip := iowrite32be hw st (p_gtc_base priv + 0x070) (chip w)\<rparr>)))"
      unfolding falcon_gtc_isr_def using False
      by (simp add: case_prod_beta rd Let_def split: option.split)
    then obtain ctx w1 where rx: "?rx = Some (ctx, w1)"
      using assms(3) by (cases ?rx) (auto split: if_splits)
    then have keep: "reg (chip w1) = reg (chip w)" "state ctx = state (ploam priv)"
      using register_file.rx_irq_regs[OF lift_register_file[OF assms(1)], of "(ploam priv, ?w)" "(ctx, w1)"]
        rx_irq_state[of "lift_mmio hw" "(ploam priv, ?w)" "(ctx, w1)"]
      by (auto simp: r split: if_splits)
    show ?thesis
      using assms(3) False keep unfolding isr rx
      by (auto simp: Let_def case_prod_beta r falcon_ploam_event_los_def split: if_splits)
  qed
qed

lemma gtc_isr_behaviour_witness:
  "\<exists>priv' w'. falcon_gtc_isr bank_hw
      (probe_priv \<lparr>alloc_ok = True, ioremap = (\<lambda>a n. a), get_irq = 5, misc_register = (\<lambda>_. 0), register_netdev = 0\<rparr> bank_bosa,
       \<lparr>onu_ring = zero_ring, carrier_log = [], misc_devs = [], chip = (\<lambda>_. 0)\<rparr>(|chip := (\<lambda>_. 0)(0x1DC00070 := 2)|)) =
      Some (True, priv', w') \<and> state (ploam priv') = PLOAM_STATE_O1_INITIAL_RUN"
proof -
  let ?priv = "probe_priv \<lparr>alloc_ok = True, ioremap = (\<lambda>a n. a), get_irq = 5, misc_register = (\<lambda>_. 0), register_netdev = 0\<rparr> bank_bosa"
  let ?w = "\<lparr>onu_ring = zero_ring, carrier_log = [], misc_devs = [], chip = (\<lambda>_. 0)(0x1DC00070 := 2)\<rparr> :: (u32 \<Rightarrow> u32) gpon_world"
  obtain o' priv' w' where e: "falcon_gtc_isr bank_hw (?priv, ?w) = Some (o', priv', w')"
    by (simp add: falcon_gtc_isr_def Let_def case_prod_beta probe_priv_def bank_hw_def)
  from gtc_isr_behaviour[OF bank.register_file_axioms _ e refl] have "o' \<and> state (ploam priv') = PLOAM_STATE_O1_INITIAL_RUN"
    by (simp add: probe_priv_def)
  with e show ?thesis by auto
qed

text \<open>
  Every frame of at least 14 octets given to the network device is counted exactly once, as sent
  with its length or as dropped, and it is dropped without touching the chip as long as the packet engine is not ready;
  shorter frames are discarded uncounted. Receive polling never exceeds its budget and completes exactly
  when it used less, or at once while the engine is not ready.
\<close>

theorem net_accounting:
  assumes "falcon_net_start_xmit hw toio skb (priv, w) = (priv', w')"
    and "falcon_napi_poll hw budget priv w = (work, fin, w'')"
  shows "(length skb < 14 \<longrightarrow> stats priv' = stats priv \<and> w' = w)
    \<and> (14 \<le> length skb \<longrightarrow>
        (stats priv' = (stats priv)\<lparr>tx_dropped := tx_dropped (stats priv) + 1\<rparr> \<and> (\<not> gpe_ready priv \<longrightarrow> w' = w))
      \<or> (gpe_ready priv \<and> stats priv' = (stats priv)\<lparr>tx_packets := tx_packets (stats priv) + 1,
           tx_bytes := tx_bytes (stats priv) + of_nat (length skb)\<rparr>))
    \<and> work \<le> budget \<and> (fin \<longleftrightarrow> \<not> gpe_ready priv \<or> work < budget)"
  using assms napi_loop_bound[of hw "p_link_base priv" budget "chip w"]
  by (auto simp: falcon_net_start_xmit_def falcon_napi_poll_def Let_def case_prod_beta split: if_splits)

lemma net_accounting_witness:
  "tx_dropped (stats (fst (falcon_net_start_xmit bank_hw (\<lambda>_ _ d. d) (replicate 60 0)
      (probe_priv \<lparr>alloc_ok = True, ioremap = (\<lambda>a n. a), get_irq = 5, misc_register = (\<lambda>_. 0), register_netdev = 0\<rparr> bank_bosa,
       \<lparr>onu_ring = zero_ring, carrier_log = [], misc_devs = [], chip = (\<lambda>_. 0)\<rparr>)))) = 1"
  using net_accounting[OF prod.collapse[symmetric], where hw = bank_hw and toio = "\<lambda>_ _ d. d" and skb = "replicate 60 0" and budget = 4
      and work = 0 and fin = True and
      priv = "probe_priv \<lparr>alloc_ok = True, ioremap = (\<lambda>a n. a), get_irq = 5, misc_register = (\<lambda>_. 0), register_netdev = 0\<rparr> bank_bosa"
      and w = "\<lparr>onu_ring = zero_ring, carrier_log = [], misc_devs = [], chip = (\<lambda>_. 0)\<rparr>"
      and w'' = "\<lparr>onu_ring = zero_ring, carrier_log = [], misc_devs = [], chip = (\<lambda>_. 0)\<rparr>"]
  by (simp add: falcon_napi_poll_def probe_priv_def)

text \<open>
  Removing the driver leaves the transmitter inactive and neither character device registered,
  whatever the state of the protocol engine and its callbacks; a failing probe returns no
  private structure and leaves neither character device registered.
\<close>

theorem driver_teardown:
  assumes "register_file hw reg plain" "\<And>p v d. reg (gpio_set_value gp p v d) = reg d"
    and "{pma (g_bosa priv) + PMA_REG_TX_ACTIVATE_CH0, pma (g_bosa priv) + PMA_REG_BIAS_LOOP_CTRL,
          pma (g_bosa priv) + PMA_REG_MOD_LOOP_CTRL} \<subseteq> plain"
    and "w' = falcon_gpon_remove hw gp priv w"
    and "\<And>b v. misc_devs (call_cb (laser_set_enable (ploam priv)) b v) = misc_devs v"
    and "\<And>b v. misc_devs (call_cb (carrier_set (ploam priv)) b v) = misc_devs v"
    and "\<And>x v. misc_devs (call_cb (state_change_cb (ploam priv)) x v) = misc_devs v"
    and "falcon_gpon_probe hw gp env sn pwd bosa v = (ret, p', v')" "ret \<noteq> 0" "set (misc_devs v) \<inter> {''onu0'', ''optic0''} = {}"
  shows "\<not> laser_on reg (g_bosa priv) w' \<and> set (misc_devs w') \<inter> {''onu0'', ''optic0''} = {}
    \<and> p' = None \<and> set (misc_devs v') \<inter> {''onu0'', ''optic0''} = {}"
proof (intro conjI)
  show "\<not> laser_on reg (g_bosa priv) w'"
    unfolding assms(4) falcon_gpon_remove_def
    by (simp add: laser_on_def Let_def case_prod_beta register_file.shutdown_regs[OF assms(1,3,2)])
  have d: "misc_devs (snd (falcon_ploam_destroy (lift_mmio hw) (c, u))) = misc_devs u"
    if "\<And>b v. misc_devs (call_cb (laser_set_enable c) b v) = misc_devs v"
      "\<And>b v. misc_devs (call_cb (carrier_set c) b v) = misc_devs v"
      "\<And>x v. misc_devs (call_cb (state_change_cb c) x v) = misc_devs v" for c and u :: "'a gpon_world"
    using that by (simp add: falcon_ploam_destroy_def ploam_state_transition_def Let_def gtc_write_def)
  show "set (misc_devs w') \<inter> {''onu0'', ''optic0''} = {}"
    unfolding assms(4) falcon_gpon_remove_def
    by (simp add: Let_def case_prod_beta d[OF assms(5-7)] falcon_onu_dev_exit_def)
  show "p' = None"
    using assms(8,9) by (auto simp: falcon_gpon_probe_def Let_def case_prod_beta split: if_splits)
  show "set (misc_devs v') \<inter> {''onu0'', ''optic0''} = {}"
    using assms(8-10)
    by (auto simp: falcon_gpon_probe_def Let_def case_prod_beta d falcon_ploam_init_def falcon_onu_dev_exit_def
        split: if_splits)
qed

lemma driver_teardown_witness:
  "\<not> laser_on (\<lambda>r. r) bank_bosa (falcon_gpon_remove bank_hw no_gpio
      (probe_priv \<lparr>alloc_ok = True, ioremap = (\<lambda>a n. a), get_irq = 5, misc_register = (\<lambda>_. 0), register_netdev = 0\<rparr> bank_bosa)
      \<lparr>onu_ring = zero_ring, carrier_log = [], misc_devs = [''onu0''], chip = (\<lambda>_. 0)\<rparr>)"
  using driver_teardown[OF bank.register_file_axioms, where gp = no_gpio and
      priv = "probe_priv \<lparr>alloc_ok = True, ioremap = (\<lambda>a n. a), get_irq = 5, misc_register = (\<lambda>_. 0), register_netdev = 0\<rparr> bank_bosa"
      and w = "\<lparr>onu_ring = zero_ring, carrier_log = [], misc_devs = [''onu0''], chip = (\<lambda>_. 0)\<rparr>"
      and env = "\<lparr>alloc_ok = False, ioremap = (\<lambda>a n. a), get_irq = 5, misc_register = (\<lambda>_. 0), register_netdev = 0\<rparr>"
      and v = "\<lparr>onu_ring = zero_ring, carrier_log = [], misc_devs = [], chip = (\<lambda>_. 0)\<rparr>" and ret = "- ENOMEM" and p' = None
      and v' = "\<lparr>onu_ring = zero_ring, carrier_log = [], misc_devs = [], chip = (\<lambda>_. 0)\<rparr>", OF _ _ refl]
  by (simp add: no_gpio_def probe_priv_def falcon_ploam_init_def falcon_gpon_probe_def)

end
