(* ===== verification/Ifx_Crc.thy ===== *)
theory Ifx_Crc
  imports Gpon_Prelude "HOL-Library.Monad_Syntax"
begin

text \<open>
  The checksums of the IFX OS library (\<^verbatim>\<open>lib_ifxos/src/common/ifx_crc.c\<close>): the additive checksum,
  CRC-16 and CRC-32 over look-up tables, and the table builders of the \<^verbatim>\<open>DYNAMIC_CRC\<close> variant. A
  buffer is a list of octets and reading past its end is \<^const>\<open>None\<close>. An octet read through a
  \<^verbatim>\<open>char\<close> pointer is sign-extended before it is combined, as on the MIPS target.
\<close>

section \<open>Tables\<close>

definition crc32_table :: "u32 list" where
  "crc32_table = [
     0, 0x77073096, 0xEE0E612C, 0x990951BA, 0x76DC419, 0x706AF48F, 0xE963A535, 0x9E6495A3,
     0xEDB8832, 0x79DCB8A4, 0xE0D5E91E, 0x97D2D988, 0x9B64C2B, 0x7EB17CBD, 0xE7B82D07, 0x90BF1D91,
     0x1DB71064, 0x6AB020F2, 0xF3B97148, 0x84BE41DE, 0x1ADAD47D, 0x6DDDE4EB, 0xF4D4B551, 0x83D385C7,
     0x136C9856, 0x646BA8C0, 0xFD62F97A, 0x8A65C9EC, 0x14015C4F, 0x63066CD9, 0xFA0F3D63, 0x8D080DF5,
     0x3B6E20C8, 0x4C69105E, 0xD56041E4, 0xA2677172, 0x3C03E4D1, 0x4B04D447, 0xD20D85FD, 0xA50AB56B,
     0x35B5A8FA, 0x42B2986C, 0xDBBBC9D6, 0xACBCF940, 0x32D86CE3, 0x45DF5C75, 0xDCD60DCF, 0xABD13D59,
     0x26D930AC, 0x51DE003A, 0xC8D75180, 0xBFD06116, 0x21B4F4B5, 0x56B3C423, 0xCFBA9599, 0xB8BDA50F,
     0x2802B89E, 0x5F058808, 0xC60CD9B2, 0xB10BE924, 0x2F6F7C87, 0x58684C11, 0xC1611DAB, 0xB6662D3D,
     0x76DC4190, 0x1DB7106, 0x98D220BC, 0xEFD5102A, 0x71B18589, 0x6B6B51F, 0x9FBFE4A5, 0xE8B8D433,
     0x7807C9A2, 0xF00F934, 0x9609A88E, 0xE10E9818, 0x7F6A0DBB, 0x86D3D2D, 0x91646C97, 0xE6635C01,
     0x6B6B51F4, 0x1C6C6162, 0x856530D8, 0xF262004E, 0x6C0695ED, 0x1B01A57B, 0x8208F4C1, 0xF50FC457,
     0x65B0D9C6, 0x12B7E950, 0x8BBEB8EA, 0xFCB9887C, 0x62DD1DDF, 0x15DA2D49, 0x8CD37CF3, 0xFBD44C65,
     0x4DB26158, 0x3AB551CE, 0xA3BC0074, 0xD4BB30E2, 0x4ADFA541, 0x3DD895D7, 0xA4D1C46D, 0xD3D6F4FB,
     0x4369E96A, 0x346ED9FC, 0xAD678846, 0xDA60B8D0, 0x44042D73, 0x33031DE5, 0xAA0A4C5F, 0xDD0D7CC9,
     0x5005713C, 0x270241AA, 0xBE0B1010, 0xC90C2086, 0x5768B525, 0x206F85B3, 0xB966D409, 0xCE61E49F,
     0x5EDEF90E, 0x29D9C998, 0xB0D09822, 0xC7D7A8B4, 0x59B33D17, 0x2EB40D81, 0xB7BD5C3B, 0xC0BA6CAD,
     0xEDB88320, 0x9ABFB3B6, 0x3B6E20C, 0x74B1D29A, 0xEAD54739, 0x9DD277AF, 0x4DB2615, 0x73DC1683,
     0xE3630B12, 0x94643B84, 0xD6D6A3E, 0x7A6A5AA8, 0xE40ECF0B, 0x9309FF9D, 0xA00AE27, 0x7D079EB1,
     0xF00F9344, 0x8708A3D2, 0x1E01F268, 0x6906C2FE, 0xF762575D, 0x806567CB, 0x196C3671, 0x6E6B06E7,
     0xFED41B76, 0x89D32BE0, 0x10DA7A5A, 0x67DD4ACC, 0xF9B9DF6F, 0x8EBEEFF9, 0x17B7BE43, 0x60B08ED5,
     0xD6D6A3E8, 0xA1D1937E, 0x38D8C2C4, 0x4FDFF252, 0xD1BB67F1, 0xA6BC5767, 0x3FB506DD, 0x48B2364B,
     0xD80D2BDA, 0xAF0A1B4C, 0x36034AF6, 0x41047A60, 0xDF60EFC3, 0xA867DF55, 0x316E8EEF, 0x4669BE79,
     0xCB61B38C, 0xBC66831A, 0x256FD2A0, 0x5268E236, 0xCC0C7795, 0xBB0B4703, 0x220216B9, 0x5505262F,
     0xC5BA3BBE, 0xB2BD0B28, 0x2BB45A92, 0x5CB36A04, 0xC2D7FFA7, 0xB5D0CF31, 0x2CD99E8B, 0x5BDEAE1D,
     0x9B64C2B0, 0xEC63F226, 0x756AA39C, 0x26D930A, 0x9C0906A9, 0xEB0E363F, 0x72076785, 0x5005713,
     0x95BF4A82, 0xE2B87A14, 0x7BB12BAE, 0xCB61B38, 0x92D28E9B, 0xE5D5BE0D, 0x7CDCEFB7, 0xBDBDF21,
     0x86D3D2D4, 0xF1D4E242, 0x68DDB3F8, 0x1FDA836E, 0x81BE16CD, 0xF6B9265B, 0x6FB077E1, 0x18B74777,
     0x88085AE6, 0xFF0F6A70, 0x66063BCA, 0x11010B5C, 0x8F659EFF, 0xF862AE69, 0x616BFFD3, 0x166CCF45,
     0xA00AE278, 0xD70DD2EE, 0x4E048354, 0x3903B3C2, 0xA7672661, 0xD06016F7, 0x4969474D, 0x3E6E77DB,
     0xAED16A4A, 0xD9D65ADC, 0x40DF0B66, 0x37D83BF0, 0xA9BCAE53, 0xDEBB9EC5, 0x47B2CF7F, 0x30B5FFE9,
     0xBDBDF21C, 0xCABAC28A, 0x53B39330, 0x24B4A3A6, 0xBAD03605, 0xCDD70693, 0x54DE5729, 0x23D967BF,
     0xB3667A2E, 0xC4614AB8, 0x5D681B02, 0x2A6F2B94, 0xB40BBE37, 0xC30C8EA1, 0x5A05DF1B, 0x2D02EF8D]"

definition crc16_table :: "u16 list" where
  "crc16_table = [
     0, 0x1189, 0x2312, 0x329B, 0x4624, 0x57AD, 0x6536, 0x74BF,
     0x8C48, 0x9DC1, 0xAF5A, 0xBED3, 0xCA6C, 0xDBE5, 0xE97E, 0xF8F7,
     0x1081, 0x108, 0x3393, 0x221A, 0x56A5, 0x472C, 0x75B7, 0x643E,
     0x9CC9, 0x8D40, 0xBFDB, 0xAE52, 0xDAED, 0xCB64, 0xF9FF, 0xE876,
     0x2102, 0x308B, 0x210, 0x1399, 0x6726, 0x76AF, 0x4434, 0x55BD,
     0xAD4A, 0xBCC3, 0x8E58, 0x9FD1, 0xEB6E, 0xFAE7, 0xC87C, 0xD9F5,
     0x3183, 0x200A, 0x1291, 0x318, 0x77A7, 0x662E, 0x54B5, 0x453C,
     0xBDCB, 0xAC42, 0x9ED9, 0x8F50, 0xFBEF, 0xEA66, 0xD8FD, 0xC974,
     0x4204, 0x538D, 0x6116, 0x709F, 0x420, 0x15A9, 0x2732, 0x36BB,
     0xCE4C, 0xDFC5, 0xED5E, 0xFCD7, 0x8868, 0x99E1, 0xAB7A, 0xBAF3,
     0x5285, 0x430C, 0x7197, 0x601E, 0x14A1, 0x528, 0x37B3, 0x263A,
     0xDECD, 0xCF44, 0xFDDF, 0xEC56, 0x98E9, 0x8960, 0xBBFB, 0xAA72,
     0x6306, 0x728F, 0x4014, 0x519D, 0x2522, 0x34AB, 0x630, 0x17B9,
     0xEF4E, 0xFEC7, 0xCC5C, 0xDDD5, 0xA96A, 0xB8E3, 0x8A78, 0x9BF1,
     0x7387, 0x620E, 0x5095, 0x411C, 0x35A3, 0x242A, 0x16B1, 0x738,
     0xFFCF, 0xEE46, 0xDCDD, 0xCD54, 0xB9EB, 0xA862, 0x9AF9, 0x8B70,
     0x8408, 0x9581, 0xA71A, 0xB693, 0xC22C, 0xD3A5, 0xE13E, 0xF0B7,
     0x840, 0x19C9, 0x2B52, 0x3ADB, 0x4E64, 0x5FED, 0x6D76, 0x7CFF,
     0x9489, 0x8500, 0xB79B, 0xA612, 0xD2AD, 0xC324, 0xF1BF, 0xE036,
     0x18C1, 0x948, 0x3BD3, 0x2A5A, 0x5EE5, 0x4F6C, 0x7DF7, 0x6C7E,
     0xA50A, 0xB483, 0x8618, 0x9791, 0xE32E, 0xF2A7, 0xC03C, 0xD1B5,
     0x2942, 0x38CB, 0xA50, 0x1BD9, 0x6F66, 0x7EEF, 0x4C74, 0x5DFD,
     0xB58B, 0xA402, 0x9699, 0x8710, 0xF3AF, 0xE226, 0xD0BD, 0xC134,
     0x39C3, 0x284A, 0x1AD1, 0xB58, 0x7FE7, 0x6E6E, 0x5CF5, 0x4D7C,
     0xC60C, 0xD785, 0xE51E, 0xF497, 0x8028, 0x91A1, 0xA33A, 0xB2B3,
     0x4A44, 0x5BCD, 0x6956, 0x78DF, 0xC60, 0x1DE9, 0x2F72, 0x3EFB,
     0xD68D, 0xC704, 0xF59F, 0xE416, 0x90A9, 0x8120, 0xB3BB, 0xA232,
     0x5AC5, 0x4B4C, 0x79D7, 0x685E, 0x1CE1, 0xD68, 0x3FF3, 0x2E7A,
     0xE70E, 0xF687, 0xC41C, 0xD595, 0xA12A, 0xB0A3, 0x8238, 0x93B1,
     0x6B46, 0x7ACF, 0x4854, 0x59DD, 0x2D62, 0x3CEB, 0xE70, 0x1FF9,
     0xF78F, 0xE606, 0xD49D, 0xC514, 0xB1AB, 0xA022, 0x92B9, 0x8330,
     0x7BC7, 0x6A4E, 0x58D5, 0x495C, 0x3DE3, 0x2C6A, 0x1EF1, 0xF78]"

section \<open>Additive checksum\<close>

fun IFX_CalcChecksum_loop :: "u16 \<Rightarrow> u8 list \<Rightarrow> nat \<Rightarrow> u16 option" where
  "IFX_CalcChecksum_loop s buf 0 = Some s"
| "IFX_CalcChecksum_loop s [] (Suc n) = None"
| "IFX_CalcChecksum_loop s (b # buf) (Suc n) = IFX_CalcChecksum_loop (s + ucast b) buf n"

definition IFX_CalcChecksum :: "u8 list \<Rightarrow> u32 \<Rightarrow> u16 option" where
  "IFX_CalcChecksum buf nCount = IFX_CalcChecksum_loop 0 buf (unat nCount)"

section \<open>CRC-16\<close>

text \<open>The macro \<^verbatim>\<open>CRC_16_CCITT_M\<close>; its operands are promoted to \<^verbatim>\<open>int\<close> and the result is cut to 16 bits.\<close>

definition CRC_16_CCITT_M :: "u16 \<Rightarrow> u8 \<Rightarrow> u16" where
  "CRC_16_CCITT_M c b = drop_bit 8 c XOR crc16_table ! unat (((ucast c :: u32) XOR scast b) AND 0x00FF)"

fun IFX_CalcChecksumCRC16_loop :: "u16 \<Rightarrow> u8 list \<Rightarrow> nat \<Rightarrow> u16 option" where
  "IFX_CalcChecksumCRC16_loop crc16 buf 0 = Some crc16"
| "IFX_CalcChecksumCRC16_loop crc16 [] (Suc n) = None"
| "IFX_CalcChecksumCRC16_loop crc16 (b # buf) (Suc n) = IFX_CalcChecksumCRC16_loop (CRC_16_CCITT_M crc16 b) buf n"

definition IFX_CalcChecksumCRC16 :: "u8 list \<Rightarrow> u32 \<Rightarrow> u16 option" where
  "IFX_CalcChecksumCRC16 buf len = IFX_CalcChecksumCRC16_loop 0xFFFF buf (unat len)"

text \<open>The bitwise routine the table is made from, with its loop over eight bits.\<close>

fun DoCrc16_loop :: "nat \<Rightarrow> u16 \<Rightarrow> u16 \<Rightarrow> u16 \<Rightarrow> u16" where
  "DoCrc16_loop 0 d genpoly accum = accum"
| "DoCrc16_loop (Suc j) d genpoly accum =
     (let d' = drop_bit 1 d
      in DoCrc16_loop j d' genpoly
           (if (d' XOR accum) AND 1 \<noteq> 0 then drop_bit 1 accum XOR genpoly else drop_bit 1 accum))"

definition DoCrc16 :: "u16 \<Rightarrow> u16 \<Rightarrow> u16 \<Rightarrow> u16" where
  "DoCrc16 d genpoly accum = DoCrc16_loop 8 (push_bit 1 d) genpoly accum"

definition BuildCrc16Table :: "u16 list" where
  "BuildCrc16Table = map (\<lambda>i. DoCrc16 (word_of_nat i) 0x8408 0) [0..<256]"

section \<open>CRC-32\<close>

definition crc32_poly :: u32 where
  "crc32_poly = fold (\<lambda>p poly. poly OR push_bit (31 - p) 1) [0,1,2,4,5,7,8,10,11,12,16,22,23,26] 0"

definition crc32_bit :: "u32 \<Rightarrow> u32" where
  "crc32_bit c = (if c AND 1 \<noteq> 0 then crc32_poly XOR drop_bit 1 c else drop_bit 1 c)"

definition BuildCrc32Table :: "u32 list" where
  "BuildCrc32Table = map (\<lambda>n. (crc32_bit ^^ 8) (word_of_nat n)) [0..<256]"

definition DO1 :: "u32 \<times> u8 list \<Rightarrow> (u32 \<times> u8 list) option" where
  "DO1 s = (case s of (crc, buf) \<Rightarrow> (case buf of [] \<Rightarrow> None
     | b # buf' \<Rightarrow> Some (crc32_table ! unat ((crc XOR scast b) AND 0xFF) XOR drop_bit 8 crc, buf')))"

definition DO2 :: "u32 \<times> u8 list \<Rightarrow> (u32 \<times> u8 list) option" where
  "DO2 s = do { s \<leftarrow> DO1 s; DO1 s }"

definition DO4 :: "u32 \<times> u8 list \<Rightarrow> (u32 \<times> u8 list) option" where
  "DO4 s = do { s \<leftarrow> DO2 s; DO2 s }"

definition DO8 :: "u32 \<times> u8 list \<Rightarrow> (u32 \<times> u8 list) option" where
  "DO8 s = do { s \<leftarrow> DO4 s; DO4 s }"

fun crc32_tail :: "nat \<Rightarrow> u32 \<times> u8 list \<Rightarrow> (u32 \<times> u8 list) option" where
  "crc32_tail 0 s = Some s"
| "crc32_tail (Suc n) s = do { s \<leftarrow> DO1 s; crc32_tail n s }"

fun crc32_blocks :: "nat \<Rightarrow> u32 \<times> u8 list \<Rightarrow> (u32 \<times> u8 list) option" where
  "crc32_blocks len s = (if 8 \<le> len then do { s \<leftarrow> DO8 s; crc32_blocks (len - 8) s } else crc32_tail len s)"

definition IFX_CalcChecksumCRC32 :: "u32 \<Rightarrow> u8 list \<Rightarrow> u32 \<Rightarrow> u32 option" where
  "IFX_CalcChecksumCRC32 crc buf len = do {
     (crc, _) \<leftarrow> crc32_blocks (unat len) (crc XOR 0xFFFFFFFF, buf);
     Some (crc XOR 0xFFFFFFFF) }"

section \<open>Reference\<close>

text \<open>The reflected bit-serial division: one octet enters at the low end, eight shift steps follow.\<close>

definition lfsr_bit :: "'a::len word \<Rightarrow> 'a word \<Rightarrow> 'a word" where
  "lfsr_bit poly c = drop_bit 1 c XOR (if bit c 0 then poly else 0)"

definition lfsr_octet :: "'a::len word \<Rightarrow> 'a word \<Rightarrow> u8 \<Rightarrow> 'a word" where
  "lfsr_octet poly c b = (lfsr_bit poly ^^ 8) (c XOR ucast b)"

definition lfsr :: "'a::len word \<Rightarrow> 'a word \<Rightarrow> u8 list \<Rightarrow> 'a word" where
  "lfsr poly c buf = foldl (lfsr_octet poly) c buf"

text \<open>What the tables are checked for: they are linear and start from the polynomial.\<close>

definition table_linear :: "'a::len word list \<Rightarrow> nat \<Rightarrow> bool" where
  "table_linear T k \<longleftrightarrow> map (\<lambda>x. x XOR T ! (2 ^ k)) (take (2 ^ k) T) = take (2 ^ k) (drop (2 ^ k) T)"

definition table_basis :: "'a::len word \<Rightarrow> 'a word list \<Rightarrow> bool" where
  "table_basis p T \<longleftrightarrow> length T = 256 \<and> T ! 0 = 0 \<and> T ! 128 = p \<and> (\<forall>k\<in>set [0..<7]. T ! (2 ^ k) = lfsr_bit p (T ! (2 ^ (k + 1))))"

section \<open>Bitwise division\<close>

lemma lfsr_bit_xor: "lfsr_bit p (x XOR y) = lfsr_bit p x XOR lfsr_bit p y"
  by (rule bit_word_eqI) (auto simp: lfsr_bit_def bit_xor_iff bit_drop_bit_eq)

lemma lfsr_bits_xor: "(lfsr_bit p ^^ n) (x XOR y) = (lfsr_bit p ^^ n) x XOR (lfsr_bit p ^^ n) y"
  by (induction n) (simp_all add: lfsr_bit_xor)

lemma lfsr_bit_0 [simp]: "lfsr_bit p 0 = 0"
  by (simp add: lfsr_bit_def)

lemma lfsr_bits_0 [simp]: "(lfsr_bit p ^^ n) 0 = 0"
  by (induction n) simp_all

lemma lfsr_bit_shift: "\<not> bit x 0 \<Longrightarrow> lfsr_bit p x = drop_bit 1 x"
  by (simp add: lfsr_bit_def)

text \<open>Steps over zero bits only shift.\<close>

lemma lfsr_bits_shift: "(\<And>i. i < n \<Longrightarrow> \<not> bit x i) \<Longrightarrow> (lfsr_bit p ^^ n) x = drop_bit n x"
proof (induction n arbitrary: x)
  case (Suc n)
  then have "(lfsr_bit p ^^ Suc n) x = (lfsr_bit p ^^ n) (drop_bit 1 x)" by (simp add: funpow_Suc_right lfsr_bit_shift del: funpow.simps)
  also have "\<dots> = drop_bit n (drop_bit 1 x)" by (rule Suc.IH) (use Suc.prems in \<open>auto simp: bit_drop_bit_eq\<close>)
  finally show ?case by (simp add: drop_bit_drop_bit)
qed simp

lemma lfsr_octet_split:
  fixes c :: "'a::len word"
  shows "(lfsr_bit p ^^ 8) c = (lfsr_bit p ^^ 8) (c AND 0xFF) XOR drop_bit 8 c"
proof -
  have "c = (c AND 0xFF) XOR (c AND NOT 0xFF)" by (rule bit_word_eqI) (auto simp: bit_simps)
  then have "(lfsr_bit p ^^ 8) c = (lfsr_bit p ^^ 8) (c AND 0xFF) XOR (lfsr_bit p ^^ 8) (c AND NOT 0xFF)"
    by (metis lfsr_bits_xor)
  moreover have ff: "(0xFF :: 'a word) = mask 8" by (simp add: mask_eq_exp_minus_1)
  have "(lfsr_bit p ^^ 8) (c AND NOT 0xFF) = drop_bit 8 (c AND NOT 0xFF)"
    by (rule lfsr_bits_shift) (auto simp: ff bit_and_iff bit_not_iff bit_mask_iff dest: bit_imp_le_length)
  moreover have "drop_bit 8 (c AND NOT 0xFF) = drop_bit 8 c"
    by (rule bit_word_eqI) (auto simp: ff bit_simps dest: bit_imp_le_length)
  ultimately show ?thesis by simp
qed

text \<open>The entry for a power of two comes from the entry for the next one.\<close>

lemma lfsr_power:
  assumes "k < 7" "8 < LENGTH('a::len)"
  shows "(lfsr_bit p ^^ 8) (2 ^ k :: 'a word) = lfsr_bit p ((lfsr_bit p ^^ 8) (2 ^ (k + 1)))"
proof -
  have "lfsr_bit p (2 ^ (k + 1) :: 'a word) = drop_bit 1 (push_bit (k + 1) 1)"
    by (simp add: lfsr_bit_shift push_bit_eq_mult bit_0)
  also have "\<dots> = 2 ^ k" using assms by (intro bit_word_eqI) (auto simp: bit_simps bit_exp_iff)
  finally have e: "lfsr_bit p (2 ^ (k + 1) :: 'a word) = 2 ^ k" .
  have "lfsr_bit p ((lfsr_bit p ^^ 8) (2 ^ (k + 1))) = (lfsr_bit p ^^ 8) (lfsr_bit p (2 ^ (k + 1)))"
    by (simp only: funpow_swap1)
  with e show ?thesis by simp
qed

lemma drop_push_one: "k < LENGTH('a::len) \<Longrightarrow> drop_bit k (push_bit k 1 :: 'a word) = 1"
  by (rule bit_word_eqI) (auto simp: bit_simps)

lemma lfsr_power_7:
  assumes "8 < LENGTH('a::len)"
  shows "(lfsr_bit p ^^ 8) (128 :: 'a word) = p"
proof -
  have e: "(128 :: 'a word) = push_bit 7 1" by (simp add: push_bit_eq_mult)
  have "(lfsr_bit p ^^ 7) (128 :: 'a word) = drop_bit 7 (push_bit 7 1)"
    unfolding e by (rule lfsr_bits_shift) (subst bit_push_bit_iff, simp)
  also have "\<dots> = 1" by (rule drop_push_one) (use assms in simp)
  finally have "(lfsr_bit p ^^ 7) (128 :: 'a word) = 1" .
  moreover have "lfsr_bit p 1 = p" by (simp add: lfsr_bit_def drop_bit_Suc flip: One_nat_def)
  ultimately show ?thesis by (simp add: numeral_eq_Suc)
qed
section \<open>The tables\<close>

text \<open>A table with these two properties holds the division of every octet.\<close>

lemma table_entries:
  fixes T :: "'a::len word list"
  assumes b: "table_basis p T" and l: "\<forall>k<8. table_linear T k" and len: "8 < LENGTH('a)"
  shows "i < 256 \<Longrightarrow> T ! i = (lfsr_bit p ^^ 8) (word_of_nat i)"
proof -
  have bas: "k < 8 \<Longrightarrow> T ! (2 ^ k) = (lfsr_bit p ^^ 8) (2 ^ k)" for k
  proof (induction "7 - k" arbitrary: k)
    case 0
    then have "k = 7" by simp
    with b lfsr_power_7[OF len, of p] show ?case by (simp add: table_basis_def)
  next
    case (Suc d)
    then have k: "k < 7" by simp
    with Suc.hyps(1)[of "k + 1"] Suc.hyps(2) b lfsr_power[OF k len, of p] show ?case by (auto simp: table_basis_def)
  qed
  have "k \<le> 8 \<Longrightarrow> i < 2 ^ k \<Longrightarrow> T ! i = (lfsr_bit p ^^ 8) (word_of_nat i)" for k i
  proof (induction k arbitrary: i)
    case 0
    then show ?case using b by (simp add: table_basis_def)
  next
    case (Suc k)
    show ?case
    proof (cases "i < 2 ^ k")
      case False
      define j where "j = i - 2 ^ k"
      with False Suc.prems have j: "i = 2 ^ k + j" "j < 2 ^ k" by auto
      have le: "2 ^ Suc k \<le> length T" using b power_increasing[OF Suc.prems(1), of "2 :: nat"] by (simp add: table_basis_def)
      from l Suc.prems(1) have "table_linear T k" by simp
      then have "map (\<lambda>x. x XOR T ! (2 ^ k)) (take (2 ^ k) T) ! j = take (2 ^ k) (drop (2 ^ k) T) ! j" by (simp add: table_linear_def)
      with j le have "T ! j XOR T ! (2 ^ k) = T ! (2 ^ k + j)" by simp
      then have "T ! i = (lfsr_bit p ^^ 8) (word_of_nat j XOR 2 ^ k)"
        using Suc.IH[OF _ j(2)] bas[of k] Suc.prems(1) j(1) by (simp add: lfsr_bits_xor)
      moreover have "word_of_nat j XOR 2 ^ k = (word_of_nat (2 ^ k + j) :: 'a word)"
      proof -
        have "(word_of_nat j :: 'a word) AND 2 ^ k = 0"
          using j(2) by (intro bit_word_eqI) (auto simp: bit_and_iff bit_exp_iff bit_of_nat_iff bit_iff_odd[of j])
        then have "(word_of_nat j :: 'a word) + 2 ^ k = word_of_nat j XOR 2 ^ k" by (rule disjunctive_add_eq_xor)
        then show ?thesis by (simp add: add.commute)
      qed
      ultimately show ?thesis using j(1) by simp
    qed (use Suc in simp)
  qed
  from this[of 8 i] show "i < 256 \<Longrightarrow> T ! i = (lfsr_bit p ^^ 8) (word_of_nat i)" by simp
qed
lemma crc32_poly_eq: "crc32_poly = 0xEDB88320"
  by code_simp

lemma crc32_bit_lfsr: "crc32_bit = lfsr_bit 0xEDB88320"
  by (rule ext) (simp add: crc32_bit_def lfsr_bit_def crc32_poly_eq bit_0 and_one_eq odd_iff_mod_2_eq_one xor.commute)

lemma crc32_table_small: "\<forall>k\<in>set [0..<7]. table_linear crc32_table k"
  by code_simp

lemma crc32_table_large: "table_linear crc32_table 7"
  by code_simp

lemma crc32_table_basis: "table_basis 0xEDB88320 crc32_table"
  by code_simp

lemma crc16_table_linear: "\<forall>k\<in>set [0..<8]. table_linear crc16_table k"
  by code_simp

lemma crc16_table_basis: "table_basis 0x8408 crc16_table"
  by code_simp
lemma crc32_entry: "i < 256 \<Longrightarrow> crc32_table ! i = (lfsr_bit 0xEDB88320 ^^ 8) (word_of_nat i)"
proof (rule table_entries[OF crc32_table_basis])
  show "\<forall>k<8. table_linear crc32_table k"
    using crc32_table_small crc32_table_large by (metis atLeastLessThan_iff le0 less_antisym numeral_eq_Suc pred_numeral_simps(2,3) set_upt semiring_norm(26,27,28))
qed simp_all

lemma crc16_entry: "i < 256 \<Longrightarrow> crc16_table ! i = (lfsr_bit 0x8408 ^^ 8) (word_of_nat i)"
  using crc16_table_linear by (intro table_entries[OF crc16_table_basis]) auto

lemma low_octet_index:
  fixes c :: "'a::len word" and b :: u8
  assumes "8 < LENGTH('a)" "LENGTH('a) \<le> 32"
  shows "word_of_nat (unat (((ucast c :: u32) XOR scast b) AND 0xFF)) = (c XOR ucast b) AND 0xFF"
proof -
  have ff: "(0xFF :: u32) = mask 8" "(0xFF :: 'a word) = mask 8" by (simp_all add: mask_eq_exp_minus_1)
  have "ucast (((ucast c :: u32) XOR scast b) AND mask 8) = (c XOR ucast b) AND mask 8"
    using assms by (intro bit_word_eqI) (auto simp: bit_simps bit_signed_iff signed_take_bit_eq_if_positive)
  then show ?thesis unfolding ff by (simp add: unsigned_ucast_eq)
qed

lemma low_octet_bound: "unat ((x :: u32) AND 0xFF) < 256"
  using word_and_le1[of x "0xFF"] by (simp add: word_le_nat_alt)

lemma octet_above [simp]: "drop_bit 8 (ucast (b :: u8) :: 'a::len word) = 0"
  by (rule bit_word_eqI) (auto simp: bit_simps dest: bit_imp_le_length)
text \<open>One octet through a table is one octet of division.\<close>

lemma CRC_16_octet: "CRC_16_CCITT_M c b = lfsr_octet 0x8408 c b"
proof -
  have "CRC_16_CCITT_M c b = drop_bit 8 c XOR (lfsr_bit 0x8408 ^^ 8) ((c XOR ucast b) AND 0xFF)"
    unfolding CRC_16_CCITT_M_def crc16_entry[OF low_octet_bound] by (subst low_octet_index) simp_all
  then show ?thesis
    unfolding lfsr_octet_def by (subst lfsr_octet_split) (simp add: xor.commute)
qed

lemma DO1_octet: "DO1 (c, b # buf) = Some (lfsr_octet 0xEDB88320 c b, buf)"
proof -
  have "crc32_table ! unat ((c XOR scast b) AND 0xFF) = (lfsr_bit 0xEDB88320 ^^ 8) ((c XOR ucast b) AND 0xFF)"
    unfolding crc32_entry[OF low_octet_bound] using low_octet_index[of c b] by simp
  then show ?thesis
    unfolding lfsr_octet_def DO1_def by (subst lfsr_octet_split) simp
qed

lemma DO1_None: "DO1 (c, []) = None"
  by (simp add: DO1_def)

section \<open>The loops\<close>

lemma lfsr_Cons: "lfsr p c (b # buf) = lfsr p (lfsr_octet p c b) buf"
  by (simp add: lfsr_def)

lemma lfsr_append: "lfsr p c (xs @ ys) = lfsr p (lfsr p c xs) ys"
  by (simp add: lfsr_def)

lemma crc16_loop: "IFX_CalcChecksumCRC16_loop c buf n = (if n \<le> length buf then Some (lfsr 0x8408 c (take n buf)) else None)"
  by (induction c buf n rule: IFX_CalcChecksumCRC16_loop.induct) (auto simp: CRC_16_octet lfsr_def)

lemma crc32_tail_ok: "crc32_tail n (c, buf) = (if n \<le> length buf then Some (lfsr 0xEDB88320 c (take n buf), drop n buf) else None)"
proof (induction n arbitrary: c buf)
  case (Suc n)
  then show ?case by (cases buf) (auto simp: DO1_octet DO1_None lfsr_Cons)
qed (simp add: lfsr_def)

text \<open>The unrolled blocks are eight steps of the simple loop.\<close>

lemma crc32_tail_fun: "crc32_tail 0 = Some" "crc32_tail (Suc n) = (\<lambda>s. DO1 s \<bind> crc32_tail n)"
  by (rule ext, simp)+

lemma crc32_tail_add: "crc32_tail (m + n) = (\<lambda>s. crc32_tail m s \<bind> crc32_tail n)"
  by (induction m) (simp_all add: crc32_tail_fun bind_assoc del: crc32_tail.simps)

lemma DO8_tail: "DO8 = crc32_tail 8"
  by (simp add: fun_eq_iff DO8_def DO4_def DO2_def numeral_eq_Suc crc32_tail_fun bind_assoc del: crc32_tail.simps)

lemma crc32_blocks_tail: "crc32_blocks len s = crc32_tail len s"
proof (induction len s rule: crc32_blocks.induct)
  case (1 len s)
  show ?case
  proof (cases "8 \<le> len")
    case True
    then have "crc32_tail len s = crc32_tail 8 s \<bind> crc32_tail (len - 8)" using crc32_tail_add[of 8 "len - 8"] by simp
    moreover have "crc32_tail 8 s \<bind> crc32_blocks (len - 8) = crc32_tail 8 s \<bind> crc32_tail (len - 8)"
      by (rule Option.bind_cong) (use 1 True in \<open>simp_all add: DO8_tail\<close>)
    ultimately show ?thesis using True by (subst crc32_blocks.simps) (simp add: DO8_tail del: crc32_blocks.simps)
  qed (simp del: crc32_tail.simps)
qed

lemma crc32_ok: "IFX_CalcChecksumCRC32 crc buf len =
    (if unat len \<le> length buf then Some (lfsr 0xEDB88320 (crc XOR 0xFFFFFFFF) (take (unat len) buf) XOR 0xFFFFFFFF) else None)"
  by (simp add: IFX_CalcChecksumCRC32_def crc32_blocks_tail crc32_tail_ok del: crc32_blocks.simps)

section \<open>Injectivity\<close>

text \<open>With the top bit of the polynomial set, the shifted-out bit can be recovered: every step is injective.\<close>

lemma lfsr_bit_inj:
  fixes p :: "'a::len word"
  assumes "bit p (LENGTH('a) - 1)"
  shows "inj (lfsr_bit p)"
proof (rule injI)
  fix x y assume e: "lfsr_bit p x = lfsr_bit p y"
  have top: "bit (lfsr_bit p z) (LENGTH('a) - 1) = bit z 0" for z
    using assms by (auto simp: lfsr_bit_def bit_simps dest: bit_imp_le_length)
  from e top[of x] top[of y] have b0: "bit x 0 = bit y 0" by simp
  with e have d: "drop_bit 1 x = drop_bit 1 y" by (auto simp: lfsr_bit_def split: if_splits dest: arg_cong[where f = "\<lambda>z. z XOR p"] simp: xor.assoc)
  show "x = y"
  proof (rule bit_word_eqI)
    fix n show "bit x n = bit y n"
      using b0 arg_cong[OF d, of "\<lambda>z. bit z (n - 1)"] by (cases n) (simp_all add: bit_drop_bit_eq)
  qed
qed

lemma lfsr_octet_inj:
  fixes p :: "'a::len word"
  assumes "bit p (LENGTH('a) - 1)" "8 \<le> LENGTH('a)"
  shows "lfsr_octet p c b = lfsr_octet p c' b \<longleftrightarrow> c = c'" "lfsr_octet p c b = lfsr_octet p c b' \<longleftrightarrow> b = b'"
proof -
  have inj: "inj (lfsr_bit p ^^ 8)" using lfsr_bit_inj[OF assms(1)] by (rule inj_fn)
  have x: "u XOR w = v XOR w \<longleftrightarrow> u = v" "w XOR u = w XOR v \<longleftrightarrow> u = v" for u v w :: "'a word"
    by (metis xor.assoc xor.commute xor_self_eq xor.left_neutral)+
  show "lfsr_octet p c b = lfsr_octet p c' b \<longleftrightarrow> c = c'" using inj x(1) by (auto simp: lfsr_octet_def dest: injD)
  have "b = b'" if "(ucast b :: 'a word) = ucast b'"
  proof (rule bit_word_eqI)
    fix n assume "n < LENGTH(8)"
    with arg_cong[OF that, of "\<lambda>w. bit w n"] assms(2) show "bit b n = bit b' n" by (simp add: bit_simps)
  qed
  then show "lfsr_octet p c b = lfsr_octet p c b' \<longleftrightarrow> b = b'" using inj x(2) by (auto simp: lfsr_octet_def dest: injD)
qed
section \<open>The table builders\<close>

lemma low_bit: "(x AND 1 \<noteq> 0) = bit x 0" for x :: "'a::len word"
  by (simp add: and_one_eq odd_iff_mod_2_eq_one bit_0)

lemma drop_push: "(\<And>n. LENGTH('a) - k \<le> n \<Longrightarrow> \<not> bit x n) \<Longrightarrow> drop_bit k (push_bit k x) = x" for x :: "'a::len word"
  by (rule bit_word_eqI) (auto simp: bit_simps, metis add.commute le_diff_conv linorder_not_less)

lemma DoCrc16_loop_lfsr: "DoCrc16_loop n d g a = (lfsr_bit g ^^ n) (a XOR drop_bit 1 d) XOR drop_bit (Suc n) d"
proof (induction n arbitrary: d a)
  case 0
  then show ?case by (simp add: xor.assoc)
next
  case (Suc n)
  let ?a = "if (drop_bit 1 d XOR a) AND 1 \<noteq> 0 then drop_bit 1 a XOR g else drop_bit 1 a"
  have "?a XOR drop_bit 1 (drop_bit 1 d) = lfsr_bit g (a XOR drop_bit 1 d)"
    unfolding low_bit by (simp add: lfsr_bit_def bit_xor_iff ac_simps)
  then show ?case using Suc[of "drop_bit 1 d" ?a] by (simp add: Let_def funpow_swap1 drop_bit_drop_bit)
qed

lemma BuildCrc16Table_entry: "i < 256 \<Longrightarrow> BuildCrc16Table ! i = (lfsr_bit 0x8408 ^^ 8) (word_of_nat i)"
proof -
  assume i: "i < 256"
  have high: "\<not> bit (word_of_nat i :: u16) n" if "8 \<le> n" for n
  proof -
    have "i < 2 ^ n" using i power_increasing[OF that, of "2 :: nat"] by simp
    then show ?thesis by (simp add: bit_of_nat_iff bit_iff_odd[of i])
  qed
  have s: "drop_bit 1 (push_bit 1 (word_of_nat i :: u16)) = word_of_nat i" by (rule drop_push) (simp add: high)
  have "drop_bit (8 + 1) (push_bit 1 (word_of_nat i :: u16)) = drop_bit 8 (word_of_nat i)"
    unfolding drop_bit_drop_bit[symmetric] s ..
  also have "\<dots> = 0" by (rule bit_word_eqI) (simp add: bit_drop_bit_eq high)
  finally have z: "drop_bit (Suc 8) (push_bit 1 (word_of_nat i :: u16)) = 0" by simp
  have "BuildCrc16Table ! i = DoCrc16 (word_of_nat i) 0x8408 0" using i by (simp add: BuildCrc16Table_def)
  then show ?thesis unfolding DoCrc16_def DoCrc16_loop_lfsr s z by simp
qed

section \<open>Properties\<close>

text \<open>
  The constant tables are the ones the builders of the dynamic variant compute, so both variants
  of the library give the same checksums.
\<close>

theorem crc_tables_correct: "crc32_table = BuildCrc32Table \<and> crc16_table = BuildCrc16Table"
proof
  show "crc32_table = BuildCrc32Table"
    using crc32_table_basis by (intro nth_equalityI) (auto simp: table_basis_def crc32_entry BuildCrc32Table_def crc32_bit_lfsr)
  show "crc16_table = BuildCrc16Table"
    using crc16_table_basis by (intro nth_equalityI) (auto simp: table_basis_def crc16_entry BuildCrc16Table_entry, simp add: BuildCrc16Table_def)
qed

text \<open>
  C25: Both table-driven checksums, the unrolled loop of the CRC-32 included, compute the bit-serial
  division of exactly the given number of octets, with the standard polynomials and initial values;
  they return on every input that has enough octets and read past the end of a shorter one.
\<close>

theorem crc_is_division:
  "IFX_CalcChecksumCRC32 crc buf len =
     (if unat len \<le> length buf then Some (NOT (lfsr 0xEDB88320 (NOT crc) (take (unat len) buf))) else None)
   \<and> IFX_CalcChecksumCRC16 buf len =
     (if unat len \<le> length buf then Some (lfsr 0x8408 0xFFFF (take (unat len) buf)) else None)"
proof
  have "x XOR 0xFFFFFFFF = NOT x" for x :: u32
  proof -
    have "(0xFFFFFFFF :: u32) = - 1" by simp
    then show ?thesis by (simp only: bit.xor_one_right)
  qed
  then show "IFX_CalcChecksumCRC32 crc buf len =
     (if unat len \<le> length buf then Some (NOT (lfsr 0xEDB88320 (NOT crc) (take (unat len) buf))) else None)"
    by (simp add: crc32_ok)
  show "IFX_CalcChecksumCRC16 buf len = (if unat len \<le> length buf then Some (lfsr 0x8408 0xFFFF (take (unat len) buf)) else None)"
    by (simp add: IFX_CalcChecksumCRC16_def crc16_loop)
qed

text \<open>
  The CRC-32 can be computed piecewise: continuing with the checksum of the first part over the
  second part gives the checksum of the whole.
\<close>

theorem crc32_incremental:
  assumes "IFX_CalcChecksumCRC32 crc xs (word_of_nat (length xs)) = Some c" and "length xs + length ys < 2 ^ 32"
  shows "IFX_CalcChecksumCRC32 c ys (word_of_nat (length ys)) = IFX_CalcChecksumCRC32 crc (xs @ ys) (word_of_nat (length xs + length ys))"
proof -
  have u: "unat (word_of_nat n :: u32) = n" if "n < 2 ^ 32" for n using that by (simp add: unat_of_nat)
  have "c = lfsr 0xEDB88320 (crc XOR 0xFFFFFFFF) xs XOR 0xFFFFFFFF" using assms u[of "length xs"] by (simp add: crc32_ok)
  then have "c XOR 0xFFFFFFFF = lfsr 0xEDB88320 (crc XOR 0xFFFFFFFF) xs" by (simp add: xor.assoc)
  with assms(2) u[of "length ys"] u[of "length xs + length ys"] show ?thesis by (simp add: crc32_ok lfsr_append)
qed

theorem crc32_incremental_witness:
  "IFX_CalcChecksumCRC32 0 [0x31, 0x32] 2 = Some 0x4F5344CD \<and> IFX_CalcChecksumCRC32 0x4F5344CD [0x33] 1 = IFX_CalcChecksumCRC32 0 [0x31, 0x32, 0x33] 3"
proof -
  have e: "IFX_CalcChecksumCRC32 0 [0x31, 0x32] 2 = Some 0x4F5344CD" by code_simp
  with crc32_incremental[of 0 "[0x31, 0x32]" "0x4F5344CD" "[0x33]"] show ?thesis by simp
qed

text \<open>
  Two buffers of the same length that differ in one octet have different CRC-32 and different
  CRC-16, whatever the position and the rest of the buffer.
\<close>

theorem crc_detects_octet:
  assumes "b \<noteq> b'" and "length xs + length ys + 1 < 2 ^ 32"
  shows "IFX_CalcChecksumCRC32 crc (xs @ b # ys) (word_of_nat (length (xs @ b # ys))) \<noteq> IFX_CalcChecksumCRC32 crc (xs @ b' # ys) (word_of_nat (length (xs @ b # ys)))
    \<and> IFX_CalcChecksumCRC16 (xs @ b # ys) (word_of_nat (length (xs @ b # ys))) \<noteq> IFX_CalcChecksumCRC16 (xs @ b' # ys) (word_of_nat (length (xs @ b # ys)))"
proof -
  define n where "n = length (xs @ b # ys)"
  then have "n < 2 ^ 32" using assms(2) by simp
  then have u: "unat (word_of_nat n :: u32) = n" "n \<le> length (xs @ b # ys)" "n \<le> length (xs @ b' # ys)"
    by (simp_all add: unat_of_nat) (simp_all add: n_def)
  have tk: "take n (xs @ b # ys) = xs @ b # ys" "take n (xs @ b' # ys) = xs @ b' # ys" by (simp_all add: n_def)
  have inj: "lfsr p c ys = lfsr p c' ys \<longleftrightarrow> c = c'" if "bit p (LENGTH('a) - 1)" "8 \<le> LENGTH('a)" for p c c' :: "'a::len word" and ys
    by (induction ys arbitrary: c c') (simp_all add: lfsr_def lfsr_octet_inj(1)[OF that])
  have differ: "lfsr p c (xs @ b # ys) \<noteq> lfsr p c (xs @ b' # ys)" if "bit p (LENGTH('a) - 1)" "8 \<le> LENGTH('a)" for p c :: "'a::len word"
    using assms(1) by (simp add: lfsr_append lfsr_Cons inj[OF that] lfsr_octet_inj(2)[OF that])
  have x: "v XOR w = v' XOR w \<longleftrightarrow> v = v'" for v v' w :: u32 by (metis xor.assoc xor_self_eq xor.right_neutral)
  have "lfsr 0xEDB88320 (crc XOR 0xFFFFFFFF) (xs @ b # ys) \<noteq> lfsr 0xEDB88320 (crc XOR 0xFFFFFFFF) (xs @ b' # ys)" by (rule differ) simp_all
  moreover have "lfsr 0x8408 0xFFFF (xs @ b # ys) \<noteq> (lfsr 0x8408 0xFFFF (xs @ b' # ys) :: u16)" by (rule differ) simp_all
  ultimately show ?thesis unfolding n_def[symmetric]
    using u(2,3) by (simp add: crc32_ok IFX_CalcChecksumCRC16_def crc16_loop x u(1) tk del: length_append take_append)
qed

theorem crc_detects_octet_witness:
  "IFX_CalcChecksumCRC32 0 [1, 2, 3] 3 \<noteq> IFX_CalcChecksumCRC32 0 [1, 7, 3] 3"
  using crc_detects_octet[of 2 7 "[1]" "[3]" 0] by simp

text \<open>
  The additive checksum is the sum of the octets modulo 65536, so it does not depend on their
  order.
\<close>

theorem checksum_is_sum:
  "IFX_CalcChecksum buf len = (if unat len \<le> length buf then Some (word_of_nat (sum_list (map unat (take (unat len) buf)))) else None)"
proof -
  have "IFX_CalcChecksum_loop s buf n = (if n \<le> length buf then Some (s + word_of_nat (sum_list (map unat (take n buf)))) else None)" for s n
    by (induction s buf n rule: IFX_CalcChecksum_loop.induct) (auto simp: add.assoc unsigned_ucast_eq)
  then show ?thesis by (simp add: IFX_CalcChecksum_def)
qed

end
