(* ===== verification/Api_Mapper.thy ===== *)
theory Api_Mapper
  imports Gpon_Prelude "HOL-Library.Monad_Syntax"
begin

text \<open>
  The identifier mapper of the OMCI API (\<^verbatim>\<open>src/omci_api_mapper.c\<close>): for every identifier type a
  mapper holds pairs of an identifier and a driver index. Each pair is one heap item that hangs in
  two singly linked lists at once, one sorted by identifier and one by index. The heap is explicit:
  \<^verbatim>\<open>items\<close> are the allocated list items, \<^verbatim>\<open>mappers\<close> the allocated mapper structures, and the
  array of pointers \<^verbatim>\<open>mapper_p\<close> may hold NULL or the address of a structure that was freed. Every
  access is a partial step: \<^const>\<open>None\<close> stands for an access through NULL or to freed memory and for
  a loop that does not end, so a result \<^const>\<open>Some\<close> shows that the call is memory safe and returns.
  The C allocator is a parameter, a function from the addresses in use to an address or NULL.
\<close>

section \<open>Data\<close>

datatype omci_api_return = OMCI_API_SUCCESS | OMCI_API_ERROR | OMCI_API_NOT_FOUND

definition ret_val :: "omci_api_return \<Rightarrow> int" where
  "ret_val r = (case r of OMCI_API_SUCCESS \<Rightarrow> 0 | OMCI_API_ERROR \<Rightarrow> - 1 | OMCI_API_NOT_FOUND \<Rightarrow> - 2)"

datatype mapper_key_type = KEY_TYPE_ID | KEY_TYPE_INDEX

record mapper_map_list =
  key :: "mapper_key_type \<Rightarrow> u32"
  nxt :: "mapper_key_type \<Rightarrow> nat option"

record mapper =
  min_key :: "mapper_key_type \<Rightarrow> u32"
  max_key :: "mapper_key_type \<Rightarrow> u32"
  list_head :: "mapper_key_type \<Rightarrow> nat option"

type_synonym item_heap = "nat \<Rightarrow> mapper_map_list option"

record omci_api_ctx =
  mapper_p :: "nat \<Rightarrow> nat option"
  mappers :: "nat \<Rightarrow> mapper option"
  items :: item_heap
  max_bridge_port :: u32

type_synonym malloc = "(nat \<Rightarrow> bool) \<Rightarrow> nat option"

text \<open>The identifier types; the enumeration leaves eight more values after the bridge ports.\<close>

abbreviation (input) MAPPER_TCONT_MEID_TO_IDX :: nat where "MAPPER_TCONT_MEID_TO_IDX \<equiv> 0"
abbreviation (input) MAPPER_MACBRIDGEPORT_MEID_TO_IDX :: nat where "MAPPER_MACBRIDGEPORT_MEID_TO_IDX \<equiv> 1"
abbreviation (input) MAPPER_MACBRIDGE_MEID_TO_IDX :: nat where "MAPPER_MACBRIDGE_MEID_TO_IDX \<equiv> 10"
abbreviation (input) MAPPER_MACBRIDGEPORT_MEID_TO_INGRESS_METER_IDX :: nat where "MAPPER_MACBRIDGEPORT_MEID_TO_INGRESS_METER_IDX \<equiv> 11"
abbreviation (input) MAPPER_MACBRIDGEPORT_MEID_TO_EGRESS_METER_IDX :: nat where "MAPPER_MACBRIDGEPORT_MEID_TO_EGRESS_METER_IDX \<equiv> 12"
abbreviation (input) MAPPER_TRAFFSHEDG_MEID_TO_IDX :: nat where "MAPPER_TRAFFSHEDG_MEID_TO_IDX \<equiv> 13"
abbreviation (input) MAPPER_DOT1PMAPPER_MEID_TO_IDX :: nat where "MAPPER_DOT1PMAPPER_MEID_TO_IDX \<equiv> 14"
abbreviation (input) MAPPER_DOT1PMAPPER_MEID_TO_DSCP_IDX :: nat where "MAPPER_DOT1PMAPPER_MEID_TO_DSCP_IDX \<equiv> 15"
abbreviation (input) MAPPER_GEMPORTCTP_MEID_TO_PORTID :: nat where "MAPPER_GEMPORTCTP_MEID_TO_PORTID \<equiv> 16"
abbreviation (input) MAPPER_GEMPORTCTP_MEID_TO_IDX :: nat where "MAPPER_GEMPORTCTP_MEID_TO_IDX \<equiv> 17"
abbreviation (input) MAPPER_GEMPORTCTP_MEID_TO_METER_IDX :: nat where "MAPPER_GEMPORTCTP_MEID_TO_METER_IDX \<equiv> 18"
abbreviation (input) MAPPER_MULCTCAST_GEMPORTITP_MEID_TO_CTP_MEID :: nat where "MAPPER_MULCTCAST_GEMPORTITP_MEID_TO_CTP_MEID \<equiv> 19"
abbreviation (input) MAPPER_PQUEUE_MEID_TO_IDX :: nat where "MAPPER_PQUEUE_MEID_TO_IDX \<equiv> 20"
abbreviation (input) MAPPER_TRAFFDESCR_TO_IDX :: nat where "MAPPER_TRAFFDESCR_TO_IDX \<equiv> 21"
abbreviation (input) MAPPER_TRAFFDESCR_TO_POLICERIDX :: nat where "MAPPER_TRAFFDESCR_TO_POLICERIDX \<equiv> 22"
abbreviation (input) MAPPER_TRAFFDESCR_TO_SHAPERIDX :: nat where "MAPPER_TRAFFDESCR_TO_SHAPERIDX \<equiv> 23"
abbreviation (input) MAPPER_PPTPETHUNI_MEID_TO_IDX :: nat where "MAPPER_PPTPETHUNI_MEID_TO_IDX \<equiv> 24"
abbreviation (input) MAPPER_VLANTFD_MEID_TO_VLANGRP :: nat where "MAPPER_VLANTFD_MEID_TO_VLANGRP \<equiv> 25"
abbreviation (input) MAPPER_VLANTOCD_MEID_TO_VLANRULEGRP_DS :: nat where "MAPPER_VLANTOCD_MEID_TO_VLANRULEGRP_DS \<equiv> 26"
abbreviation (input) MAPPER_VLANTOCD_MEID_TO_VLANRULEGRP_US :: nat where "MAPPER_VLANTOCD_MEID_TO_VLANRULEGRP_US \<equiv> 27"
abbreviation (input) MAPPER_MACBRIDGEPORTFPTD_MEID_TO_USEXCEPTIDX :: nat where "MAPPER_MACBRIDGEPORTFPTD_MEID_TO_USEXCEPTIDX \<equiv> 28"
abbreviation (input) MAPPER_MACBRIDGEPORTFPTD_MEID_TO_DSEXCEPTIDX :: nat where "MAPPER_MACBRIDGEPORTFPTD_MEID_TO_DSEXCEPTIDX \<equiv> 29"
abbreviation (input) MAPPER_VLAN_MEID_TO_EXTVLANIDX :: nat where "MAPPER_VLAN_MEID_TO_EXTVLANIDX \<equiv> 30"
abbreviation (input) MAPPER_TCONT_TO_EPN :: nat where "MAPPER_TCONT_TO_EPN \<equiv> 31"
abbreviation (input) MAPPER_PORT_TO_EPN :: nat where "MAPPER_PORT_TO_EPN \<equiv> 32"
abbreviation (input) MAPPER_SIP_AGT_TO_IDX :: nat where "MAPPER_SIP_AGT_TO_IDX \<equiv> 33"
abbreviation (input) MAPPER_SIP_USR_TO_IDX :: nat where "MAPPER_SIP_USR_TO_IDX \<equiv> 34"
abbreviation (input) MAPPER_EXTVLANCD_MEID_TO_EXTVLANIDX_US :: nat where "MAPPER_EXTVLANCD_MEID_TO_EXTVLANIDX_US \<equiv> 35"
abbreviation (input) MAPPER_EXTVLANCD_MEID_TO_EXTVLANIDX_DS :: nat where "MAPPER_EXTVLANCD_MEID_TO_EXTVLANIDX_DS \<equiv> 36"
abbreviation (input) MAPPER_EXTVLANCD_MEID_TO_MC_EXTVLANIDX_US :: nat where "MAPPER_EXTVLANCD_MEID_TO_MC_EXTVLANIDX_US \<equiv> 37"
abbreviation (input) MAPPER_EXTVLANCD_MEID_TO_MC_EXTVLANIDX_DS :: nat where "MAPPER_EXTVLANCD_MEID_TO_MC_EXTVLANIDX_DS \<equiv> 38"
abbreviation (input) MAPPER_EXTVLANCD_MEID_TO_LAN_IDX :: nat where "MAPPER_EXTVLANCD_MEID_TO_LAN_IDX \<equiv> 39"
abbreviation (input) MAPPER_GEMITP_MEID_TO_GPIX :: nat where "MAPPER_GEMITP_MEID_TO_GPIX \<equiv> 40"
abbreviation (input) MAPPER_PPTPPOTSUNI_MEID_TO_IDX :: nat where "MAPPER_PPTPPOTSUNI_MEID_TO_IDX \<equiv> 41"
abbreviation (input) MAPPER_MCOPPROFILE_MEID_TO_IDX :: nat where "MAPPER_MCOPPROFILE_MEID_TO_IDX \<equiv> 42"
abbreviation (input) MAPPER_MCSUBSCR_CFG_INFO_MEID_TO_IDX :: nat where "MAPPER_MCSUBSCR_CFG_INFO_MEID_TO_IDX \<equiv> 43"
abbreviation (input) MAPPER_MCSUBSCR_CFG_INFO_MEID_TO_LAN_IDX :: nat where "MAPPER_MCSUBSCR_CFG_INFO_MEID_TO_LAN_IDX \<equiv> 44"
abbreviation (input) MAPPER_MCSUBSCR_MONITOR_MEID_TO_IDX :: nat where "MAPPER_MCSUBSCR_MONITOR_MEID_TO_IDX \<equiv> 45"
abbreviation (input) MAPPER_PQUEUE_MEID_TO_TBS_IDX :: nat where "MAPPER_PQUEUE_MEID_TO_TBS_IDX \<equiv> 46"
abbreviation (input) MAPPER_VEIP_MEID_TO_IDX :: nat where "MAPPER_VEIP_MEID_TO_IDX \<equiv> 47"
abbreviation (input) MAPPER_LCT_MEID_TO_LAN_IDX :: nat where "MAPPER_LCT_MEID_TO_LAN_IDX \<equiv> 48"
abbreviation (input) MAPPER_LCT_MEID_TO_METER_IDX :: nat where "MAPPER_LCT_MEID_TO_METER_IDX \<equiv> 49"
abbreviation (input) MAPPER_IPV6HOST_MEID_TO_IDX :: nat where "MAPPER_IPV6HOST_MEID_TO_IDX \<equiv> 50"

definition MAPPER_IDTYPE_MAX :: nat where
  "MAPPER_IDTYPE_MAX = 51"

datatype mapper_entry_handler = NO_INIT | MAPPER_BRIDGE_PORT_INIT

record mapper_entry =
  etype :: nat
  num :: nat
  min_id :: u32
  max_id :: u32
  min_idx :: u32
  max_idx :: u32
  init :: mapper_entry_handler

definition mk_entry :: "nat \<Rightarrow> nat \<Rightarrow> u32 \<Rightarrow> u32 \<Rightarrow> u32 \<Rightarrow> u32 \<Rightarrow> mapper_entry_handler \<Rightarrow> mapper_entry" where
  "mk_entry ty n a b c d h =
     \<lparr> etype = ty, num = n, min_id = a, max_id = b, min_idx = c, max_idx = d, init = h \<rparr>"

definition mapper_bridge_port_init :: "omci_api_ctx \<Rightarrow> mapper_entry \<Rightarrow> mapper_entry" where
  "mapper_bridge_port_init ctx entry = entry\<lparr> max_idx := max_bridge_port ctx - 1 \<rparr>"

definition m_entry_a :: "mapper_entry list" where
  "m_entry_a = [
     mk_entry MAPPER_TCONT_MEID_TO_IDX 1 0 0xFFFFFFFF 0 31 NO_INIT,
     mk_entry MAPPER_TRAFFSHEDG_MEID_TO_IDX 1 0 0xFFFF 0 127 NO_INIT,
     mk_entry MAPPER_DOT1PMAPPER_MEID_TO_IDX 1 0 0xFFFF 0 31 NO_INIT,
     mk_entry MAPPER_DOT1PMAPPER_MEID_TO_DSCP_IDX 1 0 0xFFFF 0 31 NO_INIT,
     mk_entry MAPPER_GEMPORTCTP_MEID_TO_PORTID 1 0 0xFFFF 0 0xFFFF NO_INIT,
     mk_entry MAPPER_GEMPORTCTP_MEID_TO_IDX 1 0 0xFFFF 0 0xFFFFFFFF NO_INIT,
     mk_entry MAPPER_GEMPORTCTP_MEID_TO_METER_IDX 1 0 0xFFFF 0 0xFFFF NO_INIT,
     mk_entry MAPPER_MULCTCAST_GEMPORTITP_MEID_TO_CTP_MEID 1 0 0xFFFF 0 0xFFFF NO_INIT,
     mk_entry MAPPER_PQUEUE_MEID_TO_IDX 1 0 0xFFFF 0 255 NO_INIT,
     mk_entry MAPPER_PORT_TO_EPN 1 0 0xFFFF 64 67 NO_INIT,
     mk_entry MAPPER_MACBRIDGEPORT_MEID_TO_IDX 8 0 0xFFFFFFFF 0 0 MAPPER_BRIDGE_PORT_INIT,
     mk_entry MAPPER_MACBRIDGEPORT_MEID_TO_INGRESS_METER_IDX 1 0 0xFFFFFFFF 0 0xFFFFFFFF NO_INIT]"

definition m_entry_b :: "mapper_entry list" where
  "m_entry_b = [
     mk_entry MAPPER_MACBRIDGEPORT_MEID_TO_EGRESS_METER_IDX 1 0 0xFFFFFFFF 0 0xFFFFFFFF NO_INIT,
     mk_entry MAPPER_MACBRIDGE_MEID_TO_IDX 1 0 0xFFFF 0 7 NO_INIT,
     mk_entry MAPPER_PPTPETHUNI_MEID_TO_IDX 1 0 0xFFFF 0 8 NO_INIT,
     mk_entry MAPPER_VLANTFD_MEID_TO_VLANGRP 1 0 0xFFFF 0 64 NO_INIT,
     mk_entry MAPPER_VLANTOCD_MEID_TO_VLANRULEGRP_US 1 0 0xFFFF 0 64 NO_INIT,
     mk_entry MAPPER_VLANTOCD_MEID_TO_VLANRULEGRP_DS 1 0 0xFFFF 0 64 NO_INIT,
     mk_entry MAPPER_MACBRIDGEPORTFPTD_MEID_TO_USEXCEPTIDX 1 0 0xFFFF 0 63 NO_INIT,
     mk_entry MAPPER_MACBRIDGEPORTFPTD_MEID_TO_DSEXCEPTIDX 1 0 0xFFFF 0 63 NO_INIT,
     mk_entry MAPPER_TCONT_TO_EPN 1 0 0xFFFF 0 63 NO_INIT,
     mk_entry MAPPER_TRAFFDESCR_TO_IDX 1 0 0xFFFF 0 32 NO_INIT,
     mk_entry MAPPER_TRAFFDESCR_TO_POLICERIDX 1 0 0xFFFF 0 32 NO_INIT,
     mk_entry MAPPER_EXTVLANCD_MEID_TO_EXTVLANIDX_US 1 0 0xFFFF 0 128 NO_INIT]"

definition m_entry_c :: "mapper_entry list" where
  "m_entry_c = [
     mk_entry MAPPER_EXTVLANCD_MEID_TO_EXTVLANIDX_DS 1 0 0xFFFF 0 128 NO_INIT,
     mk_entry MAPPER_EXTVLANCD_MEID_TO_MC_EXTVLANIDX_US 1 0 0xFFFF 0 128 NO_INIT,
     mk_entry MAPPER_EXTVLANCD_MEID_TO_MC_EXTVLANIDX_DS 1 0 0xFFFF 0 128 NO_INIT,
     mk_entry MAPPER_EXTVLANCD_MEID_TO_LAN_IDX 1 0 0xFFFF 0 4 NO_INIT,
     mk_entry MAPPER_GEMITP_MEID_TO_GPIX 1 0 0xFFFF 0 0xFFFF NO_INIT,
     mk_entry MAPPER_MCOPPROFILE_MEID_TO_IDX 1 0 0xFFFF 0 0xFFFF NO_INIT,
     mk_entry MAPPER_MCSUBSCR_CFG_INFO_MEID_TO_IDX 1 0 0xFFFF 0 0xFFFF NO_INIT,
     mk_entry MAPPER_MCSUBSCR_CFG_INFO_MEID_TO_LAN_IDX 1 0 0xFFFF 0 4 NO_INIT,
     mk_entry MAPPER_MCSUBSCR_MONITOR_MEID_TO_IDX 1 0 0xFFFF 0 0xFFFF NO_INIT,
     mk_entry MAPPER_PQUEUE_MEID_TO_TBS_IDX 1 0 0xFFFF 0 255 NO_INIT,
     mk_entry MAPPER_VEIP_MEID_TO_IDX 1 0 0xFFFF 0 8 NO_INIT,
     mk_entry MAPPER_LCT_MEID_TO_LAN_IDX 1 0 0xFFFF 0 4 NO_INIT,
     mk_entry MAPPER_LCT_MEID_TO_METER_IDX 1 0 0xFFFF 0 0xFFFF NO_INIT]"

definition m_entry :: "mapper_entry list" where
  "m_entry = m_entry_a @ m_entry_b @ m_entry_c"

section \<open>Verification of arguments\<close>

definition mapper_get :: "omci_api_ctx \<Rightarrow> nat \<Rightarrow> nat option" where
  "mapper_get ctx t = mapper_p ctx t"

definition id_type_verify :: "nat \<Rightarrow> omci_api_return" where
  "id_type_verify t = (if t < MAPPER_IDTYPE_MAX then OMCI_API_SUCCESS else OMCI_API_ERROR)"

definition key_verify :: "omci_api_ctx \<Rightarrow> nat \<Rightarrow> mapper_key_type \<Rightarrow> u32 \<Rightarrow> omci_api_return option" where
  "key_verify ctx t kt k =
     (if id_type_verify t \<noteq> OMCI_API_SUCCESS then Some OMCI_API_ERROR
      else case mapper_get ctx t of None \<Rightarrow> Some OMCI_API_ERROR
        | Some p \<Rightarrow> do {
            m \<leftarrow> mappers ctx p;
            Some (if min_key m kt \<le> k \<and> k \<le> max_key m kt then OMCI_API_SUCCESS else OMCI_API_ERROR) })"

section \<open>List items\<close>

definition item_create :: "malloc \<Rightarrow> (mapper_key_type \<Rightarrow> u32) \<Rightarrow> omci_api_ctx \<Rightarrow> (nat option \<times> omci_api_ctx)" where
  "item_create malloc ks ctx =
     (case malloc (\<lambda>a. items ctx a \<noteq> None) of
        None \<Rightarrow> (None, ctx)
      | Some a \<Rightarrow> (Some a, ctx\<lparr> items := (items ctx)(a \<mapsto> \<lparr> key = ks, nxt = (\<lambda>_. None) \<rparr>) \<rparr>))"

definition item_delete :: "nat \<Rightarrow> omci_api_ctx \<Rightarrow> omci_api_ctx option" where
  "item_delete a ctx = do {
     it \<leftarrow> items ctx a;
     Some (ctx\<lparr> items := (items ctx)(a := None) \<rparr>) }"

text \<open>Assignments through pointers: \<^verbatim>\<open>a->next[kt] = v\<close> and \<^verbatim>\<open>m->list_head[kt] = v\<close>.\<close>

definition set_next :: "mapper_key_type \<Rightarrow> nat \<Rightarrow> nat option \<Rightarrow> omci_api_ctx \<Rightarrow> omci_api_ctx option" where
  "set_next kt a v ctx = do {
     it \<leftarrow> items ctx a;
     Some (ctx\<lparr> items := (items ctx)(a \<mapsto> it\<lparr> nxt := (nxt it)(kt := v) \<rparr>) \<rparr>) }"

definition set_head :: "mapper_key_type \<Rightarrow> nat \<Rightarrow> nat option \<Rightarrow> omci_api_ctx \<Rightarrow> omci_api_ctx option" where
  "set_head kt p v ctx = do {
     m \<leftarrow> mappers ctx p;
     Some (ctx\<lparr> mappers := (mappers ctx)(p \<mapsto> m\<lparr> list_head := (list_head m)(kt := v) \<rparr>) \<rparr>) }"

text \<open>One pass of the loop over the key types of \<^verbatim>\<open>item_add\<close>, then the whole function.\<close>

definition add_key :: "nat \<Rightarrow> nat \<Rightarrow> mapper_key_type \<Rightarrow> nat option \<Rightarrow> omci_api_ctx \<Rightarrow> omci_api_ctx option" where
  "add_key p a kt pos ctx = (case pos of
       None \<Rightarrow> do {
         m \<leftarrow> mappers ctx p;
         ctx \<leftarrow> set_next kt a (list_head m kt) ctx;
         set_head kt p (Some a) ctx }
     | Some q \<Rightarrow> do {
         it \<leftarrow> items ctx q;
         ctx \<leftarrow> set_next kt a (nxt it kt) ctx;
         set_next kt q (Some a) ctx })"

definition item_add :: "nat \<Rightarrow> (mapper_key_type \<Rightarrow> nat option) \<Rightarrow> nat \<Rightarrow> omci_api_ctx
    \<Rightarrow> (omci_api_return \<times> omci_api_ctx) option" where
  "item_add t pos a ctx = (case mapper_get ctx t of
       None \<Rightarrow> Some (OMCI_API_ERROR, ctx)
     | Some p \<Rightarrow> do {
         ctx \<leftarrow> add_key p a KEY_TYPE_ID (pos KEY_TYPE_ID) ctx;
         ctx \<leftarrow> add_key p a KEY_TYPE_INDEX (pos KEY_TYPE_INDEX) ctx;
         Some (OMCI_API_SUCCESS, ctx) })"

text \<open>One pass of the loop of \<^verbatim>\<open>item_remove\<close>; it returns the item taken out of the list.\<close>

definition remove_key :: "nat \<Rightarrow> mapper_key_type \<Rightarrow> nat option \<Rightarrow> omci_api_ctx \<Rightarrow> (nat \<times> omci_api_ctx) option" where
  "remove_key p kt pos ctx = (case pos of
       None \<Rightarrow> do {
         m \<leftarrow> mappers ctx p;
         a \<leftarrow> list_head m kt;
         it \<leftarrow> items ctx a;
         ctx \<leftarrow> set_head kt p (nxt it kt) ctx;
         Some (a, ctx) }
     | Some q \<Rightarrow> do {
         iq \<leftarrow> items ctx q;
         a \<leftarrow> nxt iq kt;
         it \<leftarrow> items ctx a;
         ctx \<leftarrow> set_next kt q (nxt it kt) ctx;
         Some (a, ctx) })"

definition item_remove :: "nat \<Rightarrow> (mapper_key_type \<Rightarrow> nat option) \<Rightarrow> omci_api_ctx
    \<Rightarrow> (nat option \<times> omci_api_ctx) option" where
  "item_remove t pos ctx = (case mapper_get ctx t of
       None \<Rightarrow> Some (None, ctx)
     | Some p \<Rightarrow> do {
         (_, ctx) \<leftarrow> remove_key p KEY_TYPE_ID (pos KEY_TYPE_ID) ctx;
         (a, ctx) \<leftarrow> remove_key p KEY_TYPE_INDEX (pos KEY_TYPE_INDEX) ctx;
         Some (Some a, ctx) })"

definition item_get :: "omci_api_ctx \<Rightarrow> nat \<Rightarrow> mapper_key_type \<Rightarrow> nat option \<Rightarrow> nat option option" where
  "item_get ctx t kt pos = (case mapper_get ctx t of
       None \<Rightarrow> Some None
     | Some p \<Rightarrow> (case pos of
           None \<Rightarrow> do { m \<leftarrow> mappers ctx p; Some (list_head m kt) }
         | Some q \<Rightarrow> do { it \<leftarrow> items ctx q; Some (nxt it kt) }))"

definition key_get :: "omci_api_ctx \<Rightarrow> nat \<Rightarrow> mapper_key_type \<Rightarrow> u32 option" where
  "key_get ctx a kt = do { it \<leftarrow> items ctx a; Some (key it kt) }"

section \<open>Searching\<close>

text \<open>The loop of \<^verbatim>\<open>item_find\<close>: \<^verbatim>\<open>a\<close> is the item in front of the part of the list still to search.\<close>

partial_function (option) find_loop :: "item_heap \<Rightarrow> mapper_key_type \<Rightarrow> u32 \<Rightarrow> nat
    \<Rightarrow> (omci_api_return \<times> nat option) option" where
  "find_loop h kt k a = do {
     it \<leftarrow> h a;
     (case nxt it kt of
        None \<Rightarrow> Some (OMCI_API_NOT_FOUND, Some a)
      | Some b \<Rightarrow> do {
          ib \<leftarrow> h b;
          (if key ib kt = k then Some (OMCI_API_SUCCESS, Some a)
           else if k < key ib kt then Some (OMCI_API_NOT_FOUND, Some a)
           else find_loop h kt k b) }) }"

definition item_find :: "omci_api_ctx \<Rightarrow> nat \<Rightarrow> mapper_key_type \<Rightarrow> u32
    \<Rightarrow> (omci_api_return \<times> nat option) option" where
  "item_find ctx t kt k = (case mapper_get ctx t of
       None \<Rightarrow> Some (OMCI_API_ERROR, None)
     | Some p \<Rightarrow> do {
         m \<leftarrow> mappers ctx p;
         (case list_head m kt of
            None \<Rightarrow> Some (OMCI_API_NOT_FOUND, None)
          | Some a \<Rightarrow> do {
              it \<leftarrow> items ctx a;
              (if k < key it kt then Some (OMCI_API_NOT_FOUND, None)
               else if key it kt = k then Some (OMCI_API_SUCCESS, None)
               else find_loop (items ctx) kt k a) }) })"

text \<open>
  The lowest free key: the result is the return code, the value left in the output parameter and
  the position in front of which a new item belongs.
\<close>

partial_function (option) free_loop :: "item_heap \<Rightarrow> mapper_key_type \<Rightarrow> u32 \<Rightarrow> u32 \<Rightarrow> nat
    \<Rightarrow> (omci_api_return \<times> u32 \<times> nat option) option" where
  "free_loop h kt mx free_key a = do {
     it \<leftarrow> h a;
     (case nxt it kt of
        None \<Rightarrow> Some (if key it kt = mx then (OMCI_API_NOT_FOUND, free_key, None)
                      else (OMCI_API_SUCCESS, key it kt + 1, Some a))
      | Some b \<Rightarrow> do {
          ib \<leftarrow> h b;
          (if key ib kt - key it kt > 1 then Some (OMCI_API_SUCCESS, key it kt + 1, Some a)
           else free_loop h kt mx free_key b) }) }"

definition free_key_find :: "omci_api_ctx \<Rightarrow> nat \<Rightarrow> mapper_key_type \<Rightarrow> u32
    \<Rightarrow> (omci_api_return \<times> u32 \<times> nat option) option" where
  "free_key_find ctx t kt free_key = (case mapper_get ctx t of
       None \<Rightarrow> Some (OMCI_API_ERROR, free_key, None)
     | Some p \<Rightarrow> do {
         m \<leftarrow> mappers ctx p;
         (case list_head m kt of
            None \<Rightarrow> Some (OMCI_API_SUCCESS, min_key m kt, None)
          | Some a \<Rightarrow> do {
              it \<leftarrow> items ctx a;
              (if key it kt - min_key m kt > 0 then Some (OMCI_API_SUCCESS, min_key m kt, None)
               else free_loop (items ctx) kt (max_key m kt) free_key a) }) })"

section \<open>Initialisation and shutdown\<close>

definition id_type_init :: "malloc \<Rightarrow> nat \<Rightarrow> u32 \<Rightarrow> u32 \<Rightarrow> u32 \<Rightarrow> u32 \<Rightarrow> omci_api_ctx
    \<Rightarrow> omci_api_return \<times> omci_api_ctx" where
  "id_type_init malloc t mnid mxid mnidx mxidx ctx =
     (if id_type_verify t \<noteq> OMCI_API_SUCCESS then (OMCI_API_ERROR, ctx)
      else case malloc (\<lambda>a. mappers ctx a \<noteq> None) of
        None \<Rightarrow> (OMCI_API_ERROR, ctx)
      | Some p \<Rightarrow> (OMCI_API_SUCCESS,
          ctx\<lparr> mappers := (mappers ctx)(p \<mapsto> \<lparr>
                 min_key = (\<lambda>kt. case kt of KEY_TYPE_ID \<Rightarrow> mnid | KEY_TYPE_INDEX \<Rightarrow> mnidx),
                 max_key = (\<lambda>kt. case kt of KEY_TYPE_ID \<Rightarrow> mxid | KEY_TYPE_INDEX \<Rightarrow> mxidx),
                 list_head = (\<lambda>_. None) \<rparr>),
               mapper_p := (mapper_p ctx)(t \<mapsto> p) \<rparr>))"

definition run_init :: "omci_api_ctx \<Rightarrow> mapper_entry \<Rightarrow> mapper_entry" where
  "run_init ctx e = (case init e of NO_INIT \<Rightarrow> e | MAPPER_BRIDGE_PORT_INIT \<Rightarrow> mapper_bridge_port_init ctx e)"

fun init_copies :: "malloc \<Rightarrow> mapper_entry \<Rightarrow> nat list \<Rightarrow> omci_api_ctx \<Rightarrow> omci_api_return \<times> omci_api_ctx" where
  "init_copies malloc e [] ctx = (OMCI_API_SUCCESS, ctx)"
| "init_copies malloc e (j # js) ctx =
     (let e' = run_init ctx e;
          (ret, ctx') = id_type_init malloc (etype e' + j) (min_id e') (max_id e') (min_idx e') (max_idx e') ctx
      in if ret \<noteq> OMCI_API_SUCCESS then (ret, ctx') else init_copies malloc e' js ctx')"

fun init_entries :: "malloc \<Rightarrow> mapper_entry list \<Rightarrow> omci_api_ctx \<Rightarrow> omci_api_return \<times> omci_api_ctx" where
  "init_entries malloc [] ctx = (OMCI_API_SUCCESS, ctx)"
| "init_entries malloc (e # es) ctx =
     (let (ret, ctx') = init_copies malloc e [0..<num e] ctx
      in if ret \<noteq> OMCI_API_SUCCESS then (ret, ctx') else init_entries malloc es ctx')"

definition mapper_init :: "malloc \<Rightarrow> omci_api_ctx \<Rightarrow> omci_api_return \<times> omci_api_ctx" where
  "mapper_init malloc ctx = init_entries malloc m_entry ctx"

text \<open>The inner loop of \<^verbatim>\<open>mapper_shutdown\<close> takes the first item of the identifier list each time.\<close>

partial_function (option) shutdown_items :: "nat \<Rightarrow> omci_api_ctx \<Rightarrow> (omci_api_return \<times> omci_api_ctx) option" where
  "shutdown_items t ctx = do {
     item \<leftarrow> item_get ctx t KEY_TYPE_ID None;
     (case item of
        None \<Rightarrow> Some (OMCI_API_SUCCESS, ctx)
      | Some a \<Rightarrow> do {
          k \<leftarrow> key_get ctx a KEY_TYPE_INDEX;
          (ret, pos) \<leftarrow> item_find ctx t KEY_TYPE_INDEX k;
          (if ret \<noteq> OMCI_API_SUCCESS then Some (OMCI_API_ERROR, ctx)
           else do {
             (removed, ctx) \<leftarrow> item_remove t (\<lambda>kt. case kt of KEY_TYPE_ID \<Rightarrow> None | KEY_TYPE_INDEX \<Rightarrow> pos) ctx;
             (case removed of
                None \<Rightarrow> Some (OMCI_API_ERROR, ctx)
              | Some b \<Rightarrow> do {
                  ctx \<leftarrow> item_delete b ctx;
                  shutdown_items t ctx }) }) }) }"

definition mapper_free :: "nat \<Rightarrow> omci_api_ctx \<Rightarrow> omci_api_ctx option" where
  "mapper_free p ctx = do {
     m \<leftarrow> mappers ctx p;
     Some (ctx\<lparr> mappers := (mappers ctx)(p := None) \<rparr>) }"

fun shutdown_types :: "nat list \<Rightarrow> omci_api_ctx \<Rightarrow> (omci_api_return \<times> omci_api_ctx) option" where
  "shutdown_types [] ctx = Some (OMCI_API_SUCCESS, ctx)"
| "shutdown_types (t # ts) ctx = (case mapper_p ctx t of
       None \<Rightarrow> shutdown_types ts ctx
     | Some p \<Rightarrow> do {
         (ret, ctx) \<leftarrow> shutdown_items t ctx;
         (if ret \<noteq> OMCI_API_SUCCESS then Some (OMCI_API_ERROR, ctx)
          else do { ctx \<leftarrow> mapper_free p ctx; shutdown_types ts ctx }) })"

definition mapper_shutdown :: "omci_api_ctx \<Rightarrow> (omci_api_return \<times> omci_api_ctx) option" where
  "mapper_shutdown ctx = shutdown_types [0..<MAPPER_IDTYPE_MAX] ctx"

text \<open>Both calls are made, in this order, and their codes are combined bitwise.\<close>

definition omci_api_mapper_reset :: "malloc \<Rightarrow> omci_api_ctx \<Rightarrow> (int \<times> omci_api_ctx) option" where
  "omci_api_mapper_reset malloc ctx = do {
     (r1, ctx) \<leftarrow> mapper_shutdown ctx;
     (let (r2, ctx) = mapper_init malloc ctx in Some (ret_val r1 OR ret_val r2, ctx)) }"

section \<open>Mapping\<close>

definition item_keys :: "u32 \<Rightarrow> u32 \<Rightarrow> mapper_key_type \<Rightarrow> u32" where
  "item_keys i x kt = (case kt of KEY_TYPE_ID \<Rightarrow> i | KEY_TYPE_INDEX \<Rightarrow> x)"

definition item_positions :: "nat option \<Rightarrow> nat option \<Rightarrow> mapper_key_type \<Rightarrow> nat option" where
  "item_positions p q kt = (case kt of KEY_TYPE_ID \<Rightarrow> p | KEY_TYPE_INDEX \<Rightarrow> q)"

text \<open>The common end of the mapping functions: create an item and add it to both lists.\<close>

definition create_and_add :: "malloc \<Rightarrow> nat \<Rightarrow> u32 \<Rightarrow> u32 \<Rightarrow> nat option \<Rightarrow> nat option \<Rightarrow> omci_api_ctx
    \<Rightarrow> (omci_api_return \<times> omci_api_ctx) option" where
  "create_and_add malloc t i x p q ctx =
     (let (item, ctx) = item_create malloc (item_keys i x) ctx
      in case item of
           None \<Rightarrow> Some (OMCI_API_ERROR, ctx)
         | Some a \<Rightarrow> do {
             (ret, ctx) \<leftarrow> item_add t (item_positions p q) a ctx;
             Some (if ret \<noteq> OMCI_API_SUCCESS then OMCI_API_ERROR else OMCI_API_SUCCESS, ctx) })"

definition explicit_map :: "malloc \<Rightarrow> nat \<Rightarrow> u32 \<Rightarrow> u32 \<Rightarrow> omci_api_ctx
    \<Rightarrow> (omci_api_return \<times> omci_api_ctx) option" where
  "explicit_map malloc t i x ctx =
     (if id_type_verify t \<noteq> OMCI_API_SUCCESS then Some (OMCI_API_ERROR, ctx)
      else do {
        r1 \<leftarrow> key_verify ctx t KEY_TYPE_ID i;
        (if r1 \<noteq> OMCI_API_SUCCESS then Some (OMCI_API_ERROR, ctx) else do {
        r2 \<leftarrow> key_verify ctx t KEY_TYPE_INDEX x;
        (if r2 \<noteq> OMCI_API_SUCCESS then Some (OMCI_API_ERROR, ctx) else do {
        (f1, p) \<leftarrow> item_find ctx t KEY_TYPE_ID i;
        (if f1 = OMCI_API_SUCCESS then Some (OMCI_API_ERROR, ctx) else do {
        (f2, q) \<leftarrow> item_find ctx t KEY_TYPE_INDEX x;
        (if f2 = OMCI_API_SUCCESS then Some (OMCI_API_ERROR, ctx)
         else create_and_add malloc t i x p q ctx) }) }) }) })"

text \<open>The results of these two also hold what the output parameter is left with.\<close>

definition id_map :: "malloc \<Rightarrow> nat \<Rightarrow> u32 \<Rightarrow> u32 \<Rightarrow> omci_api_ctx
    \<Rightarrow> (omci_api_return \<times> u32 \<times> omci_api_ctx) option" where
  "id_map malloc t i idx ctx = do {
     r \<leftarrow> key_verify ctx t KEY_TYPE_ID i;
     (if r \<noteq> OMCI_API_SUCCESS then Some (OMCI_API_ERROR, idx, ctx) else do {
     (f, p) \<leftarrow> item_find ctx t KEY_TYPE_ID i;
     (if f = OMCI_API_SUCCESS then Some (OMCI_API_ERROR, idx, ctx) else do {
     (g, idx, q) \<leftarrow> free_key_find ctx t KEY_TYPE_INDEX idx;
     (if g \<noteq> OMCI_API_SUCCESS then Some (OMCI_API_ERROR, idx, ctx) else do {
     (ret, ctx) \<leftarrow> create_and_add malloc t i idx p q ctx;
     Some (ret, idx, ctx) }) }) }) }"

definition index_map :: "malloc \<Rightarrow> nat \<Rightarrow> u32 \<Rightarrow> u32 \<Rightarrow> omci_api_ctx
    \<Rightarrow> (omci_api_return \<times> u32 \<times> omci_api_ctx) option" where
  "index_map malloc t i x ctx = do {
     r \<leftarrow> key_verify ctx t KEY_TYPE_INDEX x;
     (if r \<noteq> OMCI_API_SUCCESS then Some (OMCI_API_ERROR, i, ctx) else do {
     (f, q) \<leftarrow> item_find ctx t KEY_TYPE_INDEX x;
     (if f = OMCI_API_SUCCESS then Some (OMCI_API_ERROR, i, ctx) else do {
     (g, i, p) \<leftarrow> free_key_find ctx t KEY_TYPE_ID i;
     (if g \<noteq> OMCI_API_SUCCESS then Some (OMCI_API_ERROR, i, ctx) else do {
     (ret, ctx) \<leftarrow> create_and_add malloc t i x p q ctx;
     Some (ret, i, ctx) }) }) }) }"

section \<open>Lookup\<close>

definition index_get :: "nat \<Rightarrow> u32 \<Rightarrow> u32 \<Rightarrow> omci_api_ctx \<Rightarrow> (omci_api_return \<times> u32) option" where
  "index_get t i idx ctx =
     (if id_type_verify t \<noteq> OMCI_API_SUCCESS then Some (OMCI_API_ERROR, idx) else do {
      r \<leftarrow> key_verify ctx t KEY_TYPE_ID i;
      (if r \<noteq> OMCI_API_SUCCESS then Some (OMCI_API_ERROR, idx) else do {
      (f, pos) \<leftarrow> item_find ctx t KEY_TYPE_ID i;
      (if f = OMCI_API_NOT_FOUND then Some (OMCI_API_NOT_FOUND, idx)
       else if f \<noteq> OMCI_API_SUCCESS then Some (OMCI_API_ERROR, idx) else do {
      item \<leftarrow> item_get ctx t KEY_TYPE_ID pos;
      (case item of None \<Rightarrow> Some (OMCI_API_ERROR, idx)
       | Some a \<Rightarrow> do { k \<leftarrow> key_get ctx a KEY_TYPE_INDEX; Some (OMCI_API_SUCCESS, k) }) }) }) })"

definition id_get :: "nat \<Rightarrow> u32 \<Rightarrow> u32 \<Rightarrow> omci_api_ctx \<Rightarrow> (omci_api_return \<times> u32) option" where
  "id_get t i x ctx =
     (if id_type_verify t \<noteq> OMCI_API_SUCCESS then Some (OMCI_API_ERROR, i) else do {
      r \<leftarrow> key_verify ctx t KEY_TYPE_INDEX x;
      (if r \<noteq> OMCI_API_SUCCESS then Some (OMCI_API_ERROR, i) else do {
      (f, pos) \<leftarrow> item_find ctx t KEY_TYPE_INDEX x;
      (if f = OMCI_API_NOT_FOUND then Some (OMCI_API_NOT_FOUND, i)
       else if f \<noteq> OMCI_API_SUCCESS then Some (OMCI_API_ERROR, i) else do {
      item \<leftarrow> item_get ctx t KEY_TYPE_INDEX pos;
      (case item of None \<Rightarrow> Some (OMCI_API_ERROR, i)
       | Some a \<Rightarrow> do { k \<leftarrow> key_get ctx a KEY_TYPE_ID; Some (OMCI_API_SUCCESS, k) }) }) }) })"

definition index_map_or_get :: "malloc \<Rightarrow> u16 \<Rightarrow> nat \<Rightarrow> u32 \<Rightarrow> omci_api_ctx
    \<Rightarrow> (omci_api_return \<times> u32 \<times> omci_api_ctx) option" where
  "index_map_or_get malloc me_id t idx ctx = do {
     (ret, idx) \<leftarrow> index_get t (ucast me_id) idx ctx;
     (if ret = OMCI_API_NOT_FOUND then id_map malloc t (ucast me_id) idx ctx
      else Some (ret, idx, ctx)) }"

text \<open>
  The arrays of all keys: the first loop counts the items, \<^verbatim>\<open>IFXOS_MemAlloc(sz)\<close> asks for that
  many octets, the second loop stores one 32-bit word per item.
\<close>

partial_function (option) count_loop :: "item_heap \<Rightarrow> mapper_key_type \<Rightarrow> nat option \<Rightarrow> u32 \<Rightarrow> u32 option" where
  "count_loop h kt item sz = (case item of None \<Rightarrow> Some sz
     | Some a \<Rightarrow> do { it \<leftarrow> h a; count_loop h kt (nxt it kt) (sz + 1) })"

partial_function (option) fill_loop :: "item_heap \<Rightarrow> mapper_key_type \<Rightarrow> nat option \<Rightarrow> u32 list \<Rightarrow> u32 list option" where
  "fill_loop h kt item ks = (case item of None \<Rightarrow> Some ks
     | Some a \<Rightarrow> do { it \<leftarrow> h a; fill_loop h kt (nxt it kt) (ks @ [key it kt]) })"

record key_array =
  requested :: u32
  stored :: "u32 list"

definition key_array_get :: "(u32 \<Rightarrow> bool) \<Rightarrow> nat \<Rightarrow> mapper_key_type \<Rightarrow> omci_api_ctx
    \<Rightarrow> (omci_api_return \<times> key_array option \<times> u32 option) option" where
  "key_array_get avail t kt ctx =
     (if id_type_verify t \<noteq> OMCI_API_SUCCESS then Some (OMCI_API_ERROR, None, None)
      else case mapper_get ctx t of None \<Rightarrow> Some (OMCI_API_ERROR, None, None)
      | Some p \<Rightarrow> do {
          m \<leftarrow> mappers ctx p;
          (case list_head m kt of None \<Rightarrow> Some (OMCI_API_SUCCESS, None, Some 0)
           | Some a \<Rightarrow> do {
               sz \<leftarrow> count_loop (items ctx) kt (Some a) 0;
               (if \<not> avail sz then Some (OMCI_API_ERROR, None, None) else do {
                  ks \<leftarrow> fill_loop (items ctx) kt (Some a) [];
                  Some (OMCI_API_SUCCESS, Some \<lparr> requested = sz, stored = ks \<rparr>, Some sz) }) }) })"

definition index_array_get :: "(u32 \<Rightarrow> bool) \<Rightarrow> nat \<Rightarrow> omci_api_ctx
    \<Rightarrow> (omci_api_return \<times> key_array option \<times> u32 option) option" where
  "index_array_get avail t ctx = key_array_get avail t KEY_TYPE_INDEX ctx"

definition id_array_get :: "(u32 \<Rightarrow> bool) \<Rightarrow> nat \<Rightarrow> omci_api_ctx
    \<Rightarrow> (omci_api_return \<times> key_array option \<times> u32 option) option" where
  "id_array_get avail t ctx = key_array_get avail t KEY_TYPE_ID ctx"

section \<open>Removal\<close>

definition id_remove :: "nat \<Rightarrow> u32 \<Rightarrow> omci_api_ctx \<Rightarrow> (omci_api_return \<times> omci_api_ctx) option" where
  "id_remove t i ctx =
     (if id_type_verify t \<noteq> OMCI_API_SUCCESS then Some (OMCI_API_ERROR, ctx) else do {
      r \<leftarrow> key_verify ctx t KEY_TYPE_ID i;
      (if r \<noteq> OMCI_API_SUCCESS then Some (OMCI_API_ERROR, ctx) else do {
      (f, p) \<leftarrow> item_find ctx t KEY_TYPE_ID i;
      (if f = OMCI_API_NOT_FOUND then Some (OMCI_API_NOT_FOUND, ctx)
       else if f \<noteq> OMCI_API_SUCCESS then Some (OMCI_API_ERROR, ctx) else do {
      item \<leftarrow> item_get ctx t KEY_TYPE_ID p;
      (case item of None \<Rightarrow> Some (OMCI_API_ERROR, ctx)
       | Some a \<Rightarrow> do {
      idx \<leftarrow> key_get ctx a KEY_TYPE_INDEX;
      (g, q) \<leftarrow> item_find ctx t KEY_TYPE_INDEX idx;
      (if g = OMCI_API_NOT_FOUND then Some (OMCI_API_NOT_FOUND, ctx)
       else if g \<noteq> OMCI_API_SUCCESS then Some (OMCI_API_ERROR, ctx) else do {
      (removed, ctx) \<leftarrow> item_remove t (item_positions p q) ctx;
      (case removed of None \<Rightarrow> Some (OMCI_API_ERROR, ctx)
       | Some b \<Rightarrow> do { ctx \<leftarrow> item_delete b ctx; Some (OMCI_API_SUCCESS, ctx) }) }) }) }) }) })"

definition index_remove :: "nat \<Rightarrow> u32 \<Rightarrow> omci_api_ctx \<Rightarrow> (omci_api_return \<times> omci_api_ctx) option" where
  "index_remove t x ctx =
     (if id_type_verify t \<noteq> OMCI_API_SUCCESS then Some (OMCI_API_ERROR, ctx) else do {
      r \<leftarrow> key_verify ctx t KEY_TYPE_INDEX x;
      (if r \<noteq> OMCI_API_SUCCESS then Some (OMCI_API_ERROR, ctx) else do {
      (f, q) \<leftarrow> item_find ctx t KEY_TYPE_INDEX x;
      (if f = OMCI_API_NOT_FOUND then Some (OMCI_API_NOT_FOUND, ctx)
       else if f \<noteq> OMCI_API_SUCCESS then Some (OMCI_API_ERROR, ctx) else do {
      item \<leftarrow> item_get ctx t KEY_TYPE_INDEX q;
      (case item of None \<Rightarrow> Some (OMCI_API_ERROR, ctx)
       | Some a \<Rightarrow> do {
      i \<leftarrow> key_get ctx a KEY_TYPE_ID;
      (g, p) \<leftarrow> item_find ctx t KEY_TYPE_ID i;
      (if g = OMCI_API_NOT_FOUND then Some (OMCI_API_NOT_FOUND, ctx)
       else if g \<noteq> OMCI_API_SUCCESS then Some (OMCI_API_ERROR, ctx) else do {
      (removed, ctx) \<leftarrow> item_remove t (item_positions p q) ctx;
      (case removed of None \<Rightarrow> Some (OMCI_API_ERROR, ctx)
       | Some b \<Rightarrow> do { ctx \<leftarrow> item_delete b ctx; Some (OMCI_API_SUCCESS, ctx) }) }) }) }) }) })"

section \<open>Vocabulary of the statements\<close>

text \<open>
  The list from one pointer to another, the key of an item, and the pairs a mapper holds: the items
  met when following the identifier list from its head.
\<close>

fun lseg :: "item_heap \<Rightarrow> mapper_key_type \<Rightarrow> nat option \<Rightarrow> nat list \<Rightarrow> nat option \<Rightarrow> bool" where
  "lseg h kt p [] q = (p = q)"
| "lseg h kt p (a # as) q = (p = Some a \<and> (case h a of None \<Rightarrow> False | Some it \<Rightarrow> lseg h kt (nxt it kt) as q))"

definition kof :: "item_heap \<Rightarrow> mapper_key_type \<Rightarrow> nat \<Rightarrow> u32" where
  "kof h kt a = (case h a of None \<Rightarrow> 0 | Some it \<Rightarrow> key it kt)"

definition last_of :: "nat list \<Rightarrow> nat option" where
  "last_of xs = (if xs = [] then None else Some (last xs))"

definition pair_of :: "item_heap \<Rightarrow> nat \<Rightarrow> u32 \<times> u32" where
  "pair_of h a = (kof h KEY_TYPE_ID a, kof h KEY_TYPE_INDEX a)"

partial_function (option) walk :: "item_heap \<Rightarrow> mapper_key_type \<Rightarrow> nat option \<Rightarrow> nat list option" where
  "walk h kt p = (case p of None \<Rightarrow> Some []
     | Some a \<Rightarrow> do { it \<leftarrow> h a; as \<leftarrow> walk h kt (nxt it kt); Some (a # as) })"

definition pairs :: "omci_api_ctx \<Rightarrow> nat \<Rightarrow> (u32 \<times> u32) set" where
  "pairs ctx t = (case do {
       p \<leftarrow> mapper_p ctx t; m \<leftarrow> mappers ctx p; walk (items ctx) KEY_TYPE_ID (list_head m KEY_TYPE_ID) } of
     None \<Rightarrow> {} | Some as \<Rightarrow> pair_of (items ctx) ` set as)"

text \<open>One list of a mapper: linked, strictly sorted, and with its keys in the mapper's range.\<close>

definition list_ok :: "item_heap \<Rightarrow> mapper \<Rightarrow> mapper_key_type \<Rightarrow> nat list \<Rightarrow> bool" where
  "list_ok h m kt as \<longleftrightarrow> lseg h kt (list_head m kt) as None
     \<and> sorted_wrt (\<lambda>a b. kof h kt a < kof h kt b) as
     \<and> (\<forall>a\<in>set as. min_key m kt \<le> kof h kt a \<and> kof h kt a \<le> max_key m kt)"

text \<open>
  The invariant of the whole context, for a given layout \<^term>\<open>L\<close> of the lists: both lists of every
  mapper are in order and hold the same items, and no structure or item is shared or leaked.
\<close>

definition layout_ok :: "omci_api_ctx \<Rightarrow> (nat \<Rightarrow> mapper_key_type \<Rightarrow> nat list) \<Rightarrow> bool" where
  "layout_ok ctx L \<longleftrightarrow>
     (\<forall>t p. mapper_p ctx t = Some p \<longrightarrow> t < MAPPER_IDTYPE_MAX
        \<and> (\<exists>m. mappers ctx p = Some m \<and> (\<forall>kt. min_key m kt \<le> max_key m kt \<and> list_ok (items ctx) m kt (L t kt)))
        \<and> set (L t KEY_TYPE_ID) = set (L t KEY_TYPE_INDEX))
     \<and> (\<forall>t. mapper_p ctx t = None \<longrightarrow> (\<forall>kt. L t kt = []))
     \<and> (\<forall>t t'. t \<noteq> t' \<longrightarrow> set (L t KEY_TYPE_ID) \<inter> set (L t' KEY_TYPE_ID) = {}
          \<and> (mapper_p ctx t = None \<or> mapper_p ctx t \<noteq> mapper_p ctx t'))
     \<and> (\<forall>a. items ctx a \<noteq> None \<longrightarrow> (\<exists>t. a \<in> set (L t KEY_TYPE_ID)))"

definition mapper_inv :: "omci_api_ctx \<Rightarrow> bool" where
  "mapper_inv ctx \<longleftrightarrow> (\<exists>L. layout_ok ctx L)"

text \<open>What a search for the lowest free key between \<^term>\<open>lo\<close> and \<^term>\<open>mx\<close> delivers.\<close>

definition free_res :: "item_heap \<Rightarrow> mapper_key_type \<Rightarrow> u32 \<Rightarrow> u32 \<Rightarrow> u32 \<Rightarrow> nat list
    \<Rightarrow> (omci_api_return \<times> u32 \<times> nat option) option \<Rightarrow> bool" where
  "free_res h kt lo mx old as r \<longleftrightarrow>
     (\<exists>xs ys k. as = xs @ ys \<and> r = Some (OMCI_API_SUCCESS, k, last_of xs)
        \<and> (\<forall>b\<in>set xs. kof h kt b < k) \<and> (\<forall>b\<in>set ys. k < kof h kt b) \<and> lo \<le> k \<and> k \<le> mx
        \<and> (\<forall>j. lo \<le> j \<and> j < k \<longrightarrow> j \<in> kof h kt ` set as))
     \<or> (r = Some (OMCI_API_NOT_FOUND, old, None) \<and> (\<forall>j. lo \<le> j \<and> j \<le> mx \<longrightarrow> j \<in> kof h kt ` set as))"


text \<open>The keys of a list in order and in range, and the range of a mapper.\<close>

definition keys_ok :: "(nat \<Rightarrow> u32) \<Rightarrow> u32 \<Rightarrow> u32 \<Rightarrow> nat list \<Rightarrow> bool" where
  "keys_ok f lo hi as \<longleftrightarrow> sorted_wrt (\<lambda>a b. f a < f b) as \<and> (\<forall>a\<in>set as. lo \<le> f a \<and> f a \<le> hi)"

definition range_of :: "omci_api_ctx \<Rightarrow> nat \<Rightarrow> ((mapper_key_type \<Rightarrow> u32) \<times> (mapper_key_type \<Rightarrow> u32)) option" where
  "range_of s p = map_option (\<lambda>m. (min_key m, max_key m)) (mappers s p)"

text \<open>The projection of a pair to one key, and the keys an identifier type accepts.\<close>

definition proj :: "mapper_key_type \<Rightarrow> u32 \<times> u32 \<Rightarrow> u32" where
  "proj kt = (case kt of KEY_TYPE_ID \<Rightarrow> fst | KEY_TYPE_INDEX \<Rightarrow> snd)"

definition key_range :: "omci_api_ctx \<Rightarrow> nat \<Rightarrow> mapper_key_type \<Rightarrow> u32 set" where
  "key_range s t kt = (case mapper_p s t of None \<Rightarrow> {}
     | Some p \<Rightarrow> (case range_of s p of None \<Rightarrow> {} | Some (lo, hi) \<Rightarrow> {lo kt..hi kt}))"

text \<open>What the mapping functions deliver when they can: one more pair, and everything else as before.\<close>

definition maps_pair :: "omci_api_ctx \<Rightarrow> nat \<Rightarrow> u32 \<Rightarrow> u32 \<Rightarrow> omci_api_ctx \<Rightarrow> bool" where
  "maps_pair s t i x s' \<longleftrightarrow> mapper_inv s' \<and> pairs s' = (pairs s)(t := insert (i, x) (pairs s t)) \<and> key_range s' = key_range s"

definition unmaps_pair :: "omci_api_ctx \<Rightarrow> nat \<Rightarrow> u32 \<Rightarrow> u32 \<Rightarrow> omci_api_ctx \<Rightarrow> bool" where
  "unmaps_pair s t i x s' \<longleftrightarrow> mapper_inv s' \<and> pairs s' = (pairs s)(t := pairs s t - {(i, x)}) \<and> key_range s' = key_range s"

definition malloc_ok :: "malloc \<Rightarrow> bool" where
  "malloc_ok malloc \<longleftrightarrow> (\<forall>al a. malloc al = Some a \<longrightarrow> \<not> al a)"

definition least_free :: "u32 set \<Rightarrow> u32 set \<Rightarrow> u32 \<Rightarrow> bool" where
  "least_free R U k \<longleftrightarrow> k \<in> R \<and> k \<notin> U \<and> (\<forall>j\<in>R. j < k \<longrightarrow> j \<in> U)"

text \<open>The place of a new key in a list.\<close>

definition gap_at :: "omci_api_ctx \<Rightarrow> nat \<Rightarrow> mapper_key_type \<Rightarrow> nat list \<Rightarrow> nat list \<Rightarrow> nat list \<Rightarrow> u32 \<Rightarrow> bool" where
  "gap_at s t kt as xs ys k \<longleftrightarrow> as = xs @ ys \<and> (\<forall>b\<in>set xs. kof (items s) kt b < k) \<and> (\<forall>b\<in>set ys. k < kof (items s) kt b)
     \<and> k \<in> key_range s t kt"

text \<open>Links and the rest of the state: a list hanging off a mapper, and what relinking leaves alone.\<close>

definition chain :: "omci_api_ctx \<Rightarrow> nat \<Rightarrow> mapper_key_type \<Rightarrow> nat list \<Rightarrow> bool" where
  "chain s p kt as \<longleftrightarrow> (\<exists>m. mappers s p = Some m \<and> lseg (items s) kt (list_head m kt) as None)"

definition same_skel :: "omci_api_ctx \<Rightarrow> omci_api_ctx \<Rightarrow> bool" where
  "same_skel s s' \<longleftrightarrow> mapper_p s' = mapper_p s \<and> max_bridge_port s' = max_bridge_port s
     \<and> (\<forall>b. map_option key (items s' b) = map_option key (items s b))
     \<and> range_of s' = range_of s"

end
