(* ===== verification/Api_Mapper_Lists.thy ===== *)
theory Api_Mapper_Lists
  imports Api_Mapper
begin

text \<open>
  The pointer structure of the mapper: searching and the free-key search on a sorted linked list,
  linking and unlinking an item in both lists with the frame of everything else, and the layout
  invariant of the whole context under insertion and removal.
\<close>

section \<open>Lists\<close>

lemma lseg_append: "lseg h kt p (xs @ ys) q \<longleftrightarrow> (\<exists>r. lseg h kt p xs r \<and> lseg h kt r ys q)"
  by (induction xs arbitrary: p) (auto split: option.splits)

lemma lseg_cong:
  assumes "\<And>a. a \<in> set as \<Longrightarrow> map_option (\<lambda>i. nxt i kt) (h' a) = map_option (\<lambda>i. nxt i kt) (h a)"
  shows "lseg h' kt p as q = lseg h kt p as q"
  using assms
proof (induction as arbitrary: p)
  case (Cons a as)
  from Cons.prems[of a] have "map_option (\<lambda>i. nxt i kt) (h' a) = map_option (\<lambda>i. nxt i kt) (h a)" by simp
  with Cons.IH Cons.prems show ?case by (cases "h a"; cases "h' a") auto
qed simp

lemma lseg_live: "lseg h kt p as q \<Longrightarrow> a \<in> set as \<Longrightarrow> \<exists>it. h a = Some it"
  by (induction as arbitrary: p) (auto split: option.splits)

lemma lseg_hd: "lseg h kt p as None \<Longrightarrow> p = (case as of [] \<Rightarrow> None | a # _ \<Rightarrow> Some a)"
  by (cases as) auto

lemma lseg_walk: "lseg h kt p as None \<Longrightarrow> walk h kt p = Some as"
proof (induction as arbitrary: p)
  case (Cons a as)
  then obtain it where "p = Some a" "h a = Some it" "lseg h kt (nxt it kt) as None"
    by (auto split: option.splits)
  with Cons.IH[of "nxt it kt"] show ?case by (subst walk.simps) simp
qed (simp add: walk.simps)

lemma find_loop_ok:
  assumes "lseg h kt (Some a) (a # as) None" and "sorted_wrt (\<lambda>a b. kof h kt a < kof h kt b) (a # as)"
    and "kof h kt a < k"
  shows "\<exists>xs ys. a # as = xs @ ys \<and> xs \<noteq> [] \<and> (\<forall>b\<in>set xs. kof h kt b < k) \<and> (\<forall>b\<in>set ys. k \<le> kof h kt b)
    \<and> find_loop h kt k a = Some (if \<exists>b\<in>set (a # as). kof h kt b = k then OMCI_API_SUCCESS else OMCI_API_NOT_FOUND, last_of xs)"
  using assms
proof (induction as arbitrary: a)
  case Nil
  then obtain it where "h a = Some it" "nxt it kt = None" by (auto split: option.splits)
  with Nil have "find_loop h kt k a = Some (OMCI_API_NOT_FOUND, Some a)" by (subst find_loop.simps) simp
  with Nil show ?case by (intro exI[of _ "[a]"] exI[of _ "[]"]) (auto simp: last_of_def)
next
  case (Cons b as)
  then obtain it ib where it: "h a = Some it" "nxt it kt = Some b" "h b = Some ib"
    by (auto split: option.splits)
  then have kb: "key ib kt = kof h kt b" by (simp add: kof_def)
  have step: "find_loop h kt k a =
      (if kof h kt b = k then Some (OMCI_API_SUCCESS, Some a)
       else if k < kof h kt b then Some (OMCI_API_NOT_FOUND, Some a) else find_loop h kt k b)"
    using it kb by (subst find_loop.simps) simp
  show ?case
  proof (cases "kof h kt b < k")
    case True
    from Cons.prems it have "lseg h kt (Some b) (b # as) None" "sorted_wrt (\<lambda>a b. kof h kt a < kof h kt b) (b # as)"
      by auto
    from Cons.IH[OF this True] obtain xs ys where "b # as = xs @ ys" "xs \<noteq> []"
        "\<forall>c\<in>set xs. kof h kt c < k" "\<forall>c\<in>set ys. k \<le> kof h kt c"
        "find_loop h kt k b = Some (if \<exists>c\<in>set (b # as). kof h kt c = k then OMCI_API_SUCCESS else OMCI_API_NOT_FOUND, last_of xs)"
      by blast
    with True Cons.prems(3) step show ?thesis
      by (intro exI[of _ "a # xs"] exI[of _ ys]) (auto simp: last_of_def)
  next
    case False
    with Cons.prems step show ?thesis
      by (intro exI[of _ "[a]"] exI[of _ "b # as"]) (auto simp: last_of_def)
  qed
qed

lemma item_find_ok:
  assumes "mapper_p s t = Some p" "mappers s p = Some m" "list_ok (items s) m kt as"
  obtains xs ys where "as = xs @ ys" "\<forall>b\<in>set xs. kof (items s) kt b < k" "\<forall>b\<in>set ys. k \<le> kof (items s) kt b"
    "item_find s t kt k = Some (if \<exists>b\<in>set as. kof (items s) kt b = k then OMCI_API_SUCCESS else OMCI_API_NOT_FOUND, last_of xs)"
proof (cases as)
  case Nil
  with assms that[of "[]" "[]"] show ?thesis by (simp add: item_find_def mapper_get_def list_ok_def last_of_def)
next
  case (Cons a as')
  with assms obtain it where it: "list_head m kt = Some a" "items s a = Some it" "key it kt = kof (items s) kt a"
    by (auto simp: list_ok_def kof_def split: option.splits)
  then have step: "item_find s t kt k = (if k < kof (items s) kt a then Some (OMCI_API_NOT_FOUND, None)
      else if kof (items s) kt a = k then Some (OMCI_API_SUCCESS, None) else find_loop (items s) kt k a)"
    using assms by (simp add: item_find_def mapper_get_def)
  from assms Cons it have ls: "lseg (items s) kt (Some a) (a # as') None"
      "sorted_wrt (\<lambda>a b. kof (items s) kt a < kof (items s) kt b) (a # as')"
    by (auto simp: list_ok_def)
  show ?thesis
  proof (cases "kof (items s) kt a < k")
    case True
    then have "item_find s t kt k = find_loop (items s) kt k a"
      using step by (auto dest: less_not_sym)
    moreover from find_loop_ok[OF ls True] obtain xs ys where "a # as' = xs @ ys"
        "\<forall>b\<in>set xs. kof (items s) kt b < k" "\<forall>b\<in>set ys. k \<le> kof (items s) kt b"
        "find_loop (items s) kt k a = Some (if \<exists>b\<in>set (a # as'). kof (items s) kt b = k then OMCI_API_SUCCESS else OMCI_API_NOT_FOUND, last_of xs)"
      by blast
    ultimately show ?thesis using Cons that[of xs ys] by simp
  next
    case False
    then have "item_find s t kt k = Some (if \<exists>b\<in>set as. kof (items s) kt b = k then OMCI_API_SUCCESS else OMCI_API_NOT_FOUND, last_of [])"
      using step ls(2) Cons by (auto simp: last_of_def)
    moreover from False ls(2) Cons have "\<forall>b\<in>set as. k \<le> kof (items s) kt b"
      by (auto simp: not_less intro: order_trans less_imp_le)
    ultimately show ?thesis using that[of "[]" as] by simp
  qed
qed

lemma word_succ: "(a::u32) < b \<Longrightarrow> unat (a + 1) = unat a + 1"
  using unsigned_less[of b, where ?'a = nat] by (simp add: unat_word_ariths word_less_nat_alt)

lemma word_gap: "(a::u32) < b \<Longrightarrow> (b - a > 1) = (a + 1 < b)"
  by (simp add: word_less_nat_alt word_succ unat_sub word_le_nat_alt less_diff_conv)

lemma word_below_succ: "(a::u32) < b \<Longrightarrow> j < a + 1 \<longleftrightarrow> j \<le> a"
  by (simp add: word_less_nat_alt word_le_nat_alt word_succ less_Suc_eq_le)

lemma word_succ_le: "(a::u32) < b \<Longrightarrow> a < a + 1 \<and> a + 1 \<le> b"
  by (simp add: word_less_nat_alt word_le_nat_alt word_succ)

lemma word_nonzero_diff: "((a::u32) - b > 0) = (a \<noteq> b)"
  by (simp add: word_neq_0_conv[symmetric])

lemma free_resI:
  assumes "as = xs @ ys" "r = Some (OMCI_API_SUCCESS, k, last_of xs)" "\<And>b. b \<in> set xs \<Longrightarrow> kof h kt b < k"
    "\<And>b. b \<in> set ys \<Longrightarrow> k < kof h kt b" "lo \<le> k" "k \<le> mx" "\<And>j. lo \<le> j \<Longrightarrow> j < k \<Longrightarrow> j \<in> kof h kt ` set as"
  shows "free_res h kt lo mx old as r"
  unfolding free_res_def using assms by blast

lemma free_res_Cons:
  assumes "free_res h kt (kof h kt b) mx old (b # as) r" "kof h kt b = kof h kt a + 1" "kof h kt a < kof h kt b"
  shows "free_res h kt (kof h kt a) mx old (a # b # as) r"
proof -
  have lo: "j = kof h kt a \<or> kof h kt b \<le> j" if "kof h kt a \<le> j" for j
    using that assms(2,3) word_below_succ[OF assms(3), of j] by (metis linorder_not_less order_antisym)
  from assms(1) consider (found) xs ys k where "b # as = xs @ ys" "r = Some (OMCI_API_SUCCESS, k, last_of xs)"
        "\<forall>b\<in>set xs. kof h kt b < k" "\<forall>b\<in>set ys. k < kof h kt b" "kof h kt b \<le> k" "k \<le> mx"
        "\<forall>j. kof h kt b \<le> j \<and> j < k \<longrightarrow> j \<in> kof h kt ` set (b # as)"
    | (none) "r = Some (OMCI_API_NOT_FOUND, old, None)" "\<forall>j. kof h kt b \<le> j \<and> j \<le> mx \<longrightarrow> j \<in> kof h kt ` set (b # as)"
    unfolding free_res_def by blast
  then show ?thesis
  proof cases
    case found
    then have "xs \<noteq> []" by (metis append_Nil linorder_not_less list.set_intros(1))
    moreover have "j \<in> kof h kt ` set (a # b # as)" if "kof h kt a \<le> j" "j < k" for j
      using lo[OF that(1)] found(7) that(2) by auto
    ultimately show ?thesis using found assms(3)
      by (intro free_resI[where xs = "a # xs" and ys = ys and k = k]) (auto simp: last_of_def)
  next
    case none
    have "j \<in> kof h kt ` set (a # b # as)" if "kof h kt a \<le> j" "j \<le> mx" for j
      using lo[OF that(1)] none(2) that(2) by auto
    with none(1) show ?thesis unfolding free_res_def by blast
  qed
qed

lemma free_loop_ok:
  assumes "lseg h kt (Some a) (a # as) None" "sorted_wrt (\<lambda>a b. kof h kt a < kof h kt b) (a # as)"
    and "\<forall>b\<in>set (a # as). kof h kt b \<le> mx"
  shows "free_res h kt (kof h kt a) mx old (a # as) (free_loop h kt mx old a)"
  using assms
proof (induction as arbitrary: a)
  case Nil
  then obtain it where it: "h a = Some it" "nxt it kt = None" by (auto split: option.splits)
  then have ka: "key it kt = kof h kt a" by (simp add: kof_def)
  have step: "free_loop h kt mx old a = Some (if kof h kt a = mx then (OMCI_API_NOT_FOUND, old, None)
      else (OMCI_API_SUCCESS, kof h kt a + 1, Some a))"
    using it ka by (subst free_loop.simps) simp
  show ?case
  proof (cases "kof h kt a = mx")
    case True
    then show ?thesis using step by (auto simp: free_res_def)
  next
    case False
    with Nil have less: "kof h kt a < mx" by auto
    then have "j = kof h kt a" if "kof h kt a \<le> j" "j < kof h kt a + 1" for j
      using that word_below_succ[OF less, of j] by simp
    then show ?thesis using step False word_succ_le[OF less]
      by (intro free_resI[where xs = "[a]" and ys = "[]" and k = "kof h kt a + 1"]) (auto simp: last_of_def less_imp_le)
  qed
next
  case (Cons b as)
  then obtain it ib where it: "h a = Some it" "nxt it kt = Some b" "h b = Some ib"
    by (auto split: option.splits)
  then have kk: "key it kt = kof h kt a" "key ib kt = kof h kt b" by (simp_all add: kof_def)
  from Cons.prems have less: "kof h kt a < kof h kt b" by simp
  have step: "free_loop h kt mx old a = (if kof h kt a + 1 < kof h kt b then Some (OMCI_API_SUCCESS, kof h kt a + 1, Some a)
      else free_loop h kt mx old b)"
    using it kk word_gap[OF less] by (subst free_loop.simps) simp
  show ?case
  proof (cases "kof h kt a + 1 < kof h kt b")
    case True
    have "kof h kt a + 1 < kof h kt c" if "c \<in> set (b # as)" for c using that Cons.prems(2) True by auto
    moreover have "kof h kt a + 1 \<le> mx" using True Cons.prems(3) by auto
    moreover have "j = kof h kt a" if "kof h kt a \<le> j" "j < kof h kt a + 1" for j
      using that word_below_succ[OF less, of j] by simp
    ultimately show ?thesis using step True word_succ_le[OF less]
      by (intro free_resI[where xs = "[a]" and ys = "b # as" and k = "kof h kt a + 1"]) (auto simp: last_of_def less_imp_le)
  next
    case False
    then have eq: "kof h kt b = kof h kt a + 1" using word_succ_le[OF less] by auto
    from Cons.prems it have "free_res h kt (kof h kt b) mx old (b # as) (free_loop h kt mx old b)"
      by (intro Cons.IH) auto
    from free_res_Cons[OF this eq less] step False show ?thesis by simp
  qed
qed

lemma free_key_find_ok:
  assumes "mapper_p s t = Some p" "mappers s p = Some m" "list_ok (items s) m kt as" "min_key m kt \<le> max_key m kt"
  shows "free_res (items s) kt (min_key m kt) (max_key m kt) old as (free_key_find s t kt old)"
proof (cases as)
  case Nil
  with assms show ?thesis
    by (auto simp: free_key_find_def mapper_get_def list_ok_def free_res_def last_of_def)
next
  case (Cons a as')
  with assms(3) obtain it where it: "list_head m kt = Some a" "items s a = Some it" "key it kt = kof (items s) kt a"
    by (auto simp: list_ok_def kof_def split: option.splits)
  then have step: "free_key_find s t kt old = (if kof (items s) kt a \<noteq> min_key m kt then Some (OMCI_API_SUCCESS, min_key m kt, None)
      else free_loop (items s) kt (max_key m kt) old a)"
    using assms by (simp add: free_key_find_def mapper_get_def word_nonzero_diff)
  show ?thesis
  proof (cases "kof (items s) kt a = min_key m kt")
    case True
    from assms(3) Cons it have "free_res (items s) kt (kof (items s) kt a) (max_key m kt) old (a # as') (free_loop (items s) kt (max_key m kt) old a)"
      by (intro free_loop_ok) (auto simp: list_ok_def)
    with step True Cons show ?thesis by simp
  next
    case False
    with assms(3) Cons have "min_key m kt < kof (items s) kt a" by (auto simp: list_ok_def)
    then have "\<forall>b\<in>set as. min_key m kt < kof (items s) kt b" using assms(3) Cons by (auto simp: list_ok_def)
    with step False assms(4) show ?thesis
      by (intro free_resI[where xs = "[]" and ys = as and k = "min_key m kt"]) (auto simp: last_of_def)
  qed
qed

section \<open>Linking and unlinking\<close>

lemma chain_live: "chain s p kt as \<Longrightarrow> a \<in> set as \<Longrightarrow> \<exists>it. items s a = Some it"
  by (auto simp: chain_def dest: lseg_live)

lemma same_skel_refl [simp]: "same_skel s s"
  by (simp add: same_skel_def)

lemma same_skel_trans [trans]: "same_skel s s' \<Longrightarrow> same_skel s' s'' \<Longrightarrow> same_skel s s''"
  by (simp add: same_skel_def)

lemma set_next_skel: "set_next kt a v s = Some s' \<Longrightarrow> same_skel s s'"
  by (auto simp: set_next_def same_skel_def range_of_def fun_eq_iff split: Option.bind_splits)

lemma set_next_frame:
  assumes "set_next kt a v s = Some s'" "chain s p kt' as" "kt' = kt \<Longrightarrow> a \<notin> set as"
  shows "chain s' p kt' as"
proof -
  from assms(2) obtain m where m: "mappers s p = Some m" "lseg (items s) kt' (list_head m kt') as None"
    by (auto simp: chain_def)
  from assms(1) obtain it where s': "items s a = Some it"
      "s' = s\<lparr> items := (items s)(a \<mapsto> it\<lparr> nxt := (nxt it)(kt := v) \<rparr>) \<rparr>"
    by (auto simp: set_next_def split: Option.bind_splits)
  then have "lseg (items s') kt' (list_head m kt') as None = lseg (items s) kt' (list_head m kt') as None"
    using assms(3) by (intro lseg_cong) auto
  with m s' show ?thesis by (simp add: chain_def)
qed

lemma set_head_skel: "set_head kt p v s = Some s' \<Longrightarrow> same_skel s s'"
  by (auto simp: set_head_def same_skel_def range_of_def fun_eq_iff split: Option.bind_splits)

lemma set_head_frame:
  assumes "set_head kt p v s = Some s'" "chain s p' kt' as" "(p', kt') \<noteq> (p, kt)"
  shows "chain s' p' kt' as"
  using assms by (auto simp: set_head_def chain_def split: Option.bind_splits)

lemma add_key_ok:
  assumes "chain s p kt (xs @ ys)" "distinct (xs @ ys)" "items s a = Some it" "a \<notin> set (xs @ ys)"
  shows "\<exists>s'. add_key p a kt (last_of xs) s = Some s' \<and> chain s' p kt (xs @ a # ys) \<and> same_skel s s'
    \<and> (\<forall>p' kt' as. chain s p' kt' as \<and> (p', kt') \<noteq> (p, kt) \<and> (kt' = kt \<longrightarrow> set as \<inter> insert a (set xs) = {})
         \<longrightarrow> chain s' p' kt' as)"
proof -
  from assms(1) obtain m where m: "mappers s p = Some m" "lseg (items s) kt (list_head m kt) (xs @ ys) None"
    by (auto simp: chain_def)
  show ?thesis
  proof (cases xs rule: rev_cases)
    case Nil
    define s1 where "s1 = s\<lparr> items := (items s)(a \<mapsto> it\<lparr> nxt := (nxt it)(kt := list_head m kt) \<rparr>) \<rparr>"
    define s2 where "s2 = s1\<lparr> mappers := (mappers s1)(p \<mapsto> m\<lparr> list_head := (list_head m)(kt := Some a) \<rparr>) \<rparr>"
    have e1: "set_next kt a (list_head m kt) s = Some s1" using assms(3) by (simp add: set_next_def s1_def)
    have e2: "set_head kt p (Some a) s1 = Some s2" using m by (simp add: set_head_def s2_def s1_def)
    have "lseg (items s2) kt (list_head m kt) ys None = lseg (items s) kt (list_head m kt) ys None"
      using assms(4) by (intro lseg_cong) (auto simp: s2_def s1_def)
    then have "chain s2 p kt (xs @ a # ys)" using m Nil by (simp add: chain_def s2_def s1_def)
    moreover have "add_key p a kt (last_of xs) s = Some s2" using e1 e2 m Nil by (simp add: add_key_def last_of_def)
    moreover have "same_skel s s2" using set_next_skel[OF e1] set_head_skel[OF e2] by (rule same_skel_trans)
    ultimately show ?thesis using set_next_frame[OF e1] set_head_frame[OF e2] by (intro exI[of _ s2]) auto
  next
    case (snoc xs' q)
    from m(2) snoc obtain iq where iq: "items s q = Some iq" "lseg (items s) kt (list_head m kt) xs' (Some q)"
        "lseg (items s) kt (nxt iq kt) ys None"
      by (auto simp: lseg_append split: option.splits)
    have "q \<noteq> a" using assms(4) snoc by auto
    define s1 where "s1 = s\<lparr> items := (items s)(a \<mapsto> it\<lparr> nxt := (nxt it)(kt := nxt iq kt) \<rparr>) \<rparr>"
    define s2 where "s2 = s1\<lparr> items := (items s1)(q \<mapsto> iq\<lparr> nxt := (nxt iq)(kt := Some a) \<rparr>) \<rparr>"
    have e1: "set_next kt a (nxt iq kt) s = Some s1" using assms(3) by (simp add: set_next_def s1_def)
    have e2: "set_next kt q (Some a) s1 = Some s2" using iq \<open>q \<noteq> a\<close> by (simp add: set_next_def s2_def s1_def)
    have "lseg (items s2) kt (nxt iq kt) ys None = lseg (items s) kt (nxt iq kt) ys None"
      using assms(2,4) snoc by (intro lseg_cong) (auto simp: s2_def s1_def)
    moreover have "lseg (items s2) kt (list_head m kt) xs' (Some q) = lseg (items s) kt (list_head m kt) xs' (Some q)"
      using assms(2,4) snoc by (intro lseg_cong) (auto simp: s2_def s1_def)
    ultimately have "chain s2 p kt (xs @ a # ys)" using m iq snoc \<open>q \<noteq> a\<close>
      by (auto simp: chain_def s2_def s1_def lseg_append)
    moreover have "add_key p a kt (last_of xs) s = Some s2" using e1 e2 iq snoc by (simp add: add_key_def last_of_def)
    moreover have "same_skel s s2" using set_next_skel[OF e1] set_next_skel[OF e2] by (rule same_skel_trans)
    ultimately show ?thesis using set_next_frame[OF e1] set_next_frame[OF e2] snoc by (intro exI[of _ s2]) auto
  qed
qed

lemma remove_key_ok:
  assumes "chain s p kt (xs @ a # ys)" "distinct (xs @ a # ys)"
  shows "\<exists>s'. remove_key p kt (last_of xs) s = Some (a, s') \<and> chain s' p kt (xs @ ys) \<and> same_skel s s'
    \<and> (\<forall>p' kt' as. chain s p' kt' as \<and> (p', kt') \<noteq> (p, kt) \<and> (kt' = kt \<longrightarrow> set as \<inter> set xs = {})
         \<longrightarrow> chain s' p' kt' as)"
proof -
  from assms(1) obtain m where m: "mappers s p = Some m" "lseg (items s) kt (list_head m kt) (xs @ a # ys) None"
    by (auto simp: chain_def)
  then obtain it where it: "items s a = Some it" "lseg (items s) kt (nxt it kt) ys None"
      "lseg (items s) kt (list_head m kt) xs (Some a)"
    by (auto simp: lseg_append split: option.splits)
  show ?thesis
  proof (cases xs rule: rev_cases)
    case Nil
    define s1 where "s1 = s\<lparr> mappers := (mappers s)(p \<mapsto> m\<lparr> list_head := (list_head m)(kt := nxt it kt) \<rparr>) \<rparr>"
    have e1: "set_head kt p (nxt it kt) s = Some s1" using m by (simp add: set_head_def s1_def)
    have "chain s1 p kt (xs @ ys)" using it Nil by (simp add: chain_def s1_def)
    moreover have "remove_key p kt (last_of xs) s = Some (a, s1)" using e1 m it Nil by (simp add: remove_key_def last_of_def)
    ultimately show ?thesis using set_head_skel[OF e1] set_head_frame[OF e1] by (intro exI[of _ s1]) auto
  next
    case (snoc xs' q)
    with it obtain iq where iq: "items s q = Some iq" "nxt iq kt = Some a" "lseg (items s) kt (list_head m kt) xs' (Some q)"
      by (auto simp: lseg_append split: option.splits)
    define s1 where "s1 = s\<lparr> items := (items s)(q \<mapsto> iq\<lparr> nxt := (nxt iq)(kt := nxt it kt) \<rparr>) \<rparr>"
    have e1: "set_next kt q (nxt it kt) s = Some s1" using iq by (simp add: set_next_def s1_def)
    have "lseg (items s1) kt (nxt it kt) ys None = lseg (items s) kt (nxt it kt) ys None"
      using assms(2) snoc by (intro lseg_cong) (auto simp: s1_def)
    moreover have "lseg (items s1) kt (list_head m kt) xs' (Some q) = lseg (items s) kt (list_head m kt) xs' (Some q)"
      using assms(2) snoc by (intro lseg_cong) (auto simp: s1_def)
    ultimately have "chain s1 p kt (xs @ ys)" using m iq it snoc by (auto simp: chain_def s1_def lseg_append)
    moreover have "remove_key p kt (last_of xs) s = Some (a, s1)" using e1 iq it snoc by (simp add: remove_key_def last_of_def)
    ultimately show ?thesis using set_next_skel[OF e1] set_next_frame[OF e1] snoc by (intro exI[of _ s1]) auto
  qed
qed

section \<open>The invariant\<close>

lemma list_ok_iff:
  "mappers s p = Some m \<Longrightarrow> list_ok (items s) m kt as \<longleftrightarrow>
     chain s p kt as \<and> keys_ok (kof (items s) kt) (min_key m kt) (max_key m kt) as"
  by (simp add: list_ok_def chain_def keys_ok_def)

lemma range_of_Some: "range_of s p = Some (lo, hi) \<longleftrightarrow> (\<exists>m. mappers s p = Some m \<and> lo = min_key m \<and> hi = max_key m)"
  by (auto simp: range_of_def)

lemma layout_ok_alt:
  "layout_ok s L \<longleftrightarrow>
     (\<forall>t p. mapper_p s t = Some p \<longrightarrow> t < MAPPER_IDTYPE_MAX \<and> (\<forall>kt. chain s p kt (L t kt))
        \<and> (\<exists>lo hi. range_of s p = Some (lo, hi) \<and> (\<forall>kt. lo kt \<le> hi kt \<and> keys_ok (kof (items s) kt) (lo kt) (hi kt) (L t kt)))
        \<and> set (L t KEY_TYPE_ID) = set (L t KEY_TYPE_INDEX))
     \<and> (\<forall>t. mapper_p s t = None \<longrightarrow> (\<forall>kt. L t kt = []))
     \<and> (\<forall>t t'. t \<noteq> t' \<longrightarrow> set (L t KEY_TYPE_ID) \<inter> set (L t' KEY_TYPE_ID) = {}
          \<and> (mapper_p s t = None \<or> mapper_p s t \<noteq> mapper_p s t'))
     \<and> (\<forall>a. items s a \<noteq> None \<longrightarrow> (\<exists>t. a \<in> set (L t KEY_TYPE_ID)))"
proof -
  have "(\<exists>m. mappers s p = Some m \<and> (\<forall>kt. min_key m kt \<le> max_key m kt \<and> list_ok (items s) m kt (L t kt)))
      \<longleftrightarrow> (\<forall>kt. chain s p kt (L t kt))
        \<and> (\<exists>lo hi. range_of s p = Some (lo, hi) \<and> (\<forall>kt. lo kt \<le> hi kt \<and> keys_ok (kof (items s) kt) (lo kt) (hi kt) (L t kt)))" for t p
    by (auto simp: range_of_Some list_ok_iff)
  then show ?thesis unfolding layout_ok_def by simp
qed

lemma keys_ok_distinct: "keys_ok f lo hi as \<Longrightarrow> distinct as"
  by (induction as) (auto simp: keys_ok_def)

lemma keys_ok_inj: "keys_ok f lo hi as \<Longrightarrow> inj_on f (set as)"
  by (induction as) (auto simp: keys_ok_def)

lemma keys_ok_cong: "(\<And>a. a \<in> set as \<Longrightarrow> f a = g a) \<Longrightarrow> keys_ok f lo hi as = keys_ok g lo hi as"
  by (induction as) (auto simp: keys_ok_def)

lemma keys_ok_insert:
  "keys_ok f lo hi (xs @ ys) \<Longrightarrow> (\<forall>b\<in>set xs. f b < f a) \<Longrightarrow> (\<forall>b\<in>set ys. f a < f b) \<Longrightarrow> lo \<le> f a \<Longrightarrow> f a \<le> hi
    \<Longrightarrow> keys_ok f lo hi (xs @ a # ys)"
  by (auto simp: keys_ok_def sorted_wrt_append)

lemma keys_ok_remove: "keys_ok f lo hi (xs @ a # ys) \<Longrightarrow> keys_ok f lo hi (xs @ ys)"
  by (auto simp: keys_ok_def sorted_wrt_append)

lemma layoutD:
  assumes "layout_ok s L" "mapper_p s t = Some p"
  shows "t < MAPPER_IDTYPE_MAX" "chain s p kt (L t kt)" "set (L t kt) = set (L t KEY_TYPE_ID)" "distinct (L t kt)"
    "\<exists>m. mappers s p = Some m \<and> min_key m kt \<le> max_key m kt \<and> list_ok (items s) m kt (L t kt)"
proof -
  from assms show "t < MAPPER_IDTYPE_MAX" "chain s p kt (L t kt)" by (simp_all add: layout_ok_alt)
  from assms show "\<exists>m. mappers s p = Some m \<and> min_key m kt \<le> max_key m kt \<and> list_ok (items s) m kt (L t kt)"
    unfolding layout_ok_def by blast
  from assms show "set (L t kt) = set (L t KEY_TYPE_ID)" by (cases kt) (auto simp: layout_ok_def)
  from assms obtain lo hi where "keys_ok (kof (items s) kt) (lo kt) (hi kt) (L t kt)"
    unfolding layout_ok_alt by blast
  then show "distinct (L t kt)" by (rule keys_ok_distinct)
qed

lemma same_skel_kof: "same_skel s s' \<Longrightarrow> kof (items s') = kof (items s)"
proof (intro ext)
  fix kt a assume "same_skel s s'"
  then have "map_option key (items s' a) = map_option key (items s a)" by (simp add: same_skel_def)
  then show "kof (items s') kt a = kof (items s) kt a" by (cases "items s a"; cases "items s' a") (auto simp: kof_def)
qed

lemma same_skel_live: "same_skel s s' \<Longrightarrow> items s' a = None \<longleftrightarrow> items s a = None"
  by (metis map_option_is_None same_skel_def)

lemma pairs_layout: "layout_ok s L \<Longrightarrow> pairs s t = pair_of (items s) ` set (L t KEY_TYPE_ID)"
proof (cases "mapper_p s t")
  case (Some p)
  assume "layout_ok s L"
  from layoutD(2)[OF this Some, of KEY_TYPE_ID] obtain m where "mappers s p = Some m"
      "lseg (items s) KEY_TYPE_ID (list_head m KEY_TYPE_ID) (L t KEY_TYPE_ID) None"
    by (auto simp: chain_def)
  with Some lseg_walk show ?thesis by (simp add: pairs_def)
qed (simp add: pairs_def layout_ok_def)

lemma chain_heap_cong:
  assumes "chain s p kt as" "mappers s' = mappers s"
    and "\<And>a. a \<in> set as \<Longrightarrow> map_option (\<lambda>i. nxt i kt) (items s' a) = map_option (\<lambda>i. nxt i kt) (items s a)"
  shows "chain s' p kt as"
proof -
  from assms(1) obtain m where "mappers s p = Some m" "lseg (items s) kt (list_head m kt) as None"
    by (auto simp: chain_def)
  with assms(2) lseg_cong[OF assms(3), of as "\<lambda>a. a" "list_head m kt" None] show ?thesis by (auto simp: chain_def)
qed

lemma keys_ok_eq: "keys_ok f lo hi as \<Longrightarrow> (\<And>a. a \<in> set as \<Longrightarrow> g a = f a) \<Longrightarrow> keys_ok g lo hi as"
  by (metis keys_ok_cong)

lemma layout_other:
  assumes "layout_ok s L" "mapper_p s t = Some p" "mapper_p s t' = Some p'" "t' \<noteq> t"
  shows "set (L t' kt) \<inter> set (L t kt) = {}" "p' \<noteq> p"
proof -
  from assms(1) have "\<forall>t t'. t \<noteq> t' \<longrightarrow> set (L t KEY_TYPE_ID) \<inter> set (L t' KEY_TYPE_ID) = {}
      \<and> (mapper_p s t = None \<or> mapper_p s t \<noteq> mapper_p s t')"
    by (simp add: layout_ok_def)
  with assms(2-4) have "set (L t' KEY_TYPE_ID) \<inter> set (L t KEY_TYPE_ID) = {}" "mapper_p s t' \<noteq> mapper_p s t"
    by (metis option.simps(3))+
  then show "set (L t' kt) \<inter> set (L t kt) = {}" "p' \<noteq> p"
    using assms(2,3) layoutD(3)[OF assms(1,2), of kt] layoutD(3)[OF assms(1,3), of kt] by auto
qed

lemma item_add_ok:
  assumes L: "layout_ok s L" and tp: "mapper_p s t = Some p"
    and ls: "L t KEY_TYPE_ID = xs @ ys" "L t KEY_TYPE_INDEX = us @ vs" and fresh: "items s a = None"
    and s0: "s0 = s\<lparr> items := (items s)(a \<mapsto> it) \<rparr>"
  shows "\<exists>s'. item_add t (item_positions (last_of xs) (last_of us)) a s0 = Some (OMCI_API_SUCCESS, s') \<and> same_skel s0 s'
    \<and> chain s' p KEY_TYPE_ID (xs @ a # ys) \<and> chain s' p KEY_TYPE_INDEX (us @ a # vs)
    \<and> (\<forall>t' p' kt. t' \<noteq> t \<longrightarrow> mapper_p s t' = Some p' \<longrightarrow> chain s' p' kt (L t' kt))"
proof -
  have new: "a \<notin> set (L t' kt)" for t' kt
    using fresh chain_live layoutD(2)[OF L] L by (cases "mapper_p s t'") (fastforce simp: layout_ok_def)+
  have ch0: "chain s0 p' kt (L t' kt)" if "mapper_p s t' = Some p'" for t' p' kt
    by (rule chain_heap_cong[OF layoutD(2)[OF L that]]) (use new in \<open>auto simp: s0\<close>)
  note other = layout_other[OF L tp]
  have "\<exists>s1. add_key p a KEY_TYPE_ID (last_of xs) s0 = Some s1 \<and> chain s1 p KEY_TYPE_ID (xs @ a # ys) \<and> same_skel s0 s1
    \<and> (\<forall>p' kt' as. chain s0 p' kt' as \<and> (p', kt') \<noteq> (p, KEY_TYPE_ID) \<and> (kt' = KEY_TYPE_ID \<longrightarrow> set as \<inter> insert a (set xs) = {})
         \<longrightarrow> chain s1 p' kt' as)"
    using ch0[OF tp, of KEY_TYPE_ID] new[of t KEY_TYPE_ID] layoutD(4)[OF L tp, of KEY_TYPE_ID] ls
    by (intro add_key_ok[where it = it]) (auto simp: s0)
  then obtain s1 where s1: "add_key p a KEY_TYPE_ID (last_of xs) s0 = Some s1" "chain s1 p KEY_TYPE_ID (xs @ a # ys)" "same_skel s0 s1"
      and fr1: "\<forall>p' kt' as. chain s0 p' kt' as \<and> (p', kt') \<noteq> (p, KEY_TYPE_ID) \<and> (kt' = KEY_TYPE_ID \<longrightarrow> set as \<inter> insert a (set xs) = {})
         \<longrightarrow> chain s1 p' kt' as"
    by (elim exE conjE)
  from s1(3) same_skel_live[of s0 s1 a] obtain it1 where it1: "items s1 a = Some it1" by (auto simp: s0)
  have "\<exists>s2. add_key p a KEY_TYPE_INDEX (last_of us) s1 = Some s2 \<and> chain s2 p KEY_TYPE_INDEX (us @ a # vs) \<and> same_skel s1 s2
    \<and> (\<forall>p' kt' as. chain s1 p' kt' as \<and> (p', kt') \<noteq> (p, KEY_TYPE_INDEX) \<and> (kt' = KEY_TYPE_INDEX \<longrightarrow> set as \<inter> insert a (set us) = {})
         \<longrightarrow> chain s2 p' kt' as)"
    using fr1[rule_format, of p KEY_TYPE_INDEX "us @ vs"] ch0[OF tp, of KEY_TYPE_INDEX] new[of t KEY_TYPE_INDEX] layoutD(4)[OF L tp, of KEY_TYPE_INDEX] ls it1
    by (intro add_key_ok[where it = it1]) auto
  then obtain s2 where s2: "add_key p a KEY_TYPE_INDEX (last_of us) s1 = Some s2" "chain s2 p KEY_TYPE_INDEX (us @ a # vs)" "same_skel s1 s2"
      and fr2: "\<forall>p' kt' as. chain s1 p' kt' as \<and> (p', kt') \<noteq> (p, KEY_TYPE_INDEX) \<and> (kt' = KEY_TYPE_INDEX \<longrightarrow> set as \<inter> insert a (set us) = {})
         \<longrightarrow> chain s2 p' kt' as"
    by (elim exE conjE)
  have "chain s2 p' kt (L t' kt)" if "t' \<noteq> t" "mapper_p s t' = Some p'" for t' p' kt
  proof -
    have disj: "set (L t' kt) \<inter> set (L t kt) = {}" "p' \<noteq> p" by (rule other[OF that(2,1)])+
    then have "chain s1 p' kt (L t' kt)"
      using fr1[rule_format, of p' kt "L t' kt"] ch0[OF that(2), of kt] disj new[of t' kt] ls
      by (cases kt) auto
    then show ?thesis
      using fr2[rule_format, of p' kt "L t' kt"] disj new[of t' kt] ls by (cases kt) auto
  qed
  moreover have "chain s2 p KEY_TYPE_ID (xs @ a # ys)" using fr2[rule_format, of p KEY_TYPE_ID "xs @ a # ys"] s1(2) by simp
  moreover have "item_add t (item_positions (last_of xs) (last_of us)) a s0 = Some (OMCI_API_SUCCESS, s2)"
    using s1(1) s2(1) tp by (simp add: item_add_def mapper_get_def s0 item_positions_def)
  ultimately show ?thesis using s1 s2 same_skel_trans by blast
qed

text \<open>The layout after relinking one mapper: \<^term>\<open>h\<close> is the heap's key function afterwards.\<close>

lemma layout_update:
  assumes L: "layout_ok s L" and tp: "mapper_p s t = Some p"
    and frame: "mapper_p s' = mapper_p s" "range_of s' = range_of s"
    and own: "\<And>kt. chain s' p kt (N kt)" and other: "\<And>t' p' kt. t' \<noteq> t \<Longrightarrow> mapper_p s t' = Some p' \<Longrightarrow> chain s' p' kt (L t' kt)"
    and kept: "\<And>t' kt b. t' \<noteq> t \<Longrightarrow> b \<in> set (L t' kt) \<Longrightarrow> kof (items s') kt b = kof (items s) kt b"
    and keys: "\<And>lo hi kt. keys_ok (kof (items s) kt) lo hi (L t kt) \<Longrightarrow> range_of s p = Some (lo', hi') \<Longrightarrow> lo = lo' kt \<Longrightarrow> hi = hi' kt
        \<Longrightarrow> keys_ok (kof (items s') kt) lo hi (N kt)"
    and range: "range_of s p = Some (lo', hi')"
    and same: "set (N KEY_TYPE_ID) = set (N KEY_TYPE_INDEX)"
    and disj: "\<And>t'. t' \<noteq> t \<Longrightarrow> set (N KEY_TYPE_ID) \<inter> set (L t' KEY_TYPE_ID) = {}"
    and live: "\<And>a. items s' a \<noteq> None \<Longrightarrow> a \<in> set (N KEY_TYPE_ID) \<or> (\<exists>t'. t' \<noteq> t \<and> a \<in> set (L t' KEY_TYPE_ID))"
  shows "layout_ok s' (L(t := N))"
  unfolding layout_ok_alt
proof (intro conjI allI impI)
  fix t' q assume q: "mapper_p s' t' = Some q"
  then have q': "mapper_p s t' = Some q" using frame by simp
  from layoutD(1)[OF L q'] show "t' < MAPPER_IDTYPE_MAX" .
  show "chain s' q kt ((L(t := N)) t' kt)" for kt using own other[of t' q kt] q' tp by auto
  from L q' obtain lo hi where lh: "range_of s q = Some (lo, hi)" "\<forall>kt. lo kt \<le> hi kt \<and> keys_ok (kof (items s) kt) (lo kt) (hi kt) (L t' kt)"
    unfolding layout_ok_alt by blast
  have "keys_ok (kof (items s') kt) (lo kt) (hi kt) ((L(t := N)) t' kt)" for kt
    using lh keys[of kt "lo kt" "hi kt"] range q' tp kept[of t' _ kt] keys_ok_eq[of "kof (items s) kt" "lo kt" "hi kt" "L t' kt" "kof (items s') kt"]
    by (cases "t' = t") auto
  with lh frame show "\<exists>lo hi. range_of s' q = Some (lo, hi) \<and> (\<forall>kt. lo kt \<le> hi kt \<and> keys_ok (kof (items s') kt) (lo kt) (hi kt) ((L(t := N)) t' kt))"
    by auto
  show "set ((L(t := N)) t' KEY_TYPE_ID) = set ((L(t := N)) t' KEY_TYPE_INDEX)"
    using same layoutD(3)[OF L q', of KEY_TYPE_INDEX] by simp
next
  fix t' kt assume "mapper_p s' t' = None"
  then show "(L(t := N)) t' kt = []" using L tp frame by (auto simp: layout_ok_def)
next
  fix t1 t2 :: nat assume ne: "t1 \<noteq> t2"
  from L ne have "set (L t1 KEY_TYPE_ID) \<inter> set (L t2 KEY_TYPE_ID) = {}" by (simp add: layout_ok_def)
  then show "set ((L(t := N)) t1 KEY_TYPE_ID) \<inter> set ((L(t := N)) t2 KEY_TYPE_ID) = {}"
    using ne disj[of t1] disj[of t2] by auto
  from L ne show "mapper_p s' t1 = None \<or> mapper_p s' t1 \<noteq> mapper_p s' t2"
    unfolding layout_ok_def frame by blast
next
  fix a assume "items s' a \<noteq> None"
  from live[OF this] show "\<exists>t'. a \<in> set ((L(t := N)) t' KEY_TYPE_ID)" by (metis fun_upd_other fun_upd_same)
qed

lemma create_and_add_ok:
  assumes fresh: "malloc_ok malloc"
    and L: "layout_ok s L" and tp: "mapper_p s t = Some p" and m: "mappers s p = Some m"
    and ls: "L t KEY_TYPE_ID = xs @ ys" "L t KEY_TYPE_INDEX = us @ vs"
    and ik: "\<forall>b\<in>set xs. kof (items s) KEY_TYPE_ID b < i" "\<forall>b\<in>set ys. i < kof (items s) KEY_TYPE_ID b"
      "min_key m KEY_TYPE_ID \<le> i" "i \<le> max_key m KEY_TYPE_ID"
    and xk: "\<forall>b\<in>set us. kof (items s) KEY_TYPE_INDEX b < x" "\<forall>b\<in>set vs. x < kof (items s) KEY_TYPE_INDEX b"
      "min_key m KEY_TYPE_INDEX \<le> x" "x \<le> max_key m KEY_TYPE_INDEX"
  shows "if malloc (\<lambda>a. items s a \<noteq> None) = None then create_and_add malloc t i x (last_of xs) (last_of us) s = Some (OMCI_API_ERROR, s)
    else (\<exists>s'. create_and_add malloc t i x (last_of xs) (last_of us) s = Some (OMCI_API_SUCCESS, s') \<and> mapper_inv s'
        \<and> pairs s' = (pairs s)(t := insert (i, x) (pairs s t)) \<and> mapper_p s' = mapper_p s \<and> range_of s' = range_of s)"
proof (cases "malloc (\<lambda>a. items s a \<noteq> None)")
  case None
  then show ?thesis by (simp add: create_and_add_def item_create_def)
next
  case (Some a)
  then have a: "items s a = None" using fresh unfolding malloc_ok_def by blast
  define s0 where "s0 = s\<lparr> items := (items s)(a \<mapsto> \<lparr> key = item_keys i x, nxt = (\<lambda>_. None) \<rparr>) \<rparr>"
  from item_add_ok[OF L tp ls a s0_def] obtain s' where s':
      "item_add t (item_positions (last_of xs) (last_of us)) a s0 = Some (OMCI_API_SUCCESS, s')" "same_skel s0 s'"
      "chain s' p KEY_TYPE_ID (xs @ a # ys)" "chain s' p KEY_TYPE_INDEX (us @ a # vs)"
      and other: "\<forall>t' p' kt. t' \<noteq> t \<longrightarrow> mapper_p s t' = Some p' \<longrightarrow> chain s' p' kt (L t' kt)"
    by (elim exE conjE)
  have kof': "kof (items s') kt b = (if b = a then item_keys i x kt else kof (items s) kt b)" for kt b
    using same_skel_kof[OF s'(2)] by (simp add: s0_def kof_def)
  have new: "a \<notin> set (L t' kt)" for t' kt
    using a chain_live layoutD(2)[OF L] L by (cases "mapper_p s t'") (fastforce simp: layout_ok_def)+
  have frame: "mapper_p s' = mapper_p s" "range_of s' = range_of s"
    using s'(2) by (auto simp: same_skel_def s0_def range_of_def fun_eq_iff)
  define N where "N = (\<lambda>kt. case kt of KEY_TYPE_ID \<Rightarrow> xs @ a # ys | KEY_TYPE_INDEX \<Rightarrow> us @ a # vs)"
  have N: "set (N kt) = insert a (set (L t kt))" for kt using ls by (cases kt) (auto simp: N_def)
  have "layout_ok s' (L(t := N))"
  proof (rule layout_update[OF L tp frame, where lo' = "min_key m" and hi' = "max_key m"])
    show "chain s' p kt (N kt)" for kt using s'(3,4) by (cases kt) (auto simp: N_def)
    show "range_of s p = Some (min_key m, max_key m)" using m by (simp add: range_of_def)
    show "kof (items s') kt b = kof (items s) kt b" if "b \<in> set (L t' kt)" for t' kt b using that new[of t' kt] kof' by auto
    show "set (N KEY_TYPE_ID) = set (N KEY_TYPE_INDEX)" using N layoutD(3)[OF L tp, of KEY_TYPE_INDEX] by simp
    show "set (N KEY_TYPE_ID) \<inter> set (L t' KEY_TYPE_ID) = {}" if "t' \<noteq> t" for t'
      using L that new[of t' KEY_TYPE_ID] unfolding N layout_ok_def by blast
    show "b \<in> set (N KEY_TYPE_ID) \<or> (\<exists>t'. t' \<noteq> t \<and> b \<in> set (L t' KEY_TYPE_ID))" if "items s' b \<noteq> None" for b
    proof (cases "b = a")
      case False
      with that same_skel_live[OF s'(2), of b] have "items s b \<noteq> None" by (simp add: s0_def)
      with L obtain t' where "b \<in> set (L t' KEY_TYPE_ID)" unfolding layout_ok_def by blast
      then show ?thesis using N by (cases "t' = t") auto
    qed (simp add: N)
    show "keys_ok (kof (items s') kt) lo hi (N kt)"
      if "keys_ok (kof (items s) kt) lo hi (L t kt)" "lo = min_key m kt" "hi = max_key m kt" for lo hi kt
    proof -
      have "keys_ok (kof (items s') kt) lo hi (L t kt)" by (rule keys_ok_eq[OF that(1)]) (use new[of t kt] kof' in auto)
      then show ?thesis using ls ik xk that new[of t kt]
        by (cases kt) (auto simp: N_def kof' item_keys_def intro!: keys_ok_insert)
    qed
  qed (use other in blast)
  then have inv: "mapper_inv s'" and pr: "pairs s' t' = pair_of (items s') ` set ((L(t := N)) t' KEY_TYPE_ID)" for t'
    using pairs_layout by (auto simp: mapper_inv_def)
  have "pair_of (items s') ` set (L t' KEY_TYPE_ID) = pairs s t'" for t'
    unfolding pairs_layout[OF L] by (rule image_cong[OF refl]) (use new kof' in \<open>auto simp: pair_of_def\<close>)
  moreover have "pair_of (items s') a = (i, x)" by (simp add: pair_of_def kof' item_keys_def)
  ultimately have "pairs s' = (pairs s)(t := insert (i, x) (pairs s t))"
    unfolding fun_eq_iff pr using N by auto
  moreover have "create_and_add malloc t i x (last_of xs) (last_of us) s = Some (OMCI_API_SUCCESS, s')"
    using Some s'(1) by (simp add: create_and_add_def item_create_def s0_def)
  ultimately show ?thesis using inv frame Some by auto
qed

lemma item_remove_ok:
  assumes L: "layout_ok s L" and tp: "mapper_p s t = Some p"
    and ls: "L t KEY_TYPE_ID = xs @ a # ys" "L t KEY_TYPE_INDEX = us @ a # vs"
  shows "\<exists>s'. item_remove t (item_positions (last_of xs) (last_of us)) s = Some (Some a, s') \<and> same_skel s s'
    \<and> chain s' p KEY_TYPE_ID (xs @ ys) \<and> chain s' p KEY_TYPE_INDEX (us @ vs)
    \<and> (\<forall>t' p' kt. t' \<noteq> t \<longrightarrow> mapper_p s t' = Some p' \<longrightarrow> chain s' p' kt (L t' kt))"
proof -
  note other = layout_other[OF L tp]
  note ch0 = layoutD(2)[OF L]
  from remove_key_ok[of s p KEY_TYPE_ID xs a ys] ch0[OF tp, of KEY_TYPE_ID] layoutD(4)[OF L tp, of KEY_TYPE_ID] ls
  obtain s1 where s1: "remove_key p KEY_TYPE_ID (last_of xs) s = Some (a, s1)" "chain s1 p KEY_TYPE_ID (xs @ ys)" "same_skel s s1"
      and fr1: "\<forall>p' kt' as. chain s p' kt' as \<and> (p', kt') \<noteq> (p, KEY_TYPE_ID) \<and> (kt' = KEY_TYPE_ID \<longrightarrow> set as \<inter> set xs = {})
         \<longrightarrow> chain s1 p' kt' as"
    by auto
  from fr1[rule_format, of p KEY_TYPE_INDEX "us @ a # vs"] ch0[OF tp, of KEY_TYPE_INDEX] ls
  have "chain s1 p KEY_TYPE_INDEX (us @ a # vs)" by simp
  from remove_key_ok[OF this] layoutD(4)[OF L tp, of KEY_TYPE_INDEX] ls
  obtain s2 where s2: "remove_key p KEY_TYPE_INDEX (last_of us) s1 = Some (a, s2)" "chain s2 p KEY_TYPE_INDEX (us @ vs)" "same_skel s1 s2"
      and fr2: "\<forall>p' kt' as. chain s1 p' kt' as \<and> (p', kt') \<noteq> (p, KEY_TYPE_INDEX) \<and> (kt' = KEY_TYPE_INDEX \<longrightarrow> set as \<inter> set us = {})
         \<longrightarrow> chain s2 p' kt' as"
    by auto
  have "chain s2 p' kt (L t' kt)" if "t' \<noteq> t" "mapper_p s t' = Some p'" for t' p' kt
  proof -
    have disj: "set (L t' kt) \<inter> set (L t kt) = {}" "p' \<noteq> p" by (rule other[OF that(2,1)])+
    then have "chain s1 p' kt (L t' kt)"
      using fr1[rule_format, of p' kt "L t' kt"] ch0[OF that(2), of kt] ls by (cases kt) auto
    then show ?thesis using fr2[rule_format, of p' kt "L t' kt"] disj ls by (cases kt) auto
  qed
  moreover have "chain s2 p KEY_TYPE_ID (xs @ ys)" using fr2[rule_format, of p KEY_TYPE_ID "xs @ ys"] s1(2) by simp
  moreover have "item_remove t (item_positions (last_of xs) (last_of us)) s = Some (Some a, s2)"
    using s1(1) s2(1) tp by (simp add: item_remove_def mapper_get_def item_positions_def)
  ultimately show ?thesis using s1 s2 same_skel_trans by blast
qed

lemma remove_and_delete_ok:
  assumes L: "layout_ok s L" and tp: "mapper_p s t = Some p" and m: "mappers s p = Some m"
    and ls: "L t KEY_TYPE_ID = xs @ a # ys" "L t KEY_TYPE_INDEX = us @ a # vs"
  shows "\<exists>s1 s'. item_remove t (item_positions (last_of xs) (last_of us)) s = Some (Some a, s1) \<and> item_delete a s1 = Some s'
    \<and> layout_ok s' (L(t := (\<lambda>kt. case kt of KEY_TYPE_ID \<Rightarrow> xs @ ys | KEY_TYPE_INDEX \<Rightarrow> us @ vs)))
    \<and> pairs s' = (pairs s)(t := pairs s t - {pair_of (items s) a}) \<and> mapper_p s' = mapper_p s \<and> range_of s' = range_of s"
proof -
  from item_remove_ok[OF L tp ls] obtain s1 where s1:
      "item_remove t (item_positions (last_of xs) (last_of us)) s = Some (Some a, s1)" "same_skel s s1"
      "chain s1 p KEY_TYPE_ID (xs @ ys)" "chain s1 p KEY_TYPE_INDEX (us @ vs)"
      and other: "\<forall>t' p' kt. t' \<noteq> t \<longrightarrow> mapper_p s t' = Some p' \<longrightarrow> chain s1 p' kt (L t' kt)"
    by (elim exE conjE)
  define s' where "s' = s1\<lparr> items := (items s1)(a := None) \<rparr>"
  from chain_live[OF layoutD(2)[OF L tp, of KEY_TYPE_ID]] ls have "items s a \<noteq> None" by auto
  then have del: "item_delete a s1 = Some s'" using same_skel_live[OF s1(2), of a] by (auto simp: item_delete_def s'_def)
  define N where "N = (\<lambda>kt. case kt of KEY_TYPE_ID \<Rightarrow> xs @ ys | KEY_TYPE_INDEX \<Rightarrow> us @ vs)"
  have N: "set (N kt) = set (L t kt) - {a}" for kt using ls layoutD(4)[OF L tp, of kt] by (cases kt) (auto simp: N_def)
  have anot: "a \<notin> set (L t' kt)" if "t' \<noteq> t" for t' kt
  proof (cases "mapper_p s t'")
    case (Some p')
    from layout_other(1)[OF L tp Some that, of kt] ls show ?thesis by (cases kt) auto
  qed (use L in \<open>auto simp: layout_ok_def\<close>)
  have kof': "kof (items s') kt b = kof (items s) kt b" if "b \<noteq> a" for kt b
  proof -
    from that have "kof (items s') kt b = kof (items s1) kt b" by (simp add: s'_def kof_def)
    then show ?thesis using same_skel_kof[OF s1(2)] by simp
  qed
  have frame: "mapper_p s' = mapper_p s" "range_of s' = range_of s"
    using s1(2) by (auto simp: same_skel_def s'_def range_of_def fun_eq_iff)
  have keep: "chain s' q kt as" if "chain s1 q kt as" "a \<notin> set as" for q kt as
    by (rule chain_heap_cong[OF that(1)]) (use that(2) in \<open>auto simp: s'_def\<close>)
  have "layout_ok s' (L(t := N))"
  proof (rule layout_update[OF L tp frame, where lo' = "min_key m" and hi' = "max_key m"])
    show "chain s' p kt (N kt)" for kt
    proof (rule keep)
      show "chain s1 p kt (N kt)" using s1(3,4) by (cases kt) (simp_all add: N_def)
      show "a \<notin> set (N kt)" by (simp add: N)
    qed
    show "chain s' p' kt (L t' kt)" if "t' \<noteq> t" "mapper_p s t' = Some p'" for t' p' kt
      using other that anot by (intro keep) auto
    show "range_of s p = Some (min_key m, max_key m)" using m by (simp add: range_of_def)
    show "kof (items s') kt b = kof (items s) kt b" if "t' \<noteq> t" "b \<in> set (L t' kt)" for t' kt b
      using that anot[OF that(1), of kt] by (intro kof') auto
    show "set (N KEY_TYPE_ID) = set (N KEY_TYPE_INDEX)" using N layoutD(3)[OF L tp, of KEY_TYPE_INDEX] by simp
    show "set (N KEY_TYPE_ID) \<inter> set (L t' KEY_TYPE_ID) = {}" if "t' \<noteq> t" for t'
      using L that unfolding N layout_ok_def by blast
    show "b \<in> set (N KEY_TYPE_ID) \<or> (\<exists>t'. t' \<noteq> t \<and> b \<in> set (L t' KEY_TYPE_ID))" if "items s' b \<noteq> None" for b
    proof -
      from that have "b \<noteq> a" "items s b \<noteq> None" using same_skel_live[OF s1(2), of b] by (auto simp: s'_def split: if_splits)
      with L obtain t' where "b \<in> set (L t' KEY_TYPE_ID)" unfolding layout_ok_def by blast
      then show ?thesis using N \<open>b \<noteq> a\<close> by (cases "t' = t") auto
    qed
    show "keys_ok (kof (items s') kt) lo hi (N kt)" if "keys_ok (kof (items s) kt) lo hi (L t kt)" for lo hi kt
    proof -
      from that ls have "keys_ok (kof (items s) kt) lo hi (N kt)" by (cases kt) (auto simp: N_def intro: keys_ok_remove)
      then show ?thesis by (rule keys_ok_eq) (use N kof' in auto)
    qed
  qed
  note lay = this
  have "pairs s' t' = ((pairs s)(t := pairs s t - {pair_of (items s) a})) t'" for t'
  proof -
    have eq: "pair_of (items s') b = pair_of (items s) b" if "b \<noteq> a" for b using that by (simp add: pair_of_def kof')
    have "inj_on (kof (items s) KEY_TYPE_ID) (set (L t KEY_TYPE_ID))"
    proof -
      from L tp obtain lo hi where "keys_ok (kof (items s) KEY_TYPE_ID) lo hi (L t KEY_TYPE_ID)" unfolding layout_ok_alt by blast
      then show ?thesis by (rule keys_ok_inj)
    qed
    then have inj: "inj_on (pair_of (items s)) (set (L t KEY_TYPE_ID))" by (auto simp: inj_on_def pair_of_def)
    have "pair_of (items s') ` set (N KEY_TYPE_ID) = pair_of (items s) ` (set (L t KEY_TYPE_ID) - {a})"
      unfolding N by (rule image_cong[OF refl]) (use eq in auto)
    also have "\<dots> = pairs s t - {pair_of (items s) a}"
      unfolding pairs_layout[OF L] using inj ls by (subst inj_on_image_set_diff[OF inj]) auto
    finally have "pairs s' t = pairs s t - {pair_of (items s) a}" using pairs_layout[OF lay, of t] by simp
    moreover have "pairs s' t' = pairs s t'" if "t' \<noteq> t"
    proof -
      have "pair_of (items s') ` set (L t' KEY_TYPE_ID) = pair_of (items s) ` set (L t' KEY_TYPE_ID)"
        by (rule image_cong[OF refl], rule eq) (use anot[OF that, of KEY_TYPE_ID] in auto)
      with that show ?thesis unfolding pairs_layout[OF L] pairs_layout[OF lay] by simp
    qed
    ultimately show ?thesis by auto
  qed
  then have "pairs s' = (pairs s)(t := pairs s t - {pair_of (items s) a})" by (rule ext)
  with s1(1) del lay frame show ?thesis unfolding N_def by blast
qed

end
