(* ===== verification/Api_Mapper_Spec.thy ===== *)
theory Api_Mapper_Spec
  imports Api_Mapper_Lists
begin

text \<open>
  The mapper seen from outside: every exported function as an operation on the set of pairs of an
  identifier type, on all its branches. The set is a partial bijection between two key ranges, and
  the interface \<^verbatim>\<open>bimap\<close> states what the rest of the OMCI API relies on.
\<close>

section \<open>Definitions of the statements\<close>

text \<open>The identifier types a table sets up, with their ranges.\<close>

definition entry_ranges :: "mapper_entry \<Rightarrow> (mapper_key_type \<Rightarrow> u32) \<times> (mapper_key_type \<Rightarrow> u32)" where
  "entry_ranges e = (item_keys (min_id e) (min_idx e), item_keys (max_id e) (max_idx e))"

definition table_types :: "mapper_entry list \<Rightarrow> nat list" where
  "table_types es = concat (map (\<lambda>e. map (\<lambda>j. etype e + j) [0..<num e]) es)"

definition table_ranges :: "omci_api_ctx \<Rightarrow> mapper_entry list \<Rightarrow> nat \<Rightarrow> (mapper_key_type \<Rightarrow> u32) \<times> (mapper_key_type \<Rightarrow> u32)" where
  "table_ranges s es t = (case List.find (\<lambda>e. etype e \<le> t \<and> t < etype e + num e) es of
     None \<Rightarrow> (\<lambda>_. 1, \<lambda>_. 0) | Some e \<Rightarrow> entry_ranges (run_init s e))"

definition table_range :: "omci_api_ctx \<Rightarrow> mapper_entry list \<Rightarrow> nat \<Rightarrow> mapper_key_type \<Rightarrow> u32 set" where
  "table_range s es t kt = {fst (table_ranges s es t) kt..snd (table_ranges s es t) kt}"

text \<open>An allocator that always finds memory while finitely many addresses are in use, and one such.\<close>

definition malloc_total :: "malloc \<Rightarrow> bool" where
  "malloc_total malloc \<longleftrightarrow> (\<forall>al. finite {a. al a} \<longrightarrow> malloc al \<noteq> None)"

definition first_free :: malloc where
  "first_free al = (if \<exists>a. \<not> al a then Some (LEAST a. \<not> al a) else None)"

text \<open>A context before the first initialisation.\<close>

definition zero_ctx :: "u32 \<Rightarrow> omci_api_ctx" where
  "zero_ctx n = \<lparr> mapper_p = (\<lambda>_. None), mappers = (\<lambda>_. None), items = (\<lambda>_. None), max_bridge_port = n \<rparr>"

text \<open>Progress of the initialisation: the types of \<^term>\<open>D\<close> have a fresh empty mapper with the ranges \<^term>\<open>R\<close>.\<close>

definition init_done :: "omci_api_ctx \<Rightarrow> (nat \<Rightarrow> (mapper_key_type \<Rightarrow> u32) \<times> (mapper_key_type \<Rightarrow> u32)) \<Rightarrow> nat set \<Rightarrow> omci_api_ctx \<Rightarrow> bool" where
  "init_done s0 R D s \<longleftrightarrow> items s = items s0 \<and> max_bridge_port s = max_bridge_port s0
     \<and> (\<forall>t. t \<notin> D \<longrightarrow> mapper_p s t = mapper_p s0 t)
     \<and> (\<forall>t\<in>D. t < MAPPER_IDTYPE_MAX \<and> (\<exists>p m. mapper_p s t = Some p \<and> mappers s p = Some m
          \<and> list_head m = (\<lambda>_. None) \<and> (min_key m, max_key m) = R t))
     \<and> (\<forall>t\<in>D. \<forall>t'\<in>D. t \<noteq> t' \<longrightarrow> mapper_p s t \<noteq> mapper_p s t')"

text \<open>A context with two pairs in the mapper of type 0 and an allocator with one free address.\<close>

definition demo_ctx :: omci_api_ctx where
  "demo_ctx = \<lparr> mapper_p = (\<lambda>t. if t = 0 then Some 0 else None),
     mappers = (\<lambda>p. if p = 0 then Some \<lparr> min_key = item_keys 0 0, max_key = item_keys 100 31,
       list_head = item_positions (Some 1) (Some 2) \<rparr> else None),
     items = (\<lambda>a. if a = 1 then Some \<lparr> key = item_keys 10 3, nxt = item_positions (Some 2) None \<rparr>
       else if a = 2 then Some \<lparr> key = item_keys 20 0, nxt = item_positions None (Some 1) \<rparr> else None),
     max_bridge_port = 8 \<rparr>"

definition demo_malloc :: malloc where
  "demo_malloc al = (if al 3 then None else Some 3)"

text \<open>All states the exported functions can produce after an initialisation.\<close>

inductive mapper_reachable :: "malloc \<Rightarrow> omci_api_ctx \<Rightarrow> bool" for malloc where
  start: "mapper_init malloc (zero_ctx n) = (OMCI_API_SUCCESS, s) \<Longrightarrow> mapper_reachable malloc s"
| explicit: "mapper_reachable malloc s \<Longrightarrow> explicit_map malloc t i x s = Some (r, s') \<Longrightarrow> mapper_reachable malloc s'"
| by_id: "mapper_reachable malloc s \<Longrightarrow> id_map malloc t i old s = Some (r, k, s') \<Longrightarrow> mapper_reachable malloc s'"
| by_index: "mapper_reachable malloc s \<Longrightarrow> index_map malloc t old x s = Some (r, k, s') \<Longrightarrow> mapper_reachable malloc s'"
| map_or_get: "mapper_reachable malloc s \<Longrightarrow> index_map_or_get malloc me t old s = Some (r, k, s') \<Longrightarrow> mapper_reachable malloc s'"
| rem_id: "mapper_reachable malloc s \<Longrightarrow> id_remove t i s = Some (r, s') \<Longrightarrow> mapper_reachable malloc s'"
| rem_index: "mapper_reachable malloc s \<Longrightarrow> index_remove t x s = Some (r, s') \<Longrightarrow> mapper_reachable malloc s'"
| reset: "mapper_reachable malloc s \<Longrightarrow> omci_api_mapper_reset malloc s = Some (0, s') \<Longrightarrow> mapper_reachable malloc s'"

text \<open>The mapper of one identifier type as a container: the allocator is part of its state.\<close>

definition bi_invar :: "malloc \<times> omci_api_ctx \<Rightarrow> bool" where
  "bi_invar ms \<longleftrightarrow> malloc_ok (fst ms) \<and> mapper_inv (snd ms)"

definition bi_rel :: "nat \<Rightarrow> malloc \<times> omci_api_ctx \<Rightarrow> (u32 \<times> u32) set" where
  "bi_rel t ms = pairs (snd ms) t"

definition bi_put :: "nat \<Rightarrow> u32 \<Rightarrow> u32 \<Rightarrow> malloc \<times> omci_api_ctx \<Rightarrow> (malloc \<times> omci_api_ctx) option" where
  "bi_put t i x ms = (case explicit_map (fst ms) t i x (snd ms) of
     Some (OMCI_API_SUCCESS, s') \<Rightarrow> Some (fst ms, s') | _ \<Rightarrow> None)"

definition bi_fwd :: "nat \<Rightarrow> u32 \<Rightarrow> malloc \<times> omci_api_ctx \<Rightarrow> u32 option" where
  "bi_fwd t i ms = (case index_get t i 0 (snd ms) of Some (OMCI_API_SUCCESS, x) \<Rightarrow> Some x | _ \<Rightarrow> None)"

definition bi_bwd :: "nat \<Rightarrow> u32 \<Rightarrow> malloc \<times> omci_api_ctx \<Rightarrow> u32 option" where
  "bi_bwd t x ms = (case id_get t 0 x (snd ms) of Some (OMCI_API_SUCCESS, i) \<Rightarrow> Some i | _ \<Rightarrow> None)"

definition bi_del :: "nat \<Rightarrow> u32 \<Rightarrow> malloc \<times> omci_api_ctx \<Rightarrow> (malloc \<times> omci_api_ctx) option" where
  "bi_del t i ms = (case id_remove t i (snd ms) of Some (OMCI_API_SUCCESS, s') \<Rightarrow> Some (fst ms, s') | _ \<Rightarrow> None)"

section \<open>Interface\<close>

text \<open>
  A partial bijection: \<^verbatim>\<open>put\<close> adds a pair of two unused keys or refuses, \<^verbatim>\<open>fwd\<close> and \<^verbatim>\<open>bwd\<close> look a
  key up on either side, \<^verbatim>\<open>del\<close> removes the pair of a key.
\<close>

locale bimap =
  fixes invar :: "'s \<Rightarrow> bool"
    and rel :: "'s \<Rightarrow> ('a \<times> 'b) set"
    and put :: "'a \<Rightarrow> 'b \<Rightarrow> 's \<Rightarrow> 's option"
    and fwd :: "'a \<Rightarrow> 's \<Rightarrow> 'b option"
    and bwd :: "'b \<Rightarrow> 's \<Rightarrow> 'a option"
    and del :: "'a \<Rightarrow> 's \<Rightarrow> 's option"
  assumes fwd_iff: "invar s \<Longrightarrow> fwd a s = Some b \<longleftrightarrow> (a, b) \<in> rel s"
    and bwd_iff: "invar s \<Longrightarrow> bwd b s = Some a \<longleftrightarrow> (a, b) \<in> rel s"
    and put_rel: "invar s \<Longrightarrow> put a b s = Some s' \<Longrightarrow> invar s' \<and> rel s' = insert (a, b) (rel s)
      \<and> a \<notin> fst ` rel s \<and> b \<notin> snd ` rel s"
    and del_rel: "invar s \<Longrightarrow> (a, b) \<in> rel s \<Longrightarrow> \<exists>s'. del a s = Some s' \<and> invar s' \<and> rel s' = rel s - {(a, b)}"
begin

lemma fwd_bwd: "invar s \<Longrightarrow> fwd a s = Some b \<longleftrightarrow> bwd b s = Some a"
  by (simp add: fwd_iff bwd_iff)

lemma fwd_put: "invar s \<Longrightarrow> put a b s = Some s' \<Longrightarrow> fwd c s' = (if c = a then Some b else fwd c s)"
proof -
  assume s: "invar s" "put a b s = Some s'"
  with put_rel have p: "invar s'" "rel s' = insert (a, b) (rel s)" "a \<notin> fst ` rel s" by blast+
  have "fwd c s' = Some d \<longleftrightarrow> (if c = a then Some b else fwd c s) = Some d" for d
    using p(3) by (auto simp: fwd_iff[OF p(1)] fwd_iff[OF s(1)] p(2) intro: rev_image_eqI)
  then show ?thesis by (metis option.exhaust_sel)
qed

lemma put_del: 
  assumes "invar s" "put a b s = Some s'"
  shows "\<exists>s''. del a s' = Some s'' \<and> invar s'' \<and> rel s'' = rel s"
proof -
  from put_rel[OF assms] have p: "invar s'" "rel s' = insert (a, b) (rel s)" "a \<notin> fst ` rel s" by blast+
  from del_rel[OF p(1), of a b] p(2) obtain s'' where "del a s' = Some s''" "invar s''" "rel s'' = rel s' - {(a, b)}" by auto
  moreover have "insert (a, b) (rel s) - {(a, b)} = rel s" using p(3) by (auto intro: rev_image_eqI)
  ultimately show ?thesis using p(2) by auto
qed

end

section \<open>The operations on the pairs\<close>

lemma key_range_layout:
  "mapper_p s t = Some p \<Longrightarrow> mappers s p = Some m \<Longrightarrow> key_range s t kt = {min_key m kt..max_key m kt}"
  by (simp add: key_range_def range_of_def)

lemma key_range_frame: "mapper_p s' = mapper_p s \<Longrightarrow> range_of s' = range_of s \<Longrightarrow> key_range s' = key_range s"
  by (intro ext) (simp add: key_range_def cong: option.case_cong)

lemma key_verify_ok:
  assumes "layout_ok s L"
  shows "key_verify s t kt k = Some (if k \<in> key_range s t kt then OMCI_API_SUCCESS else OMCI_API_ERROR)"
proof (cases "mapper_p s t")
  case None
  then show ?thesis by (simp add: key_verify_def mapper_get_def key_range_def)
next
  case (Some p)
  from layoutD(5)[OF assms Some] obtain m where "mappers s p = Some m" by blast
  with Some layoutD(1)[OF assms Some] show ?thesis
    by (simp add: key_verify_def mapper_get_def id_type_verify_def key_range_layout)
qed

lemma kof_image:
  assumes "layout_ok s L" "mapper_p s t = Some p"
  shows "kof (items s) kt ` set (L t kt) = proj kt ` pairs s t"
proof -
  from layoutD(3)[OF assms, of kt] have "kof (items s) kt ` set (L t kt) = kof (items s) kt ` set (L t KEY_TYPE_ID)" by simp
  then show ?thesis
    unfolding pairs_layout[OF assms(1)] image_image by (cases kt) (simp_all add: proj_def pair_of_def)
qed

lemma find_key_ok:
  assumes "layout_ok s L" "mapper_p s t = Some p"
  obtains xs ys where "L t kt = xs @ ys" "\<forall>b\<in>set xs. kof (items s) kt b < k"
    "item_find s t kt k = Some (if k \<in> proj kt ` pairs s t then OMCI_API_SUCCESS else OMCI_API_NOT_FOUND, last_of xs)"
    "k \<notin> proj kt ` pairs s t \<longrightarrow> (\<forall>b\<in>set ys. k < kof (items s) kt b)"
    "k \<in> proj kt ` pairs s t \<longrightarrow> (\<exists>a zs. ys = a # zs \<and> kof (items s) kt a = k)"
proof -
  from layoutD(5)[OF assms] obtain m where m: "mappers s p = Some m" "list_ok (items s) m kt (L t kt)" by blast
  from item_find_ok[OF assms(2) m] obtain xs ys where f: "L t kt = xs @ ys" "\<forall>b\<in>set xs. kof (items s) kt b < k"
      "\<forall>b\<in>set ys. k \<le> kof (items s) kt b"
      "item_find s t kt k = Some (if \<exists>b\<in>set (L t kt). kof (items s) kt b = k then OMCI_API_SUCCESS else OMCI_API_NOT_FOUND, last_of xs)"
    by blast
  have ex: "(\<exists>b\<in>set (L t kt). kof (items s) kt b = k) \<longleftrightarrow> k \<in> proj kt ` pairs s t"
    unfolding kof_image[OF assms, symmetric] by auto
  show thesis
  proof (rule that[OF f(1,2)])
    show "item_find s t kt k = Some (if k \<in> proj kt ` pairs s t then OMCI_API_SUCCESS else OMCI_API_NOT_FOUND, last_of xs)"
      using f(4) unfolding ex .
    show "k \<notin> proj kt ` pairs s t \<longrightarrow> (\<forall>b\<in>set ys. k < kof (items s) kt b)"
      using f(1,3) unfolding ex[symmetric] by (metis Un_iff order_le_less set_append)
    show "k \<in> proj kt ` pairs s t \<longrightarrow> (\<exists>a zs. ys = a # zs \<and> kof (items s) kt a = k)"
    proof
      assume "k \<in> proj kt ` pairs s t"
      then obtain b where b: "b \<in> set (xs @ ys)" "kof (items s) kt b = k" using f(1) unfolding ex[symmetric] by auto
      with f(2) have "b \<in> set ys" by auto
      then obtain a zs where ys: "ys = a # zs" by (cases ys) auto
      with m(2) f(1) \<open>b \<in> set ys\<close> have "kof (items s) kt a \<le> kof (items s) kt b"
        by (auto simp: list_ok_def sorted_wrt_append intro: less_imp_le)
      with f(3) ys b(2) show "\<exists>a zs. ys = a # zs \<and> kof (items s) kt a = k" by auto
    qed
  qed
qed

lemma item_get_ok:
  assumes "layout_ok s L" "mapper_p s t = Some p" "L t kt = xs @ a # ys"
  shows "item_get s t kt (last_of xs) = Some (Some a)"
proof -
  from layoutD(2)[OF assms(1,2), of kt] assms(3) obtain m where m: "mappers s p = Some m"
      "lseg (items s) kt (list_head m kt) (xs @ a # ys) None"
    by (auto simp: chain_def)
  show ?thesis
  proof (cases xs rule: rev_cases)
    case Nil
    with m assms(2) show ?thesis by (simp add: item_get_def mapper_get_def last_of_def)
  next
    case (snoc xs' q)
    with m(2) obtain iq where "items s q = Some iq" "nxt iq kt = Some a"
      by (auto simp: lseg_append split: option.splits)
    with snoc assms(2) show ?thesis by (simp add: item_get_def mapper_get_def last_of_def)
  qed
qed

lemma key_get_ok: "layout_ok s L \<Longrightarrow> mapper_p s t = Some p \<Longrightarrow> a \<in> set (L t kt') \<Longrightarrow> key_get s a kt = Some (kof (items s) kt a)"
  using chain_live[OF layoutD(2)] by (fastforce simp: key_get_def kof_def)

lemma pair_of_in: "layout_ok s L \<Longrightarrow> mapper_p s t = Some p \<Longrightarrow> a \<in> set (L t kt) \<Longrightarrow> pair_of (items s) a \<in> pairs s t"
  by (metis image_eqI layoutD(3) pairs_layout)

lemma pairs_inj:
  assumes "layout_ok s L"
  shows "inj_on (proj kt) (pairs s t)"
proof (cases "mapper_p s t")
  case None
  then show ?thesis by (simp add: pairs_def)
next
  case (Some p)
  from assms Some obtain lo hi where "keys_ok (kof (items s) kt) lo hi (L t kt)" unfolding layout_ok_alt by blast
  from keys_ok_inj[OF this] have "inj_on (\<lambda>a. proj kt (pair_of (items s) a)) (set (L t KEY_TYPE_ID))"
    using layoutD(3)[OF assms Some, of kt] by (cases kt) (simp_all add: proj_def pair_of_def)
  then show ?thesis unfolding pairs_layout[OF assms] by (auto simp: inj_on_def)
qed

lemma pairs_range:
  assumes "layout_ok s L"
  shows "proj kt ` pairs s t \<subseteq> key_range s t kt"
proof (cases "mapper_p s t")
  case None
  then show ?thesis by (simp add: pairs_def)
next
  case (Some p)
  from layoutD(5)[OF assms Some, of kt] obtain m where "mappers s p = Some m" "list_ok (items s) m kt (L t kt)" by blast
  with Some show ?thesis unfolding kof_image[OF assms Some, symmetric] by (auto simp: key_range_layout list_ok_def)
qed

section \<open>Contracts of the exported functions\<close>

lemma range_ready: "k \<in> key_range s t kt \<Longrightarrow> \<exists>p. mapper_p s t = Some p"
  by (auto simp: key_range_def split: option.splits)

lemma type_valid: "layout_ok s L \<Longrightarrow> k \<in> key_range s t kt \<Longrightarrow> id_type_verify t = OMCI_API_SUCCESS"
  using range_ready layoutD(1) by (fastforce simp: id_type_verify_def)

text \<open>A search for a mapped key of type \<^term>\<open>kt\<close>, and one for a key that is not mapped.\<close>

lemma found_key:
  assumes L: "layout_ok s L" and k: "k \<in> proj kt ` pairs s t"
  shows "\<exists>p xs a ys. mapper_p s t = Some p \<and> L t kt = xs @ a # ys \<and> item_find s t kt k = Some (OMCI_API_SUCCESS, last_of xs)
    \<and> item_get s t kt (last_of xs) = Some (Some a) \<and> pair_of (items s) a \<in> pairs s t \<and> proj kt (pair_of (items s) a) = k
    \<and> (\<forall>kt'. key_get s a kt' = Some (proj kt' (pair_of (items s) a)))
    \<and> id_type_verify t = OMCI_API_SUCCESS \<and> key_verify s t kt k = Some OMCI_API_SUCCESS"
proof -
  from k have r: "k \<in> key_range s t kt" using pairs_range[OF L] by blast
  from range_ready[OF r] obtain p where p: "mapper_p s t = Some p" ..
  obtain xs us where u: "L t kt = xs @ us" "\<forall>b\<in>set xs. kof (items s) kt b < k"
      "item_find s t kt k = Some (if k \<in> proj kt ` pairs s t then OMCI_API_SUCCESS else OMCI_API_NOT_FOUND, last_of xs)"
      "k \<notin> proj kt ` pairs s t \<longrightarrow> (\<forall>b\<in>set us. k < kof (items s) kt b)"
      "k \<in> proj kt ` pairs s t \<longrightarrow> (\<exists>a zs. us = a # zs \<and> kof (items s) kt a = k)"
    by (rule find_key_ok[OF L p])
  from u(5) k obtain a ys where us: "us = a # ys" "kof (items s) kt a = k" by blast
  have f: "L t kt = xs @ a # ys" "kof (items s) kt a = k" "item_find s t kt k = Some (OMCI_API_SUCCESS, last_of xs)"
    using u(1,3) us k by simp_all
  then have a: "a \<in> set (L t kt)" by simp
  have pr: "kof (items s) kt' a = proj kt' (pair_of (items s) a)" for kt' by (cases kt') (simp_all add: proj_def pair_of_def)
  show ?thesis
    using p f r item_get_ok[OF L p f(1)] pair_of_in[OF L p a] type_valid[OF L r]
    by (intro exI[of _ p] exI[of _ xs] exI[of _ a] exI[of _ ys]) (simp add: pr key_get_ok[OF L p a] key_verify_ok[OF L])
qed

lemma missing_key:
  assumes L: "layout_ok s L" and r: "k \<in> key_range s t kt" and k: "k \<notin> proj kt ` pairs s t"
  shows "\<exists>xs ys. gap_at s t kt (L t kt) xs ys k \<and> item_find s t kt k = Some (OMCI_API_NOT_FOUND, last_of xs)"
proof -
  from range_ready[OF r] obtain p where p: "mapper_p s t = Some p" ..
  obtain xs us where u: "L t kt = xs @ us" "\<forall>b\<in>set xs. kof (items s) kt b < k"
      "item_find s t kt k = Some (if k \<in> proj kt ` pairs s t then OMCI_API_SUCCESS else OMCI_API_NOT_FOUND, last_of xs)"
      "k \<notin> proj kt ` pairs s t \<longrightarrow> (\<forall>b\<in>set us. k < kof (items s) kt b)"
      "k \<in> proj kt ` pairs s t \<longrightarrow> (\<exists>a zs. us = a # zs \<and> kof (items s) kt a = k)"
    by (rule find_key_ok[OF L p])
  then show ?thesis using r k by (intro exI[of _ xs] exI[of _ us]) (simp add: gap_at_def)
qed

lemma not_valid: "layout_ok s L \<Longrightarrow> k \<notin> key_range s t kt \<Longrightarrow> key_verify s t kt k = Some OMCI_API_ERROR"
  by (simp add: key_verify_ok)

lemma proj_simps [simp]: "proj KEY_TYPE_ID = fst" "proj KEY_TYPE_INDEX = snd"
  by (simp_all add: proj_def)

text \<open>What the lookup functions deliver.\<close>

lemma index_get_ok:
  assumes L: "layout_ok s L"
  shows "i \<notin> key_range s t KEY_TYPE_ID \<Longrightarrow> index_get t i old s = Some (OMCI_API_ERROR, old)"
    and "i \<in> key_range s t KEY_TYPE_ID \<Longrightarrow> i \<notin> fst ` pairs s t \<Longrightarrow> index_get t i old s = Some (OMCI_API_NOT_FOUND, old)"
    and "(i, x) \<in> pairs s t \<Longrightarrow> index_get t i old s = Some (OMCI_API_SUCCESS, x)"
proof -
  show "index_get t i old s = Some (OMCI_API_ERROR, old)" if "i \<notin> key_range s t KEY_TYPE_ID"
    using that by (simp add: index_get_def not_valid[OF L])
  show "index_get t i old s = Some (OMCI_API_NOT_FOUND, old)" if r: "i \<in> key_range s t KEY_TYPE_ID" and n: "i \<notin> fst ` pairs s t"
    using missing_key[OF L r] n r type_valid[OF L r] by (auto simp: index_get_def key_verify_ok[OF L])
  show "index_get t i old s = Some (OMCI_API_SUCCESS, x)" if ix: "(i, x) \<in> pairs s t"
  proof -
    from ix have "i \<in> proj KEY_TYPE_ID ` pairs s t" by (auto intro: rev_image_eqI)
    from found_key[OF L this] obtain xs a where f: "item_find s t KEY_TYPE_ID i = Some (OMCI_API_SUCCESS, last_of xs)"
        "item_get s t KEY_TYPE_ID (last_of xs) = Some (Some a)" "pair_of (items s) a \<in> pairs s t" "fst (pair_of (items s) a) = i"
        "key_get s a KEY_TYPE_INDEX = Some (snd (pair_of (items s) a))"
        "id_type_verify t = OMCI_API_SUCCESS" "key_verify s t KEY_TYPE_ID i = Some OMCI_API_SUCCESS"
      by (metis proj_simps)
    moreover from inj_onD[OF pairs_inj[OF L, of KEY_TYPE_ID t] _ f(3) ix] f(4) have "pair_of (items s) a = (i, x)" by simp
    ultimately show ?thesis by (simp add: index_get_def)
  qed
qed

lemma id_get_ok:
  assumes L: "layout_ok s L"
  shows "x \<notin> key_range s t KEY_TYPE_INDEX \<Longrightarrow> id_get t old x s = Some (OMCI_API_ERROR, old)"
    and "x \<in> key_range s t KEY_TYPE_INDEX \<Longrightarrow> x \<notin> snd ` pairs s t \<Longrightarrow> id_get t old x s = Some (OMCI_API_NOT_FOUND, old)"
    and "(i, x) \<in> pairs s t \<Longrightarrow> id_get t old x s = Some (OMCI_API_SUCCESS, i)"
proof -
  show "id_get t old x s = Some (OMCI_API_ERROR, old)" if "x \<notin> key_range s t KEY_TYPE_INDEX"
    using that by (simp add: id_get_def not_valid[OF L])
  show "id_get t old x s = Some (OMCI_API_NOT_FOUND, old)" if r: "x \<in> key_range s t KEY_TYPE_INDEX" and n: "x \<notin> snd ` pairs s t"
    using missing_key[OF L r] n r type_valid[OF L r] by (auto simp: id_get_def key_verify_ok[OF L])
  show "id_get t old x s = Some (OMCI_API_SUCCESS, i)" if ix: "(i, x) \<in> pairs s t"
  proof -
    from ix have "x \<in> proj KEY_TYPE_INDEX ` pairs s t" by (auto intro: rev_image_eqI)
    from found_key[OF L this] obtain xs a where f: "item_find s t KEY_TYPE_INDEX x = Some (OMCI_API_SUCCESS, last_of xs)"
        "item_get s t KEY_TYPE_INDEX (last_of xs) = Some (Some a)" "pair_of (items s) a \<in> pairs s t" "snd (pair_of (items s) a) = x"
        "key_get s a KEY_TYPE_ID = Some (fst (pair_of (items s) a))"
        "id_type_verify t = OMCI_API_SUCCESS" "key_verify s t KEY_TYPE_INDEX x = Some OMCI_API_SUCCESS"
      by (metis proj_simps)
    moreover from inj_onD[OF pairs_inj[OF L, of KEY_TYPE_INDEX t] _ f(3) ix] f(4) have "pair_of (items s) a = (i, x)" by simp
    ultimately show ?thesis by (simp add: id_get_def)
  qed
qed

lemma create_and_add_maps:
  assumes ma: "malloc_ok malloc" and L: "layout_ok s L"
    and i: "gap_at s t KEY_TYPE_ID (L t KEY_TYPE_ID) xs ys i" and x: "gap_at s t KEY_TYPE_INDEX (L t KEY_TYPE_INDEX) us vs x"
  shows "\<exists>r s'. create_and_add malloc t i x (last_of xs) (last_of us) s = Some (r, s')
    \<and> (if malloc (\<lambda>a. items s a \<noteq> None) = None then r = OMCI_API_ERROR \<and> s' = s
       else r = OMCI_API_SUCCESS \<and> maps_pair s t i x s')"
proof -
  from i have "i \<in> key_range s t KEY_TYPE_ID" by (simp add: gap_at_def)
  from range_ready[OF this] obtain p where p: "mapper_p s t = Some p" ..
  from layoutD(5)[OF L p] obtain m where m: "mappers s p = Some m" by blast
  have "if malloc (\<lambda>a. items s a \<noteq> None) = None then create_and_add malloc t i x (last_of xs) (last_of us) s = Some (OMCI_API_ERROR, s)
    else (\<exists>s'. create_and_add malloc t i x (last_of xs) (last_of us) s = Some (OMCI_API_SUCCESS, s') \<and> mapper_inv s'
        \<and> pairs s' = (pairs s)(t := insert (i, x) (pairs s t)) \<and> mapper_p s' = mapper_p s \<and> range_of s' = range_of s)"
    by (rule create_and_add_ok[OF ma L p m, where ys = ys and vs = vs])
      (use i x in \<open>auto simp: gap_at_def key_range_layout[OF p m]\<close>)
  then show ?thesis by (cases "malloc (\<lambda>a. items s a \<noteq> None)") (auto simp: maps_pair_def intro: key_range_frame)
qed

text \<open>The three mapping functions on every branch.\<close>

lemma explicit_map_ok:
  assumes ma: "malloc_ok malloc" and L: "layout_ok s L"
  shows "\<exists>r s'. explicit_map malloc t i x s = Some (r, s')
    \<and> (if i \<in> key_range s t KEY_TYPE_ID - fst ` pairs s t \<and> x \<in> key_range s t KEY_TYPE_INDEX - snd ` pairs s t
          \<and> malloc (\<lambda>a. items s a \<noteq> None) \<noteq> None
       then r = OMCI_API_SUCCESS \<and> maps_pair s t i x s' else r = OMCI_API_ERROR \<and> s' = s)"
proof (cases "i \<in> key_range s t KEY_TYPE_ID \<and> x \<in> key_range s t KEY_TYPE_INDEX")
  case False
  then show ?thesis by (auto simp: explicit_map_def key_verify_ok[OF L])
next
  case True
  then have v: "id_type_verify t = OMCI_API_SUCCESS" "key_verify s t KEY_TYPE_ID i = Some OMCI_API_SUCCESS"
      "key_verify s t KEY_TYPE_INDEX x = Some OMCI_API_SUCCESS"
    using type_valid[OF L] by (auto simp: key_verify_ok[OF L])
  show ?thesis
  proof (cases "i \<in> fst ` pairs s t")
    case i: True
    then have "i \<in> proj KEY_TYPE_ID ` pairs s t" by simp
    from found_key[OF L this] obtain xs where "item_find s t KEY_TYPE_ID i = Some (OMCI_API_SUCCESS, last_of xs)" by blast
    with i v show ?thesis by (auto simp: explicit_map_def)
  next
    case i: False
    with missing_key[OF L conjunct1[OF True]] obtain xs ys where f: "gap_at s t KEY_TYPE_ID (L t KEY_TYPE_ID) xs ys i"
        "item_find s t KEY_TYPE_ID i = Some (OMCI_API_NOT_FOUND, last_of xs)"
      by auto
    show ?thesis
    proof (cases "x \<in> snd ` pairs s t")
      case x: True
      then have "x \<in> proj KEY_TYPE_INDEX ` pairs s t" by simp
      from found_key[OF L this] obtain us where "item_find s t KEY_TYPE_INDEX x = Some (OMCI_API_SUCCESS, last_of us)" by blast
      with f(2) x v show ?thesis by (auto simp: explicit_map_def)
    next
      case x: False
      with missing_key[OF L conjunct2[OF True]] obtain us vs where g: "gap_at s t KEY_TYPE_INDEX (L t KEY_TYPE_INDEX) us vs x"
          "item_find s t KEY_TYPE_INDEX x = Some (OMCI_API_NOT_FOUND, last_of us)"
        by auto
      have "explicit_map malloc t i x s = create_and_add malloc t i x (last_of xs) (last_of us) s"
        using f(2) g(2) v by (simp add: explicit_map_def)
      with create_and_add_maps[OF ma L f(1) g(1)] i x True show ?thesis
        by (cases "malloc (\<lambda>a. items s a \<noteq> None)") auto
    qed
  qed
qed

text \<open>The free key search over the set of pairs.\<close>

lemma free_key_find_pairs:
  assumes L: "layout_ok s L" and p: "mapper_p s t = Some p"
  shows "(\<exists>k xs ys. free_key_find s t kt old = Some (OMCI_API_SUCCESS, k, last_of xs) \<and> gap_at s t kt (L t kt) xs ys k
      \<and> least_free (key_range s t kt) (proj kt ` pairs s t) k)
    \<or> free_key_find s t kt old = Some (OMCI_API_NOT_FOUND, old, None) \<and> key_range s t kt \<subseteq> proj kt ` pairs s t"
proof -
  from layoutD(5)[OF L p, of kt] obtain m where m: "mappers s p = Some m" "min_key m kt \<le> max_key m kt" "list_ok (items s) m kt (L t kt)"
    by auto
  from free_key_find_ok[OF p m(1,3,2), of old]
  consider (found) xs ys k where "L t kt = xs @ ys" "free_key_find s t kt old = Some (OMCI_API_SUCCESS, k, last_of xs)"
        "\<forall>b\<in>set xs. kof (items s) kt b < k" "\<forall>b\<in>set ys. k < kof (items s) kt b" "min_key m kt \<le> k" "k \<le> max_key m kt"
        "\<forall>j. min_key m kt \<le> j \<and> j < k \<longrightarrow> j \<in> proj kt ` pairs s t"
    | (none) "free_key_find s t kt old = Some (OMCI_API_NOT_FOUND, old, None)"
        "\<forall>j. min_key m kt \<le> j \<and> j \<le> max_key m kt \<longrightarrow> j \<in> proj kt ` pairs s t"
    unfolding free_res_def kof_image[OF L p] by blast
  then show ?thesis
  proof cases
    case found
    have "k \<notin> kof (items s) kt ` set (L t kt)" using found(1,3,4) by auto
    with found have "least_free (key_range s t kt) (proj kt ` pairs s t) k" "gap_at s t kt (L t kt) xs ys k"
      unfolding kof_image[OF L p] by (auto simp: least_free_def gap_at_def key_range_layout[OF p m(1)])
    with found(2) show ?thesis by blast
  next
    case none
    then show ?thesis by (auto simp: key_range_layout[OF p m(1)])
  qed
qed

lemma id_map_ok:
  assumes ma: "malloc_ok malloc" and L: "layout_ok s L"
  shows "\<exists>r k s'. id_map malloc t i old s = Some (r, k, s')
    \<and> (if i \<in> key_range s t KEY_TYPE_ID - fst ` pairs s t \<and> \<not> key_range s t KEY_TYPE_INDEX \<subseteq> snd ` pairs s t
          \<and> malloc (\<lambda>a. items s a \<noteq> None) \<noteq> None
       then r = OMCI_API_SUCCESS \<and> least_free (key_range s t KEY_TYPE_INDEX) (snd ` pairs s t) k \<and> maps_pair s t i k s'
       else r = OMCI_API_ERROR \<and> s' = s)"
proof (cases "i \<in> key_range s t KEY_TYPE_ID")
  case False
  then show ?thesis by (simp add: id_map_def key_verify_ok[OF L])
next
  case True
  from range_ready[OF True] obtain p where p: "mapper_p s t = Some p" ..
  show ?thesis
  proof (cases "i \<in> fst ` pairs s t")
    case i: True
    then have "i \<in> proj KEY_TYPE_ID ` pairs s t" by simp
    from found_key[OF L this] obtain xs where "item_find s t KEY_TYPE_ID i = Some (OMCI_API_SUCCESS, last_of xs)" by blast
    with i True show ?thesis by (simp add: id_map_def key_verify_ok[OF L])
  next
    case i: False
    with missing_key[OF L True] obtain xs ys where f: "gap_at s t KEY_TYPE_ID (L t KEY_TYPE_ID) xs ys i"
        "item_find s t KEY_TYPE_ID i = Some (OMCI_API_NOT_FOUND, last_of xs)"
      by auto
    from free_key_find_pairs[OF L p, of KEY_TYPE_INDEX old]
    consider (found) k us vs where "free_key_find s t KEY_TYPE_INDEX old = Some (OMCI_API_SUCCESS, k, last_of us)"
        "gap_at s t KEY_TYPE_INDEX (L t KEY_TYPE_INDEX) us vs k" "least_free (key_range s t KEY_TYPE_INDEX) (snd ` pairs s t) k"
      | (none) "free_key_find s t KEY_TYPE_INDEX old = Some (OMCI_API_NOT_FOUND, old, None)" "key_range s t KEY_TYPE_INDEX \<subseteq> snd ` pairs s t"
      by (metis proj_simps(2))
    then show ?thesis
    proof cases
      case found
      then have "\<not> key_range s t KEY_TYPE_INDEX \<subseteq> snd ` pairs s t" by (auto simp: least_free_def)
      moreover have "id_map malloc t i old s = do {
          (ret, s') \<leftarrow> create_and_add malloc t i k (last_of xs) (last_of us) s; Some (ret, k, s') }"
        using f(2) found(1) True by (simp add: id_map_def key_verify_ok[OF L])
      ultimately show ?thesis using create_and_add_maps[OF ma L f(1) found(2)] i found(3) True
        by (cases "malloc (\<lambda>a. items s a \<noteq> None)") auto
    next
      case none
      then show ?thesis using f(2) True by (simp add: id_map_def key_verify_ok[OF L])
    qed
  qed
qed

lemma index_map_ok:
  assumes ma: "malloc_ok malloc" and L: "layout_ok s L"
  shows "\<exists>r k s'. index_map malloc t old x s = Some (r, k, s')
    \<and> (if x \<in> key_range s t KEY_TYPE_INDEX - snd ` pairs s t \<and> \<not> key_range s t KEY_TYPE_ID \<subseteq> fst ` pairs s t
          \<and> malloc (\<lambda>a. items s a \<noteq> None) \<noteq> None
       then r = OMCI_API_SUCCESS \<and> least_free (key_range s t KEY_TYPE_ID) (fst ` pairs s t) k \<and> maps_pair s t k x s'
       else r = OMCI_API_ERROR \<and> s' = s)"
proof (cases "x \<in> key_range s t KEY_TYPE_INDEX")
  case False
  then show ?thesis by (simp add: index_map_def key_verify_ok[OF L])
next
  case True
  from range_ready[OF True] obtain p where p: "mapper_p s t = Some p" ..
  show ?thesis
  proof (cases "x \<in> snd ` pairs s t")
    case x: True
    then have "x \<in> proj KEY_TYPE_INDEX ` pairs s t" by simp
    from found_key[OF L this] obtain us where "item_find s t KEY_TYPE_INDEX x = Some (OMCI_API_SUCCESS, last_of us)" by blast
    with x True show ?thesis by (simp add: index_map_def key_verify_ok[OF L])
  next
    case x: False
    with missing_key[OF L True] obtain us vs where f: "gap_at s t KEY_TYPE_INDEX (L t KEY_TYPE_INDEX) us vs x"
        "item_find s t KEY_TYPE_INDEX x = Some (OMCI_API_NOT_FOUND, last_of us)"
      by auto
    from free_key_find_pairs[OF L p, of KEY_TYPE_ID old]
    consider (found) k xs ys where "free_key_find s t KEY_TYPE_ID old = Some (OMCI_API_SUCCESS, k, last_of xs)"
        "gap_at s t KEY_TYPE_ID (L t KEY_TYPE_ID) xs ys k" "least_free (key_range s t KEY_TYPE_ID) (fst ` pairs s t) k"
      | (none) "free_key_find s t KEY_TYPE_ID old = Some (OMCI_API_NOT_FOUND, old, None)" "key_range s t KEY_TYPE_ID \<subseteq> fst ` pairs s t"
      by (metis proj_simps(1))
    then show ?thesis
    proof cases
      case found
      then have "\<not> key_range s t KEY_TYPE_ID \<subseteq> fst ` pairs s t" by (auto simp: least_free_def)
      moreover have "index_map malloc t old x s = do {
          (ret, s') \<leftarrow> create_and_add malloc t k x (last_of xs) (last_of us) s; Some (ret, k, s') }"
        using f(2) found(1) True by (simp add: index_map_def key_verify_ok[OF L])
      ultimately show ?thesis using create_and_add_maps[OF ma L found(2) f(1)] x found(3) True
        by (cases "malloc (\<lambda>a. items s a \<noteq> None)") auto
    next
      case none
      then show ?thesis using f(2) True by (simp add: index_map_def key_verify_ok[OF L])
    qed
  qed
qed

text \<open>Removal: the item found in one list is the one found in the other.\<close>

lemma both_positions:
  assumes L: "layout_ok s L" and ix: "(i, x) \<in> pairs s t"
  obtains p a xs ys us vs where "mapper_p s t = Some p" "L t KEY_TYPE_ID = xs @ a # ys" "L t KEY_TYPE_INDEX = us @ a # vs"
    "item_find s t KEY_TYPE_ID i = Some (OMCI_API_SUCCESS, last_of xs)" "item_get s t KEY_TYPE_ID (last_of xs) = Some (Some a)"
    "item_find s t KEY_TYPE_INDEX x = Some (OMCI_API_SUCCESS, last_of us)" "item_get s t KEY_TYPE_INDEX (last_of us) = Some (Some a)"
    "pair_of (items s) a = (i, x)" "key_get s a KEY_TYPE_ID = Some i" "key_get s a KEY_TYPE_INDEX = Some x"
    "id_type_verify t = OMCI_API_SUCCESS"
    "key_verify s t KEY_TYPE_ID i = Some OMCI_API_SUCCESS" "key_verify s t KEY_TYPE_INDEX x = Some OMCI_API_SUCCESS"
proof -
  from ix have im: "i \<in> proj KEY_TYPE_ID ` pairs s t" "x \<in> proj KEY_TYPE_INDEX ` pairs s t" by (force simp: image_iff)+
  obtain p xs a ys where f: "mapper_p s t = Some p" "L t KEY_TYPE_ID = xs @ a # ys"
      "item_find s t KEY_TYPE_ID i = Some (OMCI_API_SUCCESS, last_of xs)"
      "item_get s t KEY_TYPE_ID (last_of xs) = Some (Some a)" "pair_of (items s) a \<in> pairs s t" "proj KEY_TYPE_ID (pair_of (items s) a) = i"
      "id_type_verify t = OMCI_API_SUCCESS" "key_verify s t KEY_TYPE_ID i = Some OMCI_API_SUCCESS"
    using found_key[OF L im(1)] by blast
  obtain us b vs where g: "L t KEY_TYPE_INDEX = us @ b # vs"
      "item_find s t KEY_TYPE_INDEX x = Some (OMCI_API_SUCCESS, last_of us)"
      "item_get s t KEY_TYPE_INDEX (last_of us) = Some (Some b)" "pair_of (items s) b \<in> pairs s t" "proj KEY_TYPE_INDEX (pair_of (items s) b) = x"
      "key_verify s t KEY_TYPE_INDEX x = Some OMCI_API_SUCCESS"
    using found_key[OF L im(2)] by blast
  from inj_onD[OF pairs_inj[OF L, of KEY_TYPE_ID t] _ f(5) ix] f(6) have a: "pair_of (items s) a = (i, x)" by simp
  from inj_onD[OF pairs_inj[OF L, of KEY_TYPE_INDEX t] _ g(4) ix] g(5) have b: "pair_of (items s) b = (i, x)" by simp
  have ab: "a \<in> set (L t KEY_TYPE_ID)" "b \<in> set (L t KEY_TYPE_ID)" using f(2) g(1) layoutD(3)[OF L f(1), of KEY_TYPE_INDEX] by auto
  from L f(1) obtain lo hi where "keys_ok (kof (items s) KEY_TYPE_ID) lo hi (L t KEY_TYPE_ID)" unfolding layout_ok_alt by blast
  from inj_onD[OF keys_ok_inj[OF this] _ ab] a b have "b = a" by (simp add: pair_of_def)
  with that[OF f(1,2) _ f(3,4) g(2) _ a] g(1,3,6) f(7,8) a key_get_ok[OF L f(1) ab(1)] show thesis
    by (simp add: pair_of_def)
qed

text \<open>A pair is taken out, everything else stays.\<close>

lemma removed_pair:
  assumes L: "layout_ok s L" and tp: "mapper_p s t = Some p"
    and ls: "L t KEY_TYPE_ID = xs @ a # ys" "L t KEY_TYPE_INDEX = us @ a # vs" and a: "pair_of (items s) a = (i, x)"
  obtains s1 s' where "item_remove t (item_positions (last_of xs) (last_of us)) s = Some (Some a, s1)" "item_delete a s1 = Some s'"
    "unmaps_pair s t i x s'"
proof -
  from layoutD(5)[OF L tp] obtain m where m: "mappers s p = Some m" by blast
  from remove_and_delete_ok[OF L tp m ls] a that show thesis
    by (fastforce simp: unmaps_pair_def mapper_inv_def intro: key_range_frame)
qed

lemma id_remove_ok:
  assumes L: "layout_ok s L"
  shows "i \<notin> key_range s t KEY_TYPE_ID \<Longrightarrow> id_remove t i s = Some (OMCI_API_ERROR, s)"
    and "i \<in> key_range s t KEY_TYPE_ID \<Longrightarrow> i \<notin> fst ` pairs s t \<Longrightarrow> id_remove t i s = Some (OMCI_API_NOT_FOUND, s)"
    and "(i, x) \<in> pairs s t \<Longrightarrow> \<exists>s'. id_remove t i s = Some (OMCI_API_SUCCESS, s') \<and> unmaps_pair s t i x s'"
proof -
  show "id_remove t i s = Some (OMCI_API_ERROR, s)" if "i \<notin> key_range s t KEY_TYPE_ID"
    using that by (simp add: id_remove_def not_valid[OF L])
  show "id_remove t i s = Some (OMCI_API_NOT_FOUND, s)" if r: "i \<in> key_range s t KEY_TYPE_ID" and n: "i \<notin> fst ` pairs s t"
    using missing_key[OF L r] n r type_valid[OF L r] by (auto simp: id_remove_def key_verify_ok[OF L])
  show "\<exists>s'. id_remove t i s = Some (OMCI_API_SUCCESS, s') \<and> unmaps_pair s t i x s'" if ix: "(i, x) \<in> pairs s t"
    by (rule both_positions[OF L ix], rule removed_pair[OF L], assumption+) (simp add: id_remove_def)
qed

lemma index_remove_ok:
  assumes L: "layout_ok s L"
  shows "x \<notin> key_range s t KEY_TYPE_INDEX \<Longrightarrow> index_remove t x s = Some (OMCI_API_ERROR, s)"
    and "x \<in> key_range s t KEY_TYPE_INDEX \<Longrightarrow> x \<notin> snd ` pairs s t \<Longrightarrow> index_remove t x s = Some (OMCI_API_NOT_FOUND, s)"
    and "(i, x) \<in> pairs s t \<Longrightarrow> \<exists>s'. index_remove t x s = Some (OMCI_API_SUCCESS, s') \<and> unmaps_pair s t i x s'"
proof -
  show "index_remove t x s = Some (OMCI_API_ERROR, s)" if "x \<notin> key_range s t KEY_TYPE_INDEX"
    using that by (simp add: index_remove_def not_valid[OF L])
  show "index_remove t x s = Some (OMCI_API_NOT_FOUND, s)" if r: "x \<in> key_range s t KEY_TYPE_INDEX" and n: "x \<notin> snd ` pairs s t"
    using missing_key[OF L r] n r type_valid[OF L r] by (auto simp: index_remove_def key_verify_ok[OF L])
  show "\<exists>s'. index_remove t x s = Some (OMCI_API_SUCCESS, s') \<and> unmaps_pair s t i x s'" if ix: "(i, x) \<in> pairs s t"
    by (rule both_positions[OF L ix], rule removed_pair[OF L], assumption+) (simp add: index_remove_def)
qed

section \<open>The interface on the mapper\<close>

lemma inv_E: "mapper_inv s \<Longrightarrow> (\<And>L. layout_ok s L \<Longrightarrow> P) \<Longrightarrow> P"
  by (auto simp: mapper_inv_def)

lemma bi_fwd_iff: "mapper_inv s \<Longrightarrow> bi_fwd t i (ma, s) = Some x \<longleftrightarrow> (i, x) \<in> pairs s t"
proof (erule inv_E)
  fix L assume L: "layout_ok s L"
  show "bi_fwd t i (ma, s) = Some x \<longleftrightarrow> (i, x) \<in> pairs s t"
  proof (cases "i \<in> fst ` pairs s t")
    case True
    then obtain y where y: "(i, y) \<in> pairs s t" by auto
    with index_get_ok(3)[OF L y] inj_onD[OF pairs_inj[OF L, of KEY_TYPE_ID t] _ y] show ?thesis
      by (auto simp: bi_fwd_def)
  next
    case False
    then have "index_get t i 0 s \<noteq> Some (OMCI_API_SUCCESS, z)" for z
      using index_get_ok(1,2)[OF L, of i t 0] by (cases "i \<in> key_range s t KEY_TYPE_ID") auto
    with False show ?thesis by (auto simp: bi_fwd_def image_iff split: option.splits omci_api_return.splits)
  qed
qed

lemma bi_bwd_iff: "mapper_inv s \<Longrightarrow> bi_bwd t x (ma, s) = Some i \<longleftrightarrow> (i, x) \<in> pairs s t"
proof (erule inv_E)
  fix L assume L: "layout_ok s L"
  show "bi_bwd t x (ma, s) = Some i \<longleftrightarrow> (i, x) \<in> pairs s t"
  proof (cases "x \<in> snd ` pairs s t")
    case True
    then obtain j where j: "(j, x) \<in> pairs s t" by auto
    with id_get_ok(3)[OF L j] inj_onD[OF pairs_inj[OF L, of KEY_TYPE_INDEX t] _ j] show ?thesis
      by (auto simp: bi_bwd_def)
  next
    case False
    then have "id_get t 0 x s \<noteq> Some (OMCI_API_SUCCESS, z)" for z
      using id_get_ok(1,2)[OF L, of x t 0] by (cases "x \<in> key_range s t KEY_TYPE_INDEX") auto
    with False show ?thesis by (auto simp: bi_bwd_def image_iff split: option.splits omci_api_return.splits)
  qed
qed

lemma bi_put_rel:
  assumes "malloc_ok ma" "mapper_inv s" "bi_put t i x (ma, s) = Some ms'"
  shows "bi_invar ms' \<and> bi_rel t ms' = insert (i, x) (pairs s t) \<and> i \<notin> fst ` pairs s t \<and> x \<notin> snd ` pairs s t"
proof -
  from assms(2) obtain L where L: "layout_ok s L" by (auto simp: mapper_inv_def)
  from explicit_map_ok[OF assms(1) L, of t i x] assms(1,3) show ?thesis
    by (auto simp: bi_put_def bi_invar_def bi_rel_def maps_pair_def split: if_splits option.splits omci_api_return.splits)
qed

lemma bi_del_rel:
  assumes "malloc_ok ma" "mapper_inv s" "(i, x) \<in> pairs s t"
  shows "\<exists>ms'. bi_del t i (ma, s) = Some ms' \<and> bi_invar ms' \<and> bi_rel t ms' = pairs s t - {(i, x)}"
proof -
  from assms(2) obtain L where L: "layout_ok s L" by (auto simp: mapper_inv_def)
  from id_remove_ok(3)[OF L assms(3)] assms(1) show ?thesis
    by (auto simp: bi_del_def bi_invar_def bi_rel_def unmaps_pair_def)
qed

interpretation mapper_bimap: bimap bi_invar "bi_rel t" "bi_put t" "bi_fwd t" "bi_bwd t" "bi_del t" for t
proof unfold_locales
  fix ms :: "malloc \<times> omci_api_ctx" and i x ms'
  assume inv: "bi_invar ms"
  then obtain ma s where ms: "ms = (ma, s)" "malloc_ok ma" "mapper_inv s" by (cases ms) (simp add: bi_invar_def)
  show "bi_fwd t i ms = Some x \<longleftrightarrow> (i, x) \<in> bi_rel t ms" using bi_fwd_iff[OF ms(3)] by (simp add: ms bi_rel_def)
  show "bi_bwd t x ms = Some i \<longleftrightarrow> (i, x) \<in> bi_rel t ms" using bi_bwd_iff[OF ms(3)] by (simp add: ms bi_rel_def)
  show "bi_invar ms' \<and> bi_rel t ms' = insert (i, x) (bi_rel t ms) \<and> i \<notin> fst ` bi_rel t ms \<and> x \<notin> snd ` bi_rel t ms"
    if "bi_put t i x ms = Some ms'" using bi_put_rel[OF ms(2,3)] that by (simp add: ms bi_rel_def)
  show "\<exists>s'. bi_del t i ms = Some s' \<and> bi_invar s' \<and> bi_rel t s' = bi_rel t ms - {(i, x)}"
    if "(i, x) \<in> bi_rel t ms" using bi_del_rel[OF ms(2,3)] that by (simp add: ms bi_rel_def)
qed

section \<open>Shutdown\<close>

text \<open>
  While the types are shut down one after the other, the pointers of the earlier ones dangle. The
  layout then holds for the pointer table cut down to the types still to come.
\<close>

lemma view_reads:
  assumes "f t = mapper_p s t"
  shows "item_find (s\<lparr> mapper_p := f \<rparr>) t kt k = item_find s t kt k"
    and "item_get (s\<lparr> mapper_p := f \<rparr>) t kt pos = item_get s t kt pos"
    and "key_get (s\<lparr> mapper_p := f \<rparr>) a kt = key_get s a kt"
  using assms by (simp_all add: item_find_def item_get_def key_get_def mapper_get_def cong: option.case_cong if_cong)

lemma view_remove_key:
  "remove_key p kt pos (s\<lparr> mapper_p := f \<rparr>) = map_option (map_prod id (\<lambda>s. s\<lparr> mapper_p := f \<rparr>)) (remove_key p kt pos s)"
  by (auto simp: remove_key_def set_head_def set_next_def bind_eq_None_conv split: option.splits Option.bind_splits)

lemma view_item_remove:
  assumes "f t = mapper_p s t"
  shows "item_remove t pos (s\<lparr> mapper_p := f \<rparr>) = map_option (map_prod id (\<lambda>s. s\<lparr> mapper_p := f \<rparr>)) (item_remove t pos s)"
proof (cases "mapper_p s t")
  case (Some p)
  show ?thesis
  proof (cases "remove_key p KEY_TYPE_ID (pos KEY_TYPE_ID) s")
    case (Some r)
    obtain b s1 where "r = (b, s1)" by (cases r)
    with Some \<open>mapper_p s t = Some p\<close> assms show ?thesis
      by (cases "remove_key p KEY_TYPE_INDEX (pos KEY_TYPE_INDEX) s1")
        (auto simp: item_remove_def mapper_get_def view_remove_key)
  qed (use Some assms in \<open>simp add: item_remove_def mapper_get_def view_remove_key\<close>)
qed (use assms in \<open>simp add: item_remove_def mapper_get_def\<close>)

lemma view_item_delete:
  "item_delete a (s\<lparr> mapper_p := f \<rparr>) = map_option (\<lambda>s. s\<lparr> mapper_p := f \<rparr>) (item_delete a s)"
  by (cases "items s a") (simp_all add: item_delete_def)

lemma remove_key_table: "remove_key p kt pos s = Some (a, s') \<Longrightarrow> mapper_p s' = mapper_p s \<and> max_bridge_port s' = max_bridge_port s"
  by (auto simp: remove_key_def set_head_def set_next_def split: option.splits Option.bind_splits)

lemma item_remove_table: "item_remove t pos s = Some (r, s') \<Longrightarrow> mapper_p s' = mapper_p s \<and> max_bridge_port s' = max_bridge_port s"
  by (auto simp: item_remove_def split: option.splits Option.bind_splits dest!: remove_key_table)

lemma item_delete_table: "item_delete a s = Some s' \<Longrightarrow> mapper_p s' = mapper_p s \<and> max_bridge_port s' = max_bridge_port s"
  by (auto simp: item_delete_def split: Option.bind_splits)

lemma shutdown_positions: "(\<lambda>kt. case kt of KEY_TYPE_ID \<Rightarrow> None | KEY_TYPE_INDEX \<Rightarrow> pos) = item_positions (last_of []) pos"
  by (simp add: fun_eq_iff item_positions_def last_of_def)

lemma first_item:
  assumes L: "layout_ok s L" and p: "mapper_p s t = Some p" and a: "L t KEY_TYPE_ID = a # as"
  shows "\<exists>x us vs s1 s'. item_get s t KEY_TYPE_ID None = Some (Some a) \<and> key_get s a KEY_TYPE_INDEX = Some x
    \<and> item_find s t KEY_TYPE_INDEX x = Some (OMCI_API_SUCCESS, last_of us)
    \<and> item_remove t (item_positions (last_of []) (last_of us)) s = Some (Some a, s1) \<and> item_delete a s1 = Some s'
    \<and> layout_ok s' (L(t := (\<lambda>kt. case kt of KEY_TYPE_ID \<Rightarrow> as | KEY_TYPE_INDEX \<Rightarrow> us @ vs)))
    \<and> mapper_p s' = mapper_p s \<and> range_of s' = range_of s"
proof -
  have "a \<in> set (L t KEY_TYPE_ID)" using a by simp
  then obtain i x where ix: "pair_of (items s) a = (i, x)" "(i, x) \<in> pairs s t" using pair_of_in[OF L p] by (metis surj_pair)
  obtain a' xs ys us vs where f: "L t KEY_TYPE_ID = xs @ a' # ys" "L t KEY_TYPE_INDEX = us @ a' # vs"
      "item_get s t KEY_TYPE_ID (last_of xs) = Some (Some a')"
      "item_find s t KEY_TYPE_INDEX x = Some (OMCI_API_SUCCESS, last_of us)" "pair_of (items s) a' = (i, x)"
      "key_get s a' KEY_TYPE_INDEX = Some x"
    by (rule both_positions[OF L ix(2)])
  from L p obtain lo hi where ks: "keys_ok (kof (items s) KEY_TYPE_ID) lo hi (L t KEY_TYPE_ID)" unfolding layout_ok_alt by blast
  have "a' \<in> set (L t KEY_TYPE_ID)" using f(1) by simp
  with inj_onD[OF keys_ok_inj[OF ks], of a' a] \<open>a \<in> set (L t KEY_TYPE_ID)\<close> f(5) ix(1) have "a' = a" by (simp add: pair_of_def)
  moreover from this f(1) a layoutD(4)[OF L p, of KEY_TYPE_ID] have "xs = []" by (cases xs) auto
  ultimately have g: "L t KEY_TYPE_ID = [] @ a # as" "L t KEY_TYPE_INDEX = us @ a # vs" using f(1,2) a by auto
  from layoutD(5)[OF L p] obtain m where m: "mappers s p = Some m" by blast
  have "item_get s t KEY_TYPE_ID None = Some (Some a)" using f(3) \<open>a' = a\<close> \<open>xs = []\<close> by (simp add: last_of_def)
  with remove_and_delete_ok[OF L p m g] f(4,6) \<open>a' = a\<close> show ?thesis
    unfolding append_Nil by (metis (no_types, lifting))
qed

lemma shutdown_items_ok:
  assumes "layout_ok (s\<lparr> mapper_p := f \<rparr>) L" "f t = mapper_p s t" "mapper_p s t = Some p"
  shows "\<exists>s'. shutdown_items t s = Some (OMCI_API_SUCCESS, s') \<and> layout_ok (s'\<lparr> mapper_p := f \<rparr>) (L(t := (\<lambda>_. [])))
    \<and> mapper_p s' = mapper_p s \<and> range_of s' = range_of s \<and> max_bridge_port s' = max_bridge_port s"
  using assms
proof (induction "L t KEY_TYPE_ID" arbitrary: s L)
  case Nil
  let ?v = "s\<lparr> mapper_p := f \<rparr>"
  have p: "mapper_p ?v t = Some p" using Nil by simp
  from layoutD(2)[OF Nil.prems(1) p, of KEY_TYPE_ID] Nil.hyps obtain m where "mappers s p = Some m" "list_head m KEY_TYPE_ID = None"
    by (auto simp: chain_def)
  with Nil.prems(3) have "shutdown_items t s = Some (OMCI_API_SUCCESS, s)"
    by (subst shutdown_items.simps) (simp add: item_get_def mapper_get_def)
  moreover have "L t kt = []" for kt using layoutD(3)[OF Nil.prems(1) p, of kt] Nil.hyps by simp
  then have "L(t := (\<lambda>_. [])) = L" by (auto simp: fun_eq_iff)
  ultimately show ?case using Nil.prems by simp
next
  case (Cons a as)
  let ?v = "s\<lparr> mapper_p := f \<rparr>"
  have p: "mapper_p ?v t = Some p" using Cons.prems by simp
  from first_item[OF Cons.prems(1) p Cons.hyps(2)[symmetric]] obtain x us vs v1 v2 where st:
      "item_get ?v t KEY_TYPE_ID None = Some (Some a)" "key_get ?v a KEY_TYPE_INDEX = Some x"
      "item_find ?v t KEY_TYPE_INDEX x = Some (OMCI_API_SUCCESS, last_of us)"
      "item_remove t (item_positions (last_of []) (last_of us)) ?v = Some (Some a, v1)" "item_delete a v1 = Some v2"
      "layout_ok v2 (L(t := (\<lambda>kt. case kt of KEY_TYPE_ID \<Rightarrow> as | KEY_TYPE_INDEX \<Rightarrow> us @ vs)))"
      "range_of v2 = range_of ?v"
    by (elim exE conjE)
  from st(4) obtain s1 where s1: "item_remove t (item_positions (last_of []) (last_of us)) s = Some (Some a, s1)" "v1 = s1\<lparr> mapper_p := f \<rparr>"
    unfolding view_item_remove[of f t s, OF Cons.prems(2)] by (auto simp: map_prod_def split: prod.splits)
  from st(5) s1(2) obtain s2 where s2: "item_delete a s1 = Some s2" "v2 = s2\<lparr> mapper_p := f \<rparr>"
    unfolding view_item_delete s1(2) by auto
  have tab: "mapper_p s2 = mapper_p s" "max_bridge_port s2 = max_bridge_port s" using item_remove_table[OF s1(1)] item_delete_table[OF s2(1)] by simp_all
  have rg: "range_of s2 = range_of s" using st(7) s2(2) by (simp add: range_of_def fun_eq_iff)
  have "shutdown_items t s = shutdown_items t s2"
    using st(1-3) s1(1) s2(1) unfolding view_reads[of f t s, OF Cons.prems(2)]
    by (subst shutdown_items.simps) (simp add: shutdown_positions)
  moreover have "\<exists>s'. shutdown_items t s2 = Some (OMCI_API_SUCCESS, s')
      \<and> layout_ok (s'\<lparr> mapper_p := f \<rparr>) ((L(t := (\<lambda>kt. case kt of KEY_TYPE_ID \<Rightarrow> as | KEY_TYPE_INDEX \<Rightarrow> us @ vs)))(t := (\<lambda>_. [])))
      \<and> mapper_p s' = mapper_p s2 \<and> range_of s' = range_of s2 \<and> max_bridge_port s' = max_bridge_port s2"
    by (rule Cons.hyps(1)) (use st(6) s2(2) Cons.prems tab in auto)
  ultimately show ?case using tab rg by simp
qed

lemma layout_drop:
  assumes L: "layout_ok s L" and p: "mapper_p s t = Some p" and e: "L t = (\<lambda>_. [])"
  shows "layout_ok (s\<lparr> mapper_p := (mapper_p s)(t := None), mappers := (mappers s)(p := None) \<rparr>) L"
  unfolding layout_ok_def
proof (intro conjI allI impI)
  let ?s = "s\<lparr> mapper_p := (mapper_p s)(t := None), mappers := (mappers s)(p := None) \<rparr>"
  fix t' q assume q: "mapper_p ?s t' = Some q"
  then have q': "mapper_p s t' = Some q" "t' \<noteq> t" by (auto split: if_splits)
  from layoutD(1)[OF L q'(1)] show "t' < MAPPER_IDTYPE_MAX" .
  from layoutD(3)[OF L q'(1), of KEY_TYPE_INDEX] show "set (L t' KEY_TYPE_ID) = set (L t' KEY_TYPE_INDEX)" by simp
  from L q'(1) have "\<exists>m. mappers s q = Some m \<and> (\<forall>kt. min_key m kt \<le> max_key m kt \<and> list_ok (items s) m kt (L t' kt))"
    unfolding layout_ok_def by blast
  with layout_other(2)[OF L p q'] show "\<exists>m. mappers ?s q = Some m \<and> (\<forall>kt. min_key m kt \<le> max_key m kt \<and> list_ok (items ?s) m kt (L t' kt))"
    by simp
next
  fix t' kt assume "mapper_p (s\<lparr> mapper_p := (mapper_p s)(t := None), mappers := (mappers s)(p := None) \<rparr>) t' = None"
  then show "L t' kt = []" using L e by (cases "t' = t") (auto simp: layout_ok_def)
next
  fix t1 t2 :: nat assume "t1 \<noteq> t2"
  with L show "set (L t1 KEY_TYPE_ID) \<inter> set (L t2 KEY_TYPE_ID) = {}" by (simp add: layout_ok_def)
  from L \<open>t1 \<noteq> t2\<close> have "mapper_p s t1 = None \<or> mapper_p s t1 \<noteq> mapper_p s t2" unfolding layout_ok_def by blast
  then show "mapper_p (s\<lparr> mapper_p := (mapper_p s)(t := None), mappers := (mappers s)(p := None) \<rparr>) t1 = None
      \<or> mapper_p (s\<lparr> mapper_p := (mapper_p s)(t := None), mappers := (mappers s)(p := None) \<rparr>) t1
        \<noteq> mapper_p (s\<lparr> mapper_p := (mapper_p s)(t := None), mappers := (mappers s)(p := None) \<rparr>) t2"
    by auto
next
  fix a assume "items (s\<lparr> mapper_p := (mapper_p s)(t := None), mappers := (mappers s)(p := None) \<rparr>) a \<noteq> None"
  with L show "\<exists>t. a \<in> set (L t KEY_TYPE_ID)" by (simp add: layout_ok_def)
qed

lemma range_of_None: "range_of s p = None \<longleftrightarrow> mappers s p = None"
  by (simp add: range_of_def)

lemma shutdown_types_ok:
  assumes "distinct ts" "layout_ok (s\<lparr> mapper_p := (\<lambda>t. if t \<in> set ts then mapper_p s t else None) \<rparr>) L"
  shows "\<exists>s'. shutdown_types ts s = Some (OMCI_API_SUCCESS, s') \<and> (\<forall>a. items s' a = None) \<and> mapper_p s' = mapper_p s
    \<and> max_bridge_port s' = max_bridge_port s
    \<and> (\<forall>p. mappers s' p = None \<longleftrightarrow> mappers s p = None \<or> (\<exists>t\<in>set ts. mapper_p s t = Some p))"
  using assms
proof (induction ts arbitrary: s L)
  case Nil
  then have "items s a = None" for a by (auto simp: layout_ok_def)
  then show ?case by simp
next
  case (Cons t ts)
  let ?f = "\<lambda>u. if u \<in> set (t # ts) then mapper_p s u else None"
  show ?case
  proof (cases "mapper_p s t")
    case None
    then have "?f = (\<lambda>u. if u \<in> set ts then mapper_p s u else None)" by (auto simp: fun_eq_iff)
    with Cons.IH[of s L] Cons.prems None show ?thesis by auto
  next
    case (Some p)
    from shutdown_items_ok[where s = s and f = ?f and L = L and t = t and p = p] Cons.prems(2) Some obtain s1 where s1: "shutdown_items t s = Some (OMCI_API_SUCCESS, s1)"
        "layout_ok (s1\<lparr> mapper_p := ?f \<rparr>) (L(t := (\<lambda>_. [])))" "mapper_p s1 = mapper_p s" "range_of s1 = range_of s" "max_bridge_port s1 = max_bridge_port s"
      by auto
    define s2 where "s2 = s1\<lparr> mappers := (mappers s1)(p := None) \<rparr>"
    have "\<exists>m. mappers s1 p = Some m"
      using layoutD(5)[OF s1(2), of t p KEY_TYPE_ID] Some by auto
    then have free: "mapper_free p s1 = Some s2" by (auto simp: mapper_free_def s2_def)
    have mp: "mappers s1 q = None \<longleftrightarrow> mappers s q = None" for q
      by (simp only: range_of_None[symmetric] s1(4))
    have "(s1\<lparr> mapper_p := ?f \<rparr>)\<lparr> mapper_p := (mapper_p (s1\<lparr> mapper_p := ?f \<rparr>))(t := None), mappers := (mappers (s1\<lparr> mapper_p := ?f \<rparr>))(p := None) \<rparr>
        = s2\<lparr> mapper_p := (\<lambda>u. if u \<in> set ts then mapper_p s2 u else None) \<rparr>"
      using Cons.prems(1) s1(3) by (auto simp: s2_def fun_eq_iff)
    moreover have "layout_ok ((s1\<lparr> mapper_p := ?f \<rparr>)\<lparr> mapper_p := (mapper_p (s1\<lparr> mapper_p := ?f \<rparr>))(t := None), mappers := (mappers (s1\<lparr> mapper_p := ?f \<rparr>))(p := None) \<rparr>) (L(t := (\<lambda>_. [])))"
      by (rule layout_drop[OF s1(2)]) (use Some in auto)
    ultimately have "layout_ok (s2\<lparr> mapper_p := (\<lambda>u. if u \<in> set ts then mapper_p s2 u else None) \<rparr>) (L(t := (\<lambda>_. [])))" by simp
    from Cons.IH[OF _ this] Cons.prems(1) obtain s' where s': "shutdown_types ts s2 = Some (OMCI_API_SUCCESS, s')"
        "\<forall>a. items s' a = None" "mapper_p s' = mapper_p s2" "max_bridge_port s' = max_bridge_port s2"
        "\<forall>p. mappers s' p = None \<longleftrightarrow> mappers s2 p = None \<or> (\<exists>t\<in>set ts. mapper_p s2 t = Some p)"
      by auto
    moreover have "shutdown_types (t # ts) s = shutdown_types ts s2" using Some s1(1) free by simp
    ultimately show ?thesis using s1(3,5) mp Some by (auto simp: s2_def)
  qed
qed

section \<open>Initialisation\<close>

lemma item_keys_fun: "item_keys i x = case_mapper_key_type i x"
  by (rule ext) (simp add: item_keys_def)

lemma id_type_init_ok:
  assumes ma: "malloc_ok malloc" and J: "init_done s0 R D s" and t: "t \<notin> D"
    and r: "id_type_init malloc t a b c d s = (OMCI_API_SUCCESS, s')" and R: "R t = (item_keys a c, item_keys b d)"
  shows "init_done s0 R (insert t D) s'"
proof -
  from r have tm: "t < MAPPER_IDTYPE_MAX" by (auto simp: id_type_init_def id_type_verify_def split: if_splits)
  from r obtain p where p: "malloc (\<lambda>a. mappers s a \<noteq> None) = Some p"
      and s': "s' = s\<lparr> mappers := (mappers s)(p \<mapsto> \<lparr> min_key = item_keys a c, max_key = item_keys b d, list_head = (\<lambda>_. None) \<rparr>),
        mapper_p := (mapper_p s)(t \<mapsto> p) \<rparr>"
    by (auto simp: id_type_init_def item_keys_fun split: if_splits option.splits)
  from p ma have fresh: "mappers s p = None" unfolding malloc_ok_def by blast
  have old: "\<exists>q m. mapper_p s u = Some q \<and> mappers s q = Some m \<and> list_head m = (\<lambda>_. None) \<and> (min_key m, max_key m) = R u"
    if "u \<in> D" for u using J that unfolding init_done_def by blast
  then have ne: "mapper_p s u \<noteq> Some p" if "u \<in> D" for u using that fresh by fastforce
  show ?thesis
    unfolding init_done_def
  proof (intro conjI ballI allI impI)
    fix u assume "u \<in> insert t D"
    then show "u < MAPPER_IDTYPE_MAX" using tm J by (auto simp: init_done_def)
    show "\<exists>q m. mapper_p s' u = Some q \<and> mappers s' q = Some m \<and> list_head m = (\<lambda>_. None) \<and> (min_key m, max_key m) = R u"
    proof (cases "u = t")
      case False
      with \<open>u \<in> insert t D\<close> have "u \<in> D" by simp
      from old[OF this] ne[OF this] False show ?thesis by (auto simp: s')
    qed (simp add: s' R)
    fix u' assume "u' \<in> insert t D" "u \<noteq> u'"
    moreover have "mapper_p s u \<noteq> mapper_p s u'" if "u \<in> D" "u' \<in> D" "u \<noteq> u'" using J that unfolding init_done_def by blast
    ultimately show "mapper_p s' u \<noteq> mapper_p s' u'" using \<open>u \<in> insert t D\<close> ne[of u] ne[of u'] t
      by (cases "u = t"; cases "u' = t") (auto simp: s' eq_commute[of "Some p"])
  qed (use J in \<open>auto simp: init_done_def s'\<close>)
qed

lemma run_init_frame:
  "max_bridge_port s' = max_bridge_port s \<Longrightarrow> run_init s' (run_init s e) = run_init s e"
  "etype (run_init s e) = etype e" "num (run_init s e) = num e"
  by (auto simp: run_init_def mapper_bridge_port_init_def split: mapper_entry_handler.splits)

lemma init_copies_ok:
  assumes ma: "malloc_ok malloc" and "init_done s0 R D s" "distinct js" "\<forall>j\<in>set js. etype e + j \<notin> D"
    and "init_copies malloc e js s = (OMCI_API_SUCCESS, s')"
    and "\<forall>j\<in>set js. R (etype e + j) = entry_ranges (run_init s0 e)"
  shows "init_done s0 R (D \<union> (\<lambda>j. etype e + j) ` set js) s'"
  using assms(2-6)
proof (induction js arbitrary: s D e)
  case (Cons j js)
  let ?e = "run_init s e"
  have mb: "max_bridge_port s = max_bridge_port s0" using Cons.prems(1) by (simp add: init_done_def)
  have e0: "run_init s e = run_init s0 e" using mb by (cases "init e") (simp_all add: run_init_def mapper_bridge_port_init_def)
  from Cons.prems(4) obtain s1 where st: "id_type_init malloc (etype ?e + j) (min_id ?e) (max_id ?e) (min_idx ?e) (max_idx ?e) s = (OMCI_API_SUCCESS, s1)"
      "init_copies malloc ?e js s1 = (OMCI_API_SUCCESS, s')"
    by (auto simp: Let_def split: prod.splits if_splits)
  have "init_done s0 R (insert (etype ?e + j) D) s1"
    by (rule id_type_init_ok[OF ma Cons.prems(1) _ st(1)]) (use Cons.prems(3,5) e0 in \<open>simp_all add: run_init_frame entry_ranges_def\<close>)
  then have "init_done s0 R (insert (etype e + j) D) s1" by (simp add: run_init_frame)
  then have "init_done s0 R (insert (etype e + j) D \<union> (\<lambda>j. etype ?e + j) ` set js) s'"
    by (rule Cons.IH) (use Cons.prems st(2) mb e0 in \<open>auto simp: run_init_frame\<close>)
  then show ?case by (simp add: run_init_frame)
qed simp

lemma table_types_Cons: "set (table_types (e # es)) = (\<lambda>j. etype e + j) ` {0..<num e} \<union> set (table_types es)"
  by (simp add: table_types_def)

lemma init_entries_ok:
  assumes ma: "malloc_ok malloc" and "init_done s0 R D s" "distinct (table_types es)" "D \<inter> set (table_types es) = {}"
    and "init_entries malloc es s = (OMCI_API_SUCCESS, s')"
    and "\<forall>e\<in>set es. \<forall>j<num e. R (etype e + j) = entry_ranges (run_init s0 e)"
  shows "init_done s0 R (D \<union> set (table_types es)) s'"
  using assms(2-6)
proof (induction es arbitrary: s D)
  case (Cons e es)
  from Cons.prems(4) obtain s1 where st: "init_copies malloc e [0..<num e] s = (OMCI_API_SUCCESS, s1)"
      "init_entries malloc es s1 = (OMCI_API_SUCCESS, s')"
    by (auto simp: Let_def split: prod.splits if_splits)
  have d: "distinct (table_types es)" "(\<lambda>j. etype e + j) ` {0..<num e} \<inter> set (table_types es) = {}"
    using Cons.prems(2) by (auto simp: table_types_def)
  have "init_done s0 R (D \<union> (\<lambda>j. etype e + j) ` set [0..<num e]) s1"
    by (rule init_copies_ok[OF ma Cons.prems(1) _ _ st(1)]) (use Cons.prems(3,5) in \<open>auto simp: table_types_Cons\<close>)
  then have "init_done s0 R ((D \<union> (\<lambda>j. etype e + j) ` set [0..<num e]) \<union> set (table_types es)) s'"
    by (rule Cons.IH) (use Cons.prems st(2) d in \<open>auto simp: table_types_Cons\<close>)
  then show ?case by (simp add: table_types_Cons Un_assoc)
qed (simp add: table_types_def)

lemma id_type_init_succeeds:
  assumes "malloc_total malloc" "finite (dom (mappers s))" "t < MAPPER_IDTYPE_MAX"
  shows "\<exists>s'. id_type_init malloc t a b c d s = (OMCI_API_SUCCESS, s') \<and> finite (dom (mappers s'))"
proof -
  have "malloc (\<lambda>a. mappers s a \<noteq> None) \<noteq> None" using assms(1,2) by (auto simp: malloc_total_def dom_def)
  then show ?thesis using assms(2,3) by (auto simp: id_type_init_def id_type_verify_def)
qed

lemma init_entries_succeeds:
  assumes "malloc_total malloc" "finite (dom (mappers s))" "\<forall>t\<in>set (table_types es). t < MAPPER_IDTYPE_MAX"
  shows "\<exists>s'. init_entries malloc es s = (OMCI_API_SUCCESS, s') \<and> finite (dom (mappers s'))"
  using assms(2,3)
proof (induction es arbitrary: s)
  case (Cons e es)
  have copies: "\<exists>s'. init_copies malloc e js s = (OMCI_API_SUCCESS, s') \<and> finite (dom (mappers s'))"
    if "finite (dom (mappers s))" "\<forall>j\<in>set js. etype e + j < MAPPER_IDTYPE_MAX" for s js e
    using that
  proof (induction js arbitrary: s e)
    case (Cons j js)
    let ?e = "run_init s e"
    from id_type_init_succeeds[OF assms(1) Cons.prems(1), of "etype ?e + j" "min_id ?e" "max_id ?e" "min_idx ?e" "max_idx ?e"] Cons.prems(2)
    obtain s1 where "id_type_init malloc (etype ?e + j) (min_id ?e) (max_id ?e) (min_idx ?e) (max_idx ?e) s = (OMCI_API_SUCCESS, s1)"
        "finite (dom (mappers s1))"
      by (auto simp: run_init_frame)
    with Cons.IH[of s1 ?e] Cons.prems(2) show ?case by (simp add: run_init_frame)
  qed simp
  from copies[OF Cons.prems(1), of "[0..<num e]" e] Cons.prems(2) obtain s1 where
      "init_copies malloc e [0..<num e] s = (OMCI_API_SUCCESS, s1)" "finite (dom (mappers s1))"
    by (auto simp: table_types_Cons)
  with Cons.IH[of s1] Cons.prems(2) show ?case by (simp add: table_types_Cons)
qed simp

text \<open>A finished initialisation of the table is a context without pairs.\<close>

lemma init_done_layout:
  assumes J: "init_done s0 R D s" and e: "items s0 = (\<lambda>_. None)" and n: "\<forall>t. t \<notin> D \<longrightarrow> mapper_p s0 t = None"
    and R: "\<forall>t\<in>D. \<forall>kt. fst (R t) kt \<le> snd (R t) kt"
  shows "layout_ok s (\<lambda>_ _. [])"
  unfolding layout_ok_def
proof (intro conjI allI impI)
  fix t p assume p: "mapper_p s t = Some p"
  then have D: "t \<in> D" using J n unfolding init_done_def by (metis option.distinct(1))
  with J show "t < MAPPER_IDTYPE_MAX" by (simp add: init_done_def)
  from J D p obtain m where m: "mappers s p = Some m" "list_head m = (\<lambda>_. None)" "(min_key m, max_key m) = R t"
    unfolding init_done_def by (metis option.inject)
  from m(3) have "min_key m = fst (R t)" "max_key m = snd (R t)" by (metis fst_conv, metis snd_conv)
  with m(1,2) R D show "\<exists>m. mappers s p = Some m \<and> (\<forall>kt. min_key m kt \<le> max_key m kt \<and> list_ok (items s) m kt [])"
    by (auto simp: list_ok_def)
next
  fix t1 t2 :: nat assume ne: "t1 \<noteq> t2"
  show "mapper_p s t1 = None \<or> mapper_p s t1 \<noteq> mapper_p s t2"
  proof (cases "t1 \<in> D \<and> t2 \<in> D")
    case True
    with J ne show ?thesis unfolding init_done_def by blast
  next
    case False
    with J n have "mapper_p s t1 = None \<or> mapper_p s t2 = None" unfolding init_done_def by metis
    then show ?thesis by (cases "mapper_p s t1") auto
  qed
qed (use J e in \<open>auto simp: init_done_def\<close>)

lemma in_table_types: "t \<in> set (table_types es) \<longleftrightarrow> (\<exists>e\<in>set es. etype e \<le> t \<and> t < etype e + num e)"
  by (auto simp: table_types_def)

lemma find_entry:
  assumes "distinct (table_types es)" "e \<in> set es" "j < num e"
  shows "List.find (\<lambda>e'. etype e' \<le> etype e + j \<and> etype e + j < etype e' + num e') es = Some e"
  using assms
proof (induction es)
  case (Cons d es)
  have in_d: "etype d \<le> u \<and> u < etype d + num d \<longleftrightarrow> u \<in> (\<lambda>j. etype d + j) ` {0..<num d}" for u
    by (auto simp: image_iff intro: bexI[of _ "u - etype d"])
  have dj: "(\<lambda>j. etype d + j) ` {0..<num d} \<inter> set (table_types es) = {}" "distinct (table_types es)"
    using Cons.prems(1) by (auto simp: table_types_def)
  show ?case
  proof (cases "d = e")
    case False
    with Cons.prems(2) have e: "e \<in> set es" by simp
    then have "etype e + j \<in> set (table_types es)" using Cons.prems(3) unfolding in_table_types by (intro bexI[of _ e]) simp_all
    with dj(1) in_d[of "etype e + j"] have "\<not> (etype d \<le> etype e + j \<and> etype e + j < etype d + num d)" by blast
    with Cons.IH[OF dj(2) e Cons.prems(3)] show ?thesis by auto
  qed (use Cons.prems(3) in simp)
qed simp

lemma m_entry_types: "distinct (table_types m_entry)" "\<forall>t\<in>set (table_types m_entry). t < MAPPER_IDTYPE_MAX"
  by code_simp+

lemma m_entry_ranges: "\<forall>e\<in>set m_entry. \<forall>kt. fst (entry_ranges (run_init s e)) kt \<le> snd (entry_ranges (run_init s e)) kt"
proof (intro ballI allI)
  fix e kt assume "e \<in> set m_entry"
  moreover have "\<forall>e\<in>set m_entry. min_id e \<le> max_id e \<and> (if init e = NO_INIT then min_idx e \<le> max_idx e else min_idx e = 0)"
    by code_simp
  ultimately have "min_id e \<le> max_id e" "if init e = NO_INIT then min_idx e \<le> max_idx e else min_idx e = 0" by blast+
  then show "fst (entry_ranges (run_init s e)) kt \<le> snd (entry_ranges (run_init s e)) kt"
    by (cases kt; cases "init e") (auto simp: entry_ranges_def run_init_def mapper_bridge_port_init_def item_keys_def)
qed

lemma mapper_init_ok:
  assumes ma: "malloc_ok malloc" and e: "items s = (\<lambda>_. None)" "\<forall>t. t \<notin> set (table_types m_entry) \<longrightarrow> mapper_p s t = None"
    and r: "mapper_init malloc s = (OMCI_API_SUCCESS, s')"
  shows "mapper_inv s' \<and> pairs s' = (\<lambda>_. {}) \<and> key_range s' = table_range s m_entry"
proof -
  let ?R = "table_ranges s m_entry"
  have J0: "init_done s ?R {} s" by (simp add: init_done_def)
  have Re: "?R (etype e + j) = entry_ranges (run_init s e)" if "e \<in> set m_entry" "j < num e" for e j
    using find_entry[OF m_entry_types(1) that] by (simp add: table_ranges_def)
  have J: "init_done s ?R ({} \<union> set (table_types m_entry)) s'"
    by (rule init_entries_ok[OF ma J0 m_entry_types(1)]) (use r Re in \<open>auto simp: mapper_init_def\<close>)
  have Rt: "\<exists>e\<in>set m_entry. ?R t = entry_ranges (run_init s e)" if "t \<in> set (table_types m_entry)" for t
  proof -
    from that obtain e where "e \<in> set m_entry" "etype e \<le> t" "t < etype e + num e" unfolding in_table_types by blast
    with Re[of e "t - etype e"] show ?thesis by auto
  qed
  then have Rle: "\<forall>t\<in>set (table_types m_entry). \<forall>kt. fst (?R t) kt \<le> snd (?R t) kt"
    using m_entry_ranges[of s] by metis
  from init_done_layout[OF J e(1)] e(2) Rle have L: "layout_ok s' (\<lambda>_ _. [])" by simp
  have "key_range s' t kt = table_range s m_entry t kt" for t kt
  proof (cases "t \<in> set (table_types m_entry)")
    case True
    with J obtain p m where "mapper_p s' t = Some p" "mappers s' p = Some m" "?R t = (min_key m, max_key m)"
      unfolding init_done_def by fastforce
    then show ?thesis by (simp add: key_range_layout table_range_def)
  next
    case False
    then have "List.find (\<lambda>e. etype e \<le> t \<and> t < etype e + num e) m_entry = None"
      unfolding in_table_types find_None_iff by blast
    moreover have "mapper_p s' t = None" using False J e(2) by (simp add: init_done_def)
    ultimately show ?thesis by (simp add: table_range_def table_ranges_def key_range_def)
  qed
  moreover have "pairs s' t = {}" for t using pairs_layout[OF L] by simp
  ultimately show ?thesis using L by (auto simp: mapper_inv_def fun_eq_iff)
qed

lemma mapper_init_succeeds:
  "malloc_total malloc \<Longrightarrow> finite (dom (mappers s)) \<Longrightarrow> \<exists>s'. mapper_init malloc s = (OMCI_API_SUCCESS, s')"
  using init_entries_succeeds[OF _ _ m_entry_types(2)] unfolding mapper_init_def by blast

lemma mapper_shutdown_ok:
  assumes "mapper_inv s"
  shows "\<exists>s'. mapper_shutdown s = Some (OMCI_API_SUCCESS, s') \<and> (\<forall>a. items s' a = None) \<and> mapper_p s' = mapper_p s
    \<and> max_bridge_port s' = max_bridge_port s
    \<and> (\<forall>p. mappers s' p = None \<longleftrightarrow> mappers s p = None \<or> (\<exists>t. mapper_p s t = Some p))"
proof -
  from assms obtain L where L: "layout_ok s L" by (auto simp: mapper_inv_def)
  have r: "t < MAPPER_IDTYPE_MAX" if "mapper_p s t = Some p" for t p using layoutD(1)[OF L that] .
  then have "(\<lambda>t. if t \<in> set [0..<MAPPER_IDTYPE_MAX] then mapper_p s t else None) = mapper_p s"
    by (auto simp: fun_eq_iff) (metis option.exhaust)
  with L have "layout_ok (s\<lparr> mapper_p := (\<lambda>t. if t \<in> set [0..<MAPPER_IDTYPE_MAX] then mapper_p s t else None) \<rparr>) L" by simp
  from shutdown_types_ok[OF _ this] obtain s' where s': "shutdown_types [0..<MAPPER_IDTYPE_MAX] s = Some (OMCI_API_SUCCESS, s')"
      "\<forall>a. items s' a = None" "mapper_p s' = mapper_p s" "max_bridge_port s' = max_bridge_port s"
      "\<forall>p. mappers s' p = None \<longleftrightarrow> mappers s p = None \<or> (\<exists>t\<in>set [0..<MAPPER_IDTYPE_MAX]. mapper_p s t = Some p)"
    by auto
  have "(\<exists>t\<in>set [0..<MAPPER_IDTYPE_MAX]. mapper_p s t = Some p) \<longleftrightarrow> (\<exists>t. mapper_p s t = Some p)" for p using r by auto
  with s' show ?thesis unfolding mapper_shutdown_def by auto
qed

text \<open>Ranges depend on the context only through the number of bridge ports.\<close>

lemma table_range_cong: "max_bridge_port s' = max_bridge_port s \<Longrightarrow> table_range s' = table_range s"
  by (intro ext) (simp add: table_range_def table_ranges_def run_init_def mapper_bridge_port_init_def
    cong: option.case_cong mapper_entry_handler.case_cong)

lemma mapper_reset_ok:
  assumes ma: "malloc_ok malloc" and inv: "mapper_inv s" and t: "\<forall>t. t \<notin> set (table_types m_entry) \<longrightarrow> mapper_p s t = None"
  shows "\<exists>r s'. omci_api_mapper_reset malloc s = Some (r, s') \<and> (malloc_total malloc \<and> finite (dom (mappers s)) \<longrightarrow> r = 0)
    \<and> (r = 0 \<longrightarrow> mapper_inv s' \<and> pairs s' = (\<lambda>_. {}) \<and> key_range s' = table_range s m_entry)"
proof -
  from mapper_shutdown_ok[OF inv] obtain s1 where s1: "mapper_shutdown s = Some (OMCI_API_SUCCESS, s1)" "items s1 = (\<lambda>_. None)"
      "mapper_p s1 = mapper_p s" "max_bridge_port s1 = max_bridge_port s"
      "\<forall>p. mappers s1 p = None \<longleftrightarrow> mappers s p = None \<or> (\<exists>t. mapper_p s t = Some p)"
    by (auto simp: fun_eq_iff)
  obtain r2 s' where i: "mapper_init malloc s1 = (r2, s')" by (cases "mapper_init malloc s1")
  then have e: "omci_api_mapper_reset malloc s = Some (ret_val r2, s')"
    using s1(1) by (simp add: omci_api_mapper_reset_def ret_val_def)
  have "dom (mappers s1) \<subseteq> dom (mappers s)" using s1(5) by (auto simp: dom_def)
  then have "ret_val r2 = 0" if "malloc_total malloc" "finite (dom (mappers s))"
    using mapper_init_succeeds[OF that(1), of s1] that(2) i by (auto simp: ret_val_def dest: finite_subset)
  moreover have "mapper_inv s' \<and> pairs s' = (\<lambda>_. {}) \<and> key_range s' = table_range s m_entry" if "ret_val r2 = 0"
  proof -
    from that i have "mapper_init malloc s1 = (OMCI_API_SUCCESS, s')" by (cases r2) (simp_all add: ret_val_def)
    from mapper_init_ok[OF ma s1(2) _ this] t s1(3) table_range_cong[OF s1(4)] show ?thesis by simp
  qed
  ultimately show ?thesis using e by blast
qed

section \<open>Reachable states and key arrays\<close>

lemma range_empty: "mapper_inv s \<Longrightarrow> key_range s t kt = {} \<longleftrightarrow> mapper_p s t = None"
proof (erule inv_E)
  fix L assume L: "layout_ok s L"
  show "key_range s t kt = {} \<longleftrightarrow> mapper_p s t = None"
  proof (cases "mapper_p s t")
    case (Some p)
    from layoutD(5)[OF L Some, of kt] obtain m where "mappers s p = Some m" "min_key m kt \<le> max_key m kt" by blast
    with Some show ?thesis by (auto simp: key_range_layout)
  qed (simp add: key_range_def)
qed

lemma table_range_outside: "t \<notin> set (table_types es) \<Longrightarrow> table_range s es t kt = {}"
proof -
  assume "t \<notin> set (table_types es)"
  then have "List.find (\<lambda>e. etype e \<le> t \<and> t < etype e + num e) es = None" unfolding in_table_types find_None_iff by blast
  then show ?thesis by (simp add: table_range_def table_ranges_def)
qed

lemma table_range_zero: "table_range s = table_range (zero_ctx (max_bridge_port s))"
  by (rule table_range_cong) (simp add: zero_ctx_def)

lemma index_map_or_get_ok:
  assumes ma: "malloc_ok malloc" and L: "layout_ok s L"
  shows "\<exists>r k s'. index_map_or_get malloc me t old s = Some (r, k, s')
    \<and> ((r, s') = (OMCI_API_SUCCESS, s) \<and> (ucast me, k) \<in> pairs s t
      \<or> r = OMCI_API_SUCCESS \<and> ucast me \<notin> fst ` pairs s t \<and> least_free (key_range s t KEY_TYPE_INDEX) (snd ` pairs s t) k
          \<and> maps_pair s t (ucast me) k s'
      \<or> r = OMCI_API_ERROR \<and> s' = s)"
proof (cases "ucast me \<in> fst ` pairs s t")
  case True
  then obtain x where x: "(ucast me, x) \<in> pairs s t" by auto
  from index_get_ok(3)[OF L x] x show ?thesis by (simp add: index_map_or_get_def)
next
  case False
  show ?thesis
  proof (cases "ucast me \<in> key_range s t KEY_TYPE_ID")
    case True
    from index_get_ok(2)[OF L True False] have "index_map_or_get malloc me t old s = id_map malloc t (ucast me) old s"
      by (simp add: index_map_or_get_def)
    with id_map_ok[OF ma L, of t "ucast me" old] False show ?thesis by (auto split: if_splits)
  next
    case out: False
    from index_get_ok(1)[OF L out] show ?thesis by (simp add: index_map_or_get_def)
  qed
qed

lemma remove_frame:
  assumes L: "layout_ok s L"
  shows "id_remove t i s = Some (r, s') \<Longrightarrow> s' = s \<or> (\<exists>x. unmaps_pair s t i x s')"
    and "index_remove t x s = Some (r, s') \<Longrightarrow> s' = s \<or> (\<exists>i. unmaps_pair s t i x s')"
proof -
  assume 1: "id_remove t i s = Some (r, s')"
  show "s' = s \<or> (\<exists>x. unmaps_pair s t i x s')"
  proof (cases "i \<in> fst ` pairs s t")
    case True
    then obtain y where "(i, y) \<in> pairs s t" by auto
    from id_remove_ok(3)[OF L this] 1 show ?thesis by auto
  next
    case False
    with id_remove_ok(1,2)[OF L, where i = i and t = t] 1 show ?thesis by (cases "i \<in> key_range s t KEY_TYPE_ID") auto
  qed
next
  assume 1: "index_remove t x s = Some (r, s')"
  show "s' = s \<or> (\<exists>i. unmaps_pair s t i x s')"
  proof (cases "x \<in> snd ` pairs s t")
    case True
    then obtain j where "(j, x) \<in> pairs s t" by auto
    from index_remove_ok(3)[OF L this] 1 show ?thesis by auto
  next
    case False
    with index_remove_ok(1,2)[OF L, where x = x and t = t] 1 show ?thesis by (cases "x \<in> key_range s t KEY_TYPE_INDEX") auto
  qed
qed

lemma mapper_reachable_inv:
  assumes ma: "malloc_ok malloc" and "mapper_reachable malloc s"
  shows "mapper_inv s \<and> (\<exists>n. key_range s = table_range (zero_ctx n) m_entry)"
  using assms(2)
proof (induction rule: mapper_reachable.induct)
  case (start n s)
  from mapper_init_ok[OF ma _ _ start] show ?case by (auto simp: zero_ctx_def)
next
  case (explicit s t i x r s')
  then obtain L where "layout_ok s L" by (auto simp: mapper_inv_def)
  from explicit_map_ok[OF ma this, of t i x] explicit show ?case by (auto simp: maps_pair_def split: if_splits)
next
  case (by_id s t i old r k s')
  then obtain L where "layout_ok s L" by (auto simp: mapper_inv_def)
  from id_map_ok[OF ma this, of t i old] by_id show ?case by (auto simp: maps_pair_def split: if_splits)
next
  case (by_index s t old x r k s')
  then obtain L where "layout_ok s L" by (auto simp: mapper_inv_def)
  from index_map_ok[OF ma this, of t old x] by_index show ?case by (auto simp: maps_pair_def split: if_splits)
next
  case (map_or_get s me t old r k s')
  then obtain L where "layout_ok s L" by (auto simp: mapper_inv_def)
  from index_map_or_get_ok[OF ma this, where me = me and t = t and old = old] map_or_get show ?case by (auto simp: maps_pair_def)
next
  case (rem_id s t i r s')
  then obtain L where L: "layout_ok s L" by (auto simp: mapper_inv_def)
  from remove_frame(1)[OF L rem_id(2)] rem_id show ?case by (auto simp: unmaps_pair_def)
next
  case (rem_index s t x r s')
  then obtain L where L: "layout_ok s L" by (auto simp: mapper_inv_def)
  from remove_frame(2)[OF L rem_index(2)] rem_index show ?case by (auto simp: unmaps_pair_def)
next
  case (reset s s')
  then have inv: "mapper_inv s" by blast
  from reset obtain n where "key_range s = table_range (zero_ctx n) m_entry" by blast
  then have "\<forall>t. t \<notin> set (table_types m_entry) \<longrightarrow> mapper_p s t = None"
    using range_empty[OF inv] table_range_outside by metis
  from mapper_reset_ok[OF ma inv this] reset table_range_zero[of s] show ?case by auto
qed

lemma count_loop_ok: "lseg h kt p as None \<Longrightarrow> count_loop h kt p sz = Some (sz + of_nat (length as))"
proof (induction as arbitrary: p sz)
  case (Cons a as)
  then show ?case by (subst count_loop.simps) (auto split: option.splits simp: add.assoc)
qed (simp add: count_loop.simps)

lemma fill_loop_ok: "lseg h kt p as None \<Longrightarrow> fill_loop h kt p ks = Some (ks @ map (kof h kt) as)"
proof (induction as arbitrary: p ks)
  case (Cons a as)
  then show ?case by (subst fill_loop.simps) (auto split: option.splits simp: kof_def)
qed (simp add: fill_loop.simps)

lemma key_array_get_ok:
  assumes L: "layout_ok s L" and ne: "pairs s t \<noteq> {}" and av: "avail (of_nat (card (pairs s t)))"
  shows "key_array_get avail t kt s = Some (OMCI_API_SUCCESS,
      Some \<lparr> requested = of_nat (card (pairs s t)), stored = sorted_list_of_set (proj kt ` pairs s t) \<rparr>, Some (of_nat (card (pairs s t))))"
proof -
  from ne obtain p where p: "mapper_p s t = Some p" by (cases "mapper_p s t") (auto simp: pairs_def)
  from layoutD(5)[OF L p, of kt] obtain m where m: "mappers s p = Some m" "list_ok (items s) m kt (L t kt)" by blast
  then have ls: "lseg (items s) kt (list_head m kt) (L t kt) None" by (simp add: list_ok_def)
  have st: "sorted_wrt (<) (map (kof (items s) kt) (L t kt))" using m(2) by (simp add: list_ok_def sorted_wrt_map)
  have im: "set (map (kof (items s) kt) (L t kt)) = proj kt ` pairs s t" using kof_image[OF L p, of kt] by simp
  have "map (kof (items s) kt) (L t kt) = sorted_list_of_set (proj kt ` pairs s t)"
    using st im by (metis sorted_list_of_set.idem_if_sorted_distinct strict_sorted_iff)
  moreover from st have "length (L t kt) = card (proj kt ` pairs s t)"
    unfolding im[symmetric] by (metis distinct_card length_map strict_sorted_iff)
  then have "length (L t kt) = card (pairs s t)" using card_image[OF pairs_inj[OF L, of kt t]] by simp
  moreover from ne im obtain a where "list_head m kt = Some a" using ls by (cases "L t kt") auto
  ultimately show ?thesis
    using count_loop_ok[OF ls, of 0] fill_loop_ok[OF ls, of "[]"] m(1) p layoutD(1)[OF L p] av
    by (simp add: key_array_get_def mapper_get_def id_type_verify_def)
qed

lemma demo_layout: "layout_ok demo_ctx (\<lambda>t kt. if t = 0 then (case kt of KEY_TYPE_ID \<Rightarrow> [1, 2] | KEY_TYPE_INDEX \<Rightarrow> [2, 1]) else [])"
  by (auto simp: layout_ok_def demo_ctx_def list_ok_def kof_def item_keys_def item_positions_def MAPPER_IDTYPE_MAX_def
    split: mapper_key_type.splits if_splits)

lemma demo_facts: "mapper_inv demo_ctx" "malloc_ok demo_malloc" "pairs demo_ctx 0 = {(10, 3), (20, 0)}"
  "key_range demo_ctx 0 KEY_TYPE_ID = {0..100}" "key_range demo_ctx 0 KEY_TYPE_INDEX = {0..31}"
  "demo_malloc (\<lambda>a. items demo_ctx a \<noteq> None) = Some 3"
proof -
  show "mapper_inv demo_ctx" using demo_layout by (auto simp: mapper_inv_def)
  show "malloc_ok demo_malloc" by (simp add: malloc_ok_def demo_malloc_def)
  show "pairs demo_ctx 0 = {(10, 3), (20, 0)}"
    unfolding pairs_layout[OF demo_layout] by (auto simp: demo_ctx_def pair_of_def kof_def item_keys_def)
  show "key_range demo_ctx 0 KEY_TYPE_ID = {0..100}" "key_range demo_ctx 0 KEY_TYPE_INDEX = {0..31}"
      "demo_malloc (\<lambda>a. items demo_ctx a \<noteq> None) = Some 3"
    by (simp_all add: key_range_def range_of_def demo_ctx_def item_keys_def demo_malloc_def)
qed

lemma first_free_ok: "malloc_ok first_free" "malloc_total first_free"
proof -
  show "malloc_ok first_free" unfolding malloc_ok_def first_free_def by (auto split: if_splits dest: LeastI[where P = "\<lambda>a. \<not> _ a"])
  show "malloc_total first_free" unfolding malloc_total_def
  proof (intro allI impI)
    fix al :: "nat \<Rightarrow> bool" assume "finite {a. al a}"
    then obtain a where "a \<notin> {a. al a}" using ex_new_if_finite infinite_UNIV_nat by blast
    then show "first_free al \<noteq> None" by (auto simp: first_free_def)
  qed
qed

section \<open>Properties\<close>

text \<open>
  C23: In every state the exported functions can reach, each identifier type holds a partial
  bijection between identifiers and indices, with both keys inside the ranges of the table the
  mapper was initialised from.
\<close>

theorem mapper_bijection:
  assumes "malloc_ok malloc" and "mapper_reachable malloc s"
  shows "inj_on fst (pairs s t) \<and> inj_on snd (pairs s t)
    \<and> pairs s t \<subseteq> key_range s t KEY_TYPE_ID \<times> key_range s t KEY_TYPE_INDEX
    \<and> (\<exists>n. key_range s = table_range (zero_ctx n) m_entry)"
proof -
  from mapper_reachable_inv[OF assms] obtain L where L: "layout_ok s L" and k: "\<exists>n. key_range s = table_range (zero_ctx n) m_entry"
    by (auto simp: mapper_inv_def)
  from pairs_range[OF L, of KEY_TYPE_ID t] pairs_range[OF L, of KEY_TYPE_INDEX t]
  have "pairs s t \<subseteq> key_range s t KEY_TYPE_ID \<times> key_range s t KEY_TYPE_INDEX" by (auto simp: image_subset_iff)
  with k pairs_inj[OF L, of KEY_TYPE_ID t] pairs_inj[OF L, of KEY_TYPE_INDEX t] show ?thesis by simp
qed

lemma reachable_example:
  "\<exists>s0 s. mapper_reachable first_free s0 \<and> explicit_map first_free MAPPER_TCONT_MEID_TO_IDX 5 3 s0 = Some (OMCI_API_SUCCESS, s)
     \<and> mapper_reachable first_free s \<and> pairs s MAPPER_TCONT_MEID_TO_IDX = {(5, 3)}"
proof -
  from mapper_init_succeeds[OF first_free_ok(2), of "zero_ctx 8"] obtain s0 where i: "mapper_init first_free (zero_ctx 8) = (OMCI_API_SUCCESS, s0)"
    by (auto simp: zero_ctx_def)
  from mapper_init_ok[OF first_free_ok(1) _ _ i] have s0: "mapper_inv s0" "pairs s0 = (\<lambda>_. {})" "key_range s0 = table_range (zero_ctx 8) m_entry"
    by (auto simp: zero_ctx_def)
  then obtain L where L: "layout_ok s0 L" by (auto simp: mapper_inv_def)
  have "finite {a. items s0 a \<noteq> None}"
  proof -
    have "items s0 a = None" for a using L pairs_layout[OF L] s0(2) by (auto simp: layout_ok_def)
    then show ?thesis by simp
  qed
  then have "first_free (\<lambda>a. items s0 a \<noteq> None) \<noteq> None" using first_free_ok(2) by (simp add: malloc_total_def)
  moreover have "key_range s0 0 KEY_TYPE_ID = {0..0xFFFFFFFF}" "key_range s0 0 KEY_TYPE_INDEX = {0..31}"
    unfolding s0(3) table_range_def by (simp_all add: table_ranges_def m_entry_def m_entry_a_def mk_entry_def entry_ranges_def run_init_def item_keys_def)
  ultimately obtain s where "explicit_map first_free 0 5 3 s0 = Some (OMCI_API_SUCCESS, s)" "maps_pair s0 0 5 3 s"
    using explicit_map_ok[OF first_free_ok(1) L, of 0 5 3] s0(2) by auto
  moreover from start[OF i] have "mapper_reachable first_free s0" .
  ultimately show ?thesis using s0(2) by (intro exI[of _ s0] exI[of _ s]) (auto simp: maps_pair_def intro: explicit)
qed

theorem mapper_bijection_witness:
  "\<exists>s. pairs s MAPPER_TCONT_MEID_TO_IDX = {(5, 3)} \<and> inj_on fst (pairs s MAPPER_TCONT_MEID_TO_IDX)
     \<and> pairs s MAPPER_TCONT_MEID_TO_IDX \<subseteq> key_range s MAPPER_TCONT_MEID_TO_IDX KEY_TYPE_ID \<times> key_range s MAPPER_TCONT_MEID_TO_IDX KEY_TYPE_INDEX"
  using reachable_example mapper_bijection[OF first_free_ok(1), where t = MAPPER_TCONT_MEID_TO_IDX] by blast

text \<open>
  A lookup by identifier and a lookup by index return on every input: an error exactly for a key
  outside the range or an uninitialised type, not-found exactly for a key that is not mapped, and
  otherwise the partner of the key; the output parameter is written on success only.
\<close>

theorem mapper_lookup:
  assumes "mapper_inv s"
  shows "(index_get t i old s = Some (r, x) \<longleftrightarrow>
      (if i \<notin> key_range s t KEY_TYPE_ID then r = OMCI_API_ERROR \<and> x = old
       else if i \<notin> fst ` pairs s t then r = OMCI_API_NOT_FOUND \<and> x = old else r = OMCI_API_SUCCESS \<and> (i, x) \<in> pairs s t))
    \<and> (id_get t old k s = Some (r, x) \<longleftrightarrow>
      (if k \<notin> key_range s t KEY_TYPE_INDEX then r = OMCI_API_ERROR \<and> x = old
       else if k \<notin> snd ` pairs s t then r = OMCI_API_NOT_FOUND \<and> x = old else r = OMCI_API_SUCCESS \<and> (x, k) \<in> pairs s t))"
    (is "?fwd \<and> ?bwd")
proof (intro conjI)
  from assms obtain L where L: "layout_ok s L" by (auto simp: mapper_inv_def)
  have sub: "fst ` pairs s t \<subseteq> key_range s t KEY_TYPE_ID" "snd ` pairs s t \<subseteq> key_range s t KEY_TYPE_INDEX"
    using pairs_range[OF L, of KEY_TYPE_ID] pairs_range[OF L, of KEY_TYPE_INDEX] by simp_all
  show ?fwd
  proof (cases "i \<in> fst ` pairs s t")
    case True
    then obtain y where y: "(i, y) \<in> pairs s t" by auto
    from inj_onD[OF pairs_inj[OF L, of KEY_TYPE_ID t] _ y, of "(i, x)"] have "(i, x) \<in> pairs s t \<longleftrightarrow> x = y" using y by auto
    with index_get_ok(3)[OF L y, of old] True sub show ?thesis by auto
  qed (use index_get_ok(1,2)[OF L, where i = i and t = t and old = old] in auto)
  show ?bwd
  proof (cases "k \<in> snd ` pairs s t")
    case True
    then obtain y where y: "(y, k) \<in> pairs s t" by auto
    from inj_onD[OF pairs_inj[OF L, of KEY_TYPE_INDEX t] _ y, of "(x, k)"] have "(x, k) \<in> pairs s t \<longleftrightarrow> x = y" using y by auto
    with id_get_ok(3)[OF L y, of old] True sub show ?thesis by auto
  qed (use id_get_ok(1,2)[OF L, where x = k and t = t and old = old] in auto)
qed

theorem mapper_lookup_witness:
  "index_get 0 20 7 demo_ctx = Some (OMCI_API_SUCCESS, 0) \<and> index_get 0 21 7 demo_ctx = Some (OMCI_API_NOT_FOUND, 7)
   \<and> index_get 0 101 7 demo_ctx = Some (OMCI_API_ERROR, 7) \<and> id_get 0 7 3 demo_ctx = Some (OMCI_API_SUCCESS, 10)"
  using mapper_lookup[OF demo_facts(1)] demo_facts by simp

text \<open>
  C24: Mapping a given pair succeeds exactly when the type is initialised, both keys are in range and
  unused and memory is available; then exactly this pair is added to this type and the invariant
  holds. Otherwise the call returns an error and changes nothing.
\<close>

theorem mapper_explicit_map:
  assumes "malloc_ok malloc" and "mapper_inv s"
  shows "\<exists>r s'. explicit_map malloc t i x s = Some (r, s') \<and> mapper_inv s'
    \<and> (if i \<in> key_range s t KEY_TYPE_ID - fst ` pairs s t \<and> x \<in> key_range s t KEY_TYPE_INDEX - snd ` pairs s t
          \<and> malloc (\<lambda>a. items s a \<noteq> None) \<noteq> None
       then r = OMCI_API_SUCCESS \<and> pairs s' = (pairs s)(t := insert (i, x) (pairs s t)) \<and> key_range s' = key_range s
       else r = OMCI_API_ERROR \<and> s' = s)"
proof -
  from assms(2) obtain L where "layout_ok s L" by (auto simp: mapper_inv_def)
  from explicit_map_ok[OF assms(1) this, of t i x] assms(2) show ?thesis by (auto simp: maps_pair_def split: if_splits)
qed

theorem mapper_explicit_map_witness:
  "\<exists>s'. explicit_map demo_malloc 0 15 7 demo_ctx = Some (OMCI_API_SUCCESS, s') \<and> pairs s' 0 = {(15, 7), (10, 3), (20, 0)}"
  using mapper_explicit_map[OF demo_facts(2,1), of 0 15 7] demo_facts by auto

text \<open>
  Mapping an identifier chooses the lowest free index of the range, mapping an index the lowest
  free identifier. Both succeed exactly when the given key is valid and unused, the other side has a
  free key and memory is available, and change nothing otherwise.
\<close>

theorem mapper_lowest_free:
  assumes "malloc_ok malloc" and "mapper_inv s"
  shows "(\<exists>r k s'. id_map malloc t i old s = Some (r, k, s') \<and> mapper_inv s'
      \<and> (if i \<in> key_range s t KEY_TYPE_ID - fst ` pairs s t \<and> \<not> key_range s t KEY_TYPE_INDEX \<subseteq> snd ` pairs s t
            \<and> malloc (\<lambda>a. items s a \<noteq> None) \<noteq> None
         then r = OMCI_API_SUCCESS \<and> least_free (key_range s t KEY_TYPE_INDEX) (snd ` pairs s t) k
            \<and> pairs s' = (pairs s)(t := insert (i, k) (pairs s t))
         else r = OMCI_API_ERROR \<and> s' = s))
    \<and> (\<exists>r k s'. index_map malloc t old x s = Some (r, k, s') \<and> mapper_inv s'
      \<and> (if x \<in> key_range s t KEY_TYPE_INDEX - snd ` pairs s t \<and> \<not> key_range s t KEY_TYPE_ID \<subseteq> fst ` pairs s t
            \<and> malloc (\<lambda>a. items s a \<noteq> None) \<noteq> None
         then r = OMCI_API_SUCCESS \<and> least_free (key_range s t KEY_TYPE_ID) (fst ` pairs s t) k
            \<and> pairs s' = (pairs s)(t := insert (k, x) (pairs s t))
         else r = OMCI_API_ERROR \<and> s' = s))"
proof -
  from assms(2) obtain L where L: "layout_ok s L" by (auto simp: mapper_inv_def)
  show ?thesis
  proof (intro conjI)
    from id_map_ok[OF assms(1) L, of t i old] obtain r k s' where "id_map malloc t i old s = Some (r, k, s')"
        "if i \<in> key_range s t KEY_TYPE_ID - fst ` pairs s t \<and> \<not> key_range s t KEY_TYPE_INDEX \<subseteq> snd ` pairs s t
            \<and> malloc (\<lambda>a. items s a \<noteq> None) \<noteq> None
         then r = OMCI_API_SUCCESS \<and> least_free (key_range s t KEY_TYPE_INDEX) (snd ` pairs s t) k \<and> maps_pair s t i k s'
         else r = OMCI_API_ERROR \<and> s' = s" (is "if ?C then _ else _")
      by blast
    with assms(2) show "\<exists>r k s'. id_map malloc t i old s = Some (r, k, s') \<and> mapper_inv s'
        \<and> (if ?C then r = OMCI_API_SUCCESS \<and> least_free (key_range s t KEY_TYPE_INDEX) (snd ` pairs s t) k
            \<and> pairs s' = (pairs s)(t := insert (i, k) (pairs s t)) else r = OMCI_API_ERROR \<and> s' = s)"
      by (cases ?C) (simp_all add: maps_pair_def)
    from index_map_ok[OF assms(1) L, of t old x] obtain r k s' where "index_map malloc t old x s = Some (r, k, s')"
        "if x \<in> key_range s t KEY_TYPE_INDEX - snd ` pairs s t \<and> \<not> key_range s t KEY_TYPE_ID \<subseteq> fst ` pairs s t
            \<and> malloc (\<lambda>a. items s a \<noteq> None) \<noteq> None
         then r = OMCI_API_SUCCESS \<and> least_free (key_range s t KEY_TYPE_ID) (fst ` pairs s t) k \<and> maps_pair s t k x s'
         else r = OMCI_API_ERROR \<and> s' = s" (is "if ?D then _ else _")
      by blast
    with assms(2) show "\<exists>r k s'. index_map malloc t old x s = Some (r, k, s') \<and> mapper_inv s'
        \<and> (if ?D then r = OMCI_API_SUCCESS \<and> least_free (key_range s t KEY_TYPE_ID) (fst ` pairs s t) k
            \<and> pairs s' = (pairs s)(t := insert (k, x) (pairs s t)) else r = OMCI_API_ERROR \<and> s' = s)"
      by (cases ?D) (simp_all add: maps_pair_def)
  qed
qed

theorem mapper_lowest_free_witness:
  "\<exists>k s'. id_map demo_malloc 0 15 9 demo_ctx = Some (OMCI_API_SUCCESS, k, s') \<and> least_free {0..31} {3, 0} k
     \<and> pairs s' 0 = {(15, k), (10, 3), (20, 0)}"
proof -
  have "1 \<in> {0..31 :: u32}" "1 \<notin> snd ` {(10 :: u32, 3 :: u32), (20, 0)}" by simp_all
  then have "\<not> {0..31 :: u32} \<subseteq> snd ` {(10 :: u32, 3 :: u32), (20, 0)}" by blast
  with conjunct1[OF mapper_lowest_free[OF demo_facts(2,1), of 0 15 9 0]]
  have "\<exists>r k s'. id_map demo_malloc 0 15 9 demo_ctx = Some (r, k, s') \<and> r = OMCI_API_SUCCESS \<and> least_free {0..31} {3, 0} k
      \<and> pairs s' = (pairs demo_ctx)(0 := insert (15, k) (pairs demo_ctx 0))"
    unfolding demo_facts by auto
  then show ?thesis using demo_facts(3) by auto
qed

text \<open>
  Asking for the index of a managed entity returns the index it is mapped to, or maps it to the
  lowest free index. After a success the same call returns the same index and changes nothing.
\<close>

theorem mapper_map_or_get:
  assumes "malloc_ok malloc" and "mapper_inv s"
  shows "\<exists>r k s'. index_map_or_get malloc me t old s = Some (r, k, s')
    \<and> (r = OMCI_API_ERROR \<and> s' = s
      \<or> r = OMCI_API_SUCCESS \<and> mapper_inv s' \<and> (ucast me, k) \<in> pairs s' t \<and> pairs s t \<subseteq> pairs s' t
         \<and> index_map_or_get malloc me t old' s' = Some (OMCI_API_SUCCESS, k, s'))"
proof -
  from assms(2) obtain L where L: "layout_ok s L" by (auto simp: mapper_inv_def)
  have again: "index_map_or_get malloc me t old' s' = Some (OMCI_API_SUCCESS, k, s')" if "mapper_inv s'" "(ucast me, k) \<in> pairs s' t" for s' k
  proof -
    from that(1) obtain L' where "layout_ok s' L'" by (auto simp: mapper_inv_def)
    from index_get_ok(3)[OF this that(2)] show ?thesis by (simp add: index_map_or_get_def)
  qed
  from index_map_or_get_ok[OF assms(1) L, where me = me and t = t and old = old] assms(2) again show ?thesis
    by (auto simp: maps_pair_def)
qed

theorem mapper_map_or_get_witness:
  "\<exists>k s'. index_map_or_get demo_malloc 20 0 9 demo_ctx = Some (OMCI_API_SUCCESS, k, s') \<and> (20, k) \<in> pairs s' 0"
proof -
  have "index_map_or_get demo_malloc 20 0 9 demo_ctx \<noteq> Some (OMCI_API_ERROR, k, s')" for k s'
    using index_get_ok(3)[OF demo_layout, of 20 0 0 9] demo_facts(3) by (simp add: index_map_or_get_def)
  moreover from mapper_map_or_get[OF demo_facts(2,1), of 20 0 9 9] obtain r k s' where
      "index_map_or_get demo_malloc 20 0 9 demo_ctx = Some (r, k, s')" "r = OMCI_API_ERROR \<or> (20, k) \<in> pairs s' 0" "r = OMCI_API_ERROR \<or> r = OMCI_API_SUCCESS"
    by auto
  ultimately show ?thesis by auto
qed

text \<open>
  Removing by identifier or by index takes exactly the pair of the key out of both directions and
  frees its item; a valid key that is not mapped gives not-found and an invalid one an error, without
  any change.
\<close>

theorem mapper_remove:
  assumes "mapper_inv s"
  shows "(\<exists>r s'. id_remove t i s = Some (r, s') \<and> mapper_inv s'
      \<and> (if i \<notin> key_range s t KEY_TYPE_ID then r = OMCI_API_ERROR \<and> s' = s
         else if i \<notin> fst ` pairs s t then r = OMCI_API_NOT_FOUND \<and> s' = s
         else r = OMCI_API_SUCCESS \<and> pairs s' = (pairs s)(t := {q \<in> pairs s t. fst q \<noteq> i})))
    \<and> (\<exists>r s'. index_remove t x s = Some (r, s') \<and> mapper_inv s'
      \<and> (if x \<notin> key_range s t KEY_TYPE_INDEX then r = OMCI_API_ERROR \<and> s' = s
         else if x \<notin> snd ` pairs s t then r = OMCI_API_NOT_FOUND \<and> s' = s
         else r = OMCI_API_SUCCESS \<and> pairs s' = (pairs s)(t := {q \<in> pairs s t. snd q \<noteq> x})))"
    (is "(\<exists>r s'. ?id r s') \<and> (\<exists>r s'. ?ix r s')")
proof (intro conjI)
  from assms obtain L where L: "layout_ok s L" by (auto simp: mapper_inv_def)
  have one: "pairs s t - {(a, b)} = {q \<in> pairs s t. fst q \<noteq> a}" "pairs s t - {(a, b)} = {q \<in> pairs s t. snd q \<noteq> b}"
    if ab: "(a, b) \<in> pairs s t" for a b
  proof -
    have key: "q = (a, b)" if "q \<in> pairs s t" "fst q = a \<or> snd q = b" for q
      using that(2)
    proof
      assume "fst q = a"
      then show ?thesis by (intro inj_onD[OF pairs_inj[OF L, of KEY_TYPE_ID t] _ that(1) ab]) simp
    next
      assume "snd q = b"
      then show ?thesis by (intro inj_onD[OF pairs_inj[OF L, of KEY_TYPE_INDEX t] _ that(1) ab]) simp
    qed
    have "q \<in> pairs s t - {(a, b)} \<longleftrightarrow> q \<in> pairs s t \<and> fst q \<noteq> a" "q \<in> pairs s t - {(a, b)} \<longleftrightarrow> q \<in> pairs s t \<and> snd q \<noteq> b" for q
      using key[of q] by (metis DiffD1 DiffD2 DiffI fst_conv singletonD singletonI, metis DiffD1 DiffD2 DiffI snd_conv singletonD singletonI)
    then show "pairs s t - {(a, b)} = {q \<in> pairs s t. fst q \<noteq> a}" "pairs s t - {(a, b)} = {q \<in> pairs s t. snd q \<noteq> b}" by blast+
  qed
  show "\<exists>r s'. ?id r s'"
  proof (cases "i \<in> fst ` pairs s t")
    case True
    then obtain y where y: "(i, y) \<in> pairs s t" by auto
    have "i \<in> key_range s t KEY_TYPE_ID" using pairs_range[OF L, of KEY_TYPE_ID t] True by auto
    with id_remove_ok(3)[OF L y] one(1)[OF y] True show ?thesis by (auto simp: unmaps_pair_def)
  next
    case False
    with id_remove_ok(1,2)[OF L, where i = i and t = t] assms show ?thesis by (cases "i \<in> key_range s t KEY_TYPE_ID") simp_all
  qed
  show "\<exists>r s'. ?ix r s'"
  proof (cases "x \<in> snd ` pairs s t")
    case True
    then obtain y where y: "(y, x) \<in> pairs s t" by auto
    have "x \<in> key_range s t KEY_TYPE_INDEX" using pairs_range[OF L, of KEY_TYPE_INDEX t] True by auto
    with index_remove_ok(3)[OF L y] one(2)[OF y] True show ?thesis by (auto simp: unmaps_pair_def)
  next
    case False
    with index_remove_ok(1,2)[OF L, where x = x and t = t] assms show ?thesis by (cases "x \<in> key_range s t KEY_TYPE_INDEX") simp_all
  qed
qed

theorem mapper_remove_witness:
  "(\<exists>s'. id_remove 0 10 demo_ctx = Some (OMCI_API_SUCCESS, s') \<and> pairs s' 0 = {(20, 0)})
   \<and> (\<exists>s'. index_remove 0 0 demo_ctx = Some (OMCI_API_SUCCESS, s') \<and> pairs s' 0 = {(10, 3)})"
proof -
  have "{q \<in> {(10 :: u32, 3 :: u32), (20, 0)}. fst q \<noteq> 10} = {(20, 0)}" "{q \<in> {(10 :: u32, 3 :: u32), (20, 0)}. snd q \<noteq> 0} = {(10, 3)}" by auto
  with mapper_remove[OF demo_facts(1), of 0 10 0] show ?thesis unfolding demo_facts by auto
qed

text \<open>
  The two directions agree, and mapping, looking up and removing are inverse to each other: after
  a successful explicit mapping both lookups find the partner, lookups of other identifiers are as
  before, and removing the identifier again leaves the pairs as they were.
\<close>

theorem mapper_roundtrip:
  assumes "malloc_ok malloc" and "mapper_inv s" and "explicit_map malloc t i x s = Some (OMCI_API_SUCCESS, s')"
  shows "bi_fwd t i (malloc, s') = Some x \<and> bi_bwd t x (malloc, s') = Some i
    \<and> (\<forall>j. j \<noteq> i \<longrightarrow> bi_fwd t j (malloc, s') = bi_fwd t j (malloc, s))
    \<and> (\<exists>s''. id_remove t i s' = Some (OMCI_API_SUCCESS, s'') \<and> mapper_inv s'' \<and> pairs s'' t = pairs s t)"
proof -
  have inv: "bi_invar (malloc, s)" using assms(1,2) by (simp add: bi_invar_def)
  have put: "bi_put t i x (malloc, s) = Some (malloc, s')" using assms(3) by (simp add: bi_put_def)
  note fwd = mapper_bimap.fwd_put[OF inv put]
  from mapper_bimap.put_rel[OF inv put] have "bi_invar (malloc, s')" by blast
  from mapper_bimap.fwd_bwd[OF this, of t i x] fwd[of i] have "bi_bwd t x (malloc, s') = Some i" by simp
  moreover from mapper_bimap.put_del[OF inv put] obtain ms where "bi_del t i (malloc, s') = Some ms" "bi_invar ms"
      "bi_rel t ms = bi_rel t (malloc, s)"
    by blast
  then have "\<exists>s''. id_remove t i s' = Some (OMCI_API_SUCCESS, s'') \<and> mapper_inv s'' \<and> pairs s'' t = pairs s t"
    by (auto simp: bi_del_def bi_invar_def bi_rel_def split: option.splits omci_api_return.splits)
  ultimately show ?thesis using fwd by simp
qed

theorem mapper_roundtrip_witness:
  "\<exists>s'. explicit_map demo_malloc 0 15 7 demo_ctx = Some (OMCI_API_SUCCESS, s') \<and> bi_fwd 0 15 (demo_malloc, s') = Some 7
     \<and> bi_bwd 0 7 (demo_malloc, s') = Some 15"
proof -
  obtain s' where "explicit_map demo_malloc 0 15 7 demo_ctx = Some (OMCI_API_SUCCESS, s')"
    using explicit_map_ok[OF demo_facts(2) demo_layout, of 0 15 7] demo_facts by auto
  with mapper_roundtrip[OF demo_facts(2,1) this] show ?thesis by blast
qed

text \<open>
  C39: Shutting the mapper down returns and frees every item and every mapper structure. The pointers
  of the table keep their values, so a second shutdown without an initialisation in between accesses
  freed memory. A reset, which initialises again at once, returns with all types of the table empty
  and in their initial ranges, and succeeds when memory is available.
\<close>

theorem mapper_shutdown_and_reset:
  assumes "malloc_ok malloc" and "mapper_reachable malloc s"
  shows "(\<exists>s1. mapper_shutdown s = Some (OMCI_API_SUCCESS, s1) \<and> items s1 = (\<lambda>_. None)
      \<and> (\<forall>t p. mapper_p s t = Some p \<longrightarrow> mappers s1 p = None \<and> mapper_p s1 t = Some p) \<and> mapper_shutdown s1 = None)
    \<and> (\<exists>r s2. omci_api_mapper_reset malloc s = Some (r, s2) \<and> (malloc_total malloc \<and> finite (dom (mappers s)) \<longrightarrow> r = 0)
      \<and> (r = 0 \<longrightarrow> mapper_inv s2 \<and> pairs s2 = (\<lambda>_. {}) \<and> key_range s2 = table_range s m_entry))"
proof (intro conjI)
  from mapper_reachable_inv[OF assms] obtain n where inv: "mapper_inv s" and kr: "key_range s = table_range (zero_ctx n) m_entry" by blast
  have ex: "\<exists>p. mapper_p s 0 = Some p"
  proof -
    have "table_range (zero_ctx n) m_entry 0 KEY_TYPE_INDEX = {0..31}"
      by (simp add: table_range_def table_ranges_def m_entry_def m_entry_a_def mk_entry_def entry_ranges_def run_init_def item_keys_def)
    with range_empty[OF inv, of 0 KEY_TYPE_INDEX] kr show ?thesis by auto
  qed
  from mapper_shutdown_ok[OF inv] obtain s1 where s1: "mapper_shutdown s = Some (OMCI_API_SUCCESS, s1)" "\<forall>a. items s1 a = None"
      "mapper_p s1 = mapper_p s" "\<forall>p. mappers s1 p = None \<longleftrightarrow> mappers s p = None \<or> (\<exists>t. mapper_p s t = Some p)"
    by blast
  from ex obtain p where p: "mapper_p s1 0 = Some p" "mappers s1 p = None" using s1(3,4) by auto
  have "mapper_shutdown s1 = None"
  proof -
    have "shutdown_items 0 s1 = None" using p by (subst shutdown_items.simps) (simp add: item_get_def mapper_get_def)
    moreover have "[0..<MAPPER_IDTYPE_MAX] = 0 # [1..<MAPPER_IDTYPE_MAX]" by (simp add: MAPPER_IDTYPE_MAX_def upt_conv_Cons)
    ultimately show ?thesis using p(1) by (simp add: mapper_shutdown_def)
  qed
  with s1 show "\<exists>s1. mapper_shutdown s = Some (OMCI_API_SUCCESS, s1) \<and> items s1 = (\<lambda>_. None)
      \<and> (\<forall>t p. mapper_p s t = Some p \<longrightarrow> mappers s1 p = None \<and> mapper_p s1 t = Some p) \<and> mapper_shutdown s1 = None"
    by (intro exI[of _ s1]) (auto simp: fun_eq_iff)
  have "\<forall>t. t \<notin> set (table_types m_entry) \<longrightarrow> mapper_p s t = None" using range_empty[OF inv] kr table_range_outside by metis
  from mapper_reset_ok[OF assms(1) inv this] show "\<exists>r s2. omci_api_mapper_reset malloc s = Some (r, s2)
      \<and> (malloc_total malloc \<and> finite (dom (mappers s)) \<longrightarrow> r = 0)
      \<and> (r = 0 \<longrightarrow> mapper_inv s2 \<and> pairs s2 = (\<lambda>_. {}) \<and> key_range s2 = table_range s m_entry)" .
qed

theorem mapper_shutdown_and_reset_witness:
  "\<exists>s s1 s2 r. pairs s MAPPER_TCONT_MEID_TO_IDX = {(5, 3)} \<and> mapper_shutdown s = Some (OMCI_API_SUCCESS, s1) \<and> mapper_shutdown s1 = None
     \<and> omci_api_mapper_reset first_free s = Some (r, s2)"
  using reachable_example mapper_shutdown_and_reset[OF first_free_ok(1)] by blast

text \<open>
  The array functions deliver the keys in increasing order, but the buffer they allocate has one
  octet per key while each key takes four: every successful call for a non-empty mapper writes past
  the end of its buffer.
\<close>

theorem key_array_overflows:
  assumes "mapper_inv s" and "pairs s t \<noteq> {}" and "avail (of_nat (card (pairs s t)))"
  shows "\<exists>a b. index_array_get avail t s = Some (OMCI_API_SUCCESS, Some a, Some (of_nat (card (pairs s t))))
    \<and> id_array_get avail t s = Some (OMCI_API_SUCCESS, Some b, Some (of_nat (card (pairs s t))))
    \<and> stored a = sorted_list_of_set (snd ` pairs s t) \<and> stored b = sorted_list_of_set (fst ` pairs s t)
    \<and> unat (requested a) < 4 * length (stored a) \<and> unat (requested b) < 4 * length (stored b)"
proof -
  from assms(1) obtain L where L: "layout_ok s L" by (auto simp: mapper_inv_def)
  have len: "length (sorted_list_of_set (proj kt ` pairs s t)) = card (pairs s t)" for kt
    using card_image[OF pairs_inj[OF L, of kt t]] by simp
  have "finite (pairs s t)" by (rule finite_subset[OF subset_UNIV]) simp
  then have "0 < card (pairs s t)" using assms(2) by (simp add: card_gt_0_iff)
  moreover have "unat (of_nat (card (pairs s t)) :: u32) \<le> card (pairs s t)" by (simp add: unat_of_nat)
  ultimately have "unat (of_nat (card (pairs s t)) :: u32) < 4 * card (pairs s t)" by linarith
  with key_array_get_ok[where avail = avail, OF L assms(2,3)] len[of KEY_TYPE_ID] len[of KEY_TYPE_INDEX] show ?thesis
    by (simp add: index_array_get_def id_array_get_def)
qed

theorem key_array_overflows_witness:
  "\<exists>a. index_array_get (\<lambda>_. True) 0 demo_ctx = Some (OMCI_API_SUCCESS, Some a, Some 2) \<and> unat (requested a) < 4 * length (stored a)"
proof -
  have "card (pairs demo_ctx 0) = 2" using demo_facts(3) by simp
  moreover have "pairs demo_ctx 0 \<noteq> {}" using demo_facts(3) by simp
  ultimately show ?thesis using key_array_overflows[OF demo_facts(1), of 0 "\<lambda>_. True"] by auto
qed

text \<open>
  The initialisation table has no entry for the IPv6 host configuration, so in every reachable
  state a lookup with that type, which three managed entities use, is an error for every identifier,
  and nothing can be mapped for it.
\<close>

theorem ipv6_host_never_mapped:
  assumes "malloc_ok malloc" and "mapper_reachable malloc s"
  shows "index_get MAPPER_IPV6HOST_MEID_TO_IDX i old s = Some (OMCI_API_ERROR, old)
    \<and> explicit_map malloc MAPPER_IPV6HOST_MEID_TO_IDX i x s = Some (OMCI_API_ERROR, s)"
proof -
  from mapper_reachable_inv[OF assms] obtain n L where L: "layout_ok s L" and kr: "key_range s = table_range (zero_ctx n) m_entry"
    by (auto simp: mapper_inv_def)
  have "MAPPER_IPV6HOST_MEID_TO_IDX \<notin> set (table_types m_entry)" by code_simp
  then have "key_range s MAPPER_IPV6HOST_MEID_TO_IDX KEY_TYPE_ID = {}" using kr table_range_outside by simp
  with index_get_ok(1)[OF L] explicit_map_ok[OF assms(1) L, of MAPPER_IPV6HOST_MEID_TO_IDX i x] show ?thesis by auto
qed

theorem ipv6_host_never_mapped_witness:
  "\<exists>s. mapper_reachable first_free s \<and> index_get MAPPER_IPV6HOST_MEID_TO_IDX 1 0 s = Some (OMCI_API_ERROR, 0)"
  using reachable_example ipv6_host_never_mapped[OF first_free_ok(1)] by blast

end
