(* ===== verification/Ifx_Fifo.thy ===== *)
theory Ifx_Fifo
  imports Gpon_Prelude
begin

text \<open>
  The FIFO library of \<^verbatim>\<open>ifx_fifo.c\<close>, as the OMCI daemon uses it: a FIFO of equal-sized elements and a
  FIFO of elements of variable size with a header and a trailer word. Pointers are word addresses
  (an \<^verbatim>\<open>IFX_ulong_t\<close> is 32 bits wide on the target); the initialisers take octet addresses and check
  their alignment, and callers pass a start not behind the end and a nonzero element size (the source
  divides by it). The debug bookkeeping of the system object has no influence and is left out.
\<close>

section \<open>Data\<close>

record IFX_FIFO =
  pStart :: nat
  pEnd :: nat
  pRead :: nat
  pWrite :: nat
  fsize :: nat
  count :: u32
  max_size :: u32

text \<open>TO_ULONG_SIZE\<close>

definition to_ulong_size :: "nat \<Rightarrow> nat" where
  "to_ulong_size esz = esz div 4 + (if 0 < esz mod 4 then 1 else 0)"

section \<open>Elements of fixed size\<close>

definition INCREMENT_INDEX :: "IFX_FIFO \<Rightarrow> nat \<Rightarrow> nat" where
  "INCREMENT_INDEX f p = (if p = pEnd f then pStart f else p + fsize f)"

definition DECREMENT_INDEX :: "IFX_FIFO \<Rightarrow> nat \<Rightarrow> nat" where
  "DECREMENT_INDEX f p = (if p = pStart f then pEnd f else p - fsize f)"

text \<open>The result is whether the call succeeded, and the structure, which is left half filled on the second kind of error.\<close>

definition IFX_Fifo_Init :: "nat \<Rightarrow> nat \<Rightarrow> nat \<Rightarrow> IFX_FIFO \<Rightarrow> bool \<times> IFX_FIFO" where
  "IFX_Fifo_Init startB endB elSizeB f =
    (if startB mod 4 \<noteq> 0 then (False, f)
     else if endB mod 4 \<noteq> 0 then (False, f)
     else
       let f = f\<lparr>pEnd := endB div 4, pStart := startB div 4, pRead := startB div 4, pWrite := startB div 4,
                 fsize := to_ulong_size elSizeB, count := 0\<rparr>
       in if (pEnd f - pStart f) mod to_ulong_size elSizeB \<noteq> 0 then (False, f)
          else (True, f\<lparr>max_size := 1 + of_nat ((pEnd f - pStart f) div fsize f)\<rparr>))"

definition IFX_Fifo_Clear :: "IFX_FIFO \<Rightarrow> IFX_FIFO" where
  "IFX_Fifo_Clear f = f\<lparr>pRead := pStart f, pWrite := pStart f, count := 0\<rparr>"

definition IFX_Fifo_readElement :: "IFX_FIFO \<Rightarrow> nat option \<times> IFX_FIFO" where
  "IFX_Fifo_readElement f =
    (if count f = 0 then (None, f)
     else (Some (pRead f), f\<lparr>pRead := INCREMENT_INDEX f (pRead f), count := count f - 1\<rparr>))"

definition IFX_Fifo_isEmpty :: "IFX_FIFO \<Rightarrow> bool" where
  "IFX_Fifo_isEmpty f \<longleftrightarrow> count f = 0"

definition IFX_Fifo_isFull :: "IFX_FIFO \<Rightarrow> bool" where
  "IFX_Fifo_isFull f \<longleftrightarrow> max_size f \<le> count f"

definition IFX_Fifo_writeElement :: "IFX_FIFO \<Rightarrow> nat option \<times> IFX_FIFO" where
  "IFX_Fifo_writeElement f =
    (if IFX_Fifo_isFull f then (None, f)
     else (Some (pWrite f), f\<lparr>pWrite := INCREMENT_INDEX f (pWrite f), count := count f + 1\<rparr>))"

definition IFX_Fifo_returnElement :: "IFX_FIFO \<Rightarrow> IFX_FIFO" where
  "IFX_Fifo_returnElement f = f\<lparr>pWrite := DECREMENT_INDEX f (pWrite f), count := count f - 1\<rparr>"

definition IFX_Fifo_getCount :: "IFX_FIFO \<Rightarrow> u32" where
  "IFX_Fifo_getCount f = count f"

section \<open>Elements of variable size\<close>

text \<open>The FIFO and the words of its memory.\<close>

type_synonym vfifo = "IFX_FIFO \<times> (nat \<Rightarrow> u32)"

abbreviation (input) SIZE_TRAILER_VALUE :: u32 where "SIZE_TRAILER_VALUE \<equiv> 0xDEADBEEF"

definition IFX_Var_Fifo_Init :: "nat \<Rightarrow> nat \<Rightarrow> nat \<Rightarrow> IFX_FIFO \<Rightarrow> bool \<times> IFX_FIFO" where
  "IFX_Var_Fifo_Init startB endB maxElSize f =
    (if startB mod 4 \<noteq> 0 then (False, f)
     else if endB mod 4 \<noteq> 0 then (False, f)
     else (True, f\<lparr>pEnd := endB div 4, pStart := startB div 4, pRead := startB div 4, pWrite := startB div 4,
                   fsize := to_ulong_size maxElSize, count := 0, max_size := 0\<rparr>))"

definition IFX_Var_Fifo_Clear :: "IFX_FIFO \<Rightarrow> IFX_FIFO" where
  "IFX_Var_Fifo_Clear f = f\<lparr>pRead := pStart f, pWrite := pStart f, count := 0\<rparr>"

text \<open>Where the next element starts: a marker or a rest too short for an element sends the reader to the start.\<close>

definition vread_pos :: "vfifo \<Rightarrow> nat" where
  "vread_pos = (\<lambda>(f, m). if m (pRead f) = NOT 0 \<or> int (pEnd f) - int (pRead f) \<le> 2 then pStart f else pRead f)"

text \<open>The result is the address of the payload and the size in octets (0 when there is none).\<close>

definition IFX_Var_Fifo_readElement :: "vfifo \<Rightarrow> (nat option \<times> u32) \<times> vfifo" where
  "IFX_Var_Fifo_readElement = (\<lambda>(f, m).
    if pRead f < pStart f \<or> pEnd f < pRead f then ((None, 0), f, m)
    else if count f = 0 then ((None, 0), f, m)
    else
      let p = vread_pos (f, m);
          f = f\<lparr>pRead := p\<rparr>;
          elSizeUL = to_ulong_size (unat (m p))
      in if pEnd f < p + 2 + elSizeUL then ((None, 0), f, m)
         else
           let m = (if m (p + elSizeUL + 1) \<noteq> SIZE_TRAILER_VALUE then m(p + elSizeUL + 1 := NOT 0) else m);
               sz = m p;
               f = f\<lparr>pRead := p + 2 + elSizeUL, count := count f - 1\<rparr>
           in if pRead f < pStart f \<or> pEnd f < pRead f then ((None, sz), f, m)
              else ((Some (p + 1), sz), f, m))"

definition IFX_Var_Fifo_peekElement :: "vfifo \<Rightarrow> (nat option \<times> u32) \<times> vfifo" where
  "IFX_Var_Fifo_peekElement = (\<lambda>(f, m).
    if pRead f < pStart f \<or> pEnd f < pRead f then ((None, 0), f, m)
    else if count f = 0 then ((None, 0), f, m)
    else
      let p = vread_pos (f, m);
          elSizeUL = to_ulong_size (unat (m p))
      in if pEnd f < p + 2 + elSizeUL then ((None, 0), f, m)
         else
           let m = (if m (p + elSizeUL + 1) \<noteq> SIZE_TRAILER_VALUE then m(p + elSizeUL + 1 := NOT 0) else m)
           in ((Some (p + 1), m p), f, m))"

definition IFX_Var_Fifo_isEmpty :: "IFX_FIFO \<Rightarrow> bool" where
  "IFX_Var_Fifo_isEmpty f \<longleftrightarrow> count f = 0"

text \<open>The differences are signed, the result is converted to 32 unsigned bits.\<close>

definition IFX_Var_Fifo_getRoom :: "IFX_FIFO \<Rightarrow> u32" where
  "IFX_Var_Fifo_getRoom f =
    (let diff = int (pWrite f) - int (pRead f) in
     if diff = 0 then
       if count f \<noteq> 0 then 0 else word_of_int (int (pEnd f) - int (pStart f) - 2)
     else if 0 < diff then
       let tailRoom = int (pEnd f) - int (pWrite f) - 2;
           headRoom = int (pRead f) - int (pStart f) - 2
       in word_of_int (if tailRoom < headRoom then headRoom else tailRoom)
     else if - diff \<le> 2 then 0 else word_of_int (- diff - 2))"

definition IFX_Var_Fifo_writeElement :: "u32 \<Rightarrow> vfifo \<Rightarrow> nat option \<times> vfifo" where
  "IFX_Var_Fifo_writeElement elSizeB = (\<lambda>(f, m).
    let elSizeUL = to_ulong_size (unat elSizeB) in
    if pWrite f < pStart f \<or> pEnd f \<le> pWrite f then (None, f, m)
    else if unat (IFX_Var_Fifo_getRoom f) < elSizeUL \<or> fsize f < elSizeUL then (None, f, m)
    else
      let (f, m) =
            (if pRead f \<le> pWrite f \<and> pEnd f - pWrite f < elSizeUL + 1 + 1 then
               (f\<lparr>pWrite := pStart f\<rparr>, if 1 \<le> pEnd f - pWrite f then m(pWrite f := NOT 0) else m)
             else (f, m));
          m = m(pWrite f := elSizeB);
          m = m(pWrite f + elSizeUL + 1 := SIZE_TRAILER_VALUE);
          ret = pWrite f + 1;
          f = f\<lparr>pWrite := pWrite f + elSizeUL + 2\<rparr>;
          f = (if pWrite f = pEnd f then f\<lparr>pWrite := pStart f\<rparr> else f)
      in if pWrite f < pStart f \<or> pEnd f \<le> pWrite f then (None, f, m)
         else (Some ret, f\<lparr>count := count f + 1\<rparr>, m))"

definition IFX_Var_Fifo_isFull :: "IFX_FIFO \<Rightarrow> bool" where
  "IFX_Var_Fifo_isFull f \<longleftrightarrow> unat (IFX_Var_Fifo_getRoom f) < fsize f"

definition IFX_Var_Fifo_getCount :: "IFX_FIFO \<Rightarrow> u32" where
  "IFX_Var_Fifo_getCount f = count f"

section \<open>Abstraction of the fixed FIFO\<close>

text \<open>
  \<^term>\<open>N\<close> slots of \<^term>\<open>sz\<close> words from \<^term>\<open>st\<close> on, with the read slot \<^term>\<open>r\<close>. The memory holds one
  element per slot address: what the client of the FIFO stores at the address it is given.
\<close>

definition fifo_at :: "nat \<Rightarrow> nat \<Rightarrow> nat \<Rightarrow> nat \<Rightarrow> IFX_FIFO \<Rightarrow> bool" where
  "fifo_at N st sz r f \<longleftrightarrow> 0 < sz \<and> r < N \<and> N < 2 ^ 32 \<and> pStart f = st \<and> pEnd f = st + (N - 1) * sz \<and> fsize f = sz
     \<and> max_size f = of_nat N \<and> unat (count f) \<le> N \<and> pRead f = st + r * sz
     \<and> pWrite f = st + ((r + unat (count f)) mod N) * sz"

definition fifo_inv :: "nat \<Rightarrow> nat \<Rightarrow> nat \<Rightarrow> IFX_FIFO \<times> (nat \<Rightarrow> 'a) \<Rightarrow> bool" where
  "fifo_inv N st sz s \<longleftrightarrow> fifo_at N st sz ((pRead (fst s) - st) div sz) (fst s)"

definition fifo_list :: "nat \<Rightarrow> nat \<Rightarrow> nat \<Rightarrow> IFX_FIFO \<times> (nat \<Rightarrow> 'a) \<Rightarrow> 'a list" where
  "fifo_list N st sz = (\<lambda>(f, m).
    map (\<lambda>i. m (st + (((pRead f - st) div sz + i) mod N) * sz)) [0..<unat (count f)])"

text \<open>A client's write and read: get a slot and store the element, or get the oldest slot and load it.\<close>

definition fifo_push :: "'a \<Rightarrow> IFX_FIFO \<times> (nat \<Rightarrow> 'a) \<Rightarrow> IFX_FIFO \<times> (nat \<Rightarrow> 'a)" where
  "fifo_push x = (\<lambda>(f, m). case IFX_Fifo_writeElement f of (None, f) \<Rightarrow> (f, m) | (Some p, f) \<Rightarrow> (f, m(p := x)))"

definition fifo_pop :: "IFX_FIFO \<times> (nat \<Rightarrow> 'a) \<Rightarrow> ('a \<times> IFX_FIFO \<times> (nat \<Rightarrow> 'a)) option" where
  "fifo_pop = (\<lambda>(f, m). case IFX_Fifo_readElement f of (None, f) \<Rightarrow> None | (Some p, f) \<Rightarrow> Some (m p, f, m))"

section \<open>Lemmas on the fixed FIFO\<close>

lemma increment_slot:
  assumes "pStart f = st" "pEnd f = st + (N - 1) * sz" "fsize f = sz" "0 < sz" "k < N"
  shows "INCREMENT_INDEX f (st + k * sz) = st + (Suc k mod N) * sz"
  using assms by (cases "Suc k = N") (auto simp: INCREMENT_INDEX_def)

lemma decrement_slot:
  assumes "pStart f = st" "pEnd f = st + (N - 1) * sz" "fsize f = sz" "0 < sz" "k < N"
  shows "DECREMENT_INDEX f (st + (Suc k mod N) * sz) = st + k * sz"
  using assms by (cases "Suc k = N") (auto simp: DECREMENT_INDEX_def)

lemma slot_index: "0 < sz \<Longrightarrow> (st + k * sz - st) div sz = k" for st k sz :: nat
  by simp

lemma fifo_inv_at: "fifo_inv N st sz (f, m) \<Longrightarrow> fifo_at N st sz ((pRead f - st) div sz) f"
  by (simp add: fifo_inv_def)

lemma at_fifo_inv: "fifo_at N st sz r f \<Longrightarrow> fifo_inv N st sz (f, m)"
  by (auto simp: fifo_inv_def fifo_at_def)

lemma fifo_list_at:
  "fifo_at N st sz r f \<Longrightarrow> fifo_list N st sz (f, m) = map (\<lambda>i. m (st + ((r + i) mod N) * sz)) [0..<unat (count f)]"
  by (simp add: fifo_list_def fifo_at_def)

lemma unat_Suc: "unat c < n \<Longrightarrow> n < 2 ^ 32 \<Longrightarrow> unat (c + 1 :: u32) = Suc (unat c)"
  by (simp add: unat_word_ariths)

lemma unat_pred: "c \<noteq> 0 \<Longrightarrow> unat (c - 1 :: u32) = unat c - 1"
  by (simp add: unat_minus_one)

lemma full_iff: "fifo_at N st sz r f \<Longrightarrow> IFX_Fifo_isFull f \<longleftrightarrow> unat (count f) = N"
  by (auto simp: IFX_Fifo_isFull_def fifo_at_def word_le_nat_alt unat_of_nat)

lemma write_at:
  assumes "fifo_at N st sz r f" "unat (count f) < N"
  shows "\<exists>f'. IFX_Fifo_writeElement f = (Some (st + ((r + unat (count f)) mod N) * sz), f')
    \<and> fifo_at N st sz r f' \<and> unat (count f') = Suc (unat (count f))"
proof -
  have "INCREMENT_INDEX f (pWrite f) = st + (Suc (r + unat (count f)) mod N) * sz"
    using assms increment_slot[of f st N sz "(r + unat (count f)) mod N"] by (simp add: fifo_at_def mod_Suc_eq)
  moreover have "unat (count f + 1) = Suc (unat (count f))"
    using assms by (intro unat_Suc[of _ N]) (auto simp: fifo_at_def)
  ultimately show ?thesis
    using assms full_iff[OF assms(1)] by (simp add: IFX_Fifo_writeElement_def fifo_at_def)
qed

lemma read_at:
  assumes "fifo_at N st sz r f" "count f \<noteq> 0"
  shows "\<exists>f'. IFX_Fifo_readElement f = (Some (st + r * sz), f')
    \<and> fifo_at N st sz (Suc r mod N) f' \<and> unat (count f) = Suc (unat (count f'))"
proof -
  have "INCREMENT_INDEX f (pRead f) = st + (Suc r mod N) * sz"
    using assms increment_slot[of f st N sz r] by (simp add: fifo_at_def)
  moreover have "unat (count f) = Suc (unat (count f - 1))"
    using assms(2) by (simp add: unat_pred unat_gt_0)
  ultimately show ?thesis
    using assms by (auto simp: IFX_Fifo_readElement_def fifo_at_def mod_simps)
qed

lemma slot_neq: "0 < sz \<Longrightarrow> i < n \<Longrightarrow> n < N \<Longrightarrow> (r + i) mod N * sz \<noteq> (r + n) mod N * sz" for N :: nat
proof -
  assume "0 < sz" "i < n" "n < N"
  moreover have "(r + i) mod N \<noteq> (r + n) mod N"
  proof
    assume "(r + i) mod N = (r + n) mod N"
    then have "N dvd n - i" using \<open>i < n\<close> by (metis add_diff_cancel_left mod_eq_dvd_iff_nat nat_add_left_cancel_le less_imp_le)
    with \<open>i < n\<close> \<open>n < N\<close> show False by (metis dvd_imp_le less_imp_diff_less not_less zero_less_diff)
  qed
  ultimately show ?thesis by simp
qed

lemma push_at:
  assumes "fifo_at N st sz r f" "unat (count f) < N"
  shows "fifo_list N st sz (fifo_push x (f, m)) = fifo_list N st sz (f, m) @ [x] \<and> fifo_inv N st sz (fifo_push x (f, m))"
proof -
  let ?n = "unat (count f)"
  obtain f' where w: "IFX_Fifo_writeElement f = (Some (st + ((r + ?n) mod N) * sz), f')"
    and f': "fifo_at N st sz r f'" "unat (count f') = Suc ?n"
    using write_at[OF assms] by blast
  have sz: "0 < sz" using assms(1) by (simp add: fifo_at_def)
  have "map (\<lambda>i. (m(st + (r + ?n) mod N * sz := x)) (st + (r + i) mod N * sz)) [0..<?n] =
      map (\<lambda>i. m (st + (r + i) mod N * sz)) [0..<?n]"
    using slot_neq[OF sz _ assms(2)] by (intro map_cong) auto
  then show ?thesis
    using f' by (auto simp: fifo_push_def w fifo_list_at[OF f'(1)] fifo_list_at[OF assms(1)] intro: at_fifo_inv)
qed

lemma pop_at:
  assumes "fifo_at N st sz r f" "fifo_pop (f, m) = Some (x, s')"
  shows "fifo_list N st sz (f, m) = x # fifo_list N st sz s' \<and> fifo_inv N st sz s'"
proof -
  have "count f \<noteq> 0" using assms(2) by (auto simp: fifo_pop_def IFX_Fifo_readElement_def)
  with assms(1) obtain f' where rd: "IFX_Fifo_readElement f = (Some (st + r * sz), f')"
    and f': "fifo_at N st sz (Suc r mod N) f'" "unat (count f) = Suc (unat (count f'))"
    using read_at by blast
  have s': "x = m (st + r * sz)" "s' = (f', m)" using assms(2) by (auto simp: fifo_pop_def rd)
  have "r mod N = r" using assms(1) by (simp add: fifo_at_def)
  then show ?thesis
    using f' unfolding s' by (auto simp: fifo_list_at[OF f'(1)] fifo_list_at[OF assms(1)] map_upt_Suc mod_simps
        intro: at_fifo_inv simp del: upt_Suc)
qed

interpretation ifx_fifo: bounded_fifo "fifo_inv N st sz" "fifo_list N st sz" fifo_push fifo_pop N "\<lambda>_. True"
proof
  fix s :: "IFX_FIFO \<times> (nat \<Rightarrow> 'a)" and x :: 'a
  assume i: "fifo_inv N st sz s"
  obtain f m where s: "s = (f, m)" by (cases s)
  note at = i[unfolded s, THEN fifo_inv_at]
  let ?r = "(pRead f - st) div sz"
  have len: "length (fifo_list N st sz s) = unat (count f)" by (simp add: s fifo_list_def)
  have le: "unat (count f) \<le> N" using at by (simp add: fifo_at_def)
  show "length (fifo_list N st sz s) \<le> N" using len le by simp
  show "fifo_inv N st sz (fifo_push x s)"
    using push_at[OF at, THEN conjunct2, of x m] full_iff[OF at] le i
    by (cases "unat (count f) = N") (simp_all add: s, simp add: fifo_push_def IFX_Fifo_writeElement_def)
  show "fifo_list N st sz (fifo_push x s) = fifo_list N st sz s @ [x]" if "length (fifo_list N st sz s) < N"
    using that push_at[OF at, of x m] len s by simp
  show "(fifo_pop s = None) = (fifo_list N st sz s = [])"
    by (auto simp: s fifo_pop_def IFX_Fifo_readElement_def fifo_list_def unat_eq_0)
  show "fifo_list N st sz s = y # fifo_list N st sz s' \<and> fifo_inv N st sz s'" if "fifo_pop s = Some (y, s')" for y s'
    using pop_at[OF at, of m y] that s by simp
qed

lemma init_at:
  assumes "IFX_Fifo_Init startB endB elSizeB f0 = (True, f)" "0 < elSizeB" "startB \<le> endB" "endB < 2 ^ 32"
  shows "fifo_at (1 + (endB div 4 - startB div 4) div to_ulong_size elSizeB) (startB div 4) (to_ulong_size elSizeB) 0 f"
proof -
  define sz where "sz = to_ulong_size elSizeB"
  define n where "n = (endB div 4 - startB div 4) div sz"
  have pos: "0 < sz" using assms(2) by (auto simp: sz_def to_ulong_size_def)
  have d: "(endB div 4 - startB div 4) mod sz = 0"
    and f: "f = f0\<lparr>pEnd := endB div 4, pStart := startB div 4, pRead := startB div 4, pWrite := startB div 4,
                 fsize := sz, count := 0, max_size := 1 + of_nat n\<rparr>"
    using assms(1) by (auto simp: IFX_Fifo_Init_def Let_def sz_def n_def split: if_splits)
  have "n \<le> endB div 4 - startB div 4" unfolding n_def by (rule div_le_dividend)
  then have "n \<le> endB div 4" by simp
  then have n: "Suc n < 2 ^ 32" using assms(4) by simp
  have "n * sz = endB div 4 - startB div 4" using d unfolding n_def by (simp add: mod_eq_0_iff_dvd)
  moreover have "startB div 4 \<le> endB div 4" using assms(3) by (rule div_le_mono)
  ultimately have e: "endB div 4 = startB div 4 + n * sz" by simp
  show ?thesis
    unfolding fifo_at_def sz_def[symmetric] n_def[symmetric] f using pos n e by simp
qed

section \<open>Properties of the fixed FIFO\<close>

text \<open>
  After a successful initialisation the FIFO is a bounded queue: any list of elements that fits into
  its slots, written one after the other, is read back in the same order; a write to a full FIFO and a
  read from an empty one return NULL and change nothing.
\<close>

theorem ifx_fifo_order:
  assumes "IFX_Fifo_Init startB endB elSizeB f0 = (True, f)" "0 < elSizeB" "startB \<le> endB" "endB < 2 ^ 32"
    and "length xs \<le> 1 + (endB div 4 - startB div 4) div to_ulong_size elSizeB"
  shows "fst (ifx_fifo.pop_n (length xs) (ifx_fifo.push_all xs (f, m))) = xs
    \<and> (IFX_Fifo_isFull g \<longrightarrow> IFX_Fifo_writeElement g = (None, g))
    \<and> (IFX_Fifo_isEmpty g \<longrightarrow> IFX_Fifo_readElement g = (None, g))"
proof -
  have "fifo_list N (startB div 4) (to_ulong_size elSizeB) (f, m) = []" for N
    using assms(1) by (auto simp: fifo_list_def IFX_Fifo_Init_def Let_def split: if_splits)
  from ifx_fifo.fifo_order[OF at_fifo_inv[OF init_at[OF assms(1-4)]] _ this assms(5)] show ?thesis
    by (simp add: list_all_iff IFX_Fifo_writeElement_def IFX_Fifo_isEmpty_def IFX_Fifo_readElement_def)
qed

lemma ifx_fifo_order_witness:
  "fst (ifx_fifo.pop_n (length [7, 9 :: nat]) (ifx_fifo.push_all [7, 9 :: nat] (snd (IFX_Fifo_Init 0x100 0x108 4
      \<lparr>pStart = 0, pEnd = 0, pRead = 0, pWrite = 0, fsize = 0, count = 0, max_size = 0\<rparr>), \<lambda>_. 0))) = [7, 9]"
  by (rule ifx_fifo_order[where startB = "0x100" and endB = "0x108" and elSizeB = 4 and
      ?f0.0 = "\<lparr>pStart = 0, pEnd = 0, pRead = 0, pWrite = 0, fsize = 0, count = 0, max_size = 0\<rparr>", THEN conjunct1])
    (simp_all add: IFX_Fifo_Init_def to_ulong_size_def Let_def)

text \<open>Returning an element undoes the write that obtained it, for every FIFO in a consistent state that is not full.\<close>

theorem ifx_fifo_return_undoes:
  assumes "fifo_inv N st sz (f, m)" "IFX_Fifo_writeElement f = (Some p, f')"
  shows "IFX_Fifo_returnElement f' = f"
proof -
  note at = assms(1)[THEN fifo_inv_at]
  have nf: "\<not> IFX_Fifo_isFull f" using assms(2) by (auto simp: IFX_Fifo_writeElement_def)
  let ?k = "((pRead f - st) div sz + unat (count f)) mod N"
  have "0 < N" using at by (simp add: fifo_at_def)
  then have "DECREMENT_INDEX f' (INCREMENT_INDEX f (pWrite f)) = pWrite f"
    using at nf assms(2) increment_slot[of f st N sz ?k] decrement_slot[of f' st N sz ?k]
    by (auto simp: fifo_at_def IFX_Fifo_writeElement_def)
  with assms(2) nf show ?thesis by (auto simp: IFX_Fifo_writeElement_def IFX_Fifo_returnElement_def)
qed

lemma ifx_fifo_return_undoes_witness:
  "IFX_Fifo_returnElement \<lparr>pStart = 0, pEnd = 2, pRead = 0, pWrite = 1, fsize = 1, count = 1, max_size = 3\<rparr> =
    \<lparr>pStart = 0, pEnd = 2, pRead = 0, pWrite = 0, fsize = 1, count = 0, max_size = 3\<rparr>"
  by (rule ifx_fifo_return_undoes[where N = 3 and st = 0 and sz = 1 and p = 0 and m = "\<lambda>_. ()"])
    (simp_all add: fifo_inv_def fifo_at_def IFX_Fifo_writeElement_def IFX_Fifo_isFull_def INCREMENT_INDEX_def)

end
