(* ===== verification/Ifx_Vfifo.thy ===== *)
theory Ifx_Vfifo
  imports Ifx_Fifo
begin

text \<open>
  The variable-size FIFO of \<^verbatim>\<open>ifx_fifo.c\<close> as the daemon uses it, with elements of one size: it refines
  a bounded queue as long as the memory is not a multiple of the element, nor one word more. The remaining section
  shows what goes wrong otherwise.
\<close>

section \<open>Abstraction\<close>

text \<open>
  \<^term>\<open>N\<close> slots of a header, \<^term>\<open>k\<close> payload words and a trailer, from \<^term>\<open>S\<close> on, and \<^term>\<open>rem\<close> words
  behind the last slot. Read and write position are slot numbers up to \<^term>\<open>N\<close>.
\<close>

definition vslot :: "nat \<Rightarrow> nat \<Rightarrow> nat \<Rightarrow> nat" where
  "vslot S k i = S + i * (k + 2)"

definition vwpos :: "nat \<Rightarrow> nat \<Rightarrow> nat \<Rightarrow> nat" where
  "vwpos N r c = (if r + c \<le> N then r + c else r + c - N)"

definition vslot_ok :: "nat \<Rightarrow> (nat \<Rightarrow> u32) \<Rightarrow> nat \<Rightarrow> bool" where
  "vslot_ok k m b \<longleftrightarrow> to_ulong_size (unat (m b)) = k \<and> m b \<noteq> NOT 0 \<and> m (b + k + 1) = SIZE_TRAILER_VALUE"

definition vat :: "nat \<Rightarrow> nat \<Rightarrow> nat \<Rightarrow> nat \<Rightarrow> nat \<Rightarrow> vfifo \<Rightarrow> bool" where
  "vat N k S rem r = (\<lambda>(f, m).
    0 < N \<and> 0 < k \<and> k \<le> fsize f \<and> 2 \<le> rem \<and> rem < k + 2 \<and> pStart f = S \<and> pEnd f = vslot S k N + rem \<and> pEnd f < 2 ^ 30
    \<and> r \<le> N \<and> unat (count f) \<le> N \<and> pRead f = vslot S k r \<and> pWrite f = vslot S k (vwpos N r (unat (count f)))
    \<and> (0 < unat (count f) \<longrightarrow> N < r + unat (count f) \<longrightarrow> m (vslot S k N) = NOT 0)
    \<and> (\<forall>i < unat (count f). vslot_ok k m (vslot S k ((r + i) mod N))))"

definition vinv :: "nat \<Rightarrow> nat \<Rightarrow> nat \<Rightarrow> nat \<Rightarrow> vfifo \<Rightarrow> bool" where
  "vinv N k S rem s \<longleftrightarrow> vat N k S rem ((pRead (fst s) - S) div (k + 2)) s"

text \<open>An element: its size in octets and its payload words.\<close>

definition velem :: "nat \<Rightarrow> (nat \<Rightarrow> u32) \<Rightarrow> nat \<Rightarrow> u32 \<times> u32 list" where
  "velem k m b = (m b, map m [b + 1..<b + 1 + k])"

definition vlist :: "nat \<Rightarrow> nat \<Rightarrow> nat \<Rightarrow> vfifo \<Rightarrow> (u32 \<times> u32 list) list" where
  "vlist N k S = (\<lambda>(f, m). map (\<lambda>i. velem k m (vslot S k (((pRead f - S) div (k + 2) + i) mod N))) [0..<unat (count f)])"

definition velem_fits :: "nat \<Rightarrow> u32 \<times> u32 list \<Rightarrow> bool" where
  "velem_fits k e \<longleftrightarrow> to_ulong_size (unat (fst e)) = k \<and> fst e \<noteq> NOT 0 \<and> length (snd e) = k"

text \<open>The client fills the payload it is given, and copies the payload it gets.\<close>

definition vblit :: "nat \<Rightarrow> u32 list \<Rightarrow> (nat \<Rightarrow> u32) \<Rightarrow> nat \<Rightarrow> u32" where
  "vblit p ws m a = (if p \<le> a \<and> a < p + length ws then ws ! (a - p) else m a)"

definition vpush :: "u32 \<times> u32 list \<Rightarrow> vfifo \<Rightarrow> vfifo" where
  "vpush e s = (case IFX_Var_Fifo_writeElement (fst e) s of
     (None, s') \<Rightarrow> s' | (Some p, f, m) \<Rightarrow> (f, vblit p (snd e) m))"

definition vpop :: "vfifo \<Rightarrow> ((u32 \<times> u32 list) \<times> vfifo) option" where
  "vpop s = (case IFX_Var_Fifo_readElement s of
     ((None, _), s') \<Rightarrow> None | ((Some p, sz), f, m) \<Rightarrow> Some ((sz, map m [p..<p + to_ulong_size (unat sz)]), f, m))"

text \<open>The memory after an element was written to slot \<^term>\<open>s\<close>.\<close>

definition vwritten :: "nat \<Rightarrow> nat \<Rightarrow> nat \<Rightarrow> nat \<Rightarrow> nat \<Rightarrow> u32 \<Rightarrow> u32 list \<Rightarrow> (nat \<Rightarrow> u32) \<Rightarrow> nat \<Rightarrow> u32" where
  "vwritten N k S w s sz ws m =
    vblit (vslot S k s + 1) ws (((if w = N then m(vslot S k N := NOT 0) else m)(vslot S k s := sz))
      (vslot S k s + k + 1 := SIZE_TRAILER_VALUE))"

section \<open>Positions\<close>

lemma vslot_less: "i < j \<Longrightarrow> vslot S k i + k + 2 \<le> vslot S k j"
proof -
  assume "i < j"
  then have "(i + 1) * (k + 2) \<le> j * (k + 2)" by (intro mult_right_mono) simp_all
  then show ?thesis by (simp add: vslot_def)
qed

lemma vslot_mono: "i \<le> j \<Longrightarrow> vslot S k i \<le> vslot S k j"
  unfolding vslot_def by (intro add_left_mono mult_right_mono) simp_all

lemma vslot_inj [simp]: "vslot S k i = vslot S k j \<longleftrightarrow> i = j"
  using vslot_less[of i j S k] vslot_less[of j i S k] by (cases i j rule: linorder_cases) auto

lemma vslot_lt: "vslot S k i < vslot S k j \<longleftrightarrow> i < j"
  using vslot_less[of i j S k] vslot_mono[of j i S k] by (cases "i < j") auto

lemma vslot_le: "vslot S k i \<le> vslot S k j \<longleftrightarrow> i \<le> j"
  by (meson linorder_not_less vslot_lt)

lemma vslot_index [simp]: "(vslot S k i - S) div (k + 2) = i"
  unfolding vslot_def by (metis add_diff_cancel_left' add_gr_0 nonzero_mult_div_cancel_right not_gr_zero zero_less_numeral)

lemma vslot_index_Suc [simp]: "(vslot S k i - S) div Suc (Suc k) = i"
  using vslot_index[of S k i] by simp

lemma suc_mod_add: "Suc (r mod N + i) mod N = Suc (r + i) mod N"
  by (metis add_Suc mod_Suc_eq mod_add_left_eq)

lemma vslot_Suc: "vslot S k i + (k + 2) = vslot S k (Suc i)"
  by (simp add: vslot_def)

lemma vslot_0 [simp]: "vslot S k 0 = S"
  by (simp add: vslot_def)

text \<open>Addresses of different slots differ.\<close>

lemma vslot_apart: "i \<noteq> j \<Longrightarrow> a < k + 2 \<Longrightarrow> b < k + 2 \<Longrightarrow> vslot S k i + a \<noteq> vslot S k j + b"
  using vslot_less[of i j S k] vslot_less[of j i S k] by (cases i j rule: linorder_cases) auto

lemma word_of_room: "0 \<le> x \<Longrightarrow> x < 2 ^ 32 \<Longrightarrow> unat (word_of_int x :: u32) = nat x"
  by (simp add: unat_eq_nat_uint unsigned_of_int take_bit_eq_mod)

lemma room_above:
  assumes "pRead f < pWrite f" "pStart f \<le> pRead f" "pWrite f < pEnd f" "pEnd f < 2 ^ 30"
    and "pStart f + 2 \<le> pRead f \<or> pWrite f + 2 \<le> pEnd f"
  shows "unat (IFX_Var_Fifo_getRoom f) = max (pEnd f - pWrite f - 2) (pRead f - pStart f - 2)"
proof -
  have r: "IFX_Var_Fifo_getRoom f = word_of_int (max (int (pEnd f) - int (pWrite f) - 2) (int (pRead f) - int (pStart f) - 2))"
    using assms(1) by (auto simp: IFX_Var_Fifo_getRoom_def Let_def max_def)
  show ?thesis unfolding r by (subst word_of_room) (use assms in \<open>auto simp: max_def\<close>)
qed

lemma room_below:
  assumes "pWrite f + 2 < pRead f" "pRead f < 2 ^ 30"
  shows "unat (IFX_Var_Fifo_getRoom f) = pRead f - pWrite f - 2"
proof -
  have r: "IFX_Var_Fifo_getRoom f = word_of_int (int (pRead f) - int (pWrite f) - 2)"
    using assms(1) by (auto simp: IFX_Var_Fifo_getRoom_def Let_def)
  show ?thesis unfolding r by (subst word_of_room) (use assms in auto)
qed

text \<open>The room the FIFO computes suffices for an element exactly when a slot is free.\<close>

lemma vat_room:
  assumes "vat N k S rem r (f, m)"
  shows "k \<le> unat (IFX_Var_Fifo_getRoom f) \<longleftrightarrow> unat (count f) < N"
proof -
  let ?c = "unat (count f)" and ?w = "vwpos N r (unat (count f))"
  have b: "0 < N" "0 < k" "2 \<le> rem" "rem < k + 2" "r \<le> N" "?c \<le> N"
    and p: "pStart f = S" "pEnd f = vslot S k N + rem" "pRead f = vslot S k r" "pWrite f = vslot S k ?w" "pEnd f < 2 ^ 30"
    using assms by (auto simp: vat_def)
  consider (empty) "?c = 0" | (full0) "?c = N" "r = 0" | (full) "?c = N" "0 < r" | (tail) "0 < ?c" "?c < N" "r + ?c < N"
    | (wrap) "0 < ?c" "?c < N" "r + ?c = N" | (below) "0 < ?c" "?c < N" "N < r + ?c"
    using b by linarith
  then show ?thesis
  proof cases
    case empty
    then have "?w = r" "count f = 0" using b by (auto simp: vwpos_def unat_eq_0)
    then have room: "IFX_Var_Fifo_getRoom f = word_of_int (int (pEnd f) - int S - 2)" using p by (simp add: IFX_Var_Fifo_getRoom_def)
    have "k + 2 \<le> pEnd f - S" using p(2) vslot_less[of 0 N S k] b by simp
    then show ?thesis unfolding room using p(5) empty b by (subst word_of_room) auto
  next
    case full0
    then have w: "?w = N" by (simp add: vwpos_def)
    have "S + k + 2 \<le> vslot S k N" using vslot_less[of 0 N S k] b by simp
    with p w full0 b room_above[of f] show ?thesis by simp
  next
    case full
    then have "?w = r" using b by (simp add: vwpos_def)
    moreover have "count f \<noteq> 0" using full b by (auto simp: unat_eq_0)
    ultimately show ?thesis using p full b by (simp add: IFX_Var_Fifo_getRoom_def)
  next
    case tail
    then have w: "?w = r + ?c" by (simp add: vwpos_def)
    have "vslot S k ?w + k + 2 \<le> vslot S k N" using w tail by (intro vslot_less) simp
    moreover have "vslot S k r < vslot S k ?w" "S \<le> vslot S k r" using w tail by (simp add: vslot_lt, simp add: vslot_def)
    ultimately show ?thesis using p tail b room_above[of f] by simp
  next
    case wrap
    then have w: "?w = N" by (simp add: vwpos_def)
    have "S + k + 2 \<le> vslot S k r" using wrap vslot_less[of 0 r S k] by simp
    moreover have "vslot S k r < vslot S k N" using wrap by (simp add: vslot_lt)
    ultimately show ?thesis using p w wrap b room_above[of f] by simp
  next
    case below
    then have w: "?w < r" using b by (simp add: vwpos_def)
    then have "vslot S k ?w + k + 2 \<le> vslot S k r" by (rule vslot_less)
    moreover have "vslot S k r \<le> vslot S k N" using b by (simp add: vslot_le)
    ultimately show ?thesis using p below b room_below[of f] by simp
  qed
qed

section \<open>Writing\<close>

lemma vwpos_step:
  assumes "r \<le> N" "c < N"
  shows "vwpos N r (Suc c) = Suc ((r + c) mod N)" "vwpos N r c < N \<Longrightarrow> vwpos N r c = (r + c) mod N"
    "vwpos N r c = N \<Longrightarrow> (r + c) mod N = 0" "vwpos N r c \<le> N"
  using assms by (auto simp: vwpos_def mod_wrap split: if_splits)

lemma vwrite_tail:
  assumes "pStart f \<le> pWrite f" "pWrite f + (k + 2) < pEnd f" "to_ulong_size (unat sz) = k"
    and "\<not> unat (IFX_Var_Fifo_getRoom f) < k" "k \<le> fsize f"
  shows "IFX_Var_Fifo_writeElement sz (f, m) = (Some (pWrite f + 1),
    f\<lparr>pWrite := pWrite f + (k + 2), count := count f + 1\<rparr>, m(pWrite f := sz, pWrite f + k + 1 := SIZE_TRAILER_VALUE))"
  using assms by (auto simp: IFX_Var_Fifo_writeElement_def Let_def)

lemma vwrite_wrap:
  assumes "pStart f \<le> pWrite f" "pWrite f < pEnd f" "pRead f \<le> pWrite f" "pEnd f - pWrite f < k + 2"
    and "pStart f + (k + 2) < pEnd f" "to_ulong_size (unat sz) = k"
    and "\<not> unat (IFX_Var_Fifo_getRoom f) < k" "k \<le> fsize f"
  shows "IFX_Var_Fifo_writeElement sz (f, m) = (Some (pStart f + 1),
    f\<lparr>pWrite := pStart f + (k + 2), count := count f + 1\<rparr>,
    m(pWrite f := NOT 0, pStart f := sz, pStart f + k + 1 := SIZE_TRAILER_VALUE))"
  using assms by (auto simp: IFX_Var_Fifo_writeElement_def Let_def)

lemma vpush_eq:
  assumes "vat N k S rem r (f, m)" "unat (count f) < N" "velem_fits k e"
  shows "vpush e (f, m) = (f\<lparr>pWrite := vslot S k (Suc ((r + unat (count f)) mod N)), count := count f + 1\<rparr>,
    vwritten N k S (vwpos N r (unat (count f))) ((r + unat (count f)) mod N) (fst e) (snd e) m)"
proof -
  let ?c = "unat (count f)" and ?w = "vwpos N r (unat (count f))" and ?s = "(r + unat (count f)) mod N"
  have b: "0 < N" "0 < k" "k \<le> fsize f" "2 \<le> rem" "rem < k + 2" "r \<le> N" "?c \<le> N"
    and p: "pStart f = S" "pEnd f = vslot S k N + rem" "pRead f = vslot S k r" "pWrite f = vslot S k ?w"
    using assms(1) by (auto simp: vat_def)
  have k: "to_ulong_size (unat (fst e)) = k" using assms(3) by (simp add: velem_fits_def)
  have room: "\<not> unat (IFX_Var_Fifo_getRoom f) < k" using vat_room[OF assms(1)] assms(2) by simp
  note st = vwpos_step[OF b(6) assms(2)]
  have sN: "?s < N" using b by simp
  then have nxt: "vslot S k (Suc ?s) \<le> vslot S k N" by (simp add: vslot_le)
  have S_le: "S \<le> vslot S k i" for i by (simp add: vslot_def)
  show ?thesis
  proof (cases "?w = N")
    case True
    then have s0: "?s = 0" by (rule st(3))
    have "vslot S k r \<le> vslot S k N" using b by (simp add: vslot_le)
    moreover have "S + (k + 2) = vslot S k (Suc 0)" using vslot_Suc[of S k 0] by simp
    moreover have "vslot S k (Suc 0) \<le> vslot S k N" using nxt s0 by simp
    ultimately have "IFX_Var_Fifo_writeElement (fst e) (f, m) = (Some (S + 1),
        f\<lparr>pWrite := vslot S k (Suc 0), count := count f + 1\<rparr>,
        m(vslot S k N := NOT 0, S := fst e, S + k + 1 := SIZE_TRAILER_VALUE))"
      using vwrite_wrap[of f k "fst e" m] True b p k room S_le[of N] by simp
    then show ?thesis unfolding s0 vpush_def vwritten_def using True by simp
  next
    case False
    then have ws: "?w = ?s" using st(2,4) by auto
    have "vslot S k ?s + (k + 2) = vslot S k (Suc ?s)" by (rule vslot_Suc)
    then have "IFX_Var_Fifo_writeElement (fst e) (f, m) = (Some (vslot S k ?s + 1),
        f\<lparr>pWrite := vslot S k (Suc ?s), count := count f + 1\<rparr>,
        m(vslot S k ?s := fst e, vslot S k ?s + k + 1 := SIZE_TRAILER_VALUE))"
      using vwrite_tail[of f k "fst e" m] ws b p k room nxt S_le[of ?s] by simp
    then show ?thesis unfolding vpush_def vwritten_def using False by simp
  qed
qed

lemma vwritten_other:
  assumes "i \<noteq> s" "i < N" "s < N" "a < k + 2" "length ws = k"
  shows "vwritten N k S w s sz ws m (vslot S k i + a) = m (vslot S k i + a)"
proof -
  have "vslot S k i + a \<noteq> vslot S k s + 0" "vslot S k i + a \<noteq> vslot S k s + (k + 1)"
    using assms by (intro vslot_apart; simp)+
  moreover have "vslot S k i + a \<noteq> vslot S k N"
    using vslot_less[of i N S k] assms by simp
  moreover have "\<not> (vslot S k s + 1 \<le> vslot S k i + a \<and> vslot S k i + a < vslot S k s + 1 + k)"
    using vslot_less[of i s S k] vslot_less[of s i S k] assms by (cases i s rule: linorder_cases) auto
  ultimately show ?thesis
    using assms(5) unfolding vwritten_def vblit_def by auto
qed

lemma vwritten_slot:
  assumes "s < N" "length ws = k"
  shows "vwritten N k S w s sz ws m (vslot S k s) = sz"
    "j < k \<Longrightarrow> vwritten N k S w s sz ws m (vslot S k s + 1 + j) = ws ! j"
    "vwritten N k S w s sz ws m (vslot S k s + k + 1) = SIZE_TRAILER_VALUE"
  using assms by (simp_all add: vwritten_def vblit_def)

lemma vwritten_marker:
  assumes "s < N" "length ws = k"
  shows "vwritten N k S w s sz ws m (vslot S k N) = (if w = N then NOT 0 else m (vslot S k N))"
  using assms vslot_less[of s N S k] by (simp add: vwritten_def vblit_def)

lemma ring_slot_neq: "i < c \<Longrightarrow> c < N \<Longrightarrow> (r + i) mod N \<noteq> (r + c) mod N" for N :: nat
  using slot_neq[of 1 i c N r] by simp

lemma vlist_at:
  "vat N k S rem r (f, m) \<Longrightarrow> vlist N k S (f, m) = map (\<lambda>i. velem k m (vslot S k ((r + i) mod N))) [0..<unat (count f)]"
  by (simp add: vlist_def vat_def)

lemma vat_vinv: "vat N k S rem r s \<Longrightarrow> vinv N k S rem s"
  by (cases s) (simp add: vinv_def vat_def)

lemma vpush_at:
  assumes "vat N k S rem r (f, m)" "unat (count f) < N" "velem_fits k e"
  shows "vat N k S rem r (vpush e (f, m)) \<and> vlist N k S (vpush e (f, m)) = vlist N k S (f, m) @ [e]"
proof -
  let ?c = "unat (count f)" and ?s = "(r + unat (count f)) mod N"
  let ?f = "f\<lparr>pWrite := vslot S k (Suc ?s), count := count f + 1\<rparr>"
  let ?m = "vwritten N k S (vwpos N r ?c) ?s (fst e) (snd e) m"
  have b: "0 < N" "r \<le> N" "pEnd f < 2 ^ 30" "pEnd f = vslot S k N + rem" using assms(1) by (auto simp: vat_def)
  have len: "length (snd e) = k" and sN: "?s < N" using assms(3) b by (auto simp: velem_fits_def)
  have "N \<le> vslot S k N" by (simp add: vslot_def)
  then have "N < 2 ^ 32" using b by simp
  then have c': "unat (count f + 1) = Suc ?c" using assms(2) by (intro unat_Suc[of _ N])
  note slot = vwritten_slot[OF sN len, where S = S and w = "vwpos N r ?c" and sz = "fst e" and m = m]
  have old: "?m (vslot S k ((r + i) mod N) + a) = m (vslot S k ((r + i) mod N) + a)" if "i < ?c" "a < k + 2" for i a
    using that b sN ring_slot_neq[OF that(1) assms(2), of r] len by (intro vwritten_other) auto
  have oks: "vslot_ok k ?m (vslot S k ((r + i) mod N))" if "i < Suc ?c" for i
  proof (cases "i = ?c")
    case True
    with assms(3) slot show ?thesis by (simp add: vslot_ok_def velem_fits_def)
  next
    case False
    with that have "i < ?c" by simp
    moreover from this assms(1) have "vslot_ok k m (vslot S k ((r + i) mod N))" by (simp add: vat_def)
    ultimately show ?thesis using old[of i 0] old[of i "k + 1"] by (simp add: vslot_ok_def)
  qed
  have mark: "?m (vslot S k N) = NOT 0" if "N < r + Suc ?c"
    using that assms(1) b(2) vwritten_marker[OF sN len, of S "vwpos N r ?c" "fst e" m]
    by (cases "r + ?c = N") (auto simp: vwpos_def vat_def)
  have at: "vat N k S rem r (?f, ?m)"
    using assms(1,2) c' oks mark vwpos_step(1)[OF b(2) assms(2)] unfolding vat_def by simp
  have "velem k ?m (vslot S k ((r + i) mod N)) = velem k m (vslot S k ((r + i) mod N))" if "i < ?c" for i
  proof -
    have "map ?m [vslot S k ((r + i) mod N) + 1..<vslot S k ((r + i) mod N) + 1 + k] =
        map m [vslot S k ((r + i) mod N) + 1..<vslot S k ((r + i) mod N) + 1 + k]"
    proof (rule map_cong[OF refl])
      fix a assume "a \<in> set [vslot S k ((r + i) mod N) + 1..<vslot S k ((r + i) mod N) + 1 + k]"
      then obtain j where "a = vslot S k ((r + i) mod N) + j" "j < k + 2" by (auto simp: nat_le_iff_add)
      with old[OF \<open>i < ?c\<close>] show "?m a = m a" by simp
    qed
    with old[OF \<open>i < ?c\<close>, of 0] show ?thesis by (simp add: velem_def)
  qed
  moreover have "map ?m [vslot S k ?s + 1..<vslot S k ?s + 1 + k] = snd e"
    using slot(2) len by (intro nth_equalityI) (simp_all del: upt_Suc)
  then have "velem k ?m (vslot S k ?s) = e"
    using slot(1) by (simp add: velem_def)
  ultimately have "vlist N k S (?f, ?m) = vlist N k S (f, m) @ [e]"
    using c' unfolding vlist_at[OF at] vlist_at[OF assms(1)] by simp
  with at show ?thesis unfolding vpush_eq[OF assms] by simp
qed

section \<open>Reading\<close>

lemma vpop_at:
  assumes "vat N k S rem r (f, m)" "count f \<noteq> 0"
  shows "\<exists>f'. vpop (f, m) = Some (velem k m (vslot S k (r mod N)), f', m) \<and> vat N k S rem (Suc (r mod N)) (f', m)
    \<and> unat (count f) = Suc (unat (count f'))"
proof -
  let ?c = "unat (count f)" and ?s = "r mod N"
  have c: "0 < ?c" using assms(2) by (simp add: unat_gt_0)
  have b: "0 < N" "0 < k" "2 \<le> rem" "r \<le> N" "?c \<le> N" and p: "pStart f = S" "pEnd f = vslot S k N + rem" "pRead f = vslot S k r"
    using assms(1) by (auto simp: vat_def)
  have sN: "?s < N" using b by simp
  have ok: "vslot_ok k m (vslot S k ?s)" using assms(1) c by (auto simp: vat_def)
  have fit: "vslot S k ?s + k + 2 \<le> vslot S k N" using sN by (rule vslot_less)
  have le: "S \<le> vslot S k i" for i by (simp add: vslot_def)
  have rN: "vslot S k r \<le> vslot S k N" using b by (simp add: vslot_le)
  have pos: "vread_pos (f, m) = vslot S k ?s"
  proof (cases "r = N")
    case True
    then have "m (vslot S k N) = NOT 0" using assms(1) c by (auto simp: vat_def)
    with True p show ?thesis by (simp add: vread_pos_def)
  next
    case False
    with b have "?s = r" by simp
    with ok fit p b show ?thesis by (auto simp: vread_pos_def vslot_ok_def)
  qed
  let ?f = "f\<lparr>pRead := vslot S k (Suc ?s), count := count f - 1\<rparr>"
  have nxt: "vslot S k (Suc ?s) = vslot S k ?s + (k + 2)" by (rule vslot_Suc[symmetric])
  have trail: "m (Suc (vslot S k ?s + k)) = SIZE_TRAILER_VALUE" and k: "to_ulong_size (unat (m (vslot S k ?s))) = k"
    using ok by (auto simp: vslot_ok_def)
  have "IFX_Var_Fifo_readElement (f, m) = ((Some (vslot S k ?s + 1), m (vslot S k ?s)), ?f, m)"
    unfolding IFX_Var_Fifo_readElement_def using assms(2) p rN fit le[of r] le[of ?s] nxt pos trail k by (simp add: Let_def)
  then have pop: "vpop (f, m) = Some (velem k m (vslot S k ?s), ?f, m)"
    using k by (simp add: vpop_def velem_def)
  have c': "?c = Suc (unat (count f - 1))" using assms(2) c by (simp add: unat_pred)
  have w: "vwpos N (Suc ?s) (unat (count f - 1)) = vwpos N r ?c"
    using c' b by (cases "r = N") (auto simp: vwpos_def)
  have mod: "(Suc ?s + i) mod N = (r + Suc i) mod N" for i by (simp add: suc_mod_add)
  have oks: "vslot_ok k m (vslot S k ((r + Suc i) mod N))" if "i < unat (count f - 1)" for i
    using that assms(1) c' by (auto simp: vat_def)
  have mark: "m (vslot S k N) = NOT 0" if "0 < unat (count f - 1)" "N < Suc ?s + unat (count f - 1)"
    using that assms(1) c' b by (cases "r = N") (auto simp: vat_def)
  have "vat N k S rem (Suc ?s) (?f, m)"
    using assms(1) c' w mod oks mark Suc_leI[OF sN] unfolding vat_def by (simp del: add_Suc)
  with pop c' show ?thesis by (intro exI[of _ ?f]) simp
qed

interpretation vfifo: bounded_fifo "vinv N k S rem" "vlist N k S" vpush vpop N "velem_fits k"
proof
  fix s e
  assume i: "vinv N k S rem s"
  obtain f m where s: "s = (f, m)" by (cases s)
  define r where "r = (pRead f - S) div (k + 2)"
  have at: "vat N k S rem r (f, m)" using i by (simp add: vinv_def s r_def)
  have len: "length (vlist N k S s) = unat (count f)" by (simp add: s vlist_def)
  have cN: "unat (count f) \<le> N" using at by (simp add: vat_def)
  show "length (vlist N k S s) \<le> N" using len cN by simp
  show "vinv N k S rem (vpush e s)" if "velem_fits k e"
  proof (cases "unat (count f) < N")
    case True
    with vpush_at[OF at True that] s show ?thesis by (auto intro: vat_vinv)
  next
    case False
    then have "unat (IFX_Var_Fifo_getRoom f) < k" using vat_room[OF at] by simp
    with that i s show ?thesis by (simp add: vpush_def IFX_Var_Fifo_writeElement_def velem_fits_def)
  qed
  show "vlist N k S (vpush e s) = vlist N k S s @ [e]" if "velem_fits k e" "length (vlist N k S s) < N"
    using vpush_at[OF at _ that(1)] that len s by simp
  show "(vpop s = None) = (vlist N k S s = [])"
    using vpop_at[OF at] len by (cases "count f = 0")
      (auto simp: s vpop_def IFX_Var_Fifo_readElement_def vlist_def)
  show "vlist N k S s = x # vlist N k S s' \<and> vinv N k S rem s'" if "vpop s = Some (x, s')" for x s'
  proof -
    have "count f \<noteq> 0" using that by (auto simp: s vpop_def IFX_Var_Fifo_readElement_def split: if_splits)
    from vpop_at[OF at this] that obtain f' where s': "s' = (f', m)" "x = velem k m (vslot S k (r mod N))"
      and at': "vat N k S rem (Suc (r mod N)) (f', m)" and c: "unat (count f) = Suc (unat (count f'))"
      by (auto simp: s)
    show ?thesis unfolding s' s vlist_at[OF at] vlist_at[OF at'] c
      using vat_vinv[OF at'] by (simp add: map_upt_Suc suc_mod_add del: upt_Suc)
  qed
qed

lemma vinit_at:
  assumes "IFX_Var_Fifo_Init startB endB maxB f0 = (True, f)" "startB \<le> endB" "endB < 2 ^ 32"
    and "0 < k" "k \<le> to_ulong_size maxB" "N = (endB div 4 - startB div 4) div (k + 2)" "0 < N"
    and "rem = (endB div 4 - startB div 4) mod (k + 2)" "2 \<le> rem"
  shows "vat N k (startB div 4) rem 0 (f, m)"
proof -
  have f: "f = f0\<lparr>pEnd := endB div 4, pStart := startB div 4, pRead := startB div 4, pWrite := startB div 4,
      fsize := to_ulong_size maxB, count := 0, max_size := 0\<rparr>"
    using assms(1) by (auto simp: IFX_Var_Fifo_Init_def split: if_splits)
  have "startB div 4 \<le> endB div 4" using assms(2) by (rule div_le_mono)
  moreover have "N * (k + 2) + rem = endB div 4 - startB div 4"
    unfolding assms(6,8) by (rule div_mult_mod_eq)
  ultimately have "endB div 4 = startB div 4 + N * (k + 2) + rem" by linarith
  then have e: "endB div 4 = vslot (startB div 4) k N + rem" by (simp add: vslot_def)
  have "endB div 4 < 2 ^ 30" using assms(3) by simp
  moreover have "rem < k + 2" using assms(8) by simp
  ultimately show ?thesis
    unfolding vat_def f using assms(4,5,7,9) e by (simp add: vwpos_def)
qed

section \<open>Properties\<close>



text \<open>
  On a memory that is a multiple of the element, or one word more, the same calls lose data: with room
  for one element of one payload word, a second write is accepted although the first element is unread, and
  the next read returns the second element. In the first case the read pointer rests at the end of the
  memory, in the second the free room is computed as a negative number and taken for a huge one.
\<close>

theorem vfifo_overwrites_unread:
  "(let s = vpush (4, [a]) (\<lparr>pStart = 0, pEnd = 3, pRead = 0, pWrite = 0, fsize = 1, count = 0, max_size = 0\<rparr>, m);
        s = vpush (4, [y]) (vpush (4, [x]) (snd (the (vpop s))))
    in unat (count (fst s)) = 2 \<and> fst (the (vpop s)) = (4, [y]))
   \<and> (let s = vpush (4, [y]) (vpush (4, [x]) (\<lparr>pStart = 0, pEnd = 4, pRead = 0, pWrite = 0, fsize = 1, count = 0, max_size = 0\<rparr>, m))
      in unat (count (fst s)) = 2 \<and> fst (the (vpop s)) = (4, [y]))"
  by (simp add: vpush_def vpop_def IFX_Var_Fifo_writeElement_def IFX_Var_Fifo_readElement_def IFX_Var_Fifo_getRoom_def
      vread_pos_def to_ulong_size_def vblit_def unat_gt_0)

end
