(* ===== verification/Omci_Types.thy ===== *)
theory Omci_Types
  imports Gpon_Prelude
begin

text \<open>
  The vocabulary of the OMCI daemon: error codes, attribute and class properties, attribute masks
  and the class descriptions of \<^verbatim>\<open>omci_me.h\<close>. A class is data: function pointers are the names of
  the functions, \<^const>\<open>None\<close> for NULL, and a static function carries the name of its file. The
  layout of the packed attribute structures is a list of fields with their sizes in octets, so that
  \<^verbatim>\<open>offsetof\<close> and \<^verbatim>\<open>sizeof\<close> are computed as the compiler does.
\<close>

named_theorems class_defs \<open>the class descriptions\<close>

section \<open>Enumerations\<close>

datatype omci_error =
    OMCI_SUCCESS | OMCI_ERROR | OMCI_ERROR_BOUNDS | OMCI_ERROR_INVALID_PTR | OMCI_ERROR_MEMORY
  | OMCI_ERROR_LOCK | OMCI_ERROR_INVALID_ME_ACTION | OMCI_ERROR_INVALID_ME_ATTR
  | OMCI_ERROR_ME_NOT_SUPPORTED | OMCI_ERROR_ACTION | OMCI_ERROR_ME_EXISTS | OMCI_ERROR_ME_NOT_FOUND
  | OMCI_ERROR_INVALID_ME_ID | OMCI_ERROR_DRV | OMCI_ERROR_INVALID_VAL | OMCI_ERROR_MSG_FIFO_FULL

datatype omci_attr_type =
    OMCI_ATTR_TYPE_UNKNOWN | OMCI_ATTR_TYPE_PTR | OMCI_ATTR_TYPE_BF | OMCI_ATTR_TYPE_INT
  | OMCI_ATTR_TYPE_UINT | OMCI_ATTR_TYPE_STR | OMCI_ATTR_TYPE_ENUM | OMCI_ATTR_TYPE_TBL

abbreviation (input) OMCI_ATTR_PROP_NONE :: u32 where "OMCI_ATTR_PROP_NONE \<equiv> 0"
abbreviation (input) OMCI_ATTR_PROP_RD :: u32 where "OMCI_ATTR_PROP_RD \<equiv> 0x0001"
abbreviation (input) OMCI_ATTR_PROP_WR :: u32 where "OMCI_ATTR_PROP_WR \<equiv> 0x0002"
abbreviation (input) OMCI_ATTR_PROP_SBC :: u32 where "OMCI_ATTR_PROP_SBC \<equiv> 0x0004"
abbreviation (input) OMCI_ATTR_PROP_AVC :: u32 where "OMCI_ATTR_PROP_AVC \<equiv> 0x0008"
abbreviation (input) OMCI_ATTR_PROP_OPTIONAL :: u32 where "OMCI_ATTR_PROP_OPTIONAL \<equiv> 0x0010"
abbreviation (input) OMCI_ATTR_PROP_NO_UPLOAD :: u32 where "OMCI_ATTR_PROP_NO_UPLOAD \<equiv> 0x0020"
abbreviation (input) OMCI_ATTR_PROP_TABLE :: u32 where "OMCI_ATTR_PROP_TABLE \<equiv> 0x0040"
abbreviation (input) OMCI_ATTR_PROP_NO_SWAP :: u32 where "OMCI_ATTR_PROP_NO_SWAP \<equiv> 0x0080"
abbreviation (input) OMCI_ATTR_PROP_NOT_SUPPORTED :: u32 where "OMCI_ATTR_PROP_NOT_SUPPORTED \<equiv> 0x0100"
abbreviation (input) OMCI_ATTR_PROP_TEMPLATE :: u32 where "OMCI_ATTR_PROP_TEMPLATE \<equiv> 0x0200"
abbreviation (input) OMCI_ATTR_PROP_PARTLY :: u32 where "OMCI_ATTR_PROP_PARTLY \<equiv> 0x0400"

abbreviation (input) OMCI_ME_PROP_NONE :: u32 where "OMCI_ME_PROP_NONE \<equiv> 0"
abbreviation (input) OMCI_ME_PROP_NO_UPLOAD :: u32 where "OMCI_ME_PROP_NO_UPLOAD \<equiv> 0x0001"
abbreviation (input) OMCI_ME_PROP_HAS_ALARMS :: u32 where "OMCI_ME_PROP_HAS_ALARMS \<equiv> 0x0002"
abbreviation (input) OMCI_ME_PROP_HAS_ARC :: u32 where "OMCI_ME_PROP_HAS_ARC \<equiv> 0x0004"
abbreviation (input) OMCI_ME_PROP_PM :: u32 where "OMCI_ME_PROP_PM \<equiv> 0x0008"
abbreviation (input) OMCI_ME_PROP_PM_INTERNAL :: u32 where "OMCI_ME_PROP_PM_INTERNAL \<equiv> 0x0010"
abbreviation (input) OMCI_ME_PROP_REVIEW :: u32 where "OMCI_ME_PROP_REVIEW \<equiv> 0x8000"

abbreviation (input) OMCI_ME_DATA_SIZE_MAX :: nat where "OMCI_ME_DATA_SIZE_MAX \<equiv> 376"
abbreviation (input) OMCI_ATTRIBUTES_NUM :: nat where "OMCI_ATTRIBUTES_NUM \<equiv> 16"
abbreviation (input) OMCI_ALARMS_NUM :: nat where "OMCI_ALARMS_NUM \<equiv> 224"
abbreviation (input) OMCI_ALARM_BITMAP_SIZE :: nat where "OMCI_ALARM_BITMAP_SIZE \<equiv> 28"
abbreviation (input) ACTIONS_NUM :: nat where "ACTIONS_NUM \<equiv> 29"

text \<open>The number of classes of the build: 62 base, 18 PM and 33 customer classes.\<close>

abbreviation (input) OMCI_ME_CLASS_NUM :: nat where "OMCI_ME_CLASS_NUM \<equiv> 62 + 18 + 33"

definition omci_attr2mask :: "nat \<Rightarrow> u16" where
  "omci_attr2mask attr = push_bit (16 - attr) 1"

definition omci_is_ptr_null :: "u16 \<Rightarrow> bool" where
  "omci_is_ptr_null p \<longleftrightarrow> p = 0x0000 \<or> p = 0xFFFF"

section \<open>Packed structures\<close>

type_synonym struct_layout = "(string \<times> nat) list"

fun offsetof :: "struct_layout \<Rightarrow> string \<Rightarrow> nat" where
  "offsetof [] f = 0"
| "offsetof ((g, n) # s) f = (if f = g then 0 else n + offsetof s f)"

fun sizeof :: "struct_layout \<Rightarrow> nat" where
  "sizeof [] = 0"
| "sizeof ((g, n) # s) = n + sizeof s"

section \<open>Managed entity classes\<close>

type_synonym fptr = "string option"

record me_attr =
  offset :: nat
  attr_size :: nat
  attr_prop :: u32
  get_handler :: fptr
  format :: omci_attr_type
  lower_limit :: u64
  upper_limit :: u64
  bit_field :: u32
  code_points :: "u16 list option"

record me_tca =
  thr_num :: nat
  attr_num :: nat
  thr_attr_num :: nat

record me_class =
  class_id :: u16
  attrs :: "me_attr list"
  actions :: "fptr list"
  init_handler :: fptr
  shutdown_handler :: fptr
  validate_handler :: fptr
  update_handler :: fptr
  tbl_copy_handler :: fptr
  tbl_ops_handler :: fptr
  counters_get_handler :: fptr
  thr_set_handler :: fptr
  tca_table :: "me_tca list option"
  data_size :: nat
  class_prop :: u32
  inv_attr_mask :: u16
  opt_attr_mask :: u16
  sbc_attr_mask :: u16
  avc_attr_mask :: u16
  wr_attr_mask :: u16
  vol_attr_mask :: u16

text \<open>The attribute macros; the name and the support argument serve the self description only.\<close>

definition attr_with :: "nat \<Rightarrow> nat \<Rightarrow> u32 \<Rightarrow> fptr \<Rightarrow> omci_attr_type \<Rightarrow> me_attr" where
  "attr_with off sz pr get ty = \<lparr> offset = off, attr_size = sz, attr_prop = pr, get_handler = get, format = ty,
     lower_limit = 0, upper_limit = 0, bit_field = 0, code_points = None \<rparr>"

definition ATTR_PTR :: "u64 \<Rightarrow> u64 \<Rightarrow> nat \<Rightarrow> nat \<Rightarrow> u32 \<Rightarrow> fptr \<Rightarrow> me_attr" where
  "ATTR_PTR lo hi off sz pr get = (attr_with off sz pr get OMCI_ATTR_TYPE_PTR)\<lparr> lower_limit := lo, upper_limit := hi \<rparr>"

definition ATTR_UINT :: "u64 \<Rightarrow> u64 \<Rightarrow> nat \<Rightarrow> nat \<Rightarrow> u32 \<Rightarrow> fptr \<Rightarrow> me_attr" where
  "ATTR_UINT lo hi off sz pr get = (attr_with off sz pr get OMCI_ATTR_TYPE_UINT)\<lparr> lower_limit := lo, upper_limit := hi \<rparr>"

definition ATTR_BOOL :: "nat \<Rightarrow> nat \<Rightarrow> u32 \<Rightarrow> fptr \<Rightarrow> me_attr" where
  "ATTR_BOOL off sz pr get = (attr_with off sz pr get OMCI_ATTR_TYPE_UINT)\<lparr> lower_limit := 0, upper_limit := 1 \<rparr>"

definition ATTR_INT :: "u64 \<Rightarrow> u64 \<Rightarrow> nat \<Rightarrow> nat \<Rightarrow> u32 \<Rightarrow> fptr \<Rightarrow> me_attr" where
  "ATTR_INT lo hi off sz pr get = (attr_with off sz pr get OMCI_ATTR_TYPE_INT)\<lparr> lower_limit := lo, upper_limit := hi \<rparr>"

definition ATTR_STR :: "nat \<Rightarrow> nat \<Rightarrow> u32 \<Rightarrow> fptr \<Rightarrow> me_attr" where
  "ATTR_STR off sz pr get = attr_with off sz (pr OR OMCI_ATTR_PROP_NO_SWAP) get OMCI_ATTR_TYPE_STR"

definition ATTR_ENUM :: "u16 list \<Rightarrow> nat \<Rightarrow> nat \<Rightarrow> u32 \<Rightarrow> fptr \<Rightarrow> me_attr" where
  "ATTR_ENUM cp off sz pr get = (attr_with off sz pr get OMCI_ATTR_TYPE_ENUM)\<lparr> code_points := Some cp \<rparr>"

definition ATTR_BF :: "u32 \<Rightarrow> nat \<Rightarrow> nat \<Rightarrow> u32 \<Rightarrow> fptr \<Rightarrow> me_attr" where
  "ATTR_BF bits off sz pr get = (attr_with off sz pr get OMCI_ATTR_TYPE_BF)\<lparr> bit_field := bits \<rparr>"

definition ATTR_TBL :: "nat \<Rightarrow> nat \<Rightarrow> u32 \<Rightarrow> fptr \<Rightarrow> me_attr" where
  "ATTR_TBL off sz pr get = attr_with off sz
     (pr OR OMCI_ATTR_PROP_TABLE OR OMCI_ATTR_PROP_NO_UPLOAD OR OMCI_ATTR_PROP_NO_SWAP) get OMCI_ATTR_TYPE_TBL"

definition ATTR_NOT_DEF :: me_attr where
  "ATTR_NOT_DEF = attr_with 0 0 OMCI_ATTR_PROP_NONE None OMCI_ATTR_TYPE_UNKNOWN"

definition TCA :: "nat \<Rightarrow> nat \<Rightarrow> nat \<Rightarrow> me_tca" where
  "TCA n a t = \<lparr> thr_num = n, attr_num = a, thr_attr_num = t \<rparr>"

text \<open>
  The initialisers of the attribute and action arrays: entries that are not written are zero. The
  action array is given by its positions that are not NULL.
\<close>

definition attr_array :: "me_attr list \<Rightarrow> me_attr list" where
  "attr_array as = as @ replicate (OMCI_ATTRIBUTES_NUM - length as) ATTR_NOT_DEF"

definition action_array :: "(nat \<times> string) list \<Rightarrow> fptr list" where
  "action_array as = map (map_of as) [0..<ACTIONS_NUM]"

text \<open>A class as its initialiser gives it; the masks are zero until \<^verbatim>\<open>mib_create\<close> fills them in.\<close>

definition mk_class ::
    "u16 \<Rightarrow> me_attr list \<Rightarrow> (nat \<times> string) list \<Rightarrow> fptr \<Rightarrow> fptr \<Rightarrow> fptr \<Rightarrow> fptr \<Rightarrow> fptr \<Rightarrow> fptr \<Rightarrow> fptr \<Rightarrow> fptr
      \<Rightarrow> me_tca list option \<Rightarrow> nat \<Rightarrow> u32 \<Rightarrow> me_class" where
  "mk_class cid as acts ini shut val upd tcopy tops cget tset tca dsz pr =
    \<lparr> class_id = cid, attrs = attr_array as, actions = action_array acts, init_handler = ini,
      shutdown_handler = shut, validate_handler = val, update_handler = upd, tbl_copy_handler = tcopy,
      tbl_ops_handler = tops, counters_get_handler = cget, thr_set_handler = tset, tca_table = tca,
      data_size = dsz, class_prop = pr, inv_attr_mask = 0, opt_attr_mask = 0, sbc_attr_mask = 0,
      avc_attr_mask = 0, wr_attr_mask = 0, vol_attr_mask = 0 \<rparr>"

section \<open>Accessors (omci_me.h)\<close>

definition me_attr_get :: "me_class \<Rightarrow> nat \<Rightarrow> me_attr" where
  "me_attr_get c attr = attrs c ! (attr - 1)"

definition me_attr_size_get :: "me_class \<Rightarrow> nat \<Rightarrow> nat" where
  "me_attr_size_get c attr = attr_size (me_attr_get c attr)"

definition me_attr_prop_get :: "me_class \<Rightarrow> nat \<Rightarrow> u32" where
  "me_attr_prop_get c attr = attr_prop (me_attr_get c attr)"

definition me_attr_offset_get :: "me_class \<Rightarrow> nat \<Rightarrow> nat" where
  "me_attr_offset_get c attr = offset (me_attr_get c attr)"

definition me_attr_get_handler_get :: "me_class \<Rightarrow> nat \<Rightarrow> fptr" where
  "me_attr_get_handler_get c attr = get_handler (me_attr_get c attr)"

definition is_me_attr_exist :: "me_class \<Rightarrow> nat \<Rightarrow> bool" where
  "is_me_attr_exist c attr =
    (if attr < 1 \<or> attr > OMCI_ATTRIBUTES_NUM then False
     else if me_attr_prop_get c attr AND OMCI_ATTR_PROP_NOT_SUPPORTED \<noteq> 0 \<or> me_attr_prop_get c attr = OMCI_ATTR_PROP_NONE
     then False else True)"

definition me_action_handler_get :: "me_class \<Rightarrow> nat \<Rightarrow> omci_error \<times> fptr" where
  "me_action_handler_get c action =
    (if action < 1 \<or> action > 28 then (OMCI_ERROR_INVALID_ME_ACTION, None) else (OMCI_SUCCESS, actions c ! action))"

section \<open>Masks\<close>

definition mask_has :: "u16 \<Rightarrow> nat \<Rightarrow> bool" where
  "mask_has m attr \<longleftrightarrow> m AND omci_attr2mask attr \<noteq> 0"

lemma bit_attr2mask: "bit (omci_attr2mask a) n \<longleftrightarrow> n = 16 - a \<and> n < 16"
  by (auto simp: omci_attr2mask_def push_bit_eq_mult bit_exp_iff)

lemma mask_has_bit: "mask_has m a \<longleftrightarrow> bit m (16 - a)"
proof -
  have "m AND omci_attr2mask a = 0 \<longleftrightarrow> (\<forall>n. \<not> (bit m n \<and> bit (omci_attr2mask a) n))"
    by (auto simp: bit_eq_iff[of _ 0] bit_and_iff bit_attr2mask)
  then show ?thesis by (auto simp: mask_has_def bit_attr2mask dest: bit_imp_le_length)
qed

lemma mask_has_or [simp]: "mask_has (m OR k) a \<longleftrightarrow> mask_has m a \<or> mask_has k a"
  by (simp add: mask_has_bit bit_or_iff)

lemma mask_has_and [simp]: "mask_has (m AND k) a \<longleftrightarrow> mask_has m a \<and> mask_has k a"
  by (simp add: mask_has_bit bit_and_iff)

lemma mask_has_xor [simp]: "mask_has (m XOR k) a \<longleftrightarrow> mask_has m a \<noteq> mask_has k a"
  by (simp add: mask_has_bit bit_xor_iff)

lemma mask_has_0 [simp]: "\<not> mask_has 0 a"
  by (simp add: mask_has_def)

lemma mask_has_not [simp]: "1 \<le> a \<Longrightarrow> mask_has (NOT m) a \<longleftrightarrow> \<not> mask_has m a"
  by (simp add: mask_has_bit bit_not_iff)

lemma mask_has_attr [simp]: "1 \<le> a \<Longrightarrow> a \<le> 16 \<Longrightarrow> 1 \<le> b \<Longrightarrow> b \<le> 16 \<Longrightarrow> mask_has (omci_attr2mask b) a \<longleftrightarrow> a = b"
  by (auto simp: mask_has_bit bit_attr2mask)

text \<open>A mask is the set of attribute numbers it has.\<close>

lemma mask_eqI: "(\<And>a. 1 \<le> a \<Longrightarrow> a \<le> 16 \<Longrightarrow> mask_has m a = mask_has k a) \<Longrightarrow> m = k"
proof (rule bit_word_eqI)
  fix n assume h: "\<And>a. 1 \<le> a \<Longrightarrow> a \<le> 16 \<Longrightarrow> mask_has m a = mask_has k a" and n: "n < LENGTH(16)"
  have "mask_has m (16 - n) = mask_has k (16 - n)" by (rule h) (use n in auto)
  with n show "bit m n = bit k n" by (simp add: mask_has_bit)
qed

lemma mask_zero_iff: "m = 0 \<longleftrightarrow> (\<forall>a. 1 \<le> a \<and> a \<le> 16 \<longrightarrow> \<not> mask_has m a)"
  by (auto intro: mask_eqI)

text \<open>The property of an attribute as its macro gives it.\<close>

lemma attr_prop_macros:
  "attr_prop (ATTR_PTR lo hi off sz pr get) = pr" "attr_prop (ATTR_UINT lo hi off sz pr get) = pr"
  "attr_prop (ATTR_BOOL off sz pr get) = pr" "attr_prop (ATTR_INT lo hi off sz pr get) = pr"
  "attr_prop (ATTR_STR off sz pr get) = pr OR OMCI_ATTR_PROP_NO_SWAP" "attr_prop (ATTR_ENUM cp off sz pr get) = pr"
  "attr_prop (ATTR_BF bits off sz pr get) = pr" "attr_prop ATTR_NOT_DEF = OMCI_ATTR_PROP_NONE"
  "attr_prop (ATTR_TBL off sz pr get) = pr OR OMCI_ATTR_PROP_TABLE OR OMCI_ATTR_PROP_NO_UPLOAD OR OMCI_ATTR_PROP_NO_SWAP"
  by (simp_all add: ATTR_PTR_def ATTR_UINT_def ATTR_BOOL_def ATTR_INT_def ATTR_STR_def ATTR_ENUM_def ATTR_BF_def
      ATTR_NOT_DEF_def ATTR_TBL_def attr_with_def)

lemma attr_array_length: "length as \<le> 16 \<Longrightarrow> length (attr_array as) = 16"
  by (simp add: attr_array_def)

lemma action_array_length [simp]: "length (action_array as) = 29"
  by (simp add: action_array_def)

end
