(* ===== verification/Omci_Classes_A.thy ===== *)
theory Omci_Classes_A
  imports Omci_Types
begin

text \<open>
  Managed entity classes of \<^verbatim>\<open>src/me/\<close>, entries 1 to 28 of the list of supported classes, with the
  layouts of their attribute structures. Attributes that are not defined fill the array up to 16.
\<close>

definition omci_me_ani_g :: struct_layout where
  "omci_me_ani_g = [
    (''sr_indication'', 1), (''total_tcon_num'', 2), (''gem_block_len'', 2), (''piggyback_dba'', 1),
     (''whole_ont_dba_reporting'', 1), (''sf_thr'', 1), (''sd_thr'', 1), (''arc'', 1), (''arc_interval'', 1),
     (''optical_signal_level'', 2), (''lower_optical_thr'', 1), (''upper_optical_thr'', 1),
     (''ont_response_time'', 2), (''transmit_optical_level'', 2), (''lower_transmit_power_thr'', 1),
     (''upper_transmit_power_thr'', 1)]"

definition me_ani_g_class :: me_class where
  [class_defs]: "me_ani_g_class = mk_class 0x107
    [ATTR_BOOL (offsetof omci_me_ani_g ''sr_indication'') 1 OMCI_ATTR_PROP_RD (Some ''omci_ani_g.sr_indication_get''),
     ATTR_UINT 0 0xFFFF (offsetof omci_me_ani_g ''total_tcon_num'') 2 OMCI_ATTR_PROP_RD (Some ''omci_ani_g.total_tcon_num_get''),
     ATTR_UINT 0 0xFFFF (offsetof omci_me_ani_g ''gem_block_len'') 2 (OMCI_ATTR_PROP_RD OR OMCI_ATTR_PROP_WR) (Some ''omci_ani_g.gem_block_len_get''),
     ATTR_ENUM [0, 1, 4] (offsetof omci_me_ani_g ''piggyback_dba'') 1 OMCI_ATTR_PROP_RD None,
     ATTR_UINT 0 0 (offsetof omci_me_ani_g ''whole_ont_dba_reporting'') 1 OMCI_ATTR_PROP_RD None,
     ATTR_UINT 3 8 (offsetof omci_me_ani_g ''sf_thr'') 1 (OMCI_ATTR_PROP_RD OR OMCI_ATTR_PROP_WR) None,
     ATTR_UINT 4 0xA (offsetof omci_me_ani_g ''sd_thr'') 1 (OMCI_ATTR_PROP_RD OR OMCI_ATTR_PROP_WR) None,
     ATTR_BOOL (offsetof omci_me_ani_g ''arc'') 1 (OMCI_ATTR_PROP_RD OR OMCI_ATTR_PROP_WR OR OMCI_ATTR_PROP_AVC OR OMCI_ATTR_PROP_OPTIONAL) None,
     ATTR_UINT 0 0xFF (offsetof omci_me_ani_g ''arc_interval'') 1 (OMCI_ATTR_PROP_RD OR OMCI_ATTR_PROP_WR OR OMCI_ATTR_PROP_OPTIONAL) None,
     ATTR_INT 0 0xFFFF (offsetof omci_me_ani_g ''optical_signal_level'') 2 (OMCI_ATTR_PROP_RD OR OMCI_ATTR_PROP_OPTIONAL) (Some ''omci_ani_g.optical_signal_level_get''),
     ATTR_UINT 0 0xFF (offsetof omci_me_ani_g ''lower_optical_thr'') 1 (OMCI_ATTR_PROP_RD OR OMCI_ATTR_PROP_WR OR OMCI_ATTR_PROP_PARTLY OR OMCI_ATTR_PROP_OPTIONAL) None,
     ATTR_UINT 0 0xFF (offsetof omci_me_ani_g ''upper_optical_thr'') 1 (OMCI_ATTR_PROP_RD OR OMCI_ATTR_PROP_WR OR OMCI_ATTR_PROP_PARTLY OR OMCI_ATTR_PROP_OPTIONAL) None,
     ATTR_UINT 0x84D0 0x8CA0 (offsetof omci_me_ani_g ''ont_response_time'') 2 (OMCI_ATTR_PROP_RD OR OMCI_ATTR_PROP_OPTIONAL) (Some ''omci_ani_g.response_time_get''),
     ATTR_INT 0 0xFFFF (offsetof omci_me_ani_g ''transmit_optical_level'') 2 (OMCI_ATTR_PROP_RD OR OMCI_ATTR_PROP_OPTIONAL) (Some ''omci_ani_g.tx_optical_level_get''),
     ATTR_INT 0 0xFF (offsetof omci_me_ani_g ''lower_transmit_power_thr'') 1 (OMCI_ATTR_PROP_RD OR OMCI_ATTR_PROP_WR OR OMCI_ATTR_PROP_PARTLY OR OMCI_ATTR_PROP_OPTIONAL) None,
     ATTR_INT 0 0xFF (offsetof omci_me_ani_g ''upper_transmit_power_thr'') 1 (OMCI_ATTR_PROP_RD OR OMCI_ATTR_PROP_WR OR OMCI_ATTR_PROP_PARTLY OR OMCI_ATTR_PROP_OPTIONAL) None]
    [(8, ''set_action_handle''), (9, ''get_action_handle''), (18, ''omci_ani_g.test_action_handle'')]
    (Some ''omci_ani_g.me_init'') (Some ''omci_ani_g.me_shutdown'') (Some ''default_me_validate'') (Some ''omci_ani_g.me_update'')
    None None None None
    None (sizeof omci_me_ani_g) (OMCI_ME_PROP_HAS_ALARMS OR OMCI_ME_PROP_HAS_ARC OR OMCI_ME_PROP_REVIEW)"

definition omci_me_cardholder :: struct_layout where
  "omci_me_cardholder = [
    (''actual_plugin_type'', 1), (''expected_plugin_type'', 1), (''expected_port_count'', 1),
     (''expected_equipment_id'', 20), (''actual_equipment_id'', 20), (''protection_profile_ptr'', 1),
     (''invoke_protection_switch'', 1), (''arc'', 1), (''arc_interval'', 1)]"

definition me_cardholder_class :: me_class where
  [class_defs]: "me_cardholder_class = mk_class 5
    [ATTR_ENUM [0, 0x16, 0x17, 0x18, 0x2F, 0xF3, 0xF4, 0xF5, 0xF6, 0xF7, 0xF8, 0xF9, 0x20] (offsetof omci_me_cardholder ''actual_plugin_type'') 1 (OMCI_ATTR_PROP_RD OR OMCI_ATTR_PROP_AVC) None,
     ATTR_ENUM [0, 0x16, 0x17, 0x18, 0x2F, 0xF3, 0xF4, 0xF5, 0xF6, 0xF7, 0xF8, 0xF9, 0x20] (offsetof omci_me_cardholder ''expected_plugin_type'') 1 (OMCI_ATTR_PROP_RD OR OMCI_ATTR_PROP_WR) None,
     ATTR_UINT 0 0xFF (offsetof omci_me_cardholder ''expected_port_count'') 1 (OMCI_ATTR_PROP_RD OR OMCI_ATTR_PROP_OPTIONAL) None,
     ATTR_STR (offsetof omci_me_cardholder ''expected_equipment_id'') 20 (OMCI_ATTR_PROP_RD OR OMCI_ATTR_PROP_OPTIONAL) None,
     ATTR_STR (offsetof omci_me_cardholder ''actual_equipment_id'') 20 (OMCI_ATTR_PROP_RD OR OMCI_ATTR_PROP_AVC OR OMCI_ATTR_PROP_OPTIONAL) None,
     ATTR_PTR 0 0xFFFF (offsetof omci_me_cardholder ''protection_profile_ptr'') 1 (OMCI_ATTR_PROP_RD OR OMCI_ATTR_PROP_TEMPLATE OR OMCI_ATTR_PROP_OPTIONAL) None,
     ATTR_ENUM [0, 1, 2, 3] (offsetof omci_me_cardholder ''invoke_protection_switch'') 1 (OMCI_ATTR_PROP_RD OR OMCI_ATTR_PROP_WR OR OMCI_ATTR_PROP_TEMPLATE OR OMCI_ATTR_PROP_OPTIONAL) None,
     ATTR_BOOL (offsetof omci_me_cardholder ''arc'') 1 (OMCI_ATTR_PROP_RD OR OMCI_ATTR_PROP_WR OR OMCI_ATTR_PROP_AVC OR OMCI_ATTR_PROP_OPTIONAL) None,
     ATTR_UINT 0 0xFF (offsetof omci_me_cardholder ''arc_interval'') 1 (OMCI_ATTR_PROP_RD OR OMCI_ATTR_PROP_WR OR OMCI_ATTR_PROP_OPTIONAL) None]
    [(8, ''set_action_handle''), (9, ''get_action_handle'')]
    (Some ''default_me_init'') (Some ''default_me_shutdown'') (Some ''default_me_validate'') (Some ''omci_cardholder.me_update'')
    None None None None
    None (sizeof omci_me_cardholder) (OMCI_ME_PROP_HAS_ALARMS OR OMCI_ME_PROP_REVIEW)"

definition omci_me_circuit_pack :: struct_layout where
  "omci_me_circuit_pack = [
    (''type'', 1), (''number_of_ports'', 1), (''serial_num'', 8), (''version'', 14), (''vendor_id'', 4),
     (''admin_state'', 1), (''oper_state'', 1), (''bridged_or_ip'', 1), (''equipment_id'', 20),
     (''card_configuration'', 1), (''total_tcont_buffer_num'', 1), (''total_priority_queue_num'', 1),
     (''total_traffic_scheduler_num'', 1), (''power_shed_override'', 4)]"

definition me_circuit_pack_class :: me_class where
  [class_defs]: "me_circuit_pack_class = mk_class 6
    [ATTR_ENUM [0x16, 0x17, 0x18, 0x2F, 0xF3, 0xF4, 0xF5, 0xF6, 0xF7, 0xF8, 0xF9, 0x20] (offsetof omci_me_circuit_pack ''type'') 1 (OMCI_ATTR_PROP_RD OR OMCI_ATTR_PROP_SBC) None,
     ATTR_UINT 0 0xFF (offsetof omci_me_circuit_pack ''number_of_ports'') 1 (OMCI_ATTR_PROP_RD OR OMCI_ATTR_PROP_OPTIONAL) None,
     ATTR_STR (offsetof omci_me_circuit_pack ''serial_num'') 8 OMCI_ATTR_PROP_RD (Some ''omci_circuit_pack.serial_number_get''),
     ATTR_STR (offsetof omci_me_circuit_pack ''version'') 14 OMCI_ATTR_PROP_RD None,
     ATTR_STR (offsetof omci_me_circuit_pack ''vendor_id'') 4 (OMCI_ATTR_PROP_RD OR OMCI_ATTR_PROP_OPTIONAL) None,
     ATTR_BOOL (offsetof omci_me_circuit_pack ''admin_state'') 1 (OMCI_ATTR_PROP_RD OR OMCI_ATTR_PROP_WR OR OMCI_ATTR_PROP_SBC) None,
     ATTR_UINT 0 2 (offsetof omci_me_circuit_pack ''oper_state'') 1 (OMCI_ATTR_PROP_RD OR OMCI_ATTR_PROP_AVC OR OMCI_ATTR_PROP_OPTIONAL) None,
     ATTR_ENUM [0, 1, 2] (offsetof omci_me_circuit_pack ''bridged_or_ip'') 1 (OMCI_ATTR_PROP_RD OR OMCI_ATTR_PROP_WR OR OMCI_ATTR_PROP_OPTIONAL OR OMCI_ATTR_PROP_TEMPLATE) None,
     ATTR_STR (offsetof omci_me_circuit_pack ''equipment_id'') 20 (OMCI_ATTR_PROP_RD OR OMCI_ATTR_PROP_OPTIONAL) None,
     ATTR_UINT 0 2 (offsetof omci_me_circuit_pack ''card_configuration'') 1 (OMCI_ATTR_PROP_RD OR OMCI_ATTR_PROP_WR OR OMCI_ATTR_PROP_SBC OR OMCI_ATTR_PROP_TEMPLATE) None,
     ATTR_UINT 0 0xFF (offsetof omci_me_circuit_pack ''total_tcont_buffer_num'') 1 OMCI_ATTR_PROP_RD None,
     ATTR_UINT 0 0xFF (offsetof omci_me_circuit_pack ''total_priority_queue_num'') 1 OMCI_ATTR_PROP_RD None,
     ATTR_UINT 0 0xFF (offsetof omci_me_circuit_pack ''total_traffic_scheduler_num'') 1 OMCI_ATTR_PROP_RD None,
     ATTR_UINT 0 0xFFFFFFFF (offsetof omci_me_circuit_pack ''power_shed_override'') 4 (OMCI_ATTR_PROP_RD OR OMCI_ATTR_PROP_WR OR OMCI_ATTR_PROP_OPTIONAL OR OMCI_ATTR_PROP_TEMPLATE) None]
    [(8, ''set_action_handle''), (9, ''get_action_handle''), (25, ''reboot_acion_handle'')]
    (Some ''default_me_init'') (Some ''default_me_shutdown'') (Some ''default_me_validate'') (Some ''default_me_update'')
    None None None None
    None (sizeof omci_me_circuit_pack) (OMCI_ME_PROP_HAS_ALARMS OR OMCI_ME_PROP_REVIEW)"

definition omci_dot1p_mapper :: struct_layout where
  "omci_dot1p_mapper = [
    (''tp_ptr'', 2), (''interwork_tp_ptr0'', 2), (''interwork_tp_ptr1'', 2), (''interwork_tp_ptr2'', 2),
     (''interwork_tp_ptr3'', 2), (''interwork_tp_ptr4'', 2), (''interwork_tp_ptr5'', 2),
     (''interwork_tp_ptr6'', 2), (''interwork_tp_ptr7'', 2), (''unmarked_frame_option'', 1),
     (''dscp_to_pbit_mapping'', 24), (''default_pbit_mapping'', 1), (''tp_type'', 1)]"

definition me_dop1p_mapper_class :: me_class where
  [class_defs]: "me_dop1p_mapper_class = mk_class 0x82
    [ATTR_PTR 0 0xFFFF (offsetof omci_dot1p_mapper ''tp_ptr'') 2 (OMCI_ATTR_PROP_RD OR OMCI_ATTR_PROP_WR OR OMCI_ATTR_PROP_SBC) None,
     ATTR_PTR 0 0xFFFF (offsetof omci_dot1p_mapper ''interwork_tp_ptr0'') 2 (OMCI_ATTR_PROP_RD OR OMCI_ATTR_PROP_WR OR OMCI_ATTR_PROP_SBC) None,
     ATTR_PTR 0 0xFFFF (offsetof omci_dot1p_mapper ''interwork_tp_ptr1'') 2 (OMCI_ATTR_PROP_RD OR OMCI_ATTR_PROP_WR OR OMCI_ATTR_PROP_SBC) None,
     ATTR_PTR 0 0xFFFF (offsetof omci_dot1p_mapper ''interwork_tp_ptr2'') 2 (OMCI_ATTR_PROP_RD OR OMCI_ATTR_PROP_WR OR OMCI_ATTR_PROP_SBC) None,
     ATTR_PTR 0 0xFFFF (offsetof omci_dot1p_mapper ''interwork_tp_ptr3'') 2 (OMCI_ATTR_PROP_RD OR OMCI_ATTR_PROP_WR OR OMCI_ATTR_PROP_SBC) None,
     ATTR_PTR 0 0xFFFF (offsetof omci_dot1p_mapper ''interwork_tp_ptr4'') 2 (OMCI_ATTR_PROP_RD OR OMCI_ATTR_PROP_WR OR OMCI_ATTR_PROP_SBC) None,
     ATTR_PTR 0 0xFFFF (offsetof omci_dot1p_mapper ''interwork_tp_ptr5'') 2 (OMCI_ATTR_PROP_RD OR OMCI_ATTR_PROP_WR OR OMCI_ATTR_PROP_SBC) None,
     ATTR_PTR 0 0xFFFF (offsetof omci_dot1p_mapper ''interwork_tp_ptr6'') 2 (OMCI_ATTR_PROP_RD OR OMCI_ATTR_PROP_WR OR OMCI_ATTR_PROP_SBC) None,
     ATTR_PTR 0 0xFFFF (offsetof omci_dot1p_mapper ''interwork_tp_ptr7'') 2 (OMCI_ATTR_PROP_RD OR OMCI_ATTR_PROP_WR OR OMCI_ATTR_PROP_SBC) None,
     ATTR_ENUM [0, 1] (offsetof omci_dot1p_mapper ''unmarked_frame_option'') 1 (OMCI_ATTR_PROP_RD OR OMCI_ATTR_PROP_WR OR OMCI_ATTR_PROP_SBC) None,
     ATTR_STR (offsetof omci_dot1p_mapper ''dscp_to_pbit_mapping'') 24 (OMCI_ATTR_PROP_RD OR OMCI_ATTR_PROP_WR) None,
     ATTR_UINT 0 0xFF (offsetof omci_dot1p_mapper ''default_pbit_mapping'') 1 (OMCI_ATTR_PROP_RD OR OMCI_ATTR_PROP_WR OR OMCI_ATTR_PROP_SBC) None,
     ATTR_ENUM [0, 1, 2, 3, 4, 5, 6] (offsetof omci_dot1p_mapper ''tp_type'') 1 (OMCI_ATTR_PROP_RD OR OMCI_ATTR_PROP_WR OR OMCI_ATTR_PROP_SBC OR OMCI_ATTR_PROP_OPTIONAL OR OMCI_ATTR_PROP_PARTLY) None]
    [(4, ''create_action_handle''), (6, ''delete_action_handle''), (8, ''set_action_handle''), (9, ''get_action_handle'')]
    (Some ''omci_dot1p_mapper.me_init'') (Some ''omci_dot1p_mapper.me_shutdown'') (Some ''omci_dot1p_mapper.me_validate'') (Some ''omci_dot1p_mapper.me_update'')
    None None None None
    None (sizeof omci_dot1p_mapper) (OMCI_ME_PROP_NONE OR OMCI_ME_PROP_REVIEW)"

definition omci_me_dot1p_rate_limiter :: struct_layout where
  "omci_me_dot1p_rate_limiter = [
    (''parent_me_ptr'', 2), (''tp_type'', 1), (''us_unicast_flood_rate_ptr'', 2),
     (''us_broadcast_rate_ptr'', 2), (''us_multicast_payload_rate_ptr'', 2)]"

definition me_dot1p_rate_limiter_class :: me_class where
  [class_defs]: "me_dot1p_rate_limiter_class = mk_class 0x12A
    [ATTR_PTR 0 0xFFFF (offsetof omci_me_dot1p_rate_limiter ''parent_me_ptr'') 2 (OMCI_ATTR_PROP_RD OR OMCI_ATTR_PROP_WR OR OMCI_ATTR_PROP_SBC) None,
     ATTR_ENUM [1, 2] (offsetof omci_me_dot1p_rate_limiter ''tp_type'') 1 (OMCI_ATTR_PROP_RD OR OMCI_ATTR_PROP_WR OR OMCI_ATTR_PROP_SBC) None,
     ATTR_PTR 0 0xFFFF (offsetof omci_me_dot1p_rate_limiter ''us_unicast_flood_rate_ptr'') 2 (OMCI_ATTR_PROP_RD OR OMCI_ATTR_PROP_WR OR OMCI_ATTR_PROP_SBC OR OMCI_ATTR_PROP_OPTIONAL) None,
     ATTR_PTR 0 0xFFFF (offsetof omci_me_dot1p_rate_limiter ''us_broadcast_rate_ptr'') 2 (OMCI_ATTR_PROP_RD OR OMCI_ATTR_PROP_WR OR OMCI_ATTR_PROP_SBC OR OMCI_ATTR_PROP_OPTIONAL OR OMCI_ATTR_PROP_PARTLY) None,
     ATTR_PTR 0 0xFFFF (offsetof omci_me_dot1p_rate_limiter ''us_multicast_payload_rate_ptr'') 2 (OMCI_ATTR_PROP_RD OR OMCI_ATTR_PROP_WR OR OMCI_ATTR_PROP_SBC OR OMCI_ATTR_PROP_OPTIONAL OR OMCI_ATTR_PROP_PARTLY) None]
    [(4, ''create_action_handle''), (6, ''delete_action_handle''), (8, ''set_action_handle''), (9, ''get_action_handle'')]
    (Some ''omci_dot1p_rate_limiter.me_init'') (Some ''omci_dot1p_rate_limiter.me_shutdown'') (Some ''omci_dot1p_rate_limiter.me_validate'') (Some ''omci_dot1p_rate_limiter.me_update'')
    None None None None
    None (sizeof omci_me_dot1p_rate_limiter) (OMCI_ME_PROP_NONE OR OMCI_ME_PROP_REVIEW)"

definition omci_me_equipment_extension_package :: struct_layout where
  "omci_me_equipment_extension_package = [
    (''environmental_sense'', 2), (''contact_closure_output'', 2)]"

definition me_equipment_extension_package_class :: me_class where
  [class_defs]: "me_equipment_extension_package_class = mk_class 0xA0
    [ATTR_BF 0xFFFFFFFF (offsetof omci_me_equipment_extension_package ''environmental_sense'') 2 (OMCI_ATTR_PROP_RD OR OMCI_ATTR_PROP_WR OR OMCI_ATTR_PROP_OPTIONAL OR OMCI_ATTR_PROP_TEMPLATE) None,
     ATTR_BF 0xFFFFFFFF (offsetof omci_me_equipment_extension_package ''contact_closure_output'') 2 (OMCI_ATTR_PROP_RD OR OMCI_ATTR_PROP_WR OR OMCI_ATTR_PROP_OPTIONAL OR OMCI_ATTR_PROP_TEMPLATE) None]
    [(8, ''set_action_handle''), (9, ''get_action_handle'')]
    (Some ''default_me_init'') (Some ''omci_equipment_extension_package.me_shutdown'') (Some ''default_me_validate'') (Some ''omci_equipment_extension_package.me_update'')
    None None None None
    None (sizeof omci_me_equipment_extension_package) (OMCI_ME_PROP_HAS_ALARMS OR OMCI_ME_PROP_REVIEW)"

definition omci_me_extended_vlan_config_data :: struct_layout where
  "omci_me_extended_vlan_config_data = [
    (''association_type'', 1), (''rx_vlan_oper_table_size'', 2), (''input_tp_id'', 2), (''output_tp_id'', 2),
     (''ds_mode'', 1), (''rx_vlan_oper_table'', 16), (''associated_me_ptr'', 2),
     (''dscp_to_pbit_mapping'', 24)]"

definition me_extended_vlan_config_data_class :: me_class where
  [class_defs]: "me_extended_vlan_config_data_class = mk_class 0xAB
    [ATTR_ENUM [0, 1, 2, 3, 4, 5, 6, 7, 8, 9, 0xA] (offsetof omci_me_extended_vlan_config_data ''association_type'') 1 (OMCI_ATTR_PROP_RD OR OMCI_ATTR_PROP_WR OR OMCI_ATTR_PROP_SBC) None,
     ATTR_UINT 0 0xFFFF (offsetof omci_me_extended_vlan_config_data ''rx_vlan_oper_table_size'') 2 OMCI_ATTR_PROP_RD None,
     ATTR_UINT 0 0xFFFF (offsetof omci_me_extended_vlan_config_data ''input_tp_id'') 2 (OMCI_ATTR_PROP_RD OR OMCI_ATTR_PROP_WR) None,
     ATTR_UINT 0 0xFFFF (offsetof omci_me_extended_vlan_config_data ''output_tp_id'') 2 (OMCI_ATTR_PROP_RD OR OMCI_ATTR_PROP_WR) None,
     ATTR_ENUM [0, 1] (offsetof omci_me_extended_vlan_config_data ''ds_mode'') 1 (OMCI_ATTR_PROP_RD OR OMCI_ATTR_PROP_WR) None,
     ATTR_TBL (offsetof omci_me_extended_vlan_config_data ''rx_vlan_oper_table'') 16 (OMCI_ATTR_PROP_RD OR OMCI_ATTR_PROP_WR) None,
     ATTR_PTR 0 0xFFFFFFFF (offsetof omci_me_extended_vlan_config_data ''associated_me_ptr'') 2 (OMCI_ATTR_PROP_RD OR OMCI_ATTR_PROP_WR OR OMCI_ATTR_PROP_SBC) None,
     ATTR_STR (offsetof omci_me_extended_vlan_config_data ''dscp_to_pbit_mapping'') 24 (OMCI_ATTR_PROP_RD OR OMCI_ATTR_PROP_WR OR OMCI_ATTR_PROP_OPTIONAL) None]
    [(4, ''create_action_handle''), (6, ''delete_action_handle''), (8, ''set_action_handle''), (9, ''get_action_handle''), (26, ''get_next_action_handle'')]
    (Some ''omci_extended_vlan_config_data.me_init'') (Some ''omci_extended_vlan_config_data.me_shutdown'') (Some ''omci_extended_vlan_config_data.me_validate'') (Some ''omci_extended_vlan_config_data.me_update'')
    (Some ''omci_extended_vlan_config_data.me_tbl_copy'') None None None
    None (sizeof omci_me_extended_vlan_config_data) (OMCI_ME_PROP_NONE OR OMCI_ME_PROP_REVIEW)"

definition omci_me_gal_ethernet_profile :: struct_layout where
  "omci_me_gal_ethernet_profile = [
    (''max_gem_payload_size'', 2)]"

definition me_gal_ethernet_profile_class :: me_class where
  [class_defs]: "me_gal_ethernet_profile_class = mk_class 0x110
    [ATTR_UINT 0 0xFFFF (offsetof omci_me_gal_ethernet_profile ''max_gem_payload_size'') 2 (OMCI_ATTR_PROP_RD OR OMCI_ATTR_PROP_WR OR OMCI_ATTR_PROP_SBC) None]
    [(4, ''create_action_handle''), (6, ''delete_action_handle''), (8, ''set_action_handle''), (9, ''get_action_handle'')]
    (Some ''omci_gal_ethernet_profile.me_init'') (Some ''omci_gal_ethernet_profile.me_shutdown'') (Some ''default_me_validate'') (Some ''omci_gal_ethernet_profile.me_update'')
    None None None None
    None (sizeof omci_me_gal_ethernet_profile) (OMCI_ME_PROP_NONE OR OMCI_ME_PROP_REVIEW)"

definition omci_me_gem_interworking_tp :: struct_layout where
  "omci_me_gem_interworking_tp = [
    (''gem_port_network_ctp_ptr'', 2), (''interworking_option'', 1), (''service_profile_ptr'', 2),
     (''interworking_tp_ptr'', 2), (''pptp_counter'', 1), (''oper_state'', 1), (''gal_profile_ptr'', 2),
     (''gal_loopback_config'', 1)]"

definition me_gem_interworking_tp_class :: me_class where
  [class_defs]: "me_gem_interworking_tp_class = mk_class 0x10A
    [ATTR_PTR 0 0xFFFF (offsetof omci_me_gem_interworking_tp ''gem_port_network_ctp_ptr'') 2 (OMCI_ATTR_PROP_RD OR OMCI_ATTR_PROP_WR OR OMCI_ATTR_PROP_SBC) None,
     ATTR_ENUM [1, 5, 6] (offsetof omci_me_gem_interworking_tp ''interworking_option'') 1 (OMCI_ATTR_PROP_RD OR OMCI_ATTR_PROP_WR OR OMCI_ATTR_PROP_SBC) None,
     ATTR_PTR 0 0xFFFF (offsetof omci_me_gem_interworking_tp ''service_profile_ptr'') 2 (OMCI_ATTR_PROP_RD OR OMCI_ATTR_PROP_WR OR OMCI_ATTR_PROP_SBC) None,
     ATTR_PTR 0 0xFFFF (offsetof omci_me_gem_interworking_tp ''interworking_tp_ptr'') 2 (OMCI_ATTR_PROP_RD OR OMCI_ATTR_PROP_WR OR OMCI_ATTR_PROP_SBC) None,
     ATTR_UINT 0 0xFF (offsetof omci_me_gem_interworking_tp ''pptp_counter'') 1 (OMCI_ATTR_PROP_RD OR OMCI_ATTR_PROP_OPTIONAL OR OMCI_ATTR_PROP_TEMPLATE) None,
     ATTR_BOOL (offsetof omci_me_gem_interworking_tp ''oper_state'') 1 (OMCI_ATTR_PROP_RD OR OMCI_ATTR_PROP_AVC OR OMCI_ATTR_PROP_OPTIONAL) (Some ''omci_gem_interworking_tp.op_state_get''),
     ATTR_PTR 0 0xFFFF (offsetof omci_me_gem_interworking_tp ''gal_profile_ptr'') 2 (OMCI_ATTR_PROP_RD OR OMCI_ATTR_PROP_WR OR OMCI_ATTR_PROP_SBC OR OMCI_ATTR_PROP_TEMPLATE) None,
     ATTR_ENUM [0, 1] (offsetof omci_me_gem_interworking_tp ''gal_loopback_config'') 1 (OMCI_ATTR_PROP_RD OR OMCI_ATTR_PROP_WR) None]
    [(4, ''create_action_handle''), (6, ''delete_action_handle''), (8, ''set_action_handle''), (9, ''get_action_handle'')]
    (Some ''omci_gem_interworking_tp.me_init'') (Some ''omci_gem_interworking_tp.me_shutdown'') (Some ''omci_gem_interworking_tp.me_validate'') (Some ''omci_gem_interworking_tp.me_update'')
    None None None None
    None (sizeof omci_me_gem_interworking_tp) (OMCI_ME_PROP_HAS_ALARMS OR OMCI_ME_PROP_REVIEW)"

definition omci_me_gem_port_network_ctp :: struct_layout where
  "omci_me_gem_port_network_ctp = [
    (''gem_port_id'', 2), (''tcont_ptr'', 2), (''direction'', 1), (''traffic_management_ptr_us'', 2),
     (''traffic_descriptor_ptr_us'', 2), (''uni_counter'', 1), (''priority_queue_ptr_ds'', 2),
     (''encryption_state'', 1), (''traffic_descriptor_ptr_ds'', 2)]"

definition me_gem_port_network_ctp_class :: me_class where
  [class_defs]: "me_gem_port_network_ctp_class = mk_class 0x10C
    [ATTR_UINT 0 0xFFF (offsetof omci_me_gem_port_network_ctp ''gem_port_id'') 2 (OMCI_ATTR_PROP_RD OR OMCI_ATTR_PROP_WR OR OMCI_ATTR_PROP_SBC) None,
     ATTR_PTR 0 0xFFFF (offsetof omci_me_gem_port_network_ctp ''tcont_ptr'') 2 (OMCI_ATTR_PROP_RD OR OMCI_ATTR_PROP_WR OR OMCI_ATTR_PROP_SBC) None,
     ATTR_ENUM [1, 2, 3] (offsetof omci_me_gem_port_network_ctp ''direction'') 1 (OMCI_ATTR_PROP_RD OR OMCI_ATTR_PROP_WR OR OMCI_ATTR_PROP_SBC) None,
     ATTR_PTR 0 0xFFFF (offsetof omci_me_gem_port_network_ctp ''traffic_management_ptr_us'') 2 (OMCI_ATTR_PROP_RD OR OMCI_ATTR_PROP_WR OR OMCI_ATTR_PROP_SBC) None,
     ATTR_PTR 0 0xFFFF (offsetof omci_me_gem_port_network_ctp ''traffic_descriptor_ptr_us'') 2 (OMCI_ATTR_PROP_RD OR OMCI_ATTR_PROP_WR OR OMCI_ATTR_PROP_SBC OR OMCI_ATTR_PROP_OPTIONAL OR OMCI_ATTR_PROP_TEMPLATE) None,
     ATTR_UINT 0 0 (offsetof omci_me_gem_port_network_ctp ''uni_counter'') 1 (OMCI_ATTR_PROP_RD OR OMCI_ATTR_PROP_NOT_SUPPORTED OR OMCI_ATTR_PROP_OPTIONAL OR OMCI_ATTR_PROP_TEMPLATE) None,
     ATTR_PTR 0 0xFFFF (offsetof omci_me_gem_port_network_ctp ''priority_queue_ptr_ds'') 2 (OMCI_ATTR_PROP_RD OR OMCI_ATTR_PROP_WR OR OMCI_ATTR_PROP_SBC) None,
     ATTR_UINT 0 0 (offsetof omci_me_gem_port_network_ctp ''encryption_state'') 1 (OMCI_ATTR_PROP_RD OR OMCI_ATTR_PROP_NOT_SUPPORTED OR OMCI_ATTR_PROP_OPTIONAL OR OMCI_ATTR_PROP_TEMPLATE) None,
     ATTR_PTR 0 0xFFFF (offsetof omci_me_gem_port_network_ctp ''traffic_descriptor_ptr_ds'') 2 (OMCI_ATTR_PROP_RD OR OMCI_ATTR_PROP_WR OR OMCI_ATTR_PROP_SBC OR OMCI_ATTR_PROP_OPTIONAL) None]
    [(4, ''create_action_handle''), (6, ''delete_action_handle''), (8, ''set_action_handle''), (9, ''get_action_handle'')]
    (Some ''omci_gem_port_network_ctp.me_init'') (Some ''omci_gem_port_network_ctp.me_shutdown'') (Some ''omci_gem_port_network_ctp.me_validate'') (Some ''omci_gem_port_network_ctp.me_update'')
    None None None None
    None (sizeof omci_me_gem_port_network_ctp) (OMCI_ME_PROP_HAS_ALARMS OR OMCI_ME_PROP_REVIEW)"

definition omci_me_ip_host_config_data :: struct_layout where
  "omci_me_ip_host_config_data = [
    (''ip_options'', 1), (''mac_address'', 6), (''ont_id'', 25), (''ip_address'', 4), (''mask'', 4),
     (''gateway'', 4), (''primary_dns'', 4), (''secondary_dns'', 4), (''current_address'', 4),
     (''current_mask'', 4), (''current_gateway'', 4), (''current_primary_dns'', 4),
     (''current_secondary_dns'', 4), (''domain_name'', 25), (''host_name'', 25)]"

definition me_ip_host_config_data_class :: me_class where
  [class_defs]: "me_ip_host_config_data_class = mk_class 0x86
    [ATTR_BF 7 (offsetof omci_me_ip_host_config_data ''ip_options'') 1 (OMCI_ATTR_PROP_RD OR OMCI_ATTR_PROP_WR OR OMCI_ATTR_PROP_PARTLY) None,
     ATTR_STR (offsetof omci_me_ip_host_config_data ''mac_address'') 6 (OMCI_ATTR_PROP_RD OR OMCI_ATTR_PROP_WR) (Some ''omci_ip_host_config_data.mac_get''),
     ATTR_STR (offsetof omci_me_ip_host_config_data ''ont_id'') 25 (OMCI_ATTR_PROP_RD OR OMCI_ATTR_PROP_WR) None,
     ATTR_STR (offsetof omci_me_ip_host_config_data ''ip_address'') 4 (OMCI_ATTR_PROP_RD OR OMCI_ATTR_PROP_WR) None,
     ATTR_STR (offsetof omci_me_ip_host_config_data ''mask'') 4 (OMCI_ATTR_PROP_RD OR OMCI_ATTR_PROP_WR) None,
     ATTR_STR (offsetof omci_me_ip_host_config_data ''gateway'') 4 (OMCI_ATTR_PROP_RD OR OMCI_ATTR_PROP_WR) None,
     ATTR_STR (offsetof omci_me_ip_host_config_data ''primary_dns'') 4 (OMCI_ATTR_PROP_RD OR OMCI_ATTR_PROP_WR OR OMCI_ATTR_PROP_TEMPLATE) None,
     ATTR_STR (offsetof omci_me_ip_host_config_data ''secondary_dns'') 4 (OMCI_ATTR_PROP_RD OR OMCI_ATTR_PROP_WR OR OMCI_ATTR_PROP_TEMPLATE) None,
     ATTR_STR (offsetof omci_me_ip_host_config_data ''current_address'') 4 (OMCI_ATTR_PROP_RD OR OMCI_ATTR_PROP_AVC OR OMCI_ATTR_PROP_OPTIONAL) (Some ''omci_ip_host_config_data.current_address_get''),
     ATTR_STR (offsetof omci_me_ip_host_config_data ''current_mask'') 4 (OMCI_ATTR_PROP_RD OR OMCI_ATTR_PROP_AVC OR OMCI_ATTR_PROP_OPTIONAL) (Some ''omci_ip_host_config_data.current_mask_get''),
     ATTR_STR (offsetof omci_me_ip_host_config_data ''current_gateway'') 4 (OMCI_ATTR_PROP_RD OR OMCI_ATTR_PROP_AVC OR OMCI_ATTR_PROP_OPTIONAL) (Some ''omci_ip_host_config_data.current_gateway_get''),
     ATTR_STR (offsetof omci_me_ip_host_config_data ''current_primary_dns'') 4 (OMCI_ATTR_PROP_RD OR OMCI_ATTR_PROP_AVC OR OMCI_ATTR_PROP_OPTIONAL OR OMCI_ATTR_PROP_TEMPLATE) (Some ''omci_ip_host_config_data.current_primary_dns_get''),
     ATTR_STR (offsetof omci_me_ip_host_config_data ''current_secondary_dns'') 4 (OMCI_ATTR_PROP_RD OR OMCI_ATTR_PROP_AVC OR OMCI_ATTR_PROP_OPTIONAL OR OMCI_ATTR_PROP_TEMPLATE) (Some ''omci_ip_host_config_data.current_secondary_dns_get''),
     ATTR_STR (offsetof omci_me_ip_host_config_data ''domain_name'') 25 (OMCI_ATTR_PROP_RD OR OMCI_ATTR_PROP_AVC OR OMCI_ATTR_PROP_TEMPLATE) (Some ''omci_ip_host_config_data.current_domain_name_get''),
     ATTR_STR (offsetof omci_me_ip_host_config_data ''host_name'') 25 (OMCI_ATTR_PROP_RD OR OMCI_ATTR_PROP_AVC OR OMCI_ATTR_PROP_TEMPLATE) (Some ''omci_ip_host_config_data.current_host_name_get'')]
    [(8, ''set_action_handle''), (9, ''get_action_handle''), (18, ''omci_ip_host_config_data.test_action_handle'')]
    (Some ''omci_ip_host_config_data.me_init'') (Some ''omci_ip_host_config_data.me_shutdown'') (Some ''default_me_validate'') (Some ''omci_ip_host_config_data.me_update'')
    None None None None
    None (sizeof omci_me_ip_host_config_data) (OMCI_ME_PROP_NONE OR OMCI_ME_PROP_REVIEW)"

definition omci_me_large_string :: struct_layout where
  "omci_me_large_string = [
    (''number_of_parts'', 1), (''part[0]'', 25), (''part[1]'', 25), (''part[2]'', 25), (''part[3]'', 25),
     (''part[4]'', 25), (''part[5]'', 25), (''part[6]'', 25), (''part[7]'', 25), (''part[8]'', 25),
     (''part[9]'', 25), (''part[10]'', 25), (''part[11]'', 25), (''part[12]'', 25), (''part[13]'', 25),
     (''part[14]'', 25)]"

definition me_large_string_class :: me_class where
  [class_defs]: "me_large_string_class = mk_class 0x9D
    [ATTR_UINT 0 0xF (offsetof omci_me_large_string ''number_of_parts'') 1 (OMCI_ATTR_PROP_RD OR OMCI_ATTR_PROP_WR) None,
     ATTR_STR (offsetof omci_me_large_string ''part[0]'') 25 (OMCI_ATTR_PROP_RD OR OMCI_ATTR_PROP_WR) None,
     ATTR_STR (offsetof omci_me_large_string ''part[1]'') 25 (OMCI_ATTR_PROP_RD OR OMCI_ATTR_PROP_WR) None,
     ATTR_STR (offsetof omci_me_large_string ''part[2]'') 25 (OMCI_ATTR_PROP_RD OR OMCI_ATTR_PROP_WR) None,
     ATTR_STR (offsetof omci_me_large_string ''part[3]'') 25 (OMCI_ATTR_PROP_RD OR OMCI_ATTR_PROP_WR) None,
     ATTR_STR (offsetof omci_me_large_string ''part[4]'') 25 (OMCI_ATTR_PROP_RD OR OMCI_ATTR_PROP_WR) None,
     ATTR_STR (offsetof omci_me_large_string ''part[5]'') 25 (OMCI_ATTR_PROP_RD OR OMCI_ATTR_PROP_WR) None,
     ATTR_STR (offsetof omci_me_large_string ''part[6]'') 25 (OMCI_ATTR_PROP_RD OR OMCI_ATTR_PROP_WR) None,
     ATTR_STR (offsetof omci_me_large_string ''part[7]'') 25 (OMCI_ATTR_PROP_RD OR OMCI_ATTR_PROP_WR) None,
     ATTR_STR (offsetof omci_me_large_string ''part[8]'') 25 (OMCI_ATTR_PROP_RD OR OMCI_ATTR_PROP_WR) None,
     ATTR_STR (offsetof omci_me_large_string ''part[9]'') 25 (OMCI_ATTR_PROP_RD OR OMCI_ATTR_PROP_WR) None,
     ATTR_STR (offsetof omci_me_large_string ''part[10]'') 25 (OMCI_ATTR_PROP_RD OR OMCI_ATTR_PROP_WR) None,
     ATTR_STR (offsetof omci_me_large_string ''part[11]'') 25 (OMCI_ATTR_PROP_RD OR OMCI_ATTR_PROP_WR) None,
     ATTR_STR (offsetof omci_me_large_string ''part[12]'') 25 (OMCI_ATTR_PROP_RD OR OMCI_ATTR_PROP_WR) None,
     ATTR_STR (offsetof omci_me_large_string ''part[13]'') 25 (OMCI_ATTR_PROP_RD OR OMCI_ATTR_PROP_WR) None,
     ATTR_STR (offsetof omci_me_large_string ''part[14]'') 25 (OMCI_ATTR_PROP_RD OR OMCI_ATTR_PROP_WR) None]
    [(4, ''create_action_handle''), (6, ''delete_action_handle''), (8, ''set_action_handle''), (9, ''get_action_handle'')]
    (Some ''default_me_init'') (Some ''omci_large_string.omci_large_string_shutdown'') (Some ''default_me_validate'') (Some ''default_me_update'')
    None None None None
    None (sizeof omci_me_large_string) (OMCI_ME_PROP_NONE OR OMCI_ME_PROP_REVIEW)"

definition omci_me_vlan_tagging_filter_data :: struct_layout where
  "omci_me_vlan_tagging_filter_data = [
    (''filter_list'', 24), (''forwarding_oper'', 1), (''entries_num'', 1)]"

definition me_vlan_tagging_filter_data_class :: me_class where
  [class_defs]: "me_vlan_tagging_filter_data_class = mk_class 0x54
    [ATTR_STR (offsetof omci_me_vlan_tagging_filter_data ''filter_list'') 24 (OMCI_ATTR_PROP_RD OR OMCI_ATTR_PROP_WR OR OMCI_ATTR_PROP_SBC) None,
     ATTR_ENUM [0, 1, 2, 3, 4, 5, 6, 7, 8, 9, 0xA, 0xB, 0xC, 0xD, 0xE, 0xF, 0x10, 0x11, 0x12, 0x13, 0x14, 0x15, 0x16, 0x17, 0x18, 0x19, 0x1A, 0x1B, 0x1C, 0x1D, 0x1E, 0x1F, 0x20, 0x21] (offsetof omci_me_vlan_tagging_filter_data ''forwarding_oper'') 1 (OMCI_ATTR_PROP_RD OR OMCI_ATTR_PROP_WR OR OMCI_ATTR_PROP_SBC) None,
     ATTR_UINT 0 0xC (offsetof omci_me_vlan_tagging_filter_data ''entries_num'') 1 (OMCI_ATTR_PROP_RD OR OMCI_ATTR_PROP_WR OR OMCI_ATTR_PROP_SBC) None]
    [(4, ''create_action_handle''), (6, ''delete_action_handle''), (8, ''set_action_handle''), (9, ''get_action_handle'')]
    (Some ''omci_vlan_tagging_filter_data.me_init'') (Some ''omci_vlan_tagging_filter_data.me_shutdown'') (Some ''omci_vlan_tagging_filter_data.me_validate'') (Some ''omci_vlan_tagging_filter_data.me_update'')
    None None None None
    None (sizeof omci_me_vlan_tagging_filter_data) (OMCI_ME_PROP_NONE OR OMCI_ME_PROP_REVIEW)"

definition omci_me_vlan_tagging_operation_config_data :: struct_layout where
  "omci_me_vlan_tagging_operation_config_data = [
    (''us_tagging_mode'', 1), (''us_tci_value'', 2), (''ds_tagging_mode'', 1), (''association_type'', 1),
     (''associated_me_ptr'', 2)]"

definition me_vlan_tagging_operation_config_data_class :: me_class where
  [class_defs]: "me_vlan_tagging_operation_config_data_class = mk_class 0x4E
    [ATTR_ENUM [0, 1, 2] (offsetof omci_me_vlan_tagging_operation_config_data ''us_tagging_mode'') 1 (OMCI_ATTR_PROP_RD OR OMCI_ATTR_PROP_WR OR OMCI_ATTR_PROP_SBC) None,
     ATTR_UINT 0 0xFFFF (offsetof omci_me_vlan_tagging_operation_config_data ''us_tci_value'') 2 (OMCI_ATTR_PROP_RD OR OMCI_ATTR_PROP_WR OR OMCI_ATTR_PROP_SBC) None,
     ATTR_ENUM [0, 1] (offsetof omci_me_vlan_tagging_operation_config_data ''ds_tagging_mode'') 1 (OMCI_ATTR_PROP_RD OR OMCI_ATTR_PROP_WR OR OMCI_ATTR_PROP_SBC) None,
     ATTR_ENUM [0, 1, 2, 3, 4, 5, 6, 7, 8, 9, 0xA, 0xB] (offsetof omci_me_vlan_tagging_operation_config_data ''association_type'') 1 (OMCI_ATTR_PROP_RD OR OMCI_ATTR_PROP_WR OR OMCI_ATTR_PROP_SBC OR OMCI_ATTR_PROP_OPTIONAL) None,
     ATTR_PTR 0 0xFFFF (offsetof omci_me_vlan_tagging_operation_config_data ''associated_me_ptr'') 2 (OMCI_ATTR_PROP_RD OR OMCI_ATTR_PROP_WR OR OMCI_ATTR_PROP_SBC OR OMCI_ATTR_PROP_OPTIONAL) None]
    [(4, ''create_action_handle''), (6, ''delete_action_handle''), (8, ''set_action_handle''), (9, ''get_action_handle'')]
    (Some ''omci_vlan_tagging_operation_config_data.me_init'') (Some ''omci_vlan_tagging_operation_config_data.me_shutdown'') (Some ''omci_vlan_tagging_operation_config_data.me_validate'') (Some ''omci_vlan_tagging_operation_config_data.me_update'')
    None None None None
    None (sizeof omci_me_vlan_tagging_operation_config_data) (OMCI_ME_PROP_NONE OR OMCI_ME_PROP_REVIEW)"

definition omci_me_mac_bridge_config_data :: struct_layout where
  "omci_me_mac_bridge_config_data = [
    (''bridge_mac_address'', 6), (''bridge_prio'', 2), (''designated_root'', 8), (''root_path_cost'', 4),
     (''bridge_port_count'', 1), (''root_port_number'', 2), (''hello_time'', 2), (''forward_delay'', 2)]"

definition me_mac_bridge_config_data_class :: me_class where
  [class_defs]: "me_mac_bridge_config_data_class = mk_class 0x2E
    [ATTR_STR (offsetof omci_me_mac_bridge_config_data ''bridge_mac_address'') 6 (OMCI_ATTR_PROP_RD OR OMCI_ATTR_PROP_TEMPLATE) None,
     ATTR_UINT 0 0xFFFF (offsetof omci_me_mac_bridge_config_data ''bridge_prio'') 2 OMCI_ATTR_PROP_RD (Some ''omci_mac_bridge_config_data.bridge_prio_get''),
     ATTR_STR (offsetof omci_me_mac_bridge_config_data ''designated_root'') 8 (OMCI_ATTR_PROP_RD OR OMCI_ATTR_PROP_TEMPLATE) None,
     ATTR_UINT 0 0xFFFFFFFF (offsetof omci_me_mac_bridge_config_data ''root_path_cost'') 4 (OMCI_ATTR_PROP_RD OR OMCI_ATTR_PROP_TEMPLATE) None,
     ATTR_UINT 0 0xFF (offsetof omci_me_mac_bridge_config_data ''bridge_port_count'') 1 OMCI_ATTR_PROP_RD (Some ''omci_mac_bridge_config_data.bridge_port_count_get''),
     ATTR_UINT 0 0xFFFF (offsetof omci_me_mac_bridge_config_data ''root_port_number'') 2 (OMCI_ATTR_PROP_RD OR OMCI_ATTR_PROP_TEMPLATE) None,
     ATTR_UINT 0 0xFFFF (offsetof omci_me_mac_bridge_config_data ''hello_time'') 2 (OMCI_ATTR_PROP_RD OR OMCI_ATTR_PROP_OPTIONAL OR OMCI_ATTR_PROP_TEMPLATE) None,
     ATTR_UINT 0 0xFFFF (offsetof omci_me_mac_bridge_config_data ''forward_delay'') 2 (OMCI_ATTR_PROP_RD OR OMCI_ATTR_PROP_OPTIONAL OR OMCI_ATTR_PROP_TEMPLATE) None]
    [(8, ''set_action_handle''), (9, ''get_action_handle'')]
    (Some ''omci_mac_bridge_config_data.me_init'') None None (Some ''omci_mac_bridge_config_data.me_update'')
    None None None None
    None (sizeof omci_me_mac_bridge_config_data) (OMCI_ME_PROP_NONE OR OMCI_ME_PROP_REVIEW)"

definition omci_me_mac_bridge_port_bridge_table_data :: struct_layout where
  "omci_me_mac_bridge_port_bridge_table_data = [
    (''bridge_table'', 8)]"

definition me_mac_bridge_port_bridge_table_data_class :: me_class where
  [class_defs]: "me_mac_bridge_port_bridge_table_data_class = mk_class 0x32
    [ATTR_TBL (offsetof omci_me_mac_bridge_port_bridge_table_data ''bridge_table'') 8 OMCI_ATTR_PROP_RD None]
    [(8, ''set_action_handle''), (9, ''get_action_handle''), (26, ''get_next_action_handle'')]
    (Some ''omci_mac_bridge_port_bridge_table_data.me_init'') (Some ''omci_mac_bridge_port_bridge_table_data.me_shutdown'') None (Some ''default_me_update'')
    (Some ''omci_mac_bridge_port_bridge_table_data.me_tbl_copy'') None None None
    None (sizeof omci_me_mac_bridge_port_bridge_table_data) (OMCI_ME_PROP_NONE OR OMCI_ME_PROP_REVIEW)"

definition omci_me_mac_bridge_port_config_data :: struct_layout where
  "omci_me_mac_bridge_port_config_data = [
    (''bridge_id_ptr'', 2), (''port_number'', 1), (''tp_type'', 1), (''tp_ptr'', 2), (''port_prio'', 2),
     (''port_path_cost'', 2), (''port_spanning_tree_ind'', 1), (''encap_method'', 1), (''lan_fcs_ind'', 1),
     (''port_mac_address'', 6), (''outbound_td_ptr'', 2), (''inbound_td_ptr'', 2), (''mac_learning_depth'', 1)]"

definition me_mac_bridge_port_config_data_class :: me_class where
  [class_defs]: "me_mac_bridge_port_config_data_class = mk_class 0x2F
    [ATTR_PTR 0 0xFFFF (offsetof omci_me_mac_bridge_port_config_data ''bridge_id_ptr'') 2 (OMCI_ATTR_PROP_RD OR OMCI_ATTR_PROP_WR OR OMCI_ATTR_PROP_SBC) None,
     ATTR_UINT 0 0xFF (offsetof omci_me_mac_bridge_port_config_data ''port_number'') 1 (OMCI_ATTR_PROP_RD OR OMCI_ATTR_PROP_WR OR OMCI_ATTR_PROP_SBC) None,
     ATTR_ENUM [1, 2, 3, 4, 5, 6, 7, 8, 9, 0xA] (offsetof omci_me_mac_bridge_port_config_data ''tp_type'') 1 (OMCI_ATTR_PROP_RD OR OMCI_ATTR_PROP_WR OR OMCI_ATTR_PROP_SBC OR OMCI_ATTR_PROP_PARTLY) None,
     ATTR_PTR 0 0xFFFF (offsetof omci_me_mac_bridge_port_config_data ''tp_ptr'') 2 (OMCI_ATTR_PROP_RD OR OMCI_ATTR_PROP_WR OR OMCI_ATTR_PROP_SBC) None,
     ATTR_UINT 0 0xFF (offsetof omci_me_mac_bridge_port_config_data ''port_prio'') 2 (OMCI_ATTR_PROP_RD OR OMCI_ATTR_PROP_WR OR OMCI_ATTR_PROP_SBC OR OMCI_ATTR_PROP_OPTIONAL OR OMCI_ATTR_PROP_TEMPLATE) None,
     ATTR_UINT 1 0xFFFF (offsetof omci_me_mac_bridge_port_config_data ''port_path_cost'') 2 (OMCI_ATTR_PROP_RD OR OMCI_ATTR_PROP_WR OR OMCI_ATTR_PROP_SBC OR OMCI_ATTR_PROP_TEMPLATE) None,
     ATTR_BOOL (offsetof omci_me_mac_bridge_port_config_data ''port_spanning_tree_ind'') 1 (OMCI_ATTR_PROP_RD OR OMCI_ATTR_PROP_WR OR OMCI_ATTR_PROP_SBC OR OMCI_ATTR_PROP_TEMPLATE) None,
     ATTR_UINT 1 1 (offsetof omci_me_mac_bridge_port_config_data ''encap_method'') 1 (OMCI_ATTR_PROP_RD OR OMCI_ATTR_PROP_WR OR OMCI_ATTR_PROP_SBC OR OMCI_ATTR_PROP_OPTIONAL) None,
     ATTR_BOOL (offsetof omci_me_mac_bridge_port_config_data ''lan_fcs_ind'') 1 (OMCI_ATTR_PROP_RD OR OMCI_ATTR_PROP_WR OR OMCI_ATTR_PROP_SBC OR OMCI_ATTR_PROP_OPTIONAL) None,
     ATTR_STR (offsetof omci_me_mac_bridge_port_config_data ''port_mac_address'') 6 (OMCI_ATTR_PROP_RD OR OMCI_ATTR_PROP_OPTIONAL OR OMCI_ATTR_PROP_TEMPLATE) None,
     ATTR_PTR 0 0xFFFF (offsetof omci_me_mac_bridge_port_config_data ''outbound_td_ptr'') 2 (OMCI_ATTR_PROP_RD OR OMCI_ATTR_PROP_WR OR OMCI_ATTR_PROP_OPTIONAL OR OMCI_ATTR_PROP_TEMPLATE) None,
     ATTR_PTR 0 0xFFFF (offsetof omci_me_mac_bridge_port_config_data ''inbound_td_ptr'') 2 (OMCI_ATTR_PROP_RD OR OMCI_ATTR_PROP_WR OR OMCI_ATTR_PROP_OPTIONAL OR OMCI_ATTR_PROP_TEMPLATE) None,
     ATTR_UINT 0 0xFF (offsetof omci_me_mac_bridge_port_config_data ''mac_learning_depth'') 1 (OMCI_ATTR_PROP_RD OR OMCI_ATTR_PROP_WR OR OMCI_ATTR_PROP_SBC OR OMCI_ATTR_PROP_OPTIONAL) None]
    [(4, ''create_action_handle''), (6, ''delete_action_handle''), (8, ''set_action_handle''), (9, ''get_action_handle'')]
    (Some ''omci_mac_bridge_port_config_data.me_init'') (Some ''omci_mac_bridge_port_config_data.me_shutdown'') (Some ''omci_mac_bridge_port_config_data.me_validate'') (Some ''omci_mac_bridge_port_config_data.me_update'')
    None None None None
    None (sizeof omci_me_mac_bridge_port_config_data) (OMCI_ME_PROP_NONE OR OMCI_ME_PROP_REVIEW)"

definition omci_me_mac_bridge_port_designation_data :: struct_layout where
  "omci_me_mac_bridge_port_designation_data = [
    (''root_cost_port'', 24), (''port_state'', 1)]"

definition me_mac_bridge_port_designation_data_class :: me_class where
  [class_defs]: "me_mac_bridge_port_designation_data_class = mk_class 0x30
    [ATTR_STR (offsetof omci_me_mac_bridge_port_designation_data ''root_cost_port'') 24 (OMCI_ATTR_PROP_RD OR OMCI_ATTR_PROP_TEMPLATE) None,
     ATTR_ENUM [0, 1, 2, 3, 4, 5, 6, 7] (offsetof omci_me_mac_bridge_port_designation_data ''port_state'') 1 (OMCI_ATTR_PROP_RD OR OMCI_ATTR_PROP_TEMPLATE) (Some ''omci_mac_bridge_port_designation_data.port_state_get'')]
    [(9, ''get_action_handle'')]
    (Some ''omci_mac_bridge_port_designation_data.me_init'') None None (Some ''default_me_update'')
    None None None None
    None (sizeof omci_me_mac_bridge_port_designation_data) (OMCI_ME_PROP_NONE OR OMCI_ME_PROP_REVIEW)"

definition omci_me_mac_bridge_port_filter_preassign_table :: struct_layout where
  "omci_me_mac_bridge_port_filter_preassign_table = [
    (''ipv4_mc_filter_enable'', 1), (''ipv6_mc_filter_enable'', 1), (''ipv4_bc_filter_enable'', 1),
     (''rarp_filter_enable'', 1), (''ipx_filter_enable'', 1), (''netbeui_filter_enable'', 1),
     (''appletalk_filtering_enable'', 1), (''bridge_management_filter_enable'', 1),
     (''arp_filter_enable'', 1), (''pppoe_filter_enable'', 1)]"

definition me_mac_bridge_port_filter_preassign_table_class :: me_class where
  [class_defs]: "me_mac_bridge_port_filter_preassign_table_class = mk_class 0x4F
    [ATTR_BOOL (offsetof omci_me_mac_bridge_port_filter_preassign_table ''ipv4_mc_filter_enable'') 1 (OMCI_ATTR_PROP_RD OR OMCI_ATTR_PROP_WR) None,
     ATTR_BOOL (offsetof omci_me_mac_bridge_port_filter_preassign_table ''ipv6_mc_filter_enable'') 1 (OMCI_ATTR_PROP_RD OR OMCI_ATTR_PROP_WR) None,
     ATTR_BOOL (offsetof omci_me_mac_bridge_port_filter_preassign_table ''ipv4_bc_filter_enable'') 1 (OMCI_ATTR_PROP_RD OR OMCI_ATTR_PROP_WR) None,
     ATTR_BOOL (offsetof omci_me_mac_bridge_port_filter_preassign_table ''rarp_filter_enable'') 1 (OMCI_ATTR_PROP_RD OR OMCI_ATTR_PROP_WR) None,
     ATTR_BOOL (offsetof omci_me_mac_bridge_port_filter_preassign_table ''ipx_filter_enable'') 1 (OMCI_ATTR_PROP_RD OR OMCI_ATTR_PROP_WR) None,
     ATTR_BOOL (offsetof omci_me_mac_bridge_port_filter_preassign_table ''netbeui_filter_enable'') 1 (OMCI_ATTR_PROP_RD OR OMCI_ATTR_PROP_WR) None,
     ATTR_BOOL (offsetof omci_me_mac_bridge_port_filter_preassign_table ''appletalk_filtering_enable'') 1 (OMCI_ATTR_PROP_RD OR OMCI_ATTR_PROP_WR) None,
     ATTR_BOOL (offsetof omci_me_mac_bridge_port_filter_preassign_table ''bridge_management_filter_enable'') 1 (OMCI_ATTR_PROP_RD OR OMCI_ATTR_PROP_WR) None,
     ATTR_BOOL (offsetof omci_me_mac_bridge_port_filter_preassign_table ''arp_filter_enable'') 1 (OMCI_ATTR_PROP_RD OR OMCI_ATTR_PROP_WR) None,
     ATTR_BOOL (offsetof omci_me_mac_bridge_port_filter_preassign_table ''pppoe_filter_enable'') 1 (OMCI_ATTR_PROP_RD OR OMCI_ATTR_PROP_WR) None]
    [(8, ''set_action_handle''), (9, ''get_action_handle'')]
    (Some ''default_me_init'') (Some ''omci_mac_bridge_port_filter_preassign_table.me_shutdown'') (Some ''default_me_validate'') (Some ''omci_mac_bridge_port_filter_preassign_table.me_update'')
    None None None None
    None (sizeof omci_me_mac_bridge_port_filter_preassign_table) (OMCI_ME_PROP_NONE OR OMCI_ME_PROP_REVIEW)"

definition omci_me_mac_bridge_port_filter_table_data :: struct_layout where
  "omci_me_mac_bridge_port_filter_table_data = [
    (''mac_filter_table'', 8)]"

definition me_mac_bridge_port_filter_table_data_class :: me_class where
  [class_defs]: "me_mac_bridge_port_filter_table_data_class = mk_class 0x31
    [ATTR_TBL (offsetof omci_me_mac_bridge_port_filter_table_data ''mac_filter_table'') 8 (OMCI_ATTR_PROP_RD OR OMCI_ATTR_PROP_WR) None]
    [(8, ''set_action_handle''), (9, ''get_action_handle''), (26, ''get_next_action_handle'')]
    (Some ''omci_mac_bridge_port_filter_table_data.me_init'') (Some ''omci_mac_bridge_port_filter_table_data.me_shutdown'') (Some ''default_me_validate'') (Some ''omci_mac_bridge_port_filter_table_data.me_update'')
    (Some ''omci_mac_bridge_port_filter_table_data.me_tbl_copy'') None None None
    None (sizeof omci_me_mac_bridge_port_filter_table_data) (OMCI_ME_PROP_NONE OR OMCI_ME_PROP_REVIEW)"

definition omci_me_mac_bridge_service_profile :: struct_layout where
  "omci_me_mac_bridge_service_profile = [
    (''spanning_tree_ind'', 1), (''learning_ind'', 1), (''port_bridging_ind'', 1), (''prio'', 2),
     (''max_age'', 2), (''hello_time'', 2), (''forward_delay'', 2), (''unknown_mac_discard'', 1),
     (''mac_learning_depth'', 1), (''mac_aging_time'', 4)]"

definition me_mac_bridge_service_profile_class :: me_class where
  [class_defs]: "me_mac_bridge_service_profile_class = mk_class 0x2D
    [ATTR_BOOL (offsetof omci_me_mac_bridge_service_profile ''spanning_tree_ind'') 1 (OMCI_ATTR_PROP_RD OR OMCI_ATTR_PROP_WR OR OMCI_ATTR_PROP_SBC OR OMCI_ATTR_PROP_TEMPLATE) None,
     ATTR_BOOL (offsetof omci_me_mac_bridge_service_profile ''learning_ind'') 1 (OMCI_ATTR_PROP_RD OR OMCI_ATTR_PROP_WR OR OMCI_ATTR_PROP_SBC) None,
     ATTR_BOOL (offsetof omci_me_mac_bridge_service_profile ''port_bridging_ind'') 1 (OMCI_ATTR_PROP_RD OR OMCI_ATTR_PROP_WR OR OMCI_ATTR_PROP_SBC) None,
     ATTR_UINT 0 0xFFFF (offsetof omci_me_mac_bridge_service_profile ''prio'') 2 (OMCI_ATTR_PROP_RD OR OMCI_ATTR_PROP_WR OR OMCI_ATTR_PROP_SBC) None,
     ATTR_UINT 0x600 0x2800 (offsetof omci_me_mac_bridge_service_profile ''max_age'') 2 (OMCI_ATTR_PROP_RD OR OMCI_ATTR_PROP_WR OR OMCI_ATTR_PROP_SBC OR OMCI_ATTR_PROP_TEMPLATE) None,
     ATTR_UINT 0x100 0xA00 (offsetof omci_me_mac_bridge_service_profile ''hello_time'') 2 (OMCI_ATTR_PROP_RD OR OMCI_ATTR_PROP_WR OR OMCI_ATTR_PROP_SBC OR OMCI_ATTR_PROP_TEMPLATE) None,
     ATTR_UINT 0x400 0x1E00 (offsetof omci_me_mac_bridge_service_profile ''forward_delay'') 2 (OMCI_ATTR_PROP_RD OR OMCI_ATTR_PROP_WR OR OMCI_ATTR_PROP_SBC OR OMCI_ATTR_PROP_TEMPLATE) None,
     ATTR_BOOL (offsetof omci_me_mac_bridge_service_profile ''unknown_mac_discard'') 1 (OMCI_ATTR_PROP_RD OR OMCI_ATTR_PROP_WR OR OMCI_ATTR_PROP_SBC) None,
     ATTR_UINT 0 0xFF (offsetof omci_me_mac_bridge_service_profile ''mac_learning_depth'') 1 (OMCI_ATTR_PROP_RD OR OMCI_ATTR_PROP_WR OR OMCI_ATTR_PROP_SBC OR OMCI_ATTR_PROP_OPTIONAL) None,
     ATTR_UINT 0xA 0xF4240 (offsetof omci_me_mac_bridge_service_profile ''mac_aging_time'') 4 (OMCI_ATTR_PROP_RD OR OMCI_ATTR_PROP_WR OR OMCI_ATTR_PROP_SBC OR OMCI_ATTR_PROP_OPTIONAL) None]
    [(4, ''create_action_handle''), (6, ''delete_action_handle''), (8, ''set_action_handle''), (9, ''get_action_handle'')]
    (Some ''omci_mac_bridge_service_profile.me_init'') (Some ''omci_mac_bridge_service_profile.me_shutdown'') (Some ''omci_mac_bridge_service_profile.me_validate'') (Some ''omci_mac_bridge_service_profile.me_update'')
    None None None None
    None (sizeof omci_me_mac_bridge_service_profile) (OMCI_ME_PROP_NONE OR OMCI_ME_PROP_REVIEW)"

definition omci_me_multicast_gem_interworking_tp :: struct_layout where
  "omci_me_multicast_gem_interworking_tp = [
    (''gem_port_network_ctp_ptr'', 2), (''interworking_option'', 1), (''service_profile_ptr'', 2),
     (''interworking_tp_ptr'', 2), (''pppt_count'', 1), (''oper_state'', 1), (''gal_profile_ptr'', 2),
     (''gal_loopback_config'', 1), (''mc_address_table'', 12)]"

definition me_multicast_get_interworking_tp_class :: me_class where
  [class_defs]: "me_multicast_get_interworking_tp_class = mk_class 0x119
    [ATTR_PTR 0 0xFFFF (offsetof omci_me_multicast_gem_interworking_tp ''gem_port_network_ctp_ptr'') 2 (OMCI_ATTR_PROP_RD OR OMCI_ATTR_PROP_WR OR OMCI_ATTR_PROP_SBC) None,
     ATTR_ENUM [0, 1, 3, 5] (offsetof omci_me_multicast_gem_interworking_tp ''interworking_option'') 1 (OMCI_ATTR_PROP_RD OR OMCI_ATTR_PROP_WR OR OMCI_ATTR_PROP_SBC) None,
     ATTR_PTR 0 0 (offsetof omci_me_multicast_gem_interworking_tp ''service_profile_ptr'') 2 (OMCI_ATTR_PROP_RD OR OMCI_ATTR_PROP_WR OR OMCI_ATTR_PROP_SBC OR OMCI_ATTR_PROP_TEMPLATE) None,
     ATTR_PTR 0 0 (offsetof omci_me_multicast_gem_interworking_tp ''interworking_tp_ptr'') 2 (OMCI_ATTR_PROP_RD OR OMCI_ATTR_PROP_WR OR OMCI_ATTR_PROP_SBC OR OMCI_ATTR_PROP_TEMPLATE) None,
     ATTR_UINT 0 0xFF (offsetof omci_me_multicast_gem_interworking_tp ''pppt_count'') 1 (OMCI_ATTR_PROP_RD OR OMCI_ATTR_PROP_OPTIONAL OR OMCI_ATTR_PROP_TEMPLATE) None,
     ATTR_BOOL (offsetof omci_me_multicast_gem_interworking_tp ''oper_state'') 1 (OMCI_ATTR_PROP_RD OR OMCI_ATTR_PROP_AVC OR OMCI_ATTR_PROP_OPTIONAL OR OMCI_ATTR_PROP_TEMPLATE) (Some ''omci_multicast_gem_interworking_tp.op_state_get''),
     ATTR_UINT 0 0xFFFF (offsetof omci_me_multicast_gem_interworking_tp ''gal_profile_ptr'') 2 (OMCI_ATTR_PROP_RD OR OMCI_ATTR_PROP_WR OR OMCI_ATTR_PROP_SBC OR OMCI_ATTR_PROP_TEMPLATE) None,
     ATTR_UINT 0 0 (offsetof omci_me_multicast_gem_interworking_tp ''gal_loopback_config'') 1 (OMCI_ATTR_PROP_RD OR OMCI_ATTR_PROP_WR OR OMCI_ATTR_PROP_SBC OR OMCI_ATTR_PROP_TEMPLATE) None,
     ATTR_TBL (offsetof omci_me_multicast_gem_interworking_tp ''mc_address_table'') 12 (OMCI_ATTR_PROP_RD OR OMCI_ATTR_PROP_WR) None]
    [(4, ''create_action_handle''), (6, ''delete_action_handle''), (8, ''set_action_handle''), (9, ''get_action_handle''), (26, ''get_next_action_handle'')]
    (Some ''omci_multicast_gem_interworking_tp.me_init'') (Some ''omci_multicast_gem_interworking_tp.me_shutdown'') (Some ''omci_multicast_gem_interworking_tp.me_validate'') (Some ''omci_multicast_gem_interworking_tp.me_update'')
    (Some ''omci_multicast_gem_interworking_tp.me_tbl_copy'') (Some ''omci_multicast_gem_interworking_tp.me_tbl_ops'') None None
    None (sizeof omci_me_multicast_gem_interworking_tp) (OMCI_ME_PROP_HAS_ALARMS OR OMCI_ME_PROP_REVIEW)"

definition omci_me_multicast_operations_profile :: struct_layout where
  "omci_me_multicast_operations_profile = [
    (''igmp_version'', 1), (''igmp_function'', 1), (''immediate_leave'', 1), (''us_igmp_tag_ctrl_info'', 2),
     (''us_igmp_tag_ctrl'', 1), (''us_igmp_rate'', 4), (''dynamic_acl_table'', 24),
     (''static_acl_table'', 24), (''lost_groups_table'', 10), (''robustness'', 1), (''querier_ip_addr'', 4),
     (''query_interval'', 4), (''query_max_rsp_time'', 4), (''last_member_query_interval'', 4),
     (''unauthorized_join_request_behavior'', 1), (''ds_igmp_mc_tci'', 3)]"

definition me_multicast_operations_profile_class :: me_class where
  [class_defs]: "me_multicast_operations_profile_class = mk_class 0x135
    [ATTR_ENUM [1, 2, 3] (offsetof omci_me_multicast_operations_profile ''igmp_version'') 1 (OMCI_ATTR_PROP_RD OR OMCI_ATTR_PROP_WR OR OMCI_ATTR_PROP_SBC) None,
     ATTR_UINT 0 3 (offsetof omci_me_multicast_operations_profile ''igmp_function'') 1 (OMCI_ATTR_PROP_RD OR OMCI_ATTR_PROP_WR OR OMCI_ATTR_PROP_SBC) None,
     ATTR_BOOL (offsetof omci_me_multicast_operations_profile ''immediate_leave'') 1 (OMCI_ATTR_PROP_RD OR OMCI_ATTR_PROP_WR OR OMCI_ATTR_PROP_SBC) None,
     ATTR_UINT 0 0xFFFF (offsetof omci_me_multicast_operations_profile ''us_igmp_tag_ctrl_info'') 2 (OMCI_ATTR_PROP_RD OR OMCI_ATTR_PROP_WR OR OMCI_ATTR_PROP_SBC OR OMCI_ATTR_PROP_OPTIONAL) None,
     ATTR_ENUM [0, 1, 2, 3] (offsetof omci_me_multicast_operations_profile ''us_igmp_tag_ctrl'') 1 (OMCI_ATTR_PROP_RD OR OMCI_ATTR_PROP_WR OR OMCI_ATTR_PROP_SBC OR OMCI_ATTR_PROP_OPTIONAL) None,
     ATTR_UINT 0 0xFFFFFFFF (offsetof omci_me_multicast_operations_profile ''us_igmp_rate'') 4 (OMCI_ATTR_PROP_RD OR OMCI_ATTR_PROP_WR OR OMCI_ATTR_PROP_SBC OR OMCI_ATTR_PROP_OPTIONAL) None,
     ATTR_TBL (offsetof omci_me_multicast_operations_profile ''dynamic_acl_table'') 24 (OMCI_ATTR_PROP_RD OR OMCI_ATTR_PROP_WR) None,
     ATTR_TBL (offsetof omci_me_multicast_operations_profile ''static_acl_table'') 24 (OMCI_ATTR_PROP_RD OR OMCI_ATTR_PROP_WR) None,
     ATTR_TBL (offsetof omci_me_multicast_operations_profile ''lost_groups_table'') 10 (OMCI_ATTR_PROP_RD OR OMCI_ATTR_PROP_OPTIONAL) None,
     ATTR_UINT 0 0xFF (offsetof omci_me_multicast_operations_profile ''robustness'') 1 (OMCI_ATTR_PROP_RD OR OMCI_ATTR_PROP_WR OR OMCI_ATTR_PROP_SBC OR OMCI_ATTR_PROP_OPTIONAL OR OMCI_ATTR_PROP_TEMPLATE) None,
     ATTR_STR (offsetof omci_me_multicast_operations_profile ''querier_ip_addr'') 4 (OMCI_ATTR_PROP_RD OR OMCI_ATTR_PROP_WR OR OMCI_ATTR_PROP_SBC OR OMCI_ATTR_PROP_OPTIONAL OR OMCI_ATTR_PROP_TEMPLATE) None,
     ATTR_UINT 0 0xFFFFFFFF (offsetof omci_me_multicast_operations_profile ''query_interval'') 4 (OMCI_ATTR_PROP_RD OR OMCI_ATTR_PROP_WR OR OMCI_ATTR_PROP_SBC OR OMCI_ATTR_PROP_OPTIONAL OR OMCI_ATTR_PROP_TEMPLATE) None,
     ATTR_UINT 0 0xFFFFFFFF (offsetof omci_me_multicast_operations_profile ''query_max_rsp_time'') 4 (OMCI_ATTR_PROP_RD OR OMCI_ATTR_PROP_WR OR OMCI_ATTR_PROP_SBC OR OMCI_ATTR_PROP_OPTIONAL OR OMCI_ATTR_PROP_TEMPLATE) None,
     ATTR_UINT 0 0xFFFFFFFF (offsetof omci_me_multicast_operations_profile ''last_member_query_interval'') 4 (OMCI_ATTR_PROP_RD OR OMCI_ATTR_PROP_WR OR OMCI_ATTR_PROP_OPTIONAL OR OMCI_ATTR_PROP_TEMPLATE) None,
     ATTR_UINT 0 1 (offsetof omci_me_multicast_operations_profile ''unauthorized_join_request_behavior'') 1 (OMCI_ATTR_PROP_RD OR OMCI_ATTR_PROP_WR OR OMCI_ATTR_PROP_OPTIONAL OR OMCI_ATTR_PROP_TEMPLATE) None,
     ATTR_STR (offsetof omci_me_multicast_operations_profile ''ds_igmp_mc_tci'') 3 (OMCI_ATTR_PROP_RD OR OMCI_ATTR_PROP_WR OR OMCI_ATTR_PROP_SBC OR OMCI_ATTR_PROP_OPTIONAL) None]
    [(4, ''create_action_handle''), (6, ''delete_action_handle''), (8, ''set_action_handle''), (9, ''get_action_handle''), (26, ''get_next_action_handle'')]
    (Some ''omci_multicast_operations_profile.me_init'') (Some ''omci_multicast_operations_profile.me_shutdown'') (Some ''default_me_validate'') (Some ''omci_multicast_operations_profile.me_update'')
    (Some ''omci_multicast_operations_profile.me_tbl_copy'') (Some ''omci_multicast_operations_profile.me_tbl_ops'') None None
    None (sizeof omci_me_multicast_operations_profile) (OMCI_ME_PROP_NONE OR OMCI_ME_PROP_REVIEW)"

definition omci_me_multicast_subscriber_config :: struct_layout where
  "omci_me_multicast_subscriber_config = [
    (''me_type'', 1), (''mc_ops_profile_ptr'', 2), (''max_simultaneous_groups'', 2), (''max_mc_bw'', 4),
     (''bw_enforcement'', 1)]"

definition me_multicast_subscriber_config_class :: me_class where
  [class_defs]: "me_multicast_subscriber_config_class = mk_class 0x136
    [ATTR_ENUM [0, 1] (offsetof omci_me_multicast_subscriber_config ''me_type'') 1 (OMCI_ATTR_PROP_RD OR OMCI_ATTR_PROP_WR OR OMCI_ATTR_PROP_SBC OR OMCI_ATTR_PROP_PARTLY) None,
     ATTR_PTR 0 0xFFFF (offsetof omci_me_multicast_subscriber_config ''mc_ops_profile_ptr'') 2 (OMCI_ATTR_PROP_RD OR OMCI_ATTR_PROP_WR OR OMCI_ATTR_PROP_SBC) None,
     ATTR_UINT 0 0xFFFF (offsetof omci_me_multicast_subscriber_config ''max_simultaneous_groups'') 2 (OMCI_ATTR_PROP_RD OR OMCI_ATTR_PROP_WR OR OMCI_ATTR_PROP_SBC OR OMCI_ATTR_PROP_OPTIONAL) None,
     ATTR_UINT 0 0xFFFFFFFF (offsetof omci_me_multicast_subscriber_config ''max_mc_bw'') 4 (OMCI_ATTR_PROP_RD OR OMCI_ATTR_PROP_WR OR OMCI_ATTR_PROP_SBC OR OMCI_ATTR_PROP_OPTIONAL OR OMCI_ATTR_PROP_TEMPLATE) None,
     ATTR_BOOL (offsetof omci_me_multicast_subscriber_config ''bw_enforcement'') 1 (OMCI_ATTR_PROP_RD OR OMCI_ATTR_PROP_WR OR OMCI_ATTR_PROP_SBC OR OMCI_ATTR_PROP_OPTIONAL OR OMCI_ATTR_PROP_TEMPLATE) None]
    [(4, ''create_action_handle''), (6, ''delete_action_handle''), (8, ''set_action_handle''), (9, ''get_action_handle'')]
    (Some ''omci_multicast_subscriber_config.me_init'') (Some ''omci_multicast_subscriber_config.me_shutdown'') (Some ''omci_multicast_subscriber_config.me_validate'') (Some ''omci_multicast_subscriber_config.me_update'')
    None None None None
    None (sizeof omci_me_multicast_subscriber_config) (OMCI_ME_PROP_NONE OR OMCI_ME_PROP_REVIEW)"

definition omci_me_multicast_subscriber_monitor :: struct_layout where
  "omci_me_multicast_subscriber_monitor = [
    (''me_type'', 1), (''current_mc_bw'', 4), (''join_msg_cnt'', 4), (''bw_exc_cnt'', 4), (''agl_table'', 24)]"

definition me_multicast_subscriber_monitor_class :: me_class where
  [class_defs]: "me_multicast_subscriber_monitor_class = mk_class 0x137
    [ATTR_ENUM [0, 1] (offsetof omci_me_multicast_subscriber_monitor ''me_type'') 1 (OMCI_ATTR_PROP_RD OR OMCI_ATTR_PROP_WR OR OMCI_ATTR_PROP_SBC OR OMCI_ATTR_PROP_PARTLY) None,
     ATTR_UINT 0 0xFFFFFFFF (offsetof omci_me_multicast_subscriber_monitor ''current_mc_bw'') 4 (OMCI_ATTR_PROP_RD OR OMCI_ATTR_PROP_OPTIONAL) (Some ''omci_multicast_subscriber_monitor.current_mc_bw_get''),
     ATTR_UINT 0 0xFFFFFFFF (offsetof omci_me_multicast_subscriber_monitor ''join_msg_cnt'') 4 (OMCI_ATTR_PROP_RD OR OMCI_ATTR_PROP_OPTIONAL) (Some ''omci_multicast_subscriber_monitor.join_msg_cnt_get''),
     ATTR_UINT 0 0xFFFFFFFF (offsetof omci_me_multicast_subscriber_monitor ''bw_exc_cnt'') 4 (OMCI_ATTR_PROP_RD OR OMCI_ATTR_PROP_OPTIONAL) (Some ''omci_multicast_subscriber_monitor.bw_exc_cnt_get''),
     ATTR_TBL (offsetof omci_me_multicast_subscriber_monitor ''agl_table'') 24 OMCI_ATTR_PROP_RD None]
    [(4, ''create_action_handle''), (6, ''delete_action_handle''), (8, ''set_action_handle''), (9, ''get_action_handle''), (26, ''get_next_action_handle'')]
    (Some ''omci_multicast_subscriber_monitor.me_init'') (Some ''omci_multicast_subscriber_monitor.me_shutdown'') (Some ''default_me_validate'') (Some ''default_me_update'')
    (Some ''omci_multicast_subscriber_monitor.me_tbl_copy'') None None None
    None (sizeof omci_me_multicast_subscriber_monitor) (OMCI_ME_PROP_NONE OR OMCI_ME_PROP_REVIEW)"

definition omci_me_olt_g :: struct_layout where
  "omci_me_olt_g = [
    (''olt_vendor_id'', 4), (''olt_equipment_id'', 20), (''olt_version'', 14), (''tod_info'', 14)]"

definition me_olt_g_class :: me_class where
  [class_defs]: "me_olt_g_class = mk_class 0x83
    [ATTR_STR (offsetof omci_me_olt_g ''olt_vendor_id'') 4 (OMCI_ATTR_PROP_RD OR OMCI_ATTR_PROP_WR) None,
     ATTR_STR (offsetof omci_me_olt_g ''olt_equipment_id'') 20 (OMCI_ATTR_PROP_RD OR OMCI_ATTR_PROP_WR) None,
     ATTR_STR (offsetof omci_me_olt_g ''olt_version'') 14 (OMCI_ATTR_PROP_RD OR OMCI_ATTR_PROP_WR) None,
     ATTR_STR (offsetof omci_me_olt_g ''tod_info'') 14 (OMCI_ATTR_PROP_RD OR OMCI_ATTR_PROP_WR OR OMCI_ATTR_PROP_OPTIONAL) None]
    [(8, ''set_action_handle''), (9, ''get_action_handle'')]
    (Some ''omci_olt_g.me_init'') None None (Some ''omci_olt_g.me_update'')
    None None None None
    None (sizeof omci_me_olt_g) (OMCI_ME_PROP_NONE OR OMCI_ME_PROP_REVIEW)"

definition omci_me_onu_data :: struct_layout where
  "omci_me_onu_data = [
    (''mib_data_sync'', 1)]"

definition me_onu_data_class :: me_class where
  [class_defs]: "me_onu_data_class = mk_class 2
    [ATTR_UINT 0 0xFF (offsetof omci_me_onu_data ''mib_data_sync'') 1 (OMCI_ATTR_PROP_RD OR OMCI_ATTR_PROP_WR) None]
    [(8, ''set_action_handle''), (9, ''get_action_handle''), (11, ''omci_onu_data.get_all_alarms_action_handle''), (12, ''omci_onu_data.get_all_alarms_next_action_handle''), (13, ''omci_onu_data.mib_upload_action_handle''), (14, ''omci_onu_data.mib_upload_next_action_handle''), (15, ''omci_onu_data.mib_reset_action_handle'')]
    (Some ''default_me_init'') None None (Some ''default_me_update'')
    None None None None
    None (sizeof omci_me_onu_data) (OMCI_ME_PROP_NONE OR OMCI_ME_PROP_REVIEW)"

definition omci_me_onu_g :: struct_layout where
  "omci_me_onu_g = [
    (''vendor_id'', 4), (''version'', 14), (''serial_num'', 8), (''traffic_management'', 1), (''vp_vc'', 1),
     (''battery_backup'', 1), (''admin_state'', 1), (''oper_state'', 1), (''survival_time'', 1)]"

definition me_onu_g_class :: me_class where
  [class_defs]: "me_onu_g_class = mk_class 0x100
    [ATTR_STR (offsetof omci_me_onu_g ''vendor_id'') 4 (OMCI_ATTR_PROP_RD OR OMCI_ATTR_PROP_AVC) None,
     ATTR_STR (offsetof omci_me_onu_g ''version'') 14 (OMCI_ATTR_PROP_RD OR OMCI_ATTR_PROP_AVC) None,
     ATTR_STR (offsetof omci_me_onu_g ''serial_num'') 8 (OMCI_ATTR_PROP_RD OR OMCI_ATTR_PROP_AVC) (Some ''omci_onu_g.serial_number_get''),
     ATTR_ENUM [0, 1, 2] (offsetof omci_me_onu_g ''traffic_management'') 1 OMCI_ATTR_PROP_RD None,
     ATTR_UINT 0 0 (offsetof omci_me_onu_g ''vp_vc'') 1 (OMCI_ATTR_PROP_RD OR OMCI_ATTR_PROP_OPTIONAL) None,
     ATTR_BOOL (offsetof omci_me_onu_g ''battery_backup'') 1 (OMCI_ATTR_PROP_RD OR OMCI_ATTR_PROP_WR OR OMCI_ATTR_PROP_TEMPLATE) None,
     ATTR_BOOL (offsetof omci_me_onu_g ''admin_state'') 1 (OMCI_ATTR_PROP_RD OR OMCI_ATTR_PROP_WR OR OMCI_ATTR_PROP_TEMPLATE) None,
     ATTR_BOOL (offsetof omci_me_onu_g ''oper_state'') 1 (OMCI_ATTR_PROP_RD OR OMCI_ATTR_PROP_AVC OR OMCI_ATTR_PROP_TEMPLATE) None,
     ATTR_UINT 0 0xFF (offsetof omci_me_onu_g ''survival_time'') 1 (OMCI_ATTR_PROP_RD OR OMCI_ATTR_PROP_TEMPLATE) None]
    [(8, ''set_action_handle''), (9, ''get_action_handle''), (18, ''omci_onu_g.test_action_handle''), (24, ''omci_onu_g.sync_time_action_handle''), (25, ''reboot_acion_handle'')]
    (Some ''omci_onu_g.me_init'') (Some ''omci_onu_g.me_shutdown'') (Some ''default_me_validate'') (Some ''omci_onu_g.me_update'')
    None None None None
    None (sizeof omci_me_onu_g) (OMCI_ME_PROP_HAS_ALARMS OR OMCI_ME_PROP_REVIEW)"

definition classes_a :: "me_class list" where
  "classes_a = [me_ani_g_class,
     me_cardholder_class,
     me_circuit_pack_class,
     me_dop1p_mapper_class,
     me_dot1p_rate_limiter_class,
     me_equipment_extension_package_class,
     me_extended_vlan_config_data_class,
     me_gal_ethernet_profile_class,
     me_gem_interworking_tp_class,
     me_gem_port_network_ctp_class,
     me_ip_host_config_data_class,
     me_large_string_class,
     me_vlan_tagging_filter_data_class,
     me_vlan_tagging_operation_config_data_class,
     me_mac_bridge_config_data_class,
     me_mac_bridge_port_bridge_table_data_class,
     me_mac_bridge_port_config_data_class,
     me_mac_bridge_port_designation_data_class,
     me_mac_bridge_port_filter_preassign_table_class,
     me_mac_bridge_port_filter_table_data_class,
     me_mac_bridge_service_profile_class,
     me_multicast_get_interworking_tp_class,
     me_multicast_operations_profile_class,
     me_multicast_subscriber_config_class,
     me_multicast_subscriber_monitor_class,
     me_olt_g_class,
     me_onu_data_class,
     me_onu_g_class]"

end
