(* ===== verification/Omci_Classes_B.thy ===== *)
theory Omci_Classes_B
  imports Omci_Types
begin

text \<open>
  Managed entity classes of \<^verbatim>\<open>src/me/\<close>, entries 29 to 56 of the list of supported classes, with the
  layouts of their attribute structures. Attributes that are not defined fill the array up to 16.
\<close>

definition omci_me_onu_power_shedding :: struct_layout where
  "omci_me_onu_power_shedding = [
    (''restore_power_timer_interval'', 2), (''data_power_shed_interval'', 2),
     (''voice_power_shed_interval'', 2), (''video_overlay_power_shed_interval'', 2),
     (''video_return_power_shed_interval'', 2), (''dsl_power_shed_interval'', 2),
     (''atm_power_shed_interval'', 2), (''ces_power_shed_interval'', 2), (''frame_power_shed_interval'', 2),
     (''sonet_power_shed_interval'', 2), (''power_shed_status'', 2)]"

definition me_onu_power_shedding_class :: me_class where
  [class_defs]: "me_onu_power_shedding_class = mk_class 0x85
    [ATTR_UINT 0 0xFFFF (offsetof omci_me_onu_power_shedding ''restore_power_timer_interval'') 2 (OMCI_ATTR_PROP_RD OR OMCI_ATTR_PROP_WR) None,
     ATTR_UINT 0 0xFFFF (offsetof omci_me_onu_power_shedding ''data_power_shed_interval'') 2 (OMCI_ATTR_PROP_RD OR OMCI_ATTR_PROP_WR) None,
     ATTR_UINT 0 0xFFFF (offsetof omci_me_onu_power_shedding ''voice_power_shed_interval'') 2 (OMCI_ATTR_PROP_RD OR OMCI_ATTR_PROP_WR) None,
     ATTR_UINT 0 0xFFFF (offsetof omci_me_onu_power_shedding ''video_overlay_power_shed_interval'') 2 (OMCI_ATTR_PROP_RD OR OMCI_ATTR_PROP_WR OR OMCI_ATTR_PROP_TEMPLATE) None,
     ATTR_UINT 0 0xFFFF (offsetof omci_me_onu_power_shedding ''video_return_power_shed_interval'') 2 (OMCI_ATTR_PROP_RD OR OMCI_ATTR_PROP_WR OR OMCI_ATTR_PROP_TEMPLATE) None,
     ATTR_UINT 0 0xFFFF (offsetof omci_me_onu_power_shedding ''dsl_power_shed_interval'') 2 (OMCI_ATTR_PROP_RD OR OMCI_ATTR_PROP_WR OR OMCI_ATTR_PROP_TEMPLATE) None,
     ATTR_UINT 0 0xFFFF (offsetof omci_me_onu_power_shedding ''atm_power_shed_interval'') 2 (OMCI_ATTR_PROP_RD OR OMCI_ATTR_PROP_WR OR OMCI_ATTR_PROP_TEMPLATE) None,
     ATTR_UINT 0 0xFFFF (offsetof omci_me_onu_power_shedding ''ces_power_shed_interval'') 2 (OMCI_ATTR_PROP_RD OR OMCI_ATTR_PROP_WR OR OMCI_ATTR_PROP_TEMPLATE) None,
     ATTR_UINT 0 0xFFFF (offsetof omci_me_onu_power_shedding ''frame_power_shed_interval'') 2 (OMCI_ATTR_PROP_RD OR OMCI_ATTR_PROP_WR OR OMCI_ATTR_PROP_TEMPLATE) None,
     ATTR_UINT 0 0xFFFF (offsetof omci_me_onu_power_shedding ''sonet_power_shed_interval'') 2 (OMCI_ATTR_PROP_RD OR OMCI_ATTR_PROP_WR OR OMCI_ATTR_PROP_TEMPLATE) None,
     ATTR_BF 0xFF80 (offsetof omci_me_onu_power_shedding ''power_shed_status'') 2 (OMCI_ATTR_PROP_RD OR OMCI_ATTR_PROP_WR OR OMCI_ATTR_PROP_AVC OR OMCI_ATTR_PROP_OPTIONAL) None]
    [(8, ''set_action_handle''), (9, ''get_action_handle'')]
    (Some ''default_me_init'') (Some ''default_me_shutdown'') (Some ''default_me_validate'') (Some ''default_me_update'')
    None None None None
    None (sizeof omci_me_onu_power_shedding) (OMCI_ME_PROP_NONE OR OMCI_ME_PROP_REVIEW)"

definition omci_me_mac_bridge_port_extension :: struct_layout where
  "omci_me_mac_bridge_port_extension = [
    (''mac_switching_mode'', 1)]"

definition me_mac_bridge_port_extension_class :: me_class where
  [class_defs]: "me_mac_bridge_port_extension_class = mk_class 0xF0
    [ATTR_UINT 0 0xFF (offsetof omci_me_mac_bridge_port_extension ''mac_switching_mode'') 1 (OMCI_ATTR_PROP_RD OR OMCI_ATTR_PROP_WR OR OMCI_ATTR_PROP_TEMPLATE) None]
    [(4, ''create_action_handle''), (6, ''delete_action_handle''), (8, ''set_action_handle''), (9, ''get_action_handle'')]
    (Some ''omci_mac_bridge_port_extension.me_init'') None (Some ''default_me_validate'') (Some ''omci_mac_bridge_port_extension.me_update'')
    None None None None
    None (sizeof omci_me_mac_bridge_port_extension) (OMCI_ME_PROP_NONE OR OMCI_ME_PROP_REVIEW)"

definition omci_me_241_0 :: struct_layout where
  "omci_me_241_0 = [
    (''time_of_day'', 7), (''start_of_ipvid'', 2)]"

definition me_241_0_class :: me_class where
  [class_defs]: "me_241_0_class = mk_class 0xF1
    [ATTR_STR (offsetof omci_me_241_0 ''time_of_day'') 7 (OMCI_ATTR_PROP_RD OR OMCI_ATTR_PROP_WR) None,
     ATTR_UINT 0 0xFFFF (offsetof omci_me_241_0 ''start_of_ipvid'') 2 (OMCI_ATTR_PROP_RD OR OMCI_ATTR_PROP_WR) None]
    [(4, ''create_action_handle''), (6, ''delete_action_handle''), (8, ''set_action_handle''), (9, ''get_action_handle'')]
    (Some ''omci_me_241_0.me_init'') (Some ''omci_me_241_0.me_shutdown'') (Some ''default_me_validate'') (Some ''omci_me_241_0.me_update'')
    None None None None
    None (sizeof omci_me_241_0) OMCI_ME_PROP_NONE"

definition omci_me_242 :: struct_layout where
  "omci_me_242 = [
    (''dummy'', 30)]"

definition me_242_class :: me_class where
  [class_defs]: "me_242_class = mk_class 0xF2
    [ATTR_STR (offsetof omci_me_242 ''dummy'') 30 (OMCI_ATTR_PROP_RD OR OMCI_ATTR_PROP_WR) None]
    [(4, ''create_action_handle''), (6, ''delete_action_handle''), (8, ''set_action_handle''), (9, ''get_action_handle'')]
    (Some ''omci_me_242.me_init'') (Some ''omci_me_242.me_shutdown'') (Some ''default_me_validate'') (Some ''omci_me_242.me_update'')
    None None None None
    None (sizeof omci_me_242) OMCI_ME_PROP_NONE"

definition omci_me_243 :: struct_layout where
  "omci_me_243 = [
    (''dummy'', 30)]"

definition me_243_class :: me_class where
  [class_defs]: "me_243_class = mk_class 0xF3
    [ATTR_STR (offsetof omci_me_243 ''dummy'') 30 (OMCI_ATTR_PROP_RD OR OMCI_ATTR_PROP_WR) None]
    [(4, ''create_action_handle''), (6, ''delete_action_handle''), (8, ''set_action_handle''), (9, ''get_action_handle'')]
    (Some ''omci_me_243.me_init'') (Some ''omci_me_243.me_shutdown'') (Some ''default_me_validate'') (Some ''omci_me_243.me_update'')
    None None None None
    None (sizeof omci_me_243) OMCI_ME_PROP_NONE"

definition omci_me_244 :: struct_layout where
  "omci_me_244 = [
    (''dummy'', 30)]"

definition me_244_class :: me_class where
  [class_defs]: "me_244_class = mk_class 0xF4
    [ATTR_STR (offsetof omci_me_244 ''dummy'') 30 (OMCI_ATTR_PROP_RD OR OMCI_ATTR_PROP_WR) None]
    [(4, ''create_action_handle''), (6, ''delete_action_handle''), (8, ''set_action_handle''), (9, ''get_action_handle'')]
    (Some ''omci_me_244.me_init'') (Some ''omci_me_244.me_shutdown'') (Some ''default_me_validate'') (Some ''omci_me_244.me_update'')
    None None None None
    None (sizeof omci_me_244) OMCI_ME_PROP_NONE"

definition omci_me_245 :: struct_layout where
  "omci_me_245 = [
    (''dummy'', 30)]"

definition me_245_class :: me_class where
  [class_defs]: "me_245_class = mk_class 0xF5
    [ATTR_STR (offsetof omci_me_245 ''dummy'') 30 (OMCI_ATTR_PROP_RD OR OMCI_ATTR_PROP_WR) None]
    [(4, ''create_action_handle''), (6, ''delete_action_handle''), (8, ''set_action_handle''), (9, ''get_action_handle'')]
    (Some ''omci_me_245.me_init'') (Some ''omci_me_245.me_shutdown'') (Some ''default_me_validate'') (Some ''omci_me_245.me_update'')
    None None None None
    None (sizeof omci_me_245) OMCI_ME_PROP_NONE"

definition omci_me_246 :: struct_layout where
  "omci_me_246 = [
    (''dummy'', 30)]"

definition me_246_class :: me_class where
  [class_defs]: "me_246_class = mk_class 0xF6
    [ATTR_STR (offsetof omci_me_246 ''dummy'') 30 (OMCI_ATTR_PROP_RD OR OMCI_ATTR_PROP_WR) None]
    [(4, ''create_action_handle''), (6, ''delete_action_handle''), (8, ''set_action_handle''), (9, ''get_action_handle'')]
    (Some ''omci_me_246.me_init'') (Some ''omci_me_246.me_shutdown'') (Some ''default_me_validate'') (Some ''omci_me_246.me_update'')
    None None None None
    None (sizeof omci_me_246) OMCI_ME_PROP_NONE"

definition omci_me_247 :: struct_layout where
  "omci_me_247 = [
    (''dummy'', 30)]"

definition me_247_class :: me_class where
  [class_defs]: "me_247_class = mk_class 0xF7
    [ATTR_STR (offsetof omci_me_247 ''dummy'') 30 (OMCI_ATTR_PROP_RD OR OMCI_ATTR_PROP_WR) None]
    [(4, ''create_action_handle''), (6, ''delete_action_handle''), (8, ''set_action_handle''), (9, ''get_action_handle'')]
    (Some ''omci_me_247.me_init'') (Some ''omci_me_247.me_shutdown'') (Some ''default_me_validate'') (Some ''omci_me_247.me_update'')
    None None None None
    None (sizeof omci_me_247) OMCI_ME_PROP_NONE"

definition omci_me_248 :: struct_layout where
  "omci_me_248 = [
    (''dummy'', 30)]"

definition me_248_class :: me_class where
  [class_defs]: "me_248_class = mk_class 0xF8
    [ATTR_STR (offsetof omci_me_248 ''dummy'') 30 (OMCI_ATTR_PROP_RD OR OMCI_ATTR_PROP_WR) None]
    [(4, ''create_action_handle''), (6, ''delete_action_handle''), (8, ''set_action_handle''), (9, ''get_action_handle'')]
    (Some ''omci_me_248.me_init'') (Some ''omci_me_248.me_shutdown'') (Some ''default_me_validate'') (Some ''omci_me_248.me_update'')
    None None None None
    None (sizeof omci_me_248) OMCI_ME_PROP_NONE"

definition omci_me_249 :: struct_layout where
  "omci_me_249 = [
    (''dummy'', 30)]"

definition me_249_class :: me_class where
  [class_defs]: "me_249_class = mk_class 0xF9
    [ATTR_STR (offsetof omci_me_249 ''dummy'') 30 (OMCI_ATTR_PROP_RD OR OMCI_ATTR_PROP_WR) None]
    [(4, ''create_action_handle''), (6, ''delete_action_handle''), (8, ''set_action_handle''), (9, ''get_action_handle'')]
    (Some ''omci_me_249.me_init'') (Some ''omci_me_249.me_shutdown'') (Some ''default_me_validate'') (Some ''omci_me_249.me_update'')
    None None None None
    None (sizeof omci_me_249) OMCI_ME_PROP_NONE"

definition omci_me_250 :: struct_layout where
  "omci_me_250 = [
    (''dummy'', 30)]"

definition me_250_class :: me_class where
  [class_defs]: "me_250_class = mk_class 0xFA
    [ATTR_STR (offsetof omci_me_250 ''dummy'') 30 (OMCI_ATTR_PROP_RD OR OMCI_ATTR_PROP_WR) None]
    [(4, ''create_action_handle''), (6, ''delete_action_handle''), (8, ''set_action_handle''), (9, ''get_action_handle'')]
    (Some ''omci_me_250.me_init'') (Some ''omci_me_250.me_shutdown'') (Some ''default_me_validate'') (Some ''omci_me_250.me_update'')
    None None None None
    None (sizeof omci_me_250) OMCI_ME_PROP_NONE"

definition omci_me_251 :: struct_layout where
  "omci_me_251 = [
    (''dummy'', 30)]"

definition me_251_class :: me_class where
  [class_defs]: "me_251_class = mk_class 0xFB
    [ATTR_STR (offsetof omci_me_251 ''dummy'') 30 (OMCI_ATTR_PROP_RD OR OMCI_ATTR_PROP_WR) None]
    [(4, ''create_action_handle''), (6, ''delete_action_handle''), (8, ''set_action_handle''), (9, ''get_action_handle'')]
    (Some ''omci_me_251.me_init'') (Some ''omci_me_251.me_shutdown'') (Some ''default_me_validate'') (Some ''omci_me_251.me_update'')
    None None None None
    None (sizeof omci_me_251) OMCI_ME_PROP_NONE"

definition omci_me_252 :: struct_layout where
  "omci_me_252 = [
    (''dummy'', 30)]"

definition me_252_class :: me_class where
  [class_defs]: "me_252_class = mk_class 0xFC
    [ATTR_STR (offsetof omci_me_252 ''dummy'') 30 (OMCI_ATTR_PROP_RD OR OMCI_ATTR_PROP_WR) None]
    [(4, ''create_action_handle''), (6, ''delete_action_handle''), (8, ''set_action_handle''), (9, ''get_action_handle'')]
    (Some ''omci_me_252.me_init'') (Some ''omci_me_252.me_shutdown'') (Some ''default_me_validate'') (Some ''omci_me_252.me_update'')
    None None None None
    None (sizeof omci_me_252) OMCI_ME_PROP_NONE"

definition omci_me_253 :: struct_layout where
  "omci_me_253 = [
    (''dummy'', 30)]"

definition me_253_class :: me_class where
  [class_defs]: "me_253_class = mk_class 0xFD
    [ATTR_STR (offsetof omci_me_253 ''dummy'') 30 (OMCI_ATTR_PROP_RD OR OMCI_ATTR_PROP_WR) None]
    [(4, ''create_action_handle''), (6, ''delete_action_handle''), (8, ''set_action_handle''), (9, ''get_action_handle'')]
    (Some ''omci_me_253.me_init'') (Some ''omci_me_253.me_shutdown'') (Some ''default_me_validate'') (Some ''omci_me_253.me_update'')
    None None None None
    None (sizeof omci_me_253) OMCI_ME_PROP_NONE"

definition omci_me_254 :: struct_layout where
  "omci_me_254 = [
    (''dummy'', 30)]"

definition me_254_class :: me_class where
  [class_defs]: "me_254_class = mk_class 0xFE
    [ATTR_STR (offsetof omci_me_254 ''dummy'') 30 (OMCI_ATTR_PROP_RD OR OMCI_ATTR_PROP_WR) None]
    [(4, ''create_action_handle''), (6, ''delete_action_handle''), (8, ''set_action_handle''), (9, ''get_action_handle'')]
    (Some ''omci_me_254.me_init'') (Some ''omci_me_254.me_shutdown'') (Some ''default_me_validate'') (Some ''omci_me_254.me_update'')
    None None None None
    None (sizeof omci_me_254) OMCI_ME_PROP_NONE"

definition omci_me_255 :: struct_layout where
  "omci_me_255 = [
    (''dummy'', 30)]"

definition me_255_class :: me_class where
  [class_defs]: "me_255_class = mk_class 0xFF
    [ATTR_STR (offsetof omci_me_255 ''dummy'') 30 (OMCI_ATTR_PROP_RD OR OMCI_ATTR_PROP_WR) None]
    [(4, ''create_action_handle''), (6, ''delete_action_handle''), (8, ''set_action_handle''), (9, ''get_action_handle'')]
    (Some ''omci_me_255.me_init'') (Some ''omci_me_255.me_shutdown'') (Some ''default_me_validate'') (Some ''omci_me_255.me_update'')
    None None None None
    None (sizeof omci_me_255) OMCI_ME_PROP_NONE"

definition omci_me_virtual_ethernet_interface_point :: struct_layout where
  "omci_me_virtual_ethernet_interface_point = [
    (''admin_state'', 1), (''oper_state'', 1), (''interdomain_name'', 25), (''tcp_udp_pointer'', 2),
     (''iana_assigned_port'', 2)]"

definition me_virtual_ethernet_interface_point_class :: me_class where
  [class_defs]: "me_virtual_ethernet_interface_point_class = mk_class 0x149
    [ATTR_BOOL (offsetof omci_me_virtual_ethernet_interface_point ''admin_state'') 1 (OMCI_ATTR_PROP_RD OR OMCI_ATTR_PROP_WR) None,
     ATTR_BOOL (offsetof omci_me_virtual_ethernet_interface_point ''oper_state'') 1 (OMCI_ATTR_PROP_RD OR OMCI_ATTR_PROP_AVC OR OMCI_ATTR_PROP_OPTIONAL OR OMCI_ATTR_PROP_TEMPLATE) None,
     ATTR_STR (offsetof omci_me_virtual_ethernet_interface_point ''interdomain_name'') 25 (OMCI_ATTR_PROP_RD OR OMCI_ATTR_PROP_WR OR OMCI_ATTR_PROP_OPTIONAL OR OMCI_ATTR_PROP_TEMPLATE) None,
     ATTR_PTR 0 0xFFFF (offsetof omci_me_virtual_ethernet_interface_point ''tcp_udp_pointer'') 2 (OMCI_ATTR_PROP_RD OR OMCI_ATTR_PROP_OPTIONAL OR OMCI_ATTR_PROP_TEMPLATE) None,
     ATTR_PTR 0 0xFFFF (offsetof omci_me_virtual_ethernet_interface_point ''iana_assigned_port'') 2 (OMCI_ATTR_PROP_RD OR OMCI_ATTR_PROP_TEMPLATE) None]
    [(8, ''set_action_handle''), (9, ''get_action_handle'')]
    (Some ''omci_virtual_ethernet_interface_point.me_init'') (Some ''omci_virtual_ethernet_interface_point.me_shutdown'') (Some ''omci_virtual_ethernet_interface_point.me_validate'') (Some ''omci_virtual_ethernet_interface_point.me_update'')
    None None None None
    None (sizeof omci_me_virtual_ethernet_interface_point) (OMCI_ME_PROP_HAS_ALARMS OR OMCI_ME_PROP_REVIEW)"

definition omci_me_authentication :: struct_layout where
  "omci_me_authentication = [
    (''validation_scheme'', 1), (''username_1'', 25), (''password'', 25), (''realm'', 25),
     (''username_2'', 25)]"

definition me_authentication_class :: me_class where
  [class_defs]: "me_authentication_class = mk_class 0x94
    [ATTR_UINT 0 3 (offsetof omci_me_authentication ''validation_scheme'') 1 (OMCI_ATTR_PROP_RD OR OMCI_ATTR_PROP_WR OR OMCI_ATTR_PROP_SBC) None,
     ATTR_STR (offsetof omci_me_authentication ''username_1'') 25 (OMCI_ATTR_PROP_RD OR OMCI_ATTR_PROP_WR) None,
     ATTR_STR (offsetof omci_me_authentication ''password'') 25 (OMCI_ATTR_PROP_RD OR OMCI_ATTR_PROP_WR) None,
     ATTR_STR (offsetof omci_me_authentication ''realm'') 25 (OMCI_ATTR_PROP_RD OR OMCI_ATTR_PROP_WR) None,
     ATTR_STR (offsetof omci_me_authentication ''username_2'') 25 (OMCI_ATTR_PROP_RD OR OMCI_ATTR_PROP_WR OR OMCI_ATTR_PROP_OPTIONAL) None]
    [(4, ''create_action_handle''), (6, ''delete_action_handle''), (8, ''set_action_handle''), (9, ''get_action_handle'')]
    (Some ''default_me_init'') (Some ''default_me_shutdown'') (Some ''default_me_validate'') (Some ''default_me_update'')
    None None None None
    None (sizeof omci_me_authentication) (OMCI_ME_PROP_NONE OR OMCI_ME_PROP_REVIEW)"

definition omci_me_network_address :: struct_layout where
  "omci_me_network_address = [
    (''security_ptr'', 2), (''address_ptr'', 2)]"

definition me_network_address_class :: me_class where
  [class_defs]: "me_network_address_class = mk_class 0x89
    [ATTR_PTR 0 0xFFFF (offsetof omci_me_network_address ''security_ptr'') 2 (OMCI_ATTR_PROP_RD OR OMCI_ATTR_PROP_WR OR OMCI_ATTR_PROP_SBC) None,
     ATTR_PTR 0 0xFFFF (offsetof omci_me_network_address ''address_ptr'') 2 (OMCI_ATTR_PROP_RD OR OMCI_ATTR_PROP_WR OR OMCI_ATTR_PROP_SBC) None]
    [(4, ''create_action_handle''), (6, ''delete_action_handle''), (8, ''set_action_handle''), (9, ''get_action_handle'')]
    (Some ''default_me_init'') (Some ''default_me_shutdown'') (Some ''default_me_validate'') (Some ''default_me_update'')
    None None None None
    None (sizeof omci_me_network_address) (OMCI_ME_PROP_NONE OR OMCI_ME_PROP_REVIEW)"

definition omci_tcp_udp_config_data :: struct_layout where
  "omci_tcp_udp_config_data = [
    (''port_id'', 2), (''protocol'', 1), (''tos_diffserv'', 1), (''ip_host_ptr'', 2)]"

definition me_tcp_udp_config_data_class :: me_class where
  [class_defs]: "me_tcp_udp_config_data_class = mk_class 0x88
    [ATTR_UINT 0 0xFFFF (offsetof omci_tcp_udp_config_data ''port_id'') 2 (OMCI_ATTR_PROP_RD OR OMCI_ATTR_PROP_WR OR OMCI_ATTR_PROP_SBC OR OMCI_ATTR_PROP_TEMPLATE) None,
     ATTR_UINT 0 0xFF (offsetof omci_tcp_udp_config_data ''protocol'') 1 (OMCI_ATTR_PROP_RD OR OMCI_ATTR_PROP_WR OR OMCI_ATTR_PROP_SBC OR OMCI_ATTR_PROP_TEMPLATE) None,
     ATTR_UINT 0 0xFF (offsetof omci_tcp_udp_config_data ''tos_diffserv'') 1 (OMCI_ATTR_PROP_RD OR OMCI_ATTR_PROP_WR OR OMCI_ATTR_PROP_SBC OR OMCI_ATTR_PROP_TEMPLATE) None,
     ATTR_UINT 0 0xFFFF (offsetof omci_tcp_udp_config_data ''ip_host_ptr'') 2 (OMCI_ATTR_PROP_RD OR OMCI_ATTR_PROP_WR OR OMCI_ATTR_PROP_SBC) None]
    [(4, ''create_action_handle''), (6, ''delete_action_handle''), (8, ''set_action_handle''), (9, ''get_action_handle'')]
    (Some ''default_me_init'') (Some ''default_me_shutdown'') (Some ''default_me_validate'') (Some ''default_me_update'')
    None None None None
    None (sizeof omci_tcp_udp_config_data) (OMCI_ME_PROP_NONE OR OMCI_ME_PROP_REVIEW)"

definition omci_me_onu2_g :: struct_layout where
  "omci_me_onu2_g = [
    (''equipment_id'', 20), (''omci_version'', 1), (''vendor_product_code'', 2),
     (''security_capability'', 1), (''security_mode'', 1), (''total_priority_queue_num'', 2),
     (''total_traffic_scheduler_num'', 1), (''mode'', 1), (''total_gem_port_id_num'', 2),
     (''sys_uptime'', 4), (''connectivity_capability'', 2), (''current_connectivity_mode'', 1),
     (''qos_configuration_flexibility'', 2), (''priority_queue_scale_factor'', 2)]"

definition me_onu2_g_class :: me_class where
  [class_defs]: "me_onu2_g_class = mk_class 0x101
    [ATTR_STR (offsetof omci_me_onu2_g ''equipment_id'') 20 OMCI_ATTR_PROP_RD None,
     ATTR_ENUM [0x80, 0x84, 0x85, 0x86, 0x96, 0xA0] (offsetof omci_me_onu2_g ''omci_version'') 1 (OMCI_ATTR_PROP_RD OR OMCI_ATTR_PROP_AVC OR OMCI_ATTR_PROP_PARTLY) None,
     ATTR_UINT 0 0xFFFF (offsetof omci_me_onu2_g ''vendor_product_code'') 2 (OMCI_ATTR_PROP_RD OR OMCI_ATTR_PROP_OPTIONAL) None,
     ATTR_ENUM [1] (offsetof omci_me_onu2_g ''security_capability'') 1 OMCI_ATTR_PROP_RD None,
     ATTR_ENUM [1] (offsetof omci_me_onu2_g ''security_mode'') 1 (OMCI_ATTR_PROP_RD OR OMCI_ATTR_PROP_WR) None,
     ATTR_UINT 0 0xFFF (offsetof omci_me_onu2_g ''total_priority_queue_num'') 2 OMCI_ATTR_PROP_RD None,
     ATTR_UINT 0 0xFF (offsetof omci_me_onu2_g ''total_traffic_scheduler_num'') 1 OMCI_ATTR_PROP_RD None,
     ATTR_ENUM [1] (offsetof omci_me_onu2_g ''mode'') 1 OMCI_ATTR_PROP_RD None,
     ATTR_UINT 0 0xFFF (offsetof omci_me_onu2_g ''total_gem_port_id_num'') 2 (OMCI_ATTR_PROP_RD OR OMCI_ATTR_PROP_OPTIONAL) None,
     ATTR_UINT 0 0xFFFFFFFF (offsetof omci_me_onu2_g ''sys_uptime'') 4 (OMCI_ATTR_PROP_RD OR OMCI_ATTR_PROP_OPTIONAL) (Some ''omci_onu2_g.sys_uptime_get''),
     ATTR_UINT 0 0xFFFF (offsetof omci_me_onu2_g ''connectivity_capability'') 2 (OMCI_ATTR_PROP_RD OR OMCI_ATTR_PROP_OPTIONAL) None,
     ATTR_UINT 0 0xFF (offsetof omci_me_onu2_g ''current_connectivity_mode'') 1 (OMCI_ATTR_PROP_RD OR OMCI_ATTR_PROP_WR OR OMCI_ATTR_PROP_OPTIONAL) None,
     ATTR_UINT 0 0xFFFF (offsetof omci_me_onu2_g ''qos_configuration_flexibility'') 2 (OMCI_ATTR_PROP_RD OR OMCI_ATTR_PROP_OPTIONAL) None,
     ATTR_UINT 0 0xFFFF (offsetof omci_me_onu2_g ''priority_queue_scale_factor'') 2 (OMCI_ATTR_PROP_RD OR OMCI_ATTR_PROP_WR OR OMCI_ATTR_PROP_OPTIONAL) None]
    [(8, ''set_action_handle''), (9, ''get_action_handle'')]
    (Some ''default_me_init'') None (Some ''default_me_validate'') (Some ''default_me_update'')
    None None None None
    None (sizeof omci_me_onu2_g) (OMCI_ME_PROP_NONE OR OMCI_ME_PROP_REVIEW)"

definition omci_me_dot1x_port_ext_pkg :: struct_layout where
  "omci_me_dot1x_port_ext_pkg = [
    (''dot1x_enable'', 1), (''action_register'', 1), (''auth_pae_state'', 1), (''backend_auth_state'', 1),
     (''admin_controlled_dirs'', 1), (''op_controlled_dirs'', 1), (''auth_controlled_port_status'', 1),
     (''quiet_period'', 2), (''server_timeout_period'', 2), (''re_auth_period'', 2),
     (''re_auth_enabled'', 1), (''key_tx_enabled'', 1)]"

definition me_dot1x_port_ext_pkg_class :: me_class where
  [class_defs]: "me_dot1x_port_ext_pkg_class = mk_class 0x122
    [ATTR_BOOL (offsetof omci_me_dot1x_port_ext_pkg ''dot1x_enable'') 1 (OMCI_ATTR_PROP_RD OR OMCI_ATTR_PROP_TEMPLATE) None,
     ATTR_ENUM [1, 2, 3] (offsetof omci_me_dot1x_port_ext_pkg ''action_register'') 1 (OMCI_ATTR_PROP_WR OR OMCI_ATTR_PROP_TEMPLATE) None,
     ATTR_ENUM [0, 1, 2, 3, 4, 5, 6, 7, 8, 9] (offsetof omci_me_dot1x_port_ext_pkg ''auth_pae_state'') 1 (OMCI_ATTR_PROP_RD OR OMCI_ATTR_PROP_OPTIONAL OR OMCI_ATTR_PROP_TEMPLATE) None,
     ATTR_ENUM [0, 1, 2, 3, 4, 5, 6, 7] (offsetof omci_me_dot1x_port_ext_pkg ''backend_auth_state'') 1 (OMCI_ATTR_PROP_RD OR OMCI_ATTR_PROP_OPTIONAL OR OMCI_ATTR_PROP_TEMPLATE) None,
     ATTR_ENUM [0, 1] (offsetof omci_me_dot1x_port_ext_pkg ''admin_controlled_dirs'') 1 (OMCI_ATTR_PROP_RD OR OMCI_ATTR_PROP_OPTIONAL OR OMCI_ATTR_PROP_TEMPLATE) None,
     ATTR_ENUM [0, 1] (offsetof omci_me_dot1x_port_ext_pkg ''op_controlled_dirs'') 1 (OMCI_ATTR_PROP_RD OR OMCI_ATTR_PROP_OPTIONAL OR OMCI_ATTR_PROP_TEMPLATE) None,
     ATTR_ENUM [1, 2] (offsetof omci_me_dot1x_port_ext_pkg ''auth_controlled_port_status'') 1 (OMCI_ATTR_PROP_RD OR OMCI_ATTR_PROP_OPTIONAL OR OMCI_ATTR_PROP_TEMPLATE) None,
     ATTR_UINT 0 0xFFFF (offsetof omci_me_dot1x_port_ext_pkg ''quiet_period'') 2 (OMCI_ATTR_PROP_RD OR OMCI_ATTR_PROP_WR OR OMCI_ATTR_PROP_OPTIONAL OR OMCI_ATTR_PROP_TEMPLATE) None,
     ATTR_UINT 0 0xFFFF (offsetof omci_me_dot1x_port_ext_pkg ''server_timeout_period'') 2 (OMCI_ATTR_PROP_RD OR OMCI_ATTR_PROP_WR OR OMCI_ATTR_PROP_OPTIONAL OR OMCI_ATTR_PROP_TEMPLATE) None,
     ATTR_UINT 0 0xFFFF (offsetof omci_me_dot1x_port_ext_pkg ''re_auth_period'') 2 (OMCI_ATTR_PROP_RD OR OMCI_ATTR_PROP_OPTIONAL OR OMCI_ATTR_PROP_TEMPLATE) None,
     ATTR_BOOL (offsetof omci_me_dot1x_port_ext_pkg ''re_auth_enabled'') 1 (OMCI_ATTR_PROP_RD OR OMCI_ATTR_PROP_OPTIONAL OR OMCI_ATTR_PROP_TEMPLATE) None,
     ATTR_BOOL (offsetof omci_me_dot1x_port_ext_pkg ''key_tx_enabled'') 1 (OMCI_ATTR_PROP_RD OR OMCI_ATTR_PROP_WR OR OMCI_ATTR_PROP_OPTIONAL OR OMCI_ATTR_PROP_TEMPLATE) None]
    [(8, ''set_action_handle''), (9, ''get_action_handle'')]
    (Some ''omci_dot1x_port_ext_pkg.me_init'') None (Some ''default_me_validate'') (Some ''omci_dot1x_port_ext_pkg.me_update'')
    None None None None
    None (sizeof omci_me_dot1x_port_ext_pkg) (OMCI_ME_PROP_NONE OR OMCI_ME_PROP_REVIEW)"

definition omci_me_port_mapping_package :: struct_layout where
  "omci_me_port_mapping_package = [
    (''max_port_num'', 1), (''port_list1'', 16), (''port_list2'', 16), (''port_list3'', 16),
     (''port_list4'', 16), (''port_list5'', 16), (''port_list6'', 16), (''port_list7'', 16),
     (''port_list8'', 16)]"

definition me_port_mapping_package_class :: me_class where
  [class_defs]: "me_port_mapping_package_class = mk_class 0x129
    [ATTR_UINT 0 0xFF (offsetof omci_me_port_mapping_package ''max_port_num'') 1 OMCI_ATTR_PROP_RD None,
     ATTR_STR (offsetof omci_me_port_mapping_package ''port_list1'') 16 OMCI_ATTR_PROP_RD None,
     ATTR_STR (offsetof omci_me_port_mapping_package ''port_list2'') 16 (OMCI_ATTR_PROP_RD OR OMCI_ATTR_PROP_OPTIONAL) None,
     ATTR_STR (offsetof omci_me_port_mapping_package ''port_list3'') 16 (OMCI_ATTR_PROP_RD OR OMCI_ATTR_PROP_OPTIONAL) None,
     ATTR_STR (offsetof omci_me_port_mapping_package ''port_list4'') 16 (OMCI_ATTR_PROP_RD OR OMCI_ATTR_PROP_OPTIONAL) None,
     ATTR_STR (offsetof omci_me_port_mapping_package ''port_list5'') 16 (OMCI_ATTR_PROP_RD OR OMCI_ATTR_PROP_OPTIONAL) None,
     ATTR_STR (offsetof omci_me_port_mapping_package ''port_list6'') 16 (OMCI_ATTR_PROP_RD OR OMCI_ATTR_PROP_OPTIONAL) None,
     ATTR_STR (offsetof omci_me_port_mapping_package ''port_list7'') 16 (OMCI_ATTR_PROP_RD OR OMCI_ATTR_PROP_OPTIONAL) None,
     ATTR_STR (offsetof omci_me_port_mapping_package ''port_list8'') 16 (OMCI_ATTR_PROP_RD OR OMCI_ATTR_PROP_OPTIONAL) None]
    [(9, ''get_action_handle'')]
    (Some ''default_me_init'') None (Some ''default_me_validate'') (Some ''omci_port_mapping_package.me_update'')
    None None None None
    None (sizeof omci_me_port_mapping_package) (OMCI_ME_PROP_NONE OR OMCI_ME_PROP_REVIEW)"

definition omci_me_pptp_ethernet_uni :: struct_layout where
  "omci_me_pptp_ethernet_uni = [
    (''expected_type'', 1), (''sensed_type'', 1), (''auto_detect_config'', 1),
     (''ether_loopback_config'', 1), (''admin_state'', 1), (''oper_state'', 1), (''config_ind'', 1),
     (''max_frame_size'', 2), (''dte_dce_ind'', 1), (''pause_time'', 2), (''bridged_ip_ind'', 1),
     (''arc'', 1), (''arc_interval'', 1), (''pppoe_filter'', 1), (''power_control'', 1)]"

definition me_pptp_ethernet_uni_class :: me_class where
  [class_defs]: "me_pptp_ethernet_uni_class = mk_class 0xB
    [ATTR_ENUM [0, 0x16, 0x17, 0x18, 0x2F, 0xF3, 0xF4, 0xF5, 0xF6, 0xF7, 0xF8, 0xF9] (offsetof omci_me_pptp_ethernet_uni ''expected_type'') 1 (OMCI_ATTR_PROP_RD OR OMCI_ATTR_PROP_WR OR OMCI_ATTR_PROP_TEMPLATE) None,
     ATTR_ENUM [0, 0x16, 0x17, 0x18, 0x2F, 0xF3, 0xF4, 0xF5, 0xF6, 0xF7, 0xF8, 0xF9] (offsetof omci_me_pptp_ethernet_uni ''sensed_type'') 1 (OMCI_ATTR_PROP_RD OR OMCI_ATTR_PROP_AVC OR OMCI_ATTR_PROP_TEMPLATE) (Some ''omci_pptp_ethernet_uni.sensed_type_get''),
     ATTR_ENUM [0, 1, 2, 3, 4, 0x10, 0x11, 0x12, 0x13, 0x14, 0x20, 0x30] (offsetof omci_me_pptp_ethernet_uni ''auto_detect_config'') 1 (OMCI_ATTR_PROP_RD OR OMCI_ATTR_PROP_WR) None,
     ATTR_ENUM [0, 3] (offsetof omci_me_pptp_ethernet_uni ''ether_loopback_config'') 1 (OMCI_ATTR_PROP_RD OR OMCI_ATTR_PROP_WR) None,
     ATTR_BOOL (offsetof omci_me_pptp_ethernet_uni ''admin_state'') 1 (OMCI_ATTR_PROP_RD OR OMCI_ATTR_PROP_WR) None,
     ATTR_BOOL (offsetof omci_me_pptp_ethernet_uni ''oper_state'') 1 (OMCI_ATTR_PROP_RD OR OMCI_ATTR_PROP_AVC OR OMCI_ATTR_PROP_TEMPLATE OR OMCI_ATTR_PROP_OPTIONAL) (Some ''omci_pptp_ethernet_uni.oper_state_get''),
     ATTR_ENUM [0, 1, 2, 3, 0x11, 0x12, 0x13] (offsetof omci_me_pptp_ethernet_uni ''config_ind'') 1 (OMCI_ATTR_PROP_RD OR OMCI_ATTR_PROP_TEMPLATE) (Some ''omci_pptp_ethernet_uni.config_ind_get''),
     ATTR_UINT 0 0xFFFF (offsetof omci_me_pptp_ethernet_uni ''max_frame_size'') 2 (OMCI_ATTR_PROP_RD OR OMCI_ATTR_PROP_WR) None,
     ATTR_ENUM [0, 1] (offsetof omci_me_pptp_ethernet_uni ''dte_dce_ind'') 1 (OMCI_ATTR_PROP_RD OR OMCI_ATTR_PROP_WR OR OMCI_ATTR_PROP_TEMPLATE) None,
     ATTR_UINT 0 0xFFFF (offsetof omci_me_pptp_ethernet_uni ''pause_time'') 2 (OMCI_ATTR_PROP_RD OR OMCI_ATTR_PROP_WR OR OMCI_ATTR_PROP_OPTIONAL OR OMCI_ATTR_PROP_TEMPLATE) None,
     ATTR_ENUM [0, 1, 2] (offsetof omci_me_pptp_ethernet_uni ''bridged_ip_ind'') 1 (OMCI_ATTR_PROP_RD OR OMCI_ATTR_PROP_WR OR OMCI_ATTR_PROP_OPTIONAL OR OMCI_ATTR_PROP_TEMPLATE) None,
     ATTR_BOOL (offsetof omci_me_pptp_ethernet_uni ''arc'') 1 (OMCI_ATTR_PROP_RD OR OMCI_ATTR_PROP_WR OR OMCI_ATTR_PROP_AVC OR OMCI_ATTR_PROP_OPTIONAL) None,
     ATTR_UINT 0 0xFF (offsetof omci_me_pptp_ethernet_uni ''arc_interval'') 1 (OMCI_ATTR_PROP_RD OR OMCI_ATTR_PROP_WR OR OMCI_ATTR_PROP_OPTIONAL) None,
     ATTR_BOOL (offsetof omci_me_pptp_ethernet_uni ''pppoe_filter'') 1 (OMCI_ATTR_PROP_RD OR OMCI_ATTR_PROP_WR OR OMCI_ATTR_PROP_OPTIONAL) None,
     ATTR_BOOL (offsetof omci_me_pptp_ethernet_uni ''power_control'') 1 (OMCI_ATTR_PROP_RD OR OMCI_ATTR_PROP_WR OR OMCI_ATTR_PROP_OPTIONAL OR OMCI_ATTR_PROP_TEMPLATE) None]
    [(8, ''set_action_handle''), (9, ''get_action_handle'')]
    (Some ''omci_pptp_ethernet_uni.me_init'') (Some ''omci_pptp_ethernet_uni.me_shutdown'') (Some ''default_me_validate'') (Some ''omci_pptp_ethernet_uni.me_update'')
    None None None None
    None (sizeof omci_me_pptp_ethernet_uni) (OMCI_ME_PROP_HAS_ALARMS OR OMCI_ME_PROP_HAS_ARC OR OMCI_ME_PROP_REVIEW)"

definition omci_me_pptp_lct_uni :: struct_layout where
  "omci_me_pptp_lct_uni = [
    (''admin_state'', 1)]"

definition me_pptp_lct_uni_class :: me_class where
  [class_defs]: "me_pptp_lct_uni_class = mk_class 0x53
    [ATTR_BOOL (offsetof omci_me_pptp_lct_uni ''admin_state'') 1 (OMCI_ATTR_PROP_RD OR OMCI_ATTR_PROP_WR OR OMCI_ATTR_PROP_TEMPLATE) None]
    [(8, ''set_action_handle''), (9, ''get_action_handle'')]
    (Some ''omci_pptp_lct_uni.me_init'') (Some ''omci_pptp_lct_uni.me_shutdown'') (Some ''default_me_validate'') (Some ''omci_pptp_lct_uni.me_update'')
    None None None None
    None (sizeof omci_me_pptp_lct_uni) (OMCI_ME_PROP_NO_UPLOAD OR OMCI_ME_PROP_REVIEW)"

definition omci_me_priority_queue :: struct_layout where
  "omci_me_priority_queue = [
    (''config_option'', 1), (''max_size'', 2), (''allocated_size'', 2),
     (''discard_block_counter_reset_interval'', 2), (''discard_block_thr'', 2), (''related_port'', 4),
     (''traffic_scheduler_ptr'', 2), (''weight'', 1), (''back_pressure_oper'', 2),
     (''back_pressure_time'', 4), (''back_pressure_occur_thr'', 2), (''back_pressure_clear_thr'', 2),
     (''packet_drop_thr_green_min'', 2), (''packet_drop_thr_green_max'', 2),
     (''packet_drop_thr_yellow_min'', 2), (''packet_drop_thr_yellow_max'', 2),
     (''packet_drop_probability_green'', 1), (''packet_drop_probability_yellow'', 1), (''drop_avg_coef'', 1),
     (''drop_precedence_color_marking'', 1)]"

definition me_priority_queue_class :: me_class where
  [class_defs]: "me_priority_queue_class = mk_class 0x115
    [ATTR_UINT 0 1 (offsetof omci_me_priority_queue ''config_option'') 1 (OMCI_ATTR_PROP_RD OR OMCI_ATTR_PROP_TEMPLATE) (Some ''omci_priority_queue.config_option_get''),
     ATTR_UINT 0 0xFFFF (offsetof omci_me_priority_queue ''max_size'') 2 (OMCI_ATTR_PROP_RD OR OMCI_ATTR_PROP_TEMPLATE) (Some ''omci_priority_queue.max_size_get''),
     ATTR_UINT 0 0xFFFF (offsetof omci_me_priority_queue ''allocated_size'') 2 (OMCI_ATTR_PROP_RD OR OMCI_ATTR_PROP_WR) None,
     ATTR_UINT 0 0xFFFF (offsetof omci_me_priority_queue ''discard_block_counter_reset_interval'') 2 (OMCI_ATTR_PROP_RD OR OMCI_ATTR_PROP_WR OR OMCI_ATTR_PROP_OPTIONAL OR OMCI_ATTR_PROP_TEMPLATE) None,
     ATTR_UINT 0 0xFFFF (offsetof omci_me_priority_queue ''discard_block_thr'') 2 (OMCI_ATTR_PROP_RD OR OMCI_ATTR_PROP_WR OR OMCI_ATTR_PROP_OPTIONAL OR OMCI_ATTR_PROP_TEMPLATE) None,
     ATTR_UINT 0 0xFFFFFFFF (offsetof omci_me_priority_queue ''related_port'') 4 (OMCI_ATTR_PROP_RD OR OMCI_ATTR_PROP_WR) None,
     ATTR_PTR 0 0xFFFF (offsetof omci_me_priority_queue ''traffic_scheduler_ptr'') 2 (OMCI_ATTR_PROP_RD OR OMCI_ATTR_PROP_WR) None,
     ATTR_UINT 0 0xFF (offsetof omci_me_priority_queue ''weight'') 1 (OMCI_ATTR_PROP_RD OR OMCI_ATTR_PROP_WR) None,
     ATTR_BOOL (offsetof omci_me_priority_queue ''back_pressure_oper'') 2 (OMCI_ATTR_PROP_RD OR OMCI_ATTR_PROP_WR OR OMCI_ATTR_PROP_TEMPLATE) None,
     ATTR_UINT 0 0xFFFFFFFF (offsetof omci_me_priority_queue ''back_pressure_time'') 4 (OMCI_ATTR_PROP_RD OR OMCI_ATTR_PROP_WR OR OMCI_ATTR_PROP_TEMPLATE) None,
     ATTR_UINT 0 0xFFFF (offsetof omci_me_priority_queue ''back_pressure_occur_thr'') 2 (OMCI_ATTR_PROP_RD OR OMCI_ATTR_PROP_WR OR OMCI_ATTR_PROP_TEMPLATE) None,
     ATTR_UINT 0 0xFFFF (offsetof omci_me_priority_queue ''back_pressure_clear_thr'') 2 (OMCI_ATTR_PROP_RD OR OMCI_ATTR_PROP_WR OR OMCI_ATTR_PROP_TEMPLATE) None,
     ATTR_STR (offsetof omci_me_priority_queue ''packet_drop_thr_green_min'') 8 (OMCI_ATTR_PROP_RD OR OMCI_ATTR_PROP_WR OR OMCI_ATTR_PROP_OPTIONAL) None,
     ATTR_STR (offsetof omci_me_priority_queue ''packet_drop_probability_green'') 2 (OMCI_ATTR_PROP_RD OR OMCI_ATTR_PROP_WR OR OMCI_ATTR_PROP_OPTIONAL) None,
     ATTR_UINT 0 0xFF (offsetof omci_me_priority_queue ''drop_avg_coef'') 1 (OMCI_ATTR_PROP_RD OR OMCI_ATTR_PROP_WR OR OMCI_ATTR_PROP_OPTIONAL) None,
     ATTR_ENUM [0, 1, 2, 3, 4, 5, 6, 7] (offsetof omci_me_priority_queue ''drop_precedence_color_marking'') 1 (OMCI_ATTR_PROP_RD OR OMCI_ATTR_PROP_WR OR OMCI_ATTR_PROP_OPTIONAL) None]
    [(8, ''set_action_handle''), (9, ''get_action_handle'')]
    (Some ''default_me_init'') (Some ''omci_priority_queue.me_shutdown'') (Some ''omci_priority_queue.me_validate'') (Some ''omci_priority_queue.me_update'')
    None None None None
    None (sizeof omci_me_priority_queue) (OMCI_ME_PROP_HAS_ALARMS OR OMCI_ME_PROP_REVIEW)"

definition omci_me_sw_image :: struct_layout where
  "omci_me_sw_image = [
    (''version'', 14), (''is_committed'', 1), (''is_active'', 1), (''is_valid'', 1)]"

definition me_sw_image_class :: me_class where
  [class_defs]: "me_sw_image_class = mk_class 7
    [ATTR_STR (offsetof omci_me_sw_image ''version'') 14 OMCI_ATTR_PROP_RD None,
     ATTR_BOOL (offsetof omci_me_sw_image ''is_committed'') 1 OMCI_ATTR_PROP_RD None,
     ATTR_BOOL (offsetof omci_me_sw_image ''is_active'') 1 OMCI_ATTR_PROP_RD None,
     ATTR_BOOL (offsetof omci_me_sw_image ''is_valid'') 1 OMCI_ATTR_PROP_RD None]
    [(9, ''get_action_handle''), (19, ''omci_sw_image.start_dl_action_handle''), (20, ''omci_sw_image.dl_section_action_handle''), (21, ''omci_sw_image.end_dl_action_handle''), (22, ''omci_sw_image.activate_image_action_handle''), (23, ''omci_sw_image.commit_image_action_handle'')]
    (Some ''omci_sw_image.me_init'') (Some ''omci_sw_image.me_shutdown'') None (Some ''default_me_update'')
    None None None None
    None (sizeof omci_me_sw_image) (OMCI_ME_PROP_NONE OR OMCI_ME_PROP_REVIEW)"

definition classes_b :: "me_class list" where
  "classes_b = [me_onu_power_shedding_class,
     me_mac_bridge_port_extension_class,
     me_241_0_class,
     me_242_class,
     me_243_class,
     me_244_class,
     me_245_class,
     me_246_class,
     me_247_class,
     me_248_class,
     me_249_class,
     me_250_class,
     me_251_class,
     me_252_class,
     me_253_class,
     me_254_class,
     me_255_class,
     me_virtual_ethernet_interface_point_class,
     me_authentication_class,
     me_network_address_class,
     me_tcp_udp_config_data_class,
     me_onu2_g_class,
     me_dot1x_port_ext_pkg_class,
     me_port_mapping_package_class,
     me_pptp_ethernet_uni_class,
     me_pptp_lct_uni_class,
     me_priority_queue_class,
     me_sw_image_class]"

end
