(* ===== verification/Omci_Classes_C.thy ===== *)
theory Omci_Classes_C
  imports Omci_Types
begin

text \<open>
  Managed entity classes of \<^verbatim>\<open>src/me/\<close>, entries 57 to 84 of the list of supported classes, with the
  layouts of their attribute structures. Attributes that are not defined fill the array up to 16.
\<close>

definition omci_me_tcont :: struct_layout where
  "omci_me_tcont = [
    (''alloc_id'', 2), (''mode_indicator'', 1), (''policy'', 1)]"

definition me_tcont_class :: me_class where
  [class_defs]: "me_tcont_class = mk_class 0x106
    [ATTR_UINT 0 0xFFF (offsetof omci_me_tcont ''alloc_id'') 2 (OMCI_ATTR_PROP_RD OR OMCI_ATTR_PROP_WR) None,
     ATTR_ENUM [1] (offsetof omci_me_tcont ''mode_indicator'') 1 OMCI_ATTR_PROP_RD None,
     ATTR_ENUM [0, 1, 2] (offsetof omci_me_tcont ''policy'') 1 (OMCI_ATTR_PROP_RD OR OMCI_ATTR_PROP_WR) None]
    [(8, ''set_action_handle''), (9, ''get_action_handle'')]
    (Some ''default_me_init'') (Some ''omci_tcont.me_shutdown'') (Some ''default_me_validate'') (Some ''omci_tcont.me_update'')
    None None None None
    None (sizeof omci_me_tcont) (OMCI_ME_PROP_NONE OR OMCI_ME_PROP_REVIEW)"

definition omci_me_traffic_descriptor :: struct_layout where
  "omci_me_traffic_descriptor = [
    (''cir'', 4), (''pir'', 4), (''cbs'', 4), (''pbs'', 4), (''color_mode'', 1),
     (''ingress_color_marking'', 1), (''egress_color_marking'', 1), (''meter_type'', 1)]"

definition me_traffic_descriptor_class :: me_class where
  [class_defs]: "me_traffic_descriptor_class = mk_class 0x118
    [ATTR_UINT 0 0xFFFFFFFF (offsetof omci_me_traffic_descriptor ''cir'') 4 (OMCI_ATTR_PROP_RD OR OMCI_ATTR_PROP_WR OR OMCI_ATTR_PROP_SBC OR OMCI_ATTR_PROP_OPTIONAL OR OMCI_ATTR_PROP_TEMPLATE) None,
     ATTR_UINT 0 0xFFFFFFFF (offsetof omci_me_traffic_descriptor ''pir'') 4 (OMCI_ATTR_PROP_RD OR OMCI_ATTR_PROP_WR OR OMCI_ATTR_PROP_SBC OR OMCI_ATTR_PROP_OPTIONAL OR OMCI_ATTR_PROP_TEMPLATE) None,
     ATTR_UINT 0 0xFFFFFFFF (offsetof omci_me_traffic_descriptor ''cbs'') 4 (OMCI_ATTR_PROP_RD OR OMCI_ATTR_PROP_WR OR OMCI_ATTR_PROP_SBC) None,
     ATTR_UINT 0 0xFFFFFFFF (offsetof omci_me_traffic_descriptor ''pbs'') 4 (OMCI_ATTR_PROP_RD OR OMCI_ATTR_PROP_WR OR OMCI_ATTR_PROP_SBC OR OMCI_ATTR_PROP_OPTIONAL OR OMCI_ATTR_PROP_TEMPLATE) None,
     ATTR_ENUM [0, 1] (offsetof omci_me_traffic_descriptor ''color_mode'') 1 (OMCI_ATTR_PROP_RD OR OMCI_ATTR_PROP_WR OR OMCI_ATTR_PROP_SBC OR OMCI_ATTR_PROP_OPTIONAL OR OMCI_ATTR_PROP_TEMPLATE) None,
     ATTR_ENUM [0, 2, 3, 4, 5, 6, 7] (offsetof omci_me_traffic_descriptor ''ingress_color_marking'') 1 (OMCI_ATTR_PROP_RD OR OMCI_ATTR_PROP_WR OR OMCI_ATTR_PROP_SBC OR OMCI_ATTR_PROP_OPTIONAL OR OMCI_ATTR_PROP_TEMPLATE) None,
     ATTR_ENUM [0, 1, 2, 3, 4, 5, 6, 7] (offsetof omci_me_traffic_descriptor ''egress_color_marking'') 1 (OMCI_ATTR_PROP_RD OR OMCI_ATTR_PROP_WR OR OMCI_ATTR_PROP_SBC OR OMCI_ATTR_PROP_OPTIONAL OR OMCI_ATTR_PROP_TEMPLATE) None,
     ATTR_ENUM [0, 1, 2] (offsetof omci_me_traffic_descriptor ''meter_type'') 1 (OMCI_ATTR_PROP_RD OR OMCI_ATTR_PROP_WR OR OMCI_ATTR_PROP_SBC OR OMCI_ATTR_PROP_OPTIONAL OR OMCI_ATTR_PROP_TEMPLATE) None]
    [(4, ''create_action_handle''), (6, ''delete_action_handle''), (8, ''set_action_handle''), (9, ''get_action_handle'')]
    (Some ''omci_traffic_descriptor.me_init'') (Some ''omci_traffic_descriptor.me_shutdown'') (Some ''default_me_validate'') (Some ''omci_traffic_descriptor.me_update'')
    None None None None
    None (sizeof omci_me_traffic_descriptor) (OMCI_ME_PROP_NONE OR OMCI_ME_PROP_REVIEW)"

definition omci_me_traffic_scheduler :: struct_layout where
  "omci_me_traffic_scheduler = [
    (''tcont_ptr'', 2), (''traffic_scheduler_ptr'', 2), (''policy'', 1), (''priority_weight'', 1)]"

definition me_traffic_scheduler_class :: me_class where
  [class_defs]: "me_traffic_scheduler_class = mk_class 0x116
    [ATTR_PTR 0 0xFFFF (offsetof omci_me_traffic_scheduler ''tcont_ptr'') 2 OMCI_ATTR_PROP_RD None,
     ATTR_PTR 0 0xFFFF (offsetof omci_me_traffic_scheduler ''traffic_scheduler_ptr'') 2 OMCI_ATTR_PROP_RD None,
     ATTR_ENUM [0, 1, 2] (offsetof omci_me_traffic_scheduler ''policy'') 1 OMCI_ATTR_PROP_RD None,
     ATTR_UINT 0 0xFF (offsetof omci_me_traffic_scheduler ''priority_weight'') 1 (OMCI_ATTR_PROP_RD OR OMCI_ATTR_PROP_WR) None]
    [(8, ''set_action_handle''), (9, ''get_action_handle'')]
    (Some ''default_me_init'') (Some ''omci_traffic_scheduler.me_shutdown'') (Some ''omci_traffic_scheduler.me_validate'') (Some ''omci_traffic_scheduler.me_update'')
    None None None None
    None (sizeof omci_me_traffic_scheduler) (OMCI_ME_PROP_NONE OR OMCI_ME_PROP_REVIEW)"

definition omci_me_uni_g :: struct_layout where
  "omci_me_uni_g = [
    (''config_option_status'', 2), (''admin_state'', 1), (''mgmt_capability'', 1), (''non_omci_mgmg_id'', 2)]"

definition me_uni_g_class :: me_class where
  [class_defs]: "me_uni_g_class = mk_class 0x108
    [ATTR_BF 0x7000 (offsetof omci_me_uni_g ''config_option_status'') 2 (OMCI_ATTR_PROP_RD OR OMCI_ATTR_PROP_WR OR OMCI_ATTR_PROP_TEMPLATE) None,
     ATTR_BOOL (offsetof omci_me_uni_g ''admin_state'') 1 (OMCI_ATTR_PROP_RD OR OMCI_ATTR_PROP_WR) None,
     ATTR_UINT 0 2 (offsetof omci_me_uni_g ''mgmt_capability'') 1 (OMCI_ATTR_PROP_RD OR OMCI_ATTR_PROP_OPTIONAL) None,
     ATTR_UINT 0 0xFFFF (offsetof omci_me_uni_g ''non_omci_mgmg_id'') 2 (OMCI_ATTR_PROP_RD OR OMCI_ATTR_PROP_WR OR OMCI_ATTR_PROP_OPTIONAL OR OMCI_ATTR_PROP_TEMPLATE) None]
    [(8, ''set_action_handle''), (9, ''get_action_handle'')]
    (Some ''default_me_init'') (Some ''default_me_shutdown'') (Some ''default_me_validate'') (Some ''omci_uni_g.me_update'')
    None None None None
    None (sizeof omci_me_uni_g) (OMCI_ME_PROP_NONE OR OMCI_ME_PROP_REVIEW)"

definition omci_me_pptp_pots_uni :: struct_layout where
  "omci_me_pptp_pots_uni = [
    (''admin_state'', 1), (''interworking_tp_ptr'', 2), (''arc'', 1), (''arc_interval'', 1),
     (''impedance'', 1), (''transmission_path'', 1), (''rx_gain'', 1), (''tx_gain'', 1), (''oper_state'', 1),
     (''hook_state'', 1), (''pots_holdover_time'', 2)]"

definition me_pptp_pots_uni_class :: me_class where
  [class_defs]: "me_pptp_pots_uni_class = mk_class 0x35
    [ATTR_BOOL (offsetof omci_me_pptp_pots_uni ''admin_state'') 1 (OMCI_ATTR_PROP_RD OR OMCI_ATTR_PROP_WR) None,
     ATTR_PTR 0 0xFFFF (offsetof omci_me_pptp_pots_uni ''interworking_tp_ptr'') 2 (OMCI_ATTR_PROP_RD OR OMCI_ATTR_PROP_WR OR OMCI_ATTR_PROP_OPTIONAL) None,
     ATTR_BOOL (offsetof omci_me_pptp_pots_uni ''arc'') 1 (OMCI_ATTR_PROP_RD OR OMCI_ATTR_PROP_WR OR OMCI_ATTR_PROP_AVC OR OMCI_ATTR_PROP_OPTIONAL) None,
     ATTR_UINT 0 0xFF (offsetof omci_me_pptp_pots_uni ''arc_interval'') 1 (OMCI_ATTR_PROP_RD OR OMCI_ATTR_PROP_WR OR OMCI_ATTR_PROP_OPTIONAL) None,
     ATTR_ENUM [0, 1, 2, 3, 4, 0xFF] (offsetof omci_me_pptp_pots_uni ''impedance'') 1 (OMCI_ATTR_PROP_RD OR OMCI_ATTR_PROP_WR OR OMCI_ATTR_PROP_OPTIONAL OR OMCI_ATTR_PROP_TEMPLATE) None,
     ATTR_UINT 0 1 (offsetof omci_me_pptp_pots_uni ''transmission_path'') 1 (OMCI_ATTR_PROP_RD OR OMCI_ATTR_PROP_WR OR OMCI_ATTR_PROP_OPTIONAL OR OMCI_ATTR_PROP_TEMPLATE) None,
     ATTR_INT 0 0xFF (offsetof omci_me_pptp_pots_uni ''rx_gain'') 1 (OMCI_ATTR_PROP_RD OR OMCI_ATTR_PROP_WR OR OMCI_ATTR_PROP_OPTIONAL OR OMCI_ATTR_PROP_TEMPLATE) None,
     ATTR_INT 0 0xFF (offsetof omci_me_pptp_pots_uni ''tx_gain'') 1 (OMCI_ATTR_PROP_RD OR OMCI_ATTR_PROP_WR OR OMCI_ATTR_PROP_OPTIONAL OR OMCI_ATTR_PROP_TEMPLATE) None,
     ATTR_BOOL (offsetof omci_me_pptp_pots_uni ''oper_state'') 1 (OMCI_ATTR_PROP_RD OR OMCI_ATTR_PROP_AVC) None,
     ATTR_UINT 0 1 (offsetof omci_me_pptp_pots_uni ''hook_state'') 1 (OMCI_ATTR_PROP_RD OR OMCI_ATTR_PROP_OPTIONAL) (Some ''omci_pptp_pots_uni.hook_state_get''),
     ATTR_UINT 0 0xFFFF (offsetof omci_me_pptp_pots_uni ''pots_holdover_time'') 2 (OMCI_ATTR_PROP_RD OR OMCI_ATTR_PROP_WR OR OMCI_ATTR_PROP_TEMPLATE) None]
    [(8, ''set_action_handle''), (9, ''get_action_handle''), (18, ''omci_pptp_pots_uni.test_action_handle'')]
    (Some ''omci_pptp_pots_uni.me_init'') (Some ''omci_pptp_pots_uni.me_shutdown'') (Some ''omci_pptp_pots_uni.me_validate'') (Some ''omci_pptp_pots_uni.me_update'')
    None None None None
    None (sizeof omci_me_pptp_pots_uni) (OMCI_ME_PROP_HAS_ARC OR OMCI_ME_PROP_REVIEW)"

definition omci_me_voip_config_data :: struct_layout where
  "omci_me_voip_config_data = [
    (''available_signalling_protocols'', 1), (''signalling_protocol_used'', 1),
     (''available_voip_config_methods'', 4), (''voip_configuration_method_used'', 1),
     (''voip_config_address_ptr'', 2), (''voip_configuration_state'', 1), (''retrieve_profile'', 1),
     (''profile_version'', 25)]"

definition me_voip_config_data_class :: me_class where
  [class_defs]: "me_voip_config_data_class = mk_class 0x8A
    [ATTR_UINT 1 3 (offsetof omci_me_voip_config_data ''available_signalling_protocols'') 1 OMCI_ATTR_PROP_RD None,
     ATTR_UINT 0 0xFF (offsetof omci_me_voip_config_data ''signalling_protocol_used'') 1 (OMCI_ATTR_PROP_RD OR OMCI_ATTR_PROP_WR) None,
     ATTR_UINT 0 0xFFFFFFFF (offsetof omci_me_voip_config_data ''available_voip_config_methods'') 4 OMCI_ATTR_PROP_RD None,
     ATTR_UINT 0 0xFF (offsetof omci_me_voip_config_data ''voip_configuration_method_used'') 1 (OMCI_ATTR_PROP_RD OR OMCI_ATTR_PROP_WR) None,
     ATTR_UINT 0 0xFFFF (offsetof omci_me_voip_config_data ''voip_config_address_ptr'') 2 (OMCI_ATTR_PROP_RD OR OMCI_ATTR_PROP_WR) None,
     ATTR_UINT 0 3 (offsetof omci_me_voip_config_data ''voip_configuration_state'') 1 OMCI_ATTR_PROP_RD None,
     ATTR_UINT 0 0xFF (offsetof omci_me_voip_config_data ''retrieve_profile'') 1 OMCI_ATTR_PROP_WR None,
     ATTR_STR (offsetof omci_me_voip_config_data ''profile_version'') 25 OMCI_ATTR_PROP_WR None]
    [(4, ''create_action_handle''), (6, ''delete_action_handle''), (8, ''set_action_handle''), (9, ''get_action_handle'')]
    (Some ''default_me_init'') (Some ''default_me_shutdown'') (Some ''default_me_validate'') (Some ''default_me_update'')
    None None None None
    None (sizeof omci_me_voip_config_data) OMCI_ME_PROP_NONE"

definition omci_me_voip_voice_ctp :: struct_layout where
  "omci_me_voip_voice_ctp = [
    (''user_protocol_ptr'', 2), (''pptp_ptr'', 2), (''voip_media_ptr'', 2), (''signalling_code'', 1)]"

definition me_voip_voice_ctp_class :: me_class where
  [class_defs]: "me_voip_voice_ctp_class = mk_class 0x8B
    [ATTR_PTR 0 0xFFFF (offsetof omci_me_voip_voice_ctp ''user_protocol_ptr'') 2 (OMCI_ATTR_PROP_RD OR OMCI_ATTR_PROP_WR OR OMCI_ATTR_PROP_SBC) None,
     ATTR_PTR 0 0xFFFF (offsetof omci_me_voip_voice_ctp ''pptp_ptr'') 2 (OMCI_ATTR_PROP_RD OR OMCI_ATTR_PROP_WR OR OMCI_ATTR_PROP_SBC) None,
     ATTR_PTR 0 0xFFFF (offsetof omci_me_voip_voice_ctp ''voip_media_ptr'') 2 (OMCI_ATTR_PROP_RD OR OMCI_ATTR_PROP_WR OR OMCI_ATTR_PROP_SBC) None,
     ATTR_PTR 1 6 (offsetof omci_me_voip_voice_ctp ''signalling_code'') 1 (OMCI_ATTR_PROP_RD OR OMCI_ATTR_PROP_WR OR OMCI_ATTR_PROP_SBC) None]
    [(4, ''create_action_handle''), (6, ''delete_action_handle''), (8, ''set_action_handle''), (9, ''get_action_handle'')]
    (Some ''default_me_init'') None (Some ''default_me_validate'') (Some ''default_me_update'')
    None None None None
    None (sizeof omci_me_voip_voice_ctp) OMCI_ME_PROP_HAS_ARC"

definition omci_me_voip_media_profile :: struct_layout where
  "omci_me_voip_media_profile = [
    (''fax_mode'', 1), (''voice_service_profile_ptr'', 2), (''code_selection_1'', 1),
     (''packet_period_selection_1'', 1), (''silence_suppression_1'', 1), (''code_selection_2'', 1),
     (''packet_period_selection_2'', 1), (''silence_suppression_2'', 1), (''code_selection_3'', 1),
     (''packet_period_selection_3'', 1), (''silence_suppression_3'', 1), (''code_selection_4'', 1),
     (''packet_period_selection_4'', 1), (''silence_suppression_4'', 1), (''oob_dtmf'', 1),
     (''rtp_profile_ptr'', 2)]"

definition me_voip_media_profile_class :: me_class where
  [class_defs]: "me_voip_media_profile_class = mk_class 0x8E
    [ATTR_UINT 0 1 (offsetof omci_me_voip_media_profile ''fax_mode'') 1 (OMCI_ATTR_PROP_RD OR OMCI_ATTR_PROP_WR OR OMCI_ATTR_PROP_SBC) None,
     ATTR_PTR 0 0xFFFF (offsetof omci_me_voip_media_profile ''voice_service_profile_ptr'') 2 (OMCI_ATTR_PROP_RD OR OMCI_ATTR_PROP_WR OR OMCI_ATTR_PROP_SBC) None,
     ATTR_UINT 0 0x12 (offsetof omci_me_voip_media_profile ''code_selection_1'') 1 (OMCI_ATTR_PROP_RD OR OMCI_ATTR_PROP_WR OR OMCI_ATTR_PROP_SBC) None,
     ATTR_UINT 0xA 0x1E (offsetof omci_me_voip_media_profile ''packet_period_selection_1'') 1 (OMCI_ATTR_PROP_RD OR OMCI_ATTR_PROP_WR OR OMCI_ATTR_PROP_SBC) None,
     ATTR_BOOL (offsetof omci_me_voip_media_profile ''silence_suppression_1'') 1 (OMCI_ATTR_PROP_RD OR OMCI_ATTR_PROP_WR OR OMCI_ATTR_PROP_SBC) None,
     ATTR_UINT 0 0x12 (offsetof omci_me_voip_media_profile ''code_selection_2'') 1 (OMCI_ATTR_PROP_RD OR OMCI_ATTR_PROP_WR OR OMCI_ATTR_PROP_SBC) None,
     ATTR_UINT 0xA 0x1E (offsetof omci_me_voip_media_profile ''packet_period_selection_2'') 1 (OMCI_ATTR_PROP_RD OR OMCI_ATTR_PROP_WR OR OMCI_ATTR_PROP_SBC) None,
     ATTR_BOOL (offsetof omci_me_voip_media_profile ''silence_suppression_2'') 1 (OMCI_ATTR_PROP_RD OR OMCI_ATTR_PROP_WR OR OMCI_ATTR_PROP_SBC) None,
     ATTR_UINT 0 0x12 (offsetof omci_me_voip_media_profile ''code_selection_3'') 1 (OMCI_ATTR_PROP_RD OR OMCI_ATTR_PROP_WR OR OMCI_ATTR_PROP_SBC) None,
     ATTR_UINT 0xA 0x1E (offsetof omci_me_voip_media_profile ''packet_period_selection_3'') 1 (OMCI_ATTR_PROP_RD OR OMCI_ATTR_PROP_WR OR OMCI_ATTR_PROP_SBC) None,
     ATTR_BOOL (offsetof omci_me_voip_media_profile ''silence_suppression_3'') 1 (OMCI_ATTR_PROP_RD OR OMCI_ATTR_PROP_WR OR OMCI_ATTR_PROP_SBC) None,
     ATTR_UINT 0 0x12 (offsetof omci_me_voip_media_profile ''code_selection_4'') 1 (OMCI_ATTR_PROP_RD OR OMCI_ATTR_PROP_WR OR OMCI_ATTR_PROP_SBC) None,
     ATTR_UINT 0xA 0x1E (offsetof omci_me_voip_media_profile ''packet_period_selection_4'') 1 (OMCI_ATTR_PROP_RD OR OMCI_ATTR_PROP_WR OR OMCI_ATTR_PROP_SBC) None,
     ATTR_BOOL (offsetof omci_me_voip_media_profile ''silence_suppression_4'') 1 (OMCI_ATTR_PROP_RD OR OMCI_ATTR_PROP_WR OR OMCI_ATTR_PROP_SBC) None,
     ATTR_BOOL (offsetof omci_me_voip_media_profile ''oob_dtmf'') 1 (OMCI_ATTR_PROP_RD OR OMCI_ATTR_PROP_WR OR OMCI_ATTR_PROP_SBC) None,
     ATTR_PTR 0 0xFFFF (offsetof omci_me_voip_media_profile ''rtp_profile_ptr'') 2 (OMCI_ATTR_PROP_RD OR OMCI_ATTR_PROP_WR OR OMCI_ATTR_PROP_SBC) None]
    [(4, ''create_action_handle''), (6, ''delete_action_handle''), (8, ''set_action_handle''), (9, ''get_action_handle''), (18, ''omci_voip_media_profile.test_action_handle'')]
    (Some ''default_me_init'') None (Some ''default_me_validate'') (Some ''default_me_update'')
    None None None None
    None (sizeof omci_me_voip_media_profile) OMCI_ME_PROP_HAS_ARC"

definition omci_me_rtp_profile_data :: struct_layout where
  "omci_me_rtp_profile_data = [
    (''local_port_min'', 2), (''local_port_max'', 2), (''dscp_mark'', 1), (''piggyback_events'', 1),
     (''tone_events'', 1), (''dtmf_events'', 1), (''cas_events'', 1)]"

definition me_rtp_profile_data_class :: me_class where
  [class_defs]: "me_rtp_profile_data_class = mk_class 0x8F
    [ATTR_UINT 0 0xFFFF (offsetof omci_me_rtp_profile_data ''local_port_min'') 2 (OMCI_ATTR_PROP_RD OR OMCI_ATTR_PROP_WR OR OMCI_ATTR_PROP_SBC) None,
     ATTR_UINT 0 0xFFFF (offsetof omci_me_rtp_profile_data ''local_port_max'') 2 (OMCI_ATTR_PROP_RD OR OMCI_ATTR_PROP_WR OR OMCI_ATTR_PROP_SBC) None,
     ATTR_UINT 0 0xFF (offsetof omci_me_rtp_profile_data ''dscp_mark'') 1 (OMCI_ATTR_PROP_RD OR OMCI_ATTR_PROP_WR OR OMCI_ATTR_PROP_SBC) None,
     ATTR_BOOL (offsetof omci_me_rtp_profile_data ''piggyback_events'') 1 (OMCI_ATTR_PROP_RD OR OMCI_ATTR_PROP_WR OR OMCI_ATTR_PROP_SBC) None,
     ATTR_BOOL (offsetof omci_me_rtp_profile_data ''tone_events'') 1 (OMCI_ATTR_PROP_RD OR OMCI_ATTR_PROP_WR OR OMCI_ATTR_PROP_SBC) None,
     ATTR_BOOL (offsetof omci_me_rtp_profile_data ''dtmf_events'') 1 (OMCI_ATTR_PROP_RD OR OMCI_ATTR_PROP_WR OR OMCI_ATTR_PROP_SBC) None,
     ATTR_BOOL (offsetof omci_me_rtp_profile_data ''cas_events'') 1 (OMCI_ATTR_PROP_RD OR OMCI_ATTR_PROP_WR OR OMCI_ATTR_PROP_SBC) None]
    [(4, ''create_action_handle''), (6, ''delete_action_handle''), (8, ''set_action_handle''), (9, ''get_action_handle'')]
    (Some ''default_me_init'') (Some ''default_me_shutdown'') (Some ''default_me_validate'') (Some ''default_me_update'')
    None None None None
    None (sizeof omci_me_rtp_profile_data) (OMCI_ME_PROP_NONE OR OMCI_ME_PROP_REVIEW)"

definition omci_me_voice_service_profile :: struct_layout where
  "omci_me_voice_service_profile = [
    (''announcement_type'', 1), (''jitter_target'', 2), (''jitter_buffer_max'', 2), (''echo_cancel_ind'', 1),
     (''pstn_protocol_variant'', 2), (''dtmf_digit_levels'', 2), (''dtmf_digit_duration'', 2),
     (''hook_flash_minimum_time'', 2), (''hook_flash_maximum_time'', 2), (''tone_pattern_table'', 20),
     (''tone_event_table'', 7), (''ringing_pattern_table'', 5), (''ringing_event_table'', 7)]"

definition me_voice_service_profile_class :: me_class where
  [class_defs]: "me_voice_service_profile_class = mk_class 0x3A
    [ATTR_UINT 0 0xFF (offsetof omci_me_voice_service_profile ''announcement_type'') 1 (OMCI_ATTR_PROP_RD OR OMCI_ATTR_PROP_WR OR OMCI_ATTR_PROP_SBC) None,
     ATTR_UINT 0 0xFFFF (offsetof omci_me_voice_service_profile ''jitter_target'') 2 (OMCI_ATTR_PROP_RD OR OMCI_ATTR_PROP_WR OR OMCI_ATTR_PROP_SBC) None,
     ATTR_UINT 0 0xFFFF (offsetof omci_me_voice_service_profile ''jitter_buffer_max'') 2 (OMCI_ATTR_PROP_RD OR OMCI_ATTR_PROP_WR OR OMCI_ATTR_PROP_SBC) None,
     ATTR_BOOL (offsetof omci_me_voice_service_profile ''echo_cancel_ind'') 1 (OMCI_ATTR_PROP_RD OR OMCI_ATTR_PROP_WR OR OMCI_ATTR_PROP_SBC) None,
     ATTR_UINT 0 0xFFFF (offsetof omci_me_voice_service_profile ''pstn_protocol_variant'') 2 (OMCI_ATTR_PROP_RD OR OMCI_ATTR_PROP_WR OR OMCI_ATTR_PROP_SBC) None,
     ATTR_UINT 0 0xFFFF (offsetof omci_me_voice_service_profile ''dtmf_digit_levels'') 2 (OMCI_ATTR_PROP_RD OR OMCI_ATTR_PROP_WR OR OMCI_ATTR_PROP_SBC) None,
     ATTR_UINT 0 0xFFFF (offsetof omci_me_voice_service_profile ''dtmf_digit_duration'') 2 (OMCI_ATTR_PROP_RD OR OMCI_ATTR_PROP_WR OR OMCI_ATTR_PROP_SBC) None,
     ATTR_UINT 0 0xFFFF (offsetof omci_me_voice_service_profile ''hook_flash_minimum_time'') 2 (OMCI_ATTR_PROP_RD OR OMCI_ATTR_PROP_WR OR OMCI_ATTR_PROP_SBC) None,
     ATTR_UINT 0 0xFFFF (offsetof omci_me_voice_service_profile ''hook_flash_maximum_time'') 2 (OMCI_ATTR_PROP_RD OR OMCI_ATTR_PROP_WR OR OMCI_ATTR_PROP_SBC) None,
     ATTR_TBL (offsetof omci_me_voice_service_profile ''tone_pattern_table'') 20 (OMCI_ATTR_PROP_RD OR OMCI_ATTR_PROP_WR) None,
     ATTR_TBL (offsetof omci_me_voice_service_profile ''tone_event_table'') 7 (OMCI_ATTR_PROP_RD OR OMCI_ATTR_PROP_WR) None,
     ATTR_TBL (offsetof omci_me_voice_service_profile ''ringing_pattern_table'') 5 (OMCI_ATTR_PROP_RD OR OMCI_ATTR_PROP_WR) None,
     ATTR_TBL (offsetof omci_me_voice_service_profile ''ringing_event_table'') 7 (OMCI_ATTR_PROP_RD OR OMCI_ATTR_PROP_WR) None]
    [(4, ''create_action_handle''), (6, ''delete_action_handle''), (8, ''set_action_handle''), (9, ''get_action_handle''), (26, ''get_next_action_handle'')]
    (Some ''omci_voice_service_profile.me_init'') (Some ''omci_voice_service_profile.me_shutdown'') (Some ''default_me_validate'') (Some ''omci_voice_service_profile.me_update'')
    (Some ''omci_voice_service_profile.me_tbl_copy'') None None None
    None (sizeof omci_me_voice_service_profile) OMCI_ME_PROP_NONE"

definition omci_me_voip_line_status :: struct_layout where
  "omci_me_voip_line_status = [
    (''voip_codec_used'', 2), (''server_status'', 1), (''session_type'', 1), (''call_1_packet_period'', 2),
     (''call_2_packet_period'', 2), (''call_1_dest_addr'', 25), (''call_2_dest_addr'', 25)]"

definition me_voip_line_status_class :: me_class where
  [class_defs]: "me_voip_line_status_class = mk_class 0x8D
    [ATTR_PTR 0 0xFFFF (offsetof omci_me_voip_line_status ''voip_codec_used'') 2 (OMCI_ATTR_PROP_RD OR OMCI_ATTR_PROP_SBC) None,
     ATTR_PTR 0 0xFF (offsetof omci_me_voip_line_status ''server_status'') 1 (OMCI_ATTR_PROP_RD OR OMCI_ATTR_PROP_SBC) None,
     ATTR_PTR 0 0xFF (offsetof omci_me_voip_line_status ''session_type'') 1 (OMCI_ATTR_PROP_RD OR OMCI_ATTR_PROP_SBC) None,
     ATTR_PTR 0 0xFFFF (offsetof omci_me_voip_line_status ''call_1_packet_period'') 2 (OMCI_ATTR_PROP_RD OR OMCI_ATTR_PROP_SBC) None,
     ATTR_PTR 0 0xFFFF (offsetof omci_me_voip_line_status ''call_2_packet_period'') 2 (OMCI_ATTR_PROP_RD OR OMCI_ATTR_PROP_SBC) None,
     ATTR_STR (offsetof omci_me_voip_line_status ''call_1_dest_addr'') 25 (OMCI_ATTR_PROP_RD OR OMCI_ATTR_PROP_SBC) None,
     ATTR_STR (offsetof omci_me_voip_line_status ''call_2_dest_addr'') 25 (OMCI_ATTR_PROP_RD OR OMCI_ATTR_PROP_SBC) None]
    [(4, ''create_action_handle''), (6, ''delete_action_handle''), (8, ''set_action_handle''), (9, ''get_action_handle'')]
    (Some ''default_me_init'') None (Some ''default_me_validate'') (Some ''default_me_update'')
    None None None None
    None (sizeof omci_me_voip_line_status) OMCI_ME_PROP_NONE"

definition omci_sip_user_data :: struct_layout where
  "omci_sip_user_data = [
    (''sip_agent_ptr'', 2), (''user_part_aor'', 2), (''sip_display_name'', 25), (''username_password'', 2),
     (''voicemail_server_sip_uri'', 2), (''voicemail_subscription_expiration_time'', 4),
     (''network_dial_plan_ptr'', 2), (''application_services_profile_ptr'', 2), (''feature_code_ptr'', 2),
     (''pptp_ptr'', 2), (''release_timer'', 1), (''roh_timer'', 1)]"

definition me_sip_user_data_class :: me_class where
  [class_defs]: "me_sip_user_data_class = mk_class 0x99
    [ATTR_PTR 0 0xFFFF (offsetof omci_sip_user_data ''sip_agent_ptr'') 2 (OMCI_ATTR_PROP_RD OR OMCI_ATTR_PROP_WR OR OMCI_ATTR_PROP_SBC) None,
     ATTR_PTR 0 0xFFFF (offsetof omci_sip_user_data ''user_part_aor'') 2 (OMCI_ATTR_PROP_RD OR OMCI_ATTR_PROP_WR OR OMCI_ATTR_PROP_SBC) None,
     ATTR_STR (offsetof omci_sip_user_data ''sip_display_name'') 25 (OMCI_ATTR_PROP_RD OR OMCI_ATTR_PROP_WR) None,
     ATTR_PTR 0 0xFFFF (offsetof omci_sip_user_data ''username_password'') 2 (OMCI_ATTR_PROP_RD OR OMCI_ATTR_PROP_WR OR OMCI_ATTR_PROP_SBC) None,
     ATTR_PTR 0 0xFFFF (offsetof omci_sip_user_data ''voicemail_server_sip_uri'') 2 (OMCI_ATTR_PROP_RD OR OMCI_ATTR_PROP_WR OR OMCI_ATTR_PROP_SBC) None,
     ATTR_UINT 0 0xFFFFFFFF (offsetof omci_sip_user_data ''voicemail_subscription_expiration_time'') 4 (OMCI_ATTR_PROP_RD OR OMCI_ATTR_PROP_WR OR OMCI_ATTR_PROP_SBC) None,
     ATTR_PTR 0 0xFFFF (offsetof omci_sip_user_data ''network_dial_plan_ptr'') 2 (OMCI_ATTR_PROP_RD OR OMCI_ATTR_PROP_WR OR OMCI_ATTR_PROP_SBC) None,
     ATTR_PTR 0 0xFFFF (offsetof omci_sip_user_data ''application_services_profile_ptr'') 2 (OMCI_ATTR_PROP_RD OR OMCI_ATTR_PROP_WR OR OMCI_ATTR_PROP_SBC) None,
     ATTR_PTR 0 0xFFFF (offsetof omci_sip_user_data ''feature_code_ptr'') 2 (OMCI_ATTR_PROP_RD OR OMCI_ATTR_PROP_WR OR OMCI_ATTR_PROP_SBC) None,
     ATTR_PTR 0 0xFFFF (offsetof omci_sip_user_data ''pptp_ptr'') 2 (OMCI_ATTR_PROP_RD OR OMCI_ATTR_PROP_WR OR OMCI_ATTR_PROP_SBC) None,
     ATTR_UINT 0 0xFF (offsetof omci_sip_user_data ''release_timer'') 1 (OMCI_ATTR_PROP_RD OR OMCI_ATTR_PROP_WR OR OMCI_ATTR_PROP_SBC) None,
     ATTR_UINT 0 0xFF (offsetof omci_sip_user_data ''roh_timer'') 1 (OMCI_ATTR_PROP_RD OR OMCI_ATTR_PROP_WR OR OMCI_ATTR_PROP_SBC) None]
    [(4, ''create_action_handle''), (6, ''delete_action_handle''), (8, ''set_action_handle''), (9, ''get_action_handle'')]
    (Some ''default_me_init'') (Some ''default_me_shutdown'') (Some ''default_me_validate'') (Some ''default_me_update'')
    None None None None
    None (sizeof omci_sip_user_data) OMCI_ME_PROP_NONE"

definition omci_sip_agent_config_data :: struct_layout where
  "omci_sip_agent_config_data = [
    (''proxy_ptr'', 2), (''outbound_proxy_ptr'', 2), (''primary_sip_dns'', 4), (''secondary_sip_dns'', 4),
     (''tcp_udp_ptr'', 2), (''ip_reg_exp_time'', 4), (''sip_rereg_head_start_time'', 4),
     (''host_part_uri'', 2), (''sip_status'', 1), (''sip_registrar'', 2), (''softswitch'', 4),
     (''sip_response'', 5), (''sip_option_transmit_control'', 1), (''sip_uri_format'', 1)]"

definition me_sip_agent_config_data_class :: me_class where
  [class_defs]: "me_sip_agent_config_data_class = mk_class 0x96
    [ATTR_PTR 0 0xFFFF (offsetof omci_sip_agent_config_data ''proxy_ptr'') 2 (OMCI_ATTR_PROP_RD OR OMCI_ATTR_PROP_WR OR OMCI_ATTR_PROP_SBC) None,
     ATTR_PTR 0 0xFFFF (offsetof omci_sip_agent_config_data ''outbound_proxy_ptr'') 2 (OMCI_ATTR_PROP_RD OR OMCI_ATTR_PROP_WR OR OMCI_ATTR_PROP_SBC) None,
     ATTR_UINT 0 0xFFFFFFFF (offsetof omci_sip_agent_config_data ''primary_sip_dns'') 4 (OMCI_ATTR_PROP_RD OR OMCI_ATTR_PROP_WR OR OMCI_ATTR_PROP_SBC) None,
     ATTR_UINT 0 0xFFFFFFFF (offsetof omci_sip_agent_config_data ''secondary_sip_dns'') 4 (OMCI_ATTR_PROP_RD OR OMCI_ATTR_PROP_WR OR OMCI_ATTR_PROP_SBC) None,
     ATTR_PTR 0 0xFFFF (offsetof omci_sip_agent_config_data ''tcp_udp_ptr'') 2 (OMCI_ATTR_PROP_RD OR OMCI_ATTR_PROP_WR) None,
     ATTR_UINT 0 0xFFFFFFFF (offsetof omci_sip_agent_config_data ''ip_reg_exp_time'') 4 (OMCI_ATTR_PROP_RD OR OMCI_ATTR_PROP_WR) None,
     ATTR_UINT 0 0xFFFFFFFF (offsetof omci_sip_agent_config_data ''sip_rereg_head_start_time'') 4 (OMCI_ATTR_PROP_RD OR OMCI_ATTR_PROP_WR) None,
     ATTR_PTR 0 0xFFFF (offsetof omci_sip_agent_config_data ''host_part_uri'') 2 (OMCI_ATTR_PROP_RD OR OMCI_ATTR_PROP_WR OR OMCI_ATTR_PROP_SBC) None,
     ATTR_UINT 0 0xFF (offsetof omci_sip_agent_config_data ''sip_status'') 1 (OMCI_ATTR_PROP_RD OR OMCI_ATTR_PROP_WR) None,
     ATTR_PTR 0 0xFFFF (offsetof omci_sip_agent_config_data ''sip_registrar'') 2 (OMCI_ATTR_PROP_RD OR OMCI_ATTR_PROP_WR OR OMCI_ATTR_PROP_SBC) None,
     ATTR_UINT 0 0xFFFFFFFF (offsetof omci_sip_agent_config_data ''softswitch'') 4 (OMCI_ATTR_PROP_RD OR OMCI_ATTR_PROP_WR OR OMCI_ATTR_PROP_SBC) None,
     ATTR_TBL (offsetof omci_sip_agent_config_data ''sip_response'') 5 (OMCI_ATTR_PROP_RD OR OMCI_ATTR_PROP_WR) None,
     ATTR_BOOL (offsetof omci_sip_agent_config_data ''sip_option_transmit_control'') 1 (OMCI_ATTR_PROP_RD OR OMCI_ATTR_PROP_WR OR OMCI_ATTR_PROP_SBC) None,
     ATTR_UINT 0 0xFF (offsetof omci_sip_agent_config_data ''sip_uri_format'') 1 (OMCI_ATTR_PROP_RD OR OMCI_ATTR_PROP_WR OR OMCI_ATTR_PROP_SBC) None]
    [(4, ''create_action_handle''), (6, ''delete_action_handle''), (8, ''set_action_handle''), (9, ''get_action_handle'')]
    (Some ''omci_sip_agent_config_data.me_init'') (Some ''omci_sip_agent_config_data.me_shutdown'') (Some ''default_me_validate'') (Some ''omci_sip_agent_config_data.me_update'')
    (Some ''omci_sip_agent_config_data.sip_response_tbl_copy'') None None None
    None (sizeof omci_sip_agent_config_data) OMCI_ME_PROP_NONE"

definition omci_me_network_dial_plan_table :: struct_layout where
  "omci_me_network_dial_plan_table = [
    (''dial_plan_number'', 2), (''dial_plan_tbl_max_size'', 2), (''critical_dial_timeout'', 2),
     (''partial_dial_timeout'', 2), (''dial_plan_format'', 1), (''dial_plan_table'', 30)]"

definition me_network_dial_plan_table_class :: me_class where
  [class_defs]: "me_network_dial_plan_table_class = mk_class 0x91
    [ATTR_UINT 0 0x64 (offsetof omci_me_network_dial_plan_table ''dial_plan_number'') 2 (OMCI_ATTR_PROP_RD OR OMCI_ATTR_PROP_TEMPLATE) (Some ''omci_network_dial_plan_table.dial_plan_number_get''),
     ATTR_UINT 0 0x64 (offsetof omci_me_network_dial_plan_table ''dial_plan_tbl_max_size'') 2 (OMCI_ATTR_PROP_RD OR OMCI_ATTR_PROP_SBC OR OMCI_ATTR_PROP_TEMPLATE) None,
     ATTR_UINT 0 0xFFFF (offsetof omci_me_network_dial_plan_table ''critical_dial_timeout'') 2 (OMCI_ATTR_PROP_RD OR OMCI_ATTR_PROP_WR OR OMCI_ATTR_PROP_SBC OR OMCI_ATTR_PROP_TEMPLATE) None,
     ATTR_UINT 0 0xFFFF (offsetof omci_me_network_dial_plan_table ''partial_dial_timeout'') 2 (OMCI_ATTR_PROP_RD OR OMCI_ATTR_PROP_WR OR OMCI_ATTR_PROP_SBC OR OMCI_ATTR_PROP_TEMPLATE) None,
     ATTR_UINT 0 0xFF (offsetof omci_me_network_dial_plan_table ''dial_plan_format'') 1 (OMCI_ATTR_PROP_RD OR OMCI_ATTR_PROP_WR OR OMCI_ATTR_PROP_SBC OR OMCI_ATTR_PROP_TEMPLATE) None,
     ATTR_TBL (offsetof omci_me_network_dial_plan_table ''dial_plan_table'') 30 (OMCI_ATTR_PROP_RD OR OMCI_ATTR_PROP_WR OR OMCI_ATTR_PROP_TEMPLATE) None]
    [(4, ''create_action_handle''), (6, ''delete_action_handle''), (8, ''set_action_handle''), (9, ''get_action_handle''), (26, ''get_next_action_handle'')]
    (Some ''omci_network_dial_plan_table.me_init'') (Some ''omci_network_dial_plan_table.me_shutdown'') (Some ''default_me_validate'') (Some ''omci_network_dial_plan_table.me_update'')
    (Some ''omci_network_dial_plan_table.me_tbl_copy'') None None None
    None (sizeof omci_me_network_dial_plan_table) (OMCI_ME_PROP_NONE OR OMCI_ME_PROP_REVIEW)"

definition omci_me_ethernet_ds_pmhd :: struct_layout where
  "omci_me_ethernet_ds_pmhd = [
    (''interval_end_time'', 1), (''thr_data_id'', 2), (''drop_event_count'', 4), (''rx_byte_count'', 4),
     (''rx_packet_count'', 4), (''rx_broadcast_packet_count'', 4), (''rx_multicast_packet_count'', 4),
     (''fcs_error_count'', 4), (''rx_undersized_packet_count'', 4), (''rx_oversized_packet_count'', 4),
     (''rx_frame64_count'', 4), (''rx_frame127_count'', 4), (''rx_frame255_count'', 4),
     (''rx_frame511_count'', 4), (''rx_frame1023_count'', 4), (''rx_frame1518_count'', 4)]"

definition me_ethernet_ds_pmhd_class :: me_class where
  [class_defs]: "me_ethernet_ds_pmhd_class = mk_class 0x141
    [ATTR_UINT 0 0xFF (offsetof omci_me_ethernet_ds_pmhd ''interval_end_time'') 1 OMCI_ATTR_PROP_RD (Some ''pm_interval_end_time_get''),
     ATTR_PTR 0 0xFFFF (offsetof omci_me_ethernet_ds_pmhd ''thr_data_id'') 2 (OMCI_ATTR_PROP_RD OR OMCI_ATTR_PROP_WR OR OMCI_ATTR_PROP_SBC) None,
     ATTR_UINT 0 0xFFFFFFFF (offsetof omci_me_ethernet_ds_pmhd ''drop_event_count'') 4 OMCI_ATTR_PROP_RD None,
     ATTR_UINT 0 0xFFFFFFFF (offsetof omci_me_ethernet_ds_pmhd ''rx_byte_count'') 4 OMCI_ATTR_PROP_RD None,
     ATTR_UINT 0 0xFFFFFFFF (offsetof omci_me_ethernet_ds_pmhd ''rx_packet_count'') 4 OMCI_ATTR_PROP_RD None,
     ATTR_UINT 0 0xFFFFFFFF (offsetof omci_me_ethernet_ds_pmhd ''rx_broadcast_packet_count'') 4 (OMCI_ATTR_PROP_RD OR OMCI_ATTR_PROP_TEMPLATE) None,
     ATTR_UINT 0 0xFFFFFFFF (offsetof omci_me_ethernet_ds_pmhd ''rx_multicast_packet_count'') 4 (OMCI_ATTR_PROP_RD OR OMCI_ATTR_PROP_TEMPLATE) None,
     ATTR_UINT 0 0xFFFFFFFF (offsetof omci_me_ethernet_ds_pmhd ''fcs_error_count'') 4 (OMCI_ATTR_PROP_RD OR OMCI_ATTR_PROP_TEMPLATE) None,
     ATTR_UINT 0 0xFFFFFFFF (offsetof omci_me_ethernet_ds_pmhd ''rx_undersized_packet_count'') 4 (OMCI_ATTR_PROP_RD OR OMCI_ATTR_PROP_TEMPLATE) None,
     ATTR_UINT 0 0xFFFFFFFF (offsetof omci_me_ethernet_ds_pmhd ''rx_oversized_packet_count'') 4 (OMCI_ATTR_PROP_RD OR OMCI_ATTR_PROP_TEMPLATE) None,
     ATTR_UINT 0 0xFFFFFFFF (offsetof omci_me_ethernet_ds_pmhd ''rx_frame64_count'') 4 OMCI_ATTR_PROP_RD None,
     ATTR_UINT 0 0xFFFFFFFF (offsetof omci_me_ethernet_ds_pmhd ''rx_frame127_count'') 4 OMCI_ATTR_PROP_RD None,
     ATTR_UINT 0 0xFFFFFFFF (offsetof omci_me_ethernet_ds_pmhd ''rx_frame255_count'') 4 OMCI_ATTR_PROP_RD None,
     ATTR_UINT 0 0xFFFFFFFF (offsetof omci_me_ethernet_ds_pmhd ''rx_frame511_count'') 4 OMCI_ATTR_PROP_RD None,
     ATTR_UINT 0 0xFFFFFFFF (offsetof omci_me_ethernet_ds_pmhd ''rx_frame1023_count'') 4 OMCI_ATTR_PROP_RD None,
     ATTR_UINT 0 0xFFFFFFFF (offsetof omci_me_ethernet_ds_pmhd ''rx_frame1518_count'') 4 OMCI_ATTR_PROP_RD None]
    [(4, ''create_action_handle''), (6, ''delete_action_handle''), (8, ''set_action_handle''), (9, ''get_action_handle''), (28, ''get_current_data_action_handle'')]
    (Some ''omci_ethernet_ds_pmhd.me_init'') (Some ''omci_ethernet_ds_pmhd.me_shutdown'') (Some ''default_me_validate'') (Some ''default_me_update'')
    None None (Some ''omci_ethernet_ds_pmhd.me_counters_get'') (Some ''default_me_thr_set'')
    (Some [TCA 0 3 1, TCA 1 8 2, TCA 2 9 3, TCA 3 10 4, TCA 0 0 0]) (sizeof omci_me_ethernet_ds_pmhd) (OMCI_ME_PROP_PM OR OMCI_ME_PROP_PM_INTERNAL OR OMCI_ME_PROP_HAS_ALARMS OR OMCI_ME_PROP_REVIEW)"

definition omci_me_ethernet_pmhd :: struct_layout where
  "omci_me_ethernet_pmhd = [
    (''interval_end_time'', 1), (''thr_data_id'', 2), (''fcs_error_count'', 4),
     (''excesive_collision_count'', 4), (''late_collision_count'', 4), (''frame_too_long_count'', 4),
     (''rx_buffer_overflow_count'', 4), (''tx_buffer_overflow_count'', 4), (''single_collision_count'', 4),
     (''multiple_collision_count'', 4), (''signal_quality_error_count'', 4),
     (''deferred_transmission_count'', 4), (''mac_tx_error_count'', 4), (''carrier_sense_error_count'', 4),
     (''aligment_error_count'', 4), (''internal_mac_rx_error_count'', 4)]"

definition me_ethernet_pmhd_class :: me_class where
  [class_defs]: "me_ethernet_pmhd_class = mk_class 0x18
    [ATTR_UINT 0 0xFF (offsetof omci_me_ethernet_pmhd ''interval_end_time'') 1 OMCI_ATTR_PROP_RD (Some ''pm_interval_end_time_get''),
     ATTR_PTR 0 0xFFFF (offsetof omci_me_ethernet_pmhd ''thr_data_id'') 2 (OMCI_ATTR_PROP_RD OR OMCI_ATTR_PROP_WR OR OMCI_ATTR_PROP_SBC) None,
     ATTR_UINT 0 0xFFFFFFFF (offsetof omci_me_ethernet_pmhd ''fcs_error_count'') 4 OMCI_ATTR_PROP_RD None,
     ATTR_UINT 0 0xFFFFFFFF (offsetof omci_me_ethernet_pmhd ''excesive_collision_count'') 4 OMCI_ATTR_PROP_RD None,
     ATTR_UINT 0 0xFFFFFFFF (offsetof omci_me_ethernet_pmhd ''late_collision_count'') 4 OMCI_ATTR_PROP_RD None,
     ATTR_UINT 0 0xFFFFFFFF (offsetof omci_me_ethernet_pmhd ''frame_too_long_count'') 4 OMCI_ATTR_PROP_RD None,
     ATTR_UINT 0 0xFFFFFFFF (offsetof omci_me_ethernet_pmhd ''rx_buffer_overflow_count'') 4 OMCI_ATTR_PROP_RD None,
     ATTR_UINT 0 0xFFFFFFFF (offsetof omci_me_ethernet_pmhd ''tx_buffer_overflow_count'') 4 OMCI_ATTR_PROP_RD None,
     ATTR_UINT 0 0xFFFFFFFF (offsetof omci_me_ethernet_pmhd ''single_collision_count'') 4 OMCI_ATTR_PROP_RD None,
     ATTR_UINT 0 0xFFFFFFFF (offsetof omci_me_ethernet_pmhd ''multiple_collision_count'') 4 OMCI_ATTR_PROP_RD None,
     ATTR_UINT 0 0xFFFFFFFF (offsetof omci_me_ethernet_pmhd ''signal_quality_error_count'') 4 OMCI_ATTR_PROP_RD None,
     ATTR_UINT 0 0xFFFFFFFF (offsetof omci_me_ethernet_pmhd ''deferred_transmission_count'') 4 OMCI_ATTR_PROP_RD None,
     ATTR_UINT 0 0xFFFFFFFF (offsetof omci_me_ethernet_pmhd ''mac_tx_error_count'') 4 OMCI_ATTR_PROP_RD None,
     ATTR_UINT 0 0xFFFFFFFF (offsetof omci_me_ethernet_pmhd ''carrier_sense_error_count'') 4 OMCI_ATTR_PROP_RD None,
     ATTR_UINT 0 0xFFFFFFFF (offsetof omci_me_ethernet_pmhd ''aligment_error_count'') 4 OMCI_ATTR_PROP_RD None,
     ATTR_UINT 0 0xFFFFFFFF (offsetof omci_me_ethernet_pmhd ''internal_mac_rx_error_count'') 4 OMCI_ATTR_PROP_RD None]
    [(4, ''create_action_handle''), (6, ''delete_action_handle''), (8, ''set_action_handle''), (9, ''get_action_handle''), (28, ''get_current_data_action_handle'')]
    (Some ''omci_ethernet_pmhd.me_init'') (Some ''omci_ethernet_pmhd.me_shutdown'') (Some ''default_me_validate'') (Some ''default_me_update'')
    None None (Some ''omci_ethernet_pmhd.me_counters_get'') (Some ''omci_ethernet_pmhd.me_thr_set'')
    (Some [TCA 0 3 1, TCA 1 4 2, TCA 2 5 3, TCA 3 6 4, TCA 4 7 5, TCA 5 8 6, TCA 6 9 7, TCA 7 10 8, TCA 8 11 9, TCA 9 12 10, TCA 10 13 11, TCA 11 14 12, TCA 12 15 13, TCA 13 16 14, TCA 0 0 0]) (sizeof omci_me_ethernet_pmhd) (OMCI_ME_PROP_PM OR OMCI_ME_PROP_HAS_ALARMS OR OMCI_ME_PROP_REVIEW)"

definition omci_me_ethernet_pmhd2 :: struct_layout where
  "omci_me_ethernet_pmhd2 = [
    (''interval_end_time'', 1), (''thr_data_id'', 2), (''filtered_pppoe_count'', 4)]"

definition me_ethernet_pmhd2_class :: me_class where
  [class_defs]: "me_ethernet_pmhd2_class = mk_class 0x59
    [ATTR_UINT 0 0xFF (offsetof omci_me_ethernet_pmhd2 ''interval_end_time'') 1 OMCI_ATTR_PROP_RD (Some ''pm_interval_end_time_get''),
     ATTR_PTR 0 0xFFFF (offsetof omci_me_ethernet_pmhd2 ''thr_data_id'') 2 (OMCI_ATTR_PROP_RD OR OMCI_ATTR_PROP_WR OR OMCI_ATTR_PROP_SBC) None,
     ATTR_UINT 0 0xFFFFFFFF (offsetof omci_me_ethernet_pmhd2 ''filtered_pppoe_count'') 4 OMCI_ATTR_PROP_RD None]
    [(4, ''create_action_handle''), (6, ''delete_action_handle''), (8, ''set_action_handle''), (9, ''get_action_handle''), (28, ''get_current_data_action_handle'')]
    (Some ''omci_ethernet_pmhd2.me_init'') (Some ''omci_ethernet_pmhd2.me_shutdown'') (Some ''default_me_validate'') (Some ''default_me_update'')
    None None (Some ''omci_ethernet_pmhd2.me_counters_get'') (Some ''omci_ethernet_pmhd2.me_thr_set'')
    (Some [TCA 0 3 1, TCA 0 0 0]) (sizeof omci_me_ethernet_pmhd2) (OMCI_ME_PROP_PM OR OMCI_ME_PROP_HAS_ALARMS OR OMCI_ME_PROP_REVIEW)"

definition omci_me_ethernet_pmhd3 :: struct_layout where
  "omci_me_ethernet_pmhd3 = [
    (''interval_end_time'', 1), (''thr_data_id'', 2), (''drop_event_count'', 4), (''rx_byte_count'', 4),
     (''rx_packet_count'', 4), (''rx_broadcast_packet_count'', 4), (''rx_multicast_packet_count'', 4),
     (''rx_undersized_packet_count'', 4), (''rx_fragment_count'', 4), (''rx_jabber_count'', 4),
     (''rx_frame64_count'', 4), (''rx_frame127_count'', 4), (''rx_frame255_count'', 4),
     (''rx_frame511_count'', 4), (''rx_frame1023_count'', 4), (''rx_frame1518_count'', 4)]"

definition me_ethernet_pmhd3_class :: me_class where
  [class_defs]: "me_ethernet_pmhd3_class = mk_class 0x128
    [ATTR_UINT 0 0xFF (offsetof omci_me_ethernet_pmhd3 ''interval_end_time'') 1 OMCI_ATTR_PROP_RD (Some ''pm_interval_end_time_get''),
     ATTR_PTR 0 0xFFFF (offsetof omci_me_ethernet_pmhd3 ''thr_data_id'') 2 (OMCI_ATTR_PROP_RD OR OMCI_ATTR_PROP_WR OR OMCI_ATTR_PROP_SBC) None,
     ATTR_UINT 0 0xFFFFFFFF (offsetof omci_me_ethernet_pmhd3 ''drop_event_count'') 4 (OMCI_ATTR_PROP_RD OR OMCI_ATTR_PROP_TEMPLATE) None,
     ATTR_UINT 0 0xFFFFFFFF (offsetof omci_me_ethernet_pmhd3 ''rx_byte_count'') 4 OMCI_ATTR_PROP_RD None,
     ATTR_UINT 0 0xFFFFFFFF (offsetof omci_me_ethernet_pmhd3 ''rx_packet_count'') 4 OMCI_ATTR_PROP_RD None,
     ATTR_UINT 0 0xFFFFFFFF (offsetof omci_me_ethernet_pmhd3 ''rx_broadcast_packet_count'') 4 OMCI_ATTR_PROP_RD None,
     ATTR_UINT 0 0xFFFFFFFF (offsetof omci_me_ethernet_pmhd3 ''rx_multicast_packet_count'') 4 OMCI_ATTR_PROP_RD None,
     ATTR_UINT 0 0xFFFFFFFF (offsetof omci_me_ethernet_pmhd3 ''rx_undersized_packet_count'') 4 OMCI_ATTR_PROP_RD None,
     ATTR_UINT 0 0xFFFFFFFF (offsetof omci_me_ethernet_pmhd3 ''rx_fragment_count'') 4 OMCI_ATTR_PROP_RD None,
     ATTR_UINT 0 0xFFFFFFFF (offsetof omci_me_ethernet_pmhd3 ''rx_jabber_count'') 4 OMCI_ATTR_PROP_RD None,
     ATTR_UINT 0 0xFFFFFFFF (offsetof omci_me_ethernet_pmhd3 ''rx_frame64_count'') 4 OMCI_ATTR_PROP_RD None,
     ATTR_UINT 0 0xFFFFFFFF (offsetof omci_me_ethernet_pmhd3 ''rx_frame127_count'') 4 OMCI_ATTR_PROP_RD None,
     ATTR_UINT 0 0xFFFFFFFF (offsetof omci_me_ethernet_pmhd3 ''rx_frame255_count'') 4 OMCI_ATTR_PROP_RD None,
     ATTR_UINT 0 0xFFFFFFFF (offsetof omci_me_ethernet_pmhd3 ''rx_frame511_count'') 4 OMCI_ATTR_PROP_RD None,
     ATTR_UINT 0 0xFFFFFFFF (offsetof omci_me_ethernet_pmhd3 ''rx_frame1023_count'') 4 OMCI_ATTR_PROP_RD None,
     ATTR_UINT 0 0xFFFFFFFF (offsetof omci_me_ethernet_pmhd3 ''rx_frame1518_count'') 4 OMCI_ATTR_PROP_RD None]
    [(4, ''create_action_handle''), (6, ''delete_action_handle''), (8, ''set_action_handle''), (9, ''get_action_handle''), (28, ''get_current_data_action_handle'')]
    (Some ''omci_ethernet_pmhd3.me_init'') (Some ''omci_ethernet_pmhd3.me_shutdown'') (Some ''default_me_validate'') (Some ''default_me_update'')
    None None (Some ''omci_ethernet_pmhd3.me_counters_get'') (Some ''omci_ethernet_pmhd3.me_thr_set'')
    (Some [TCA 0 3 1, TCA 1 8 2, TCA 2 9 3, TCA 3 10 4, TCA 0 0 0]) (sizeof omci_me_ethernet_pmhd3) (OMCI_ME_PROP_PM OR OMCI_ME_PROP_HAS_ALARMS OR OMCI_ME_PROP_REVIEW)"

definition omci_me_ethernet_us_pmhd :: struct_layout where
  "omci_me_ethernet_us_pmhd = [
    (''interval_end_time'', 1), (''thr_data_id'', 2), (''drop_event_count'', 4), (''rx_byte_count'', 4),
     (''rx_packet_count'', 4), (''rx_broadcast_packet_count'', 4), (''rx_multicast_packet_count'', 4),
     (''fcs_error_count'', 4), (''rx_undersized_packet_count'', 4), (''rx_oversized_packet_count'', 4),
     (''rx_frame64_count'', 4), (''rx_frame127_count'', 4), (''rx_frame255_count'', 4),
     (''rx_frame511_count'', 4), (''rx_frame1023_count'', 4), (''rx_frame1518_count'', 4)]"

definition me_ethernet_us_pmhd_class :: me_class where
  [class_defs]: "me_ethernet_us_pmhd_class = mk_class 0x142
    [ATTR_UINT 0 0xFF (offsetof omci_me_ethernet_us_pmhd ''interval_end_time'') 1 OMCI_ATTR_PROP_RD (Some ''pm_interval_end_time_get''),
     ATTR_PTR 0 0xFFFF (offsetof omci_me_ethernet_us_pmhd ''thr_data_id'') 2 (OMCI_ATTR_PROP_RD OR OMCI_ATTR_PROP_WR OR OMCI_ATTR_PROP_SBC) None,
     ATTR_UINT 0 0xFFFFFFFF (offsetof omci_me_ethernet_us_pmhd ''drop_event_count'') 4 OMCI_ATTR_PROP_RD None,
     ATTR_UINT 0 0xFFFFFFFF (offsetof omci_me_ethernet_us_pmhd ''rx_byte_count'') 4 OMCI_ATTR_PROP_RD None,
     ATTR_UINT 0 0xFFFFFFFF (offsetof omci_me_ethernet_us_pmhd ''rx_packet_count'') 4 OMCI_ATTR_PROP_RD None,
     ATTR_UINT 0 0xFFFFFFFF (offsetof omci_me_ethernet_us_pmhd ''rx_broadcast_packet_count'') 4 OMCI_ATTR_PROP_RD None,
     ATTR_UINT 0 0xFFFFFFFF (offsetof omci_me_ethernet_us_pmhd ''rx_multicast_packet_count'') 4 OMCI_ATTR_PROP_RD None,
     ATTR_UINT 0 0xFFFFFFFF (offsetof omci_me_ethernet_us_pmhd ''fcs_error_count'') 4 OMCI_ATTR_PROP_RD None,
     ATTR_UINT 0 0xFFFFFFFF (offsetof omci_me_ethernet_us_pmhd ''rx_undersized_packet_count'') 4 OMCI_ATTR_PROP_RD None,
     ATTR_UINT 0 0xFFFFFFFF (offsetof omci_me_ethernet_us_pmhd ''rx_oversized_packet_count'') 4 OMCI_ATTR_PROP_RD None,
     ATTR_UINT 0 0xFFFFFFFF (offsetof omci_me_ethernet_us_pmhd ''rx_frame64_count'') 4 OMCI_ATTR_PROP_RD None,
     ATTR_UINT 0 0xFFFFFFFF (offsetof omci_me_ethernet_us_pmhd ''rx_frame127_count'') 4 OMCI_ATTR_PROP_RD None,
     ATTR_UINT 0 0xFFFFFFFF (offsetof omci_me_ethernet_us_pmhd ''rx_frame255_count'') 4 OMCI_ATTR_PROP_RD None,
     ATTR_UINT 0 0xFFFFFFFF (offsetof omci_me_ethernet_us_pmhd ''rx_frame511_count'') 4 OMCI_ATTR_PROP_RD None,
     ATTR_UINT 0 0xFFFFFFFF (offsetof omci_me_ethernet_us_pmhd ''rx_frame1023_count'') 4 OMCI_ATTR_PROP_RD None,
     ATTR_UINT 0 0xFFFFFFFF (offsetof omci_me_ethernet_us_pmhd ''rx_frame1518_count'') 4 OMCI_ATTR_PROP_RD None]
    [(4, ''create_action_handle''), (6, ''delete_action_handle''), (8, ''set_action_handle''), (9, ''get_action_handle''), (28, ''get_current_data_action_handle'')]
    (Some ''omci_ethernet_us_pmhd.me_init'') (Some ''omci_ethernet_us_pmhd.me_shutdown'') (Some ''default_me_validate'') (Some ''default_me_update'')
    None None (Some ''omci_ethernet_us_pmhd.me_counters_get'') (Some ''omci_ethernet_us_pmhd.me_thr_set'')
    (Some [TCA 0 3 1, TCA 1 8 2, TCA 2 9 3, TCA 3 10 4, TCA 0 0 0]) (sizeof omci_me_ethernet_us_pmhd) (OMCI_ME_PROP_PM OR OMCI_ME_PROP_HAS_ALARMS OR OMCI_ME_PROP_REVIEW)"

definition omci_me_fec_pmhd :: struct_layout where
  "omci_me_fec_pmhd = [
    (''interval_end_time'', 1), (''thr_data_id'', 2), (''corrected_byte_count'', 4),
     (''corrected_word_count'', 4), (''uncorrectable_word_count'', 4), (''total_word_count'', 4),
     (''fec_seconds'', 2)]"

definition me_fec_pmhd_class :: me_class where
  [class_defs]: "me_fec_pmhd_class = mk_class 0x138
    [ATTR_UINT 0 0xFF (offsetof omci_me_fec_pmhd ''interval_end_time'') 1 OMCI_ATTR_PROP_RD (Some ''pm_interval_end_time_get''),
     ATTR_PTR 0 0xFFFF (offsetof omci_me_fec_pmhd ''thr_data_id'') 2 (OMCI_ATTR_PROP_RD OR OMCI_ATTR_PROP_WR OR OMCI_ATTR_PROP_SBC) None,
     ATTR_UINT 0 0xFFFFFFFF (offsetof omci_me_fec_pmhd ''corrected_byte_count'') 4 OMCI_ATTR_PROP_RD None,
     ATTR_UINT 0 0xFFFFFFFF (offsetof omci_me_fec_pmhd ''corrected_word_count'') 4 OMCI_ATTR_PROP_RD None,
     ATTR_UINT 0 0xFFFFFFFF (offsetof omci_me_fec_pmhd ''uncorrectable_word_count'') 4 OMCI_ATTR_PROP_RD None,
     ATTR_UINT 0 0xFFFFFFFF (offsetof omci_me_fec_pmhd ''total_word_count'') 4 OMCI_ATTR_PROP_RD None,
     ATTR_UINT 0 0xFFFFFFFF (offsetof omci_me_fec_pmhd ''fec_seconds'') 2 (OMCI_ATTR_PROP_RD OR OMCI_ATTR_PROP_TEMPLATE) None]
    [(4, ''create_action_handle''), (6, ''delete_action_handle''), (8, ''set_action_handle''), (9, ''get_action_handle''), (28, ''get_current_data_action_handle'')]
    (Some ''omci_fec_pmhd.me_init'') (Some ''omci_fec_pmhd.me_shutdown'') (Some ''default_me_validate'') (Some ''default_me_update'')
    None None (Some ''omci_fec_pmhd.me_counters_get'') (Some ''omci_fec_pmhd.me_thr_set'')
    (Some [TCA 0 3 1, TCA 1 4 2, TCA 2 5 3, TCA 4 7 4, TCA 0 0 0]) (sizeof omci_me_fec_pmhd) (OMCI_ME_PROP_PM OR OMCI_ME_PROP_HAS_ALARMS OR OMCI_ME_PROP_REVIEW)"

definition omci_me_gal_ethernet_pmhd :: struct_layout where
  "omci_me_gal_ethernet_pmhd = [
    (''interval_end_time'', 1), (''thr_data_id'', 2), (''discarded_frames'', 4)]"

definition me_gal_ethernet_class :: me_class where
  [class_defs]: "me_gal_ethernet_class = mk_class 0x114
    [ATTR_UINT 0 0xFF (offsetof omci_me_gal_ethernet_pmhd ''interval_end_time'') 1 OMCI_ATTR_PROP_RD (Some ''pm_interval_end_time_get''),
     ATTR_PTR 0 0xFFFF (offsetof omci_me_gal_ethernet_pmhd ''thr_data_id'') 2 (OMCI_ATTR_PROP_RD OR OMCI_ATTR_PROP_WR OR OMCI_ATTR_PROP_SBC) None,
     ATTR_UINT 0 0xFFFFFFFF (offsetof omci_me_gal_ethernet_pmhd ''discarded_frames'') 4 OMCI_ATTR_PROP_RD None]
    [(4, ''create_action_handle''), (6, ''delete_action_handle''), (8, ''set_action_handle''), (9, ''get_action_handle''), (28, ''get_current_data_action_handle'')]
    (Some ''omci_gal_ethernet_pmhd.me_init'') (Some ''omci_gal_ethernet_pmhd.me_shutdown'') (Some ''default_me_validate'') (Some ''default_me_update'')
    None None (Some ''omci_gal_ethernet_pmhd.me_counters_get'') (Some ''omci_gal_ethernet_pmhd.me_thr_set'')
    (Some [TCA 0 3 1, TCA 0 0 0]) (sizeof omci_me_gal_ethernet_pmhd) (OMCI_ME_PROP_PM OR OMCI_ME_PROP_HAS_ALARMS OR OMCI_ME_PROP_REVIEW)"

definition omci_me_gem_port_pmhd :: struct_layout where
  "omci_me_gem_port_pmhd = [
    (''interval_end_time'', 1), (''thr_data_id'', 2), (''lost_packets'', 4), (''misinserted_packets'', 4),
     (''received_packets_hi'', 1), (''received_packets_lo'', 4), (''received_blocks_hi'', 1),
     (''received_blocks_lo'', 4), (''transmitted_blocks_hi'', 1), (''transmitted_blocks_lo'', 4),
     (''impaired_blocks'', 4)]"

definition me_gem_port_pmhd_class :: me_class where
  [class_defs]: "me_gem_port_pmhd_class = mk_class 0x10B
    [ATTR_UINT 0 0xFF (offsetof omci_me_gem_port_pmhd ''interval_end_time'') 1 OMCI_ATTR_PROP_RD (Some ''pm_interval_end_time_get''),
     ATTR_PTR 0 0xFFFF (offsetof omci_me_gem_port_pmhd ''thr_data_id'') 2 (OMCI_ATTR_PROP_RD OR OMCI_ATTR_PROP_WR OR OMCI_ATTR_PROP_SBC) None,
     ATTR_UINT 0 0xFFFFFFFF (offsetof omci_me_gem_port_pmhd ''lost_packets'') 4 OMCI_ATTR_PROP_RD None,
     ATTR_UINT 0 0xFFFFFFFF (offsetof omci_me_gem_port_pmhd ''misinserted_packets'') 4 (OMCI_ATTR_PROP_RD OR OMCI_ATTR_PROP_TEMPLATE) None,
     ATTR_UINT 0 0xFFFFFFFF (offsetof omci_me_gem_port_pmhd ''received_packets_hi'') 5 OMCI_ATTR_PROP_RD None,
     ATTR_UINT 0 0xFFFFFFFF (offsetof omci_me_gem_port_pmhd ''received_blocks_hi'') 5 OMCI_ATTR_PROP_RD None,
     ATTR_UINT 0 0xFFFFFFFF (offsetof omci_me_gem_port_pmhd ''transmitted_blocks_hi'') 5 OMCI_ATTR_PROP_RD None,
     ATTR_UINT 0 0xFFFFFFFF (offsetof omci_me_gem_port_pmhd ''impaired_blocks'') 4 (OMCI_ATTR_PROP_RD OR OMCI_ATTR_PROP_TEMPLATE) None]
    [(4, ''create_action_handle''), (6, ''delete_action_handle''), (8, ''set_action_handle''), (9, ''get_action_handle''), (28, ''get_current_data_action_handle'')]
    (Some ''omci_gem_port_pmhd.me_init'') (Some ''omci_gem_port_pmhd.me_shutdown'') (Some ''default_me_validate'') (Some ''default_me_update'')
    None None (Some ''omci_gem_port_pmhd.me_counters_get'') (Some ''omci_gem_port_pmhd.me_thr_set'')
    (Some [TCA 0 3 1, TCA 1 4 2, TCA 2 8 3, TCA 0 0 0]) (sizeof omci_me_gem_port_pmhd) (OMCI_ME_PROP_PM OR OMCI_ME_PROP_HAS_ALARMS OR OMCI_ME_PROP_REVIEW)"

definition omci_me_rtp_pmhd :: struct_layout where
  "omci_me_rtp_pmhd = [
    (''interval_end_time'', 1), (''threshold_data'', 2), (''rtp_errors'', 4), (''packet_loss'', 4),
     (''max_jitter'', 4), (''max_time_between_rtcp_packets'', 4), (''buffer_underflows'', 4),
     (''buffer_overflows'', 4)]"

definition me_rtp_pmhd_class :: me_class where
  [class_defs]: "me_rtp_pmhd_class = mk_class 0x90
    [ATTR_UINT 0 0xFF (offsetof omci_me_rtp_pmhd ''interval_end_time'') 1 OMCI_ATTR_PROP_RD (Some ''pm_interval_end_time_get''),
     ATTR_UINT 0 0xFFFF (offsetof omci_me_rtp_pmhd ''threshold_data'') 2 (OMCI_ATTR_PROP_RD OR OMCI_ATTR_PROP_WR OR OMCI_ATTR_PROP_SBC) None,
     ATTR_UINT 0 0xFFFFFFFF (offsetof omci_me_rtp_pmhd ''rtp_errors'') 4 OMCI_ATTR_PROP_RD None,
     ATTR_UINT 0 0xFFFFFFFF (offsetof omci_me_rtp_pmhd ''packet_loss'') 4 OMCI_ATTR_PROP_RD None,
     ATTR_UINT 0 0xFFFFFFFF (offsetof omci_me_rtp_pmhd ''max_jitter'') 4 OMCI_ATTR_PROP_RD None,
     ATTR_UINT 0 0xFFFFFFFF (offsetof omci_me_rtp_pmhd ''max_time_between_rtcp_packets'') 4 (OMCI_ATTR_PROP_RD OR OMCI_ATTR_PROP_TEMPLATE) None,
     ATTR_UINT 0 0xFFFFFFFF (offsetof omci_me_rtp_pmhd ''buffer_underflows'') 4 (OMCI_ATTR_PROP_RD OR OMCI_ATTR_PROP_TEMPLATE) None,
     ATTR_UINT 0 0xFFFFFFFF (offsetof omci_me_rtp_pmhd ''buffer_overflows'') 4 OMCI_ATTR_PROP_RD None]
    [(4, ''create_action_handle''), (6, ''delete_action_handle''), (8, ''set_action_handle''), (9, ''get_action_handle''), (28, ''get_current_data_action_handle'')]
    (Some ''omci_rtp_pmhd.me_init'') None (Some ''default_me_validate'') (Some ''default_me_update'')
    None None (Some ''omci_rtp_pmhd.me_counters_get'') (Some ''default_me_thr_set'')
    (Some [TCA 1 3 1, TCA 2 4 2, TCA 3 5 3, TCA 4 6 4, TCA 5 7 5, TCA 6 8 6, TCA 0 0 0]) (sizeof omci_me_rtp_pmhd) (OMCI_ME_PROP_PM OR OMCI_ME_PROP_PM_INTERNAL OR OMCI_ME_PROP_REVIEW)"

definition omci_me_sip_call_init_pmhd :: struct_layout where
  "omci_me_sip_call_init_pmhd = [
    (''interval_end_time'', 1), (''threshold_data'', 2), (''failed_to_connect'', 4),
     (''failed_to_validate'', 4), (''timeout'', 4), (''failure_received'', 4), (''failed_to_auth'', 4)]"

definition me_sip_call_init_pmhd_class :: me_class where
  [class_defs]: "me_sip_call_init_pmhd_class = mk_class 0x98
    [ATTR_UINT 0 0xFF (offsetof omci_me_sip_call_init_pmhd ''interval_end_time'') 1 OMCI_ATTR_PROP_RD (Some ''pm_interval_end_time_get''),
     ATTR_UINT 0 0xFFFF (offsetof omci_me_sip_call_init_pmhd ''threshold_data'') 2 (OMCI_ATTR_PROP_RD OR OMCI_ATTR_PROP_WR OR OMCI_ATTR_PROP_SBC) None,
     ATTR_UINT 0 0xFFFFFFFF (offsetof omci_me_sip_call_init_pmhd ''failed_to_connect'') 4 OMCI_ATTR_PROP_RD None,
     ATTR_UINT 0 0xFFFFFFFF (offsetof omci_me_sip_call_init_pmhd ''failed_to_validate'') 4 OMCI_ATTR_PROP_RD None,
     ATTR_UINT 0 0xFFFFFFFF (offsetof omci_me_sip_call_init_pmhd ''timeout'') 4 OMCI_ATTR_PROP_RD None,
     ATTR_UINT 0 0xFFFFFFFF (offsetof omci_me_sip_call_init_pmhd ''failure_received'') 4 OMCI_ATTR_PROP_RD None,
     ATTR_UINT 0 0xFFFFFFFF (offsetof omci_me_sip_call_init_pmhd ''failed_to_auth'') 4 OMCI_ATTR_PROP_RD None]
    [(4, ''create_action_handle''), (6, ''delete_action_handle''), (8, ''set_action_handle''), (9, ''get_action_handle''), (28, ''get_current_data_action_handle'')]
    (Some ''omci_sip_call_init_pmhd.me_init'') None (Some ''default_me_validate'') (Some ''default_me_update'')
    None None (Some ''omci_sip_call_init_pmhd.me_counters_get'') (Some ''default_me_thr_set'')
    (Some [TCA 1 3 1, TCA 2 4 2, TCA 3 5 3, TCA 4 6 4, TCA 5 7 5, TCA 0 0 0]) (sizeof omci_me_sip_call_init_pmhd) (OMCI_ME_PROP_PM OR OMCI_ME_PROP_PM_INTERNAL)"

definition omci_me_sip_agent_pmhd :: struct_layout where
  "omci_me_sip_agent_pmhd = [
    (''interval_end_time'', 1), (''threshold_data'', 2), (''transactions'', 4), (''rx_invite_reqs'', 4),
     (''rx_invite_retrans'', 4), (''rx_noninvite_reqs'', 4), (''rx_noninvite_retrans'', 4),
     (''rx_response'', 4), (''rx_response_retrans'', 4), (''tx_invite_reqs'', 4), (''tx_invite_retrans'', 4),
     (''tx_noninvite_reqs'', 4), (''tx_noninvite_retrans'', 4), (''tx_response'', 4),
     (''tx_response_retrans'', 4)]"

definition me_sip_agent_pmhd_class :: me_class where
  [class_defs]: "me_sip_agent_pmhd_class = mk_class 0x97
    [ATTR_UINT 0 0xFF (offsetof omci_me_sip_agent_pmhd ''interval_end_time'') 1 OMCI_ATTR_PROP_RD (Some ''pm_interval_end_time_get''),
     ATTR_UINT 0 0xFFFF (offsetof omci_me_sip_agent_pmhd ''threshold_data'') 2 (OMCI_ATTR_PROP_RD OR OMCI_ATTR_PROP_WR OR OMCI_ATTR_PROP_SBC) None,
     ATTR_UINT 0 0xFFFFFFFF (offsetof omci_me_sip_agent_pmhd ''transactions'') 4 (OMCI_ATTR_PROP_RD OR OMCI_ATTR_PROP_TEMPLATE) None,
     ATTR_UINT 0 0xFFFFFFFF (offsetof omci_me_sip_agent_pmhd ''rx_invite_reqs'') 4 OMCI_ATTR_PROP_RD None,
     ATTR_UINT 0 0xFFFFFFFF (offsetof omci_me_sip_agent_pmhd ''rx_invite_retrans'') 4 (OMCI_ATTR_PROP_RD OR OMCI_ATTR_PROP_TEMPLATE) None,
     ATTR_UINT 0 0xFFFFFFFF (offsetof omci_me_sip_agent_pmhd ''rx_noninvite_reqs'') 4 OMCI_ATTR_PROP_RD None,
     ATTR_UINT 0 0xFFFFFFFF (offsetof omci_me_sip_agent_pmhd ''rx_noninvite_retrans'') 4 (OMCI_ATTR_PROP_RD OR OMCI_ATTR_PROP_TEMPLATE) None,
     ATTR_UINT 0 0xFFFFFFFF (offsetof omci_me_sip_agent_pmhd ''rx_response'') 4 OMCI_ATTR_PROP_RD None,
     ATTR_UINT 0 0xFFFFFFFF (offsetof omci_me_sip_agent_pmhd ''rx_response_retrans'') 4 (OMCI_ATTR_PROP_RD OR OMCI_ATTR_PROP_TEMPLATE) None,
     ATTR_UINT 0 0xFFFFFFFF (offsetof omci_me_sip_agent_pmhd ''tx_invite_reqs'') 4 OMCI_ATTR_PROP_RD None,
     ATTR_UINT 0 0xFFFFFFFF (offsetof omci_me_sip_agent_pmhd ''tx_invite_retrans'') 4 OMCI_ATTR_PROP_RD None,
     ATTR_UINT 0 0xFFFFFFFF (offsetof omci_me_sip_agent_pmhd ''tx_noninvite_reqs'') 4 OMCI_ATTR_PROP_RD None,
     ATTR_UINT 0 0xFFFFFFFF (offsetof omci_me_sip_agent_pmhd ''tx_noninvite_retrans'') 4 OMCI_ATTR_PROP_RD None,
     ATTR_UINT 0 0xFFFFFFFF (offsetof omci_me_sip_agent_pmhd ''tx_response'') 4 OMCI_ATTR_PROP_RD None,
     ATTR_UINT 0 0xFFFFFFFF (offsetof omci_me_sip_agent_pmhd ''tx_response_retrans'') 4 OMCI_ATTR_PROP_RD None]
    [(4, ''create_action_handle''), (6, ''delete_action_handle''), (8, ''set_action_handle''), (9, ''get_action_handle''), (28, ''get_current_data_action_handle'')]
    (Some ''omci_sip_agent_pmhd.me_init'') None (Some ''default_me_validate'') (Some ''default_me_update'')
    None None (Some ''omci_sip_agent_pmhd.me_counters_get'') (Some ''default_me_thr_set'')
    (Some [TCA 1 4 1, TCA 2 5 2, TCA 3 6 3, TCA 4 7 4, TCA 5 8 5, TCA 6 9 6, TCA 0 0 0]) (sizeof omci_me_sip_agent_pmhd) (OMCI_ME_PROP_PM OR OMCI_ME_PROP_PM_INTERNAL OR OMCI_ME_PROP_REVIEW)"

definition omci_me_call_control_pmhd :: struct_layout where
  "omci_me_call_control_pmhd = [
    (''interval_end_time'', 1), (''threshold_data'', 2), (''call_setup_failures'', 4),
     (''call_setup_timer'', 4), (''call_terminate_failures'', 4), (''analog_port_releases'', 4),
     (''analog_port_offhook_timer'', 4)]"

definition me_call_control_pmhd_class :: me_class where
  [class_defs]: "me_call_control_pmhd_class = mk_class 0x8C
    [ATTR_UINT 0 0xFF (offsetof omci_me_call_control_pmhd ''interval_end_time'') 1 OMCI_ATTR_PROP_RD (Some ''pm_interval_end_time_get''),
     ATTR_UINT 0 0xFFFF (offsetof omci_me_call_control_pmhd ''threshold_data'') 2 (OMCI_ATTR_PROP_RD OR OMCI_ATTR_PROP_WR OR OMCI_ATTR_PROP_SBC) None,
     ATTR_UINT 0 0xFFFFFFFF (offsetof omci_me_call_control_pmhd ''call_setup_failures'') 4 OMCI_ATTR_PROP_RD None,
     ATTR_UINT 0 0xFFFFFFFF (offsetof omci_me_call_control_pmhd ''call_setup_timer'') 4 OMCI_ATTR_PROP_RD None,
     ATTR_UINT 0 0xFFFFFFFF (offsetof omci_me_call_control_pmhd ''call_terminate_failures'') 4 OMCI_ATTR_PROP_RD None,
     ATTR_UINT 0 0xFFFFFFFF (offsetof omci_me_call_control_pmhd ''analog_port_releases'') 4 OMCI_ATTR_PROP_RD None,
     ATTR_UINT 0 0xFFFFFFFF (offsetof omci_me_call_control_pmhd ''analog_port_offhook_timer'') 4 OMCI_ATTR_PROP_RD None]
    [(4, ''create_action_handle''), (6, ''delete_action_handle''), (8, ''set_action_handle''), (9, ''get_action_handle''), (28, ''get_current_data_action_handle'')]
    (Some ''omci_call_control_pmhd.me_init'') None (Some ''default_me_validate'') (Some ''default_me_update'')
    None None (Some ''omci_call_control_pmhd.me_counters_get'') (Some ''default_me_thr_set'')
    (Some [TCA 1 3 1, TCA 2 4 2, TCA 3 5 3, TCA 4 6 4, TCA 5 7 5, TCA 0 0 0]) (sizeof omci_me_call_control_pmhd) (OMCI_ME_PROP_PM OR OMCI_ME_PROP_PM_INTERNAL)"

definition omci_me_mac_bridge_pmhd :: struct_layout where
  "omci_me_mac_bridge_pmhd = [
    (''interval_end_time'', 1), (''thr_data_id'', 2), (''bridge_learning_discard_count'', 4)]"

definition me_mac_bridge_pmhd_class :: me_class where
  [class_defs]: "me_mac_bridge_pmhd_class = mk_class 0x33
    [ATTR_UINT 0 0xFF (offsetof omci_me_mac_bridge_pmhd ''interval_end_time'') 1 OMCI_ATTR_PROP_RD (Some ''pm_interval_end_time_get''),
     ATTR_PTR 0 0xFFFF (offsetof omci_me_mac_bridge_pmhd ''thr_data_id'') 2 (OMCI_ATTR_PROP_RD OR OMCI_ATTR_PROP_WR OR OMCI_ATTR_PROP_SBC) None,
     ATTR_UINT 0 0xFFFFFFFF (offsetof omci_me_mac_bridge_pmhd ''bridge_learning_discard_count'') 4 OMCI_ATTR_PROP_RD None]
    [(4, ''create_action_handle''), (6, ''delete_action_handle''), (8, ''set_action_handle''), (9, ''get_action_handle''), (28, ''get_current_data_action_handle'')]
    (Some ''omci_mac_bridge_pmhd.me_init'') (Some ''default_me_shutdown'') (Some ''default_me_validate'') (Some ''default_me_update'')
    None None (Some ''omci_mac_bridge_pmhd.me_counters_get'') (Some ''omci_mac_bridge_pmhd.me_thr_set'')
    (Some [TCA 0 3 1, TCA 0 0 0]) (sizeof omci_me_mac_bridge_pmhd) (OMCI_ME_PROP_PM OR OMCI_ME_PROP_HAS_ALARMS OR OMCI_ME_PROP_REVIEW)"

definition omci_me_mac_bridge_port_pmhd :: struct_layout where
  "omci_me_mac_bridge_port_pmhd = [
    (''interval_end_time'', 1), (''thr_data_id'', 2), (''forwarded_frame_count'', 4),
     (''delay_exceeded_discard_count'', 4), (''mtu_exceeded_discard_count'', 4),
     (''received_frame_count'', 4), (''received_discard_count'', 4)]"

definition me_mac_bridge_port_pmhd_class :: me_class where
  [class_defs]: "me_mac_bridge_port_pmhd_class = mk_class 0x34
    [ATTR_UINT 0 0xFF (offsetof omci_me_mac_bridge_port_pmhd ''interval_end_time'') 1 OMCI_ATTR_PROP_RD (Some ''pm_interval_end_time_get''),
     ATTR_PTR 0 0xFFFF (offsetof omci_me_mac_bridge_port_pmhd ''thr_data_id'') 2 (OMCI_ATTR_PROP_RD OR OMCI_ATTR_PROP_WR OR OMCI_ATTR_PROP_SBC) None,
     ATTR_UINT 0 0xFFFFFFFF (offsetof omci_me_mac_bridge_port_pmhd ''forwarded_frame_count'') 4 (OMCI_ATTR_PROP_RD OR OMCI_ATTR_PROP_TEMPLATE) None,
     ATTR_UINT 0 0xFFFFFFFF (offsetof omci_me_mac_bridge_port_pmhd ''delay_exceeded_discard_count'') 4 (OMCI_ATTR_PROP_RD OR OMCI_ATTR_PROP_TEMPLATE) None,
     ATTR_UINT 0 0xFFFFFFFF (offsetof omci_me_mac_bridge_port_pmhd ''mtu_exceeded_discard_count'') 4 (OMCI_ATTR_PROP_RD OR OMCI_ATTR_PROP_TEMPLATE) None,
     ATTR_UINT 0 0xFFFFFFFF (offsetof omci_me_mac_bridge_port_pmhd ''received_frame_count'') 4 (OMCI_ATTR_PROP_RD OR OMCI_ATTR_PROP_TEMPLATE) None,
     ATTR_UINT 0 0xFFFFFFFF (offsetof omci_me_mac_bridge_port_pmhd ''received_discard_count'') 4 (OMCI_ATTR_PROP_RD OR OMCI_ATTR_PROP_TEMPLATE) None]
    [(4, ''create_action_handle''), (6, ''delete_action_handle''), (8, ''set_action_handle''), (9, ''get_action_handle''), (28, ''get_current_data_action_handle'')]
    (Some ''omci_mac_bridge_port_pmhd.me_init'') (Some ''omci_mac_bridge_port_pmhd.me_shutdown'') (Some ''default_me_validate'') (Some ''default_me_update'')
    None None (Some ''omci_mac_bridge_port_pmhd.me_counters_get'') (Some ''default_me_thr_set'')
    (Some [TCA 1 4 1, TCA 2 5 2, TCA 4 7 3, TCA 0 0 0]) (sizeof omci_me_mac_bridge_port_pmhd) (OMCI_ME_PROP_PM OR OMCI_ME_PROP_HAS_ALARMS OR OMCI_ME_PROP_REVIEW)"

definition classes_c :: "me_class list" where
  "classes_c = [me_tcont_class,
     me_traffic_descriptor_class,
     me_traffic_scheduler_class,
     me_uni_g_class,
     me_pptp_pots_uni_class,
     me_voip_config_data_class,
     me_voip_voice_ctp_class,
     me_voip_media_profile_class,
     me_rtp_profile_data_class,
     me_voice_service_profile_class,
     me_voip_line_status_class,
     me_sip_user_data_class,
     me_sip_agent_config_data_class,
     me_network_dial_plan_table_class,
     me_ethernet_ds_pmhd_class,
     me_ethernet_pmhd_class,
     me_ethernet_pmhd2_class,
     me_ethernet_pmhd3_class,
     me_ethernet_us_pmhd_class,
     me_fec_pmhd_class,
     me_gal_ethernet_class,
     me_gem_port_pmhd_class,
     me_rtp_pmhd_class,
     me_sip_call_init_pmhd_class,
     me_sip_agent_pmhd_class,
     me_call_control_pmhd_class,
     me_mac_bridge_pmhd_class,
     me_mac_bridge_port_pmhd_class]"

end
