(* ===== verification/Omci_Classes_D.thy ===== *)
theory Omci_Classes_D
  imports Omci_Types
begin

text \<open>
  Managed entity classes of \<^verbatim>\<open>src/me/\<close>, entries 85 to 112 of the list of supported classes, with the
  layouts of their attribute structures. Attributes that are not defined fill the array up to 16.
\<close>

definition omci_me_threshold_data1 :: struct_layout where
  "omci_me_threshold_data1 = [
    (''thr_data1'', 4), (''thr_data2'', 4), (''thr_data3'', 4), (''thr_data4'', 4), (''thr_data5'', 4),
     (''thr_data6'', 4), (''thr_data7'', 4)]"

definition me_threshold_data1_class :: me_class where
  [class_defs]: "me_threshold_data1_class = mk_class 0x111
    [ATTR_UINT 0 0xFFFFFFFF (offsetof omci_me_threshold_data1 ''thr_data1'') 4 (OMCI_ATTR_PROP_RD OR OMCI_ATTR_PROP_WR OR OMCI_ATTR_PROP_SBC) None,
     ATTR_UINT 0 0xFFFFFFFF (offsetof omci_me_threshold_data1 ''thr_data2'') 4 (OMCI_ATTR_PROP_RD OR OMCI_ATTR_PROP_WR OR OMCI_ATTR_PROP_SBC) None,
     ATTR_UINT 0 0xFFFFFFFF (offsetof omci_me_threshold_data1 ''thr_data3'') 4 (OMCI_ATTR_PROP_RD OR OMCI_ATTR_PROP_WR OR OMCI_ATTR_PROP_SBC) None,
     ATTR_UINT 0 0xFFFFFFFF (offsetof omci_me_threshold_data1 ''thr_data4'') 4 (OMCI_ATTR_PROP_RD OR OMCI_ATTR_PROP_WR OR OMCI_ATTR_PROP_SBC) None,
     ATTR_UINT 0 0xFFFFFFFF (offsetof omci_me_threshold_data1 ''thr_data5'') 4 (OMCI_ATTR_PROP_RD OR OMCI_ATTR_PROP_WR OR OMCI_ATTR_PROP_SBC) None,
     ATTR_UINT 0 0xFFFFFFFF (offsetof omci_me_threshold_data1 ''thr_data6'') 4 (OMCI_ATTR_PROP_RD OR OMCI_ATTR_PROP_WR OR OMCI_ATTR_PROP_SBC) None,
     ATTR_UINT 0 0xFFFFFFFF (offsetof omci_me_threshold_data1 ''thr_data7'') 4 (OMCI_ATTR_PROP_RD OR OMCI_ATTR_PROP_WR OR OMCI_ATTR_PROP_SBC) None]
    [(4, ''create_action_handle''), (6, ''delete_action_handle''), (8, ''set_action_handle''), (9, ''get_action_handle'')]
    (Some ''default_me_init'') None None (Some ''omci_threshold_data1.me_update'')
    None None None None
    None (sizeof omci_me_threshold_data1) (OMCI_ME_PROP_NO_UPLOAD OR OMCI_ME_PROP_REVIEW)"

definition omci_me_threshold_data2 :: struct_layout where
  "omci_me_threshold_data2 = [
    (''thr_data8'', 4), (''thr_data9'', 4), (''thr_data10'', 4), (''thr_data11'', 4), (''thr_data12'', 4),
     (''thr_data13'', 4), (''thr_data14'', 4)]"

definition me_threshold_data2_class :: me_class where
  [class_defs]: "me_threshold_data2_class = mk_class 0x112
    [ATTR_UINT 0 0xFFFFFFFF (offsetof omci_me_threshold_data2 ''thr_data8'') 4 (OMCI_ATTR_PROP_RD OR OMCI_ATTR_PROP_WR OR OMCI_ATTR_PROP_SBC) None,
     ATTR_UINT 0 0xFFFFFFFF (offsetof omci_me_threshold_data2 ''thr_data9'') 4 (OMCI_ATTR_PROP_RD OR OMCI_ATTR_PROP_WR OR OMCI_ATTR_PROP_SBC) None,
     ATTR_UINT 0 0xFFFFFFFF (offsetof omci_me_threshold_data2 ''thr_data10'') 4 (OMCI_ATTR_PROP_RD OR OMCI_ATTR_PROP_WR OR OMCI_ATTR_PROP_SBC) None,
     ATTR_UINT 0 0xFFFFFFFF (offsetof omci_me_threshold_data2 ''thr_data11'') 4 (OMCI_ATTR_PROP_RD OR OMCI_ATTR_PROP_WR OR OMCI_ATTR_PROP_SBC) None,
     ATTR_UINT 0 0xFFFFFFFF (offsetof omci_me_threshold_data2 ''thr_data12'') 4 (OMCI_ATTR_PROP_RD OR OMCI_ATTR_PROP_WR OR OMCI_ATTR_PROP_SBC) None,
     ATTR_UINT 0 0xFFFFFFFF (offsetof omci_me_threshold_data2 ''thr_data13'') 4 (OMCI_ATTR_PROP_RD OR OMCI_ATTR_PROP_WR OR OMCI_ATTR_PROP_SBC) None,
     ATTR_UINT 0 0xFFFFFFFF (offsetof omci_me_threshold_data2 ''thr_data14'') 4 (OMCI_ATTR_PROP_RD OR OMCI_ATTR_PROP_WR OR OMCI_ATTR_PROP_SBC) None]
    [(4, ''create_action_handle''), (6, ''delete_action_handle''), (8, ''set_action_handle''), (9, ''get_action_handle'')]
    (Some ''default_me_init'') None None (Some ''omci_threshold_data2.me_update'')
    None None None None
    None (sizeof omci_me_threshold_data2) (OMCI_ME_PROP_NO_UPLOAD OR OMCI_ME_PROP_REVIEW)"

definition omci_me_gem_port_network_ctp_pmhd :: struct_layout where
  "omci_me_gem_port_network_ctp_pmhd = [
    (''interval_end_time'', 1), (''thr_data_id'', 2), (''tx_gem_frames'', 4), (''rx_gem_frames'', 4),
     (''rx_payload_bytes'', 8), (''tx_payload_bytes'', 8)]"

definition me_gem_port_network_ctp_pmhd_class :: me_class where
  [class_defs]: "me_gem_port_network_ctp_pmhd_class = mk_class 0x155
    [ATTR_UINT 0 0xFF (offsetof omci_me_gem_port_network_ctp_pmhd ''interval_end_time'') 1 OMCI_ATTR_PROP_RD (Some ''pm_interval_end_time_get''),
     ATTR_PTR 0 0xFFFF (offsetof omci_me_gem_port_network_ctp_pmhd ''thr_data_id'') 2 (OMCI_ATTR_PROP_RD OR OMCI_ATTR_PROP_WR OR OMCI_ATTR_PROP_SBC) None,
     ATTR_UINT 0 0xFFFFFFFF (offsetof omci_me_gem_port_network_ctp_pmhd ''tx_gem_frames'') 4 OMCI_ATTR_PROP_RD None,
     ATTR_UINT 0 0xFFFFFFFF (offsetof omci_me_gem_port_network_ctp_pmhd ''rx_gem_frames'') 4 OMCI_ATTR_PROP_RD None,
     ATTR_UINT 0 0xFFFFFFFFFFFFFFFF (offsetof omci_me_gem_port_network_ctp_pmhd ''rx_payload_bytes'') 8 OMCI_ATTR_PROP_RD None,
     ATTR_UINT 0 0xFFFFFFFFFFFFFFFF (offsetof omci_me_gem_port_network_ctp_pmhd ''tx_payload_bytes'') 8 OMCI_ATTR_PROP_RD None]
    [(4, ''create_action_handle''), (6, ''delete_action_handle''), (8, ''set_action_handle''), (9, ''get_action_handle''), (28, ''get_current_data_action_handle'')]
    (Some ''omci_gem_port_network_ctp_pmhd.me_init'') (Some ''omci_gem_port_network_ctp_pmhd.me_shutdown'') (Some ''default_me_validate'') (Some ''default_me_update'')
    None None (Some ''omci_gem_port_network_ctp_pmhd.me_counters_get'') (Some ''omci_gem_port_network_ctp_pmhd.me_thr_set'')
    None (sizeof omci_me_gem_port_network_ctp_pmhd) (OMCI_ME_PROP_PM OR OMCI_ME_PROP_HAS_ALARMS OR OMCI_ME_PROP_REVIEW)"

definition omci_me_ip_host_monitoring_data :: struct_layout where
  "omci_me_ip_host_monitoring_data = [
    (''interval_end_time'', 1), (''threshold_data'', 2), (''icmp_errors'', 4), (''dns_errors'', 4),
     (''dhcp_timeouts'', 2), (''ip_address_conflict'', 2), (''out_of_memory'', 2), (''internal_error'', 2)]"

definition me_ip_host_monitoring_data_class :: me_class where
  [class_defs]: "me_ip_host_monitoring_data_class = mk_class 0x87
    [ATTR_UINT 0 0xFF (offsetof omci_me_ip_host_monitoring_data ''interval_end_time'') 1 OMCI_ATTR_PROP_RD (Some ''pm_interval_end_time_get''),
     ATTR_UINT 0 0xFFFF (offsetof omci_me_ip_host_monitoring_data ''threshold_data'') 2 (OMCI_ATTR_PROP_RD OR OMCI_ATTR_PROP_WR OR OMCI_ATTR_PROP_SBC) None,
     ATTR_UINT 0 0xFFFFFFFF (offsetof omci_me_ip_host_monitoring_data ''icmp_errors'') 4 OMCI_ATTR_PROP_RD None,
     ATTR_UINT 0 0xFFFFFFFF (offsetof omci_me_ip_host_monitoring_data ''dns_errors'') 4 OMCI_ATTR_PROP_RD None,
     ATTR_UINT 0 0xFFFF (offsetof omci_me_ip_host_monitoring_data ''dhcp_timeouts'') 2 OMCI_ATTR_PROP_RD None,
     ATTR_UINT 0 0xFFFF (offsetof omci_me_ip_host_monitoring_data ''ip_address_conflict'') 2 OMCI_ATTR_PROP_RD None,
     ATTR_UINT 0 0xFFFF (offsetof omci_me_ip_host_monitoring_data ''out_of_memory'') 2 OMCI_ATTR_PROP_RD None,
     ATTR_UINT 0 0xFFFF (offsetof omci_me_ip_host_monitoring_data ''internal_error'') 2 OMCI_ATTR_PROP_RD None]
    [(4, ''create_action_handle''), (6, ''delete_action_handle''), (8, ''set_action_handle''), (9, ''get_action_handle''), (28, ''get_current_data_action_handle'')]
    (Some ''omci_ip_host_monitoring_data.me_init'') None (Some ''default_me_validate'') (Some ''default_me_update'')
    None None (Some ''omci_ip_host_monitoring_data.me_counters_get'') (Some ''default_me_thr_set'')
    (Some [TCA 1 3 1, TCA 2 4 2, TCA 3 5 3, TCA 4 6 4, TCA 5 7 5, TCA 6 8 6, TCA 0 0 0]) (sizeof omci_me_ip_host_monitoring_data) (OMCI_ME_PROP_PM OR OMCI_ME_PROP_PM_INTERNAL OR OMCI_ME_PROP_REVIEW)"

definition omci_me_onu_dyn_pwr_mngmt_ctrl :: struct_layout where
  "omci_me_onu_dyn_pwr_mngmt_ctrl = [
    (''pwr_reduction_mngmt_cap'', 1), (''pwr_reduction_mngmt_mode'', 1), (''itransinit'', 2),
     (''itxinit'', 2), (''max_sleep_interval'', 4), (''min_aware_interval'', 4),
     (''min_active_held_interval'', 2)]"

definition me_onu_dyn_pwr_mngmt_ctrl_class :: me_class where
  [class_defs]: "me_onu_dyn_pwr_mngmt_ctrl_class = mk_class 0x150
    [ATTR_BF 3 (offsetof omci_me_onu_dyn_pwr_mngmt_ctrl ''pwr_reduction_mngmt_cap'') 1 OMCI_ATTR_PROP_RD None,
     ATTR_BF 3 (offsetof omci_me_onu_dyn_pwr_mngmt_ctrl ''pwr_reduction_mngmt_mode'') 1 (OMCI_ATTR_PROP_RD OR OMCI_ATTR_PROP_WR) None,
     ATTR_UINT 0 0xFFFF (offsetof omci_me_onu_dyn_pwr_mngmt_ctrl ''itransinit'') 2 OMCI_ATTR_PROP_RD None,
     ATTR_UINT 0 0xFFFF (offsetof omci_me_onu_dyn_pwr_mngmt_ctrl ''itxinit'') 2 OMCI_ATTR_PROP_RD None,
     ATTR_UINT 0 0xFFFFFFFF (offsetof omci_me_onu_dyn_pwr_mngmt_ctrl ''max_sleep_interval'') 4 (OMCI_ATTR_PROP_RD OR OMCI_ATTR_PROP_WR) None,
     ATTR_UINT 0 0xFFFFFFFF (offsetof omci_me_onu_dyn_pwr_mngmt_ctrl ''min_aware_interval'') 4 (OMCI_ATTR_PROP_RD OR OMCI_ATTR_PROP_WR) None,
     ATTR_UINT 0 0xFFFF (offsetof omci_me_onu_dyn_pwr_mngmt_ctrl ''min_active_held_interval'') 2 (OMCI_ATTR_PROP_RD OR OMCI_ATTR_PROP_WR) None]
    [(8, ''set_action_handle''), (9, ''get_action_handle'')]
    (Some ''default_me_init'') (Some ''default_me_shutdown'') (Some ''default_me_validate'') (Some ''omci_onu_dyn_pwr_mngmt_ctrl.me_update'')
    None None None None
    None (sizeof omci_me_onu_dyn_pwr_mngmt_ctrl) OMCI_ME_PROP_NONE"

definition omci_me_enh_sec_ctrl :: struct_layout where
  "omci_me_enh_sec_ctrl = [
    (''olt_crypto_caps'', 16), (''olt_random_chl_table'', 17), (''olt_chl_status'', 1),
     (''onu_selected_crypto_caps'', 1), (''onu_random_chl_table'', 16), (''onu_auth_result_table'', 16),
     (''olt_auth_result_table'', 17), (''olt_result_status'', 1), (''onu_auth_status'', 1),
     (''master_session_key_name'', 16), (''broadcast_key_table'', 18), (''effective_key_length'', 2)]"

definition me_enhanced_security_control_class :: me_class where
  [class_defs]: "me_enhanced_security_control_class = mk_class 0x14C
    [ATTR_TBL (offsetof omci_me_enh_sec_ctrl ''olt_crypto_caps'') 16 OMCI_ATTR_PROP_WR None,
     ATTR_TBL (offsetof omci_me_enh_sec_ctrl ''olt_random_chl_table'') 17 (OMCI_ATTR_PROP_RD OR OMCI_ATTR_PROP_WR) None,
     ATTR_BOOL (offsetof omci_me_enh_sec_ctrl ''olt_chl_status'') 1 (OMCI_ATTR_PROP_RD OR OMCI_ATTR_PROP_WR) None,
     ATTR_UINT 0 0xFF (offsetof omci_me_enh_sec_ctrl ''onu_selected_crypto_caps'') 1 OMCI_ATTR_PROP_RD None,
     ATTR_TBL (offsetof omci_me_enh_sec_ctrl ''onu_random_chl_table'') 16 OMCI_ATTR_PROP_RD None,
     ATTR_TBL (offsetof omci_me_enh_sec_ctrl ''onu_auth_result_table'') 16 OMCI_ATTR_PROP_RD None,
     ATTR_TBL (offsetof omci_me_enh_sec_ctrl ''olt_auth_result_table'') 17 OMCI_ATTR_PROP_WR None,
     ATTR_BOOL (offsetof omci_me_enh_sec_ctrl ''olt_result_status'') 1 (OMCI_ATTR_PROP_RD OR OMCI_ATTR_PROP_WR) None,
     ATTR_UINT 0 5 (offsetof omci_me_enh_sec_ctrl ''onu_auth_status'') 1 OMCI_ATTR_PROP_RD None,
     ATTR_STR (offsetof omci_me_enh_sec_ctrl ''master_session_key_name'') 16 OMCI_ATTR_PROP_RD (Some ''omci_enhanced_security_control.msk_get''),
     ATTR_TBL (offsetof omci_me_enh_sec_ctrl ''broadcast_key_table'') 18 (OMCI_ATTR_PROP_RD OR OMCI_ATTR_PROP_WR OR OMCI_ATTR_PROP_OPTIONAL) None,
     ATTR_UINT 0 0xFFFF (offsetof omci_me_enh_sec_ctrl ''effective_key_length'') 2 (OMCI_ATTR_PROP_RD OR OMCI_ATTR_PROP_OPTIONAL) None]
    [(4, ''create_action_handle''), (6, ''delete_action_handle''), (8, ''set_action_handle''), (9, ''get_action_handle''), (26, ''get_next_action_handle'')]
    (Some ''omci_enhanced_security_control.me_init'') (Some ''omci_enhanced_security_control.me_shutdown'') (Some ''default_me_validate'') (Some ''omci_enhanced_security_control.me_update'')
    (Some ''omci_enhanced_security_control.me_tbl_copy'') None None None
    None (sizeof omci_me_enh_sec_ctrl) OMCI_ME_PROP_NONE"

definition omci_me_ipv6_host_config_data :: struct_layout where
  "omci_me_ipv6_host_config_data = [
    (''ip_options'', 1), (''mac_addr'', 6), (''onu_id'', 25), (''ipv6_link_local_addr'', 16),
     (''ipv6_addr'', 16), (''default_router'', 16), (''primary_dns'', 16), (''secondary_dns'', 16),
     (''current_addr_table'', 24), (''current_default_router_table'', 16), (''current_dns_table'', 16),
     (''duid'', 25), (''on_link_prefix'', 17), (''current_on_link_prefix_table'', 26)]"

definition me_ipv6_host_config_data_class :: me_class where
  [class_defs]: "me_ipv6_host_config_data_class = mk_class 0x15B
    [ATTR_UINT 0 0xF (offsetof omci_me_ipv6_host_config_data ''ip_options'') 1 (OMCI_ATTR_PROP_RD OR OMCI_ATTR_PROP_WR OR OMCI_ATTR_PROP_PARTLY) None,
     ATTR_STR (offsetof omci_me_ipv6_host_config_data ''mac_addr'') 6 OMCI_ATTR_PROP_RD (Some ''omci_ipv6_host_config_data.mac_addr_get''),
     ATTR_STR (offsetof omci_me_ipv6_host_config_data ''onu_id'') 25 (OMCI_ATTR_PROP_RD OR OMCI_ATTR_PROP_WR) None,
     ATTR_STR (offsetof omci_me_ipv6_host_config_data ''ipv6_link_local_addr'') 16 OMCI_ATTR_PROP_RD None,
     ATTR_STR (offsetof omci_me_ipv6_host_config_data ''ipv6_addr'') 16 (OMCI_ATTR_PROP_RD OR OMCI_ATTR_PROP_WR) None,
     ATTR_STR (offsetof omci_me_ipv6_host_config_data ''default_router'') 16 (OMCI_ATTR_PROP_RD OR OMCI_ATTR_PROP_WR) None,
     ATTR_STR (offsetof omci_me_ipv6_host_config_data ''primary_dns'') 16 (OMCI_ATTR_PROP_RD OR OMCI_ATTR_PROP_WR) None,
     ATTR_STR (offsetof omci_me_ipv6_host_config_data ''secondary_dns'') 16 (OMCI_ATTR_PROP_RD OR OMCI_ATTR_PROP_WR) None,
     ATTR_TBL (offsetof omci_me_ipv6_host_config_data ''current_addr_table'') 24 OMCI_ATTR_PROP_RD None,
     ATTR_TBL (offsetof omci_me_ipv6_host_config_data ''current_default_router_table'') 16 OMCI_ATTR_PROP_RD None,
     ATTR_TBL (offsetof omci_me_ipv6_host_config_data ''current_dns_table'') 16 OMCI_ATTR_PROP_RD None,
     ATTR_STR (offsetof omci_me_ipv6_host_config_data ''duid'') 25 OMCI_ATTR_PROP_RD (Some ''omci_ipv6_host_config_data.duid_get''),
     ATTR_STR (offsetof omci_me_ipv6_host_config_data ''on_link_prefix'') 17 (OMCI_ATTR_PROP_RD OR OMCI_ATTR_PROP_WR OR OMCI_ATTR_PROP_OPTIONAL) None,
     ATTR_TBL (offsetof omci_me_ipv6_host_config_data ''current_on_link_prefix_table'') 26 (OMCI_ATTR_PROP_RD OR OMCI_ATTR_PROP_OPTIONAL) None]
    [(8, ''set_action_handle''), (9, ''get_action_handle''), (26, ''get_next_action_handle'')]
    (Some ''omci_ipv6_host_config_data.me_init'') None (Some ''default_me_validate'') (Some ''omci_ipv6_host_config_data.me_update'')
    (Some ''omci_ipv6_host_config_data.me_tbl_copy'') None None None
    None (sizeof omci_me_ipv6_host_config_data) (OMCI_ME_PROP_NONE OR OMCI_ME_PROP_REVIEW)"

definition omci_dot1ag_md :: struct_layout where
  "omci_dot1ag_md = [
    (''md_level'', 1), (''md_name_format'', 1), (''md_name_1'', 25), (''md_name_2'', 25),
     (''mhf_creation'', 1), (''snd_id_perm'', 1)]"

definition me_dot1ag_md_class :: me_class where
  [class_defs]: "me_dot1ag_md_class = mk_class 0x12B
    [ATTR_UINT 0 7 (offsetof omci_dot1ag_md ''md_level'') 1 (OMCI_ATTR_PROP_RD OR OMCI_ATTR_PROP_WR OR OMCI_ATTR_PROP_SBC) None,
     ATTR_UINT 0 0xFF (offsetof omci_dot1ag_md ''md_name_format'') 1 (OMCI_ATTR_PROP_RD OR OMCI_ATTR_PROP_WR OR OMCI_ATTR_PROP_SBC) None,
     ATTR_STR (offsetof omci_dot1ag_md ''md_name_1'') 25 (OMCI_ATTR_PROP_RD OR OMCI_ATTR_PROP_WR) None,
     ATTR_STR (offsetof omci_dot1ag_md ''md_name_2'') 25 (OMCI_ATTR_PROP_RD OR OMCI_ATTR_PROP_WR) None,
     ATTR_UINT 0 0xFF (offsetof omci_dot1ag_md ''mhf_creation'') 1 (OMCI_ATTR_PROP_RD OR OMCI_ATTR_PROP_WR OR OMCI_ATTR_PROP_SBC) None,
     ATTR_UINT 0 0xFF (offsetof omci_dot1ag_md ''snd_id_perm'') 1 (OMCI_ATTR_PROP_RD OR OMCI_ATTR_PROP_WR OR OMCI_ATTR_PROP_SBC) None]
    [(4, ''create_action_handle''), (6, ''delete_action_handle''), (8, ''set_action_handle''), (9, ''get_action_handle'')]
    (Some ''default_me_init'') (Some ''default_me_shutdown'') (Some ''default_me_validate'') (Some ''default_me_update'')
    None None None None
    None (sizeof omci_dot1ag_md) OMCI_ME_PROP_NONE"

definition omci_dot1ag_ma :: struct_layout where
  "omci_dot1ag_ma = [
    (''md_ptr'', 2), (''ma_name_format'', 1), (''ma_name_1'', 25), (''ma_name_2'', 25),
     (''ccm_interval'', 1), (''vlans'', 24), (''mhf_creation'', 1), (''snd_id_perm'', 1)]"

definition me_dot1ag_ma_class :: me_class where
  [class_defs]: "me_dot1ag_ma_class = mk_class 0x12C
    [ATTR_UINT 0 0xFFFF (offsetof omci_dot1ag_ma ''md_ptr'') 2 (OMCI_ATTR_PROP_RD OR OMCI_ATTR_PROP_WR OR OMCI_ATTR_PROP_SBC) None,
     ATTR_UINT 0 0xFF (offsetof omci_dot1ag_ma ''ma_name_format'') 1 (OMCI_ATTR_PROP_RD OR OMCI_ATTR_PROP_WR OR OMCI_ATTR_PROP_SBC) None,
     ATTR_STR (offsetof omci_dot1ag_ma ''ma_name_1'') 25 (OMCI_ATTR_PROP_RD OR OMCI_ATTR_PROP_WR) None,
     ATTR_STR (offsetof omci_dot1ag_ma ''ma_name_2'') 25 (OMCI_ATTR_PROP_RD OR OMCI_ATTR_PROP_WR) None,
     ATTR_UINT 0 0xFF (offsetof omci_dot1ag_ma ''ccm_interval'') 1 (OMCI_ATTR_PROP_RD OR OMCI_ATTR_PROP_WR OR OMCI_ATTR_PROP_SBC) None,
     ATTR_STR (offsetof omci_dot1ag_ma ''vlans'') 24 (OMCI_ATTR_PROP_RD OR OMCI_ATTR_PROP_WR) None,
     ATTR_UINT 0 0xFF (offsetof omci_dot1ag_ma ''mhf_creation'') 1 (OMCI_ATTR_PROP_RD OR OMCI_ATTR_PROP_WR OR OMCI_ATTR_PROP_SBC) None,
     ATTR_UINT 0 0xFF (offsetof omci_dot1ag_ma ''snd_id_perm'') 1 (OMCI_ATTR_PROP_RD OR OMCI_ATTR_PROP_WR OR OMCI_ATTR_PROP_SBC) None]
    [(4, ''create_action_handle''), (6, ''delete_action_handle''), (8, ''set_action_handle''), (9, ''get_action_handle'')]
    (Some ''default_me_init'') (Some ''default_me_shutdown'') (Some ''default_me_validate'') (Some ''default_me_update'')
    None None None None
    None (sizeof omci_dot1ag_ma) OMCI_ME_PROP_NONE"

definition omci_dot1ag_def_md_lvl :: struct_layout where
  "omci_dot1ag_def_md_lvl = [
    (''l2_type'', 1), (''ch_lvl'', 1), (''ch_mhf_creation'', 1), (''ch_snd_id_perm'', 1),
     (''md_lvl_table'', 29)]"

definition me_dot1ag_def_md_lvl_class :: me_class where
  [class_defs]: "me_dot1ag_def_md_lvl_class = mk_class 0x12D
    [ATTR_UINT 0 1 (offsetof omci_dot1ag_def_md_lvl ''l2_type'') 1 OMCI_ATTR_PROP_RD None,
     ATTR_UINT 0 7 (offsetof omci_dot1ag_def_md_lvl ''ch_lvl'') 1 (OMCI_ATTR_PROP_RD OR OMCI_ATTR_PROP_WR) None,
     ATTR_UINT 0 0xFF (offsetof omci_dot1ag_def_md_lvl ''ch_mhf_creation'') 1 (OMCI_ATTR_PROP_RD OR OMCI_ATTR_PROP_WR) None,
     ATTR_UINT 0 0xFF (offsetof omci_dot1ag_def_md_lvl ''ch_snd_id_perm'') 1 (OMCI_ATTR_PROP_RD OR OMCI_ATTR_PROP_WR) None,
     ATTR_STR (offsetof omci_dot1ag_def_md_lvl ''md_lvl_table'') 29 (OMCI_ATTR_PROP_RD OR OMCI_ATTR_PROP_WR OR OMCI_ATTR_PROP_TABLE) None]
    [(8, ''set_action_handle''), (9, ''get_action_handle''), (25, ''get_next_action_handle'')]
    (Some ''default_me_init'') (Some ''default_me_shutdown'') (Some ''default_me_validate'') (Some ''default_me_update'')
    None None None None
    None (sizeof omci_dot1ag_def_md_lvl) OMCI_ME_PROP_NONE"

definition omci_dot1ag_mep :: struct_layout where
  "omci_dot1ag_mep = [
    (''l2_ptr'', 2), (''l2_type'', 1), (''ma_ptr'', 2), (''mep_id'', 2), (''mep_ctrl'', 1), (''pvlan'', 2),
     (''admin_state'', 1), (''ccm_ltm_prio'', 1), (''egr_id'', 8), (''peer_mep_id'', 24),
     (''eth_ais_ctrl'', 1), (''fault_alarm_thr'', 1), (''alarm_decl_soak'', 2), (''alarm_clear_soak'', 2)]"

definition me_dot1ag_mep_class :: me_class where
  [class_defs]: "me_dot1ag_mep_class = mk_class 0x12E
    [ATTR_UINT 0 0xFFFF (offsetof omci_dot1ag_mep ''l2_ptr'') 2 (OMCI_ATTR_PROP_RD OR OMCI_ATTR_PROP_WR OR OMCI_ATTR_PROP_SBC) None,
     ATTR_UINT 0 1 (offsetof omci_dot1ag_mep ''l2_type'') 1 (OMCI_ATTR_PROP_RD OR OMCI_ATTR_PROP_WR OR OMCI_ATTR_PROP_SBC) None,
     ATTR_UINT 0 0xFFFF (offsetof omci_dot1ag_mep ''ma_ptr'') 2 (OMCI_ATTR_PROP_RD OR OMCI_ATTR_PROP_WR OR OMCI_ATTR_PROP_SBC) None,
     ATTR_UINT 0 0xFFFF (offsetof omci_dot1ag_mep ''mep_id'') 2 (OMCI_ATTR_PROP_RD OR OMCI_ATTR_PROP_WR OR OMCI_ATTR_PROP_SBC) None,
     ATTR_BF 0xFF (offsetof omci_dot1ag_mep ''mep_ctrl'') 1 (OMCI_ATTR_PROP_RD OR OMCI_ATTR_PROP_WR OR OMCI_ATTR_PROP_SBC) None,
     ATTR_UINT 0 0xFFFF (offsetof omci_dot1ag_mep ''pvlan'') 2 (OMCI_ATTR_PROP_RD OR OMCI_ATTR_PROP_WR OR OMCI_ATTR_PROP_SBC) None,
     ATTR_UINT 0 1 (offsetof omci_dot1ag_mep ''admin_state'') 1 (OMCI_ATTR_PROP_RD OR OMCI_ATTR_PROP_WR) None,
     ATTR_UINT 0 0xFF (offsetof omci_dot1ag_mep ''ccm_ltm_prio'') 1 (OMCI_ATTR_PROP_RD OR OMCI_ATTR_PROP_WR OR OMCI_ATTR_PROP_SBC) None,
     ATTR_STR (offsetof omci_dot1ag_mep ''egr_id'') 8 (OMCI_ATTR_PROP_RD OR OMCI_ATTR_PROP_WR OR OMCI_ATTR_PROP_SBC) None,
     ATTR_STR (offsetof omci_dot1ag_mep ''peer_mep_id'') 24 (OMCI_ATTR_PROP_RD OR OMCI_ATTR_PROP_WR) None,
     ATTR_BF 0xFF (offsetof omci_dot1ag_mep ''eth_ais_ctrl'') 1 (OMCI_ATTR_PROP_RD OR OMCI_ATTR_PROP_WR OR OMCI_ATTR_PROP_SBC) None,
     ATTR_UINT 0 6 (offsetof omci_dot1ag_mep ''fault_alarm_thr'') 1 (OMCI_ATTR_PROP_RD OR OMCI_ATTR_PROP_WR OR OMCI_ATTR_PROP_SBC OR OMCI_ATTR_PROP_OPTIONAL) None,
     ATTR_UINT 0 0xFFFF (offsetof omci_dot1ag_mep ''alarm_decl_soak'') 2 (OMCI_ATTR_PROP_RD OR OMCI_ATTR_PROP_WR) None,
     ATTR_UINT 0 0xFFFF (offsetof omci_dot1ag_mep ''alarm_clear_soak'') 2 (OMCI_ATTR_PROP_RD OR OMCI_ATTR_PROP_WR) None]
    [(4, ''create_action_handle''), (6, ''delete_action_handle''), (8, ''set_action_handle''), (9, ''get_action_handle'')]
    (Some ''default_me_init'') (Some ''default_me_shutdown'') (Some ''default_me_validate'') (Some ''default_me_update'')
    None None None None
    None (sizeof omci_dot1ag_mep) OMCI_ME_PROP_HAS_ALARMS"

definition omci_dot1ag_mep_status :: struct_layout where
  "omci_dot1ag_mep_status = [
    (''mep_mac'', 6), (''fault_state'', 1), (''hp_defect'', 1), (''curr_defects'', 1), (''ccm_oos_cnt'', 4),
     (''ccm_tx_cnt'', 4), (''unexp_ltr_cnt'', 4), (''lbr_tx_cnt'', 4), (''next_lb_txs_id'', 4),
     (''next_lt_txs_id'', 4)]"

definition me_dot1ag_mep_status_class :: me_class where
  [class_defs]: "me_dot1ag_mep_status_class = mk_class 0x12F
    [ATTR_STR (offsetof omci_dot1ag_mep_status ''mep_mac'') 6 OMCI_ATTR_PROP_RD None,
     ATTR_UINT 0 0xFF (offsetof omci_dot1ag_mep_status ''fault_state'') 1 OMCI_ATTR_PROP_RD None,
     ATTR_UINT 0 0xFF (offsetof omci_dot1ag_mep_status ''hp_defect'') 1 OMCI_ATTR_PROP_RD None,
     ATTR_BF 0xFF (offsetof omci_dot1ag_mep_status ''curr_defects'') 1 OMCI_ATTR_PROP_RD None,
     ATTR_NOT_DEF,
     ATTR_NOT_DEF,
     ATTR_UINT 0 0xFFFFFFFF (offsetof omci_dot1ag_mep_status ''ccm_oos_cnt'') 4 (OMCI_ATTR_PROP_RD OR OMCI_ATTR_PROP_OPTIONAL) None,
     ATTR_UINT 0 0xFFFFFFFF (offsetof omci_dot1ag_mep_status ''ccm_tx_cnt'') 4 OMCI_ATTR_PROP_RD None,
     ATTR_UINT 0 0xFFFFFFFF (offsetof omci_dot1ag_mep_status ''unexp_ltr_cnt'') 4 OMCI_ATTR_PROP_RD None,
     ATTR_UINT 0 0xFFFFFFFF (offsetof omci_dot1ag_mep_status ''lbr_tx_cnt'') 4 OMCI_ATTR_PROP_RD None,
     ATTR_UINT 0 0xFFFFFFFF (offsetof omci_dot1ag_mep_status ''next_lb_txs_id'') 4 OMCI_ATTR_PROP_RD None,
     ATTR_UINT 0 0xFFFFFFFF (offsetof omci_dot1ag_mep_status ''next_lt_txs_id'') 4 OMCI_ATTR_PROP_RD None]
    [(9, ''get_action_handle'')]
    (Some ''default_me_init'') (Some ''default_me_shutdown'') (Some ''default_me_validate'') (Some ''default_me_update'')
    None None None None
    None (sizeof omci_dot1ag_mep_status) OMCI_ME_PROP_NO_UPLOAD"

definition me_dot1ag_mep_ccm_db_class :: me_class where
  [class_defs]: "me_dot1ag_mep_ccm_db_class = mk_class 0x130
    []
    [(9, ''get_action_handle'')]
    (Some ''default_me_init'') (Some ''default_me_shutdown'') (Some ''default_me_validate'') (Some ''default_me_update'')
    None None None None
    None 0 OMCI_ME_PROP_NO_UPLOAD"

definition omci_dot1ag_cfm_stack :: struct_layout where
  "omci_dot1ag_cfm_stack = [
    (''l2_type'', 1)]"

definition me_dot1ag_cfm_stack_class :: me_class where
  [class_defs]: "me_dot1ag_cfm_stack_class = mk_class 0x131
    [ATTR_UINT 0 1 (offsetof omci_dot1ag_cfm_stack ''l2_type'') 1 OMCI_ATTR_PROP_RD None]
    [(9, ''get_action_handle'')]
    (Some ''default_me_init'') (Some ''default_me_shutdown'') (Some ''default_me_validate'') (Some ''default_me_update'')
    None None None None
    None (sizeof omci_dot1ag_cfm_stack) OMCI_ME_PROP_NONE"

definition omci_dot1ag_cmi :: struct_layout where
  "omci_dot1ag_cmi = [
    (''cid_len'', 1), (''cid_subtype'', 1), (''cid_part1'', 25), (''cid_part2'', 25), (''ma_domain_len'', 1),
     (''ma_domain1'', 25), (''ma_domain2'', 25), (''ma_len'', 1), (''ma1'', 25), (''ma2'', 25)]"

definition me_dot1ag_cmi_class :: me_class where
  [class_defs]: "me_dot1ag_cmi_class = mk_class 0x132
    [ATTR_UINT 0 0xFF (offsetof omci_dot1ag_cmi ''cid_len'') 1 (OMCI_ATTR_PROP_RD OR OMCI_ATTR_PROP_WR) None,
     ATTR_UINT 0 0xFF (offsetof omci_dot1ag_cmi ''cid_subtype'') 1 (OMCI_ATTR_PROP_RD OR OMCI_ATTR_PROP_WR) None,
     ATTR_STR (offsetof omci_dot1ag_cmi ''cid_part1'') 25 (OMCI_ATTR_PROP_RD OR OMCI_ATTR_PROP_WR) None,
     ATTR_STR (offsetof omci_dot1ag_cmi ''cid_part2'') 25 (OMCI_ATTR_PROP_RD OR OMCI_ATTR_PROP_WR) None,
     ATTR_UINT 0 0xFF (offsetof omci_dot1ag_cmi ''ma_domain_len'') 1 (OMCI_ATTR_PROP_RD OR OMCI_ATTR_PROP_WR) None,
     ATTR_STR (offsetof omci_dot1ag_cmi ''ma_domain1'') 25 (OMCI_ATTR_PROP_RD OR OMCI_ATTR_PROP_WR) None,
     ATTR_STR (offsetof omci_dot1ag_cmi ''ma_domain2'') 25 (OMCI_ATTR_PROP_RD OR OMCI_ATTR_PROP_WR) None,
     ATTR_UINT 0 0xFF (offsetof omci_dot1ag_cmi ''ma_len'') 1 (OMCI_ATTR_PROP_RD OR OMCI_ATTR_PROP_WR) None,
     ATTR_STR (offsetof omci_dot1ag_cmi ''ma1'') 25 (OMCI_ATTR_PROP_RD OR OMCI_ATTR_PROP_WR) None,
     ATTR_STR (offsetof omci_dot1ag_cmi ''ma2'') 25 (OMCI_ATTR_PROP_RD OR OMCI_ATTR_PROP_WR) None]
    [(8, ''set_action_handle''), (9, ''get_action_handle'')]
    (Some ''default_me_init'') (Some ''default_me_shutdown'') (Some ''default_me_validate'') (Some ''default_me_update'')
    None None None None
    None (sizeof omci_dot1ag_cmi) OMCI_ME_PROP_NONE"

definition omci_eth_ext_pmhd :: struct_layout where
  "omci_eth_ext_pmhd = [
    (''interval_end_time'', 1), (''ctrl_block'', 16), (''drop_events'', 4), (''octets'', 4), (''frames'', 4),
     (''bc_frames'', 4), (''mc_frames'', 4), (''crc_err_frames'', 4), (''usize_frames'', 4),
     (''osize_frames'', 4), (''frames_64'', 4), (''frames_65_127'', 4), (''frames_128_255'', 4),
     (''frames_256_511'', 4), (''frames_512_1023'', 4), (''frames_1024_1518'', 4)]"

definition me_eth_ext_pmhd_class :: me_class where
  [class_defs]: "me_eth_ext_pmhd_class = mk_class 0x14E
    [ATTR_UINT 0 0xFF (offsetof omci_eth_ext_pmhd ''interval_end_time'') 1 OMCI_ATTR_PROP_RD None,
     ATTR_STR (offsetof omci_eth_ext_pmhd ''ctrl_block'') 16 (OMCI_ATTR_PROP_RD OR OMCI_ATTR_PROP_WR OR OMCI_ATTR_PROP_SBC) None,
     ATTR_UINT 0 0xFFFFFFFF (offsetof omci_eth_ext_pmhd ''drop_events'') 4 OMCI_ATTR_PROP_RD None,
     ATTR_UINT 0 0xFFFFFFFF (offsetof omci_eth_ext_pmhd ''octets'') 4 OMCI_ATTR_PROP_RD None,
     ATTR_UINT 0 0xFFFFFFFF (offsetof omci_eth_ext_pmhd ''frames'') 4 OMCI_ATTR_PROP_RD None,
     ATTR_UINT 0 0xFFFFFFFF (offsetof omci_eth_ext_pmhd ''bc_frames'') 4 OMCI_ATTR_PROP_RD None,
     ATTR_UINT 0 0xFFFFFFFF (offsetof omci_eth_ext_pmhd ''mc_frames'') 4 OMCI_ATTR_PROP_RD None,
     ATTR_UINT 0 0xFFFFFFFF (offsetof omci_eth_ext_pmhd ''crc_err_frames'') 4 OMCI_ATTR_PROP_RD None,
     ATTR_UINT 0 0xFFFFFFFF (offsetof omci_eth_ext_pmhd ''usize_frames'') 4 OMCI_ATTR_PROP_RD None,
     ATTR_UINT 0 0xFFFFFFFF (offsetof omci_eth_ext_pmhd ''osize_frames'') 4 OMCI_ATTR_PROP_RD None,
     ATTR_UINT 0 0xFFFFFFFF (offsetof omci_eth_ext_pmhd ''frames_64'') 4 OMCI_ATTR_PROP_RD None,
     ATTR_UINT 0 0xFFFFFFFF (offsetof omci_eth_ext_pmhd ''frames_65_127'') 4 OMCI_ATTR_PROP_RD None,
     ATTR_UINT 0 0xFFFFFFFF (offsetof omci_eth_ext_pmhd ''frames_128_255'') 4 OMCI_ATTR_PROP_RD None,
     ATTR_UINT 0 0xFFFFFFFF (offsetof omci_eth_ext_pmhd ''frames_256_511'') 4 OMCI_ATTR_PROP_RD None,
     ATTR_UINT 0 0xFFFFFFFF (offsetof omci_eth_ext_pmhd ''frames_512_1023'') 4 OMCI_ATTR_PROP_RD None,
     ATTR_UINT 0 0xFFFFFFFF (offsetof omci_eth_ext_pmhd ''frames_1024_1518'') 4 OMCI_ATTR_PROP_RD None]
    [(4, ''create_action_handle''), (6, ''delete_action_handle''), (8, ''set_action_handle''), (9, ''get_action_handle''), (28, ''get_action_handle'')]
    (Some ''default_me_init'') (Some ''default_me_shutdown'') (Some ''default_me_validate'') (Some ''default_me_update'')
    None None None None
    None (sizeof omci_eth_ext_pmhd) OMCI_ME_PROP_NONE"

definition omci_energy_consumption_pmhd :: struct_layout where
  "omci_energy_consumption_pmhd = [
    (''interval_end_time'', 1), (''threshold_data_id'', 2), (''doze_time'', 4), (''cyclic_sleep_time'', 4),
     (''energy_consumed'', 4)]"

definition me_energy_consumption_pmhd_class :: me_class where
  [class_defs]: "me_energy_consumption_pmhd_class = mk_class 0x157
    [ATTR_UINT 0 0xFF (offsetof omci_energy_consumption_pmhd ''interval_end_time'') 1 OMCI_ATTR_PROP_RD None,
     ATTR_UINT 0 0xFFFF (offsetof omci_energy_consumption_pmhd ''threshold_data_id'') 2 (OMCI_ATTR_PROP_RD OR OMCI_ATTR_PROP_WR) None,
     ATTR_UINT 0 0xFFFFFFFF (offsetof omci_energy_consumption_pmhd ''doze_time'') 4 OMCI_ATTR_PROP_RD None,
     ATTR_UINT 0 0xFFFFFFFF (offsetof omci_energy_consumption_pmhd ''cyclic_sleep_time'') 4 OMCI_ATTR_PROP_RD None,
     ATTR_UINT 0 0xFFFFFFFF (offsetof omci_energy_consumption_pmhd ''energy_consumed'') 4 OMCI_ATTR_PROP_RD None]
    [(8, ''set_action_handle''), (9, ''get_action_handle''), (28, ''get_action_handle'')]
    (Some ''default_me_init'') (Some ''default_me_shutdown'') (Some ''default_me_validate'') (Some ''default_me_update'')
    None None None None
    None (sizeof omci_energy_consumption_pmhd) OMCI_ME_PROP_NONE"

definition omci_poe_ctrl :: struct_layout where
  "omci_poe_ctrl = [
    (''poe_capabilities'', 2), (''power_pair_pinout_ctrl'', 1), (''op_state'', 1), (''power_detect_st'', 1),
     (''power_class_st'', 1), (''power_prio'', 1), (''invalid_sign_counter'', 2),
     (''power_denied_counter'', 2), (''overload_counter'', 2), (''short_counter'', 2),
     (''mps_absent_counter'', 2), (''pse_class_ctrl'', 1)]"

definition me_poe_ctrl_class :: me_class where
  [class_defs]: "me_poe_ctrl_class = mk_class 0x15D
    [ATTR_UINT 0 0xFFFF (offsetof omci_poe_ctrl ''poe_capabilities'') 2 OMCI_ATTR_PROP_RD None,
     ATTR_UINT 0 0xFF (offsetof omci_poe_ctrl ''power_pair_pinout_ctrl'') 1 (OMCI_ATTR_PROP_RD OR OMCI_ATTR_PROP_WR) None,
     ATTR_UINT 0 1 (offsetof omci_poe_ctrl ''op_state'') 1 OMCI_ATTR_PROP_RD None,
     ATTR_UINT 0 0xFF (offsetof omci_poe_ctrl ''power_detect_st'') 1 OMCI_ATTR_PROP_RD None,
     ATTR_UINT 0 0xFF (offsetof omci_poe_ctrl ''power_class_st'') 1 (OMCI_ATTR_PROP_RD OR OMCI_ATTR_PROP_OPTIONAL) None,
     ATTR_UINT 0 0xFF (offsetof omci_poe_ctrl ''power_prio'') 1 (OMCI_ATTR_PROP_RD OR OMCI_ATTR_PROP_WR OR OMCI_ATTR_PROP_OPTIONAL) None,
     ATTR_UINT 0 0xFFFF (offsetof omci_poe_ctrl ''invalid_sign_counter'') 2 (OMCI_ATTR_PROP_RD OR OMCI_ATTR_PROP_OPTIONAL) None,
     ATTR_UINT 0 0xFFFF (offsetof omci_poe_ctrl ''power_denied_counter'') 2 (OMCI_ATTR_PROP_RD OR OMCI_ATTR_PROP_OPTIONAL) None,
     ATTR_UINT 0 0xFFFF (offsetof omci_poe_ctrl ''overload_counter'') 2 (OMCI_ATTR_PROP_RD OR OMCI_ATTR_PROP_OPTIONAL) None,
     ATTR_UINT 0 0xFFFF (offsetof omci_poe_ctrl ''short_counter'') 2 (OMCI_ATTR_PROP_RD OR OMCI_ATTR_PROP_OPTIONAL) None,
     ATTR_UINT 0 0xFFFF (offsetof omci_poe_ctrl ''mps_absent_counter'') 2 (OMCI_ATTR_PROP_RD OR OMCI_ATTR_PROP_OPTIONAL) None,
     ATTR_UINT 0 0xFF (offsetof omci_poe_ctrl ''pse_class_ctrl'') 1 (OMCI_ATTR_PROP_RD OR OMCI_ATTR_PROP_WR OR OMCI_ATTR_PROP_OPTIONAL) None]
    [(8, ''set_action_handle''), (9, ''get_action_handle'')]
    (Some ''default_me_init'') (Some ''default_me_shutdown'') (Some ''default_me_validate'') (Some ''default_me_update'')
    None None None None
    None (sizeof omci_poe_ctrl) OMCI_ME_PROP_NONE"

definition omci_eth_ext_pmhd_64 :: struct_layout where
  "omci_eth_ext_pmhd_64 = [
    (''interval_end_time'', 1), (''ctrl_block'', 16), (''drop_events'', 8), (''octets'', 8), (''frames'', 8),
     (''bc_frames'', 8), (''mc_frames'', 8), (''crc_err_frames'', 8), (''usize_frames'', 8),
     (''osize_frames'', 8), (''frames_64'', 8), (''frames_65_127'', 8), (''frames_128_255'', 8),
     (''frames_256_511'', 8), (''frames_512_1023'', 8), (''frames_1024_1518'', 8)]"

definition me_eth_ext_pmhd_64_class :: me_class where
  [class_defs]: "me_eth_ext_pmhd_64_class = mk_class 0x1A9
    [ATTR_UINT 0 0xFF (offsetof omci_eth_ext_pmhd_64 ''interval_end_time'') 1 OMCI_ATTR_PROP_RD None,
     ATTR_STR (offsetof omci_eth_ext_pmhd_64 ''ctrl_block'') 16 (OMCI_ATTR_PROP_RD OR OMCI_ATTR_PROP_WR OR OMCI_ATTR_PROP_SBC) None,
     ATTR_STR (offsetof omci_eth_ext_pmhd_64 ''drop_events'') 8 OMCI_ATTR_PROP_RD None,
     ATTR_STR (offsetof omci_eth_ext_pmhd_64 ''octets'') 8 OMCI_ATTR_PROP_RD None,
     ATTR_STR (offsetof omci_eth_ext_pmhd_64 ''frames'') 8 OMCI_ATTR_PROP_RD None,
     ATTR_STR (offsetof omci_eth_ext_pmhd_64 ''bc_frames'') 8 OMCI_ATTR_PROP_RD None,
     ATTR_STR (offsetof omci_eth_ext_pmhd_64 ''mc_frames'') 8 OMCI_ATTR_PROP_RD None,
     ATTR_STR (offsetof omci_eth_ext_pmhd_64 ''crc_err_frames'') 8 OMCI_ATTR_PROP_RD None,
     ATTR_STR (offsetof omci_eth_ext_pmhd_64 ''usize_frames'') 8 OMCI_ATTR_PROP_RD None,
     ATTR_STR (offsetof omci_eth_ext_pmhd_64 ''osize_frames'') 8 OMCI_ATTR_PROP_RD None,
     ATTR_STR (offsetof omci_eth_ext_pmhd_64 ''frames_64'') 8 OMCI_ATTR_PROP_RD None,
     ATTR_STR (offsetof omci_eth_ext_pmhd_64 ''frames_65_127'') 8 OMCI_ATTR_PROP_RD None,
     ATTR_STR (offsetof omci_eth_ext_pmhd_64 ''frames_128_255'') 8 OMCI_ATTR_PROP_RD None,
     ATTR_STR (offsetof omci_eth_ext_pmhd_64 ''frames_256_511'') 8 OMCI_ATTR_PROP_RD None,
     ATTR_STR (offsetof omci_eth_ext_pmhd_64 ''frames_512_1023'') 8 OMCI_ATTR_PROP_RD None,
     ATTR_STR (offsetof omci_eth_ext_pmhd_64 ''frames_1024_1518'') 8 OMCI_ATTR_PROP_RD None]
    [(4, ''create_action_handle''), (6, ''delete_action_handle''), (8, ''set_action_handle''), (9, ''get_action_handle''), (28, ''get_action_handle'')]
    (Some ''default_me_init'') (Some ''default_me_shutdown'') (Some ''default_me_validate'') (Some ''default_me_update'')
    None None None None
    None (sizeof omci_eth_ext_pmhd_64) OMCI_ME_PROP_NONE"

definition omci_voip_app_svc_profile :: struct_layout where
  "omci_voip_app_svc_profile = [
    (''cid_features'', 1), (''call_waiting_features'', 1), (''call_progress_features'', 2),
     (''call_presentation_features'', 2), (''direct_connect_feature'', 1), (''direct_connect_uri_ptr'', 2),
     (''bridged_line_agent_uri_ptr'', 2), (''conference_factory_uri_ptr'', 2),
     (''dial_tone_delay_timer'', 2), (''ip_host_ptr'', 2)]"

definition me_voip_app_svc_profile_class :: me_class where
  [class_defs]: "me_voip_app_svc_profile_class = mk_class 0x92
    [ATTR_BF 0xFF (offsetof omci_voip_app_svc_profile ''cid_features'') 1 (OMCI_ATTR_PROP_RD OR OMCI_ATTR_PROP_WR OR OMCI_ATTR_PROP_SBC) None,
     ATTR_BF 0xFF (offsetof omci_voip_app_svc_profile ''call_waiting_features'') 1 (OMCI_ATTR_PROP_RD OR OMCI_ATTR_PROP_WR OR OMCI_ATTR_PROP_SBC) None,
     ATTR_UINT 0 0xFFFF (offsetof omci_voip_app_svc_profile ''call_progress_features'') 2 (OMCI_ATTR_PROP_RD OR OMCI_ATTR_PROP_WR OR OMCI_ATTR_PROP_SBC) None,
     ATTR_UINT 0 0xFFFF (offsetof omci_voip_app_svc_profile ''call_presentation_features'') 2 (OMCI_ATTR_PROP_RD OR OMCI_ATTR_PROP_WR OR OMCI_ATTR_PROP_SBC) None,
     ATTR_UINT 0 0xFF (offsetof omci_voip_app_svc_profile ''direct_connect_feature'') 1 (OMCI_ATTR_PROP_RD OR OMCI_ATTR_PROP_WR OR OMCI_ATTR_PROP_SBC) None,
     ATTR_UINT 0 0xFFFF (offsetof omci_voip_app_svc_profile ''direct_connect_uri_ptr'') 2 (OMCI_ATTR_PROP_RD OR OMCI_ATTR_PROP_WR OR OMCI_ATTR_PROP_SBC) None,
     ATTR_UINT 0 0xFFFF (offsetof omci_voip_app_svc_profile ''bridged_line_agent_uri_ptr'') 2 (OMCI_ATTR_PROP_RD OR OMCI_ATTR_PROP_WR OR OMCI_ATTR_PROP_SBC) None,
     ATTR_UINT 0 0xFFFF (offsetof omci_voip_app_svc_profile ''conference_factory_uri_ptr'') 2 (OMCI_ATTR_PROP_RD OR OMCI_ATTR_PROP_WR OR OMCI_ATTR_PROP_SBC) None,
     ATTR_UINT 0 0xFFFF (offsetof omci_voip_app_svc_profile ''dial_tone_delay_timer'') 2 (OMCI_ATTR_PROP_RD OR OMCI_ATTR_PROP_WR OR OMCI_ATTR_PROP_OPTIONAL) None,
     ATTR_UINT 0 0xFFFF (offsetof omci_voip_app_svc_profile ''ip_host_ptr'') 2 (OMCI_ATTR_PROP_RD OR OMCI_ATTR_PROP_WR OR OMCI_ATTR_PROP_OPTIONAL) None]
    [(4, ''create_action_handle''), (6, ''delete_action_handle''), (8, ''set_action_handle''), (9, ''get_action_handle'')]
    (Some ''default_me_init'') (Some ''default_me_shutdown'') (Some ''default_me_validate'') (Some ''default_me_update'')
    None None None None
    None (sizeof omci_voip_app_svc_profile) OMCI_ME_PROP_NONE"

definition omci_voip_feature_access_codes :: struct_layout where
  "omci_voip_feature_access_codes = [
    (''cancel_call_waiting'', 5), (''call_hold'', 5), (''call_park'', 5), (''caller_id_activate'', 5),
     (''caller_id_deactivate'', 5), (''dnd_activate'', 5), (''dnd_deactivate'', 5), (''dnd_pin_change'', 5),
     (''emergency_svc_number'', 5), (''intercom_service'', 5), (''blind_call_transfer'', 5),
     (''attended_call_transfer'', 5)]"

definition me_voip_feature_access_codes_class :: me_class where
  [class_defs]: "me_voip_feature_access_codes_class = mk_class 0x93
    [ATTR_STR (offsetof omci_voip_feature_access_codes ''cancel_call_waiting'') 5 (OMCI_ATTR_PROP_RD OR OMCI_ATTR_PROP_WR OR OMCI_ATTR_PROP_OPTIONAL) None,
     ATTR_STR (offsetof omci_voip_feature_access_codes ''call_hold'') 5 (OMCI_ATTR_PROP_RD OR OMCI_ATTR_PROP_WR OR OMCI_ATTR_PROP_OPTIONAL) None,
     ATTR_STR (offsetof omci_voip_feature_access_codes ''call_park'') 5 (OMCI_ATTR_PROP_RD OR OMCI_ATTR_PROP_WR OR OMCI_ATTR_PROP_OPTIONAL) None,
     ATTR_STR (offsetof omci_voip_feature_access_codes ''caller_id_activate'') 5 (OMCI_ATTR_PROP_RD OR OMCI_ATTR_PROP_WR OR OMCI_ATTR_PROP_OPTIONAL) None,
     ATTR_STR (offsetof omci_voip_feature_access_codes ''caller_id_deactivate'') 5 (OMCI_ATTR_PROP_RD OR OMCI_ATTR_PROP_WR OR OMCI_ATTR_PROP_OPTIONAL) None,
     ATTR_STR (offsetof omci_voip_feature_access_codes ''dnd_activate'') 5 (OMCI_ATTR_PROP_RD OR OMCI_ATTR_PROP_WR OR OMCI_ATTR_PROP_OPTIONAL) None,
     ATTR_STR (offsetof omci_voip_feature_access_codes ''dnd_deactivate'') 5 (OMCI_ATTR_PROP_RD OR OMCI_ATTR_PROP_WR OR OMCI_ATTR_PROP_OPTIONAL) None,
     ATTR_STR (offsetof omci_voip_feature_access_codes ''dnd_pin_change'') 5 (OMCI_ATTR_PROP_RD OR OMCI_ATTR_PROP_WR OR OMCI_ATTR_PROP_OPTIONAL) None,
     ATTR_STR (offsetof omci_voip_feature_access_codes ''emergency_svc_number'') 5 (OMCI_ATTR_PROP_RD OR OMCI_ATTR_PROP_WR OR OMCI_ATTR_PROP_OPTIONAL) None,
     ATTR_STR (offsetof omci_voip_feature_access_codes ''intercom_service'') 5 (OMCI_ATTR_PROP_RD OR OMCI_ATTR_PROP_WR OR OMCI_ATTR_PROP_OPTIONAL) None,
     ATTR_STR (offsetof omci_voip_feature_access_codes ''blind_call_transfer'') 5 (OMCI_ATTR_PROP_RD OR OMCI_ATTR_PROP_WR OR OMCI_ATTR_PROP_OPTIONAL) None,
     ATTR_STR (offsetof omci_voip_feature_access_codes ''attended_call_transfer'') 5 (OMCI_ATTR_PROP_RD OR OMCI_ATTR_PROP_WR OR OMCI_ATTR_PROP_OPTIONAL) None]
    [(4, ''create_action_handle''), (6, ''delete_action_handle''), (8, ''set_action_handle''), (9, ''get_action_handle'')]
    (Some ''default_me_init'') (Some ''default_me_shutdown'') (Some ''default_me_validate'') (Some ''default_me_update'')
    None None None None
    None (sizeof omci_voip_feature_access_codes) OMCI_ME_PROP_NONE"

definition omci_sip_config_portal :: struct_layout where
  "omci_sip_config_portal = [
    (''config_text_table'', 25)]"

definition me_sip_config_portal_class :: me_class where
  [class_defs]: "me_sip_config_portal_class = mk_class 0x95
    [ATTR_STR (offsetof omci_sip_config_portal ''config_text_table'') 25 (OMCI_ATTR_PROP_RD OR OMCI_ATTR_PROP_TABLE) None]
    [(9, ''get_action_handle''), (25, ''get_next_action_handle'')]
    (Some ''default_me_init'') (Some ''default_me_shutdown'') (Some ''default_me_validate'') (Some ''default_me_update'')
    None None None None
    None (sizeof omci_sip_config_portal) OMCI_ME_PROP_NO_UPLOAD"

definition omci_rtp_pw_params :: struct_layout where
  "omci_rtp_pw_params = [
    (''clock_reference'', 2), (''rtp_timestamp_mode'', 1), (''ptype'', 2), (''ssrc'', 8),
     (''expected_ptype'', 2), (''expected_ssrc'', 8)]"

definition me_rtp_pw_params_class :: me_class where
  [class_defs]: "me_rtp_pw_params_class = mk_class 0x11B
    [ATTR_UINT 0 0xFFFF (offsetof omci_rtp_pw_params ''clock_reference'') 2 (OMCI_ATTR_PROP_RD OR OMCI_ATTR_PROP_WR OR OMCI_ATTR_PROP_SBC) None,
     ATTR_UINT 0 2 (offsetof omci_rtp_pw_params ''rtp_timestamp_mode'') 1 (OMCI_ATTR_PROP_RD OR OMCI_ATTR_PROP_WR OR OMCI_ATTR_PROP_SBC) None,
     ATTR_UINT 0 0xFFFF (offsetof omci_rtp_pw_params ''ptype'') 2 (OMCI_ATTR_PROP_RD OR OMCI_ATTR_PROP_WR OR OMCI_ATTR_PROP_SBC) None,
     ATTR_STR (offsetof omci_rtp_pw_params ''ssrc'') 8 (OMCI_ATTR_PROP_RD OR OMCI_ATTR_PROP_WR OR OMCI_ATTR_PROP_SBC) None,
     ATTR_UINT 0 0xFFFF (offsetof omci_rtp_pw_params ''expected_ptype'') 2 (OMCI_ATTR_PROP_RD OR OMCI_ATTR_PROP_WR OR OMCI_ATTR_PROP_SBC OR OMCI_ATTR_PROP_OPTIONAL) None,
     ATTR_STR (offsetof omci_rtp_pw_params ''expected_ssrc'') 8 (OMCI_ATTR_PROP_RD OR OMCI_ATTR_PROP_WR OR OMCI_ATTR_PROP_SBC OR OMCI_ATTR_PROP_OPTIONAL) None]
    [(4, ''create_action_handle''), (6, ''delete_action_handle''), (8, ''set_action_handle''), (9, ''get_action_handle'')]
    (Some ''default_me_init'') (Some ''default_me_shutdown'') (Some ''default_me_validate'') (Some ''default_me_update'')
    None None None None
    None (sizeof omci_rtp_pw_params) OMCI_ME_PROP_NONE"

definition omci_zte_emop :: struct_layout where
  "omci_zte_emop = [
    (''ctrl_mode'', 1), (''num_translations'', 1), (''vlan_xlat_table'', 24)]"

definition me_zte_emop_class :: me_class where
  [class_defs]: "me_zte_emop_class = mk_class 0xFF02
    [ATTR_UINT 0 0xFF (offsetof omci_zte_emop ''ctrl_mode'') 1 (OMCI_ATTR_PROP_RD OR OMCI_ATTR_PROP_WR OR OMCI_ATTR_PROP_SBC) None,
     ATTR_UINT 0 0xFF (offsetof omci_zte_emop ''num_translations'') 1 (OMCI_ATTR_PROP_RD OR OMCI_ATTR_PROP_WR) None,
     ATTR_STR (offsetof omci_zte_emop ''vlan_xlat_table'') 24 (OMCI_ATTR_PROP_RD OR OMCI_ATTR_PROP_WR) None]
    [(4, ''create_action_handle''), (6, ''delete_action_handle''), (8, ''set_action_handle''), (9, ''get_action_handle'')]
    (Some ''default_me_init'') (Some ''default_me_shutdown'') (Some ''default_me_validate'') (Some ''default_me_update'')
    None None None None
    None (sizeof omci_zte_emop) OMCI_ME_PROP_NONE"

definition omci_onu_loop_detection :: struct_layout where
  "omci_onu_loop_detection = [
    (''operator_id'', 4), (''loop_detect_mgmt'', 2), (''loop_port_down'', 2), (''loop_detect_freq'', 2),
     (''loop_recovery_int'', 2), (''port_vlan_table'', 28)]"

definition me_onu_loop_detection_class :: me_class where
  [class_defs]: "me_onu_loop_detection_class = mk_class 0xFFF8
    [ATTR_UINT 0 0xFFFFFFFF (offsetof omci_onu_loop_detection ''operator_id'') 4 (OMCI_ATTR_PROP_RD OR OMCI_ATTR_PROP_WR OR OMCI_ATTR_PROP_SBC) None,
     ATTR_UINT 0 0xFFFF (offsetof omci_onu_loop_detection ''loop_detect_mgmt'') 2 (OMCI_ATTR_PROP_RD OR OMCI_ATTR_PROP_WR) None,
     ATTR_UINT 0 0xFFFF (offsetof omci_onu_loop_detection ''loop_port_down'') 2 (OMCI_ATTR_PROP_RD OR OMCI_ATTR_PROP_WR) None,
     ATTR_UINT 0 0xFFFF (offsetof omci_onu_loop_detection ''loop_detect_freq'') 2 (OMCI_ATTR_PROP_RD OR OMCI_ATTR_PROP_WR) None,
     ATTR_UINT 0 0xFFFF (offsetof omci_onu_loop_detection ''loop_recovery_int'') 2 (OMCI_ATTR_PROP_RD OR OMCI_ATTR_PROP_WR) None,
     ATTR_STR (offsetof omci_onu_loop_detection ''port_vlan_table'') 28 (OMCI_ATTR_PROP_RD OR OMCI_ATTR_PROP_WR) None]
    [(4, ''create_action_handle''), (6, ''delete_action_handle''), (8, ''set_action_handle''), (9, ''get_action_handle'')]
    (Some ''omci_onu_loop_detection_me_init'') (Some ''omci_onu_loop_detection_me_shutdown'') (Some ''default_me_validate'') (Some ''omci_onu_loop_detection_me_update'')
    (Some ''omci_onu_loop_detection_me_tbl_copy'') None None None
    None (sizeof omci_onu_loop_detection) OMCI_ME_PROP_HAS_ALARMS"

definition omci_ext_mop :: struct_layout where
  "omci_ext_mop = [
    (''igmp_version'', 1), (''igmp_function'', 1), (''immediate_leave'', 1), (''us_igmp_tci'', 2),
     (''us_igmp_tag_ctrl'', 1), (''us_igmp_rate'', 4), (''dynamic_acl_table'', 24), (''static_acl_table'', 24)]"

definition me_ext_mop_class :: me_class where
  [class_defs]: "me_ext_mop_class = mk_class 0xFFFB
    [ATTR_UINT 0 0xFF (offsetof omci_ext_mop ''igmp_version'') 1 (OMCI_ATTR_PROP_RD OR OMCI_ATTR_PROP_WR OR OMCI_ATTR_PROP_SBC) None,
     ATTR_UINT 0 0xFF (offsetof omci_ext_mop ''igmp_function'') 1 (OMCI_ATTR_PROP_RD OR OMCI_ATTR_PROP_WR OR OMCI_ATTR_PROP_SBC) None,
     ATTR_UINT 0 0xFF (offsetof omci_ext_mop ''immediate_leave'') 1 (OMCI_ATTR_PROP_RD OR OMCI_ATTR_PROP_WR OR OMCI_ATTR_PROP_SBC) None,
     ATTR_UINT 0 0xFFFF (offsetof omci_ext_mop ''us_igmp_tci'') 2 (OMCI_ATTR_PROP_RD OR OMCI_ATTR_PROP_WR) None,
     ATTR_UINT 0 0xFF (offsetof omci_ext_mop ''us_igmp_tag_ctrl'') 1 (OMCI_ATTR_PROP_RD OR OMCI_ATTR_PROP_WR) None,
     ATTR_UINT 0 0xFFFFFFFF (offsetof omci_ext_mop ''us_igmp_rate'') 4 (OMCI_ATTR_PROP_RD OR OMCI_ATTR_PROP_WR) None,
     ATTR_STR (offsetof omci_ext_mop ''dynamic_acl_table'') 24 (OMCI_ATTR_PROP_RD OR OMCI_ATTR_PROP_WR OR OMCI_ATTR_PROP_TABLE) None,
     ATTR_STR (offsetof omci_ext_mop ''static_acl_table'') 24 (OMCI_ATTR_PROP_RD OR OMCI_ATTR_PROP_WR OR OMCI_ATTR_PROP_TABLE) None]
    [(4, ''create_action_handle''), (6, ''delete_action_handle''), (8, ''set_action_handle''), (9, ''get_action_handle''), (25, ''get_next_action_handle'')]
    (Some ''default_me_init'') (Some ''default_me_shutdown'') (Some ''default_me_validate'') (Some ''default_me_update'')
    None None None None
    None (sizeof omci_ext_mop) OMCI_ME_PROP_NONE"

definition omci_me_65529 :: struct_layout where
  "omci_me_65529 = [
    (''attr1'', 4), (''attr2'', 1), (''attr3'', 1), (''attr4'', 1)]"

definition me_65529_class :: me_class where
  [class_defs]: "me_65529_class = mk_class 0xFFF9
    [ATTR_STR (offsetof omci_me_65529 ''attr1'') 4 (OMCI_ATTR_PROP_RD OR OMCI_ATTR_PROP_WR) None,
     ATTR_UINT 0 0xFF (offsetof omci_me_65529 ''attr2'') 1 (OMCI_ATTR_PROP_RD OR OMCI_ATTR_PROP_WR) None,
     ATTR_UINT 0 0xFFFF (offsetof omci_me_65529 ''attr3'') 1 (OMCI_ATTR_PROP_RD OR OMCI_ATTR_PROP_WR) None,
     ATTR_UINT 0 0xFF (offsetof omci_me_65529 ''attr4'') 1 (OMCI_ATTR_PROP_RD OR OMCI_ATTR_PROP_WR) None]
    [(4, ''create_action_handle''), (6, ''delete_action_handle''), (8, ''set_action_handle''), (9, ''get_action_handle'')]
    (Some ''omci_me_65529.me_init'') (Some ''omci_me_65529.me_shutdown'') (Some ''default_me_validate'') (Some ''omci_me_65529.me_update'')
    None None None None
    None (sizeof omci_me_65529) OMCI_ME_PROP_NONE"

definition omci_me_65530 :: struct_layout where
  "omci_me_65530 = [
    (''attr1'', 24), (''attr2'', 12), (''attr3'', 1)]"

definition me_65530_class :: me_class where
  [class_defs]: "me_65530_class = mk_class 0xFFFA
    [ATTR_STR (offsetof omci_me_65530 ''attr1'') 24 (OMCI_ATTR_PROP_RD OR OMCI_ATTR_PROP_WR) None,
     ATTR_STR (offsetof omci_me_65530 ''attr2'') 12 (OMCI_ATTR_PROP_RD OR OMCI_ATTR_PROP_WR) None,
     ATTR_UINT 0 0xFF (offsetof omci_me_65530 ''attr3'') 1 (OMCI_ATTR_PROP_RD OR OMCI_ATTR_PROP_WR) None]
    [(4, ''create_action_handle''), (6, ''delete_action_handle''), (8, ''set_action_handle''), (9, ''get_action_handle'')]
    (Some ''omci_me_65530.me_init'') (Some ''omci_me_65530.me_shutdown'') (Some ''default_me_validate'') (Some ''omci_me_65530.me_update'')
    None None None None
    None (sizeof omci_me_65530) OMCI_ME_PROP_NONE"

definition classes_d :: "me_class list" where
  "classes_d = [me_threshold_data1_class,
     me_threshold_data2_class,
     me_gem_port_network_ctp_pmhd_class,
     me_ip_host_monitoring_data_class,
     me_onu_dyn_pwr_mngmt_ctrl_class,
     me_enhanced_security_control_class,
     me_ipv6_host_config_data_class,
     me_dot1ag_md_class,
     me_dot1ag_ma_class,
     me_dot1ag_def_md_lvl_class,
     me_dot1ag_mep_class,
     me_dot1ag_mep_status_class,
     me_dot1ag_mep_ccm_db_class,
     me_dot1ag_cfm_stack_class,
     me_dot1ag_cmi_class,
     me_eth_ext_pmhd_class,
     me_energy_consumption_pmhd_class,
     me_poe_ctrl_class,
     me_eth_ext_pmhd_64_class,
     me_voip_app_svc_profile_class,
     me_voip_feature_access_codes_class,
     me_sip_config_portal_class,
     me_rtp_pw_params_class,
     me_zte_emop_class,
     me_onu_loop_detection_class,
     me_ext_mop_class,
     me_65529_class,
     me_65530_class]"

end
