(* ===== verification/Omci_Class_Check.thy ===== *)
theory Omci_Class_Check
  imports Omci_Classes_A Omci_Classes_B Omci_Classes_C Omci_Classes_D
begin

text \<open>
  The correctness check \<^verbatim>\<open>mib_create\<close> (\<^verbatim>\<open>omci_mib.c\<close>) runs over the class descriptions when the
  daemon starts, on the list of supported classes of \<^verbatim>\<open>omci_me_def.c\<close>. The check fills in the
  attribute masks of a class and refuses attributes that do not fit their data.
\<close>

section \<open>Definitions\<close>

definition me_def_class_array :: "me_class list" where
  "me_def_class_array = [
     me_ani_g_class, me_cardholder_class, me_circuit_pack_class,
     me_dop1p_mapper_class, me_dot1p_rate_limiter_class, me_equipment_extension_package_class,
     me_extended_vlan_config_data_class, me_gal_ethernet_profile_class, me_gem_interworking_tp_class,
     me_gem_port_network_ctp_class, me_ip_host_config_data_class, me_large_string_class,
     me_vlan_tagging_filter_data_class, me_vlan_tagging_operation_config_data_class, me_mac_bridge_config_data_class,
     me_mac_bridge_port_bridge_table_data_class, me_mac_bridge_port_config_data_class, me_mac_bridge_port_designation_data_class,
     me_mac_bridge_port_filter_preassign_table_class, me_mac_bridge_port_filter_table_data_class, me_mac_bridge_service_profile_class,
     me_multicast_get_interworking_tp_class, me_multicast_operations_profile_class, me_multicast_subscriber_config_class,
     me_multicast_subscriber_monitor_class, me_olt_g_class, me_onu_data_class,
     me_onu_g_class, me_onu_power_shedding_class, me_mac_bridge_port_extension_class,
     me_241_0_class, me_242_class, me_243_class,
     me_244_class, me_245_class, me_246_class,
     me_247_class, me_248_class, me_249_class,
     me_250_class, me_251_class, me_252_class,
     me_253_class, me_254_class, me_255_class,
     me_virtual_ethernet_interface_point_class, me_authentication_class, me_large_string_class,
     me_network_address_class, me_tcp_udp_config_data_class, me_onu2_g_class,
     me_dot1x_port_ext_pkg_class, me_port_mapping_package_class, me_pptp_ethernet_uni_class,
     me_pptp_lct_uni_class, me_priority_queue_class, me_sw_image_class,
     me_tcont_class, me_traffic_descriptor_class, me_traffic_scheduler_class,
     me_uni_g_class, me_pptp_pots_uni_class, me_voip_config_data_class,
     me_voip_voice_ctp_class, me_voip_media_profile_class, me_rtp_profile_data_class,
     me_voice_service_profile_class, me_voip_line_status_class, me_sip_user_data_class,
     me_sip_agent_config_data_class, me_network_dial_plan_table_class, me_ethernet_ds_pmhd_class,
     me_ethernet_pmhd_class, me_ethernet_pmhd2_class, me_ethernet_pmhd3_class,
     me_ethernet_us_pmhd_class, me_fec_pmhd_class, me_gal_ethernet_class,
     me_gem_port_pmhd_class, me_rtp_pmhd_class, me_sip_call_init_pmhd_class,
     me_sip_agent_pmhd_class, me_call_control_pmhd_class, me_mac_bridge_pmhd_class,
     me_mac_bridge_port_pmhd_class, me_threshold_data1_class, me_threshold_data2_class,
     me_gem_port_network_ctp_pmhd_class, me_ip_host_monitoring_data_class, me_onu_dyn_pwr_mngmt_ctrl_class,
     me_enhanced_security_control_class, me_ipv6_host_config_data_class, me_dot1ag_md_class,
     me_dot1ag_ma_class, me_dot1ag_def_md_lvl_class, me_dot1ag_mep_class,
     me_dot1ag_mep_status_class, me_dot1ag_mep_ccm_db_class, me_dot1ag_cfm_stack_class,
     me_dot1ag_cmi_class, me_eth_ext_pmhd_class, me_energy_consumption_pmhd_class,
     me_poe_ctrl_class, me_eth_ext_pmhd_64_class, me_voip_app_svc_profile_class,
     me_voip_feature_access_codes_class, me_sip_config_portal_class, me_rtp_pw_params_class,
     me_zte_emop_class, me_onu_loop_detection_class, me_ext_mop_class,
     me_65529_class, me_65530_class]"

text \<open>One pass of the loop over the attributes; the result is the class with its masks and the sum of the sizes.\<close>

definition class_attr_step :: "nat \<Rightarrow> me_class \<times> nat \<Rightarrow> (me_class \<times> nat) option" where
  "class_attr_step attr = (\<lambda>(c, attr_sum).
    let a = attrs c ! attr; m = omci_attr2mask (attr + 1);
        c = (if attr_prop a = OMCI_ATTR_PROP_NONE then c\<lparr> inv_attr_mask := inv_attr_mask c OR m \<rparr> else c);
        c = (if attr_prop a AND OMCI_ATTR_PROP_NOT_SUPPORTED \<noteq> 0 then c\<lparr> opt_attr_mask := opt_attr_mask c OR m \<rparr> else c);
        c = (if attr_prop a AND OMCI_ATTR_PROP_SBC \<noteq> 0 then c\<lparr> sbc_attr_mask := sbc_attr_mask c OR m \<rparr> else c);
        c = (if attr_prop a AND OMCI_ATTR_PROP_AVC \<noteq> 0 then c\<lparr> avc_attr_mask := avc_attr_mask c OR m \<rparr> else c);
        c = (if attr_prop a AND OMCI_ATTR_PROP_WR \<noteq> 0 then c\<lparr> wr_attr_mask := wr_attr_mask c OR m \<rparr> else c);
        c = (if get_handler a \<noteq> None then c\<lparr> vol_attr_mask := vol_attr_mask c OR m \<rparr> else c)
    in if data_size c \<noteq> 0 \<and> (offset a + attr_size a > data_size c \<or> attr_sum + attr_size a > data_size c) then None
       else Some (c, attr_sum + attr_size a))"

fun class_attr_loop :: "nat list \<Rightarrow> me_class \<times> nat \<Rightarrow> (me_class \<times> nat) option" where
  "class_attr_loop [] s = Some s"
| "class_attr_loop (i # is) s = (case class_attr_step i s of None \<Rightarrow> None | Some s' \<Rightarrow> class_attr_loop is s')"

text \<open>The check of one class; \<^const>\<open>None\<close> is the return of \<^verbatim>\<open>OMCI_ERROR\<close>.\<close>

definition class_check :: "me_class \<Rightarrow> me_class option" where
  "class_check c =
    (case class_attr_loop [0..<16]
        (c\<lparr> inv_attr_mask := 0, opt_attr_mask := 0, sbc_attr_mask := 0, avc_attr_mask := 0, wr_attr_mask := 0 \<rparr>, 0) of
       None \<Rightarrow> None
     | Some (c, attr_sum) \<Rightarrow>
         if attr_sum \<noteq> data_size c then None
         else if OMCI_ME_DATA_SIZE_MAX < data_size c then None
         else if update_handler c = None then None
         else Some c)"

fun class_checks :: "me_class list \<Rightarrow> me_class list option" where
  "class_checks [] = Some []"
| "class_checks (c # cs) = (case class_check c of None \<Rightarrow> None
     | Some c' \<Rightarrow> (case class_checks cs of None \<Rightarrow> None | Some cs' \<Rightarrow> Some (c' # cs')))"

text \<open>
  The class part of \<^verbatim>\<open>mib_create\<close>: the number of classes, the checks, and the array sorted by
  class identifier. Entries with the same identifier are copies of the same class.
\<close>

definition mib_class_array :: "me_class list \<Rightarrow> me_class list option" where
  "mib_class_array classes =
    (if OMCI_ME_CLASS_NUM \<noteq> length classes then None
     else case class_checks classes of None \<Rightarrow> None | Some cs \<Rightarrow> Some (sort_key class_id cs))"

section \<open>Well-formed classes\<close>

text \<open>
  A class is well formed when its 16 attributes lie one after another in its data, each defined
  attribute starting where the previous one ends and an undefined one taking no space, and its masks
  say what the properties say.
\<close>

fun contiguous :: "nat \<Rightarrow> me_attr list \<Rightarrow> bool" where
  "contiguous p [] \<longleftrightarrow> True"
| "contiguous p (a # as) \<longleftrightarrow> (attr_size a = 0 \<or> offset a = p) \<and> contiguous (p + attr_size a) as"

definition masks_ok :: "me_class \<Rightarrow> bool" where
  "masks_ok c \<longleftrightarrow> (\<forall>a. 1 \<le> a \<and> a \<le> 16 \<longrightarrow>
     mask_has (inv_attr_mask c) a = (me_attr_prop_get c a = 0)
     \<and> mask_has (opt_attr_mask c) a = (me_attr_prop_get c a AND OMCI_ATTR_PROP_NOT_SUPPORTED \<noteq> 0)
     \<and> mask_has (sbc_attr_mask c) a = (me_attr_prop_get c a AND OMCI_ATTR_PROP_SBC \<noteq> 0)
     \<and> mask_has (avc_attr_mask c) a = (me_attr_prop_get c a AND OMCI_ATTR_PROP_AVC \<noteq> 0)
     \<and> mask_has (wr_attr_mask c) a = (me_attr_prop_get c a AND OMCI_ATTR_PROP_WR \<noteq> 0)
     \<and> mask_has (vol_attr_mask c) a = (me_attr_get_handler_get c a \<noteq> None))"

definition class_wf :: "me_class \<Rightarrow> bool" where
  "class_wf c \<longleftrightarrow> length (attrs c) = 16 \<and> length (actions c) = 29 \<and> contiguous 0 (attrs c)
     \<and> list_all (\<lambda>a. attr_prop a = 0 \<longrightarrow> attr_size a = 0) (attrs c)
     \<and> sum_list (map attr_size (attrs c)) = data_size c \<and> data_size c \<le> OMCI_ME_DATA_SIZE_MAX
     \<and> update_handler c \<noteq> None \<and> masks_ok c"

text \<open>What is evaluated on the classes of the source.\<close>

definition class_layout_ok :: "me_class \<Rightarrow> bool" where
  "class_layout_ok c \<longleftrightarrow> length (attrs c) = 16 \<and> length (actions c) = 29 \<and> contiguous 0 (attrs c)
     \<and> list_all (\<lambda>a. attr_prop a = 0 \<longrightarrow> attr_size a = 0) (attrs c)
     \<and> sum_list (map attr_size (attrs c)) = data_size c \<and> data_size c \<le> OMCI_ME_DATA_SIZE_MAX
     \<and> update_handler c \<noteq> None \<and> vol_attr_mask c = 0
     \<and> list_all (\<lambda>a. attr_size a = 0 \<longrightarrow> offset a \<le> data_size c) (attrs c)"

text \<open>A class without its masks, the part the check never changes.\<close>

definition unmasked :: "me_class \<Rightarrow> me_class" where
  "unmasked c = c\<lparr> inv_attr_mask := 0, opt_attr_mask := 0, sbc_attr_mask := 0, avc_attr_mask := 0,
     wr_attr_mask := 0, vol_attr_mask := 0 \<rparr>"

text \<open>The masks of the first attributes, the invariant of the loop.\<close>

definition masks_upto :: "nat \<Rightarrow> me_class \<Rightarrow> bool" where
  "masks_upto n c \<longleftrightarrow> (\<forall>a. 1 \<le> a \<and> a \<le> 16 \<longrightarrow>
     mask_has (inv_attr_mask c) a = (a \<le> n \<and> me_attr_prop_get c a = 0)
     \<and> mask_has (opt_attr_mask c) a = (a \<le> n \<and> me_attr_prop_get c a AND OMCI_ATTR_PROP_NOT_SUPPORTED \<noteq> 0)
     \<and> mask_has (sbc_attr_mask c) a = (a \<le> n \<and> me_attr_prop_get c a AND OMCI_ATTR_PROP_SBC \<noteq> 0)
     \<and> mask_has (avc_attr_mask c) a = (a \<le> n \<and> me_attr_prop_get c a AND OMCI_ATTR_PROP_AVC \<noteq> 0)
     \<and> mask_has (wr_attr_mask c) a = (a \<le> n \<and> me_attr_prop_get c a AND OMCI_ATTR_PROP_WR \<noteq> 0)
     \<and> mask_has (vol_attr_mask c) a = (a \<le> n \<and> me_attr_get_handler_get c a \<noteq> None))"

lemma classes_a_layout: "list_all class_layout_ok classes_a"
  by code_simp

lemma classes_b_layout: "list_all class_layout_ok classes_b"
  by code_simp

lemma classes_c_layout: "list_all class_layout_ok classes_c"
  by code_simp

lemma classes_d_layout: "list_all class_layout_ok classes_d"
  by code_simp

text \<open>
  The actions of a class: the slot a handler that classes share is meant for, and the entries of a
  class that hold such a handler in another slot.
\<close>

definition action_slot :: "string \<Rightarrow> nat option" where
  "action_slot h = map_of [(''create_action_handle'', 4), (''delete_action_handle'', 6), (''set_action_handle'', 8),
     (''get_action_handle'', 9), (''reboot_acion_handle'', 25), (''get_next_action_handle'', 26),
     (''get_current_data_action_handle'', 28)] h"

fun misplaced_actions :: "nat \<Rightarrow> fptr list \<Rightarrow> (nat \<times> string) list" where
  "misplaced_actions i [] = []"
| "misplaced_actions i (None # as) = misplaced_actions (Suc i) as"
| "misplaced_actions i (Some h # as) = (case action_slot h of None \<Rightarrow> misplaced_actions (Suc i) as
     | Some s \<Rightarrow> if s = i then misplaced_actions (Suc i) as else (i, h) # misplaced_actions (Suc i) as)"

definition misplaced :: "me_class \<Rightarrow> (u16 \<times> nat \<times> string) list" where
  "misplaced c = map (Pair (class_id c)) (misplaced_actions 0 (actions c))"

text \<open>The table attributes that no Get next action serves.\<close>

fun table_attrs :: "nat \<Rightarrow> u32 list \<Rightarrow> nat list" where
  "table_attrs a [] = []"
| "table_attrs a (pr # ps) = (if pr AND OMCI_ATTR_PROP_TABLE \<noteq> 0 \<and> pr AND OMCI_ATTR_PROP_NOT_SUPPORTED = 0
     then a # table_attrs (Suc a) ps else table_attrs (Suc a) ps)"

definition tables_without_get_next :: "me_class \<Rightarrow> (u16 \<times> nat) list" where
  "tables_without_get_next c =
    (if actions c ! 26 = None then map (Pair (class_id c)) (table_attrs 1 (map attr_prop (attrs c))) else [])"

section \<open>The check accepts the classes\<close>

lemma contiguous_bound:
  "contiguous p as \<Longrightarrow> n < length as \<Longrightarrow> attr_size (as ! n) \<noteq> 0 \<Longrightarrow>
   offset (as ! n) = p + sum_list (map attr_size (take n as))"
proof (induction as arbitrary: p n)
  case (Cons a as)
  then show ?case by (cases n) auto
qed simp

lemma take_sum_le: "n < length as \<Longrightarrow> sum_list (map f (take n as)) + f (as ! n) \<le> sum_list (map (f :: 'a \<Rightarrow> nat) as)"
proof (induction as arbitrary: n)
  case (Cons a as)
  then show ?case by (cases n) auto
qed simp

lemma contiguous_disjoint:
  assumes "contiguous p as" "i < j" "j < length as" "attr_size (as ! i) \<noteq> 0" "attr_size (as ! j) \<noteq> 0"
  shows "offset (as ! i) + attr_size (as ! i) \<le> offset (as ! j)"
  using contiguous_bound[OF assms(1), of i] contiguous_bound[OF assms(1), of j] take_sum_le[of i "take j as" attr_size] assms
  by simp

text \<open>Attributes of a well-formed class lie inside its data and do not overlap.\<close>

lemma class_wf_bound:
  assumes "class_wf c" "1 \<le> a" "a \<le> 16" "me_attr_size_get c a \<noteq> 0"
  shows "me_attr_offset_get c a + me_attr_size_get c a \<le> data_size c"
  using assms contiguous_bound[of 0 "attrs c" "a - 1"] take_sum_le[of "a - 1" "attrs c" attr_size]
  by (simp add: class_wf_def me_attr_offset_get_def me_attr_size_get_def me_attr_get_def)

lemma class_wf_disjoint:
  assumes "class_wf c" "1 \<le> a" "a < b" "b \<le> 16" "me_attr_size_get c a \<noteq> 0" "me_attr_size_get c b \<noteq> 0"
  shows "me_attr_offset_get c a + me_attr_size_get c a \<le> me_attr_offset_get c b"
  using assms contiguous_disjoint[of 0 "attrs c" "a - 1" "b - 1"]
  by (simp add: class_wf_def me_attr_offset_get_def me_attr_size_get_def me_attr_get_def)

text \<open>The parts the proofs read are those of the class without its masks.\<close>

lemma unmasked_eqD:
  assumes "unmasked c' = unmasked c"
  shows "attrs c' = attrs c \<and> actions c' = actions c \<and> data_size c' = data_size c
    \<and> update_handler c' = update_handler c \<and> class_id c' = class_id c \<and> class_prop c' = class_prop c"
proof -
  have "attrs (unmasked c') = attrs (unmasked c)" "actions (unmasked c') = actions (unmasked c)"
    "data_size (unmasked c') = data_size (unmasked c)" "update_handler (unmasked c') = update_handler (unmasked c)"
    "class_id (unmasked c') = class_id (unmasked c)" "class_prop (unmasked c') = class_prop (unmasked c)"
    using assms by simp_all
  then show ?thesis by (simp add: unmasked_def)
qed

text \<open>An update under a condition is an update with a conditional value.\<close>

lemma cond_mask_updates:
  fixes c :: me_class
  shows "(if P then c\<lparr> inv_attr_mask := x \<rparr> else c) = c\<lparr> inv_attr_mask := if P then x else inv_attr_mask c \<rparr>"
    and "(if P then c\<lparr> opt_attr_mask := x \<rparr> else c) = c\<lparr> opt_attr_mask := if P then x else opt_attr_mask c \<rparr>"
    and "(if P then c\<lparr> sbc_attr_mask := x \<rparr> else c) = c\<lparr> sbc_attr_mask := if P then x else sbc_attr_mask c \<rparr>"
    and "(if P then c\<lparr> avc_attr_mask := x \<rparr> else c) = c\<lparr> avc_attr_mask := if P then x else avc_attr_mask c \<rparr>"
    and "(if P then c\<lparr> wr_attr_mask := x \<rparr> else c) = c\<lparr> wr_attr_mask := if P then x else wr_attr_mask c \<rparr>"
    and "(if P then c\<lparr> vol_attr_mask := x \<rparr> else c) = c\<lparr> vol_attr_mask := if P then x else vol_attr_mask c \<rparr>"
  by simp_all

text \<open>One attribute extends every mask by its own bit.\<close>

lemma class_attr_step_ok:
  assumes i: "i < 16" and u: "unmasked c' = unmasked c" and m: "masks_upto i c'"
    and b: "offset (attrs c ! i) + attr_size (attrs c ! i) \<le> data_size c" "s + attr_size (attrs c ! i) \<le> data_size c"
  shows "\<exists>d. class_attr_step i (c', s) = Some (d, s + attr_size (attrs c ! i)) \<and> unmasked d = unmasked c \<and> masks_upto (Suc i) d"
proof -
  note e = unmasked_eqD[OF u]
  let ?a = "attrs c' ! i" and ?m = "omci_attr2mask (i + 1)"
  define d where "d = c'\<lparr>
    inv_attr_mask := (if attr_prop ?a = 0 then inv_attr_mask c' OR ?m else inv_attr_mask c'),
    opt_attr_mask := (if attr_prop ?a AND OMCI_ATTR_PROP_NOT_SUPPORTED \<noteq> 0 then opt_attr_mask c' OR ?m else opt_attr_mask c'),
    sbc_attr_mask := (if attr_prop ?a AND OMCI_ATTR_PROP_SBC \<noteq> 0 then sbc_attr_mask c' OR ?m else sbc_attr_mask c'),
    avc_attr_mask := (if attr_prop ?a AND OMCI_ATTR_PROP_AVC \<noteq> 0 then avc_attr_mask c' OR ?m else avc_attr_mask c'),
    wr_attr_mask := (if attr_prop ?a AND OMCI_ATTR_PROP_WR \<noteq> 0 then wr_attr_mask c' OR ?m else wr_attr_mask c'),
    vol_attr_mask := (if get_handler ?a \<noteq> None then vol_attr_mask c' OR ?m else vol_attr_mask c') \<rparr>"
  have st: "class_attr_step i (c', s) = Some (d, s + attr_size (attrs c ! i))"
    using b e by (simp add: class_attr_step_def cond_mask_updates Let_def d_def del: if_split)
  have ud: "unmasked d = unmasked c" using u by (simp add: unmasked_def d_def)
  have ad: "attrs d = attrs c'" by (simp add: d_def)
  have masks: "inv_attr_mask d = (if attr_prop ?a = 0 then inv_attr_mask c' OR ?m else inv_attr_mask c')"
    "opt_attr_mask d = (if attr_prop ?a AND OMCI_ATTR_PROP_NOT_SUPPORTED \<noteq> 0 then opt_attr_mask c' OR ?m else opt_attr_mask c')"
    "sbc_attr_mask d = (if attr_prop ?a AND OMCI_ATTR_PROP_SBC \<noteq> 0 then sbc_attr_mask c' OR ?m else sbc_attr_mask c')"
    "avc_attr_mask d = (if attr_prop ?a AND OMCI_ATTR_PROP_AVC \<noteq> 0 then avc_attr_mask c' OR ?m else avc_attr_mask c')"
    "wr_attr_mask d = (if attr_prop ?a AND OMCI_ATTR_PROP_WR \<noteq> 0 then wr_attr_mask c' OR ?m else wr_attr_mask c')"
    "vol_attr_mask d = (if get_handler ?a \<noteq> None then vol_attr_mask c' OR ?m else vol_attr_mask c')"
    by (simp_all add: d_def del: if_split)
  have gen: "mask_has (if P (i + 1) then k OR ?m else k) a = (a \<le> Suc i \<and> P a)"
    if "1 \<le> a" "a \<le> 16" "mask_has k a = (a \<le> i \<and> P a)" for P k a
  proof -
    have "mask_has ?m a = (a = i + 1)" using that(1,2) i mask_has_attr[of a "i + 1"] by simp
    then show ?thesis using that(3) by (auto simp: le_Suc_eq)
  qed
  have at: "me_attr_prop_get d a = attr_prop (attrs c' ! (a - 1))" "me_attr_get_handler_get d a = get_handler (attrs c' ! (a - 1))"
    "me_attr_prop_get c' a = attr_prop (attrs c' ! (a - 1))" "me_attr_get_handler_get c' a = get_handler (attrs c' ! (a - 1))" for a
    by (simp_all add: me_attr_prop_get_def me_attr_get_handler_get_def me_attr_get_def ad)
  have "masks_upto (Suc i) d"
    unfolding masks_upto_def masks at
  proof (intro allI impI conjI, goal_cases)
    case (1 a) then show ?case using m gen[of a _ "\<lambda>a. attr_prop (attrs c' ! (a - 1)) = 0"] by (simp add: masks_upto_def at)
  next
    case (2 a) then show ?case using m gen[of a _ "\<lambda>a. attr_prop (attrs c' ! (a - 1)) AND OMCI_ATTR_PROP_NOT_SUPPORTED \<noteq> 0"]
      by (simp add: masks_upto_def at)
  next
    case (3 a) then show ?case using m gen[of a _ "\<lambda>a. attr_prop (attrs c' ! (a - 1)) AND OMCI_ATTR_PROP_SBC \<noteq> 0"]
      by (simp add: masks_upto_def at)
  next
    case (4 a) then show ?case using m gen[of a _ "\<lambda>a. attr_prop (attrs c' ! (a - 1)) AND OMCI_ATTR_PROP_AVC \<noteq> 0"]
      by (simp add: masks_upto_def at)
  next
    case (5 a) then show ?case using m gen[of a _ "\<lambda>a. attr_prop (attrs c' ! (a - 1)) AND OMCI_ATTR_PROP_WR \<noteq> 0"]
      by (simp add: masks_upto_def at)
  next
    case (6 a) then show ?case using m gen[of a _ "\<lambda>a. get_handler (attrs c' ! (a - 1)) \<noteq> None"]
      by (simp add: masks_upto_def at)
  qed
  then show ?thesis using st ud by blast
qed

lemma class_attr_loop_ok:
  assumes ok: "class_layout_ok c" and u: "unmasked c' = unmasked c" and m: "masks_upto n c'" and n: "n \<le> 16"
  shows "\<exists>d. class_attr_loop [n..<16] (c', sum_list (map attr_size (take n (attrs c)))) = Some (d, data_size c)
    \<and> unmasked d = unmasked c \<and> masks_upto 16 d"
  using n u m
proof (induction "16 - n" arbitrary: n c')
  case 0
  then show ?case using ok by (auto simp: class_layout_ok_def)
next
  case (Suc k)
  then have n16: "n < 16" by simp
  let ?s = "sum_list (map attr_size (take n (attrs c)))"
  have l: "length (attrs c) = 16" and ct: "contiguous 0 (attrs c)" and su: "sum_list (map attr_size (attrs c)) = data_size c"
    using ok by (auto simp: class_layout_ok_def)
  have b2: "?s + attr_size (attrs c ! n) \<le> data_size c" using take_sum_le[of n "attrs c" attr_size] n16 l su by simp
  have zero: "attr_size (attrs c ! n) = 0 \<Longrightarrow> offset (attrs c ! n) \<le> data_size c"
    using ok n16 l by (auto simp: class_layout_ok_def list_all_length)
  have b1: "offset (attrs c ! n) + attr_size (attrs c ! n) \<le> data_size c"
    using contiguous_bound[OF ct, of n] n16 l b2 zero by (cases "attr_size (attrs c ! n) = 0") auto
  obtain d where d: "class_attr_step n (c', ?s) = Some (d, ?s + attr_size (attrs c ! n))" "unmasked d = unmasked c" "masks_upto (Suc n) d"
    using class_attr_step_ok[OF n16 Suc.prems(2,3) b1 b2] by blast
  have "take (Suc n) (attrs c) = take n (attrs c) @ [attrs c ! n]" using n16 l by (simp add: take_Suc_conv_app_nth)
  then have "sum_list (map attr_size (take (Suc n) (attrs c))) = ?s + attr_size (attrs c ! n)" by simp
  then show ?case using Suc.hyps(1)[of "Suc n" d] Suc.hyps(2) d n16 by (simp add: upt_conv_Cons)
qed

theorem class_check_ok:
  assumes "class_layout_ok c"
  shows "\<exists>d. class_check c = Some d \<and> unmasked d = unmasked c \<and> class_wf d"
proof -
  let ?c = "c\<lparr> inv_attr_mask := 0, opt_attr_mask := 0, sbc_attr_mask := 0, avc_attr_mask := 0, wr_attr_mask := 0 \<rparr>"
  have "unmasked ?c = unmasked c" by (simp add: unmasked_def)
  moreover have "masks_upto 0 ?c" using assms by (simp add: masks_upto_def class_layout_ok_def)
  ultimately obtain d where d: "class_attr_loop [0..<16] (?c, 0) = Some (d, data_size c)" "unmasked d = unmasked c" "masks_upto 16 d"
    using class_attr_loop_ok[OF assms, of ?c 0] by auto
  note e = unmasked_eqD[OF d(2)]
  have "masks_ok d" using d(3) by (simp add: masks_upto_def masks_ok_def)
  then have "class_wf d" using assms e by (simp add: class_layout_ok_def class_wf_def)
  then show ?thesis using d e assms by (simp add: class_check_def class_layout_ok_def)
qed

lemma class_checks_ok:
  "list_all class_layout_ok cs \<Longrightarrow> \<exists>ds. class_checks cs = Some ds \<and> list_all class_wf ds \<and> map unmasked ds = map unmasked cs"
proof (induction cs)
  case (Cons c cs)
  then show ?case using class_check_ok[of c] by auto
qed simp

lemma class_layouts: "list_all class_layout_ok me_def_class_array"
  using classes_a_layout classes_b_layout classes_c_layout classes_d_layout
  unfolding classes_a_def classes_b_def classes_c_def classes_d_def me_def_class_array_def
  by simp

text \<open>
  C12: The daemon starts: the check accepts every class of the list of supported classes, and each
  class it leaves in the array of the MIB, sorted by class identifier, has 16 attributes that lie
  one after another in its data, an action table of 29 entries and masks that agree with the
  properties of its attributes.
\<close>

theorem mib_class_array_wf:
  "\<exists>cs. mib_class_array me_def_class_array = Some cs \<and> length cs = 113 \<and> sorted (map class_id cs) \<and> list_all class_wf cs"
proof -
  obtain ds where ds: "class_checks me_def_class_array = Some ds" "list_all class_wf ds" "map unmasked ds = map unmasked me_def_class_array"
    using class_checks_ok[OF class_layouts] by blast
  have "length ds = 113" using arg_cong[OF ds(3), of length] by (simp add: me_def_class_array_def)
  then show ?thesis using ds(1,2) by (simp add: mib_class_array_def me_def_class_array_def list_all_iff)
qed

lemma table_attrs_undefined: "table_attrs a (replicate n 0) = []"
  by (induction n arbitrary: a) auto

lemma table_attrs_append: "table_attrs a (ps @ qs) = table_attrs a ps @ table_attrs (a + length ps) qs"
  by (induction ps arbitrary: a) auto

lemma table_attrs_array: "table_attrs a (map attr_prop (attr_array as)) = table_attrs a (map attr_prop as)"
  by (simp add: attr_array_def attr_prop_macros table_attrs_append table_attrs_undefined)

text \<open>
  Where the shared action handlers sit: every class has them in the slot of their action, but
  for six entries. Classes 149, 301 and 65531 have the Get next handler in the slot of Reboot, and
  classes 334, 343 and 425 answer Get current data with the Get handler.
\<close>

theorem class_action_slots:
  "concat (map misplaced me_def_class_array) =
    [(301, 25, ''get_next_action_handle''), (334, 28, ''get_action_handle''), (343, 28, ''get_action_handle''),
     (425, 28, ''get_action_handle''), (149, 25, ''get_next_action_handle''), (65531, 25, ''get_next_action_handle'')]"
  unfolding me_def_class_array_def class_defs mk_class_def list.map misplaced_def me_class.simps
  by code_simp

text \<open>
  Tables can be read: every table attribute belongs to a class with a Get next action, but for
  the response table of SIP agent configuration and the tables of the three classes that have the
  handler in the slot of Reboot.
\<close>

theorem class_tables_get_next:
  "concat (map tables_without_get_next me_def_class_array) = [(150, 12), (301, 5), (149, 1), (65531, 7), (65531, 8)]"
  unfolding me_def_class_array_def class_defs mk_class_def list.map tables_without_get_next_def me_class.simps
    table_attrs_array attr_prop_macros
  by code_simp

end
