(* ===== verification/Omci_Timeout.thy ===== *)
theory Omci_Timeout
  imports Omci_Types
begin

text \<open>
  The timeout list of the OMCI daemon (\<^verbatim>\<open>omci_timeout.c\<close>): events sorted by the time they are due,
  with identifiers that are never zero, because a zero identifier means that no timeout is pending.
  Times are of the signed type \<^verbatim>\<open>time_t\<close>, milliseconds as the clock returns them.
\<close>

section \<open>Definitions\<close>

datatype timeout_handler =
    get_next_tbl_copy_clean_timeout_handler | alarm_copy_clean_timeout_handle | mib_copy_clean_timeout_handle
  | avc_send_delayed_timeout_handler | arc_interval_exp_timeout_handler | other_timeout_handler string

record timeout =
  arg1 :: u32
  arg2 :: u32
  arg3 :: u32
  to_class :: u16
  to_instance :: u16
  handler :: timeout_handler

record timeout_list_entry =
  timeout_time :: u32
  timeout_id :: u32
  descr :: timeout

record timeout_ctx =
  timeout_list :: "timeout_list_entry list"
  last_timeout_id :: u32

definition next_active_event_get :: "u32 \<Rightarrow> timeout_ctx \<Rightarrow> (u32 \<times> timeout) option" where
  "next_active_event_get now t = (case timeout_list t of [] \<Rightarrow> None
     | e # es \<Rightarrow> if sint (timeout_time e) \<le> sint now then Some (timeout_id e, descr e) else None)"

definition next_event_get :: "timeout_ctx \<Rightarrow> (u32 \<times> timeout) option" where
  "next_event_get t = (case timeout_list t of [] \<Rightarrow> None | e # es \<Rightarrow> Some (timeout_id e, descr e))"

text \<open>The first entry with the identifier is freed; an identifier that is not there is only reported.\<close>

fun entry_remove :: "u32 \<Rightarrow> timeout_list_entry list \<Rightarrow> timeout_list_entry list" where
  "entry_remove i [] = []"
| "entry_remove i (e # es) = (if timeout_id e = i then es else e # entry_remove i es)"

definition lockless_event_remove :: "u32 \<Rightarrow> timeout_ctx \<Rightarrow> timeout_ctx" where
  "lockless_event_remove i t = t\<lparr> timeout_list := entry_remove i (timeout_list t) \<rparr>"

text \<open>The new entry goes before the first entry that is due later.\<close>

fun entry_insert :: "timeout_list_entry \<Rightarrow> timeout_list_entry list \<Rightarrow> timeout_list_entry list" where
  "entry_insert n [] = [n]"
| "entry_insert n (e # es) = (if sint (timeout_time n) < sint (timeout_time e) then n # e # es else e # entry_insert n es)"

definition next_timeout_id :: "u32 \<Rightarrow> u32" where
  "next_timeout_id l = (if l + 1 = 0 then l + 1 + 1 else l + 1)"

text \<open>\<^verbatim>\<open>alloc\<close> says whether \<^verbatim>\<open>list_entry_alloc\<close> finds memory, \<^verbatim>\<open>now\<close> is the clock.\<close>

definition event_entry_add :: "bool \<Rightarrow> u32 \<Rightarrow> timeout \<Rightarrow> u32 \<Rightarrow> timeout_ctx \<Rightarrow> omci_error \<times> u32 \<times> timeout_ctx" where
  "event_entry_add alloc now d time t =
    (if \<not> alloc then (OMCI_ERROR_MEMORY, 0, t)
     else let i = next_timeout_id (last_timeout_id t);
              n = \<lparr> timeout_time = now + time, timeout_id = i, descr = d \<rparr>
       in (OMCI_SUCCESS, i, t\<lparr> last_timeout_id := i, timeout_list := entry_insert n (timeout_list t) \<rparr>))"

text \<open>One round of the thread: the handler of the first event that is due runs, then the event goes.\<close>

definition timeout_thread_step ::
    "(timeout \<Rightarrow> 's \<times> timeout_ctx \<Rightarrow> 's \<times> timeout_ctx) \<Rightarrow> u32 \<Rightarrow> 's \<times> timeout_ctx \<Rightarrow> 's \<times> timeout_ctx" where
  "timeout_thread_step run now = (\<lambda>(s, t). case next_active_event_get now t of None \<Rightarrow> (s, t)
     | Some (i, d) \<Rightarrow> (let (s', t') = run d (s, t) in (s', lockless_event_remove i t')))"

text \<open>The loop of \<^verbatim>\<open>timeout_shutdown\<close>; a handler may add events, so the number of rounds is given.\<close>

fun timeout_shutdown_loop ::
    "(timeout \<Rightarrow> 's \<times> timeout_ctx \<Rightarrow> 's \<times> timeout_ctx) \<Rightarrow> nat \<Rightarrow> 's \<times> timeout_ctx \<Rightarrow> ('s \<times> timeout_ctx) option" where
  "timeout_shutdown_loop run 0 st = None"
| "timeout_shutdown_loop run (Suc n) (s, t) = (case next_event_get t of None \<Rightarrow> Some (s, t)
     | Some (i, d) \<Rightarrow> (let (s', t') = run d (s, t) in timeout_shutdown_loop run n (s', lockless_event_remove i t')))"

text \<open>The invariant: sorted by due time, identifiers that are not zero and differ.\<close>

definition timeouts_ok :: "timeout_ctx \<Rightarrow> bool" where
  "timeouts_ok t \<longleftrightarrow> sorted (map (sint \<circ> timeout_time) (timeout_list t)) \<and> 0 \<notin> set (map timeout_id (timeout_list t))
     \<and> distinct (map timeout_id (timeout_list t))"

text \<open>An example for the witnesses.\<close>

definition example_timeout :: timeout where
  "example_timeout = \<lparr> arg1 = 0, arg2 = 0, arg3 = 0, to_class = 2, to_instance = 0, handler = mib_copy_clean_timeout_handle \<rparr>"

definition example_timeouts :: timeout_ctx where
  "example_timeouts = \<lparr> timeout_list = [\<lparr> timeout_time = 100, timeout_id = 7, descr = example_timeout \<rparr>], last_timeout_id = 0xFFFFFFFF \<rparr>"

definition example_run :: "timeout \<Rightarrow> nat \<times> timeout_ctx \<Rightarrow> nat \<times> timeout_ctx" where
  "example_run d = (\<lambda>(s, t). (s + unat (to_class d), t))"

section \<open>The list\<close>

lemma entry_insert_set [simp]: "set (entry_insert n es) = insert n (set es)"
  by (induction es) auto

lemma entry_insert_sorted:
  "sorted (map (sint \<circ> timeout_time) es) \<Longrightarrow> sorted (map (sint \<circ> timeout_time) (entry_insert n es))"
  by (induction es) (auto simp: not_less intro: order.trans)

lemma entry_insert_distinct:
  "distinct (map timeout_id (entry_insert n es)) \<longleftrightarrow> timeout_id n \<notin> set (map timeout_id es) \<and> distinct (map timeout_id es)"
  by (induction es) auto

text \<open>The new event comes after all events that are due no later: events of the same time keep their order.\<close>

lemma entry_insert_place:
  "sorted (map (sint \<circ> timeout_time) es) \<Longrightarrow>
   entry_insert n es = filter (\<lambda>e. sint (timeout_time e) \<le> sint (timeout_time n)) es @ n # filter (\<lambda>e. sint (timeout_time n) < sint (timeout_time e)) es"
proof (induction es)
  case (Cons e es)
  show ?case
  proof (cases "sint (timeout_time n) < sint (timeout_time e)")
    case True
    then have all: "\<forall>x \<in> set (e # es). sint (timeout_time n) < sint (timeout_time x)" using Cons.prems by fastforce
    have "filter (\<lambda>x. sint (timeout_time x) \<le> sint (timeout_time n)) (e # es) = []"
      using all by (subst filter_empty_conv) (meson not_le)
    moreover have "filter (\<lambda>x. sint (timeout_time n) < sint (timeout_time x)) (e # es) = e # es"
      using all by (subst filter_id_conv) blast
    ultimately show ?thesis using True by simp
  qed (use Cons in auto)
qed simp

lemma entry_remove_filter:
  "distinct (map timeout_id es) \<Longrightarrow> entry_remove i es = filter (\<lambda>e. timeout_id e \<noteq> i) es"
proof (induction es)
  case (Cons e es)
  have "filter (\<lambda>x. timeout_id x \<noteq> timeout_id e) es = es" using Cons.prems
    by (subst filter_id_conv) (auto simp: rev_image_eqI)
  with Cons show ?case by auto
qed simp

lemma entry_remove_other: "i \<notin> set (map timeout_id es) \<Longrightarrow> entry_remove i es = es"
  by (induction es) auto

lemma next_timeout_id_nonzero [simp]: "next_timeout_id l \<noteq> 0"
  by (auto simp: next_timeout_id_def)

lemma sorted_map_filter_sint: "sorted (map f es) \<Longrightarrow> sorted (map f (filter P es))"
  by (induction es) auto

section \<open>Properties\<close>



text \<open>
  No event is missed: the thread finds an event to run exactly when some event of the list is
  due, and the event it runs is one that has waited longest.
\<close>

theorem timeout_thread_due:
  assumes "timeouts_ok t"
  shows "(next_active_event_get now t = None \<longleftrightarrow> (\<forall>e \<in> set (timeout_list t). sint now < sint (timeout_time e)))
    \<and> (\<forall>i d. next_active_event_get now t = Some (i, d) \<longrightarrow>
        (\<exists>e \<in> set (timeout_list t). timeout_id e = i \<and> descr e = d \<and> sint (timeout_time e) \<le> sint now
           \<and> (\<forall>x \<in> set (timeout_list t). sint (timeout_time e) \<le> sint (timeout_time x))))"
  using assms by (fastforce simp: next_active_event_get_def timeouts_ok_def split: list.splits if_splits)

theorem timeout_thread_due_witness:
  "next_active_event_get 99 example_timeouts = None
   \<and> (\<exists>e. timeout_list example_timeouts = [e] \<and> sint (99 :: u32) < sint (timeout_time e))
   \<and> (\<exists>i d. next_active_event_get 100 example_timeouts = Some (i, d) \<and> i = 7)"
  using timeout_thread_due[of example_timeouts 99] timeout_thread_due[of example_timeouts 100]
  by (auto simp: example_timeouts_def timeouts_ok_def next_active_event_get_def)

text \<open>
  Shutting the timeouts down ends and runs the pending events in the order they are due, when
  the handlers leave the list alone: one round for each event and one to see that none is left.
\<close>

theorem timeout_shutdown_runs_all:
  assumes "\<And>d s t. run d (s, t) = (f d s, t)" and "length (timeout_list t) < n"
  shows "timeout_shutdown_loop run n (s, t) = Some (fold (\<lambda>e. f (descr e)) (timeout_list t) s, t\<lparr> timeout_list := [] \<rparr>)"
proof -
  have "timeout_shutdown_loop run n (s, t\<lparr> timeout_list := es \<rparr>) = Some (fold (\<lambda>e. f (descr e)) es s, t\<lparr> timeout_list := [] \<rparr>)"
    if "length es < n" for es n s
    using that
  proof (induction es arbitrary: n s)
    case Nil
    then show ?case by (cases n) (auto simp: next_event_get_def)
  next
    case (Cons e es)
    then show ?case by (cases n) (auto simp: next_event_get_def lockless_event_remove_def assms(1))
  qed
  from this[of "timeout_list t" n s] show ?thesis using assms(2) by simp
qed

theorem timeout_shutdown_runs_all_witness:
  "timeout_shutdown_loop example_run 2 (0, example_timeouts) =
    Some (fold (\<lambda>e s. s + unat (to_class (descr e))) (timeout_list example_timeouts) 0, example_timeouts\<lparr> timeout_list := [] \<rparr>)"
  by (rule timeout_shutdown_runs_all) (simp_all add: example_run_def example_timeouts_def)

end
