(* ===== verification/Omci_Ctx.thy ===== *)
theory Omci_Ctx
  imports Omci_Class_Check Omci_Timeout
begin

text \<open>
  The state of the OMCI daemon (\<^verbatim>\<open>struct omci_context\<close> of \<^verbatim>\<open>omci_core.h\<close>), its messages
  (\<^verbatim>\<open>omci_msg.h\<close>) and the look-up of managed entities (\<^verbatim>\<open>omci_mib.c\<close>). Managed entities live in a
  heap; the entry of a class holds the addresses of its instances in the order of the linked list.
  A data pointer is the index of a buffer of the entity, because a performance monitoring entity
  moves its data pointer between three buffers.
\<close>

section \<open>Definitions\<close>

type_synonym octets = "u8 list"
type_synonym addr = nat

subsection \<open>Memory\<close>

definition memget :: "octets \<Rightarrow> nat \<Rightarrow> nat \<Rightarrow> octets" where
  "memget d off n = take n (drop off d)"

definition memput :: "octets \<Rightarrow> nat \<Rightarrow> octets \<Rightarrow> octets" where
  "memput d off bs = take off d @ bs @ drop (off + length bs) d"

text \<open>Numbers in memory: the processor is big endian.\<close>

fun be_nat :: "octets \<Rightarrow> nat" where
  "be_nat [] = 0"
| "be_nat (b # bs) = unat b * 256 ^ length bs + be_nat bs"

definition be_num :: "octets \<Rightarrow> u64" where
  "be_num bs = of_nat (be_nat bs)"

fun be_octets :: "nat \<Rightarrow> u64 \<Rightarrow> octets" where
  "be_octets 0 v = []"
| "be_octets (Suc n) v = ucast (drop_bit (8 * n) v) # be_octets n v"

definition be16_octets :: "u16 \<Rightarrow> octets" where
  "be16_octets v = [ucast (drop_bit 8 v), ucast v]"

definition octets_be16 :: "octets \<Rightarrow> u16" where
  "octets_be16 bs = of_nat (be_nat bs)"

text \<open>The value of an attribute in the data of its class, and a write of it.\<close>

definition attr_val :: "me_class \<Rightarrow> octets \<Rightarrow> nat \<Rightarrow> octets" where
  "attr_val k d a = memget d (me_attr_offset_get k a) (me_attr_size_get k a)"

definition attr_put :: "me_class \<Rightarrow> nat \<Rightarrow> octets \<Rightarrow> octets \<Rightarrow> octets" where
  "attr_put k a bs d = memput d (me_attr_offset_get k a) bs"

subsection \<open>Messages\<close>

record omci_msg =
  tci :: u16
  mtype :: u8
  dev_id :: u8
  m_class :: u16
  m_instance :: u16
  contents :: octets

abbreviation (input) OMCI_FORMAT_BASELINE :: u8 where "OMCI_FORMAT_BASELINE \<equiv> 0x0A"

abbreviation (input) OMCI_MT_CREATE :: nat where "OMCI_MT_CREATE \<equiv> 4"
abbreviation (input) OMCI_MT_DELETE :: nat where "OMCI_MT_DELETE \<equiv> 6"
abbreviation (input) OMCI_MT_SET :: nat where "OMCI_MT_SET \<equiv> 8"
abbreviation (input) OMCI_MT_GET :: nat where "OMCI_MT_GET \<equiv> 9"
abbreviation (input) OMCI_MT_MIB_RESET :: nat where "OMCI_MT_MIB_RESET \<equiv> 15"
abbreviation (input) OMCI_MT_ALARM :: u8 where "OMCI_MT_ALARM \<equiv> 16"
abbreviation (input) OMCI_MT_AVC :: u8 where "OMCI_MT_AVC \<equiv> 17"
abbreviation (input) OMCI_MT_GET_CURR_DATA :: nat where "OMCI_MT_GET_CURR_DATA \<equiv> 28"

abbreviation (input) OMCI_MR_CMD_SUCCESS :: u8 where "OMCI_MR_CMD_SUCCESS \<equiv> 0"
abbreviation (input) OMCI_MR_CMD_ERROR :: u8 where "OMCI_MR_CMD_ERROR \<equiv> 1"
abbreviation (input) OMCI_MR_CMD_NOT_SUPPORTED :: u8 where "OMCI_MR_CMD_NOT_SUPPORTED \<equiv> 2"
abbreviation (input) OMCI_MR_PARAM_ERROR :: u8 where "OMCI_MR_PARAM_ERROR \<equiv> 3"
abbreviation (input) OMCI_MR_UNKNOWN_ME :: u8 where "OMCI_MR_UNKNOWN_ME \<equiv> 4"
abbreviation (input) OMCI_MR_UNKNOWN_ME_INST :: u8 where "OMCI_MR_UNKNOWN_ME_INST \<equiv> 5"
abbreviation (input) OMCI_MR_DEVICE_BUSY :: u8 where "OMCI_MR_DEVICE_BUSY \<equiv> 6"
abbreviation (input) OMCI_MR_INST_EXISTS :: u8 where "OMCI_MR_INST_EXISTS \<equiv> 7"
abbreviation (input) OMCI_MR_ATTR_FAILED :: u8 where "OMCI_MR_ATTR_FAILED \<equiv> 9"

definition omci_msg_type_mt_get :: "omci_msg \<Rightarrow> nat" where
  "omci_msg_type_mt_get m = unat (mtype m AND 0x1F)"

definition omci_msg_type_ak_get :: "omci_msg \<Rightarrow> u8" where
  "omci_msg_type_ak_get m = drop_bit 5 (mtype m AND 0x20)"

definition omci_msg_type_ar_get :: "omci_msg \<Rightarrow> u8" where
  "omci_msg_type_ar_get m = drop_bit 6 (mtype m AND 0x40)"

definition omci_msg_type_db_get :: "omci_msg \<Rightarrow> u8" where
  "omci_msg_type_db_get m = drop_bit 7 (mtype m AND 0x80)"

definition omci_msg_type_mt_set :: "u8 \<Rightarrow> omci_msg \<Rightarrow> omci_msg" where
  "omci_msg_type_mt_set val m = m\<lparr> mtype := mtype m AND 0xE0 OR val \<rparr>"

definition omci_msg_type_ak_set :: "u8 \<Rightarrow> omci_msg \<Rightarrow> omci_msg" where
  "omci_msg_type_ak_set val m = m\<lparr> mtype := mtype m AND NOT 0x20 OR push_bit 5 val \<rparr>"

definition omci_msg_type_ar_set :: "u8 \<Rightarrow> omci_msg \<Rightarrow> omci_msg" where
  "omci_msg_type_ar_set val m = m\<lparr> mtype := mtype m AND NOT 0x40 OR push_bit 6 val \<rparr>"

definition omci_msg_type_db_set :: "u8 \<Rightarrow> omci_msg \<Rightarrow> omci_msg" where
  "omci_msg_type_db_set val m = m\<lparr> mtype := mtype m AND NOT 0x80 OR push_bit 7 val \<rparr>"

text \<open>A message of zeros, as \<^verbatim>\<open>memset\<close> leaves it, and a write into the contents.\<close>

definition msg_zero :: omci_msg where
  "msg_zero = \<lparr> tci = 0, mtype = 0, dev_id = 0, m_class = 0, m_instance = 0, contents = replicate 32 0 \<rparr>"

definition msg_put :: "nat \<Rightarrow> octets \<Rightarrow> omci_msg \<Rightarrow> omci_msg" where
  "msg_put off bs m = m\<lparr> contents := memput (contents m) off bs \<rparr>"

subsection \<open>Managed entities\<close>

datatype pm_interval = OMCI_PM_INTERVAL_CURR | OMCI_PM_INTERVAL_HIST | OMCI_PM_INTERVAL_ABS | OMCI_PM_INTERVAL_END

record arc_ctx =
  arc_attr :: nat
  arc_interval_attr :: nat
  arc_timeout_id :: u32

record pm_ctx =
  interval_curr :: nat
  interval_hist :: nat
  interval_abs :: nat
  pm_tca_bitmap :: octets
  pm_thr :: "u32 list"

record me =
  cls :: me_class
  instance_id :: u16
  bufs :: "octets list"
  data :: "nat option"
  alarm_bitmap :: "octets option"
  arc_context :: "arc_ctx option"
  pm :: "pm_ctx option"
  is_initialized :: bool
  active :: bool

text \<open>What the data pointer of an entity points to, and a copy into it.\<close>

definition me_data :: "me \<Rightarrow> octets option" where
  "me_data e = (case data e of None \<Rightarrow> None | Some i \<Rightarrow> Some (bufs e ! i))"

definition me_data_put :: "octets \<Rightarrow> me \<Rightarrow> me" where
  "me_data_put d e = (case data e of None \<Rightarrow> e | Some i \<Rightarrow> e\<lparr> bufs := (bufs e)[i := d] \<rparr>)"

subsection \<open>The context\<close>

record mib_copy_entry =
  c_class :: u16
  c_instance :: u16
  c_mask :: u16
  c_values :: octets

record alarm_copy_entry =
  ac_class :: u16
  ac_instance :: u16
  ac_bitmap :: octets

record tbl_copy_entry =
  t_class :: u16
  t_instance :: u16
  t_attr :: nat
  t_data :: "octets option"
  t_size :: nat
  t_free :: bool
  t_timeout :: u32
  t_valid :: bool

record retransmit =
  r_valid :: bool
  r_tci :: u16
  r_rsp :: omci_msg

record action_handler =
  a_run :: bool
  a_ready :: bool
  a_msg :: omci_msg
  a_rsp :: omci_msg

record omci_context =
  me_class_array :: "(me_class \<times> addr list) list"
  heap :: "addr \<Rightarrow> me option"
  me_count :: nat
  alarm_seq_num :: u8
  mib_copy_list :: "mib_copy_entry list"
  mib_copy_num :: nat
  mib_copy_timeout :: u32
  alarm_copy_list :: "alarm_copy_entry list"
  alarm_copy_timeout :: u32
  tbl_copy :: "tbl_copy_entry list"
  retransmit_lo :: retransmit
  retransmit_hi :: retransmit
  action :: action_handler
  timeouts :: timeout_ctx
  pm_list :: "addr list"
  interval_end_time :: u8
  omci_enabled :: bool
  cant_reboot :: nat
  failsafe :: bool
  lct_port :: u8
  mib_reset_in_progress :: bool
  sent :: "omci_msg list"

subsection \<open>Look-up\<close>

text \<open>
  \<^verbatim>\<open>class_entry_find\<close> uses \<^verbatim>\<open>bsearch\<close> on the sorted array. The result is an index; where two entries
  have the same identifier, \<^verbatim>\<open>bsearch\<close> always returns the same one of them, here the first.
\<close>

fun class_index :: "(me_class \<times> addr list) list \<Rightarrow> u16 \<Rightarrow> nat option" where
  "class_index [] cid = None"
| "class_index (e # es) cid = (if class_id (fst e) = cid then Some 0 else map_option Suc (class_index es cid))"

definition class_entry_find :: "omci_context \<Rightarrow> u16 \<Rightarrow> nat option" where
  "class_entry_find c cid = class_index (me_class_array c) cid"

definition me_list :: "omci_context \<Rightarrow> nat \<Rightarrow> addr list" where
  "me_list c i = snd (me_class_array c ! i)"

definition entry_class :: "omci_context \<Rightarrow> nat \<Rightarrow> me_class" where
  "entry_class c i = fst (me_class_array c ! i)"

definition me_at :: "omci_context \<Rightarrow> addr \<Rightarrow> me" where
  "me_at c a = the (heap c a)"

definition me_update :: "addr \<Rightarrow> (me \<Rightarrow> me) \<Rightarrow> omci_context \<Rightarrow> omci_context" where
  "me_update a f c = (case heap c a of None \<Rightarrow> c | Some e \<Rightarrow> c\<lparr> heap := (heap c)(a := Some (f e)) \<rparr>)"

text \<open>The walk along a class list, which ends at the first greater identifier.\<close>

fun me_search :: "(addr \<Rightarrow> u16) \<Rightarrow> u16 \<Rightarrow> addr list \<Rightarrow> addr option" where
  "me_search iid n [] = None"
| "me_search iid n (a # as) = (if n < iid a then None else if iid a = n then Some a else me_search iid n as)"

definition mib_me_find :: "omci_context \<Rightarrow> u16 \<Rightarrow> u16 \<Rightarrow> omci_error \<times> addr option" where
  "mib_me_find c cid iid =
    (case class_entry_find c cid of None \<Rightarrow> (OMCI_ERROR_ME_NOT_FOUND, None)
     | Some i \<Rightarrow> (case me_search (\<lambda>a. instance_id (me_at c a)) iid (me_list c i) of
         None \<Rightarrow> (OMCI_ERROR_ME_NOT_FOUND, None) | Some a \<Rightarrow> (OMCI_SUCCESS, Some a)))"

definition mib_me_class_resolve :: "omci_context \<Rightarrow> u16 \<Rightarrow> omci_error \<times> me_class option" where
  "mib_me_class_resolve c cid =
    (case class_entry_find c cid of None \<Rightarrow> (OMCI_ERROR_ME_NOT_SUPPORTED, None)
     | Some i \<Rightarrow> (OMCI_SUCCESS, Some (entry_class c i)))"

subsection \<open>The surroundings\<close>

text \<open>
  What the daemon calls and the model does not contain: the handlers of the classes by name, the
  device that sends messages, the allocator, the clock and the callbacks of the daemon. A get
  handler is given what the destination holds. Memory that is not initialised, on the stack and on
  the heap, is part of the surroundings.
\<close>

datatype alloc_site = ALLOC_ALARM | ALLOC_ARC | ALLOC_DATA | ALLOC_PM | ALLOC_LOCK | ALLOC_PM_LIST | ALLOC_TIMEOUT
  | ALLOC_MIB_COPY nat | ALLOC_ALARM_COPY nat

record omci_env =
  h_get :: "string \<Rightarrow> omci_context \<Rightarrow> addr \<Rightarrow> octets \<Rightarrow> omci_error \<times> octets \<times> omci_context"
  h_validate :: "string \<Rightarrow> omci_context \<Rightarrow> me_class \<Rightarrow> octets \<Rightarrow> omci_error \<times> u16"
  h_update :: "string \<Rightarrow> omci_context \<Rightarrow> addr \<Rightarrow> octets \<Rightarrow> u16 \<Rightarrow> omci_error \<times> octets \<times> omci_context"
  h_init :: "string \<Rightarrow> omci_context \<Rightarrow> addr \<Rightarrow> octets option \<Rightarrow> u16 \<Rightarrow> omci_error \<times> omci_context"
  h_shutdown :: "string \<Rightarrow> omci_context \<Rightarrow> addr \<Rightarrow> omci_error \<times> omci_context"
  h_tbl_copy :: "string \<Rightarrow> omci_context \<Rightarrow> addr \<Rightarrow> nat \<Rightarrow> omci_error \<times> octets option \<times> nat \<times> bool"
  h_counters_get :: "string \<Rightarrow> omci_context \<Rightarrow> addr \<Rightarrow> pm_interval \<Rightarrow> omci_error \<times> omci_context"
  h_thr_set :: "string \<Rightarrow> omci_context \<Rightarrow> addr \<Rightarrow> u32 list \<Rightarrow> omci_error \<times> omci_context"
  h_action :: "string \<Rightarrow> omci_context \<Rightarrow> addr option \<Rightarrow> omci_msg \<Rightarrow> omci_msg \<Rightarrow> omci_error \<times> omci_msg \<times> omci_context"
  env_send :: "omci_context \<Rightarrow> omci_msg \<Rightarrow> omci_error"
  env_malloc :: "omci_context \<Rightarrow> addr option"
  env_alloc :: "omci_context \<Rightarrow> alloc_site \<Rightarrow> bool"
  env_now :: "omci_context \<Rightarrow> u32"
  env_stack :: "u32 list"
  env_garbage :: "omci_context \<Rightarrow> octets \<times> u32 list"
  env_reboot :: "omci_context \<Rightarrow> omci_error"
  env_on_reset :: "omci_context \<Rightarrow> omci_error \<times> omci_context"

definition timeout_event_add ::
    "omci_env \<Rightarrow> u32 \<Rightarrow> timeout_handler \<Rightarrow> u16 \<Rightarrow> u16 \<Rightarrow> u32 \<Rightarrow> u32 \<Rightarrow> u32 \<Rightarrow> omci_context \<Rightarrow> omci_error \<times> u32 \<times> omci_context" where
  "timeout_event_add E time h cid iid a1 a2 a3 c =
    (case event_entry_add (env_alloc E c ALLOC_TIMEOUT) (env_now E c)
        \<lparr> arg1 = a1, arg2 = a2, arg3 = a3, to_class = cid, to_instance = iid, handler = h \<rparr> time (timeouts c) of
       (e, i, t) \<Rightarrow> (e, i, c\<lparr> timeouts := t \<rparr>))"

definition timeout_event_remove :: "u32 \<Rightarrow> omci_context \<Rightarrow> omci_context" where
  "timeout_event_remove i c = c\<lparr> timeouts := lockless_event_remove i (timeouts c) \<rparr>"

text \<open>A message goes out: the log of sent messages, and what the device returns.\<close>

definition omci_msg_send :: "omci_env \<Rightarrow> omci_msg \<Rightarrow> omci_context \<Rightarrow> omci_error \<times> omci_context" where
  "omci_msg_send E m c = (env_send E c m, c\<lparr> sent := sent c @ [m] \<rparr>)"

section \<open>Memory\<close>

lemma memget_length [simp]: "off + n \<le> length d \<Longrightarrow> length (memget d off n) = n"
  by (simp add: memget_def)

lemma memput_length [simp]: "off + length bs \<le> length d \<Longrightarrow> length (memput d off bs) = length d"
  by (simp add: memput_def)

lemma memget_put_same: "off + length bs \<le> length d \<Longrightarrow> memget (memput d off bs) off (length bs) = bs"
  by (simp add: memget_def memput_def)

lemma memget_put_before: "o1 + n \<le> o2 \<Longrightarrow> o2 + length bs \<le> length d \<Longrightarrow> memget (memput d o2 bs) o1 n = memget d o1 n"
  by (auto simp: memget_def memput_def min_def drop_take)

lemma memget_put_after: "o2 + length bs \<le> o1 \<Longrightarrow> o2 + length bs \<le> length d \<Longrightarrow> memget (memput d o2 bs) o1 n = memget d o1 n"
  by (simp add: memget_def memput_def)

lemma memput_nil [simp]: "memput d off [] = d"
  by (simp add: memput_def)

lemma memget_0 [simp]: "memget d off 0 = []"
  by (simp add: memget_def)

text \<open>Attributes: a write is read back, and no other attribute changes.\<close>

lemma attr_val_length:
  assumes "class_wf k" "length d = data_size k" "1 \<le> a" "a \<le> 16"
  shows "length (attr_val k d a) = me_attr_size_get k a"
  using assms class_wf_bound[OF assms(1,3,4)] by (cases "me_attr_size_get k a = 0") (simp_all add: attr_val_def)

lemma attr_put_length [simp]:
  assumes "class_wf k" "length d = data_size k" "1 \<le> a" "a \<le> 16" "length bs = me_attr_size_get k a"
  shows "length (attr_put k a bs d) = data_size k"
  using assms class_wf_bound[OF assms(1,3,4)] by (cases bs) (simp_all add: attr_put_def)

lemma attr_val_put_same:
  assumes "class_wf k" "length d = data_size k" "1 \<le> a" "a \<le> 16" "length bs = me_attr_size_get k a"
  shows "attr_val k (attr_put k a bs d) a = bs"
  using assms class_wf_bound[OF assms(1,3,4)] memget_put_same[of "me_attr_offset_get k a" bs d]
  by (cases bs) (simp_all add: attr_put_def attr_val_def)

lemma attr_val_put_other:
  assumes "class_wf k" "length d = data_size k" "1 \<le> a" "a \<le> 16" "1 \<le> b" "b \<le> 16" "a \<noteq> b" "length bs = me_attr_size_get k a"
  shows "attr_val k (attr_put k a bs d) b = attr_val k d b"
proof (cases "bs = [] \<or> me_attr_size_get k b = 0")
  case False
  then have s: "me_attr_size_get k a \<noteq> 0" "me_attr_size_get k b \<noteq> 0" using assms(8) by (cases bs; auto)+
  have in_a: "me_attr_offset_get k a + length bs \<le> length d" using class_wf_bound[OF assms(1,3,4) s(1)] assms(2,8) by simp
  show ?thesis
  proof (cases "a < b")
    case True
    then show ?thesis using class_wf_disjoint[OF assms(1,3) True assms(6) s] in_a assms(8)
      by (simp add: attr_val_def attr_put_def memget_put_after)
  next
    case False
    then show ?thesis using class_wf_disjoint[of k b a] assms s in_a by (simp add: attr_val_def attr_put_def memget_put_before)
  qed
qed (auto simp: attr_val_def attr_put_def)

section \<open>Numbers\<close>

lemma be_nat_less: "be_nat bs < 256 ^ length bs"
proof (induction bs)
  case (Cons b bs)
  have "unat b < 256" using unsigned_less[of b] by simp
  then have "unat b * 256 ^ length bs + 256 ^ length bs \<le> 256 * 256 ^ length bs"
    by (metis (mono_tags) Suc_leI add.commute mult_Suc mult_le_mono1)
  with Cons have "unat b * 256 ^ length bs + be_nat bs < 256 * 256 ^ length bs" by linarith
  then show ?case by simp
qed simp

lemma unat_be_num: "length bs \<le> 7 \<Longrightarrow> unat (be_num bs) = be_nat bs"
proof -
  assume "length bs \<le> 7"
  then have "be_nat bs < 256 ^ 7" using be_nat_less[of bs] power_increasing[of "length bs" 7 "256 :: nat"] by simp
  then show ?thesis by (simp add: be_num_def unsigned_of_nat take_bit_nat_eq_self)
qed

lemma be_octets_length [simp]: "length (be_octets n v) = n"
  by (induction n) auto

lemma be_nat_octets: "be_nat (be_octets n v) = unat v mod 256 ^ n"
proof (induction n)
  case (Suc n)
  have "unat (ucast (drop_bit (8 * n) v) :: u8) = unat v div 256 ^ n mod 256"
  proof -
    have "unat v < 2 ^ 64" using unsigned_less[where w = v and 'a = nat] by simp
    then have "take_bit 64 (unat v) = unat v" by (rule take_bit_nat_eq_self)
    then have "unat (drop_bit (8 * n) v) = drop_bit (8 * n) (unat v)" by (simp add: unsigned_drop_bit_eq)
    then show ?thesis by (simp add: unsigned_ucast_eq take_bit_eq_mod) (simp add: drop_bit_eq_div power_mult)
  qed
  then have "be_nat (be_octets (Suc n) v) = unat v div 256 ^ n mod 256 * 256 ^ n + unat v mod 256 ^ n"
    using Suc by simp
  also have "\<dots> = unat v mod 256 ^ Suc n" using mod_mult2_eq[of "unat v" "256 ^ n" 256] by (simp only: power_Suc2) (simp only: mult.commute)
  finally show ?case .
qed simp

end
