(* ===== verification/Omci_Alarm.thy ===== *)
theory Omci_Alarm
  imports Omci_Ctx
begin

text \<open>
  Alarm bitmaps (\<^verbatim>\<open>omci_alarm.c\<close>) and the autonomous messages that carry them (\<^verbatim>\<open>alarm_send\<close> and
  \<^verbatim>\<open>tca_send\<close> of \<^verbatim>\<open>omci_core.c\<close>): 224 alarms in 28 octets, the most significant bit first.
\<close>

section \<open>Definitions\<close>

definition is_alarm_bitmap_empty :: "octets option \<Rightarrow> bool" where
  "is_alarm_bitmap_empty b = (case b of None \<Rightarrow> True | Some bs \<Rightarrow> list_all (\<lambda>x. x = 0) (take OMCI_ALARM_BITMAP_SIZE bs))"

definition alarm_bit :: "u8 \<Rightarrow> u8" where
  "alarm_bit alarm = push_bit (7 - unat alarm mod 8) 1"

definition alarm_set :: "octets option \<Rightarrow> u8 \<Rightarrow> bool \<Rightarrow> omci_error \<times> octets option" where
  "alarm_set b alarm act = (case b of None \<Rightarrow> (OMCI_ERROR_INVALID_PTR, None)
     | Some bs \<Rightarrow>
         if unat alarm > OMCI_ALARMS_NUM - 1 then (OMCI_ERROR_BOUNDS, Some bs)
         else let i = unat alarm div 8 in
           (OMCI_SUCCESS, Some (if act then bs[i := bs ! i OR alarm_bit alarm] else bs[i := bs ! i AND NOT (alarm_bit alarm)])))"

definition alarm_bitmap_clear :: "octets option \<Rightarrow> omci_error \<times> octets option" where
  "alarm_bitmap_clear b = (case b of None \<Rightarrow> (OMCI_ERROR_INVALID_PTR, None)
     | Some bs \<Rightarrow> (OMCI_SUCCESS, Some (replicate OMCI_ALARM_BITMAP_SIZE 0)))"

definition alarm_get :: "octets option \<Rightarrow> u8 \<Rightarrow> omci_error \<times> bool" where
  "alarm_get b alarm = (case b of None \<Rightarrow> (OMCI_ERROR_INVALID_PTR, False)
     | Some bs \<Rightarrow> if unat alarm > OMCI_ALARMS_NUM - 1 then (OMCI_ERROR_BOUNDS, False)
         else (OMCI_SUCCESS, bs ! (unat alarm div 8) AND alarm_bit alarm \<noteq> 0))"

text \<open>The header of an autonomous message; the four setters act on a message of zeros.\<close>

definition autonomous_msg :: "u8 \<Rightarrow> me \<Rightarrow> omci_msg" where
  "autonomous_msg mt e =
    (omci_msg_type_db_set 0 (omci_msg_type_ar_set 0 (omci_msg_type_ak_set 0 (omci_msg_type_mt_set mt (msg_zero\<lparr> tci := 0 \<rparr>)))))
      \<lparr> dev_id := OMCI_FORMAT_BASELINE, m_class := class_id (cls e), m_instance := instance_id e \<rparr>"

definition alarm_send :: "omci_env \<Rightarrow> me \<Rightarrow> omci_context \<Rightarrow> omci_error \<times> omci_context" where
  "alarm_send E e c = (case alarm_bitmap e of None \<Rightarrow> (OMCI_ERROR_INVALID_PTR, c)
     | Some b \<Rightarrow> omci_msg_send E (msg_put 31 [alarm_seq_num c] (msg_put 0 (take OMCI_ALARM_BITMAP_SIZE b) (autonomous_msg OMCI_MT_ALARM e))) c)"

definition tca_send :: "omci_env \<Rightarrow> me \<Rightarrow> octets \<Rightarrow> omci_context \<Rightarrow> omci_error \<times> omci_context" where
  "tca_send E e b c = omci_msg_send E (msg_put 0 (take OMCI_ALARM_BITMAP_SIZE b) (autonomous_msg OMCI_MT_ALARM e)) c"

section \<open>Bitmaps\<close>

lemma alarm_bit_bit: "bit (alarm_bit a) n \<longleftrightarrow> n = 7 - unat a mod 8"
  by (auto simp: alarm_bit_def push_bit_eq_mult bit_exp_iff)

lemma alarm_test: "x AND alarm_bit a \<noteq> 0 \<longleftrightarrow> bit x (7 - unat a mod 8)"
proof -
  have "x AND alarm_bit a = 0 \<longleftrightarrow> (\<forall>n. \<not> (bit x n \<and> n = 7 - unat a mod 8))"
    by (auto simp: bit_eq_iff[of _ 0] bit_and_iff alarm_bit_bit dest: spec[of _ "7 - unat a mod 8"])
  then show ?thesis by auto
qed

text \<open>Two alarms differ in the octet or in the bit.\<close>

lemma alarm_position_inj: "a \<noteq> b \<Longrightarrow> unat a div 8 = unat b div 8 \<Longrightarrow> 7 - unat a mod 8 \<noteq> 7 - unat b mod 8"
  for a b :: u8
proof
  assume ne: "a \<noteq> b" and d: "unat a div 8 = unat b div 8" and m: "7 - unat a mod 8 = 7 - unat b mod 8"
  have "unat a mod 8 < 8" "unat b mod 8 < 8" by simp_all
  with m have "unat a mod 8 = unat b mod 8" by arith
  with d have "unat a = unat b" by (metis div_mult_mod_eq)
  with ne show False by (simp add: word_unat_eq_iff)
qed

text \<open>
  Alarm bitmaps round trip: after an alarm of the table is set or cleared it reads back as
  written, every other alarm reads as before and the bitmap keeps its 28 octets; alarm numbers from
  224 on are refused and change nothing.
\<close>

theorem alarm_set_get:
  assumes "length bs = 28"
  shows "(if unat a < 224
     then \<exists>bs'. alarm_set (Some bs) a v = (OMCI_SUCCESS, Some bs') \<and> length bs' = 28
       \<and> alarm_get (Some bs') b = (if a = b then (OMCI_SUCCESS, v) else alarm_get (Some bs) b)
     else alarm_set (Some bs) a v = (OMCI_ERROR_BOUNDS, Some bs))"
proof (cases "unat a < 224")
  case True
  define bs' where "bs' = (if v then bs[unat a div 8 := bs ! (unat a div 8) OR alarm_bit a]
    else bs[unat a div 8 := bs ! (unat a div 8) AND NOT (alarm_bit a)])"
  have i: "unat a div 8 < length bs" using True assms by simp
  have s: "alarm_set (Some bs) a v = (OMCI_SUCCESS, Some bs')" using True by (simp add: alarm_set_def bs'_def Let_def)
  have "bit (bs' ! (unat b div 8)) (7 - unat b mod 8) = (if a = b then v else bit (bs ! (unat b div 8)) (7 - unat b mod 8))"
    using i alarm_position_inj[of a b] by (auto simp: bs'_def nth_list_update bit_or_iff bit_and_iff bit_not_iff alarm_bit_bit)
  then have "alarm_get (Some bs') b = (if a = b then (OMCI_SUCCESS, v) else alarm_get (Some bs) b)"
    using True by (auto simp: alarm_get_def alarm_test)
  moreover have "length bs' = 28" using assms by (simp add: bs'_def)
  ultimately show ?thesis using True s by auto
qed (simp add: alarm_set_def)

theorem alarm_set_get_witness:
  "(if unat (9 :: u8) < 224
     then \<exists>bs'. alarm_set (Some (replicate 28 0)) 9 True = (OMCI_SUCCESS, Some bs') \<and> length bs' = 28
       \<and> alarm_get (Some bs') 10 = (if (9 :: u8) = 10 then (OMCI_SUCCESS, True) else alarm_get (Some (replicate 28 0)) 10)
     else alarm_set (Some (replicate 28 0)) 9 True = (OMCI_ERROR_BOUNDS, Some (replicate 28 0)))"
  by (rule alarm_set_get) simp

end
