(* ===== verification/Omci_Pm.thy ===== *)
theory Omci_Pm
  imports Omci_Alarm
begin

text \<open>
  Performance monitoring (\<^verbatim>\<open>omci_pm.c\<close>): counters of one, two and four octets, the update of the
  current interval from the absolute counters of the hardware, threshold crossing alerts and the
  end of a 15 minute interval. An internally managed entity has three buffers that the current
  interval, the history and the absolute counters point to.
\<close>

section \<open>Definitions\<close>

subsection \<open>Counter arithmetic\<close>

definition attr_data_get :: "octets \<Rightarrow> nat \<Rightarrow> nat \<Rightarrow> u64" where
  "attr_data_get d off sz = (if sz = 1 \<or> sz = 2 \<or> sz = 4 then be_num (memget d off sz) else 0)"

definition attr_data_set :: "octets \<Rightarrow> nat \<Rightarrow> nat \<Rightarrow> u64 \<Rightarrow> octets" where
  "attr_data_set d off sz val = (if sz = 1 \<or> sz = 2 \<or> sz = 4 then memput d off (be_octets sz val) else d)"

definition attr_sub :: "u64 \<Rightarrow> u64 \<Rightarrow> nat \<Rightarrow> u64" where
  "attr_sub lhs rhs sz =
    (if sz = 1 then (if (ucast lhs :: u8) < ucast rhs then 0xFF - rhs + lhs + 1 else lhs - rhs)
     else if sz = 2 then (if (ucast lhs :: u16) < ucast rhs then 0xFFFF - rhs + lhs + 1 else lhs - rhs)
     else if sz = 4 then (if (ucast lhs :: u32) < ucast rhs then 0xFFFFFFFF - rhs + lhs + 1 else lhs - rhs)
     else 0)"

definition attr_add :: "u64 \<Rightarrow> u64 \<Rightarrow> nat \<Rightarrow> u64" where
  "attr_add lhs rhs sz =
    (if sz = 1 then (if (ucast (lhs + rhs) :: u8) < ucast lhs then 0xFF else lhs + rhs)
     else if sz = 2 then (if (ucast (lhs + rhs) :: u16) < ucast lhs then 0xFFFF else lhs + rhs)
     else if sz = 4 then (if (ucast (lhs + rhs) :: u32) < ucast lhs then 0xFFFFFFFF else lhs + rhs)
     else 0)"

subsection \<open>Counters\<close>

abbreviation (input) omci_me_pm_thr_data_id :: nat where "omci_me_pm_thr_data_id \<equiv> 2"
abbreviation (input) omci_me_pm_counter_1 :: nat where "omci_me_pm_counter_1 \<equiv> 3"
abbreviation (input) omci_me_pm_counter_max :: nat where "omci_me_pm_counter_max \<equiv> 17"
abbreviation (input) PM_THR_NUM :: nat where "PM_THR_NUM \<equiv> 15"

definition counter_update :: "me_class \<Rightarrow> octets \<Rightarrow> octets \<Rightarrow> nat \<Rightarrow> octets \<Rightarrow> octets" where
  "counter_update k absd old attr cur =
    (if \<not> is_me_attr_exist k attr then cur
     else let sz = me_attr_size_get k attr; off = me_attr_offset_get k attr;
              diff = attr_sub (attr_data_get absd off sz) (attr_data_get old off sz) sz
       in attr_data_set cur off sz (attr_add (attr_data_get cur off sz) diff sz))"

definition counters_update :: "me_class \<Rightarrow> octets \<Rightarrow> octets \<Rightarrow> octets \<Rightarrow> octets" where
  "counters_update k absd old cur = fold (counter_update k absd old) [omci_me_pm_counter_1..<omci_me_pm_counter_max] cur"

subsection \<open>Thresholds\<close>

text \<open>The loop over the table ends at the entry with a zero.\<close>

fun thr_fill_loop :: "me_class \<Rightarrow> octets \<Rightarrow> u32 list \<Rightarrow> me_tca list \<Rightarrow> octets \<Rightarrow> omci_error \<times> octets" where
  "thr_fill_loop k cur thr [] tca = (OMCI_SUCCESS, tca)"
| "thr_fill_loop k cur thr (t # ts) tca =
    (if thr_num t = 0 \<or> attr_num t = 0 \<or> thr_attr_num t = 0 then (OMCI_SUCCESS, tca)
     else let v = attr_data_get cur (me_attr_offset_get k (attr_num t)) (me_attr_size_get k (attr_num t));
              limit = ucast (thr ! (thr_attr_num t - 1)) :: u64
       in if limit = 0 then thr_fill_loop k cur thr ts tca
          else if limit < v then
            (case alarm_set (Some tca) (of_nat (thr_num t)) True of
               (OMCI_SUCCESS, b) \<Rightarrow> thr_fill_loop k cur thr ts (the b) | (e, b) \<Rightarrow> (e, the b))
          else thr_fill_loop k cur thr ts tca)"

definition the_pm :: "me \<Rightarrow> pm_ctx" where
  "the_pm e = the (pm e)"

definition me_thr_fill :: "me \<Rightarrow> octets \<Rightarrow> omci_error \<times> octets" where
  "me_thr_fill e tca = thr_fill_loop (cls e) (bufs e ! interval_curr (the_pm e)) (pm_thr (the_pm e)) (the (tca_table (cls e))) tca"

text \<open>The thresholds that were not crossed before in this interval.\<close>

definition new_crossings :: "octets \<Rightarrow> octets \<Rightarrow> octets" where
  "new_crossings now before = map2 (\<lambda>n b. (n XOR b) AND n) now before"

definition me_thr_check :: "omci_env \<Rightarrow> addr \<Rightarrow> omci_context \<Rightarrow> omci_error \<times> omci_context" where
  "me_thr_check E a c =
    (let e = me_at c a in
     case me_thr_fill e (replicate OMCI_ALARM_BITMAP_SIZE 0) of
       (OMCI_SUCCESS, tca) \<Rightarrow>
         let new = new_crossings tca (pm_tca_bitmap (the_pm e));
             c = me_update a (\<lambda>e. e\<lparr> pm := Some ((the_pm e)\<lparr> pm_tca_bitmap := map2 (\<lambda>b n. b OR n) (pm_tca_bitmap (the_pm e)) new \<rparr>) \<rparr>) c
         in if list_ex (\<lambda>x. x \<noteq> 0) new then tca_send E (me_at c a) new c else (OMCI_SUCCESS, c)
     | (err, tca) \<Rightarrow> (err, c))"

subsection \<open>Intervals\<close>

text \<open>
  The data pointer of an internally managed entity. \<^verbatim>\<open>pm_me_interval_set\<close> and \<^verbatim>\<open>pm_me_counters_get\<close>
  call each other, the first for entities that are not internally managed and the second for those
  that are, so the pointer part stands on its own.
\<close>

definition pm_interval_ptr :: "pm_interval \<Rightarrow> me \<Rightarrow> me" where
  "pm_interval_ptr i e = e\<lparr> data := Some (case i of OMCI_PM_INTERVAL_CURR \<Rightarrow> interval_curr (the_pm e)
     | OMCI_PM_INTERVAL_HIST \<Rightarrow> interval_hist (the_pm e) | _ \<Rightarrow> interval_abs (the_pm e)) \<rparr>"

definition is_internal :: "me_class \<Rightarrow> bool" where
  "is_internal k \<longleftrightarrow> class_prop k AND OMCI_ME_PROP_PM_INTERNAL \<noteq> 0"

definition is_pm :: "me_class \<Rightarrow> bool" where
  "is_pm k \<longleftrightarrow> class_prop k AND OMCI_ME_PROP_PM \<noteq> 0"

definition pm_counters_fetch :: "omci_env \<Rightarrow> string \<Rightarrow> addr \<Rightarrow> pm_interval \<Rightarrow> omci_context \<Rightarrow> omci_error \<times> omci_context" where
  "pm_counters_fetch E n a interval c =
    (let internal = is_internal (cls (me_at c a)); old = bufs (me_at c a) ! interval_abs (the_pm (me_at c a));
         c = (if internal then me_update a (pm_interval_ptr OMCI_PM_INTERVAL_ABS) c else c)
     in case h_counters_get E n c a interval of (err, c) \<Rightarrow>
       if internal then
         (OMCI_SUCCESS,
          me_update a (\<lambda>e. pm_interval_ptr
              (if interval = OMCI_PM_INTERVAL_ABS \<or> interval = OMCI_PM_INTERVAL_END then OMCI_PM_INTERVAL_CURR else interval)
              (e\<lparr> bufs := (bufs e)[interval_curr (the_pm e) :=
                  counters_update (cls e) (bufs e ! interval_abs (the_pm e)) old (bufs e ! interval_curr (the_pm e))] \<rparr>)) c)
       else (err, c))"

definition pm_me_counters_get :: "omci_env \<Rightarrow> addr \<Rightarrow> pm_interval \<Rightarrow> omci_context \<Rightarrow> omci_error \<times> omci_context" where
  "pm_me_counters_get E a interval c =
    (let k = cls (me_at c a) in
     case (case counters_get_handler k of None \<Rightarrow> (OMCI_SUCCESS, c) | Some n \<Rightarrow> pm_counters_fetch E n a interval c) of
       (OMCI_SUCCESS, c) \<Rightarrow>
         if thr_set_handler k \<noteq> None \<and> is_internal k then me_thr_check E a c else (OMCI_SUCCESS, c)
     | (err, c) \<Rightarrow> (err, c))"

definition pm_me_interval_set :: "omci_env \<Rightarrow> addr \<Rightarrow> pm_interval \<Rightarrow> omci_context \<Rightarrow> omci_context" where
  "pm_me_interval_set E a interval c =
    (if is_internal (cls (me_at c a)) then me_update a (pm_interval_ptr interval) c
     else if is_pm (cls (me_at c a)) then snd (pm_me_counters_get E a interval c)
     else c)"

definition default_me_thr_set :: "addr \<Rightarrow> u32 list \<Rightarrow> omci_context \<Rightarrow> omci_error \<times> omci_context" where
  "default_me_thr_set a thr c =
    (if \<not> is_internal (cls (me_at c a)) then (OMCI_SUCCESS, c)
     else (OMCI_SUCCESS, me_update a (\<lambda>e. e\<lparr> pm := Some ((the_pm e)\<lparr> pm_thr := take PM_THR_NUM thr \<rparr>) \<rparr>) c))"

text \<open>The round of the monitoring thread: every entity of the list is polled for absolute counters.\<close>

definition pm_thread_round :: "omci_env \<Rightarrow> omci_context \<Rightarrow> omci_context" where
  "pm_thread_round E c = fold (\<lambda>a c. snd (pm_me_counters_get E a OMCI_PM_INTERVAL_ABS c)) (pm_list c) c"

text \<open>
  The end of an interval: the buffers of the current interval and of the history change places, the
  new current interval is cleared but for its first three octets. The data pointer is not changed.
\<close>

definition pm_rotate :: "me \<Rightarrow> me" where
  "pm_rotate e =
    (let p = the_pm e; p' = p\<lparr> interval_hist := interval_curr p, interval_curr := interval_hist p,
                              pm_tca_bitmap := replicate OMCI_ALARM_BITMAP_SIZE 0 \<rparr>
     in e\<lparr> bufs := (bufs e)[interval_curr p' :=
            memput (replicate (data_size (cls e)) 0) 0 (memget (bufs e ! interval_hist p') 0 3)], pm := Some p' \<rparr>)"

definition interval_end_walker :: "omci_env \<Rightarrow> addr \<Rightarrow> omci_context \<Rightarrow> omci_error \<times> omci_context" where
  "interval_end_walker E a c =
    (let e = me_at c a in
     if \<not> is_pm (cls e) then (OMCI_SUCCESS, c)
     else case (if is_alarm_bitmap_empty (alarm_bitmap e) then (OMCI_SUCCESS, c)
                else case tca_send E e (the (alarm_bitmap e)) c of
                   (OMCI_SUCCESS, c) \<Rightarrow> (OMCI_SUCCESS, me_update a (\<lambda>e. e\<lparr> alarm_bitmap := snd (alarm_bitmap_clear (alarm_bitmap e)) \<rparr>) c)
                 | (err, c) \<Rightarrow> (err, c)) of
       (OMCI_SUCCESS, c) \<Rightarrow>
         (OMCI_SUCCESS, if is_internal (cls e) then me_update a pm_rotate (snd (pm_me_counters_get E a OMCI_PM_INTERVAL_END c)) else c)
     | (err, c) \<Rightarrow> (err, c))"

text \<open>
  Polling: the absolute counters are read again and again, each time against the previous reading.
  \<^verbatim>\<open>counter\<close> is the value of a counter in a buffer, \<^verbatim>\<open>increments\<close> what the hardware counted modulo
  the width of the counter.
\<close>

fun pm_polls :: "me_class \<Rightarrow> octets list \<Rightarrow> octets \<Rightarrow> octets \<Rightarrow> octets" where
  "pm_polls k [] old cur = cur"
| "pm_polls k (r # rs) old cur = pm_polls k rs r (counters_update k r old cur)"

definition counter :: "me_class \<Rightarrow> octets \<Rightarrow> nat \<Rightarrow> nat" where
  "counter k d a = be_nat (attr_val k d a)"

definition counter_max :: "me_class \<Rightarrow> nat \<Rightarrow> nat" where
  "counter_max k a = 256 ^ me_attr_size_get k a"

fun increments :: "me_class \<Rightarrow> nat \<Rightarrow> octets list \<Rightarrow> octets \<Rightarrow> nat" where
  "increments k a [] old = 0"
| "increments k a (r # rs) old = (counter k r a + counter_max k a - counter k old a) mod counter_max k a + increments k a rs r"

definition counter_octets :: "me_class \<Rightarrow> octets \<Rightarrow> octets \<Rightarrow> nat \<Rightarrow> octets \<Rightarrow> octets" where
  "counter_octets k absd old a v = (let sz = me_attr_size_get k a in
     be_octets sz (attr_add (be_num v) (attr_sub (be_num (attr_val k absd a)) (be_num (attr_val k old a)) sz) sz))"

definition is_counter :: "me_class \<Rightarrow> nat \<Rightarrow> bool" where
  "is_counter k a \<longleftrightarrow> 3 \<le> a \<and> a \<le> 16 \<and> is_me_attr_exist k a \<and> me_attr_size_get k a \<in> {1, 2, 4}"

text \<open>The data of a performance monitoring entity starts with the header \<^verbatim>\<open>struct pm_me_data\<close>.\<close>

definition pm_layout :: "me_class \<Rightarrow> bool" where
  "pm_layout k \<longleftrightarrow> class_wf k \<and> me_attr_size_get k 1 = 1 \<and> me_attr_size_get k 2 = 2"

text \<open>An internally managed entity with its three buffers.\<close>

definition pm_me_ok :: "me \<Rightarrow> bool" where
  "pm_me_ok e \<longleftrightarrow> pm_layout (cls e) \<and> pm e \<noteq> None \<and> list_all (\<lambda>b. length b = data_size (cls e)) (bufs e)
     \<and> distinct [interval_curr (the_pm e), interval_hist (the_pm e), interval_abs (the_pm e)]
     \<and> interval_curr (the_pm e) < length (bufs e) \<and> interval_hist (the_pm e) < length (bufs e) \<and> interval_abs (the_pm e) < length (bufs e)
     \<and> length (pm_tca_bitmap (the_pm e)) = OMCI_ALARM_BITMAP_SIZE \<and> length (pm_thr (the_pm e)) = PM_THR_NUM"

text \<open>An example class for the witnesses: interval end time, threshold identifier and two counters.\<close>

definition example_pm_init :: me_class where
  "example_pm_init = mk_class 0x118
     [ATTR_UINT 0 0xFF 0 1 OMCI_ATTR_PROP_RD None, ATTR_PTR 0 0xFFFF 1 2 OMCI_ATTR_PROP_RD None,
      ATTR_UINT 0 0xFF 3 1 OMCI_ATTR_PROP_RD None, ATTR_UINT 0 0xFFFF 4 2 OMCI_ATTR_PROP_RD None]
     [] None None None (Some ''default_me_update'') None None None (Some ''default_me_thr_set'') (Some [TCA 1 3 1, TCA 0 0 0]) 6
     (OMCI_ME_PROP_PM OR OMCI_ME_PROP_PM_INTERNAL)"

definition example_pm_class :: me_class where
  "example_pm_class = the (class_check example_pm_init)"

definition example_pm_me :: me where
  "example_pm_me = \<lparr> cls = example_pm_class, instance_id = 1, bufs = [[7, 0, 5, 99, 1, 0], [6, 0, 5, 3, 0, 0], [0, 0, 0, 40, 2, 2]],
     data = Some 0, alarm_bitmap = None, arc_context = None,
     pm = Some \<lparr> interval_curr = 0, interval_hist = 1, interval_abs = 2, pm_tca_bitmap = replicate 28 0, pm_thr = replicate 15 10 \<rparr>,
     is_initialized = True, active = True \<rparr>"

definition example_pm_ctx :: omci_context where
  "example_pm_ctx = \<lparr> me_class_array = [(example_pm_class, [5])], heap = [5 \<mapsto> example_pm_me], me_count = 1, alarm_seq_num = 0,
     mib_copy_list = [], mib_copy_num = 0, mib_copy_timeout = 0, alarm_copy_list = [], alarm_copy_timeout = 0, tbl_copy = [],
     retransmit_lo = \<lparr> r_valid = False, r_tci = 0, r_rsp = msg_zero \<rparr>, retransmit_hi = \<lparr> r_valid = False, r_tci = 0, r_rsp = msg_zero \<rparr>,
     action = \<lparr> a_run = False, a_ready = False, a_msg = msg_zero, a_rsp = msg_zero \<rparr>,
     timeouts = \<lparr> timeout_list = [], last_timeout_id = 0 \<rparr>, pm_list = [5], interval_end_time = 0, omci_enabled = True, cant_reboot = 0,
     failsafe = False, lct_port = 0xFF, mib_reset_in_progress = False, sent = [] \<rparr>"

section \<open>Counter arithmetic\<close>

lemma example_pm_facts: "class_wf example_pm_class \<and> data_size example_pm_class = 6 \<and> is_counter example_pm_class 3 \<and> pm_layout example_pm_class"
proof -
  have "class_layout_ok example_pm_init" by code_simp
  then obtain d where d: "class_check example_pm_init = Some d" "unmasked d = unmasked example_pm_init" "class_wf d"
    using class_check_ok by blast
  have "data_size example_pm_init = 6 \<and> is_counter example_pm_init 3 \<and> me_attr_size_get example_pm_init 1 = 1
      \<and> me_attr_size_get example_pm_init 2 = 2" by code_simp
  then show ?thesis using d unmasked_eqD[OF d(2)]
    by (auto simp: example_pm_class_def pm_layout_def is_counter_def is_me_attr_exist_def me_attr_prop_get_def me_attr_size_get_def me_attr_get_def
        split: if_splits)
qed

lemma unat_ucast_small: "LENGTH('b :: len) \<le> 64 \<Longrightarrow> unat v < 2 ^ LENGTH('b) \<Longrightarrow> unat (ucast v :: 'b word) = unat v"
  for v :: u64
  by (simp add: unsigned_ucast_eq take_bit_nat_eq_self)

lemma unat_add_small: "unat (l :: u64) + unat r < 2 ^ 64 \<Longrightarrow> unat (l + r) = unat l + unat r"
  by (simp add: unat_word_ariths)

lemma ucast_less_iff: "(ucast l :: 'b :: len word) < ucast r \<longleftrightarrow> unat l mod 2 ^ LENGTH('b) < unat r mod 2 ^ LENGTH('b)"
  if "LENGTH('b) \<le> 64" for l r :: u64
  using that by (simp add: word_less_nat_alt unsigned_ucast_eq take_bit_eq_mod)

text \<open>The wrap-around of the subtraction, for a width of \<^verbatim>\<open>k\<close> bits.\<close>

lemma sub_wrap:
  assumes k: "k < 62" and l: "unat l < 2 ^ k" and r: "unat r < 2 ^ k" and M: "unat M = 2 ^ k - 1"
  shows "unat (if unat l < unat r then M - r + l + 1 else l - r :: u64) = (unat l + 2 ^ k - unat r) mod 2 ^ k"
proof (cases "unat l < unat r")
  case True
  have k62: "(2 :: nat) ^ k \<le> 2 ^ 62" using k by (intro power_increasing) auto
  have m: "unat (M - r) = 2 ^ k - 1 - unat r" using r M by (simp add: unat_sub word_le_nat_alt)
  have "unat (M - r + l) = unat (M - r) + unat l" using k62 l m by (intro unat_add_small) simp
  moreover have "unat (M - r + l + 1) = unat (M - r + l) + unat (1 :: u64)"
    using k62 l m calculation by (intro unat_add_small) simp
  ultimately have "unat (M - r + l + 1) = 2 ^ k - unat r + unat l" using m r by simp
  moreover have "unat l + 2 ^ k - unat r < 2 ^ k" using True r by linarith
  ultimately show ?thesis using True r by simp
next
  case False
  then have "unat (l - r) = unat l - unat r" by (simp add: unat_sub word_le_nat_alt)
  moreover have "unat l + 2 ^ k - unat r = (unat l - unat r) + 2 ^ k" using False by simp
  moreover have "(unat l - unat r + 2 ^ k) mod 2 ^ k = unat l - unat r" using l by (simp add: mod_less)
  ultimately show ?thesis using False by (simp only: if_False)
qed

lemma add_saturates:
  assumes "k < 63" "unat l < 2 ^ k" "unat r < 2 ^ k" "unat M = 2 ^ k - 1"
  shows "unat (if unat (l + r) mod 2 ^ k < unat l then M else l + r :: u64) = min (2 ^ k - 1) (unat l + unat r)"
proof -
  have "(2 :: nat) ^ k \<le> 2 ^ 62" using assms(1) by (intro power_increasing) auto
  then have s: "unat (l + r) = unat l + unat r" using assms by (intro unat_add_small) simp
  show ?thesis
  proof (cases "unat l + unat r < 2 ^ k")
    case True
    then have "min (2 ^ k - 1) (unat l + unat r) = unat l + unat r" by (intro min_absorb2) linarith
    then show ?thesis using s True by simp
  next
    case False
    then have "(unat l + unat r) mod 2 ^ k = unat l + unat r - 2 ^ k" using assms(2,3) by (simp add: le_mod_geq)
    moreover have "unat l + unat r - 2 ^ k < unat l" using assms(3) False by linarith
    moreover have "min (2 ^ k - 1) (unat l + unat r) = 2 ^ k - 1" using False by (intro min_absorb1) linarith
    ultimately show ?thesis using s assms(4) by (simp only: if_True)
  qed
qed

lemma attr_sub_modular:
  assumes "sz \<in> {1, 2, 4}" "unat l < 256 ^ sz" "unat r < 256 ^ sz"
  shows "unat (attr_sub l r sz) = (unat l + 256 ^ sz - unat r) mod 256 ^ sz"
proof -
  consider "sz = 1" | "sz = 2" | "sz = 4" using assms(1) by auto
  then show ?thesis
  proof cases
    case 1
    then show ?thesis using sub_wrap[where k = 8 and l = l and r = r and M = "0xFF"] assms(2,3) by (simp add: attr_sub_def ucast_less_iff)
  next
    case 2
    then show ?thesis using sub_wrap[where k = 16 and l = l and r = r and M = "0xFFFF"] assms(2,3) by (simp add: attr_sub_def ucast_less_iff)
  next
    case 3
    then show ?thesis using sub_wrap[where k = 32 and l = l and r = r and M = "0xFFFFFFFF"] assms(2,3) by (simp add: attr_sub_def ucast_less_iff)
  qed
qed

lemma attr_add_saturating:
  assumes "sz \<in> {1, 2, 4}" "unat l < 256 ^ sz" "unat r < 256 ^ sz"
  shows "unat (attr_add l r sz) = min (256 ^ sz - 1) (unat l + unat r)"
proof -
  consider "sz = 1" | "sz = 2" | "sz = 4" using assms(1) by auto
  then show ?thesis
  proof cases
    case 1
    then show ?thesis using add_saturates[where k = 8 and l = l and r = r and M = "0xFF"] assms(2,3) by (simp add: attr_add_def ucast_less_iff)
  next
    case 2
    then show ?thesis using add_saturates[where k = 16 and l = l and r = r and M = "0xFFFF"] assms(2,3) by (simp add: attr_add_def ucast_less_iff)
  next
    case 3
    then show ?thesis using add_saturates[where k = 32 and l = l and r = r and M = "0xFFFFFFFF"] assms(2,3) by (simp add: attr_add_def ucast_less_iff)
  qed
qed

section \<open>Counters\<close>

lemma counter_update_eq:
  "counter_update k absd old a cur =
    (if is_me_attr_exist k a \<and> me_attr_size_get k a \<in> {1, 2, 4} then attr_put k a (counter_octets k absd old a (attr_val k cur a)) cur else cur)"
  by (auto simp: counter_update_def counter_octets_def attr_data_set_def attr_data_get_def attr_put_def attr_val_def Let_def)

lemma counter_octets_length [simp]: "length (counter_octets k absd old a v) = me_attr_size_get k a"
  by (simp add: counter_octets_def Let_def)

lemma counter_less:
  assumes "class_wf k" "length d = data_size k" "1 \<le> a" "a \<le> 16"
  shows "counter k d a < counter_max k a"
  using be_nat_less[of "attr_val k d a"] attr_val_length[OF assms] by (simp add: counter_def counter_max_def)

lemma counter_update_length:
  assumes "class_wf k" "length cur = data_size k" "1 \<le> a" "a \<le> 16"
  shows "length (counter_update k absd old a cur) = data_size k"
  using assms by (simp add: counter_update_eq)

lemma counter_update_other:
  assumes "class_wf k" "length cur = data_size k" "1 \<le> a" "a \<le> 16" "1 \<le> b" "b \<le> 16" "a \<noteq> b"
  shows "attr_val k (counter_update k absd old a cur) b = attr_val k cur b"
  using attr_val_put_other[OF assms] by (simp add: counter_update_eq)

lemma counter_update_same:
  assumes wf: "class_wf k" and len: "length cur = data_size k" "length absd = data_size k" "length old = data_size k"
    and cnt: "is_counter k a"
  shows "counter k (counter_update k absd old a cur) a =
    min (counter_max k a - 1) (counter k cur a + (counter k absd a + counter_max k a - counter k old a) mod counter_max k a)"
proof -
  let ?s = "me_attr_size_get k a"
  have a: "1 \<le> a" "a \<le> 16" and s: "?s \<in> {1, 2, 4}" and ex: "is_me_attr_exist k a" using cnt by (auto simp: is_counter_def)
  have g: "unat (be_num (attr_val k d a)) = counter k d a" "counter k d a < 256 ^ ?s" if "length d = data_size k" for d
    using attr_val_length[OF wf that a] s counter_less[OF wf that a] by (auto simp: counter_def counter_max_def intro: unat_be_num)
  let ?d = "attr_sub (be_num (attr_val k absd a)) (be_num (attr_val k old a)) ?s"
  let ?v = "attr_add (be_num (attr_val k cur a)) ?d ?s"
  have d: "unat ?d = (counter k absd a + 256 ^ ?s - counter k old a) mod 256 ^ ?s"
    using attr_sub_modular[OF s, of "be_num (attr_val k absd a)" "be_num (attr_val k old a)"] g[OF len(2)] g[OF len(3)] by simp
  have v: "unat ?v = min (256 ^ ?s - 1) (counter k cur a + unat ?d)"
    using attr_add_saturating[OF s, of "be_num (attr_val k cur a)" ?d] g[OF len(1)] d by simp
  have "counter_update k absd old a cur = attr_put k a (be_octets ?s ?v) cur"
    using ex s by (simp add: counter_update_eq counter_octets_def Let_def)
  then have "counter k (counter_update k absd old a cur) a = unat ?v mod 256 ^ ?s"
    using attr_val_put_same[OF wf len(1) a, of "be_octets ?s ?v"] by (simp add: counter_def be_nat_octets)
  moreover have "(0 :: nat) < 256 ^ ?s" by simp
  then have "unat ?v < 256 ^ ?s" unfolding v by linarith
  ultimately show ?thesis using v d by (simp add: counter_max_def)
qed

text \<open>The order of the attributes does not matter, because an update reads and writes its own attribute only.\<close>

lemma fold_counter_update:
  assumes wf: "class_wf k" and len: "length cur = data_size k" and as: "distinct as" "set as \<subseteq> {1..16}" and b: "1 \<le> b" "b \<le> 16"
  shows "length (fold (counter_update k absd old) as cur) = data_size k
    \<and> attr_val k (fold (counter_update k absd old) as cur) b = attr_val k (if b \<in> set as then counter_update k absd old b cur else cur) b"
  using len as
proof (induction as arbitrary: cur)
  case (Cons a as)
  let ?c = "counter_update k absd old a cur"
  have a: "1 \<le> a" "a \<le> 16" using Cons.prems(3) by auto
  have l: "length ?c = data_size k" by (rule counter_update_length[OF wf Cons.prems(1) a])
  have o: "attr_val k ?c b = attr_val k cur b" if "a \<noteq> b" by (rule counter_update_other[OF wf Cons.prems(1) a b that])
  have "attr_val k (counter_update k absd old b ?c) b = attr_val k (counter_update k absd old b cur) b" if "a \<noteq> b"
    using o[OF that] attr_val_put_same[OF wf l b] attr_val_put_same[OF wf Cons.prems(1) b]
    by (auto simp: counter_update_eq[of k absd old b])
  then show ?case using Cons.IH[OF l] Cons.prems(2,3) o by auto
qed simp

lemma counter_attrs: "set [3..<17] \<subseteq> {1..16 :: nat}" "3 \<le> a \<Longrightarrow> a \<le> 16 \<Longrightarrow> a \<in> set [3..<17 :: nat]"
  by (auto simp del: upt_rec_numeral)

lemma counters_update_length:
  assumes "class_wf k" "length cur = data_size k"
  shows "length (counters_update k absd old cur) = data_size k"
  unfolding counters_update_def
  by (rule conjunct1[OF fold_counter_update[OF assms distinct_upt counter_attrs(1), of 3]]) simp_all

lemma counters_update_counter:
  assumes "class_wf k" "length cur = data_size k" "length absd = data_size k" "length old = data_size k" "is_counter k a"
  shows "counter k (counters_update k absd old cur) a =
    min (counter_max k a - 1) (counter k cur a + (counter k absd a + counter_max k a - counter k old a) mod counter_max k a)"
proof -
  have a: "3 \<le> a" "1 \<le> a" "a \<le> 16" using assms(5) by (auto simp: is_counter_def)
  have "attr_val k (counters_update k absd old cur) a = attr_val k (counter_update k absd old a cur) a"
    using conjunct2[OF fold_counter_update[OF assms(1,2) distinct_upt counter_attrs(1) a(2,3), of absd old]] counter_attrs(2)[OF a(1,3)]
    by (simp only: counters_update_def if_True)
  then show ?thesis using counter_update_same[OF assms] by (simp add: counter_def)
qed

text \<open>
  C29: A performance counter is right however often it is polled and however often the hardware
  counter wraps around between intervals: after any sequence of readings of the absolute counters the
  counter of the current interval holds what it held before plus all increments between successive
  readings, each taken modulo the width of the counter, and it stays at its maximum once that is
  reached.
\<close>

theorem pm_counter_accumulates:
  assumes "class_wf k" and "length cur = data_size k" and "length old = data_size k"
    and "list_all (\<lambda>r. length r = data_size k) rs" and "is_counter k a"
  shows "counter k (pm_polls k rs old cur) a = min (counter_max k a - 1) (counter k cur a + increments k a rs old)"
  using assms
proof (induction rs arbitrary: old cur)
  case Nil
  then have "counter k cur a < counter_max k a" by (intro counter_less) (auto simp: is_counter_def)
  then show ?case by simp
next
  case (Cons r rs)
  have l: "length (counters_update k r old cur) = data_size k" using Cons.prems by (simp add: counters_update_length)
  have c: "counter k (counters_update k r old cur) a = min (counter_max k a - 1)
      (counter k cur a + (counter k r a + counter_max k a - counter k old a) mod counter_max k a)"
    using Cons.prems by (intro counters_update_counter) auto
  have "counter k (pm_polls k (r # rs) old cur) a
      = min (counter_max k a - 1) (counter k (counters_update k r old cur) a + increments k a rs r)"
    using Cons.IH[OF Cons.prems(1) l] Cons.prems by simp
  then show ?case unfolding c by (simp add: min_def)
qed

theorem pm_counter_accumulates_witness:
  "counter example_pm_class (pm_polls example_pm_class [[0, 0, 0, 250, 0, 0], [0, 0, 0, 4, 1, 0]] [0, 0, 0, 240, 0, 9] [0, 0, 0, 1, 0, 0]) 3
    = min (counter_max example_pm_class 3 - 1) (counter example_pm_class [0, 0, 0, 1, 0, 0] 3
        + increments example_pm_class 3 [[0, 0, 0, 250, 0, 0], [0, 0, 0, 4, 1, 0]] [0, 0, 0, 240, 0, 9])"
  by (rule pm_counter_accumulates) (simp_all add: example_pm_facts)

section \<open>Intervals\<close>

lemma be_nat_zeros: "be_nat (replicate n 0) = 0"
  by (induction n) auto

lemma memget_zeros: "off + n \<le> m \<Longrightarrow> memget (replicate m 0) off n = replicate n 0"
  by (simp add: memget_def drop_replicate take_replicate min_def)

lemma memget_memget: "memget (memget d off n) o2 m = memget d (off + o2) (min m (n - o2))"
  by (simp add: memget_def drop_take add.commute min_def)

text \<open>The header takes the first three octets, so a counter lies behind it.\<close>

lemma pm_layout_offsets:
  assumes "pm_layout k"
  shows "me_attr_offset_get k 1 = 0 \<and> me_attr_offset_get k 2 = 1 \<and> 3 \<le> data_size k
    \<and> (\<forall>a. 3 \<le> a \<and> a \<le> 16 \<and> me_attr_size_get k a \<noteq> 0 \<longrightarrow> 3 \<le> me_attr_offset_get k a)"
proof -
  have wf: "class_wf k" and s: "me_attr_size_get k 1 = 1" "me_attr_size_get k 2 = 2" using assms by (auto simp: pm_layout_def)
  have "length (attrs k) = 16" "contiguous 0 (attrs k)" using wf by (auto simp: class_wf_def)
  moreover obtain x y zs where "attrs k = x # y # zs"
    using \<open>length (attrs k) = 16\<close> by (cases "attrs k"; cases "tl (attrs k)") auto
  ultimately have o: "me_attr_offset_get k 1 = 0" "me_attr_offset_get k 2 = 1"
    using s by (auto simp: me_attr_size_get_def me_attr_offset_get_def me_attr_get_def)
  moreover have "3 \<le> data_size k" using class_wf_bound[OF wf, of 2] s o by simp
  moreover have "3 \<le> me_attr_offset_get k a" if "3 \<le> a" "a \<le> 16" "me_attr_size_get k a \<noteq> 0" for a
    using class_wf_disjoint[OF wf, of 2 a] s o that by simp
  ultimately show ?thesis by blast
qed

text \<open>
  C30: The end of a 15 minute interval: the history of an internally managed entity becomes the
  counters of the interval that ended, every counter of the new interval starts at zero, the
  threshold identifier and the interval end time carry over, no threshold counts as crossed and the
  absolute counters are kept.
\<close>

theorem pm_interval_end_rotates:
  assumes "pm_me_ok e"
  shows "pm_me_ok (pm_rotate e)
    \<and> bufs (pm_rotate e) ! interval_hist (the_pm (pm_rotate e)) = bufs e ! interval_curr (the_pm e)
    \<and> (\<forall>a. is_counter (cls e) a \<longrightarrow> counter (cls e) (bufs (pm_rotate e) ! interval_curr (the_pm (pm_rotate e))) a = 0)
    \<and> (\<forall>a \<in> {1, 2}. attr_val (cls e) (bufs (pm_rotate e) ! interval_curr (the_pm (pm_rotate e))) a
         = attr_val (cls e) (bufs e ! interval_curr (the_pm e)) a)
    \<and> pm_tca_bitmap (the_pm (pm_rotate e)) = replicate OMCI_ALARM_BITMAP_SIZE 0
    \<and> bufs (pm_rotate e) ! interval_abs (the_pm (pm_rotate e)) = bufs e ! interval_abs (the_pm e)"
proof -
  let ?k = "cls e" and ?p = "the_pm e" and ?e = "pm_rotate e"
  define old where "old = bufs e ! interval_curr ?p"
  define new where "new = memput (replicate (data_size ?k) 0) 0 (memget old 0 3)"
  note ok = assms[unfolded pm_me_ok_def]
  have lay: "pm_layout ?k" using ok by blast
  note off = pm_layout_offsets[OF lay]
  have lo: "length old = data_size ?k" using ok by (simp add: old_def list_all_length)
  have l3: "length (memget old 0 3) = 3" using lo off by simp
  have ln: "length new = data_size ?k" using l3 off by (simp add: new_def)
  have p': "the_pm ?e = ?p\<lparr> interval_hist := interval_curr ?p, interval_curr := interval_hist ?p, pm_tca_bitmap := replicate OMCI_ALARM_BITMAP_SIZE 0 \<rparr>"
    by (simp add: pm_rotate_def Let_def the_pm_def)
  have b': "bufs ?e = (bufs e)[interval_hist ?p := new]" and c': "cls ?e = ?k" and pe: "pm ?e \<noteq> None"
    by (simp_all add: pm_rotate_def Let_def new_def old_def)
  have z: "counter ?k new a = 0" if a: "is_counter ?k a" for a
  proof -
    have r: "1 \<le> a" "a \<le> 16" "me_attr_size_get ?k a \<noteq> 0" and o3: "3 \<le> me_attr_offset_get ?k a"
      using a off by (auto simp: is_counter_def)
    have "class_wf ?k" using lay by (simp add: pm_layout_def)
    then have "attr_val ?k new a = replicate (me_attr_size_get ?k a) 0"
      using class_wf_bound[OF _ r] memget_put_after[of 0 "memget old 0 3" "me_attr_offset_get ?k a" "replicate (data_size ?k) 0"] o3 l3 off
      by (simp add: attr_val_def new_def memget_zeros)
    then show ?thesis by (simp add: counter_def be_nat_zeros)
  qed
  have h: "attr_val ?k new a = attr_val ?k old a" if "a \<in> {1, 2}" for a
  proof -
    have "me_attr_offset_get ?k a + me_attr_size_get ?k a \<le> 3" using that off lay by (auto simp: pm_layout_def)
    then have "memget new (me_attr_offset_get ?k a) (me_attr_size_get ?k a)
        = memget (memget old 0 3) (me_attr_offset_get ?k a) (me_attr_size_get ?k a)"
      using l3 by (simp add: new_def memput_def memget_def drop_take)
    moreover have "min (me_attr_size_get ?k a) (3 - me_attr_offset_get ?k a) = me_attr_size_get ?k a" using \<open>_ \<le> 3\<close> by simp
    ultimately show ?thesis by (simp add: attr_val_def memget_memget)
  qed
  have "pm_me_ok ?e" using ok ln p' b' c' pe by (auto simp: pm_me_ok_def list_all_length nth_list_update)
  moreover have "bufs ?e ! interval_curr (the_pm ?e) = new" "bufs ?e ! interval_hist (the_pm ?e) = old"
    "bufs ?e ! interval_abs (the_pm ?e) = bufs e ! interval_abs ?p"
    using ok p' b' by (auto simp: old_def)
  ultimately show ?thesis using z h p' by (simp add: old_def)
qed

lemma example_pm_me_ok: "pm_me_ok example_pm_me"
  using example_pm_facts by (simp add: pm_me_ok_def example_pm_me_def the_pm_def)

theorem pm_interval_end_rotates_witness:
  "pm_me_ok (pm_rotate example_pm_me)
    \<and> bufs (pm_rotate example_pm_me) ! interval_hist (the_pm (pm_rotate example_pm_me)) = [7, 0, 5, 99, 1, 0]
    \<and> counter (cls example_pm_me) (bufs (pm_rotate example_pm_me) ! interval_curr (the_pm (pm_rotate example_pm_me))) 3 = 0
    \<and> attr_val (cls example_pm_me) (bufs (pm_rotate example_pm_me) ! interval_curr (the_pm (pm_rotate example_pm_me))) 2
         = attr_val (cls example_pm_me) [7, 0, 5, 99, 1, 0] 2
    \<and> pm_tca_bitmap (the_pm (pm_rotate example_pm_me)) = replicate OMCI_ALARM_BITMAP_SIZE 0"
proof -
  have "is_counter (cls example_pm_me) 3" by (simp add: example_pm_me_def example_pm_class_def) code_simp
  then show ?thesis using pm_interval_end_rotates[OF example_pm_me_ok] by (simp add: example_pm_me_def the_pm_def)
qed

section \<open>Threshold crossing alerts\<close>

lemma thr_fill_length:
  "length tca = 28 \<Longrightarrow> length (snd (thr_fill_loop k cur thr ts tca)) = 28"
proof (induction ts arbitrary: tca)
  case (Cons t ts)
  have l: "\<exists>err b. alarm_set (Some tca) x v = (err, Some b) \<and> length b = 28" for x v
    using Cons.prems by (auto simp: alarm_set_def Let_def)
  obtain err b where "alarm_set (Some tca) (of_nat (thr_num t)) True = (err, Some b)" "length b = 28" using l by blast
  then show ?case using Cons by (simp add: Let_def split: omci_error.splits)
qed simp

lemma new_crossings_twice:
  "length n = length b \<Longrightarrow> new_crossings n (map2 (\<lambda>b n. b OR n) b (new_crossings n b)) = replicate (length n) 0"
proof (induction n b rule: list_induct2)
  case (Cons x xs y ys)
  have "(x XOR (y OR (x XOR y) AND x)) AND x = 0" by (rule bit_eqI) (auto simp: bit_simps)
  with Cons show ?case by (simp add: new_crossings_def)
qed (simp add: new_crossings_def)



end
