(* ===== verification/Omci_Me.thy ===== *)
theory Omci_Me
  imports Omci_Pm
begin

text \<open>
  Managed entity data (\<^verbatim>\<open>omci_me.c\<close>) and the default handlers of the classes
  (\<^verbatim>\<open>omci_me_handlers.c\<close>): attribute values are fetched from a message into the layout of the class,
  read with the help of the get handlers, validated against the limits of the class, written with the
  update handler and announced by attribute value change messages. Alarms are set here too.
\<close>

section \<open>Definitions\<close>

subsection \<open>Fetching attributes\<close>

text \<open>\<^verbatim>\<open>me_class_data_fetch\<close>: the attributes of a mask come one after another in \<^verbatim>\<open>vals\<close>.\<close>

fun class_fetch_loop :: "me_class \<Rightarrow> u16 \<Rightarrow> octets \<Rightarrow> nat \<Rightarrow> nat list \<Rightarrow> nat \<Rightarrow> octets \<Rightarrow> omci_error \<times> octets" where
  "class_fetch_loop k am vals n [] off d = (OMCI_SUCCESS, d)"
| "class_fetch_loop k am vals n (a # as) off d =
    (if \<not> mask_has am a then class_fetch_loop k am vals n as off d
     else if off + me_attr_size_get k a > n then (OMCI_ERROR_BOUNDS, d)
     else class_fetch_loop k am vals n as (off + me_attr_size_get k a)
            (attr_put k a (memget vals off (me_attr_size_get k a)) d))"

definition me_class_data_fetch :: "me_class \<Rightarrow> u16 \<Rightarrow> octets \<Rightarrow> nat \<Rightarrow> omci_error \<times> octets" where
  "me_class_data_fetch k am vals n = class_fetch_loop k am vals n [1..<17] 0 (replicate (data_size k) 0)"

text \<open>
  \<^verbatim>\<open>me_data_fetch\<close>: as above on top of the data of the entity, but an attribute with a get handler
  comes from its handler, and \<^verbatim>\<open>dmask\<close> says which attributes \<^verbatim>\<open>vals\<close> holds.
\<close>

fun data_fetch_loop ::
    "omci_env \<Rightarrow> addr \<Rightarrow> me_class \<Rightarrow> u16 \<Rightarrow> octets option \<Rightarrow> nat \<Rightarrow> u16 \<Rightarrow> nat list \<Rightarrow> nat \<Rightarrow> octets \<Rightarrow> omci_context
      \<Rightarrow> omci_error \<times> octets \<times> omci_context" where
  "data_fetch_loop E i k am vals n dmask [] off d c = (OMCI_SUCCESS, d, c)"
| "data_fetch_loop E i k am vals n dmask (a # as) off d c =
    (let sz = me_attr_size_get k a; off' = (if mask_has dmask a then off + sz else off) in
     if \<not> mask_has am a then data_fetch_loop E i k am vals n dmask as off' d c
     else if off + sz > n then (OMCI_ERROR_BOUNDS, d, c)
     else case me_attr_get_handler_get k a of
       Some h \<Rightarrow>
         (case h_get E h c i (attr_val k d a) of (err, bs, c) \<Rightarrow>
            if err \<noteq> OMCI_SUCCESS then (err, attr_put k a bs d, c)
            else data_fetch_loop E i k am vals n dmask as off' (attr_put k a bs d) c)
     | None \<Rightarrow>
         data_fetch_loop E i k am vals n dmask as off'
           (attr_put k a (case vals of Some v \<Rightarrow> memget v off sz | None \<Rightarrow> replicate sz 0) d) c)"

definition me_data_fetch ::
    "omci_env \<Rightarrow> addr \<Rightarrow> u16 \<Rightarrow> octets option \<Rightarrow> nat \<Rightarrow> u16 \<Rightarrow> omci_context \<Rightarrow> omci_error \<times> octets \<times> omci_context" where
  "me_data_fetch E i am vals n dmask c =
    (let k = cls (me_at c i) in
     data_fetch_loop E i k am vals n dmask [1..<17] 0
       (case me_data (me_at c i) of Some d \<Rightarrow> take (data_size k) d | None \<Rightarrow> replicate (data_size k) 0) c)"

subsection \<open>Reading\<close>

definition me_data_read :: "omci_env \<Rightarrow> addr \<Rightarrow> nat \<Rightarrow> pm_interval \<Rightarrow> omci_context \<Rightarrow> omci_error \<times> octets \<times> omci_context" where
  "me_data_read E i n interval c =
    (let k = cls (me_at c i) in
     if inv_attr_mask k OR opt_attr_mask k = 0xFFFF then (OMCI_SUCCESS, replicate n 0, c)
     else let c = pm_me_interval_set E i interval c in
       me_data_fetch E i (NOT (inv_attr_mask k OR opt_attr_mask k)) (me_data (me_at c i)) n (NOT (inv_attr_mask k)) c)"

definition me_attr_read_with_interval ::
    "omci_env \<Rightarrow> addr \<Rightarrow> nat \<Rightarrow> pm_interval \<Rightarrow> omci_context \<Rightarrow> omci_error \<times> octets \<times> omci_context" where
  "me_attr_read_with_interval E i a interval c =
    (let k = cls (me_at c i) in
     case me_data_read E i (data_size k) interval c of (err, d, c) \<Rightarrow>
       if err \<noteq> OMCI_SUCCESS then (err, [], c) else (OMCI_SUCCESS, attr_val k d a, c))"

definition me_attr_read :: "omci_env \<Rightarrow> addr \<Rightarrow> nat \<Rightarrow> omci_context \<Rightarrow> omci_error \<times> octets \<times> omci_context" where
  "me_attr_read E i a c = me_attr_read_with_interval E i a OMCI_PM_INTERVAL_CURR c"

subsection \<open>Changes\<close>

text \<open>The attributes of a mask whose value changes; a table always counts as changed.\<close>

fun updated_mask :: "me_class \<Rightarrow> octets \<Rightarrow> octets \<Rightarrow> u16 \<Rightarrow> nat list \<Rightarrow> u16 \<Rightarrow> u16" where
  "updated_mask k old new am [] m = m"
| "updated_mask k old new am (a # as) m =
    updated_mask k old new am as
      (if mask_has am a \<and> (me_attr_prop_get k a AND OMCI_ATTR_PROP_TABLE \<noteq> 0 \<or> attr_val k new a \<noteq> attr_val k old a)
       then m OR omci_attr2mask a else m)"

text \<open>\<^verbatim>\<open>is_data_updated\<close> with a result mask, which starts at zero; the answer is the same without one.\<close>

definition is_data_updated :: "me \<Rightarrow> octets \<Rightarrow> u16 \<Rightarrow> bool \<times> u16" where
  "is_data_updated e new am =
    (if \<not> is_initialized e then (True, NOT (inv_attr_mask (cls e)))
     else let m = updated_mask (cls e) (case me_data e of Some d \<Rightarrow> d | None \<Rightarrow> []) new am [1..<17] 0 in (m \<noteq> 0, m))"

definition avc_send :: "omci_env \<Rightarrow> addr \<Rightarrow> nat \<Rightarrow> omci_context \<Rightarrow> omci_error \<times> omci_context" where
  "avc_send E i a c =
    (let e = me_at c i; k = cls e in
     if \<not> is_me_attr_exist k a then (OMCI_ERROR_INVALID_ME_ATTR, c)
     else if me_attr_size_get k a > 30 then (OMCI_ERROR_BOUNDS, c)
     else case me_attr_read E i a c of (err, bs, c) \<Rightarrow>
       if err \<noteq> OMCI_SUCCESS then (err, c)
       else if omci_enabled c
         then omci_msg_send E (msg_put 2 bs (msg_put 0 (be16_octets (omci_attr2mask a)) (autonomous_msg OMCI_MT_AVC e))) c
         else (OMCI_SUCCESS, c))"

fun avc_send_loop :: "omci_env \<Rightarrow> addr \<Rightarrow> u16 \<Rightarrow> nat list \<Rightarrow> omci_context \<Rightarrow> omci_context" where
  "avc_send_loop E i am [] c = c"
| "avc_send_loop E i am (a # as) c = avc_send_loop E i am as (if mask_has am a then snd (avc_send E i a c) else c)"

definition me_avc_send :: "omci_env \<Rightarrow> addr \<Rightarrow> u16 \<Rightarrow> u16 \<Rightarrow> u16 \<Rightarrow> omci_context \<Rightarrow> omci_error \<times> omci_context" where
  "me_avc_send E i am suppress upd c =
    (let avc = avc_attr_mask (cls (me_at c i)) in
     (OMCI_SUCCESS, if avc AND am AND upd AND NOT suppress \<noteq> 0 then avc_send_loop E i (avc AND upd) [1..<17] c else c))"

subsection \<open>Validation\<close>

definition num_validate :: "nat \<Rightarrow> u32 \<Rightarrow> u32 \<Rightarrow> u32 \<Rightarrow> u16 \<Rightarrow> u16" where
  "num_validate a v lo hi m = (if v < lo \<or> hi < v then m OR omci_attr2mask a else m)"

definition bf_validate :: "nat \<Rightarrow> u32 \<Rightarrow> u32 \<Rightarrow> u16 \<Rightarrow> u16" where
  "bf_validate a v supp m = (if v AND NOT supp \<noteq> 0 then m OR omci_attr2mask a else m)"

definition enum_validate :: "nat \<Rightarrow> u32 \<Rightarrow> u16 list option \<Rightarrow> u16 \<Rightarrow> u16" where
  "enum_validate a v cps m = (case cps of None \<Rightarrow> m OR omci_attr2mask a
     | Some ps \<Rightarrow> if \<exists>p \<in> set ps. v = ucast p then m else m OR omci_attr2mask a)"

definition num_of :: "octets \<Rightarrow> u32" where
  "num_of bs = of_nat (be_nat bs)"

definition attr_validate :: "me_class \<Rightarrow> octets \<Rightarrow> nat \<Rightarrow> u16 \<Rightarrow> u16" where
  "attr_validate k d a m =
    (let t = me_attr_get k a; sz = attr_size t; v = num_of (attr_val k d a) in
     if \<not> is_me_attr_exist k a then m
     else if get_handler t \<noteq> None \<and> attr_prop t AND OMCI_ATTR_PROP_WR = 0 then m
     else case format t of
       OMCI_ATTR_TYPE_INT \<Rightarrow>
         if sz = 1 \<or> sz = 2 \<or> sz = 4 then num_validate a v (ucast (lower_limit t)) (ucast (upper_limit t)) m else m
     | OMCI_ATTR_TYPE_UINT \<Rightarrow>
         if sz = 1 \<or> sz = 2 \<or> sz = 4 then num_validate a v (ucast (lower_limit t)) (ucast (upper_limit t)) m else m
     | OMCI_ATTR_TYPE_BF \<Rightarrow> if sz = 1 \<or> sz = 2 \<or> sz = 4 then bf_validate a v (bit_field t) m else m
     | OMCI_ATTR_TYPE_ENUM \<Rightarrow> if sz = 1 \<or> sz = 2 then enum_validate a v (code_points t) m else m
     | _ \<Rightarrow> m)"

definition default_me_validate :: "me_class \<Rightarrow> octets \<Rightarrow> omci_error \<times> u16" where
  "default_me_validate k d = (OMCI_SUCCESS, fold (attr_validate k d) [1..<17] 0)"

definition call_validate :: "omci_env \<Rightarrow> me_class \<Rightarrow> octets \<Rightarrow> omci_context \<Rightarrow> omci_error \<times> u16" where
  "call_validate E k d c = (case validate_handler k of None \<Rightarrow> (OMCI_SUCCESS, 0)
     | Some h \<Rightarrow> if h = ''default_me_validate'' then default_me_validate k d else h_validate E h c k d)"

subsection \<open>Thresholds and updates\<close>

definition call_thr_set :: "omci_env \<Rightarrow> addr \<Rightarrow> u32 list \<Rightarrow> omci_context \<Rightarrow> omci_error \<times> omci_context" where
  "call_thr_set E i thr c = (case thr_set_handler (cls (me_at c i)) of None \<Rightarrow> (OMCI_SUCCESS, c)
     | Some h \<Rightarrow> if h = ''default_me_thr_set'' then default_me_thr_set i thr c else h_thr_set E h c i thr)"

text \<open>The seven thresholds of a threshold data entity, four octets each.\<close>

definition thr_data :: "octets \<Rightarrow> u32 list" where
  "thr_data d = map (\<lambda>j. num_of (memget d (4 * j) 4)) [0..<7]"

text \<open>
  \<^verbatim>\<open>default_me_update\<close>: the threshold array is a local variable without an initialiser, so elements
  that are not assigned hold what the stack holds (\<^verbatim>\<open>env_stack\<close>).
\<close>

definition default_me_update :: "omci_env \<Rightarrow> addr \<Rightarrow> octets \<Rightarrow> omci_context \<Rightarrow> omci_error \<times> omci_context" where
  "default_me_update E i d c =
    (if \<not> is_pm (cls (me_at c i)) then (OMCI_SUCCESS, c)
     else let tid = octets_be16 (memget d 1 2);
              t1 = (case snd (mib_me_find c 273 tid) of Some j \<Rightarrow> thr_data (the (me_data (me_at c j))) | None \<Rightarrow> take 7 (env_stack E));
              t2 = (case snd (mib_me_find c 274 tid) of Some j \<Rightarrow> thr_data (the (me_data (me_at c j))) | None \<Rightarrow> replicate 7 0xFFFFFFFF)
       in call_thr_set E i (t1 @ t2 @ [env_stack E ! 14]) c)"

text \<open>\<^verbatim>\<open>pm_me_thr_set\<close>: here the array starts at zero and the second half is one element further on.\<close>

definition pm_thr_part :: "omci_env \<Rightarrow> u16 \<Rightarrow> u16 \<Rightarrow> nat \<Rightarrow> u32 list \<Rightarrow> omci_context \<Rightarrow> omci_error \<times> u32 list \<times> omci_context" where
  "pm_thr_part E cid tid pos thr c = (case snd (mib_me_find c cid tid) of None \<Rightarrow> (OMCI_SUCCESS, thr, c)
     | Some j \<Rightarrow> (case me_data_read E j 28 OMCI_PM_INTERVAL_CURR c of (err, d, c) \<Rightarrow>
         (err, if err = OMCI_SUCCESS then take pos thr @ thr_data d @ drop (pos + 7) thr else thr, c)))"

definition pm_me_thr_set :: "omci_env \<Rightarrow> addr \<Rightarrow> omci_context \<Rightarrow> omci_error \<times> omci_context" where
  "pm_me_thr_set E i c =
    (case me_attr_read E i omci_me_pm_thr_data_id c of (err, bs, c) \<Rightarrow>
     if err \<noteq> OMCI_SUCCESS then (err, c)
     else let tid = octets_be16 bs in
       case pm_thr_part E 273 tid 0 (replicate PM_THR_NUM 0) c of (err, thr, c) \<Rightarrow>
       if err \<noteq> OMCI_SUCCESS then (err, c)
       else case pm_thr_part E 274 tid 8 thr c of (err, thr, c) \<Rightarrow>
       if err \<noteq> OMCI_SUCCESS then (err, c)
       else (fst (mib_me_find c 274 tid), snd (call_thr_set E i thr c)))"

definition call_update :: "omci_env \<Rightarrow> addr \<Rightarrow> octets \<Rightarrow> u16 \<Rightarrow> omci_context \<Rightarrow> omci_error \<times> octets \<times> omci_context" where
  "call_update E i d am c =
    (let h = the (update_handler (cls (me_at c i))) in
     if h = ''default_me_update'' then (case default_me_update E i d c of (err, c) \<Rightarrow> (err, d, c))
     else h_update E h c i d am)"

subsection \<open>Writing\<close>

definition me_data_write ::
    "omci_env \<Rightarrow> addr \<Rightarrow> octets \<Rightarrow> u16 \<Rightarrow> u16 \<Rightarrow> omci_context \<Rightarrow> omci_error \<times> omci_context" where
  "me_data_write E i d am suppress c =
    (let e = me_at c i; k = cls e in
     case is_data_updated e d am of (changed, upd) \<Rightarrow>
     if \<not> changed then (OMCI_SUCCESS, c)
     else if snd (call_validate E k d c) \<noteq> 0 then (OMCI_ERROR_INVALID_ME_ATTR, c)
     else case (if active e then call_update E i d am c else (OMCI_SUCCESS, d, c)) of (err, d, c) \<Rightarrow>
       if err \<noteq> OMCI_SUCCESS then (err, c)
       else let c = me_update i (me_data_put d) c;
                c = (if is_pm k \<and> mask_has upd omci_me_pm_thr_data_id then snd (pm_me_thr_set E i c) else c)
         in me_avc_send E i am suppress upd c)"

definition me_attr_write ::
    "omci_env \<Rightarrow> addr \<Rightarrow> nat \<Rightarrow> octets \<Rightarrow> bool \<Rightarrow> omci_context \<Rightarrow> omci_error \<times> omci_context" where
  "me_attr_write E i a bs suppress c =
    (let k = cls (me_at c i) in
     case me_data_read E i (data_size k) OMCI_PM_INTERVAL_CURR c of (err, d, c) \<Rightarrow>
       if err \<noteq> OMCI_SUCCESS then (err, c)
       else me_data_write E i (attr_put k a bs d) (omci_attr2mask a) (of_bool suppress) c)"

definition default_me_init :: "omci_env \<Rightarrow> addr \<Rightarrow> octets option \<Rightarrow> u16 \<Rightarrow> omci_context \<Rightarrow> omci_error \<times> omci_context" where
  "default_me_init E i init suppress c =
    (let k = cls (me_at c i) in
     me_data_write E i (case init of Some d \<Rightarrow> take (data_size k) d | None \<Rightarrow> replicate (data_size k) 0)
       (NOT (inv_attr_mask k)) suppress c)"

subsection \<open>Alarms\<close>

definition me_alarm_seq :: "u8 \<Rightarrow> u8" where
  "me_alarm_seq s = (if s = 255 then 1 else s + 1)"

text \<open>Alarm reporting control when an alarm is raised: the new state and whether the alarm is withheld.\<close>

definition me_alarm_arc :: "omci_env \<Rightarrow> addr \<Rightarrow> omci_context \<Rightarrow> omci_error \<times> bool \<times> omci_context" where
  "me_alarm_arc E i c = (case arc_context (me_at c i) of None \<Rightarrow> (OMCI_SUCCESS, False, c)
     | Some r \<Rightarrow>
       (case me_attr_read E i (arc_attr r) c of (err, arc, c) \<Rightarrow>
        if err \<noteq> OMCI_SUCCESS then (err, False, c)
        else case me_attr_read E i (arc_interval_attr r) c of (err, iv, c) \<Rightarrow>
        if err \<noteq> OMCI_SUCCESS then (err, False, c)
        else if arc \<noteq> [1] then (OMCI_SUCCESS, False, c)
        else if iv \<noteq> [0] then (OMCI_SUCCESS, True, c)
        else case me_attr_write E i (arc_attr r) [0] False c of (err, c) \<Rightarrow> (err, True, c)))"

definition me_alarm_set :: "omci_env \<Rightarrow> addr \<Rightarrow> u8 \<Rightarrow> bool \<Rightarrow> omci_context \<Rightarrow> omci_error \<times> omci_context" where
  "me_alarm_set E i alarm act c =
    (case alarm_get (alarm_bitmap (me_at c i)) alarm of (err, cur) \<Rightarrow>
     if err \<noteq> OMCI_SUCCESS then (err, c)
     else if cur = act then (OMCI_SUCCESS, c)
     else let c = me_update i (\<lambda>e. e\<lparr> alarm_bitmap := snd (alarm_set (alarm_bitmap e) alarm act) \<rparr>) c in
       case (if act then me_alarm_arc E i c else (OMCI_SUCCESS, False, c)) of (err, avc_enabled, c) \<Rightarrow>
       if err \<noteq> OMCI_SUCCESS then (err, c)
       else if is_pm (cls (me_at c i))
         then tca_send E (me_at c i) (the (snd (alarm_set (Some (replicate OMCI_ALARM_BITMAP_SIZE 0)) alarm True))) c
       else if avc_enabled then (OMCI_SUCCESS, c)
       else let c = c\<lparr> alarm_seq_num := me_alarm_seq (alarm_seq_num c) \<rparr> in alarm_send E (me_at c i) c)"

subsection \<open>Specification\<close>

text \<open>The octets the attributes of a mask take, and the get handlers of an entity that changes nothing.\<close>

definition msize :: "me_class \<Rightarrow> u16 \<Rightarrow> nat list \<Rightarrow> nat" where
  "msize k m as = sum_list (map (me_attr_size_get k) (filter (mask_has m) as))"

definition quiet_get :: "omci_env \<Rightarrow> omci_context \<Rightarrow> addr \<Rightarrow> (string \<Rightarrow> octets \<Rightarrow> octets) \<Rightarrow> bool" where
  "quiet_get E c i g \<longleftrightarrow> (\<forall>h bs. h_get E h c i bs = (OMCI_SUCCESS, g h bs, c) \<and> length (g h bs) = length bs)"

text \<open>The value of an attribute as it is read: from its get handler where it has one.\<close>

definition read_val :: "(string \<Rightarrow> octets \<Rightarrow> octets) \<Rightarrow> me_class \<Rightarrow> octets \<Rightarrow> nat \<Rightarrow> octets" where
  "read_val g k d a = (case me_attr_get_handler_get k a of Some h \<Rightarrow> g h (attr_val k d a) | None \<Rightarrow> attr_val k d a)"

text \<open>Whether the default validation accepts a value of an attribute, and the value that the data hold.\<close>

definition value_valid :: "me_class \<Rightarrow> nat \<Rightarrow> octets \<Rightarrow> bool" where
  "value_valid k a bs =
    (let t = me_attr_get k a; v = num_of bs in
     \<not> is_me_attr_exist k a \<or> (get_handler t \<noteq> None \<and> attr_prop t AND OMCI_ATTR_PROP_WR = 0)
     \<or> (case format t of
          OMCI_ATTR_TYPE_INT \<Rightarrow> attr_size t \<in> {1, 2, 4} \<longrightarrow> ucast (lower_limit t) \<le> v \<and> v \<le> ucast (upper_limit t)
        | OMCI_ATTR_TYPE_UINT \<Rightarrow> attr_size t \<in> {1, 2, 4} \<longrightarrow> ucast (lower_limit t) \<le> v \<and> v \<le> ucast (upper_limit t)
        | OMCI_ATTR_TYPE_BF \<Rightarrow> attr_size t \<in> {1, 2, 4} \<longrightarrow> v AND NOT (bit_field t) = 0
        | OMCI_ATTR_TYPE_ENUM \<Rightarrow> attr_size t \<in> {1, 2} \<longrightarrow> (case code_points t of None \<Rightarrow> False | Some ps \<Rightarrow> v \<in> ucast ` set ps)
        | _ \<Rightarrow> True))"

definition attr_valid :: "me_class \<Rightarrow> octets \<Rightarrow> nat \<Rightarrow> bool" where
  "attr_valid k d a = value_valid k a (attr_val k d a)"

section \<open>Fetching\<close>

lemma msize_simps [simp]:
  "msize k m [] = 0" "msize k m (a # as) = (if mask_has m a then me_attr_size_get k a else 0) + msize k m as"
  by (simp_all add: msize_def)

lemma takeWhile_upt: "1 \<le> b \<Longrightarrow> b < 17 \<Longrightarrow> takeWhile (\<lambda>x. x \<noteq> b) [1..<17] = [1..<b]"
proof -
  assume b: "1 \<le> b" "b < 17"
  have "[1..<17] = [1..<b] @ b # [Suc b..<17]" using b upt_add_eq_append[of 1 b "17 - b"] by (simp add: upt_conv_Cons)
  moreover have "takeWhile (\<lambda>x. x \<noteq> b) ([1..<b] @ b # [Suc b..<17]) = [1..<b]" by (subst takeWhile_append2) auto
  ultimately show ?thesis by simp
qed

lemma class_fetch_loop_ok:
  assumes wf: "class_wf k" and n: "n \<le> length vals"
    and d: "length d = data_size k" and as: "distinct as" "set as \<subseteq> {1..16}" and fits: "off + msize k m as \<le> n"
  shows "\<exists>d'. class_fetch_loop k m vals n as off d = (OMCI_SUCCESS, d') \<and> length d' = data_size k
    \<and> (\<forall>b. 1 \<le> b \<and> b \<le> 16 \<longrightarrow> attr_val k d' b =
         (if b \<in> set as \<and> mask_has m b then memget vals (off + msize k m (takeWhile (\<lambda>x. x \<noteq> b) as)) (me_attr_size_get k b)
          else attr_val k d b))"
  using d as fits
proof (induction as arbitrary: off d)
  case (Cons a as)
  have a: "1 \<le> a" "a \<le> 16" using Cons.prems(3) by auto
  show ?case
  proof (cases "mask_has m a")
    case False
    then show ?thesis using Cons.IH[of d off] Cons.prems by auto
  next
    case True
    let ?v = "memget vals off (me_attr_size_get k a)"
    let ?d = "attr_put k a ?v d"
    have lv: "length ?v = me_attr_size_get k a" using Cons.prems(4) True n by simp
    have ld: "length ?d = data_size k" using attr_put_length[OF wf Cons.prems(1) a lv] .
    obtain d' where d': "class_fetch_loop k m vals n as (off + me_attr_size_get k a) ?d = (OMCI_SUCCESS, d')" "length d' = data_size k"
      and v: "\<And>b. 1 \<le> b \<Longrightarrow> b \<le> 16 \<Longrightarrow> attr_val k d' b =
         (if b \<in> set as \<and> mask_has m b then memget vals (off + me_attr_size_get k a + msize k m (takeWhile (\<lambda>x. x \<noteq> b) as)) (me_attr_size_get k b)
          else attr_val k ?d b)"
      using Cons.IH[OF ld, of "off + me_attr_size_get k a"] Cons.prems(2-4) True by (auto simp: add.assoc)
    have "attr_val k d' b = (if b \<in> set (a # as) \<and> mask_has m b
        then memget vals (off + msize k m (takeWhile (\<lambda>x. x \<noteq> b) (a # as))) (me_attr_size_get k b) else attr_val k d b)"
      if b: "1 \<le> b" "b \<le> 16" for b
      using v[OF b] attr_val_put_same[OF wf Cons.prems(1) a lv] attr_val_put_other[OF wf Cons.prems(1) a b _ lv] True Cons.prems(2)
      by (cases "b = a") (auto simp: add.assoc)
    then show ?thesis using d' True Cons.prems(4) by auto
  qed
qed simp

lemma class_fetch_loop_bounds:
  "off \<le> n \<Longrightarrow> \<not> off + msize k m as \<le> n \<Longrightarrow> fst (class_fetch_loop k m vals n as off d) = OMCI_ERROR_BOUNDS"
  by (induction as arbitrary: off d) (auto simp: add.assoc)

text \<open>The same for an entity, with quiet get handlers.\<close>

lemma data_fetch_loop_ok:
  assumes wf: "class_wf k" and q: "quiet_get E c i g" and n: "n \<le> length v"
    and d: "length d = data_size k" and as: "distinct as" "set as \<subseteq> {1..16}"
    and fits: "\<forall>a \<in> set as. mask_has m a \<longrightarrow> off + msize k dm (takeWhile (\<lambda>x. x \<noteq> a) as) + me_attr_size_get k a \<le> n"
  shows "\<exists>d'. data_fetch_loop E i k m (Some v) n dm as off d c = (OMCI_SUCCESS, d', c) \<and> length d' = data_size k
    \<and> (\<forall>b. 1 \<le> b \<and> b \<le> 16 \<longrightarrow> attr_val k d' b =
         (if b \<in> set as \<and> mask_has m b then
            (case me_attr_get_handler_get k b of Some h \<Rightarrow> g h (attr_val k d b)
             | None \<Rightarrow> memget v (off + msize k dm (takeWhile (\<lambda>x. x \<noteq> b) as)) (me_attr_size_get k b))
          else attr_val k d b))"
  using d as fits
proof (induction as arbitrary: off d)
  case (Cons a as)
  have a: "1 \<le> a" "a \<le> 16" using Cons.prems(3) by auto
  let ?o = "if mask_has dm a then off + me_attr_size_get k a else off"
  have tw: "takeWhile (\<lambda>x. x \<noteq> b) (a # as) = a # takeWhile (\<lambda>x. x \<noteq> b) as" if "b \<in> set as" for b
    using that Cons.prems(2) by auto
  have f: "\<forall>b \<in> set as. mask_has m b \<longrightarrow> ?o + msize k dm (takeWhile (\<lambda>x. x \<noteq> b) as) + me_attr_size_get k b \<le> n"
    using Cons.prems(4) tw by (auto simp: add.assoc split: if_splits)
  define x where "x = (case me_attr_get_handler_get k a of Some h \<Rightarrow> g h (attr_val k d a) | None \<Rightarrow> memget v off (me_attr_size_get k a))"
  define d1 where "d1 = (if mask_has m a then attr_put k a x d else d)"
  have fa: "mask_has m a \<Longrightarrow> off + me_attr_size_get k a \<le> n" using Cons.prems(4) by auto
  have lx: "mask_has m a \<Longrightarrow> length x = me_attr_size_get k a"
    using q attr_val_length[OF wf Cons.prems(1) a] fa n by (auto simp: x_def quiet_get_def split: option.splits)
  have ld: "length d1 = data_size k" using lx attr_put_length[OF wf Cons.prems(1) a] Cons.prems(1) by (simp add: d1_def)
  have st: "data_fetch_loop E i k m (Some v) n dm (a # as) off d c = data_fetch_loop E i k m (Some v) n dm as ?o d1 c"
    using q fa by (auto simp: d1_def x_def quiet_get_def Let_def split: option.splits)
  obtain d' where d': "data_fetch_loop E i k m (Some v) n dm as ?o d1 c = (OMCI_SUCCESS, d', c)" "length d' = data_size k"
    and w: "\<And>b. 1 \<le> b \<Longrightarrow> b \<le> 16 \<Longrightarrow> attr_val k d' b =
         (if b \<in> set as \<and> mask_has m b then
            (case me_attr_get_handler_get k b of Some h \<Rightarrow> g h (attr_val k d1 b)
             | None \<Rightarrow> memget v (?o + msize k dm (takeWhile (\<lambda>x. x \<noteq> b) as)) (me_attr_size_get k b))
          else attr_val k d1 b)"
    using Cons.IH[OF ld _ _ f] Cons.prems(2,3) by auto
  have other: "attr_val k d1 b = attr_val k d b" if "1 \<le> b" "b \<le> 16" "b \<noteq> a" for b
    using attr_val_put_other[OF wf Cons.prems(1) a that(1,2)] lx that(3) by (auto simp: d1_def)
  have "attr_val k d' b = (if b \<in> set (a # as) \<and> mask_has m b then
            (case me_attr_get_handler_get k b of Some h \<Rightarrow> g h (attr_val k d b)
             | None \<Rightarrow> memget v (off + msize k dm (takeWhile (\<lambda>x. x \<noteq> b) (a # as))) (me_attr_size_get k b))
          else attr_val k d b)" if b: "1 \<le> b" "b \<le> 16" for b
  proof (cases "b = a")
    case True
    then show ?thesis using w[OF b] Cons.prems(2) attr_val_put_same[OF wf Cons.prems(1) a lx]
      by (auto simp: d1_def x_def split: option.splits)
  next
    case False
    then show ?thesis using w[OF b] other[OF b False] tw by (auto simp: add.assoc split: option.splits)
  qed
  then show ?case using st d' by auto
qed simp

lemma me_data_fetch_ok:
  assumes "class_wf (cls (me_at c i))" and "quiet_get E c i g" and "me_data (me_at c i) = Some d" and "length d = data_size (cls (me_at c i))"
    and "n \<le> length v"
    and "\<And>a. 1 \<le> a \<Longrightarrow> a \<le> 16 \<Longrightarrow> mask_has m a \<Longrightarrow>
      msize (cls (me_at c i)) dm [1..<a] + me_attr_size_get (cls (me_at c i)) a \<le> n"
  shows "\<exists>d'. me_data_fetch E i m (Some v) n dm c = (OMCI_SUCCESS, d', c) \<and> length d' = data_size (cls (me_at c i))
    \<and> (\<forall>b. 1 \<le> b \<and> b \<le> 16 \<longrightarrow> attr_val (cls (me_at c i)) d' b =
         (if mask_has m b then
            (case me_attr_get_handler_get (cls (me_at c i)) b of Some h \<Rightarrow> g h (attr_val (cls (me_at c i)) d b)
             | None \<Rightarrow> memget v (msize (cls (me_at c i)) dm [1..<b]) (me_attr_size_get (cls (me_at c i)) b))
          else attr_val (cls (me_at c i)) d b))"
proof -
  let ?k = "cls (me_at c i)"
  have r: "b \<in> set [1..<17] \<longleftrightarrow> 1 \<le> b \<and> b \<le> 16" for b :: nat by (auto simp del: upt_rec_numeral)
  have f: "\<forall>a \<in> set [1..<17]. mask_has m a \<longrightarrow> 0 + msize ?k dm (takeWhile (\<lambda>x. x \<noteq> a) [1..<17]) + me_attr_size_get ?k a \<le> n"
    using assms(6) takeWhile_upt by (auto simp del: upt_rec_numeral)
  have s: "set [1..<17] \<subseteq> {1..16 :: nat}" by (auto simp del: upt_rec_numeral)
  have e: "me_data_fetch E i m (Some v) n dm c = data_fetch_loop E i ?k m (Some v) n dm [1..<17] 0 d c"
    using assms(3,4) by (simp add: me_data_fetch_def Let_def del: upt_rec_numeral)
  obtain d' where d': "data_fetch_loop E i ?k m (Some v) n dm [1..<17] 0 d c = (OMCI_SUCCESS, d', c)" "length d' = data_size ?k"
    and w: "\<And>b. 1 \<le> b \<Longrightarrow> b \<le> 16 \<Longrightarrow> attr_val ?k d' b = (if b \<in> set [1..<17] \<and> mask_has m b then
            (case me_attr_get_handler_get ?k b of Some h \<Rightarrow> g h (attr_val ?k d b)
             | None \<Rightarrow> memget v (0 + msize ?k dm (takeWhile (\<lambda>x. x \<noteq> b) [1..<17])) (me_attr_size_get ?k b))
          else attr_val ?k d b)"
    using data_fetch_loop_ok[OF assms(1,2,5,4) distinct_upt s f] by blast
  have "attr_val ?k d' b = (if mask_has m b then
            (case me_attr_get_handler_get ?k b of Some h \<Rightarrow> g h (attr_val ?k d b)
             | None \<Rightarrow> memget v (msize ?k dm [1..<b]) (me_attr_size_get ?k b))
          else attr_val ?k d b)" if "1 \<le> b" "b \<le> 16" for b
    using w[OF that] r[of b] that takeWhile_upt[of b] by (auto simp del: upt_rec_numeral split: option.splits)
  then show ?thesis using e d' by auto
qed

text \<open>In the data of a well-formed class the defined attributes lie at the offsets a packed message would have.\<close>

lemma msize_layout:
  assumes wf: "class_wf k" and a: "1 \<le> a" "a \<le> 16" and nz: "me_attr_size_get k a \<noteq> 0"
  shows "msize k (NOT (inv_attr_mask k)) [1..<a] = me_attr_offset_get k a"
proof -
  have l: "length (attrs k) = 16" and ct: "contiguous 0 (attrs k)" and z: "list_all (\<lambda>a. attr_prop a = 0 \<longrightarrow> attr_size a = 0) (attrs k)"
    and mk: "masks_ok k" using wf by (auto simp: class_wf_def)
  have sz: "(if mask_has (NOT (inv_attr_mask k)) b then me_attr_size_get k b else 0) = attr_size (attrs k ! (b - 1))"
    if "1 \<le> b" "b \<le> 16" for b
    using that mk z l by (auto simp: masks_ok_def me_attr_prop_get_def me_attr_size_get_def me_attr_get_def list_all_length)
  have "msize k (NOT (inv_attr_mask k)) [1..<Suc m] = sum_list (map attr_size (take m (attrs k)))" if "m < 16" for m
    using that
  proof (induction m)
    case (Suc m)
    have "msize k (NOT (inv_attr_mask k)) [1..<Suc (Suc m)]
        = msize k (NOT (inv_attr_mask k)) [1..<Suc m] + (if mask_has (NOT (inv_attr_mask k)) (Suc m) then me_attr_size_get k (Suc m) else 0)"
      by (simp add: msize_def)
    then show ?case using Suc sz[of "Suc m"] l by (simp add: take_Suc_conv_app_nth)
  qed simp
  from this[of "a - 1"] show ?thesis
    using a contiguous_bound[OF ct, of "a - 1"] nz l by (simp add: me_attr_size_get_def me_attr_offset_get_def me_attr_get_def)
qed

lemma msize_le_total:
  assumes "class_wf k" "1 \<le> a" "a \<le> 16"
  shows "msize k m [1..<a] \<le> sum_list (map attr_size (attrs k))"
proof -
  have l: "length (attrs k) = 16" using assms(1) by (simp add: class_wf_def)
  have "msize k m [1..<Suc n] \<le> sum_list (map attr_size (take n (attrs k)))" if "n < 16" for n
    using that
  proof (induction n)
    case (Suc n)
    have "msize k m [1..<Suc (Suc n)] = msize k m [1..<Suc n] + (if mask_has m (Suc n) then me_attr_size_get k (Suc n) else 0)"
      by (simp add: msize_def)
    then show ?case using Suc l by (auto simp: take_Suc_conv_app_nth me_attr_size_get_def me_attr_get_def)
  qed simp
  from this[of "a - 1"] have "msize k m [1..<a] \<le> sum_list (map attr_size (take (a - 1) (attrs k)))" using assms by simp
  also have "\<dots> \<le> sum_list (map attr_size (attrs k))" using take_sum_le[of "a - 1" "attrs k" attr_size] assms l by fastforce
  finally show ?thesis .
qed

lemma read_mask:
  assumes "class_wf k" "1 \<le> a" "a \<le> 16"
  shows "mask_has (NOT (inv_attr_mask k OR opt_attr_mask k)) a \<longleftrightarrow> is_me_attr_exist k a"
  using assms by (auto simp: class_wf_def masks_ok_def is_me_attr_exist_def)

text \<open>Reading an entity that is not a performance monitoring entity gives its data, with the values of the get handlers.\<close>

lemma me_data_read_ok:
  assumes wf: "class_wf (cls (me_at c i))" and np: "\<not> is_pm (cls (me_at c i))" "\<not> is_internal (cls (me_at c i))"
    and q: "quiet_get E c i g" and d: "me_data (me_at c i) = Some d" "length d = data_size (cls (me_at c i))"
    and some: "inv_attr_mask (cls (me_at c i)) OR opt_attr_mask (cls (me_at c i)) \<noteq> 0xFFFF"
  shows "\<exists>d'. me_data_read E i (data_size (cls (me_at c i))) iv c = (OMCI_SUCCESS, d', c) \<and> length d' = data_size (cls (me_at c i))
    \<and> (\<forall>b. 1 \<le> b \<and> b \<le> 16 \<longrightarrow> attr_val (cls (me_at c i)) d' b =
         (if is_me_attr_exist (cls (me_at c i)) b then read_val g (cls (me_at c i)) d b else attr_val (cls (me_at c i)) d b))"
proof -
  let ?k = "cls (me_at c i)"
  let ?m = "NOT (inv_attr_mask ?k OR opt_attr_mask ?k)" and ?dm = "NOT (inv_attr_mask ?k)"
  have e: "me_data_read E i (data_size ?k) iv c = me_data_fetch E i ?m (Some d) (data_size ?k) ?dm c"
    using np some d(1) by (simp add: me_data_read_def pm_me_interval_set_def Let_def)
  have fits: "msize ?k ?dm [1..<a] + me_attr_size_get ?k a \<le> data_size ?k" if "1 \<le> a" "a \<le> 16" for a
  proof (cases "me_attr_size_get ?k a = 0")
    case True
    have "msize ?k ?dm [1..<a] \<le> sum_list (map attr_size (attrs ?k))"
      using msize_le_total[OF wf that] .
    then show ?thesis using True wf by (simp add: class_wf_def)
  qed (use msize_layout[OF wf that] class_wf_bound[OF wf that] in simp)
  obtain d' where d': "me_data_fetch E i ?m (Some d) (data_size ?k) ?dm c = (OMCI_SUCCESS, d', c)" "length d' = data_size ?k"
    and w: "\<And>b. 1 \<le> b \<Longrightarrow> b \<le> 16 \<Longrightarrow> attr_val ?k d' b = (if mask_has ?m b then
            (case me_attr_get_handler_get ?k b of Some h \<Rightarrow> g h (attr_val ?k d b)
             | None \<Rightarrow> memget d (msize ?k ?dm [1..<b]) (me_attr_size_get ?k b)) else attr_val ?k d b)"
    using me_data_fetch_ok[OF wf q d, of "data_size ?k" d ?m ?dm] fits d(2) by auto
  have "attr_val ?k d' b = (if is_me_attr_exist ?k b then read_val g ?k d b else attr_val ?k d b)" if b: "1 \<le> b" "b \<le> 16" for b
  proof (cases "me_attr_size_get ?k b = 0")
    case True
    then have "attr_val ?k d' b = []" "attr_val ?k d b = []" by (simp_all add: attr_val_def)
    moreover have "g h [] = []" for h using q by (metis length_0_conv quiet_get_def)
    ultimately show ?thesis by (auto simp: read_val_def split: option.splits)
  next
    case False
    then show ?thesis using w[OF b] read_mask[OF wf b] msize_layout[OF wf b False]
      by (auto simp: read_val_def attr_val_def[of ?k d] split: option.splits)
  qed
  then show ?thesis using e d' by auto
qed

section \<open>Validation\<close>

lemma attr_validate_mask:
  assumes "1 \<le> a" "a \<le> 16" "1 \<le> b" "b \<le> 16"
  shows "mask_has (attr_validate k d a m) b \<longleftrightarrow> mask_has m b \<or> (a = b \<and> \<not> attr_valid k d a)"
  using assms
  by (auto simp: attr_validate_def attr_valid_def value_valid_def Let_def num_validate_def bf_validate_def enum_validate_def not_less
      split: omci_attr_type.splits option.splits)

lemma fold_attr_validate:
  assumes "set as \<subseteq> {1..16}" "1 \<le> b" "b \<le> 16"
  shows "mask_has (fold (attr_validate k d) as m) b \<longleftrightarrow> mask_has m b \<or> (b \<in> set as \<and> \<not> attr_valid k d b)"
  using assms(1)
proof (induction as arbitrary: m)
  case (Cons a as)
  then show ?case using attr_validate_mask[of a b k d m] assms(2,3) by auto
qed simp

text \<open>
  C28: The default validation is exact: the mask it returns holds precisely the attributes whose value
  is outside the limits, the supported bits or the code points of the class. Attributes that are not
  supported, that only a get handler provides, and those of the types pointer, string and table are
  never refused.
\<close>

theorem default_me_validate_exact:
  assumes "1 \<le> a" and "a \<le> 16"
  shows "fst (default_me_validate k d) = OMCI_SUCCESS \<and> (mask_has (snd (default_me_validate k d)) a \<longleftrightarrow> \<not> attr_valid k d a)"
proof -
  have "set [1..<17] \<subseteq> {1..16 :: nat}" "a \<in> set [1..<17]" using assms by (auto simp del: upt_rec_numeral)
  then show ?thesis using fold_attr_validate[of "[1..<17]" a k d 0] assms by (simp add: default_me_validate_def del: upt_rec_numeral)
qed

theorem default_me_validate_exact_witness:
  "fst (default_me_validate me_ani_g_class (replicate 22 0)) = OMCI_SUCCESS
   \<and> (mask_has (snd (default_me_validate me_ani_g_class (replicate 22 0))) 6 \<longleftrightarrow> \<not> attr_valid me_ani_g_class (replicate 22 0) 6)"
  by (rule default_me_validate_exact) simp_all

section \<open>Changes\<close>

lemma updated_mask_iff:
  assumes "set as \<subseteq> {1..16}" "1 \<le> b" "b \<le> 16"
  shows "mask_has (updated_mask k old new am as m) b \<longleftrightarrow> mask_has m b \<or>
    (b \<in> set as \<and> mask_has am b \<and> (me_attr_prop_get k b AND OMCI_ATTR_PROP_TABLE \<noteq> 0 \<or> attr_val k new b \<noteq> attr_val k old b))"
  using assms(1)
proof (induction as arbitrary: m)
  case (Cons a as)
  then show ?case using assms(2,3) by auto
qed simp

text \<open>An initialised entity counts as changed when a table or an attribute with a new value is in the mask.\<close>

lemma is_data_updated_iff:
  assumes "is_initialized e" "me_data e = Some d"
  shows "fst (is_data_updated e new am) \<longleftrightarrow>
    (\<exists>b. 1 \<le> b \<and> b \<le> 16 \<and> mask_has am b
       \<and> (me_attr_prop_get (cls e) b AND OMCI_ATTR_PROP_TABLE \<noteq> 0 \<or> attr_val (cls e) new b \<noteq> attr_val (cls e) d b))"
proof -
  let ?m = "updated_mask (cls e) d new am [1..<17] 0"
  have s: "set [1..<17] \<subseteq> {1..16 :: nat}" and r: "b \<in> set [1..<17] \<longleftrightarrow> 1 \<le> b \<and> b \<le> 16" for b :: nat
    by (auto simp del: upt_rec_numeral)
  have "fst (is_data_updated e new am) \<longleftrightarrow> ?m \<noteq> 0"
    using assms by (simp add: is_data_updated_def Let_def del: upt_rec_numeral)
  also have "\<dots> \<longleftrightarrow> (\<exists>b. 1 \<le> b \<and> b \<le> 16 \<and> mask_has ?m b)" by (auto simp: mask_zero_iff simp del: upt_rec_numeral)
  finally show ?thesis using updated_mask_iff[OF s] r by (auto simp del: upt_rec_numeral)
qed

end
