(* ===== verification/Omci_Mib.thy ===== *)
theory Omci_Mib
  imports Omci_Me
begin

text \<open>
  The management information base (\<^verbatim>\<open>omci_mib.c\<close>): creation and deletion of managed entities in the
  sorted lists of their classes, the sequence number, the copy that a MIB upload reads, reset and
  walks. Allocation can fail at every step of a creation, and the function then frees what it has.
\<close>

section \<open>Definitions\<close>

subsection \<open>Class lists\<close>

text \<open>\<^verbatim>\<open>mib_me_add_to_class_entry\<close>: before the head, or after the last entry with a smaller identifier.\<close>

fun insert_after :: "(addr \<Rightarrow> u16) \<Rightarrow> addr \<Rightarrow> addr list \<Rightarrow> addr list" where
  "insert_after iid a [] = [a]"
| "insert_after iid a (b # bs) = (if iid b < iid a then b # insert_after iid a bs else a # b # bs)"

fun me_insert :: "(addr \<Rightarrow> u16) \<Rightarrow> addr \<Rightarrow> addr list \<Rightarrow> addr list" where
  "me_insert iid a [] = [a]"
| "me_insert iid a (b # bs) = (if iid a < iid b then a # b # bs else b # insert_after iid a bs)"

text \<open>The search of \<^verbatim>\<open>mib_me_delete\<close>: the first entry with the identifier.\<close>

fun me_first :: "(addr \<Rightarrow> u16) \<Rightarrow> u16 \<Rightarrow> addr list \<Rightarrow> addr option" where
  "me_first iid n [] = None"
| "me_first iid n (b # bs) = (if iid b = n then Some b else me_first iid n bs)"

definition iid_of :: "omci_context \<Rightarrow> addr \<Rightarrow> u16" where
  "iid_of c a = instance_id (me_at c a)"

definition me_list_set :: "nat \<Rightarrow> addr list \<Rightarrow> omci_context \<Rightarrow> omci_context" where
  "me_list_set i as c = c\<lparr> me_class_array := (me_class_array c)[i := (entry_class c i, as)] \<rparr>"

definition me_free :: "addr \<Rightarrow> omci_context \<Rightarrow> omci_context" where
  "me_free a c = c\<lparr> heap := (heap c)(a := None) \<rparr>"

subsection \<open>Creation\<close>

definition call_init :: "omci_env \<Rightarrow> addr \<Rightarrow> octets option \<Rightarrow> u16 \<Rightarrow> omci_context \<Rightarrow> omci_error \<times> omci_context" where
  "call_init E a init suppress c = (case init_handler (cls (me_at c a)) of None \<Rightarrow> (OMCI_SUCCESS, c)
     | Some h \<Rightarrow> if \<not> active (me_at c a) then (OMCI_SUCCESS, c)
         else if h = ''default_me_init'' then default_me_init E a init suppress c else h_init E h c a init suppress)"

definition call_shutdown :: "omci_env \<Rightarrow> addr \<Rightarrow> omci_context \<Rightarrow> omci_context" where
  "call_shutdown E a c = (case shutdown_handler (cls (me_at c a)) of None \<Rightarrow> c
     | Some h \<Rightarrow> if \<not> active (me_at c a) \<or> h = ''default_me_shutdown'' then c else snd (h_shutdown E h c a))"

text \<open>The entry as it is filled in before its buffers are allocated.\<close>

definition me_new :: "me_class \<Rightarrow> u16 \<Rightarrow> bool \<Rightarrow> me" where
  "me_new k iid act = \<lparr> cls = k, instance_id = iid, bufs = [], data = None, alarm_bitmap = None, arc_context = None,
     pm = None, is_initialized = False, active = act \<rparr>"

definition pm_me_context_alloc :: "omci_env \<Rightarrow> omci_context \<Rightarrow> me \<Rightarrow> omci_error \<times> me" where
  "pm_me_context_alloc E c e =
    (if \<not> is_internal (cls e) then (OMCI_SUCCESS, e)
     else if \<not> env_alloc E c ALLOC_PM \<or> data e = None then (OMCI_ERROR_MEMORY, e)
     else (OMCI_SUCCESS, e\<lparr> bufs := replicate 3 (replicate (data_size (cls e)) 0),
        pm := Some \<lparr> interval_curr = 0, interval_hist = 1, interval_abs = 2, pm_tca_bitmap = fst (env_garbage E c),
                     pm_thr = snd (env_garbage E c) \<rparr> \<rparr>))"

text \<open>
  The allocations of a creation in their order. A failure to allocate the data returns the error of
  the step before, which is success.
\<close>

definition me_alloc :: "omci_env \<Rightarrow> omci_context \<Rightarrow> me \<Rightarrow> omci_error \<times> me option" where
  "me_alloc E c e =
    (let k = cls e in
     if class_prop k AND OMCI_ME_PROP_HAS_ALARMS \<noteq> 0 \<and> \<not> env_alloc E c ALLOC_ALARM then (OMCI_ERROR_MEMORY, None)
     else let e = (if class_prop k AND OMCI_ME_PROP_HAS_ALARMS \<noteq> 0
                   then e\<lparr> alarm_bitmap := Some (replicate OMCI_ALARM_BITMAP_SIZE 0) \<rparr> else e) in
       if class_prop k AND OMCI_ME_PROP_HAS_ARC \<noteq> 0 \<and> \<not> env_alloc E c ALLOC_ARC then (OMCI_ERROR_MEMORY, None)
       else let e = (if class_prop k AND OMCI_ME_PROP_HAS_ARC \<noteq> 0
                     then e\<lparr> arc_context := Some \<lparr> arc_attr = 0, arc_interval_attr = 0, arc_timeout_id = 0 \<rparr> \<rparr> else e) in
         if data_size k \<noteq> 0 \<and> \<not> env_alloc E c ALLOC_DATA then (OMCI_SUCCESS, None)
         else let e = (if data_size k \<noteq> 0 then e\<lparr> bufs := [replicate (data_size k) 0], data := Some 0 \<rparr> else e) in
           case pm_me_context_alloc E c e of (err, e) \<Rightarrow>
             if err \<noteq> OMCI_SUCCESS then (err, None)
             else if \<not> env_alloc E c ALLOC_LOCK then (OMCI_ERROR, None)
             else (OMCI_SUCCESS, Some e))"

definition pm_me_add :: "omci_env \<Rightarrow> addr \<Rightarrow> omci_context \<Rightarrow> omci_error \<times> omci_context" where
  "pm_me_add E a c =
    (if \<not> is_internal (cls (me_at c a)) then (OMCI_SUCCESS, c)
     else if \<not> env_alloc E c ALLOC_PM_LIST then (OMCI_ERROR_MEMORY, c)
     else (OMCI_SUCCESS, c\<lparr> pm_list := pm_list c @ [a] \<rparr>))"

definition pm_me_remove :: "addr \<Rightarrow> omci_context \<Rightarrow> omci_context" where
  "pm_me_remove a c = (if \<not> is_internal (cls (me_at c a)) then c else c\<lparr> pm_list := remove1 a (pm_list c) \<rparr>)"

text \<open>The result has the address of the new entity where \<^verbatim>\<open>*me\<close> is not NULL.\<close>

definition mib_me_create ::
    "omci_env \<Rightarrow> bool \<Rightarrow> u16 \<Rightarrow> u16 \<Rightarrow> octets option \<Rightarrow> u16 \<Rightarrow> omci_context \<Rightarrow> omci_error \<times> addr option \<times> omci_context" where
  "mib_me_create E act cid iid init suppress c =
    (if snd (mib_me_find c cid iid) \<noteq> None then (OMCI_ERROR_ME_EXISTS, None, c)
     else case class_entry_find c cid of None \<Rightarrow> (OMCI_ERROR_ME_NOT_SUPPORTED, None, c)
     | Some i \<Rightarrow> case env_malloc E c of None \<Rightarrow> (OMCI_ERROR_MEMORY, None, c)
     | Some a \<Rightarrow> case me_alloc E c (me_new (entry_class c i) iid act) of
         (err, None) \<Rightarrow> (err, None, c)
       | (_, Some e) \<Rightarrow>
         (case call_init E a init suppress (c\<lparr> heap := (heap c)(a \<mapsto> e) \<rparr>) of (err, c) \<Rightarrow>
          if err \<noteq> OMCI_SUCCESS then (err, None, me_free a (call_shutdown E a c))
          else let c = me_update a (\<lambda>e. e\<lparr> is_initialized := True \<rparr>) c;
                   c = me_list_set i (me_insert (iid_of c) a (me_list c i)) c;
                   c = c\<lparr> me_count := me_count c + 1 \<rparr>
            in case pm_me_add E a c of (err, c) \<Rightarrow>
              if err \<noteq> OMCI_SUCCESS then (err, Some a, me_free a (call_shutdown E a c))
              else (OMCI_SUCCESS, Some a, c)))"

subsection \<open>Deletion\<close>

definition mib_me_delete :: "omci_env \<Rightarrow> addr \<Rightarrow> omci_context \<Rightarrow> omci_error \<times> omci_context" where
  "mib_me_delete E a c =
    (let iid = iid_of c a in
     case class_entry_find c (class_id (cls (me_at c a))) of None \<Rightarrow> (OMCI_ERROR_ME_NOT_FOUND, c)
     | Some i \<Rightarrow> (case me_first (iid_of c) iid (me_list c i) of None \<Rightarrow> (OMCI_ERROR_ME_NOT_FOUND, c)
        | Some b \<Rightarrow>
            let c = call_shutdown E b (pm_me_remove b c);
                c = me_list_set i (remove1 b (me_list c i)) c
            in (OMCI_SUCCESS, (me_free b c)\<lparr> me_count := me_count c - 1 \<rparr>)))"

text \<open>\<^verbatim>\<open>mib_destroy\<close>: the classes in the order of the list of supported classes; the rounds of the inner loop are given.\<close>

fun class_destroy :: "omci_env \<Rightarrow> nat \<Rightarrow> nat \<Rightarrow> omci_context \<Rightarrow> omci_context option" where
  "class_destroy E 0 i c = (if me_list c i = [] then Some c else None)"
| "class_destroy E (Suc n) i c = (case me_list c i of [] \<Rightarrow> Some c | a # as \<Rightarrow> class_destroy E n i (snd (mib_me_delete E a c)))"

fun mib_destroy :: "omci_env \<Rightarrow> nat \<Rightarrow> u16 list \<Rightarrow> omci_context \<Rightarrow> (omci_error \<times> omci_context) option" where
  "mib_destroy E n [] c = Some (OMCI_SUCCESS, c)"
| "mib_destroy E n (cid # cids) c = (case class_entry_find c cid of None \<Rightarrow> Some (OMCI_ERROR_ME_NOT_SUPPORTED, c)
     | Some i \<Rightarrow> (case class_destroy E n i c of None \<Rightarrow> None | Some c \<Rightarrow> mib_destroy E n cids c))"

subsection \<open>The sequence number\<close>

abbreviation (input) OMCI_ME_ONU_DATA :: u16 where "OMCI_ME_ONU_DATA \<equiv> 2"

definition mib_data_sync_put :: "(u8 \<Rightarrow> u8) \<Rightarrow> omci_context \<Rightarrow> omci_error \<times> omci_context" where
  "mib_data_sync_put f c = (case mib_me_find c OMCI_ME_ONU_DATA 0 of
     (err, None) \<Rightarrow> (err, c)
   | (_, Some a) \<Rightarrow> (OMCI_SUCCESS, me_update a (\<lambda>e. me_data_put ((the (me_data e))[0 := f (the (me_data e) ! 0)]) e) c))"

definition mib_seq_num_inc :: "omci_context \<Rightarrow> omci_error \<times> omci_context" where
  "mib_seq_num_inc c = mib_data_sync_put (\<lambda>s. if s = 255 then 1 else s + 1) c"

definition mib_seq_num_clear :: "omci_context \<Rightarrow> omci_error \<times> omci_context" where
  "mib_seq_num_clear c = mib_data_sync_put (\<lambda>s. 0) c"

definition mib_seq_num_get :: "omci_context \<Rightarrow> omci_error \<times> u8 option" where
  "mib_seq_num_get c = (case mib_me_find c OMCI_ME_ONU_DATA 0 of
     (err, None) \<Rightarrow> (err, None) | (_, Some a) \<Rightarrow> (OMCI_SUCCESS, Some (the (me_data (me_at c a)) ! 0)))"

subsection \<open>Walks\<close>

fun walk_list :: "(addr \<Rightarrow> omci_context \<Rightarrow> omci_error \<times> omci_context) \<Rightarrow> addr list \<Rightarrow> omci_context \<Rightarrow> omci_error \<times> omci_context" where
  "walk_list f [] c = (OMCI_SUCCESS, c)"
| "walk_list f (a # as) c = (case f a c of (err, c) \<Rightarrow> if err \<noteq> OMCI_SUCCESS then (err, c) else walk_list f as c)"

text \<open>\<^verbatim>\<open>mib_walk\<close> visits the classes in the order of their identifiers; the handler does not change the lists.\<close>

definition mib_walk :: "(addr \<Rightarrow> omci_context \<Rightarrow> omci_error \<times> omci_context) \<Rightarrow> omci_context \<Rightarrow> omci_error \<times> omci_context" where
  "mib_walk f c = walk_list f (concat (map snd (me_class_array c))) c"

definition mib_walk_by_class ::
    "u16 \<Rightarrow> (addr \<Rightarrow> omci_context \<Rightarrow> omci_error \<times> omci_context) \<Rightarrow> omci_context \<Rightarrow> omci_error \<times> omci_context" where
  "mib_walk_by_class cid f c = (case class_entry_find c cid of None \<Rightarrow> (OMCI_ERROR_ME_NOT_SUPPORTED, c)
     | Some i \<Rightarrow> walk_list f (me_list c i) c)"

definition pm_interval_end :: "omci_env \<Rightarrow> u8 \<Rightarrow> omci_context \<Rightarrow> omci_context" where
  "pm_interval_end E t c = snd (mib_walk (interval_end_walker E) (c\<lparr> interval_end_time := t \<rparr>))"

subsection \<open>What handlers keep\<close>

text \<open>
  Two contexts with the same entities: handlers change the data of entities, send messages and
  set timeouts, but they neither create nor delete entities. \<^verbatim>\<open>quiet_mib\<close> says so of the handlers of
  the surroundings, and that memory that is allocated was free.
\<close>

definition me_ident :: "me \<Rightarrow> me_class \<times> u16 \<times> bool" where
  "me_ident e = (cls e, instance_id e, active e)"

definition same_mib :: "omci_context \<Rightarrow> omci_context \<Rightarrow> bool" where
  "same_mib c c' \<longleftrightarrow> me_class_array c' = me_class_array c \<and> me_count c' = me_count c
     \<and> (\<forall>a. map_option me_ident (heap c' a) = map_option me_ident (heap c a))"

definition quiet_mib :: "omci_env \<Rightarrow> bool" where
  "quiet_mib E \<longleftrightarrow>
     (\<forall>h c i bs. same_mib c (snd (snd (h_get E h c i bs)))) \<and>
     (\<forall>h c i d m. same_mib c (snd (snd (h_update E h c i d m)))) \<and>
     (\<forall>h c i d m. same_mib c (snd (h_init E h c i d m))) \<and>
     (\<forall>h c i. same_mib c (snd (h_shutdown E h c i))) \<and>
     (\<forall>h c i v. same_mib c (snd (h_counters_get E h c i v))) \<and>
     (\<forall>h c i t. same_mib c (snd (h_thr_set E h c i t))) \<and>
     (\<forall>c a. env_malloc E c = Some a \<longrightarrow> heap c a = None)"

subsection \<open>The invariant\<close>

text \<open>
  The entities of a class are sorted by instance identifier and allocated, a list that is not empty
  belongs to the entry its class identifier finds, every allocated entity is in a list and the count
  is right. \<^verbatim>\<open>mib_lookup\<close> is the map the base stands for.
\<close>

definition mib_lookup :: "omci_context \<Rightarrow> u16 \<Rightarrow> u16 \<Rightarrow> addr option" where
  "mib_lookup c cid iid = (case class_entry_find c cid of None \<Rightarrow> None | Some i \<Rightarrow> me_search (iid_of c) iid (me_list c i))"

definition entry_ok :: "omci_context \<Rightarrow> nat \<Rightarrow> bool" where
  "entry_ok c i \<longleftrightarrow> sorted_wrt (\<lambda>a b. iid_of c a < iid_of c b) (me_list c i)
     \<and> (\<forall>a \<in> set (me_list c i). \<exists>e. heap c a = Some e \<and> cls e = entry_class c i)
     \<and> (me_list c i \<noteq> [] \<longrightarrow> class_entry_find c (class_id (entry_class c i)) = Some i)"

definition mib_ok :: "omci_context \<Rightarrow> bool" where
  "mib_ok c \<longleftrightarrow> (\<forall>i < length (me_class_array c). entry_ok c i)
     \<and> (\<forall>a. heap c a \<noteq> None \<longrightarrow> (\<exists>i < length (me_class_array c). a \<in> set (me_list c i)))
     \<and> me_count c = sum_list (map (\<lambda>i. length (me_list c i)) [0..<length (me_class_array c)])"

text \<open>Surroundings for the witnesses: handlers that do nothing, a device that takes every message and one free address.\<close>

definition example_env :: omci_env where
  "example_env = \<lparr> h_get = \<lambda>h c i bs. (OMCI_SUCCESS, bs, c), h_validate = \<lambda>h c k d. (OMCI_SUCCESS, 0),
     h_update = \<lambda>h c i d m. (OMCI_SUCCESS, d, c), h_init = \<lambda>h c i d m. (OMCI_SUCCESS, c), h_shutdown = \<lambda>h c i. (OMCI_SUCCESS, c),
     h_tbl_copy = \<lambda>h c i a. (OMCI_SUCCESS, Some (replicate 70 1), 70, True), h_counters_get = \<lambda>h c i v. (OMCI_SUCCESS, c),
     h_thr_set = \<lambda>h c i t. (OMCI_SUCCESS, c), h_action = \<lambda>h c i m r. (OMCI_SUCCESS, r, c), env_send = \<lambda>c m. OMCI_SUCCESS,
     env_malloc = \<lambda>c. if heap c 7 = None then Some 7 else None, env_alloc = \<lambda>c s. True, env_now = \<lambda>c. 0, env_stack = replicate 15 0,
     env_garbage = \<lambda>c. (replicate 28 0, replicate 15 0), env_reboot = \<lambda>c. OMCI_SUCCESS, env_on_reset = \<lambda>c. (OMCI_SUCCESS, c) \<rparr>"

text \<open>The ONU data entity with its data, and the number of increments.\<close>

definition onu_data_ok :: "omci_context \<Rightarrow> bool" where
  "onu_data_ok c \<longleftrightarrow> (\<exists>a e i. mib_lookup c OMCI_ME_ONU_DATA 0 = Some a \<and> heap c a = Some e \<and> data e = Some i \<and> i < length (bufs e) \<and> bufs e ! i \<noteq> [])"

definition mib_seq_num_incs :: "nat \<Rightarrow> omci_context \<Rightarrow> omci_context" where
  "mib_seq_num_incs n c = ((\<lambda>c. snd (mib_seq_num_inc c)) ^^ n) c"

definition example_onu_me :: me where
  "example_onu_me = example_pm_me\<lparr> cls := mk_class 2 [] [] None None None None None None None None None 1 0, instance_id := 0,
     bufs := [[255]], pm := None \<rparr>"

definition example_onu_ctx :: omci_context where
  "example_onu_ctx = example_pm_ctx\<lparr> me_class_array := [(cls example_onu_me, [3])], heap := [3 \<mapsto> example_onu_me] \<rparr>"

section \<open>Sorted lists of instances\<close>

text \<open>
  What the code relies on in a list of instances: it is a map from identifiers to entities. The
  clients below use the facts of the locale only.
\<close>

locale keyed_store =
  fixes key :: "'v \<Rightarrow> 'k" and inv :: "'s \<Rightarrow> bool" and look :: "'k \<Rightarrow> 's \<Rightarrow> 'v option"
    and ins :: "'v \<Rightarrow> 's \<Rightarrow> 's" and del :: "'v \<Rightarrow> 's \<Rightarrow> 's"
  assumes look_key: "inv s \<Longrightarrow> look k s = Some v \<Longrightarrow> key v = k"
    and ins_inv: "inv s \<Longrightarrow> look (key v) s = None \<Longrightarrow> inv (ins v s)"
    and look_ins: "inv s \<Longrightarrow> look (key v) s = None \<Longrightarrow> look k (ins v s) = (if k = key v then Some v else look k s)"
    and del_inv: "inv s \<Longrightarrow> look (key v) s = Some v \<Longrightarrow> inv (del v s)"
    and look_del: "inv s \<Longrightarrow> look (key v) s = Some v \<Longrightarrow> look k (del v s) = (if k = key v then None else look k s)"
begin

lemma del_ins: "inv s \<Longrightarrow> look (key v) s = None \<Longrightarrow> look k (del v (ins v s)) = look k s"
  by (simp add: ins_inv look_ins look_del)

lemma ins_del: "inv s \<Longrightarrow> look (key v) s = Some v \<Longrightarrow> look k (ins v (del v s)) = look k s"
  by (simp add: del_inv look_ins look_del)

lemma ins_ins:
  "inv s \<Longrightarrow> look (key v) s = None \<Longrightarrow> look (key w) s = None \<Longrightarrow> key v \<noteq> key w \<Longrightarrow>
   look k (ins v (ins w s)) = look k (ins w (ins v s))"
  by (simp add: ins_inv look_ins)

end

definition sorted_iid :: "(addr \<Rightarrow> u16) \<Rightarrow> addr list \<Rightarrow> bool" where
  "sorted_iid iid as \<longleftrightarrow> sorted_wrt (\<lambda>a b. iid a < iid b) as"

lemma sorted_iid_simps [simp]:
  "sorted_iid iid []" "sorted_iid iid (a # as) \<longleftrightarrow> (\<forall>b \<in> set as. iid a < iid b) \<and> sorted_iid iid as"
  by (auto simp: sorted_iid_def)

lemma me_search_Some_iff: "sorted_iid iid as \<Longrightarrow> me_search iid n as = Some a \<longleftrightarrow> a \<in> set as \<and> iid a = n"
  by (induction as) auto

lemma me_search_None_iff: "sorted_iid iid as \<Longrightarrow> me_search iid n as = None \<longleftrightarrow> (\<forall>a \<in> set as. iid a \<noteq> n)"
  by (induction as) auto

lemma me_first_Some: "me_first iid n as = Some a \<Longrightarrow> a \<in> set as \<and> iid a = n"
  by (induction as) (auto split: if_splits)

lemma me_first_None: "me_first iid n as = None \<longleftrightarrow> (\<forall>a \<in> set as. iid a \<noteq> n)"
  by (induction as) auto

lemma me_first_search:
  assumes "sorted_iid iid as"
  shows "me_first iid n as = me_search iid n as"
proof (cases "me_first iid n as")
  case None
  then have "me_search iid n as = None" using me_search_None_iff[OF assms] by (simp add: me_first_None)
  with None show ?thesis by simp
next
  case (Some a)
  then have "me_search iid n as = Some a" using me_first_Some[OF Some] me_search_Some_iff[OF assms] by simp
  with Some show ?thesis by simp
qed

lemma insert_after_set [simp]: "set (insert_after iid a as) = insert a (set as)"
  by (induction as) auto

lemma insert_after_sorted: "sorted_iid iid as \<Longrightarrow> iid a \<notin> iid ` set as \<Longrightarrow> sorted_iid iid (insert_after iid a as)"
proof (induction as)
  case (Cons b bs)
  then have "iid a \<noteq> iid b" by simp
  then show ?case using Cons by (auto simp: not_less le_less)
qed simp

lemma me_insert_set [simp]: "set (me_insert iid a as) = insert a (set as)"
  by (cases as) auto

lemma me_insert_sorted:
  assumes "sorted_iid iid as" "iid a \<notin> iid ` set as"
  shows "sorted_iid iid (me_insert iid a as)"
proof (cases as)
  case (Cons b bs)
  have "iid b < iid a" if "\<not> iid a < iid b" using that assms(2) Cons by (auto simp: not_less le_less)
  then show ?thesis using assms Cons insert_after_sorted[of iid bs a] by auto
qed simp

lemma sorted_iid_distinct: "sorted_iid iid as \<Longrightarrow> distinct as"
  by (induction as) auto

lemma sorted_iid_remove1: "sorted_iid iid as \<Longrightarrow> sorted_iid iid (remove1 a as)"
  by (induction as) (auto dest: notin_set_remove1)

lemma sorted_iid_inj: "sorted_iid iid as \<Longrightarrow> a \<in> set as \<Longrightarrow> b \<in> set as \<Longrightarrow> iid a = iid b \<Longrightarrow> a = b"
proof (induction as)
  case (Cons x xs)
  then show ?case by (metis less_irrefl set_ConsD sorted_iid_simps(2))
qed simp

lemma option_eqI_Some: "(\<And>v. x = Some v \<longleftrightarrow> y = Some v) \<Longrightarrow> x = y"
  by (cases x; cases y) auto

interpretation ml: keyed_store iid "sorted_iid iid" "me_search iid" "me_insert iid" remove1 for iid
proof (unfold_locales, goal_cases)
  case (1 s k v)
  then show ?case by (simp add: me_search_Some_iff)
next
  case (2 s v)
  then show ?case by (intro me_insert_sorted) (auto simp: me_search_None_iff)
next
  case (3 s v k)
  then have "sorted_iid iid (me_insert iid v s)" by (intro me_insert_sorted) (auto simp: me_search_None_iff)
  with 3 show ?case by (intro option_eqI_Some) (auto simp: me_search_Some_iff me_search_None_iff)
next
  case (4 s v)
  then show ?case by (simp add: sorted_iid_remove1)
next
  case (5 s v k)
  then show ?case
    by (intro option_eqI_Some) (auto simp: me_search_Some_iff sorted_iid_remove1 sorted_iid_distinct dest: sorted_iid_inj)
qed

section \<open>Handlers keep the entities\<close>

lemma same_mib_refl [simp, intro]: "same_mib c c"
  by (simp add: same_mib_def)

lemma same_mib_trans [trans]: "same_mib a b \<Longrightarrow> same_mib b c \<Longrightarrow> same_mib a c"
  by (simp add: same_mib_def)

lemma same_mib_update [intro]:
  "(\<And>e. me_ident (f e) = me_ident e) \<Longrightarrow> same_mib c (me_update a f c)"
  by (auto simp: same_mib_def me_update_def split: option.splits)

lemma same_mib_fields [intro]:
  "same_mib c (c\<lparr> sent := x \<rparr>)" "same_mib c (c\<lparr> alarm_seq_num := y \<rparr>)" "same_mib c (c\<lparr> timeouts := z \<rparr>)"
  "same_mib c (c\<lparr> interval_end_time := w \<rparr>)" "same_mib c (c\<lparr> pm_list := l \<rparr>)"
  by (simp_all add: same_mib_def)

named_theorems keeps_mib \<open>operations that keep the entities\<close>

lemma keeps_send [keeps_mib]: "same_mib c (snd (omci_msg_send E m c))" "same_mib c (snd (tca_send E e b c))"
  "same_mib c (snd (alarm_send E e c))"
  by (auto simp: omci_msg_send_def tca_send_def alarm_send_def split: option.splits)

lemma keeps_thr_check [keeps_mib]: "same_mib c (snd (me_thr_check E a c))"
proof -
  have "same_mib c (me_update a (\<lambda>e. e\<lparr> pm := x e \<rparr>) c)" for x by (rule same_mib_update) (simp add: me_ident_def)
  then show ?thesis using same_mib_trans[OF _ keeps_send(2)]
    by (auto simp: me_thr_check_def Let_def split: prod.splits omci_error.splits)
qed

lemma me_ident_ptr [simp]: "me_ident (pm_interval_ptr v e) = me_ident e"
  by (simp add: me_ident_def pm_interval_ptr_def)

lemma me_ident_bufs [simp]: "me_ident (e\<lparr> bufs := b \<rparr>) = me_ident e" "me_ident (me_data_put d e) = me_ident e"
  "me_ident (e\<lparr> alarm_bitmap := m \<rparr>) = me_ident e" "me_ident (e\<lparr> pm := p \<rparr>) = me_ident e" "me_ident (e\<lparr> is_initialized := z \<rparr>) = me_ident e"
  by (simp_all add: me_ident_def me_data_put_def split: option.splits)

lemma keeps_counters_fetch [keeps_mib]:
  assumes "quiet_mib E"
  shows "same_mib c (snd (pm_counters_fetch E n a v c))"
proof -
  define c1 where "c1 = (if is_internal (cls (me_at c a)) then me_update a (pm_interval_ptr OMCI_PM_INTERVAL_ABS) c else c)"
  have 1: "same_mib c c1" by (auto simp: c1_def)
  obtain err c2 where h: "h_counters_get E n c1 a v = (err, c2)" by fastforce
  have 2: "same_mib c1 c2" using assms h by (metis quiet_mib_def snd_conv)
  have 3: "same_mib c2 (me_update a f c2)" if "\<And>e. me_ident (f e) = me_ident e" for f using that by blast
  show ?thesis
    using same_mib_trans[OF same_mib_trans[OF 1 2] 3] same_mib_trans[OF 1 2] h
    by (auto simp: pm_counters_fetch_def Let_def simp flip: c1_def)
qed

lemma keeps_counters_get [keeps_mib]:
  assumes "quiet_mib E"
  shows "same_mib c (snd (pm_me_counters_get E a v c))"
proof -
  obtain err c1 where f: "(case counters_get_handler (cls (me_at c a)) of None \<Rightarrow> (OMCI_SUCCESS, c) | Some n \<Rightarrow> pm_counters_fetch E n a v c) = (err, c1)"
    by fastforce
  have "same_mib c c1" using f keeps_counters_fetch[OF assms] by (cases "counters_get_handler (cls (me_at c a))") (auto, metis snd_conv)
  then show ?thesis using f keeps_thr_check[of c1 E a] same_mib_trans by (auto simp: pm_me_counters_get_def Let_def split: omci_error.splits)
qed

lemma keeps_interval_set [keeps_mib]: "quiet_mib E \<Longrightarrow> same_mib c (pm_me_interval_set E a v c)"
  by (auto simp: pm_me_interval_set_def keeps_counters_get)

lemma keeps_fetch_loop: "quiet_mib E \<Longrightarrow> same_mib c (snd (snd (data_fetch_loop E i k am vals n dm as off d c)))"
proof (induction as arbitrary: off d c)
  case (Cons a as)
  have g: "same_mib c c1" if "h_get E h c i bs = (err, x, c1)" for h bs err x c1 using that Cons.prems by (metis quiet_mib_def snd_conv)
  show ?case using Cons.IH[OF Cons.prems] g same_mib_trans
    by (auto simp: Let_def split: option.splits prod.splits) blast+
qed simp

lemma keeps_read [keeps_mib]:
  assumes "quiet_mib E"
  shows "same_mib c (snd (snd (me_data_fetch E i am vals n dm c)))"
    and "same_mib c (snd (snd (me_data_read E i n v c)))"
    and "same_mib c (snd (snd (me_attr_read_with_interval E i a v c)))"
    and "same_mib c (snd (snd (me_attr_read E i a c)))"
proof -
  show f: "same_mib c (snd (snd (me_data_fetch E i am vals n dm c)))" for am vals n dm c
    unfolding me_data_fetch_def Let_def by (rule keeps_fetch_loop[OF assms])
  show r: "same_mib c (snd (snd (me_data_read E i n v c)))" for n v
    using same_mib_trans[OF keeps_interval_set[OF assms] f] by (simp add: me_data_read_def Let_def)
  show w: "same_mib c (snd (snd (me_attr_read_with_interval E i a v c)))" for v
    using r[of "data_size (cls (me_at c i))" v]
    by (cases "me_data_read E i (data_size (cls (me_at c i))) v c") (simp add: me_attr_read_with_interval_def Let_def)
  show "same_mib c (snd (snd (me_attr_read E i a c)))" unfolding me_attr_read_def by (rule w)
qed

lemma keeps_avc [keeps_mib]:
  assumes "quiet_mib E"
  shows "same_mib c (snd (avc_send E i a c))" and "same_mib c (snd (me_avc_send E i am supp upd c))"
proof -
  show s: "same_mib c (snd (avc_send E i a c))" for a c
    using keeps_read(4)[OF assms, of c i a] keeps_send(1) same_mib_trans
    by (cases "me_attr_read E i a c") (auto simp: avc_send_def Let_def)
  have "same_mib c (avc_send_loop E i m as c)" for m as c
    by (induction as arbitrary: c) (auto intro: same_mib_trans[OF s])
  then show "same_mib c (snd (me_avc_send E i am supp upd c))" by (simp add: me_avc_send_def Let_def)
qed

lemma keeps_thr_set [keeps_mib]: "quiet_mib E \<Longrightarrow> same_mib c (snd (call_thr_set E i thr c))"
  by (auto simp: call_thr_set_def default_me_thr_set_def quiet_mib_def split: option.splits)

lemma keeps_thr_part:
  assumes "quiet_mib E"
  shows "same_mib c (snd (snd (pm_thr_part E cid tid pos thr c)))"
proof (cases "snd (mib_me_find c cid tid)")
  case (Some j)
  then show ?thesis using keeps_read(2)[OF assms, of c j 28 OMCI_PM_INTERVAL_CURR]
    by (cases "me_data_read E j 28 OMCI_PM_INTERVAL_CURR c") (simp add: pm_thr_part_def)
qed (simp add: pm_thr_part_def)

lemma keeps_pm_thr_set [keeps_mib]:
  assumes "quiet_mib E"
  shows "same_mib c (snd (pm_me_thr_set E i c))"
proof -
  obtain e1 bs c1 where r1: "me_attr_read E i omci_me_pm_thr_data_id c = (e1, bs, c1)" by (metis prod_cases3)
  obtain e2 t2 c2 where r2: "pm_thr_part E 273 (octets_be16 bs) 0 (replicate PM_THR_NUM 0) c1 = (e2, t2, c2)" by (metis prod_cases3)
  obtain e3 t3 c3 where r3: "pm_thr_part E 274 (octets_be16 bs) 8 t2 c2 = (e3, t3, c3)" by (metis prod_cases3)
  have 1: "same_mib c c1" using keeps_read(4)[OF assms, of c i omci_me_pm_thr_data_id] r1 by simp
  have 2: "same_mib c c2" using same_mib_trans[OF 1] keeps_thr_part[OF assms, of c1] r2 by (metis snd_conv)
  have 3: "same_mib c c3" using same_mib_trans[OF 2] keeps_thr_part[OF assms, of c2] r3 by (metis snd_conv)
  show ?thesis using 1 2 3 same_mib_trans[OF 3 keeps_thr_set[OF assms]] r1 r2 r3 by (simp add: pm_me_thr_set_def Let_def)
qed

lemma keeps_update:
  assumes "quiet_mib E"
  shows "same_mib c (snd (snd (call_update E i d am c)))"
proof -
  have "same_mib c (snd (default_me_update E i d c))" using keeps_thr_set[OF assms] by (simp add: default_me_update_def Let_def)
  then show ?thesis using assms
    by (cases "default_me_update E i d c") (auto simp: call_update_def Let_def quiet_mib_def)
qed

lemma keeps_write [keeps_mib]:
  assumes "quiet_mib E"
  shows "same_mib c (snd (me_data_write E i d am supp c))"
proof -
  let ?e = "me_at c i"
  obtain e1 d1 c1 where u: "(if active ?e then call_update E i d am c else (OMCI_SUCCESS, d, c)) = (e1, d1, c1)" by (metis prod_cases3)
  have 1: "same_mib c c1" using u keeps_update[OF assms, of c i d am] by (auto split: if_splits)
  define c2 where "c2 = me_update i (me_data_put d1) c1"
  have 2: "same_mib c c2" using same_mib_trans[OF 1 same_mib_update] by (simp add: c2_def)
  define c3 where "c3 = (if is_pm (cls ?e) \<and> mask_has (snd (is_data_updated ?e d am)) omci_me_pm_thr_data_id then snd (pm_me_thr_set E i c2) else c2)"
  have 3: "same_mib c c3" using same_mib_trans[OF 2 keeps_pm_thr_set[OF assms]] 2 by (simp add: c3_def)
  show ?thesis using 1 same_mib_trans[OF 3 keeps_avc(2)[OF assms]] u
    by (auto simp: me_data_write_def Let_def split_def simp flip: c2_def c3_def)
qed

lemma keeps_init [keeps_mib]: "quiet_mib E \<Longrightarrow> same_mib c (snd (call_init E a init supp c))"
  by (auto simp: call_init_def default_me_init_def Let_def keeps_write quiet_mib_def split: option.splits)

lemma keeps_shutdown [keeps_mib]: "quiet_mib E \<Longrightarrow> same_mib c (call_shutdown E a c)"
  by (auto simp: call_shutdown_def quiet_mib_def split: option.splits)

section \<open>The invariant and the map\<close>

lemma mib_me_find_lookup: "mib_me_find c cid iid = (case mib_lookup c cid iid of None \<Rightarrow> (OMCI_ERROR_ME_NOT_FOUND, None) | Some a \<Rightarrow> (OMCI_SUCCESS, Some a))"
  unfolding mib_me_find_def mib_lookup_def iid_of_def[abs_def] by (simp split: option.splits)

lemma class_index_Some: "class_index es cid = Some i \<Longrightarrow> i < length es \<and> class_id (fst (es ! i)) = cid"
  by (induction es arbitrary: i) (auto split: if_splits)

lemma class_index_update: "class_index (es[i := (fst (es ! i), as)]) cid = class_index es cid"
proof (induction es arbitrary: i)
  case (Cons e es)
  then show ?case by (cases i) auto
qed simp

lemma class_entry_find_Some: "class_entry_find c cid = Some i \<Longrightarrow> i < length (me_class_array c) \<and> class_id (entry_class c i) = cid"
  unfolding class_entry_find_def entry_class_def by (rule class_index_Some)

lemma me_search_cong: "(\<And>a. a \<in> set as \<Longrightarrow> f a = g a) \<Longrightarrow> me_search f n as = me_search g n as"
  by (induction as) auto

lemma sorted_iid_cong: "(\<And>a. a \<in> set as \<Longrightarrow> f a = g a) \<Longrightarrow> sorted_iid f as = sorted_iid g as"
  by (induction as) auto

lemma entry_ok_sorted: "entry_ok c i \<Longrightarrow> sorted_iid (iid_of c) (me_list c i)"
  by (simp add: entry_ok_def sorted_iid_def)

text \<open>An operation that keeps the entities keeps everything the invariant and the map speak of.\<close>

lemma same_mib_simps:
  assumes "same_mib c c'"
  shows "me_class_array c' = me_class_array c" "class_entry_find c' cid = class_entry_find c cid" "me_list c' i = me_list c i"
    "entry_class c' i = entry_class c i" "me_count c' = me_count c" "heap c' a = None \<longleftrightarrow> heap c a = None"
  using assms by (auto simp: same_mib_def class_entry_find_def me_list_def entry_class_def) (metis option.map_disc_iff)+

lemma same_mib_heap:
  assumes "same_mib c c'" "heap c a = Some e"
  shows "\<exists>e'. heap c' a = Some e' \<and> cls e' = cls e \<and> instance_id e' = instance_id e \<and> active e' = active e"
proof -
  have "map_option me_ident (heap c' a) = Some (me_ident e)" using assms by (simp add: same_mib_def)
  then show ?thesis by (auto simp: me_ident_def)
qed

lemma same_mib_iid: "same_mib c c' \<Longrightarrow> heap c a \<noteq> None \<Longrightarrow> iid_of c' a = iid_of c a"
  using same_mib_heap by (fastforce simp: iid_of_def me_at_def)

lemma same_mib_lookup:
  assumes "same_mib c c'" "mib_ok c"
  shows "mib_lookup c' cid iid = mib_lookup c cid iid"
proof (cases "class_entry_find c cid")
  case (Some i)
  then have "entry_ok c i" using assms(2) class_entry_find_Some[OF Some] by (simp add: mib_ok_def)
  then have "me_search (iid_of c') iid (me_list c i) = me_search (iid_of c) iid (me_list c i)"
    by (intro me_search_cong same_mib_iid[OF assms(1)]) (auto simp: entry_ok_def)
  then show ?thesis using Some by (simp add: mib_lookup_def same_mib_simps[OF assms(1)])
qed (simp add: mib_lookup_def same_mib_simps[OF assms(1)])

lemma same_mib_ok:
  assumes "same_mib c c'" "mib_ok c"
  shows "mib_ok c'"
proof -
  note s = same_mib_simps[OF assms(1)]
  have "entry_ok c' i" if "i < length (me_class_array c)" for i
  proof -
    have ok: "entry_ok c i" using assms(2) that by (simp add: mib_ok_def)
    then have "sorted_iid (iid_of c') (me_list c i)"
      using entry_ok_sorted[OF ok] sorted_iid_cong[of "me_list c i" "iid_of c'" "iid_of c"] same_mib_iid[OF assms(1)]
      by (fastforce simp: entry_ok_def)
    moreover have "\<exists>e. heap c' a = Some e \<and> cls e = entry_class c i" if "a \<in> set (me_list c i)" for a
      using ok that same_mib_heap[OF assms(1)] by (fastforce simp: entry_ok_def)
    ultimately show ?thesis using ok s by (simp add: entry_ok_def sorted_iid_def)
  qed
  then show ?thesis using assms(2) s by (simp add: mib_ok_def)
qed

text \<open>Changing one class list.\<close>

lemma me_list_set_simps:
  assumes "i < length (me_class_array c)"
  shows "class_entry_find (me_list_set i as c) cid = class_entry_find c cid"
    and "me_list (me_list_set i as c) j = (if j = i then as else me_list c j)"
    and "entry_class (me_list_set i as c) j = entry_class c j"
    and "heap (me_list_set i as c) = heap c" and "me_count (me_list_set i as c) = me_count c"
    and "length (me_class_array (me_list_set i as c)) = length (me_class_array c)"
    and "me_at (me_list_set i as c) = me_at c"
    and "iid_of (me_list_set i as c) = iid_of c"
  using assms class_index_update[of "me_class_array c" i as cid]
  by (auto simp: me_list_set_def class_entry_find_def me_list_def entry_class_def me_at_def iid_of_def fun_eq_iff nth_list_update)

lemma mib_address_unique:
  assumes "mib_ok c" "i < length (me_class_array c)" "j < length (me_class_array c)" "a \<in> set (me_list c i)" "a \<in> set (me_list c j)"
  shows "i = j"
proof -
  have e: "entry_ok c i" "entry_ok c j" using assms(1-3) by (simp_all add: mib_ok_def)
  obtain x where x: "heap c a = Some x" "cls x = entry_class c i" using e(1) assms(4) unfolding entry_ok_def by blast
  obtain y where y: "heap c a = Some y" "cls y = entry_class c j" using e(2) assms(5) unfolding entry_ok_def by blast
  have "me_list c i \<noteq> []" "me_list c j \<noteq> []" using assms(4,5) by auto
  then have "class_entry_find c (class_id (entry_class c i)) = Some i" "class_entry_find c (class_id (entry_class c j)) = Some j"
    using e unfolding entry_ok_def by blast+
  then show ?thesis using x y by (metis option.inject)
qed

lemma sum_list_update_one:
  "i < n \<Longrightarrow> sum_list (map (\<lambda>j. if j = i then x else f j) [0..<n]) + f i = sum_list (map f [0..<n]) + (x :: nat)"
proof (induction n)
  case (Suc n)
  show ?case
  proof (cases "i = n")
    case True
    have m: "map (\<lambda>j. if j = n then x else f j) [0..<n] = map f [0..<n]" by (rule map_cong) auto
    show ?thesis by (simp add: True) (simp only: m)
  qed (use Suc in simp)
qed simp

text \<open>
  Linking a new entity: \<^verbatim>\<open>c\<close> without it satisfies the invariant, \<^verbatim>\<open>c1\<close> has it allocated and linked.
\<close>

lemma link_ok:
  assumes ok: "mib_ok c" and i: "class_entry_find c cid = Some i" and free: "heap c a = None"
    and h: "heap c1 = (heap c)(a \<mapsto> e)" and k: "cls e = entry_class c i" and no: "mib_lookup c cid (instance_id e) = None"
    and arr: "me_class_array c1 = me_class_array c" and cnt: "me_count c1 = me_count c"
  defines "c2 \<equiv> (me_list_set i (me_insert (iid_of c1) a (me_list c1 i)) c1)\<lparr> me_count := me_count c1 + 1 \<rparr>"
  shows "mib_ok c2 \<and> (\<forall>cid' iid'. mib_lookup c2 cid' iid' = (if cid' = cid \<and> iid' = instance_id e then Some a else mib_lookup c cid' iid'))"
proof -
  have li: "i < length (me_class_array c)" and ci: "class_id (entry_class c i) = cid" using class_entry_find_Some[OF i] by auto
  have base: "me_list c1 j = me_list c j" "entry_class c1 j = entry_class c j" "class_entry_find c1 n = class_entry_find c n" for j n
    using arr by (simp_all add: me_list_def entry_class_def class_entry_find_def)
  have alloc: "heap c b \<noteq> None" if "b \<in> set (me_list c j)" "j < length (me_class_array c)" for b j
    using ok that by (fastforce simp: mib_ok_def entry_ok_def)
  have iid_old: "iid_of c1 b = iid_of c b" if "b \<in> set (me_list c j)" "j < length (me_class_array c)" for b j
    using alloc[OF that] free h by (auto simp: iid_of_def me_at_def)
  have iid_a: "iid_of c1 a = instance_id e" using h by (simp add: iid_of_def me_at_def)
  let ?L = "me_insert (iid_of c1) a (me_list c i)"
  have eoi: "entry_ok c i" using ok li by (simp add: mib_ok_def)
  have srt: "sorted_iid (iid_of c1) (me_list c i)"
    using entry_ok_sorted[OF eoi] sorted_iid_cong[of "me_list c i" "iid_of c1" "iid_of c"] iid_old li by blast
  have fresh: "me_search (iid_of c1) (iid_of c1 a) (me_list c i) = None"
    using no i me_search_cong[of "me_list c i" "iid_of c1" "iid_of c"] iid_old li iid_a by (simp add: mib_lookup_def)
  have c2: "class_entry_find c2 n = class_entry_find c n" "me_list c2 j = (if j = i then ?L else me_list c j)"
    "entry_class c2 j = entry_class c j" "heap c2 = heap c1" "iid_of c2 = iid_of c1" "length (me_class_array c2) = length (me_class_array c)"
    "me_count c2 = me_count c + 1" for n j
    using me_list_set_simps[of i c1 "me_insert (iid_of c1) a (me_list c1 i)"] li arr base cnt
    by (auto simp: c2_def class_entry_find_def me_list_def entry_class_def iid_of_def me_at_def fun_eq_iff)
  have eo: "entry_ok c2 j" if lj: "j < length (me_class_array c)" for j
  proof (cases "j = i")
    case True
    have "sorted_iid (iid_of c2) (me_list c2 i)" using ml.ins_inv[OF srt fresh] c2 by simp
    moreover have "\<exists>x. heap c2 b = Some x \<and> cls x = entry_class c i" if "b \<in> set ?L" for b
      using that eoi alloc[of b i] li free h k c2(4) by (auto simp: entry_ok_def)
    ultimately show ?thesis using True c2 i ci by (simp add: entry_ok_def sorted_iid_def)
  next
    case False
    have ej: "entry_ok c j" using ok lj by (simp add: mib_ok_def)
    have "sorted_iid (iid_of c2) (me_list c j)"
      using entry_ok_sorted[OF ej] sorted_iid_cong[of "me_list c j" "iid_of c1" "iid_of c"] iid_old[OF _ lj] c2(5) by simp
    moreover have "\<exists>x. heap c2 b = Some x \<and> cls x = entry_class c j" if "b \<in> set (me_list c j)" for b
      using that ej alloc[OF that lj] free h c2(4) by (auto simp: entry_ok_def)
    ultimately show ?thesis using False c2 ej by (simp add: entry_ok_def sorted_iid_def)
  qed
  have linked: "\<exists>j < length (me_class_array c2). b \<in> set (me_list c2 j)" if "heap c2 b \<noteq> None" for b
  proof (cases "b = a")
    case True
    then show ?thesis using li c2 by (intro exI[of _ i]) simp
  next
    case False
    then have "heap c b \<noteq> None" using that c2(4) h by simp
    then obtain j where "j < length (me_class_array c)" "b \<in> set (me_list c j)" using ok unfolding mib_ok_def by blast
    then show ?thesis using c2 by (intro exI[of _ j]) auto
  qed
  have len: "length ?L = length (me_list c i) + 1"
    using sorted_iid_distinct[OF srt] sorted_iid_distinct[OF ml.ins_inv[OF srt fresh]] alloc[of a i] li free
    by (metis (no_types, lifting) Suc_eq_plus1 card_insert_disjoint distinct_card finite_set me_insert_set)
  have "sum_list (map (\<lambda>j. length (me_list c2 j)) [0..<length (me_class_array c2)])
      = sum_list (map (\<lambda>j. if j = i then length ?L else length (me_list c j)) [0..<length (me_class_array c)])"
    by (simp only: c2(2,6) if_distrib[of length])
  then have "sum_list (map (\<lambda>j. length (me_list c2 j)) [0..<length (me_class_array c2)]) = me_count c2"
    using sum_list_update_one[OF li, of "length ?L" "\<lambda>j. length (me_list c j)"] ok c2(7) len by (simp add: mib_ok_def)
  then have "mib_ok c2" using eo linked c2(6) by (simp add: mib_ok_def)
  moreover have "mib_lookup c2 cid' iid' = (if cid' = cid \<and> iid' = instance_id e then Some a else mib_lookup c cid' iid')" for cid' iid'
  proof (cases "class_entry_find c cid'")
    case None
    then show ?thesis using i c2(1) by (auto simp: mib_lookup_def)
  next
    case (Some j)
    have lj: "j < length (me_class_array c)" and cj: "class_id (entry_class c j) = cid'" using class_entry_find_Some[OF Some] by auto
    have s: "me_search (iid_of c1) iid' (me_list c j) = me_search (iid_of c) iid' (me_list c j)"
      using iid_old lj by (intro me_search_cong) blast
    show ?thesis
    proof (cases "j = i")
      case True
      then show ?thesis using Some c2 s cj ci ml.look_ins[OF srt fresh, of iid'] iid_a by (simp add: mib_lookup_def)
    next
      case False
      then have "cid' \<noteq> cid" using Some i by auto
      then show ?thesis using Some c2 s False by (simp add: mib_lookup_def)
    qed
  qed
  ultimately show ?thesis by blast
qed

text \<open>Unlinking and freeing an entity.\<close>

lemma unlink_ok:
  assumes ok: "mib_ok c" and i: "class_entry_find c cid = Some i" and a: "a \<in> set (me_list c i)"
  defines "c2 \<equiv> (me_free a (me_list_set i (remove1 a (me_list c i)) c))\<lparr> me_count := me_count c - 1 \<rparr>"
  shows "mib_ok c2 \<and> (\<forall>cid' iid'. mib_lookup c2 cid' iid' = (if cid' = cid \<and> iid' = iid_of c a then None else mib_lookup c cid' iid'))"
proof -
  have li: "i < length (me_class_array c)" and ci: "class_id (entry_class c i) = cid" using class_entry_find_Some[OF i] by auto
  have eoi: "entry_ok c i" using ok li by (simp add: mib_ok_def)
  let ?L = "remove1 a (me_list c i)"
  note srt = entry_ok_sorted[OF eoi]
  have found: "me_search (iid_of c) (iid_of c a) (me_list c i) = Some a" using me_search_Some_iff[OF srt] a by simp
  have c2: "class_entry_find c2 n = class_entry_find c n" "me_list c2 j = (if j = i then ?L else me_list c j)"
    "entry_class c2 j = entry_class c j" "heap c2 = (heap c)(a := None)" "length (me_class_array c2) = length (me_class_array c)"
    "me_count c2 = me_count c - 1" for n j
    using me_list_set_simps[of i c "remove1 a (me_list c i)"] li
    by (auto simp: c2_def me_free_def class_entry_find_def me_list_def entry_class_def)
  have gone: "a \<notin> set (me_list c2 j)" if "j < length (me_class_array c)" for j
    using mib_address_unique[OF ok li that a] sorted_iid_distinct[OF srt] c2(2) by (auto split: if_splits)
  have sub: "set (me_list c2 j) \<subseteq> set (me_list c j)" for j using c2(2) set_remove1_subset by (auto dest: subsetD[OF set_remove1_subset])
  have iid_old: "iid_of c2 b = iid_of c b" if "b \<noteq> a" for b using that c2(4) by (simp add: iid_of_def me_at_def)
  have srt2: "sorted_iid (iid_of c) (me_list c2 j)" if lj: "j < length (me_class_array c)" for j
    using sorted_iid_remove1[OF srt] ok lj c2(2) entry_ok_sorted[of c j] by (auto simp: mib_ok_def)
  have eo: "entry_ok c2 j" if lj: "j < length (me_class_array c)" for j
  proof -
    have ej: "entry_ok c j" using ok lj by (simp add: mib_ok_def)
    have "sorted_iid (iid_of c2) (me_list c2 j)"
      using srt2[OF lj] sorted_iid_cong[of "me_list c2 j" "iid_of c2" "iid_of c"] iid_old gone[OF lj] by metis
    moreover have "\<exists>x. heap c2 b = Some x \<and> cls x = entry_class c j" if "b \<in> set (me_list c2 j)" for b
    proof -
      have "b \<in> set (me_list c j)" "b \<noteq> a" using that sub gone[OF lj] by auto
      then show ?thesis using ej c2(4) unfolding entry_ok_def by simp
    qed
    moreover have "me_list c2 j \<noteq> [] \<Longrightarrow> class_entry_find c (class_id (entry_class c j)) = Some j"
      using ej sub[of j] unfolding entry_ok_def by (metis set_empty subset_empty)
    ultimately show ?thesis using c2(1,3) by (simp add: entry_ok_def sorted_iid_def)
  qed
  have linked: "\<exists>j < length (me_class_array c2). b \<in> set (me_list c2 j)" if h: "heap c2 b \<noteq> None" for b
  proof -
    have b: "b \<noteq> a" "heap c b \<noteq> None" using h c2(4) by (auto split: if_splits)
    then obtain j where "j < length (me_class_array c)" "b \<in> set (me_list c j)" using ok unfolding mib_ok_def by blast
    then show ?thesis using b(1) c2(2,5) by (intro exI[of _ j]) auto
  qed
  have "sum_list (map (\<lambda>j. length (me_list c2 j)) [0..<length (me_class_array c2)])
      = sum_list (map (\<lambda>j. if j = i then length ?L else length (me_list c j)) [0..<length (me_class_array c)])"
    by (simp only: c2(2,5) if_distrib[of length])
  moreover have "length ?L + 1 = length (me_list c i)" using a by (simp add: length_remove1) (metis Suc_pred length_pos_if_in_set)
  ultimately have "sum_list (map (\<lambda>j. length (me_list c2 j)) [0..<length (me_class_array c2)]) = me_count c2"
    using sum_list_update_one[OF li, of "length ?L" "\<lambda>j. length (me_list c j)"] ok c2(6) by (simp add: mib_ok_def)
  then have "mib_ok c2" using eo linked c2(5) by (simp add: mib_ok_def)
  moreover have "mib_lookup c2 cid' iid' = (if cid' = cid \<and> iid' = iid_of c a then None else mib_lookup c cid' iid')" for cid' iid'
  proof (cases "class_entry_find c cid'")
    case None
    then show ?thesis using i c2(1) by (auto simp: mib_lookup_def)
  next
    case (Some j)
    have lj: "j < length (me_class_array c)" and cj: "class_id (entry_class c j) = cid'" using class_entry_find_Some[OF Some] by auto
    have s: "me_search (iid_of c2) iid' (me_list c2 j) = me_search (iid_of c) iid' (me_list c2 j)"
      using iid_old gone[OF lj] by (intro me_search_cong) metis
    show ?thesis
    proof (cases "j = i")
      case True
      then show ?thesis using Some c2(1,2) s cj ci ml.look_del[OF srt found, of iid'] by (simp add: mib_lookup_def)
    next
      case False
      then have "cid' \<noteq> cid" using Some i by auto
      then show ?thesis using Some c2(1,2) s False by (simp add: mib_lookup_def)
    qed
  qed
  ultimately show ?thesis by blast
qed

section \<open>Creation and deletion\<close>

text \<open>An entity that is allocated and freed again leaves the base as it was.\<close>

lemma same_mib_free:
  assumes "same_mib (c\<lparr> heap := (heap c)(a \<mapsto> e) \<rparr>) x" "heap c a = None"
  shows "same_mib c (me_free a x)"
  using assms by (auto simp: same_mib_def me_free_def)

lemma me_alloc_ident:
  assumes "me_alloc E c e = (err, Some x)"
  shows "err = OMCI_SUCCESS \<and> me_ident x = me_ident e"
proof -
  have p: "pm_me_context_alloc E c y = (er, z) \<Longrightarrow> me_ident z = me_ident y" for y er z
    by (auto simp: pm_me_context_alloc_def me_ident_def split: if_splits)
  show ?thesis using assms
    by (auto simp: me_alloc_def Let_def me_ident_def split: if_splits prod.splits dest!: p[unfolded me_ident_def])
qed

lemma mib_me_create_ok:
  assumes ok: "mib_ok c" and Q: "quiet_mib E" and cr: "mib_me_create E act cid iid init supp c = (err, r, c')"
  shows "(r = None \<longrightarrow> mib_ok c' \<and> mib_lookup c' = mib_lookup c)
    \<and> (\<forall>a. err = OMCI_SUCCESS \<and> r = Some a \<longrightarrow> mib_lookup c cid iid = None \<and> mib_ok c'
         \<and> (\<forall>cid' iid'. mib_lookup c' cid' iid' = (if cid' = cid \<and> iid' = iid then Some a else mib_lookup c cid' iid')))"
proof (cases "mib_lookup c cid iid")
  case Some
  then show ?thesis using ok cr by (auto simp: mib_me_create_def mib_me_find_lookup)
next
  case None
  then have nf: "snd (mib_me_find c cid iid) = None" by (simp add: mib_me_find_lookup)
  show ?thesis
  proof (cases "class_entry_find c cid = None \<or> env_malloc E c = None")
    case True
    then show ?thesis using ok cr nf by (auto simp: mib_me_create_def split: option.splits)
  next
    case False
    then obtain i a where i: "class_entry_find c cid = Some i" and a: "env_malloc E c = Some a" by auto
    have free: "heap c a = None" using Q a by (simp add: quiet_mib_def)
    obtain er x where al: "me_alloc E c (me_new (entry_class c i) iid act) = (er, x)" by fastforce
    show ?thesis
    proof (cases x)
      case None
      then show ?thesis using ok cr nf i a al by (auto simp: mib_me_create_def)
    next
      case (Some e)
      have id: "cls e = entry_class c i" "instance_id e = iid"
        using me_alloc_ident[OF al[unfolded Some]] by (auto simp: me_ident_def me_new_def)
      let ?c0 = "c\<lparr> heap := (heap c)(a \<mapsto> e) \<rparr>"
      obtain er2 c1 where ci: "call_init E a init supp ?c0 = (er2, c1)" by fastforce
      have s1: "same_mib ?c0 c1" using keeps_init[OF Q, of ?c0 a init supp] ci by simp
      show ?thesis
      proof (cases "er2 = OMCI_SUCCESS")
        case False
        then have r: "r = None" "c' = me_free a (call_shutdown E a c1)" using cr nf i a al Some ci by (simp_all add: mib_me_create_def)
        have sm: "same_mib c c'" using same_mib_free[OF same_mib_trans[OF s1 keeps_shutdown[OF Q]] free] r by simp
        have "mib_lookup c' = mib_lookup c" using same_mib_lookup[OF sm ok] by blast
        then show ?thesis using r(1) same_mib_ok[OF sm ok] by simp
      next
        case True
        define c2 where "c2 = me_update a (\<lambda>e. e\<lparr> is_initialized := True \<rparr>) c1"
        have s2: "same_mib ?c0 c2" using same_mib_trans[OF s1 same_mib_update] by (simp add: c2_def)
        define c3 where "c3 = (me_list_set i (me_insert (iid_of c2) a (me_list c2 i)) c2)\<lparr> me_count := me_count c2 + 1 \<rparr>"
        have run: "mib_me_create E act cid iid init supp c = (case pm_me_add E a c3 of (err, c) \<Rightarrow>
              if err \<noteq> OMCI_SUCCESS then (err, Some a, me_free a (call_shutdown E a c)) else (OMCI_SUCCESS, Some a, c))"
          using nf i a al Some ci True by (simp add: mib_me_create_def Let_def me_list_set_def me_list_def entry_class_def flip: c2_def c3_def)
            (simp add: c3_def me_list_set_def me_list_def entry_class_def)
        have s0: "same_mib c (me_free a c2)" by (rule same_mib_free[OF s2 free])
        obtain e2 where e2: "heap c2 a = Some e2" "cls e2 = cls e" "instance_id e2 = instance_id e"
          using same_mib_heap[OF s2, of a e] by auto
        have "mib_ok c3 \<and> (\<forall>cid' iid'. mib_lookup c3 cid' iid' = (if cid' = cid \<and> iid' = iid then Some a else mib_lookup (me_free a c2) cid' iid'))"
          unfolding c3_def id(2)[symmetric] e2(3)[symmetric]
          by (rule link_ok[OF same_mib_ok[OF s0 ok]])
            (use i id e2 None same_mib_simps[OF s0] same_mib_lookup[OF s0 ok] in
              \<open>auto simp: me_free_def entry_class_def class_entry_find_def\<close>)
        then have m3: "mib_ok c3" "\<And>cid' iid'. mib_lookup c3 cid' iid' = (if cid' = cid \<and> iid' = iid then Some a else mib_lookup c cid' iid')"
          using same_mib_lookup[OF s0 ok] by auto
        obtain er4 c4 where p: "pm_me_add E a c3 = (er4, c4)" by fastforce
        have s4: "same_mib c3 c4" using p by (auto simp: pm_me_add_def split: if_splits)
        show ?thesis
        proof (cases "er4 = OMCI_SUCCESS")
          case True
          then have "err = OMCI_SUCCESS" "r = Some a" "c' = c4" using cr run p by auto
          then show ?thesis using m3 None same_mib_ok[OF s4] same_mib_lookup[OF s4] by auto
        qed (use cr run p in auto)
      qed
    qed
  qed
qed

text \<open>What a deletion does to an entity of a class list.\<close>

lemma mib_me_delete_run:
  assumes ok: "mib_ok c" and Q: "quiet_mib E" and i: "class_entry_find c cid = Some i" and a: "a \<in> set (me_list c i)"
  shows "\<exists>c1. same_mib c c1 \<and>
    mib_me_delete E a c = (OMCI_SUCCESS, (me_free a (me_list_set i (remove1 a (me_list c1 i)) c1))\<lparr> me_count := me_count c1 - 1 \<rparr>)"
proof -
  have li: "i < length (me_class_array c)" and ci: "class_id (entry_class c i) = cid" using class_entry_find_Some[OF i] by auto
  have eoi: "entry_ok c i" using ok li by (simp add: mib_ok_def)
  obtain e where e: "heap c a = Some e" "cls e = entry_class c i" using eoi a unfolding entry_ok_def by blast
  have ff: "me_first (iid_of c) (iid_of c a) (me_list c i) = Some a"
    using me_first_search[OF entry_ok_sorted[OF eoi]] me_search_Some_iff[OF entry_ok_sorted[OF eoi]] a by simp
  define c1 where "c1 = call_shutdown E a (pm_me_remove a c)"
  have "same_mib c (pm_me_remove a c)" by (auto simp: pm_me_remove_def)
  then have "same_mib c c1" using same_mib_trans keeps_shutdown[OF Q] unfolding c1_def by blast
  moreover have "mib_me_delete E a c = (OMCI_SUCCESS, (me_free a (me_list_set i (remove1 a (me_list c1 i)) c1))\<lparr> me_count := me_count c1 - 1 \<rparr>)"
    using i ff ci e by (simp add: mib_me_delete_def Let_def me_at_def me_list_set_def flip: c1_def)
  ultimately show ?thesis by blast
qed

lemma mib_me_delete_ok:
  assumes ok: "mib_ok c" and Q: "quiet_mib E" and a: "mib_lookup c cid iid = Some a"
  shows "fst (mib_me_delete E a c) = OMCI_SUCCESS \<and> mib_ok (snd (mib_me_delete E a c)) \<and> heap (snd (mib_me_delete E a c)) a = None
    \<and> (\<forall>cid' iid'. mib_lookup (snd (mib_me_delete E a c)) cid' iid' = (if cid' = cid \<and> iid' = iid then None else mib_lookup c cid' iid'))"
proof -
  obtain i where i: "class_entry_find c cid = Some i" and f: "me_search (iid_of c) iid (me_list c i) = Some a"
    using a by (auto simp: mib_lookup_def split: option.splits)
  have "entry_ok c i" using ok class_entry_find_Some[OF i] by (simp add: mib_ok_def)
  then have ai: "a \<in> set (me_list c i)" "iid_of c a = iid" and al: "heap c a \<noteq> None"
    using me_search_Some_iff[OF entry_ok_sorted] f by (auto simp: entry_ok_def)
  obtain c1 where s1: "same_mib c c1"
    and run: "mib_me_delete E a c = (OMCI_SUCCESS, (me_free a (me_list_set i (remove1 a (me_list c1 i)) c1))\<lparr> me_count := me_count c1 - 1 \<rparr>)"
    using mib_me_delete_run[OF ok Q i ai(1)] by blast
  have "iid_of c1 a = iid" using same_mib_iid[OF s1 al] ai(2) by simp
  then have "mib_ok (snd (mib_me_delete E a c)) \<and> (\<forall>cid' iid'. mib_lookup (snd (mib_me_delete E a c)) cid' iid' =
      (if cid' = cid \<and> iid' = iid then None else mib_lookup c1 cid' iid'))"
    using unlink_ok[OF same_mib_ok[OF s1 ok], of cid i a] run i ai(1) same_mib_simps[OF s1] by simp
  moreover have "heap (snd (mib_me_delete E a c)) a = None" using run by (simp add: me_free_def)
  ultimately show ?thesis using run same_mib_lookup[OF s1 ok] by simp
qed


lemma example_env_quiet: "quiet_mib example_env"
  by (simp add: quiet_mib_def example_env_def)

lemma example_pm_ctx_ok: "mib_ok example_pm_ctx"
  by (auto simp: mib_ok_def entry_ok_def example_pm_ctx_def me_list_def entry_class_def class_entry_find_def example_pm_me_def split: if_splits)

lemma example_create: "case mib_me_create example_env True 0x118 2 None 0 example_pm_ctx of (err, r, c') \<Rightarrow> err = OMCI_SUCCESS \<and> r = Some 7"
  by code_simp



lemma example_pm_ctx_lookup: "mib_lookup example_pm_ctx (class_id example_pm_class) 1 = Some 5"
  by (simp add: mib_lookup_def class_entry_find_def example_pm_ctx_def me_list_def iid_of_def me_at_def example_pm_me_def)


section \<open>Destruction\<close>

lemma class_destroy_ok:
  assumes "mib_ok c" "quiet_mib E" "class_entry_find c cid = Some i" "length (me_list c i) \<le> n"
  shows "\<exists>c'. class_destroy E n i c = Some c' \<and> mib_ok c' \<and> (\<forall>j. me_list c' j = (if j = i then [] else me_list c j))
    \<and> (\<forall>k. class_entry_find c' k = class_entry_find c k) \<and> length (me_class_array c') = length (me_class_array c)"
  using assms
proof (induction n arbitrary: c)
  case 0
  then show ?case by (auto intro!: exI[of _ c])
next
  case (Suc n)
  show ?case
  proof (cases "me_list c i")
    case Nil
    then show ?thesis using Suc.prems(1) by (auto intro!: exI[of _ c])
  next
    case (Cons a as)
    obtain c1 where s1: "same_mib c c1"
      and run: "mib_me_delete E a c = (OMCI_SUCCESS, (me_free a (me_list_set i (remove1 a (me_list c1 i)) c1))\<lparr> me_count := me_count c1 - 1 \<rparr>)"
      using mib_me_delete_run[OF Suc.prems(1-3), of a] Cons by auto
    define c2 where "c2 = snd (mib_me_delete E a c)"
    note s = same_mib_simps[OF s1]
    have li: "i < length (me_class_array c1)" using class_entry_find_Some[OF Suc.prems(3)] s(1) by simp
    have c2: "me_list c2 j = (if j = i then as else me_list c j)" "class_entry_find c2 k = class_entry_find c k"
      "length (me_class_array c2) = length (me_class_array c)" for j k
      using me_list_set_simps(1,2,6)[OF li, of "remove1 a (me_list c1 i)"] s Cons
      by (auto simp: c2_def run me_free_def me_list_def class_entry_find_def)
    have "mib_ok c2"
      using unlink_ok[OF same_mib_ok[OF s1 Suc.prems(1)], of cid i a] s Suc.prems(3) Cons run by (simp add: c2_def)
    then obtain c' where "class_destroy E n i c2 = Some c'" "mib_ok c'" "\<forall>j. me_list c' j = (if j = i then [] else me_list c2 j)"
      "\<forall>k. class_entry_find c' k = class_entry_find c2 k" "length (me_class_array c') = length (me_class_array c2)"
      using Suc.IH[of c2] Suc.prems c2 Cons by auto
    then show ?thesis using Cons c2 by (auto simp: c2_def[symmetric] intro!: exI[of _ c'])
  qed
qed

lemma mib_destroy_lists:
  assumes "mib_ok c" "quiet_mib E" "\<forall>cid \<in> set cids. class_entry_find c cid \<noteq> None" "\<forall>i < length (me_class_array c). length (me_list c i) \<le> n"
  shows "\<exists>c'. mib_destroy E n cids c = Some (OMCI_SUCCESS, c') \<and> mib_ok c' \<and> length (me_class_array c') = length (me_class_array c)
    \<and> (\<forall>j. me_list c' j = (if \<exists>cid \<in> set cids. class_entry_find c cid = Some j then [] else me_list c j))"
  using assms
proof (induction cids arbitrary: c)
  case (Cons cid cids)
  obtain i where i: "class_entry_find c cid = Some i" using Cons.prems(3) by auto
  then have "length (me_list c i) \<le> n" using Cons.prems(4) class_entry_find_Some by blast
  then obtain c1 where c1: "class_destroy E n i c = Some c1" "mib_ok c1" "\<forall>j. me_list c1 j = (if j = i then [] else me_list c j)"
    "\<forall>k. class_entry_find c1 k = class_entry_find c k" "length (me_class_array c1) = length (me_class_array c)"
    using class_destroy_ok[OF Cons.prems(1,2) i] by blast
  have f: "\<forall>cid \<in> set cids. class_entry_find c1 cid \<noteq> None" using c1(4) Cons.prems(3) by simp
  have b: "\<forall>j < length (me_class_array c1). length (me_list c1 j) \<le> n" using c1(3,5) Cons.prems(4) by simp
  obtain c' where "mib_destroy E n cids c1 = Some (OMCI_SUCCESS, c')" "mib_ok c'" "length (me_class_array c') = length (me_class_array c1)"
    "\<forall>j. me_list c' j = (if \<exists>cid \<in> set cids. class_entry_find c1 cid = Some j then [] else me_list c1 j)"
    using Cons.IH[OF c1(2) Cons.prems(2) f b] by blast
  then show ?case using i c1 by auto
qed auto

lemma me_list_le_count: "mib_ok c \<Longrightarrow> i < length (me_class_array c) \<Longrightarrow> length (me_list c i) \<le> me_count c"
  unfolding mib_ok_def by (auto intro: member_le_sum_list)

text \<open>
  Destroying the management information base ends and frees everything: as many rounds as there
  are entities are enough for the loop over a class, whatever the shutdown handlers do to the data;
  afterwards no entity is allocated, none is linked and the count is zero.
\<close>

theorem mib_destroy_terminates:
  assumes "mib_ok c" and "quiet_mib E" and "\<forall>cid \<in> set cids. class_entry_find c cid \<noteq> None"
    and "\<forall>i < length (me_class_array c). class_id (entry_class c i) \<in> set cids"
  shows "\<exists>c'. mib_destroy E (me_count c) cids c = Some (OMCI_SUCCESS, c') \<and> mib_ok c' \<and> me_count c' = 0 \<and> (\<forall>a. heap c' a = None)"
proof -
  obtain c' where d: "mib_destroy E (me_count c) cids c = Some (OMCI_SUCCESS, c')" and ok: "mib_ok c'"
    and len: "length (me_class_array c') = length (me_class_array c)"
    and l: "\<And>j. me_list c' j = (if \<exists>cid \<in> set cids. class_entry_find c cid = Some j then [] else me_list c j)"
    using mib_destroy_lists[OF assms(1-3)] me_list_le_count[OF assms(1)] by blast
  have nil: "me_list c' j = []" if j: "j < length (me_class_array c)" for j
  proof (cases "me_list c j = []")
    case False
    then have "class_entry_find c (class_id (entry_class c j)) = Some j" using assms(1) j unfolding mib_ok_def entry_ok_def by blast
    then show ?thesis using l assms(4) j by auto
  qed (simp add: l)
  have "heap c' a = None" for a using ok nil len unfolding mib_ok_def by (metis empty_iff empty_set)
  moreover have "me_count c' = 0"
  proof -
    have "map (\<lambda>i. length (me_list c' i)) [0..<length (me_class_array c')] = map (\<lambda>i. 0) [0..<length (me_class_array c')]"
      using nil len by simp
    then have "sum_list (map (\<lambda>i. length (me_list c' i)) [0..<length (me_class_array c')]) = 0" by (simp add: map_replicate_const)
    then show ?thesis using ok by (simp add: mib_ok_def)
  qed
  ultimately show ?thesis using d ok by blast
qed

theorem mib_destroy_terminates_witness:
  "\<exists>c'. mib_destroy example_env (me_count example_pm_ctx) [class_id example_pm_class] example_pm_ctx = Some (OMCI_SUCCESS, c')
    \<and> mib_ok c' \<and> me_count c' = 0 \<and> (\<forall>a. heap c' a = None)"
  by (rule mib_destroy_terminates[OF example_pm_ctx_ok example_env_quiet])
    (simp_all add: example_pm_ctx_def class_entry_find_def entry_class_def)

section \<open>The sequence number\<close>

lemma me_update_ident_lookup:
  assumes "\<And>e. instance_id (f e) = instance_id e"
  shows "mib_lookup (me_update a f c) = mib_lookup c"
proof -
  have "iid_of (me_update a f c) = iid_of c" using assms by (auto simp: fun_eq_iff iid_of_def me_at_def me_update_def split: option.splits)
  moreover have "me_class_array (me_update a f c) = me_class_array c" by (simp add: me_update_def split: option.splits)
  ultimately show ?thesis by (intro ext) (simp add: mib_lookup_def class_entry_find_def me_list_def split: option.split)
qed

lemma me_data_put_ident [simp]: "instance_id (me_data_put d e) = instance_id e" "data (me_data_put d e) = data e" "cls (me_data_put d e) = cls e"
  by (simp_all add: me_data_put_def split: option.splits)

lemma mib_data_sync_put_get:
  assumes "onu_data_ok c"
  shows "onu_data_ok (snd (mib_data_sync_put f c)) \<and>
    mib_seq_num_get (snd (mib_data_sync_put f c)) = (OMCI_SUCCESS, map_option f (snd (mib_seq_num_get c))) \<and> snd (mib_seq_num_get c) \<noteq> None"
proof -
  obtain a e i where l: "mib_lookup c OMCI_ME_ONU_DATA 0 = Some a" and e: "heap c a = Some e" "data e = Some i" "i < length (bufs e)" "bufs e ! i \<noteq> []"
    using assms by (auto simp: onu_data_ok_def)
  let ?g = "\<lambda>e. me_data_put ((the (me_data e))[0 := f (the (me_data e) ! 0)]) e"
  have s: "snd (mib_data_sync_put f c) = me_update a ?g c" using l by (simp add: mib_data_sync_put_def mib_me_find_lookup)
  have l': "mib_lookup (me_update a ?g c) = mib_lookup c" by (rule me_update_ident_lookup) simp
  have h': "heap (me_update a ?g c) a = Some (?g e)" using e by (simp add: me_update_def)
  have d: "me_data e = Some (bufs e ! i)" using e by (simp add: me_data_def)
  have d': "me_data (?g e) = Some ((bufs e ! i)[0 := f (bufs e ! i ! 0)])" using e d by (simp add: me_data_def me_data_put_def)
  have "onu_data_ok (me_update a ?g c)"
    unfolding onu_data_ok_def using l l' h' e d by (intro exI[of _ a] exI[of _ "?g e"] exI[of _ i]) (simp add: me_data_put_def)
  moreover have "mib_seq_num_get (me_update a ?g c) = (OMCI_SUCCESS, Some (f (bufs e ! i ! 0)))"
    using l l' h' d' e(4) by (simp add: mib_seq_num_get_def mib_me_find_lookup me_at_def)
  moreover have "snd (mib_seq_num_get c) = Some (bufs e ! i ! 0)"
    using l e d by (simp add: mib_seq_num_get_def mib_me_find_lookup me_at_def)
  ultimately show ?thesis using s by simp
qed

lemma sync_next: "unat (if s = 255 then 1 else s + 1 :: u8) = unat s mod 255 + 1"
proof (cases "s = 255")
  case False
  have "unat s < 256" using unsigned_less[where w = s and 'a = nat] by simp
  moreover have "unat s \<noteq> 255" using False by (simp add: word_unat_eq_iff)
  ultimately have "unat s < 255" by simp
  then show ?thesis using False by (simp add: unat_word_ariths)
qed simp

lemma sync_nonzero: "(if s = 255 then 1 else s + 1 :: u8) \<noteq> 0"
proof
  assume "(if s = 255 then 1 else s + 1 :: u8) = 0"
  then have "unat (if s = 255 then 1 else s + 1 :: u8) = 0" by (simp only: unat_0)
  then show False using sync_next[of s] by linarith
qed

text \<open>
  The MIB data sync counter: after any positive number of increments it holds the number of
  changes modulo 255, counted from 1 to 255, so that it is never zero again until a reset clears it;
  255 is followed by 1.
\<close>

theorem mib_data_sync_cycle:
  assumes "onu_data_ok c" and "snd (mib_seq_num_get c) = Some s" and "0 < n"
  shows "\<exists>v. snd (mib_seq_num_get (mib_seq_num_incs n c)) = Some v \<and> unat v = (unat s + n - 1) mod 255 + 1 \<and> v \<noteq> 0"
  using assms(3)
proof (induction n rule: nat_induct_non_zero)
  case 1
  have "snd (mib_seq_num_get (mib_seq_num_incs 1 c)) = Some (if s = 255 then 1 else s + 1)"
    using mib_data_sync_put_get[OF assms(1)] assms(2) by (simp add: mib_seq_num_incs_def mib_seq_num_inc_def)
  moreover have "unat (if s = 255 then 1 else s + 1) = (unat s + 1 - 1) mod 255 + 1"
    using sync_next[of s] by simp
  ultimately show ?case using sync_nonzero[of s] by blast
next
  case (Suc n)
  have ok: "onu_data_ok (mib_seq_num_incs m c)" for m
  proof (induction m)
    case (Suc m)
    then show ?case using mib_data_sync_put_get[OF Suc] by (simp add: mib_seq_num_incs_def mib_seq_num_inc_def)
  qed (simp add: mib_seq_num_incs_def assms(1))
  obtain v where v: "snd (mib_seq_num_get (mib_seq_num_incs n c)) = Some v" "unat v = (unat s + n - 1) mod 255 + 1" using Suc by blast
  let ?w = "if v = 255 then 1 else v + 1"
  have step: "mib_seq_num_incs (Suc n) c = snd (mib_data_sync_put (\<lambda>s. if s = 255 then 1 else s + 1) (mib_seq_num_incs n c))"
    by (simp add: mib_seq_num_incs_def mib_seq_num_inc_def)
  have "snd (mib_seq_num_get (mib_seq_num_incs (Suc n) c)) = Some ?w"
    unfolding step using mib_data_sync_put_get[OF ok, of "\<lambda>s. if s = 255 then 1 else s + 1" n] v(1) by simp
  moreover have "unat ?w = (unat s + Suc n - 1) mod 255 + 1"
  proof -
    have "unat s + Suc n - 1 = Suc (unat s + n - 1)" using Suc.hyps by simp
    then have "unat v mod 255 = (unat s + Suc n - 1) mod 255" unfolding v(2) by (simp only: Suc_eq_plus1[symmetric] mod_Suc_eq)
    then show ?thesis using sync_next[of v] by simp
  qed
  ultimately show ?case using sync_nonzero[of v] by blast
qed

theorem mib_data_sync_cycle_witness:
  "\<exists>v. snd (mib_seq_num_get (mib_seq_num_incs 300 example_onu_ctx)) = Some v \<and> unat v = (unat (255 :: u8) + 300 - 1) mod 255 + 1 \<and> v \<noteq> 0"
  by (rule mib_data_sync_cycle) (auto simp: onu_data_ok_def mib_seq_num_get_def mib_me_find_lookup mib_lookup_def class_entry_find_def
      me_list_def iid_of_def me_at_def me_data_def example_onu_ctx_def example_onu_me_def example_pm_me_def example_pm_ctx_def mk_class_def)

end
