(* ===== verification/Omci_Handlers.thy ===== *)
theory Omci_Handlers
  imports Omci_Mib
begin

text \<open>
  The action handlers that classes share (\<^verbatim>\<open>omci_me_handlers.c\<close>): Set, Get, Get next, Create, Delete
  and Reboot, with the copies of table attributes (\<^verbatim>\<open>omci_core.c\<close>) that Get makes and Get next reads.
  A response is a message of 32 content octets; the fields of the response structures are positions
  in it.
\<close>

section \<open>Definitions\<close>

type_synonym action_result = "omci_error \<times> omci_msg \<times> omci_context"

definition rsp_result :: "u8 \<Rightarrow> omci_msg \<Rightarrow> omci_msg" where
  "rsp_result r m = msg_put 0 [r] m"

subsection \<open>Set\<close>

text \<open>The fields of \<^verbatim>\<open>set_rsp\<close>: result, unsupported attributes, failed attributes.\<close>

definition set_rsp :: "u8 \<Rightarrow> u16 \<Rightarrow> u16 \<Rightarrow> omci_msg \<Rightarrow> omci_msg" where
  "set_rsp r opt exec m = msg_put 3 (be16_octets exec) (msg_put 1 (be16_octets opt) (rsp_result r m))"

definition set_values :: "omci_msg \<Rightarrow> octets" where
  "set_values m = memget (contents m) 2 30"

definition msg_attr_mask :: "omci_msg \<Rightarrow> u16" where
  "msg_attr_mask m = octets_be16 (memget (contents m) 0 2)"

text \<open>The end of the handler: the update handler, thresholds and the copy into the entity.\<close>

definition set_commit :: "omci_env \<Rightarrow> addr \<Rightarrow> u16 \<Rightarrow> octets \<Rightarrow> omci_msg \<Rightarrow> omci_context \<Rightarrow> action_result" where
  "set_commit E a am d rsp c =
    (case (if active (me_at c a) then call_update E a d am c else (OMCI_SUCCESS, d, c)) of (err, d, c) \<Rightarrow>
     let c = (if is_pm (cls (me_at c a)) \<and> mask_has am omci_me_pm_thr_data_id then snd (pm_me_thr_set E a c) else c) in
     if err \<noteq> OMCI_SUCCESS then (OMCI_ERROR_ACTION, msg_put 3 (be16_octets am) (rsp_result OMCI_MR_PARAM_ERROR rsp), c)
     else (OMCI_SUCCESS, rsp_result OMCI_MR_CMD_SUCCESS rsp, me_update a (me_data_put (take (data_size (cls (me_at c a))) d)) c))"

definition set_action_handle :: "omci_env \<Rightarrow> addr \<Rightarrow> omci_msg \<Rightarrow> omci_msg \<Rightarrow> omci_context \<Rightarrow> action_result" where
  "set_action_handle E a msg rsp c =
    (let k = cls (me_at c a); am = msg_attr_mask msg; opt = (am AND opt_attr_mask k) XOR opt_attr_mask k in
     if am AND inv_attr_mask k \<noteq> 0 then (OMCI_ERROR_ACTION, set_rsp OMCI_MR_ATTR_FAILED opt am rsp, c)
     else if am AND opt_attr_mask k \<noteq> 0 then (OMCI_ERROR_ACTION, set_rsp OMCI_MR_ATTR_FAILED opt am rsp, c)
     else if (am XOR wr_attr_mask k) AND am \<noteq> 0 then (OMCI_ERROR_ACTION, set_rsp OMCI_MR_ATTR_FAILED opt am rsp, c)
     else case me_data_fetch E a am (Some (set_values msg)) 30 am c of (err, d, c) \<Rightarrow>
     if err \<noteq> OMCI_SUCCESS then (err, rsp_result OMCI_MR_CMD_ERROR rsp, c)
     else if \<not> fst (is_data_updated (me_at c a) d am) then (OMCI_SUCCESS, rsp_result OMCI_MR_CMD_SUCCESS rsp, c)
     else case call_validate E k d c of (err, exec) \<Rightarrow>
     if err \<noteq> OMCI_SUCCESS then (err, rsp_result OMCI_MR_CMD_ERROR rsp, c)
     else if exec AND am \<noteq> 0
       then (OMCI_ERROR_ACTION, set_rsp OMCI_MR_PARAM_ERROR ((exec AND opt_attr_mask k) XOR opt_attr_mask k) (exec AND am) rsp, c)
     else if exec \<noteq> 0 then (OMCI_ERROR_ACTION, rsp_result OMCI_MR_CMD_ERROR rsp, c)
     else set_commit E a am d rsp c)"

subsection \<open>Copies of tables\<close>

fun tbl_match :: "u16 \<Rightarrow> u16 \<Rightarrow> nat \<Rightarrow> tbl_copy_entry \<Rightarrow> bool" where
  "tbl_match cid iid attr t \<longleftrightarrow> t_class t = cid \<and> t_instance t = iid \<and> t_attr t = attr"

fun tbl_index :: "(tbl_copy_entry \<Rightarrow> bool) \<Rightarrow> tbl_copy_entry list \<Rightarrow> nat option" where
  "tbl_index P [] = None"
| "tbl_index P (t # ts) = (if P t then Some 0 else map_option Suc (tbl_index P ts))"

definition tbl_update :: "nat \<Rightarrow> (tbl_copy_entry \<Rightarrow> tbl_copy_entry) \<Rightarrow> omci_context \<Rightarrow> omci_context" where
  "tbl_update i f c = c\<lparr> tbl_copy := (tbl_copy c)[i := f (tbl_copy c ! i)] \<rparr>"

text \<open>
  The copy for an attribute: the one it has, else one that is not valid, else the first valid one,
  whose timeout is removed.
\<close>

definition me_tbl_copy_empty_get :: "u16 \<Rightarrow> u16 \<Rightarrow> nat \<Rightarrow> omci_context \<Rightarrow> omci_error \<times> nat \<times> omci_context" where
  "me_tbl_copy_empty_get cid iid attr c =
    (case tbl_index (tbl_match cid iid attr) (tbl_copy c) of
       Some i \<Rightarrow> (OMCI_SUCCESS, i, tbl_update i (\<lambda>t. t\<lparr> t_size := 0, t_data := (if t_free t then None else t_data t), t_valid := True \<rparr>) c)
     | None \<Rightarrow>
       let fill = (\<lambda>t. t\<lparr> t_class := cid, t_instance := iid, t_attr := attr, t_size := 0, t_data := None, t_valid := True \<rparr>) in
       (case tbl_index (\<lambda>t. \<not> t_valid t) (tbl_copy c) of
          Some i \<Rightarrow> (OMCI_SUCCESS, i, tbl_update i fill c)
        | None \<Rightarrow>
          (case tbl_index t_valid (tbl_copy c) of
             Some i \<Rightarrow> (OMCI_SUCCESS, i, tbl_update i fill (timeout_event_remove (t_timeout (tbl_copy c ! i)) c))
           | None \<Rightarrow> (OMCI_ERROR_MEMORY, 0, c))))"

text \<open>The search goes through all copies and stops at a match that is not valid.\<close>

fun tbl_find_loop :: "u16 \<Rightarrow> u16 \<Rightarrow> nat \<Rightarrow> nat \<Rightarrow> tbl_copy_entry list \<Rightarrow> nat option \<Rightarrow> nat option" where
  "tbl_find_loop cid iid attr i [] found = found"
| "tbl_find_loop cid iid attr i (t # ts) found =
    (if tbl_match cid iid attr t then (if t_valid t then tbl_find_loop cid iid attr (Suc i) ts (Some i) else found)
     else tbl_find_loop cid iid attr (Suc i) ts found)"

definition me_tbl_copy_find :: "u16 \<Rightarrow> u16 \<Rightarrow> nat \<Rightarrow> omci_context \<Rightarrow> nat option" where
  "me_tbl_copy_find cid iid attr c = tbl_find_loop cid iid attr 0 (tbl_copy c) None"

abbreviation (input) GET_NEXT_TIMEOUT :: u32 where "GET_NEXT_TIMEOUT \<equiv> 60000"

text \<open>When a copy is out of date.\<close>

definition get_next_tbl_copy_clean :: "timeout \<Rightarrow> omci_context \<Rightarrow> omci_context" where
  "get_next_tbl_copy_clean t c = (case me_tbl_copy_find (ucast (arg1 t)) (ucast (arg2 t)) (unat (arg3 t)) c of None \<Rightarrow> c
     | Some i \<Rightarrow> tbl_update i (\<lambda>t. t\<lparr> t_data := (if t_free t then None else t_data t), t_valid := False, t_timeout := 0 \<rparr>) c)"

definition tbl_timeout_add :: "omci_env \<Rightarrow> nat \<Rightarrow> u16 \<Rightarrow> u16 \<Rightarrow> nat \<Rightarrow> omci_context \<Rightarrow> omci_error \<times> omci_context" where
  "tbl_timeout_add E i cid iid attr c =
    (case timeout_event_add E GET_NEXT_TIMEOUT get_next_tbl_copy_clean_timeout_handler cid iid (ucast cid) (ucast iid) (of_nat attr) c of
       (err, t, c) \<Rightarrow> (err, if err = OMCI_SUCCESS then tbl_update i (\<lambda>e. e\<lparr> t_timeout := t \<rparr>) c else c))"

subsection \<open>Get\<close>

text \<open>The fields of \<^verbatim>\<open>get_rsp\<close> and of \<^verbatim>\<open>get_tbl_rsp\<close>.\<close>

definition get_rsp_masks :: "u8 \<Rightarrow> u16 \<Rightarrow> u16 \<Rightarrow> u16 \<Rightarrow> omci_msg \<Rightarrow> omci_msg" where
  "get_rsp_masks r am opt exec m =
    msg_put 30 (be16_octets exec) (msg_put 28 (be16_octets opt) (msg_put 1 (be16_octets am) (rsp_result r m)))"

definition get_tbl_fail :: "u8 \<Rightarrow> u16 option \<Rightarrow> omci_msg \<Rightarrow> omci_msg" where
  "get_tbl_fail r exec m = msg_put 7 (replicate 21 0) (msg_put 1 (be16_octets 0)
     ((case exec of Some x \<Rightarrow> msg_put 30 (be16_octets x) | None \<Rightarrow> id) (rsp_result r m)))"

text \<open>A table attribute, or one that is too large for the response, ends the handler.\<close>

definition get_table :: "omci_env \<Rightarrow> addr \<Rightarrow> nat \<Rightarrow> omci_msg \<Rightarrow> omci_context \<Rightarrow> action_result" where
  "get_table E a i rsp c =
    (let k = cls (me_at c a); cid = class_id k; iid = iid_of c a in
     case tbl_copy_handler k of
       None \<Rightarrow> (OMCI_ERROR_ACTION, get_tbl_fail OMCI_MR_ATTR_FAILED (Some (omci_attr2mask i)) rsp, c)
     | Some h \<Rightarrow>
       (case me_tbl_copy_empty_get cid iid i c of (err, j, c) \<Rightarrow>
        if err \<noteq> OMCI_SUCCESS then (OMCI_ERROR_ACTION, get_tbl_fail OMCI_MR_DEVICE_BUSY None rsp, c)
        else let c = tbl_update j (\<lambda>t. t\<lparr> t_free := True \<rparr>) c in
        case h_tbl_copy E h c a i of (err, d, sz, fr) \<Rightarrow>
        let c = tbl_update j (\<lambda>t. t\<lparr> t_data := d, t_size := sz, t_free := fr \<rparr>) c in
        if err \<noteq> OMCI_SUCCESS then (OMCI_ERROR_ACTION, get_tbl_fail OMCI_MR_ATTR_FAILED (Some (omci_attr2mask i)) rsp, c)
        else let t = t_timeout (tbl_copy c ! j); c = (if t \<noteq> 0 then timeout_event_remove t c else c) in
        case tbl_timeout_add E j cid iid i c of (err, c) \<Rightarrow>
        if err \<noteq> OMCI_SUCCESS then (OMCI_ERROR_ACTION, get_tbl_fail OMCI_MR_ATTR_FAILED (Some (omci_attr2mask i)) rsp, c)
        else (OMCI_SUCCESS,
              rsp_result OMCI_MR_CMD_SUCCESS (msg_put 3 (be_octets 4 (of_nat sz)) (msg_put 7 (replicate 21 0)
                (msg_put 1 (be16_octets (omci_attr2mask i)) rsp))), c)))"

text \<open>The loop: the octets counted, the failed attributes, the attributes answered and where the next value goes.\<close>

fun get_loop ::
    "omci_env \<Rightarrow> addr \<Rightarrow> pm_interval \<Rightarrow> u16 \<Rightarrow> nat list \<Rightarrow> nat \<Rightarrow> u16 \<Rightarrow> u16 \<Rightarrow> u16 \<Rightarrow> nat \<Rightarrow> omci_msg \<Rightarrow> omci_context
      \<Rightarrow> action_result + (u16 \<times> u16 \<times> u16 \<times> omci_msg \<times> omci_context)" where
  "get_loop E a iv am [] tot exec opt am_rsp pos rsp c = Inr (exec, opt, am_rsp, rsp, c)"
| "get_loop E a iv am (i # is) tot exec opt am_rsp pos rsp c =
    (let k = cls (me_at c a); sz = me_attr_size_get k i; pr = me_attr_prop_get k i in
     if \<not> mask_has am i then get_loop E a iv am is tot exec opt am_rsp pos rsp c
     else if \<not> is_me_attr_exist k i then get_loop E a iv am is tot (exec OR omci_attr2mask i) opt am_rsp pos rsp c
     else if pr AND OMCI_ATTR_PROP_NOT_SUPPORTED \<noteq> 0 then get_loop E a iv am is tot exec (opt_attr_mask k) am_rsp pos rsp c
     else if pr AND OMCI_ATTR_PROP_RD = 0 then get_loop E a iv am is tot (exec OR omci_attr2mask i) opt am_rsp pos rsp c
     else if sz > 25 \<or> pr AND OMCI_ATTR_PROP_TABLE \<noteq> 0 then Inl (get_table E a i rsp c)
     else if tot + sz > 25 then Inr (exec, opt, am_rsp, rsp, c)
     else case me_attr_read_with_interval E a i iv c of (err, bs, c) \<Rightarrow>
       if err \<noteq> OMCI_SUCCESS then get_loop E a iv am is (tot + sz) (exec OR omci_attr2mask i) opt am_rsp pos rsp c
       else get_loop E a iv am is (tot + sz) exec opt (am_rsp OR omci_attr2mask i) (pos + sz) (msg_put pos bs rsp) c)"

definition get_finish :: "me_class \<Rightarrow> u16 \<times> u16 \<times> u16 \<times> omci_msg \<times> omci_context \<Rightarrow> action_result" where
  "get_finish k = (\<lambda>(exec, opt, am_rsp, rsp, c).
    if exec \<noteq> 0 \<or> opt \<noteq> 0 then
      (OMCI_ERROR_ACTION,
       msg_put 3 (replicate 25 0)
         (if exec AND inv_attr_mask k \<noteq> 0 then get_rsp_masks OMCI_MR_CMD_ERROR 0 0 0 rsp
          else get_rsp_masks OMCI_MR_ATTR_FAILED 0 opt exec rsp), c)
    else (OMCI_SUCCESS, msg_put 1 (be16_octets am_rsp) (rsp_result OMCI_MR_CMD_SUCCESS rsp), c))"

definition get_action_handle :: "omci_env \<Rightarrow> addr \<Rightarrow> omci_msg \<Rightarrow> omci_msg \<Rightarrow> omci_context \<Rightarrow> action_result" where
  "get_action_handle E a msg rsp c =
    (let k = cls (me_at c a); am = msg_attr_mask msg; rsp = msg_put 1 (be16_octets am) rsp;
         iv = (if omci_msg_type_mt_get msg = OMCI_MT_GET_CURR_DATA then OMCI_PM_INTERVAL_CURR else OMCI_PM_INTERVAL_HIST)
     in case (if is_pm k \<and> is_internal k then pm_me_counters_get E a iv c else (OMCI_SUCCESS, c)) of (err, c) \<Rightarrow>
        if err \<noteq> OMCI_SUCCESS then (err, rsp, c)
        else case get_loop E a iv am [1..<17] 0 0 0 0 3 rsp c of Inl r \<Rightarrow> r | Inr f \<Rightarrow> get_finish k f)"

subsection \<open>Get next\<close>

text \<open>The attribute a mask with exactly one bit names.\<close>

definition single_attr :: "u16 \<Rightarrow> nat option" where
  "single_attr am = (case filter (mask_has am) [1..<17] of [a] \<Rightarrow> Some a | _ \<Rightarrow> None)"

definition get_next_action_handle :: "omci_env \<Rightarrow> addr \<Rightarrow> omci_msg \<Rightarrow> omci_msg \<Rightarrow> omci_context \<Rightarrow> action_result" where
  "get_next_action_handle E a msg rsp c =
    (let am = msg_attr_mask msg; rsp = msg_put 1 (be16_octets am) rsp; cid = class_id (cls (me_at c a)); iid = iid_of c a;
         bad = (\<lambda>c. (OMCI_ERROR_ACTION, rsp_result OMCI_MR_PARAM_ERROR rsp, c))
     in case single_attr am of None \<Rightarrow> bad c
     | Some i \<Rightarrow> (case me_tbl_copy_find cid iid i c of None \<Rightarrow> bad c
        | Some j \<Rightarrow>
          let t = tbl_copy c ! j; off = 29 * unat (octets_be16 (memget (contents msg) 2 2));
              sz = (if off + 29 > t_size t then unat (of_nat (t_size t) - of_nat off :: u32) else 29)
          in if sz = 0 \<or> sz > 29 then bad c
             else let rsp' = (case t_data t of Some d \<Rightarrow> msg_put 3 (memget d off sz) rsp | None \<Rightarrow> rsp);
                      c = timeout_event_remove (t_timeout t) c
               in case tbl_timeout_add E j cid iid i c of (err, c) \<Rightarrow>
                  if err \<noteq> OMCI_SUCCESS then (OMCI_ERROR_ACTION, rsp_result OMCI_MR_PARAM_ERROR rsp', c)
                  else (OMCI_SUCCESS, rsp', c)))"

subsection \<open>Create, Delete, Reboot\<close>

definition create_action_handle :: "omci_env \<Rightarrow> addr option \<Rightarrow> omci_msg \<Rightarrow> omci_msg \<Rightarrow> omci_context \<Rightarrow> action_result" where
  "create_action_handle E me msg rsp c =
    (if me \<noteq> None then (OMCI_ERROR_ACTION, rsp_result OMCI_MR_INST_EXISTS rsp, c)
     else case mib_me_class_resolve c (m_class msg) of
       (err, None) \<Rightarrow> (err, rsp, c)
     | (_, Some k) \<Rightarrow>
       (case (if sbc_attr_mask k \<noteq> 0 then me_class_data_fetch k (sbc_attr_mask k) (contents msg) 32
              else (OMCI_SUCCESS, replicate OMCI_ME_DATA_SIZE_MAX 0)) of (err, d) \<Rightarrow>
        if err \<noteq> OMCI_SUCCESS then (err, rsp_result OMCI_MR_CMD_ERROR rsp, c)
        else case call_validate E k d c of (err, exec) \<Rightarrow>
        if err \<noteq> OMCI_SUCCESS then (err, rsp_result OMCI_MR_CMD_ERROR rsp, c)
        else if exec AND sbc_attr_mask k \<noteq> 0
          then (OMCI_ERROR_ACTION, msg_put 1 (be16_octets (exec AND sbc_attr_mask k)) (rsp_result OMCI_MR_PARAM_ERROR rsp), c)
        else if exec \<noteq> 0 then (OMCI_ERROR_ACTION, rsp_result OMCI_MR_CMD_ERROR rsp, c)
        else case mib_me_create E True (m_class msg) (m_instance msg) (Some d) 0 c of
          (err, None, c) \<Rightarrow>
            (err, rsp_result (if err = OMCI_ERROR_MEMORY then OMCI_MR_DEVICE_BUSY
                              else if err = OMCI_ERROR_ME_NOT_FOUND \<or> err = OMCI_ERROR_INVALID_ME_ID then OMCI_MR_PARAM_ERROR
                              else OMCI_MR_CMD_ERROR) rsp, c)
        | (_, Some a, c) \<Rightarrow>
            (OMCI_SUCCESS, rsp_result OMCI_MR_CMD_SUCCESS rsp, me_update a (me_data_put (take (data_size k) d)) c)))"

definition delete_action_handle :: "omci_env \<Rightarrow> addr \<Rightarrow> omci_msg \<Rightarrow> omci_context \<Rightarrow> action_result" where
  "delete_action_handle E a rsp c = (case mib_me_delete E a c of (err, c) \<Rightarrow>
     if err \<noteq> OMCI_SUCCESS then (err, rsp_result OMCI_MR_DEVICE_BUSY rsp, c) else (OMCI_SUCCESS, rsp_result OMCI_MR_CMD_SUCCESS rsp, c))"

definition reboot_acion_handle :: "omci_env \<Rightarrow> omci_msg \<Rightarrow> omci_context \<Rightarrow> action_result" where
  "reboot_acion_handle E rsp c =
    (if cant_reboot c \<noteq> 0 then (OMCI_SUCCESS, rsp_result OMCI_MR_DEVICE_BUSY rsp, c)
     else let c = c\<lparr> cant_reboot := cant_reboot c + 1 \<rparr>; err = env_reboot E c in
       (err, rsp_result (if err \<noteq> OMCI_SUCCESS then OMCI_MR_CMD_ERROR else OMCI_MR_CMD_SUCCESS) rsp, c))"

end
