(* ===== verification/Omci_Handlers_Spec.thy ===== *)
theory Omci_Handlers_Spec
  imports Omci_Handlers
begin

text \<open>
  What the shared action handlers of \<^verbatim>\<open>Omci_Handlers\<close> guarantee: Set is all or nothing, Get packs as
  many attributes as fit, a Get after a Set reads what was written, and Get with Get next transfers a
  table. The properties are about entities whose class has the default handlers and whose get handlers
  change nothing (\<^verbatim>\<open>plain_me\<close>).
\<close>

section \<open>Definitions\<close>

text \<open>An entity that is not for performance monitoring, with the default handlers and data \<^verbatim>\<open>d\<close>.\<close>

definition plain_me :: "omci_env \<Rightarrow> omci_context \<Rightarrow> addr \<Rightarrow> (string \<Rightarrow> octets \<Rightarrow> octets) \<Rightarrow> octets \<Rightarrow> bool" where
  "plain_me E c a g d \<longleftrightarrow> (let e = me_at c a; k = cls e in
     heap c a \<noteq> None \<and> class_wf k \<and> \<not> is_pm k \<and> \<not> is_internal k \<and> quiet_get E c a g
     \<and> (\<exists>i. data e = Some i \<and> i < length (bufs e) \<and> bufs e ! i = d) \<and> length d = data_size k \<and> is_initialized e
     \<and> validate_handler k = Some ''default_me_validate'' \<and> update_handler k = Some ''default_me_update'')"

definition settable :: "me_class \<Rightarrow> u16 \<Rightarrow> bool" where
  "settable k am \<longleftrightarrow> am AND inv_attr_mask k = 0 \<and> am AND opt_attr_mask k = 0 \<and> (am XOR wr_attr_mask k) AND am = 0"

definition set_value :: "(string \<Rightarrow> octets \<Rightarrow> octets) \<Rightarrow> me_class \<Rightarrow> u16 \<Rightarrow> octets \<Rightarrow> octets \<Rightarrow> nat \<Rightarrow> octets" where
  "set_value g k am v d b =
    (if mask_has am b then
       (case me_attr_get_handler_get k b of Some h \<Rightarrow> g h (attr_val k d b)
        | None \<Rightarrow> memget v (msize k am [1..<b]) (me_attr_size_get k b))
     else attr_val k d b)"

text \<open>The new values are the old ones; a table never counts as unchanged. All values are valid.\<close>

definition set_unchanged :: "(string \<Rightarrow> octets \<Rightarrow> octets) \<Rightarrow> me_class \<Rightarrow> u16 \<Rightarrow> octets \<Rightarrow> octets \<Rightarrow> bool" where
  "set_unchanged g k am v d \<longleftrightarrow> (\<forall>b. 1 \<le> b \<and> b \<le> 16 \<and> mask_has am b \<longrightarrow>
     me_attr_prop_get k b AND OMCI_ATTR_PROP_TABLE = 0 \<and> set_value g k am v d b = attr_val k d b)"

definition set_valid :: "(string \<Rightarrow> octets \<Rightarrow> octets) \<Rightarrow> me_class \<Rightarrow> u16 \<Rightarrow> octets \<Rightarrow> octets \<Rightarrow> bool" where
  "set_valid g k am v d \<longleftrightarrow> (\<forall>b. 1 \<le> b \<and> b \<le> 16 \<longrightarrow> value_valid k b (set_value g k am v d b))"

definition readable :: "me_class \<Rightarrow> u16 \<Rightarrow> bool" where
  "readable k am \<longleftrightarrow> (\<forall>b. 1 \<le> b \<and> b \<le> 16 \<and> mask_has am b \<longrightarrow>
     is_me_attr_exist k b \<and> me_attr_prop_get k b AND OMCI_ATTR_PROP_RD \<noteq> 0 \<and> me_attr_prop_get k b AND OMCI_ATTR_PROP_TABLE = 0
     \<and> me_attr_size_get k b \<le> 25)"

definition fits_rsp :: "me_class \<Rightarrow> u16 \<Rightarrow> nat \<Rightarrow> bool" where
  "fits_rsp k am b \<longleftrightarrow> mask_has am b \<and> msize k am [1..<b] + me_attr_size_get k b \<le> 25"

text \<open>The loop stores the attributes that fit, one after another, and stops at the first that does not.\<close>

definition value_at :: "me_class \<Rightarrow> u16 \<Rightarrow> nat \<Rightarrow> nat list \<Rightarrow> nat \<Rightarrow> nat" where
  "value_at k am tot as b = tot + msize k am (takeWhile (\<lambda>x. x \<noteq> b) as)"

definition fits_at :: "me_class \<Rightarrow> u16 \<Rightarrow> nat \<Rightarrow> nat list \<Rightarrow> nat \<Rightarrow> bool" where
  "fits_at k am tot as b \<longleftrightarrow> b \<in> set as \<and> mask_has am b \<and> value_at k am tot as b + me_attr_size_get k b \<le> 25"

definition get_next_msg :: "u16 \<Rightarrow> u16 \<Rightarrow> omci_msg" where
  "get_next_msg am s = msg_put 2 (be16_octets s) (msg_put 0 (be16_octets am) msg_zero)"

fun fetch_table :: "omci_env \<Rightarrow> addr \<Rightarrow> u16 \<Rightarrow> u16 list \<Rightarrow> omci_context \<Rightarrow> octets" where
  "fetch_table E a am [] c = []"
| "fetch_table E a am (s # ss) c = (case get_next_action_handle E a (get_next_msg am s) msg_zero c of (err, rsp, c) \<Rightarrow>
     if err = OMCI_SUCCESS then memget (contents rsp) 3 29 @ fetch_table E a am ss c else [])"

text \<open>A context in which the copy of a table attribute is available.\<close>

definition copy_ready :: "omci_context \<Rightarrow> addr \<Rightarrow> nat \<Rightarrow> octets \<Rightarrow> nat \<Rightarrow> bool" where
  "copy_ready c a i d j \<longleftrightarrow> j < length (tbl_copy c) \<and> t_valid (tbl_copy c ! j) \<and> t_data (tbl_copy c ! j) = Some d \<and> t_size (tbl_copy c ! j) = length d
     \<and> (\<forall>x < length (tbl_copy c). tbl_match (class_id (cls (me_at c a))) (iid_of c a) i (tbl_copy c ! x) \<longleftrightarrow> x = j)"

text \<open>The copy that Get makes, when at most one entry is for the attribute.\<close>

definition copy_unique :: "omci_context \<Rightarrow> u16 \<Rightarrow> u16 \<Rightarrow> nat \<Rightarrow> bool" where
  "copy_unique c cid iid i \<longleftrightarrow> tbl_copy c \<noteq> [] \<and> (\<forall>x < length (tbl_copy c). \<forall>y < length (tbl_copy c).
     tbl_match cid iid i (tbl_copy c ! x) \<and> tbl_match cid iid i (tbl_copy c ! y) \<longrightarrow> x = y)"

subsection \<open>Examples\<close>

text \<open>Examples: an entity with default handlers and one with a table.\<close>

definition example_tcp_class :: me_class where
  "example_tcp_class = me_tcp_udp_config_data_class\<lparr> inv_attr_mask := 0x0FFF, sbc_attr_mask := 0xF000, wr_attr_mask := 0xF000 \<rparr>"

definition example_tcp_ctx :: omci_context where
  "example_tcp_ctx = example_pm_ctx\<lparr> me_class_array := [(example_tcp_class, [5])],
     heap := [5 \<mapsto> \<lparr> cls = example_tcp_class, instance_id = 0, bufs = [[0, 80, 6, 0, 0, 1]], data = Some 0, alarm_bitmap = None,
       arc_context = None, pm = None, is_initialized = True, active = True \<rparr>], pm_list := [] \<rparr>"

definition example_set_msg :: omci_msg where
  "example_set_msg = msg_zero\<lparr> contents := [0xC0, 0, 0x13, 0xC4, 17] @ replicate 27 0 \<rparr>"

definition example_table_ctx :: omci_context where
  "example_table_ctx = example_pm_ctx\<lparr> me_class_array := [(me_mac_bridge_port_bridge_table_data_class, [5])],
     heap := [5 \<mapsto> \<lparr> cls = me_mac_bridge_port_bridge_table_data_class, instance_id = 0, bufs = [], data = None, alarm_bitmap = None,
       arc_context = None, pm = None, is_initialized = True, active = True \<rparr>], pm_list := [],
     tbl_copy := [\<lparr> t_class = 0, t_instance = 0, t_attr = 0, t_data = None, t_size = 0, t_free = False, t_timeout = 0, t_valid = False \<rparr>] \<rparr>"

section \<open>Proofs\<close>

lemma plain_meD:
  assumes "plain_me E c a g d"
  shows "heap c a \<noteq> None" "class_wf (cls (me_at c a))" "\<not> is_pm (cls (me_at c a))" "\<not> is_internal (cls (me_at c a))" "quiet_get E c a g"
    "me_data (me_at c a) = Some d" "length d = data_size (cls (me_at c a))" "is_initialized (me_at c a)"
    "validate_handler (cls (me_at c a)) = Some ''default_me_validate''" "update_handler (cls (me_at c a)) = Some ''default_me_update''"
  using assms by (auto simp: plain_me_def Let_def me_data_def)

lemma me_data_update:
  assumes "plain_me E c a g d"
  shows "me_data (me_at (me_update a (me_data_put d') c) a) = Some d'"
  using assms by (auto simp: plain_me_def Let_def me_data_def me_at_def me_update_def me_data_put_def)

lemma msize_split: "1 \<le> a \<Longrightarrow> a \<le> 16 \<Longrightarrow> mask_has m a \<Longrightarrow> msize k m [1..<a] + me_attr_size_get k a \<le> msize k m [1..<17]"
proof -
  assume a: "1 \<le> a" "a \<le> 16" "mask_has m a"
  have "[1..<17] = [1..<a] @ a # [Suc a..<17]" using a upt_add_eq_append[of 1 a "17 - a"] by (simp add: upt_conv_Cons)
  then show ?thesis using a(3) by (simp add: msize_def del: upt_rec_numeral)
qed

lemma default_me_validate_none:
  "snd (default_me_validate k d) = 0 \<longleftrightarrow> (\<forall>b. 1 \<le> b \<and> b \<le> 16 \<longrightarrow> value_valid k b (attr_val k d b))"
proof -
  have "set [1..<17] \<subseteq> {1..16 :: nat}" and r: "b \<in> set [1..<17] \<longleftrightarrow> 1 \<le> b \<and> b \<le> 16" for b :: nat by (auto simp del: upt_rec_numeral)
  then show ?thesis using fold_attr_validate[of "[1..<17]" _ k d 0]
    by (auto simp: default_me_validate_def mask_zero_iff attr_valid_def simp del: upt_rec_numeral)
qed

text \<open>What a Set on a plain entity does once its mask has passed: nothing, a refusal, or the new data.\<close>

lemma set_action_run:
  assumes pl: "plain_me E c a g d" and k: "k = cls (me_at c a)" and am: "am = msg_attr_mask msg" and "settable k am"
    and fits: "msize k am [1..<17] \<le> 30" and len: "length (contents msg) = 32"
  obtains d' exec where "length d' = data_size k" and "\<And>b. 1 \<le> b \<Longrightarrow> b \<le> 16 \<Longrightarrow> attr_val k d' b = set_value g k am (set_values msg) d b"
    and "exec = 0 \<longleftrightarrow> set_valid g k am (set_values msg) d"
    and "set_action_handle E a msg rsp c =
     (if set_unchanged g k am (set_values msg) d then (OMCI_SUCCESS, rsp_result OMCI_MR_CMD_SUCCESS rsp, c)
      else if exec AND am \<noteq> 0
        then (OMCI_ERROR_ACTION, set_rsp OMCI_MR_PARAM_ERROR ((exec AND opt_attr_mask k) XOR opt_attr_mask k) (exec AND am) rsp, c)
      else if exec \<noteq> 0 then (OMCI_ERROR_ACTION, rsp_result OMCI_MR_CMD_ERROR rsp, c)
      else (OMCI_SUCCESS, rsp_result OMCI_MR_CMD_SUCCESS rsp, me_update a (me_data_put d') c))"
proof -
  note P = plain_meD[OF pl, folded k]
  let ?v = "set_values msg"
  have lv: "30 \<le> length ?v" using len by (simp add: set_values_def)
  obtain d' where f: "me_data_fetch E a am (Some ?v) 30 am c = (OMCI_SUCCESS, d', c)" and ld: "length d' = data_size k"
    and w: "\<And>b. 1 \<le> b \<Longrightarrow> b \<le> 16 \<Longrightarrow> attr_val k d' b = set_value g k am ?v d b"
    using me_data_fetch_ok[of c a E g d 30 ?v am am] P k lv msize_split[of _ am k] fits unfolding set_value_def by fastforce
  have same: "fst (is_data_updated (me_at c a) d' am) \<longleftrightarrow> \<not> set_unchanged g k am ?v d"
    using is_data_updated_iff[OF P(8,6)] w k by (auto simp: set_unchanged_def)
  obtain exec where ex: "default_me_validate k d' = (OMCI_SUCCESS, exec)" by (simp add: default_me_validate_def)
  have valid: "exec = 0 \<longleftrightarrow> set_valid g k am ?v d"
    using default_me_validate_none[of k d'] ex w by (auto simp: set_valid_def)
  have cv: "call_validate E k d' c = (OMCI_SUCCESS, exec)" using P(9) ex by (simp add: call_validate_def)
  have cm: "set_commit E a am d' rsp c = (OMCI_SUCCESS, rsp_result OMCI_MR_CMD_SUCCESS rsp, me_update a (me_data_put d') c)"
    using P(3,10) ld k by (simp add: set_commit_def call_update_def default_me_update_def)
  show thesis
    using assms(4) f cv cm same that[OF ld w valid] unfolding set_action_handle_def settable_def Let_def am[symmetric] k[symmetric]
    by simp
qed

lemma set_action_success:
  assumes "plain_me E c a g d" and "k = cls (me_at c a)" and "am = msg_attr_mask msg" and "settable k am"
    and "msize k am [1..<17] \<le> 30" and "length (contents msg) = 32" and v: "set_valid g k am (set_values msg) d"
  shows "\<exists>c1. set_action_handle E a msg rsp c = (OMCI_SUCCESS, rsp_result OMCI_MR_CMD_SUCCESS rsp, c1)"
  by (rule set_action_run[OF assms(1-6), of rsp]) (use v in auto)


lemma octets_be16_octets [simp]: "octets_be16 (be16_octets v) = v"
proof -
  have l: "unat v < 65536" using unsigned_less[where w = v and 'a = nat] by simp
  have "unat (drop_bit 8 v) = unat v div 256" using l
    by (simp add: unsigned_drop_bit_eq take_bit_nat_eq_self) (simp add: drop_bit_eq_div)
  then have "unat (ucast (drop_bit 8 v) :: u8) = unat v div 256" using l
    by (simp only: unsigned_ucast_eq take_bit_eq_mod) simp
  moreover have "unat (ucast v :: u8) = unat v mod 256" by (simp add: unsigned_ucast_eq take_bit_eq_mod)
  ultimately show ?thesis by (simp add: octets_be16_def be16_octets_def)
qed

lemma msg_put_length [simp]: "off + length bs \<le> length (contents m) \<Longrightarrow> length (contents (msg_put off bs m)) = length (contents m)"
  by (simp add: msg_put_def)

lemma contents_msg_put [simp]: "contents (msg_put off bs m) = memput (contents m) off bs"
  by (simp add: msg_put_def)

lemma value_at_Cons:
  assumes "distinct (i # as)" "b \<in> set (i # as)"
  shows "value_at k am tot (i # as) b = (if b = i then tot else value_at k am (if mask_has am i then tot + me_attr_size_get k i else tot) as b)"
  using assms by (auto simp: value_at_def)

lemma get_loop_ok:
  assumes rd: "readable (cls (me_at c a)) am"
    and val: "\<And>b. 1 \<le> b \<Longrightarrow> b \<le> 16 \<Longrightarrow> mask_has am b \<Longrightarrow>
      me_attr_read_with_interval E a b iv c = (OMCI_SUCCESS, f b, c) \<and> length (f b) = me_attr_size_get (cls (me_at c a)) b"
    and "distinct as" "set as \<subseteq> {1..16}" "tot \<le> 25" "length (contents rsp) = 32"
  shows "\<exists>m' rsp'. get_loop E a iv am as tot 0 0 m (3 + tot) rsp c = Inr (0, 0, m', rsp', c)
    \<and> length (contents rsp') = 32 \<and> take (3 + tot) (contents rsp') = take (3 + tot) (contents rsp)
    \<and> (\<forall>b. 1 \<le> b \<and> b \<le> 16 \<longrightarrow> mask_has m' b = (mask_has m b \<or> fits_at (cls (me_at c a)) am tot as b))
    \<and> (\<forall>b. fits_at (cls (me_at c a)) am tot as b \<longrightarrow>
          memget (contents rsp') (3 + value_at (cls (me_at c a)) am tot as b) (me_attr_size_get (cls (me_at c a)) b) = f b)"
  using assms(3-)
proof (induction as arbitrary: tot m rsp)
  case (Cons i as)
  let ?k = "cls (me_at c a)"
  let ?sz = "me_attr_size_get ?k i"
  have i: "1 \<le> i" "i \<le> 16" and d: "distinct as" "set as \<subseteq> {1..16}" using Cons.prems by auto
  note at = value_at_Cons[OF Cons.prems(1)]
  show ?case
  proof (cases "mask_has am i")
    case False
    then have st: "get_loop E a iv am (i # as) tot 0 0 m (3 + tot) rsp c = get_loop E a iv am as tot 0 0 m (3 + tot) rsp c"
      by (simp add: Let_def)
    have ft: "fits_at ?k am tot (i # as) b \<longleftrightarrow> fits_at ?k am tot as b" for b
      using at[of b] False Cons.prems(1) by (cases "b = i") (auto simp: fits_at_def)
    have va: "fits_at ?k am tot as b \<Longrightarrow> value_at ?k am tot (i # as) b = value_at ?k am tot as b" for b
      using at[of b] False Cons.prems(1) by (cases "b = i") (auto simp: fits_at_def)
    show ?thesis using Cons.IH[OF d Cons.prems(3,4), of m] unfolding st ft by (auto simp: va)
  next
    case True
    note R = rd[unfolded readable_def, rule_format, of i]
    have ns: "me_attr_prop_get ?k i AND OMCI_ATTR_PROP_NOT_SUPPORTED = 0" using R i True by (auto simp: is_me_attr_exist_def split: if_splits)
    show ?thesis
    proof (cases "tot + ?sz > 25")
      case big: True
      then have st: "get_loop E a iv am (i # as) tot 0 0 m (3 + tot) rsp c = Inr (0, 0, m, rsp, c)"
        using R i True ns by (simp add: Let_def)
      have "\<not> fits_at ?k am tot (i # as) b" for b
        using big True at[of b] by (cases "b = i") (auto simp: fits_at_def value_at_def)
      then show ?thesis using st Cons.prems(4) by auto
    next
      case small: False
      let ?r = "msg_put (3 + tot) (f i) rsp"
      have fv: "me_attr_read_with_interval E a i iv c = (OMCI_SUCCESS, f i, c)" and lf: "length (f i) = ?sz" using val[OF i True] by auto
      have st: "get_loop E a iv am (i # as) tot 0 0 m (3 + tot) rsp c
          = get_loop E a iv am as (tot + ?sz) 0 0 (m OR omci_attr2mask i) (3 + (tot + ?sz)) ?r c"
        using R i True ns fv small by (simp add: Let_def add.assoc)
      have lr: "length (contents ?r) = 32" using Cons.prems(4) lf small by simp
      obtain m' rsp' where r: "get_loop E a iv am as (tot + ?sz) 0 0 (m OR omci_attr2mask i) (3 + (tot + ?sz)) ?r c = Inr (0, 0, m', rsp', c)"
          "length (contents rsp') = 32" and tk: "take (3 + (tot + ?sz)) (contents rsp') = take (3 + (tot + ?sz)) (contents ?r)"
        and mk: "\<forall>b. 1 \<le> b \<and> b \<le> 16 \<longrightarrow> mask_has m' b = (mask_has (m OR omci_attr2mask i) b \<or> fits_at ?k am (tot + ?sz) as b)"
        and vs: "\<forall>b. fits_at ?k am (tot + ?sz) as b \<longrightarrow>
          memget (contents rsp') (3 + value_at ?k am (tot + ?sz) as b) (me_attr_size_get ?k b) = f b"
        using Cons.IH[OF d _ lr, of "tot + ?sz" "m OR omci_attr2mask i"] small by auto
      have ft: "fits_at ?k am tot (i # as) b \<longleftrightarrow> b = i \<or> fits_at ?k am (tot + ?sz) as b" for b
        using at[of b] True small Cons.prems(1) by (auto simp: fits_at_def)
      have va: "fits_at ?k am tot (i # as) b \<Longrightarrow> value_at ?k am tot (i # as) b = (if b = i then tot else value_at ?k am (tot + ?sz) as b)" for b
        using at[of b] True by (simp add: fits_at_def)
      have "take (3 + tot) (contents rsp') = take (3 + tot) (take (3 + (tot + ?sz)) (contents rsp'))" by simp
      then have t2: "take (3 + tot) (contents rsp') = take (3 + tot) (contents rsp)"
        using tk Cons.prems(4) small by (simp add: memput_def)
      have "memget (contents rsp') (3 + tot) ?sz = memget (take (3 + (tot + ?sz)) (contents rsp')) (3 + tot) ?sz"
        by (simp add: memget_def drop_take)
      also have "\<dots> = memget (contents ?r) (3 + tot) ?sz" unfolding tk by (simp add: memget_def drop_take)
      also have "\<dots> = f i" using memget_put_same[of "3 + tot" "f i" "contents rsp"] lf small Cons.prems(4) by simp
      finally have vi: "memget (contents rsp') (3 + tot) ?sz = f i" .
      have mk': "\<forall>b. 1 \<le> b \<and> b \<le> 16 \<longrightarrow> mask_has m' b = (mask_has m b \<or> fits_at ?k am tot (i # as) b)"
        using mk i ft by auto
      have vs': "\<forall>b. fits_at ?k am tot (i # as) b \<longrightarrow>
          memget (contents rsp') (3 + value_at ?k am tot (i # as) b) (me_attr_size_get ?k b) = f b"
        using vs vi va ft by auto
      show ?thesis using st r t2 mk' vs' by (intro exI[of _ m'] exI[of _ rsp'] conjI) auto
    qed
  qed
qed (auto simp: fits_at_def)

lemma fits_at_all: "fits_at k am 0 [1..<17] b \<longleftrightarrow> 1 \<le> b \<and> b \<le> 16 \<and> fits_rsp k am b"
proof -
  have "b \<in> set [1..<17] \<longleftrightarrow> 1 \<le> b \<and> b \<le> 16" by (auto simp del: upt_rec_numeral)
  then show ?thesis using takeWhile_upt[of b] by (auto simp: fits_at_def fits_rsp_def value_at_def simp del: upt_rec_numeral)
qed

lemma value_at_all: "1 \<le> b \<Longrightarrow> b \<le> 16 \<Longrightarrow> value_at k am 0 [1..<17] b = msize k am [1..<b]"
  using takeWhile_upt[of b] by (simp add: value_at_def del: upt_rec_numeral)

lemma read_attr_ok:
  assumes pl: "plain_me E c a g d" and b: "1 \<le> b" "b \<le> 16" and ex: "is_me_attr_exist (cls (me_at c a)) b"
  shows "me_attr_read_with_interval E a b iv c = (OMCI_SUCCESS, read_val g (cls (me_at c a)) d b, c)
    \<and> length (read_val g (cls (me_at c a)) d b) = me_attr_size_get (cls (me_at c a)) b"
proof -
  note P = plain_meD[OF pl]
  let ?k = "cls (me_at c a)"
  have "inv_attr_mask ?k OR opt_attr_mask ?k \<noteq> 0xFFFF"
  proof
    assume h: "inv_attr_mask ?k OR opt_attr_mask ?k = 0xFFFF"
    have e: "inv_attr_mask ?k OR opt_attr_mask ?k = - 1" unfolding h by simp
    show False using read_mask[OF P(2) b] ex unfolding e by simp
  qed
  then obtain d' where "me_data_read E a (data_size ?k) iv c = (OMCI_SUCCESS, d', c)" "attr_val ?k d' b = read_val g ?k d b"
    using me_data_read_ok[OF P(2,3,4,5,6,7), of iv] b ex by auto
  moreover have "length (read_val g ?k d b) = me_attr_size_get ?k b"
    using attr_val_length[OF P(2,7) b] P(5) by (auto simp: read_val_def quiet_get_def split: option.splits)
  ultimately show ?thesis by (simp add: me_attr_read_with_interval_def Let_def)
qed

text \<open>
  C6: A Get of readable attributes succeeds, changes nothing and answers with the longest prefix of the
  requested attributes that fits into 25 octets: the mask of the response names exactly these
  attributes, and their values follow one another in the order of the attributes.
\<close>

theorem get_action_packs:
  assumes pl: "plain_me E c a g d" and k: "k = cls (me_at c a)" and am: "am = msg_attr_mask msg" and rd: "readable k am"
    and len: "length (contents rsp) = 32"
  shows "case get_action_handle E a msg rsp c of (err, rsp', c') \<Rightarrow>
    err = OMCI_SUCCESS \<and> c' = c \<and> length (contents rsp') = 32 \<and> contents rsp' ! 0 = OMCI_MR_CMD_SUCCESS
    \<and> (\<forall>b. 1 \<le> b \<and> b \<le> 16 \<longrightarrow> (mask_has (octets_be16 (memget (contents rsp') 1 2)) b \<longleftrightarrow> fits_rsp k am b)
         \<and> (fits_rsp k am b \<longrightarrow> memget (contents rsp') (3 + msize k am [1..<b]) (me_attr_size_get k b) = read_val g k d b))"
proof -
  note P = plain_meD[OF pl, folded k]
  let ?iv = "if omci_msg_type_mt_get msg = OMCI_MT_GET_CURR_DATA then OMCI_PM_INTERVAL_CURR else OMCI_PM_INTERVAL_HIST"
  let ?r = "msg_put 1 (be16_octets am) rsp"
  have l2: "length (be16_octets x) = 2" for x by (simp add: be16_octets_def)
  have lr: "length (contents ?r) = 32" using len l2 by simp
  have val: "me_attr_read_with_interval E a b ?iv c = (OMCI_SUCCESS, read_val g k d b, c)
     \<and> length (read_val g k d b) = me_attr_size_get (cls (me_at c a)) b" if "1 \<le> b" "b \<le> 16" "mask_has am b" for b
    using read_attr_ok[OF pl that(1,2), of ?iv] rd that k by (auto simp: readable_def)
  have u: "distinct [1..<17 :: nat]" "set [1..<17] \<subseteq> {1..16 :: nat}" by (auto simp del: upt_rec_numeral)
  obtain m' rsp' where r: "get_loop E a ?iv am [1..<17] 0 0 0 0 3 ?r c = Inr (0, 0, m', rsp', c)" and l': "length (contents rsp') = 32"
    and mk: "\<forall>b. 1 \<le> b \<and> b \<le> 16 \<longrightarrow> mask_has m' b = fits_rsp k am b"
    and vs: "\<forall>b. 1 \<le> b \<and> b \<le> 16 \<and> fits_rsp k am b \<longrightarrow> memget (contents rsp') (3 + msize k am [1..<b]) (me_attr_size_get k b) = read_val g k d b"
    using get_loop_ok[of c a am E ?iv "read_val g k d" "[1..<17]" 0 ?r 0, OF rd[unfolded k] val u _ lr]
    by (auto simp: fits_at_all value_at_all k[symmetric] simp del: upt_rec_numeral One_nat_def)
  let ?f = "msg_put 1 (be16_octets m') (rsp_result OMCI_MR_CMD_SUCCESS rsp')"
  have st: "get_action_handle E a msg rsp c = (OMCI_SUCCESS, ?f, c)"
    using P(3) r unfolding get_action_handle_def Let_def am[symmetric] k[symmetric] by (simp add: get_finish_def del: upt_rec_numeral)
  have h: "contents ?f ! 0 = OMCI_MR_CMD_SUCCESS" "length (contents ?f) = 32"
    using l' l2 by (simp_all add: rsp_result_def memput_def nth_append)
  have m: "memget (contents ?f) 1 2 = be16_octets m'"
    using memget_put_same[of 1 "be16_octets m'" "memput (contents rsp') 0 [0]"] l' l2 by (simp add: rsp_result_def)
  have v: "memget (contents ?f) (3 + o1) n = memget (contents rsp') (3 + o1) n" for o1 n
    using l' l2 by (simp add: rsp_result_def memget_put_after)
  show ?thesis using st h m mk vs v by simp
qed

lemma tbl_find_unique:
  "j < length ts \<Longrightarrow> t_valid (ts ! j) \<Longrightarrow> (\<forall>x < length ts. tbl_match cid iid i (ts ! x) \<longleftrightarrow> x = j) \<Longrightarrow>
   tbl_find_loop cid iid i n ts f = Some (n + j)"
proof (induction ts arbitrary: n j f)
  case (Cons t ts)
  have none: "tbl_find_loop cid iid i m us f' = f'" if "\<forall>x < length us. \<not> tbl_match cid iid i (us ! x)" for us :: "tbl_copy_entry list" and m f'
    using that
  proof (induction us arbitrary: m)
    case (Cons u us)
    have "\<not> tbl_match cid iid i u" "\<forall>x < length us. \<not> tbl_match cid iid i (us ! x)" using Cons.prems by fastforce+
    then show ?case using Cons.IH by (simp del: tbl_match.simps)
  qed simp
  show ?case
  proof (cases j)
    case 0
    have "tbl_match cid iid i t" "\<forall>x < length ts. \<not> tbl_match cid iid i (ts ! x)" using Cons.prems(3) 0 by fastforce+
    then show ?thesis using Cons.prems(2) 0 none by (simp del: tbl_match.simps)
  next
    case (Suc j')
    have "\<not> tbl_match cid iid i t" "\<forall>x < length ts. tbl_match cid iid i (ts ! x) \<longleftrightarrow> x = j'" using Cons.prems(3) Suc by fastforce+
    then show ?thesis using Cons.prems(1,2) Suc Cons.IH[of j' "Suc n" f] by (simp del: tbl_match.simps)
  qed
qed simp

lemma copy_ready_find: "copy_ready c a i d j \<Longrightarrow> me_tbl_copy_find (class_id (cls (me_at c a))) (iid_of c a) i c = Some j"
  using tbl_find_unique[of j "tbl_copy c"] by (simp add: copy_ready_def me_tbl_copy_find_def del: tbl_match.simps)

lemma copy_ready_timeout:
  assumes "copy_ready c a i d j"
  shows "copy_ready (tbl_update j (\<lambda>e. e\<lparr> t_timeout := t \<rparr>) (c\<lparr> timeouts := x \<rparr>)) a i d j"
  using assms by (auto simp: copy_ready_def tbl_update_def me_at_def iid_of_def nth_list_update)

lemma single_attr_mask: "1 \<le> i \<Longrightarrow> i \<le> 16 \<Longrightarrow> single_attr (omci_attr2mask i) = Some i"
proof -
  assume i: "1 \<le> i" "i \<le> 16"
  have s: "[1..<17] = [1..<i] @ i # [Suc i..<17]" using i upt_add_eq_append[of 1 i "17 - i"] by (simp add: upt_conv_Cons)
  have m: "mask_has (omci_attr2mask i) x \<longleftrightarrow> x = i" if "1 \<le> x" "x \<le> 16" for x using i that by simp
  have "filter (mask_has (omci_attr2mask i)) [1..<i] = []" "filter (mask_has (omci_attr2mask i)) [Suc i..<17] = []"
    using i by (auto simp: filter_empty_conv m simp del: upt_rec_numeral)
  then show ?thesis using i m[of i] unfolding single_attr_def s by simp
qed

lemma unat_word_diff: "b \<le> n \<Longrightarrow> n < 2 ^ 32 \<Longrightarrow> unat (of_nat n - of_nat b :: u32) = n - b"
proof -
  assume h: "b \<le> n" "n < 2 ^ 32"
  have "(of_nat n - of_nat b :: u32) = of_nat (n - b)" by (rule of_nat_diff[symmetric]) (rule h(1))
  moreover have "unat (of_nat (n - b) :: u32) = n - b" using h by (subst unat_of_nat) simp
  ultimately show ?thesis by (simp only:)
qed

lemma be16_length [simp]: "length (be16_octets v) = 2"
  by (simp add: be16_octets_def)

lemma get_next_msg_fields [simp]: "msg_attr_mask (get_next_msg am s) = am" "octets_be16 (memget (contents (get_next_msg am s)) 2 2) = s"
  by (simp_all add: get_next_msg_def msg_attr_mask_def msg_zero_def memput_def memget_def numeral_2_eq_2 drop_append)

lemma get_next_step:
  assumes rd: "copy_ready c a i d j" and i: "1 \<le> i" "i \<le> 16" and al: "\<And>c. env_alloc E c ALLOC_TIMEOUT"
    and s: "29 * unat s < length d" and ld: "length d < 2 ^ 32"
  shows "\<exists>rsp c'. get_next_action_handle E a (get_next_msg (omci_attr2mask i) s) msg_zero c = (OMCI_SUCCESS, rsp, c')
    \<and> copy_ready c' a i d j \<and> take (length d - 29 * unat s) (memget (contents rsp) 3 29) = take 29 (drop (29 * unat s) d)
    \<and> length (memget (contents rsp) 3 29) = 29"
proof -
  let ?off = "29 * unat s"
  let ?sz = "min 29 (length d - ?off)"
  have sz: "(if ?off + 29 > length d then unat (of_nat (length d) - of_nat ?off :: u32) else 29) = ?sz"
    using s ld unat_word_diff[of ?off "length d"] by (auto simp: min_def)
  note R = rd[unfolded copy_ready_def]
  have mt: "length (memget d ?off ?sz) = ?sz" using s by simp
  have mg: "memget d ?off (length d - ?off) = drop ?off d" "memget d ?off 29 = take 29 (drop ?off d)" by (simp_all add: memget_def)
  have z32: "length (contents msg_zero) = 32" by (simp add: msg_zero_def)
  let ?r = "msg_put 3 (memget d ?off ?sz) (msg_put 1 (be16_octets (omci_attr2mask i)) msg_zero)"
  have pay: "memget (contents ?r) 3 29 = memget d ?off ?sz @ drop ?sz (memget (contents (msg_put 1 (be16_octets (omci_attr2mask i)) msg_zero)) 3 29)"
    using mt z32 by (simp add: memput_def memget_def drop_take min_def)
  show ?thesis
    using copy_ready_find[OF rd] single_attr_mask[OF i] R sz s mt pay z32 mg al copy_ready_timeout[OF rd]
    by (auto simp: get_next_action_handle_def Let_def tbl_timeout_add_def timeout_event_add_def timeout_event_remove_def event_entry_add_def)
qed

lemma fetch_table_ok:
  assumes i: "1 \<le> i" "i \<le> 16" and al: "\<And>c. env_alloc E c ALLOC_TIMEOUT" and ld: "length d < 2 ^ 32"
  shows "copy_ready c a i d j \<Longrightarrow> s + n \<le> 65536 \<Longrightarrow> 29 * (s + n) < length d + 29 \<Longrightarrow>
    take (length d - 29 * s) (fetch_table E a (omci_attr2mask i) (map of_nat [s..<s + n]) c) = take (29 * n) (drop (29 * s) d)"
proof (induction n arbitrary: s c)
  case (Suc n)
  have us: "unat (of_nat s :: u16) = s" using Suc.prems(2) by (simp add: unsigned_of_nat take_bit_nat_eq_self)
  then have lt: "29 * unat (of_nat s :: u16) < length d" using Suc.prems(3) by simp
  obtain rsp c' where g: "get_next_action_handle E a (get_next_msg (omci_attr2mask i) (of_nat s)) msg_zero c = (OMCI_SUCCESS, rsp, c')"
    and r: "copy_ready c' a i d j" and v: "take (length d - 29 * s) (memget (contents rsp) 3 29) = take 29 (drop (29 * s) d)"
    and l: "length (memget (contents rsp) 3 29) = 29"
    using get_next_step[OF Suc.prems(1) i al lt ld] unfolding us by blast
  have u: "[s..<s + Suc n] = s # [Suc s..<Suc s + n]" by (simp add: upt_conv_Cons)
  have IH: "take (length d - 29 * Suc s) (fetch_table E a (omci_attr2mask i) (map of_nat [Suc s..<Suc s + n]) c') = take (29 * n) (drop (29 * Suc s) d)"
    using Suc.IH[OF r, of "Suc s"] Suc.prems(2,3) by simp
  have "take (length d - 29 * s) (fetch_table E a (omci_attr2mask i) (map of_nat [s..<s + Suc n]) c)
      = take 29 (drop (29 * s) d) @ take (length d - 29 * Suc s) (fetch_table E a (omci_attr2mask i) (map of_nat [Suc s..<Suc s + n]) c')"
    unfolding u using g v l by (simp add: add.commute del: upt_Suc)
  also have "\<dots> = take (29 * Suc n) (drop (29 * s) d)" unfolding IH by (simp add: take_add add.commute)
  finally show ?case .
qed simp

lemma tbl_index_Some: "tbl_index P ts = Some j \<Longrightarrow> j < length ts \<and> P (ts ! j)"
  by (induction ts arbitrary: j) (auto split: if_splits)

lemma tbl_index_None: "tbl_index P ts = None \<Longrightarrow> x < length ts \<Longrightarrow> \<not> P (ts ! x)"
  by (induction ts arbitrary: x) (auto simp: less_Suc_eq_0_disj split: if_splits)

lemma empty_get_ok:
  assumes u: "copy_unique c cid iid i"
  shows "\<exists>j c'. me_tbl_copy_empty_get cid iid i c = (OMCI_SUCCESS, j, c') \<and> j < length (tbl_copy c') \<and> heap c' = heap c
    \<and> t_valid (tbl_copy c' ! j) \<and> (\<forall>x < length (tbl_copy c'). tbl_match cid iid i (tbl_copy c' ! x) \<longleftrightarrow> x = j)"
proof (cases "tbl_index (tbl_match cid iid i) (tbl_copy c)")
  case (Some j)
  then show ?thesis using tbl_index_Some[OF Some] u
    by (auto simp: me_tbl_copy_empty_get_def tbl_update_def copy_unique_def nth_list_update)
next
  case None
  note no = tbl_index_None[OF None]
  show ?thesis
  proof (cases "tbl_index (\<lambda>t. \<not> t_valid t) (tbl_copy c)")
    case (Some j)
    then show ?thesis using tbl_index_Some[OF Some] None no
      by (auto simp: me_tbl_copy_empty_get_def tbl_update_def nth_list_update Let_def simp del: tbl_match.simps) auto
  next
    case full: None
    have "tbl_copy c ! 0 \<in> set (tbl_copy c)" "t_valid (tbl_copy c ! 0)" using u tbl_index_None[OF full] by (auto simp: copy_unique_def)
    then obtain j where j: "tbl_index t_valid (tbl_copy c) = Some j"
      using tbl_index_None[of t_valid "tbl_copy c" 0] u by (cases "tbl_index t_valid (tbl_copy c)") (auto simp: copy_unique_def)
    then show ?thesis using tbl_index_Some[OF j] None full no
      by (auto simp: me_tbl_copy_empty_get_def tbl_update_def timeout_event_remove_def nth_list_update Let_def simp del: tbl_match.simps) auto
  qed
qed

lemma get_table_ok:
  assumes u: "copy_unique c (class_id (cls (me_at c a))) (iid_of c a) i" and h: "tbl_copy_handler (cls (me_at c a)) = Some h"
    and cp: "\<And>c. h_tbl_copy E h c a i = (OMCI_SUCCESS, Some d, length d, fr)" and al: "\<And>c. env_alloc E c ALLOC_TIMEOUT"
  shows "\<exists>c' j. get_table E a i rsp c = (OMCI_SUCCESS,
      rsp_result OMCI_MR_CMD_SUCCESS (msg_put 3 (be_octets 4 (of_nat (length d))) (msg_put 7 (replicate 21 0)
                (msg_put 1 (be16_octets (omci_attr2mask i)) rsp))), c') \<and> copy_ready c' a i d j \<and> heap c' = heap c"
proof -
  obtain j c1 where e: "me_tbl_copy_empty_get (class_id (cls (me_at c a))) (iid_of c a) i c = (OMCI_SUCCESS, j, c1)"
    and c1: "j < length (tbl_copy c1)" "heap c1 = heap c" "t_valid (tbl_copy c1 ! j)"
      "\<forall>x < length (tbl_copy c1). tbl_match (class_id (cls (me_at c a))) (iid_of c a) i (tbl_copy c1 ! x) \<longleftrightarrow> x = j"
    using empty_get_ok[OF u] by blast
  define c2 where "c2 = tbl_update j (\<lambda>t. t\<lparr> t_data := Some d, t_size := length d, t_free := fr \<rparr>) (tbl_update j (\<lambda>t. t\<lparr> t_free := True \<rparr>) c1)"
  have r2: "copy_ready c2 a i d j" "heap c2 = heap c" using c1
    by (auto simp: c2_def copy_ready_def tbl_update_def nth_list_update me_at_def iid_of_def)
  define c3 where "c3 = (if t_timeout (tbl_copy c2 ! j) \<noteq> 0 then timeout_event_remove (t_timeout (tbl_copy c2 ! j)) c2 else c2)"
  have r3: "copy_ready c3 a i d j" "heap c3 = heap c" using r2
    by (auto simp: c3_def copy_ready_def timeout_event_remove_def me_at_def iid_of_def)
  obtain t x where tm: "tbl_timeout_add E j (class_id (cls (me_at c a))) (iid_of c a) i c3 = (OMCI_SUCCESS, tbl_update j (\<lambda>e. e\<lparr> t_timeout := t \<rparr>) (c3\<lparr> timeouts := x \<rparr>))"
    using al by (simp add: tbl_timeout_add_def timeout_event_add_def event_entry_add_def Let_def)
  have "get_table E a i rsp c = (OMCI_SUCCESS,
      rsp_result OMCI_MR_CMD_SUCCESS (msg_put 3 (be_octets 4 (of_nat (length d))) (msg_put 7 (replicate 21 0)
                (msg_put 1 (be16_octets (omci_attr2mask i)) rsp))), tbl_update j (\<lambda>e. e\<lparr> t_timeout := t \<rparr>) (c3\<lparr> timeouts := x \<rparr>))"
    using e h cp tm[unfolded c3_def]
    by (cases "t_timeout (tbl_copy c2 ! j) = 0") (simp_all add: get_table_def Let_def c2_def[symmetric] c3_def)
  then show ?thesis using copy_ready_timeout[OF r3(1)] r3(2) by (auto simp: tbl_update_def)
qed

lemma get_loop_skip: "(\<forall>x \<in> set as. \<not> mask_has am x) \<Longrightarrow>
  get_loop E a iv am (as @ bs) tot exec opt m pos rsp c = get_loop E a iv am bs tot exec opt m pos rsp c"
  by (induction as) (simp_all add: Let_def)

lemma get_loop_table:
  assumes i: "1 \<le> i" "i \<le> 16" "is_me_attr_exist (cls (me_at c a)) i" "me_attr_prop_get (cls (me_at c a)) i AND OMCI_ATTR_PROP_RD \<noteq> 0"
    "me_attr_prop_get (cls (me_at c a)) i AND OMCI_ATTR_PROP_TABLE \<noteq> 0"
  shows "get_loop E a iv (omci_attr2mask i) [1..<17] 0 0 0 0 3 rsp c = Inl (get_table E a i rsp c)"
proof -
  have s: "[1..<17] = [1..<i] @ i # [Suc i..<17]" using i upt_add_eq_append[of 1 i "17 - i"] by (simp add: upt_conv_Cons)
  have no: "\<forall>x \<in> set [1..<i]. \<not> mask_has (omci_attr2mask i) x" using i by auto
  have ns: "me_attr_prop_get (cls (me_at c a)) i AND OMCI_ATTR_PROP_NOT_SUPPORTED = 0" using i(3) by (auto simp: is_me_attr_exist_def split: if_splits)
  show ?thesis unfolding s get_loop_skip[OF no] using i ns by (simp add: Let_def del: upt_rec_numeral)
qed

text \<open>
  C17: A table is transferred unchanged: Get answers with its size and keeps a copy, and the payloads of
  the Get next requests with the sequence numbers from zero on, cut to that size, are the table.
\<close>

theorem table_roundtrip:
  assumes k: "k = cls (me_at c a)" and np: "\<not> is_pm k" and am: "msg_attr_mask msg = omci_attr2mask i" and len: "length (contents rsp) = 32"
    and i: "1 \<le> i" "i \<le> 16" "is_me_attr_exist k i" "me_attr_prop_get k i AND OMCI_ATTR_PROP_RD \<noteq> 0" "me_attr_prop_get k i AND OMCI_ATTR_PROP_TABLE \<noteq> 0"
    and u: "copy_unique c (class_id k) (iid_of c a) i" and h: "tbl_copy_handler k = Some h"
    and cp: "\<And>c. h_tbl_copy E h c a i = (OMCI_SUCCESS, Some d, length d, fr)" and al: "\<And>c. env_alloc E c ALLOC_TIMEOUT"
    and n: "n = (length d + 28) div 29" "n \<le> 65536"
  shows "case get_action_handle E a msg rsp c of (err, rsp', c') \<Rightarrow>
    err = OMCI_SUCCESS \<and> be_nat (memget (contents rsp') 3 4) = length d
    \<and> take (length d) (fetch_table E a (omci_attr2mask i) (map of_nat [0..<n]) c') = d"
proof -
  let ?iv = "if omci_msg_type_mt_get msg = OMCI_MT_GET_CURR_DATA then OMCI_PM_INTERVAL_CURR else OMCI_PM_INTERVAL_HIST"
  let ?r = "msg_put 1 (be16_octets (omci_attr2mask i)) rsp"
  let ?b = "be_octets 4 (of_nat (length d))"
  obtain c' j where g: "get_table E a i ?r c = (OMCI_SUCCESS, rsp_result OMCI_MR_CMD_SUCCESS (msg_put 3 ?b (msg_put 7 (replicate 21 0)
                (msg_put 1 (be16_octets (omci_attr2mask i)) ?r))), c')" and cr: "copy_ready c' a i d j"
    using get_table_ok[OF u[unfolded k] h[unfolded k] cp al, of ?r] by blast
  have st: "get_action_handle E a msg rsp c = get_table E a i ?r c"
    using get_loop_table[OF i[unfolded k], of E ?iv ?r] np unfolding get_action_handle_def Let_def am k[symmetric] by (simp del: upt_rec_numeral)
  have ld: "length d < 2 ^ 32" using n by auto
  have "memget (contents (rsp_result OMCI_MR_CMD_SUCCESS (msg_put 3 ?b (msg_put 7 (replicate 21 0) (msg_put 1 (be16_octets (omci_attr2mask i)) ?r))))) 3 4 = ?b"
    using memget_put_same[of 3 ?b] len by (simp add: rsp_result_def memget_put_after)
  moreover have "be_nat ?b = length d" using ld by (simp add: be_nat_octets unsigned_of_nat take_bit_nat_eq_self)
  moreover have "take (length d) (fetch_table E a (omci_attr2mask i) (map of_nat [0..<n]) c') = d"
    using fetch_table_ok[OF i(1,2) al ld cr, of 0 n] n by auto
  ultimately show ?thesis using st g by simp
qed

lemma all_attrs: "(\<forall>b. 1 \<le> b \<and> b \<le> 16 \<longrightarrow> P b) \<longleftrightarrow> list_all P [1..<17]"
  by (auto simp: list_all_iff simp del: upt_rec_numeral)

lemma example_tcp_wf: "class_wf example_tcp_class"
proof -
  have "list_all (\<lambda>a. mask_has (inv_attr_mask example_tcp_class) a = (me_attr_prop_get example_tcp_class a = 0)
     \<and> mask_has (opt_attr_mask example_tcp_class) a = (me_attr_prop_get example_tcp_class a AND OMCI_ATTR_PROP_NOT_SUPPORTED \<noteq> 0)
     \<and> mask_has (sbc_attr_mask example_tcp_class) a = (me_attr_prop_get example_tcp_class a AND OMCI_ATTR_PROP_SBC \<noteq> 0)
     \<and> mask_has (avc_attr_mask example_tcp_class) a = (me_attr_prop_get example_tcp_class a AND OMCI_ATTR_PROP_AVC \<noteq> 0)
     \<and> mask_has (wr_attr_mask example_tcp_class) a = (me_attr_prop_get example_tcp_class a AND OMCI_ATTR_PROP_WR \<noteq> 0)
     \<and> mask_has (vol_attr_mask example_tcp_class) a = (me_attr_get_handler_get example_tcp_class a \<noteq> None)) [1..<17]"
    by code_simp
  then have "masks_ok example_tcp_class" unfolding masks_ok_def all_attrs .
  moreover have "length (attrs example_tcp_class) = 16 \<and> length (actions example_tcp_class) = 29 \<and> contiguous 0 (attrs example_tcp_class)
     \<and> list_all (\<lambda>a. attr_prop a = 0 \<longrightarrow> attr_size a = 0) (attrs example_tcp_class)
     \<and> sum_list (map attr_size (attrs example_tcp_class)) = data_size example_tcp_class \<and> data_size example_tcp_class \<le> OMCI_ME_DATA_SIZE_MAX
     \<and> update_handler example_tcp_class \<noteq> None" by code_simp
  ultimately show ?thesis by (simp add: class_wf_def)
qed

lemma example_tcp_plain: "plain_me example_env example_tcp_ctx 5 (\<lambda>h bs. bs) [0, 80, 6, 0, 0, 1]"
proof -
  have "data_size example_tcp_class = 6 \<and> validate_handler example_tcp_class = Some ''default_me_validate''
     \<and> update_handler example_tcp_class = Some ''default_me_update''" by code_simp
  moreover have "\<not> is_pm example_tcp_class \<and> \<not> is_internal example_tcp_class"
    by (simp add: is_pm_def is_internal_def example_tcp_class_def me_tcp_udp_config_data_class_def mk_class_def)
  ultimately show ?thesis using example_tcp_wf
    by (simp add: plain_me_def example_tcp_ctx_def me_at_def quiet_get_def example_env_def)
qed

lemma example_tcp_eval:
  "settable example_tcp_class 0xC000 \<and> msize example_tcp_class 0xC000 [1..<17] = 3"
  "list_all (\<lambda>b. value_valid example_tcp_class b (set_value (\<lambda>h bs. bs) example_tcp_class 0xC000 ([0x13, 0xC4, 17] @ replicate 27 0) [0, 80, 6, 0, 0, 1] b)) [1..<17]"
  by code_simp+

lemma plain_me_put:
  assumes pl: "plain_me E c a g d" and q: "\<And>c. quiet_get E c a g" and l: "length d' = data_size (cls (me_at c a))"
  shows "plain_me E (me_update a (me_data_put d') c) a g d'" "cls (me_at (me_update a (me_data_put d') c) a) = cls (me_at c a)"
  using assms by (auto simp: plain_me_def Let_def me_at_def me_update_def me_data_put_def)

text \<open>
  C18: What a successful Set wrote, a Get with the same mask reads back: the response holds the mask and
  the octets of the Set message, when the attributes have no get handler and fit into one response.
\<close>

theorem set_get_roundtrip:
  assumes pl: "plain_me E c a g d" and q: "\<And>c. quiet_get E c a g" and k: "k = cls (me_at c a)" and am: "am = msg_attr_mask msg"
    and se: "settable k am" and rd: "readable k am" and fits: "msize k am [1..<17] \<le> 25" and len: "length (contents msg) = 32"
    and nh: "\<And>b. 1 \<le> b \<Longrightarrow> b \<le> 16 \<Longrightarrow> mask_has am b \<Longrightarrow> me_attr_get_handler_get k b = None"
    and set: "set_action_handle E a msg rsp c = (OMCI_SUCCESS, rsp1, c1)"
    and msg2: "msg_attr_mask msg2 = am" and len2: "length (contents rsp2) = 32"
  shows "case get_action_handle E a msg2 rsp2 c1 of (err, rsp', c') \<Rightarrow> err = OMCI_SUCCESS \<and> c' = c1
    \<and> octets_be16 (memget (contents rsp') 1 2) = am
    \<and> (\<forall>b. 1 \<le> b \<and> b \<le> 16 \<and> mask_has am b \<longrightarrow>
         memget (contents rsp') (3 + msize k am [1..<b]) (me_attr_size_get k b) = memget (contents msg) (2 + msize k am [1..<b]) (me_attr_size_get k b))"
proof -
  have f30: "msize k am [1..<17] \<le> 30" using fits by simp
  obtain d1 where p1: "plain_me E c1 a g d1" and k1: "cls (me_at c1 a) = k"
    and w: "\<And>b. 1 \<le> b \<Longrightarrow> b \<le> 16 \<Longrightarrow> attr_val k d1 b = set_value g k am (set_values msg) d b"
  proof (rule set_action_run[OF pl k am se f30 len, of rsp])
    fix d' exec
    assume l: "length d' = data_size k"
      and w: "\<And>b. 1 \<le> b \<Longrightarrow> b \<le> 16 \<Longrightarrow> attr_val k d' b = set_value g k am (set_values msg) d b"
      and st: "set_action_handle E a msg rsp c =
     (if set_unchanged g k am (set_values msg) d then (OMCI_SUCCESS, rsp_result OMCI_MR_CMD_SUCCESS rsp, c)
      else if exec AND am \<noteq> 0
        then (OMCI_ERROR_ACTION, set_rsp OMCI_MR_PARAM_ERROR ((exec AND opt_attr_mask k) XOR opt_attr_mask k) (exec AND am) rsp, c)
      else if exec \<noteq> 0 then (OMCI_ERROR_ACTION, rsp_result OMCI_MR_CMD_ERROR rsp, c)
      else (OMCI_SUCCESS, rsp_result OMCI_MR_CMD_SUCCESS rsp, me_update a (me_data_put d') c))"
    show thesis
    proof (cases "set_unchanged g k am (set_values msg) d")
      case True
      then have "c1 = c" "\<And>b. 1 \<le> b \<Longrightarrow> b \<le> 16 \<Longrightarrow> attr_val k d b = set_value g k am (set_values msg) d b"
        using st set by (auto simp: set_value_def set_unchanged_def)
      then show thesis using that[of d] pl k by simp
    next
      case False
      then have "c1 = me_update a (me_data_put d') c" using st set by (auto split: if_splits)
      then show thesis using that[of d'] w plain_me_put[OF pl q, of d'] l k by simp
    qed
  qed
  have fit: "fits_rsp k am b \<longleftrightarrow> mask_has am b" if "1 \<le> b" "b \<le> 16" for b
    using msize_split[OF that, of am k] fits by (auto simp: fits_rsp_def)
  obtain err rsp' c' where g: "get_action_handle E a msg2 rsp2 c1 = (err, rsp', c')" by (metis prod_cases3)
  have G: "err = OMCI_SUCCESS \<and> c' = c1 \<and> (\<forall>b. 1 \<le> b \<and> b \<le> 16 \<longrightarrow> (mask_has (octets_be16 (memget (contents rsp') 1 2)) b \<longleftrightarrow> mask_has am b)
         \<and> (mask_has am b \<longrightarrow> memget (contents rsp') (3 + msize k am [1..<b]) (me_attr_size_get k b) = read_val g k d1 b))"
    using get_action_packs[OF p1 k1[symmetric] msg2[symmetric] rd len2] g fit by simp
  have v: "read_val g k d1 b = memget (contents msg) (2 + msize k am [1..<b]) (me_attr_size_get k b)" if b: "1 \<le> b" "b \<le> 16" "mask_has am b" for b
  proof -
    have "read_val g k d1 b = memget (set_values msg) (msize k am [1..<b]) (me_attr_size_get k b)"
      using w[OF b(1,2)] nh[OF b] b(3) by (simp add: read_val_def set_value_def)
    also have "\<dots> = memget (contents msg) (2 + msize k am [1..<b]) (me_attr_size_get k b)"
      using msize_split[OF b, of k] fits by (simp add: set_values_def memget_memget)
    finally show ?thesis .
  qed
  show ?thesis using G v g by (auto intro: mask_eqI)
qed

lemma example_set_fields:
  "msg_attr_mask example_set_msg = 0xC000" "set_values example_set_msg = [0x13, 0xC4, 17] @ replicate 27 0" "length (contents example_set_msg) = 32"
  "length (contents msg_zero) = 32"
  by (simp add: example_set_msg_def msg_attr_mask_def memget_def octets_be16_def)
    (simp_all add: example_set_msg_def set_values_def memget_def msg_zero_def)

lemma example_tcp_cls: "cls (me_at example_tcp_ctx 5) = example_tcp_class"
  by (simp add: example_tcp_ctx_def me_at_def)


lemma example_readable: "readable example_tcp_class 0xC000"
proof -
  have "list_all (\<lambda>b. mask_has 0xC000 b \<longrightarrow> is_me_attr_exist example_tcp_class b
      \<and> me_attr_prop_get example_tcp_class b AND OMCI_ATTR_PROP_RD \<noteq> 0 \<and> me_attr_prop_get example_tcp_class b AND OMCI_ATTR_PROP_TABLE = 0
      \<and> me_attr_size_get example_tcp_class b \<le> 25) [1..<17]" by code_simp
  then show ?thesis unfolding all_attrs[symmetric] readable_def by blast
qed

theorem get_action_packs_witness:
  "case get_action_handle example_env 5 example_set_msg msg_zero example_tcp_ctx of (err, rsp', c') \<Rightarrow>
    err = OMCI_SUCCESS \<and> c' = example_tcp_ctx \<and> memget (contents rsp') 3 2 = [0, 80] \<and> memget (contents rsp') 5 1 = [6]"
proof -
  have e: "fits_rsp example_tcp_class 0xC000 1 \<and> fits_rsp example_tcp_class 0xC000 2 \<and> msize example_tcp_class 0xC000 [1..<1] = 0
     \<and> msize example_tcp_class 0xC000 [1..<2] = 2 \<and> me_attr_size_get example_tcp_class 1 = 2 \<and> me_attr_size_get example_tcp_class 2 = 1
     \<and> read_val (\<lambda>h bs. bs) example_tcp_class [0, 80, 6, 0, 0, 1] 1 = [0, 80] \<and> read_val (\<lambda>h bs. bs) example_tcp_class [0, 80, 6, 0, 0, 1] 2 = [6]"
    by code_simp
  obtain err rsp' c' where g: "get_action_handle example_env 5 example_set_msg msg_zero example_tcp_ctx = (err, rsp', c')" by (metis prod_cases3)
  have G: "err = OMCI_SUCCESS \<and> c' = example_tcp_ctx \<and> (\<forall>b. 1 \<le> b \<and> b \<le> 16 \<longrightarrow> fits_rsp example_tcp_class 0xC000 b \<longrightarrow>
      memget (contents rsp') (3 + msize example_tcp_class 0xC000 [1..<b]) (me_attr_size_get example_tcp_class b)
        = read_val (\<lambda>h bs. bs) example_tcp_class [0, 80, 6, 0, 0, 1] b)"
    using get_action_packs[OF example_tcp_plain example_tcp_cls[symmetric] example_set_fields(1)[symmetric] example_readable example_set_fields(4)] g
    by simp
  show ?thesis using G[THEN conjunct2, THEN conjunct2, rule_format, of 1] G[THEN conjunct2, THEN conjunct2, rule_format, of 2] G e g
    by (simp only: split_conv) simp
qed

theorem set_get_roundtrip_witness:
  "case set_action_handle example_env 5 example_set_msg msg_zero example_tcp_ctx of (err1, rsp1, c1) \<Rightarrow>
   case get_action_handle example_env 5 example_set_msg msg_zero c1 of (err, rsp', c') \<Rightarrow>
    err = OMCI_SUCCESS \<and> memget (contents rsp') 3 2 = [0x13, 0xC4] \<and> memget (contents rsp') 5 1 = [17]"
proof -
  have e: "mask_has 0xC000 1 \<and> mask_has 0xC000 2 \<and> msize example_tcp_class 0xC000 [1..<1] = 0
     \<and> msize example_tcp_class 0xC000 [1..<2] = 2 \<and> me_attr_size_get example_tcp_class 1 = 2 \<and> me_attr_size_get example_tcp_class 2 = 1"
    and nh: "list_all (\<lambda>b. mask_has 0xC000 b \<longrightarrow> me_attr_get_handler_get example_tcp_class b = None) [1..<17]"
    by code_simp+
  have m: "memget (contents example_set_msg) 2 2 = [0x13, 0xC4] \<and> memget (contents example_set_msg) 4 1 = [17]"
    by (simp add: example_set_msg_def memget_def)
  have q: "quiet_get example_env c 5 (\<lambda>h bs. bs)" for c by (simp add: quiet_get_def example_env_def)
  have f: "msize example_tcp_class 0xC000 [1..<17] \<le> 25" "msize example_tcp_class 0xC000 [1..<17] \<le> 30" using example_tcp_eval(1) by simp_all
  have se: "settable example_tcp_class 0xC000" using example_tcp_eval(1) by simp
  have v: "set_valid (\<lambda>h bs. bs) example_tcp_class 0xC000 (set_values example_set_msg) [0, 80, 6, 0, 0, 1]"
    using example_tcp_eval(2) unfolding set_valid_def all_attrs example_set_fields(2) .
  obtain rsp1 c1 where s: "set_action_handle example_env 5 example_set_msg msg_zero example_tcp_ctx = (OMCI_SUCCESS, rsp1, c1)"
    using set_action_success[OF example_tcp_plain example_tcp_cls[symmetric] example_set_fields(1)[symmetric] se f(2) example_set_fields(3) v, of msg_zero]
    by blast
  obtain err rsp' c' where g: "get_action_handle example_env 5 example_set_msg msg_zero c1 = (err, rsp', c')" by (metis prod_cases3)
  have G: "err = OMCI_SUCCESS \<and> (\<forall>b. 1 \<le> b \<and> b \<le> 16 \<and> mask_has 0xC000 b \<longrightarrow>
      memget (contents rsp') (3 + msize example_tcp_class 0xC000 [1..<b]) (me_attr_size_get example_tcp_class b)
        = memget (contents example_set_msg) (2 + msize example_tcp_class 0xC000 [1..<b]) (me_attr_size_get example_tcp_class b))"
    using set_get_roundtrip[OF example_tcp_plain q example_tcp_cls[symmetric] example_set_fields(1)[symmetric] se example_readable f(1) example_set_fields(3) _ s
        example_set_fields(1,4)] nh[unfolded all_attrs[symmetric]] g by simp
  show ?thesis using G[THEN conjunct2, rule_format, of 1] G[THEN conjunct2, rule_format, of 2] G e g s m
    by (simp only: split_conv) simp
qed

theorem table_roundtrip_witness:
  "case get_action_handle example_env 5 (msg_zero\<lparr> contents := be16_octets (omci_attr2mask 1) @ replicate 30 0 \<rparr>) msg_zero example_table_ctx of (err, rsp', c') \<Rightarrow>
    err = OMCI_SUCCESS \<and> be_nat (memget (contents rsp') 3 4) = 70
    \<and> take 70 (fetch_table example_env 5 (omci_attr2mask 1) (map of_nat [0..<3]) c') = replicate 70 1"
proof -
  let ?k = "me_mac_bridge_port_bridge_table_data_class"
  have k: "?k = cls (me_at example_table_ctx 5)" by (simp add: example_table_ctx_def me_at_def)
  have np: "\<not> is_pm ?k" by (simp add: is_pm_def me_mac_bridge_port_bridge_table_data_class_def mk_class_def)
  have i: "is_me_attr_exist ?k 1 \<and> me_attr_prop_get ?k 1 AND OMCI_ATTR_PROP_RD \<noteq> 0 \<and> me_attr_prop_get ?k 1 AND OMCI_ATTR_PROP_TABLE \<noteq> 0"
    by code_simp
  have h: "tbl_copy_handler ?k = Some ''omci_mac_bridge_port_bridge_table_data.me_tbl_copy''"
    by (simp add: me_mac_bridge_port_bridge_table_data_class_def mk_class_def)
  have u: "copy_unique example_table_ctx (class_id ?k) (iid_of example_table_ctx 5) 1" by (simp add: copy_unique_def example_table_ctx_def)
  have am: "msg_attr_mask (msg_zero\<lparr> contents := be16_octets (omci_attr2mask 1) @ replicate 30 0 \<rparr>) = omci_attr2mask 1"
    by (simp add: msg_attr_mask_def memget_def)
  have cp: "h_tbl_copy example_env ''omci_mac_bridge_port_bridge_table_data.me_tbl_copy'' c 5 1 = (OMCI_SUCCESS, Some (replicate 70 1), length (replicate 70 (1 :: u8)), True)"
    and al: "env_alloc example_env c ALLOC_TIMEOUT" for c by (simp_all add: example_env_def)
  have n: "3 = (length (replicate 70 (1 :: u8)) + 28) div 29" "3 \<le> (65536 :: nat)" by simp_all
  show ?thesis
    using table_roundtrip[OF k np am example_set_fields(4) _ _ i[THEN conjunct1] i[THEN conjunct2, THEN conjunct1] i[THEN conjunct2, THEN conjunct2] u h cp al n]
    by (simp only: length_replicate)
qed

end
