(* ===== verification/Omci_Upload.thy ===== *)
theory Omci_Upload
  imports Omci_Handlers_Spec
begin

text \<open>
  The actions of the ONU data entity: MIB upload and MIB reset (\<^verbatim>\<open>omci_mib.c\<close>, \<^verbatim>\<open>omci_onu_data.c\<close>), the
  alarm table, and the alarm reporting control interval (\<^verbatim>\<open>omci_alarm.c\<close>). An upload works on a copy
  of the base that \<^verbatim>\<open>mib_copy\<close> makes: a list of response bodies of 26 value octets.
\<close>

section \<open>Definitions\<close>

subsection \<open>The copy of the base\<close>

abbreviation (input) MIB_UPLOAD_NEXT_RSP_VALUES_SIZE :: nat where "MIB_UPLOAD_NEXT_RSP_VALUES_SIZE \<equiv> 26"
abbreviation (input) OMCI_ONUDATA_TIMEOUT :: u32 where "OMCI_ONUDATA_TIMEOUT \<equiv> 60000"

text \<open>The attributes an upload carries, apart from their sizes, and the entities it visits.\<close>

definition upload_attr :: "me_class \<Rightarrow> nat \<Rightarrow> bool" where
  "upload_attr k a \<longleftrightarrow> is_me_attr_exist k a
     \<and> me_attr_prop_get k a AND (OMCI_ATTR_PROP_NOT_SUPPORTED OR OMCI_ATTR_PROP_NO_UPLOAD OR OMCI_ATTR_PROP_TABLE) = 0
     \<and> me_attr_prop_get k a AND OMCI_ATTR_PROP_RD \<noteq> 0"

definition upload_me :: "me_class \<Rightarrow> bool" where
  "upload_me k \<longleftrightarrow> class_prop k AND (OMCI_ME_PROP_NO_UPLOAD OR OMCI_ME_PROP_PM) = 0"

definition copy_entry_new :: "omci_env \<Rightarrow> u16 \<Rightarrow> u16 \<Rightarrow> omci_context \<Rightarrow> omci_context option" where
  "copy_entry_new E cid iid c =
    (if env_alloc E c (ALLOC_MIB_COPY (length (mib_copy_list c)))
     then Some (c\<lparr> mib_copy_list := mib_copy_list c @
       [\<lparr> c_class = cid, c_instance = iid, c_mask = 0, c_values = replicate MIB_UPLOAD_NEXT_RSP_VALUES_SIZE 0 \<rparr>] \<rparr>)
     else None)"

text \<open>
  \<^verbatim>\<open>mib_copy_entry\<close> is NULL or points to the last element of the list: \<^verbatim>\<open>cur\<close> says which. A value that
  does not fit behind \<^verbatim>\<open>sum\<close> octets starts a new entry; there its size is not checked again, so a
  list of more than 26 octets is a write behind the entry.
\<close>

definition copy_value :: "nat \<Rightarrow> nat \<Rightarrow> octets \<Rightarrow> omci_context \<Rightarrow> omci_context" where
  "copy_value sm a bs c = c\<lparr> mib_copy_list := butlast (mib_copy_list c) @
     [(last (mib_copy_list c))\<lparr> c_values := memput (c_values (last (mib_copy_list c))) sm bs,
                               c_mask := c_mask (last (mib_copy_list c)) OR omci_attr2mask a \<rparr>] \<rparr>"

fun copy_attrs ::
    "omci_env \<Rightarrow> me_class \<Rightarrow> u16 \<Rightarrow> octets \<Rightarrow> nat list \<Rightarrow> bool \<times> nat \<times> bool \<Rightarrow> omci_context \<Rightarrow> omci_context + (bool \<times> bool \<times> omci_context)" where
  "copy_attrs E k iid d [] (cur, sm, created) c = Inr (cur, created, c)"
| "copy_attrs E k iid d (a # as) (cur, sm, created) c =
    (let sz = me_attr_size_get k a in
     if \<not> upload_attr k a then copy_attrs E k iid d as (cur, sm, created) c
     else if sm + sz > MIB_UPLOAD_NEXT_RSP_VALUES_SIZE \<and> sm = 0 then copy_attrs E k iid d as (cur, sm, created) c
     else if sm + sz > MIB_UPLOAD_NEXT_RSP_VALUES_SIZE \<or> \<not> cur then
       let c = (if cur then c\<lparr> mib_copy_num := mib_copy_num c + 1 \<rparr> else c) in
       (case copy_entry_new E (class_id k) iid c of None \<Rightarrow> Inl c
        | Some c \<Rightarrow> copy_attrs E k iid d as (True, sz, True) (copy_value 0 a (attr_val k d a) c))
     else copy_attrs E k iid d as (cur, sm + sz, created) (copy_value sm a (attr_val k d a) c))"

definition copy_me :: "omci_env \<Rightarrow> addr \<Rightarrow> omci_context \<Rightarrow> omci_context + omci_context" where
  "copy_me E a c =
    (let k = cls (me_at c a) in
     if \<not> upload_me k then Inr c
     else case me_data_read E a (data_size k) OMCI_PM_INTERVAL_CURR c of (_, d, c) \<Rightarrow>
       (case copy_attrs E k (iid_of c a) d [1..<17] (False, 0, False) c of Inl c \<Rightarrow> Inl c
        | Inr (cur, created, c) \<Rightarrow>
          (case (if \<not> cur \<and> \<not> created then map_option (\<lambda>c. (True, c)) (copy_entry_new E (class_id k) (iid_of c a) c) else Some (cur, c)) of
             None \<Rightarrow> Inl c
           | Some (cur, c) \<Rightarrow> Inr (if cur then c\<lparr> mib_copy_num := mib_copy_num c + 1 \<rparr> else c))))"

fun copy_mes :: "omci_env \<Rightarrow> addr list \<Rightarrow> omci_context \<Rightarrow> omci_error \<times> omci_context" where
  "copy_mes E [] c = (OMCI_SUCCESS, c)"
| "copy_mes E (a # as) c = (case copy_me E a c of Inl c \<Rightarrow> (OMCI_ERROR_MEMORY, c) | Inr c \<Rightarrow> copy_mes E as c)"

definition mib_copy :: "omci_env \<Rightarrow> omci_context \<Rightarrow> omci_error \<times> omci_context" where
  "mib_copy E c =
    (let c = (if mib_copy_timeout c \<noteq> 0 then timeout_event_remove (mib_copy_timeout c) c else c)
     in copy_mes E (concat (map snd (me_class_array c))) (c\<lparr> mib_copy_list := [], mib_copy_num := 0, mib_copy_timeout := 0 \<rparr>))"

subsection \<open>MIB upload\<close>

definition mib_copy_clean :: "omci_context \<Rightarrow> omci_context" where
  "mib_copy_clean c = c\<lparr> mib_copy_list := [], mib_copy_timeout := 0, mib_copy_num := 0 \<rparr>"

definition mib_copy_timeout_restart :: "omci_env \<Rightarrow> addr \<Rightarrow> omci_context \<Rightarrow> omci_error \<times> omci_context" where
  "mib_copy_timeout_restart E a c =
    (let c = (if mib_copy_timeout c \<noteq> 0 then timeout_event_remove (mib_copy_timeout c) c else c) in
     case timeout_event_add E OMCI_ONUDATA_TIMEOUT mib_copy_clean_timeout_handle (class_id (cls (me_at c a))) (iid_of c a) 0 0 0 c of
       (err, i, c) \<Rightarrow> (err, if err = OMCI_SUCCESS then c\<lparr> mib_copy_timeout := i \<rparr> else c))"

definition mib_upload_action_handle :: "omci_env \<Rightarrow> addr \<Rightarrow> omci_msg \<Rightarrow> omci_context \<Rightarrow> action_result" where
  "mib_upload_action_handle E a rsp c =
    (let seq = (case snd (mib_seq_num_get c) of None \<Rightarrow> 0 | Some s \<Rightarrow> s) in
     case (if seq \<noteq> 0 then mib_copy E c else (OMCI_SUCCESS, c)) of (err, c) \<Rightarrow>
     let rsp = (if err \<noteq> OMCI_SUCCESS then omci_msg_type_ak_set 0 rsp else rsp);
         n = (of_nat (mib_copy_num c) :: u16); rsp = msg_put 0 (be16_octets n) rsp
     in if n = 0 then (OMCI_ERROR_ACTION, rsp, c)
        else case mib_copy_timeout_restart E a c of (err, c) \<Rightarrow> (err, rsp, c))"

definition upload_next_rsp :: "mib_copy_entry \<Rightarrow> omci_msg \<Rightarrow> omci_msg" where
  "upload_next_rsp e m = msg_put 6 (take MIB_UPLOAD_NEXT_RSP_VALUES_SIZE (c_values e)) (msg_put 4 (be16_octets (c_mask e))
     (msg_put 2 (be16_octets (c_instance e)) (msg_put 0 (be16_octets (c_class e)) m)))"

text \<open>The loop over the copy: the entry whose position is the sequence number of the command.\<close>

fun copy_nth :: "nat \<Rightarrow> nat \<Rightarrow> 'e list \<Rightarrow> 'e option" where
  "copy_nth s i [] = None"
| "copy_nth s i (e # es) = (if i = s then Some e else copy_nth s (i + 1) es)"

definition mib_upload_next_action_handle :: "omci_env \<Rightarrow> addr \<Rightarrow> omci_msg \<Rightarrow> omci_msg \<Rightarrow> omci_context \<Rightarrow> action_result" where
  "mib_upload_next_action_handle E a msg rsp c =
    (if mib_copy_list c = [] then (OMCI_SUCCESS, rsp, c)
     else case copy_nth (unat (octets_be16 (memget (contents msg) 0 2))) 0 (mib_copy_list c) of None \<Rightarrow> (OMCI_SUCCESS, rsp, c)
     | Some e \<Rightarrow> (case mib_copy_timeout_restart E a c of (err, c) \<Rightarrow> (err, upload_next_rsp e rsp, c)))"

subsection \<open>MIB reset\<close>

definition retransmit_flush :: "omci_context \<Rightarrow> omci_context" where
  "retransmit_flush c = c\<lparr> retransmit_lo := (retransmit_lo c)\<lparr> r_valid := False \<rparr>, retransmit_hi := (retransmit_hi c)\<lparr> r_valid := False \<rparr> \<rparr>"

abbreviation (input) OMCI_ME_PPTP_ETHERNET_UNI :: u16 where "OMCI_ME_PPTP_ETHERNET_UNI \<equiv> 11"
abbreviation (input) OMCI_ME_PPTP_LCT_UNI :: u16 where "OMCI_ME_PPTP_LCT_UNI \<equiv> 83"

text \<open>The counter has eight bits; ports are counted from one.\<close>

fun lct_find :: "u8 \<Rightarrow> int \<Rightarrow> addr list \<Rightarrow> addr option" where
  "lct_find n p [] = None"
| "lct_find n p (a # as) = (if uint n = p then Some a else lct_find (n + 1) p as)"

definition mib_lct_create :: "omci_env \<Rightarrow> omci_context \<Rightarrow> omci_error \<times> omci_context" where
  "mib_lct_create E c =
    (case class_entry_find c OMCI_ME_PPTP_ETHERNET_UNI of None \<Rightarrow> (OMCI_ERROR_ME_NOT_SUPPORTED, c)
     | Some i \<Rightarrow> (case lct_find 0 (uint (lct_port c) - 1) (me_list c i) of None \<Rightarrow> (OMCI_ERROR_ME_NOT_FOUND, c)
        | Some a \<Rightarrow> (case mib_me_create E True OMCI_ME_PPTP_LCT_UNI (iid_of c a) None 0 c of (err, _, c) \<Rightarrow> (err, c))))"

text \<open>
  Without \<^verbatim>\<open>force\<close> a base that has a copy and a sequence number of zero is not reset. \<^verbatim>\<open>n\<close> bounds the
  rounds of \<^verbatim>\<open>mib_destroy\<close> over a class and \<^verbatim>\<open>cids\<close> is the list of supported classes.
\<close>

definition mib_rebuild :: "omci_env \<Rightarrow> omci_context \<Rightarrow> omci_error \<times> omci_context" where
  "mib_rebuild E c =
    (case env_on_reset E (snd (mib_seq_num_clear c)) of (err, c) \<Rightarrow>
     let c = (if lct_port c \<noteq> 0xFF then snd (mib_lct_create E c) else c) in (err, snd (mib_copy E c)))"

definition mib_reset :: "omci_env \<Rightarrow> nat \<Rightarrow> u16 list \<Rightarrow> bool \<Rightarrow> omci_context \<Rightarrow> (omci_error \<times> omci_context) option" where
  "mib_reset E n cids force c =
    (if mib_reset_in_progress c then Some (OMCI_SUCCESS, c)
     else let c = retransmit_flush (c\<lparr> mib_reset_in_progress := True \<rparr>);
              seq = (case snd (mib_seq_num_get c) of None \<Rightarrow> 0 | Some s \<Rightarrow> s)
       in if force \<or> seq \<noteq> 0 \<or> mib_copy_num c = 0 then
            (case mib_destroy E n cids c of None \<Rightarrow> None
             | Some (err, c) \<Rightarrow> if err \<noteq> OMCI_SUCCESS then Some (err, c)
                 else case mib_rebuild E c of (err, c) \<Rightarrow> Some (err, c\<lparr> mib_reset_in_progress := False \<rparr>))
          else Some (fst (mib_seq_num_get c), c\<lparr> mib_reset_in_progress := False \<rparr>))"

definition mib_reset_action_handle :: "omci_env \<Rightarrow> nat \<Rightarrow> u16 list \<Rightarrow> omci_msg \<Rightarrow> omci_context \<Rightarrow> action_result option" where
  "mib_reset_action_handle E n cids rsp c = (case mib_reset E n cids False c of None \<Rightarrow> None
     | Some (err, c) \<Rightarrow> Some (err, if err \<noteq> OMCI_SUCCESS then rsp_result OMCI_MR_CMD_ERROR rsp else rsp, c))"

subsection \<open>The alarm table\<close>

definition alarm_copy_clean :: "omci_context \<Rightarrow> omci_context" where
  "alarm_copy_clean c = c\<lparr> alarm_copy_list := [], alarm_copy_timeout := 0 \<rparr>"

definition alarm_copy_timeout_add :: "omci_env \<Rightarrow> addr \<Rightarrow> omci_context \<Rightarrow> omci_error \<times> omci_context" where
  "alarm_copy_timeout_add E a c =
    (case timeout_event_add E OMCI_ONUDATA_TIMEOUT alarm_copy_clean_timeout_handle (class_id (cls (me_at c a))) (iid_of c a) 0 0 0 c of
       (err, i, c) \<Rightarrow> (err, if err = OMCI_SUCCESS then c\<lparr> alarm_copy_timeout := i \<rparr> else c))"

text \<open>Whether alarm reporting control hides the alarms of an entity in mode 1.\<close>

definition arc_hides :: "omci_env \<Rightarrow> u8 \<Rightarrow> addr \<Rightarrow> omci_context \<Rightarrow> bool \<times> omci_context" where
  "arc_hides E mode a c = (case arc_context (me_at c a) of None \<Rightarrow> (False, c)
     | Some r \<Rightarrow> if mode \<noteq> 1 then (False, c)
       else case me_attr_read E a (arc_attr r) c of (err, bs, c) \<Rightarrow> (err = OMCI_SUCCESS \<and> bs = [1], c))"

fun alarm_copy_mes :: "omci_env \<Rightarrow> u8 \<Rightarrow> addr list \<Rightarrow> nat \<Rightarrow> omci_context \<Rightarrow> nat \<times> omci_context" where
  "alarm_copy_mes E mode [] n c = (n, c)"
| "alarm_copy_mes E mode (a # as) n c =
    (case arc_hides E mode a c of (hidden, c) \<Rightarrow>
     let e = me_at c a in
     if hidden \<or> class_prop (cls e) AND OMCI_ME_PROP_PM \<noteq> 0 \<or> is_alarm_bitmap_empty (alarm_bitmap e)
        \<or> \<not> env_alloc E c (ALLOC_ALARM_COPY (length (alarm_copy_list c)))
     then alarm_copy_mes E mode as n c
     else alarm_copy_mes E mode as (n + 1) (c\<lparr> alarm_copy_list := alarm_copy_list c @
       [\<lparr> ac_class = class_id (cls e), ac_instance = instance_id e, ac_bitmap = take OMCI_ALARM_BITMAP_SIZE (the (alarm_bitmap e)) \<rparr>] \<rparr>))"

definition get_all_alarms_action_handle :: "omci_env \<Rightarrow> addr \<Rightarrow> omci_msg \<Rightarrow> omci_msg \<Rightarrow> omci_context \<Rightarrow> action_result" where
  "get_all_alarms_action_handle E a msg rsp c =
    (let c = (if alarm_copy_timeout c \<noteq> 0
              then (timeout_event_remove (alarm_copy_timeout c) c)\<lparr> alarm_copy_list := [] \<rparr> else c) in
     case alarm_copy_mes E (contents msg ! 0) (concat (map snd (me_class_array c))) 0 c of (n, c) \<Rightarrow>
     case alarm_copy_timeout_add E a (c\<lparr> alarm_seq_num := 0 \<rparr>) of (err, c) \<Rightarrow> (err, msg_put 0 (be16_octets (of_nat n)) rsp, c))"

definition alarms_next_rsp :: "alarm_copy_entry \<Rightarrow> omci_msg \<Rightarrow> omci_msg" where
  "alarms_next_rsp e m = msg_put 2 (be16_octets (ac_instance e)) (msg_put 0 (be16_octets (ac_class e)) (msg_put 4 (ac_bitmap e) m))"

definition get_all_alarms_next_action_handle :: "omci_env \<Rightarrow> addr \<Rightarrow> omci_msg \<Rightarrow> omci_msg \<Rightarrow> omci_context \<Rightarrow> action_result" where
  "get_all_alarms_next_action_handle E a msg rsp c =
    (if alarm_copy_list c = [] then (OMCI_SUCCESS, rsp_result OMCI_MR_CMD_SUCCESS rsp, c)
     else case copy_nth (unat (octets_be16 (memget (contents msg) 0 2))) 0 (alarm_copy_list c) of None \<Rightarrow> (OMCI_SUCCESS, rsp, c)
     | Some e \<Rightarrow>
       let c = (if alarm_copy_timeout c \<noteq> 0 then timeout_event_remove (alarm_copy_timeout c) c else c)
       in case alarm_copy_timeout_add E a c of (err, c) \<Rightarrow> (err, alarms_next_rsp e rsp, c))"

subsection \<open>The alarm reporting control interval\<close>

text \<open>The new interval is stored even where no timeout starts; 0 and 255 start none.\<close>

definition arc_put :: "addr \<Rightarrow> nat \<Rightarrow> u8 \<Rightarrow> omci_context \<Rightarrow> omci_context" where
  "arc_put a attr v c = me_update a (\<lambda>e. me_data_put ((the (me_data e))[me_attr_offset_get (cls e) attr := v]) e) c"

definition arc_set_id :: "addr \<Rightarrow> u32 \<Rightarrow> omci_context \<Rightarrow> omci_context" where
  "arc_set_id a i c = me_update a (\<lambda>e. e\<lparr> arc_context := map_option (\<lambda>r. r\<lparr> arc_timeout_id := i \<rparr>) (arc_context e) \<rparr>) c"

definition arc_interval_set :: "omci_env \<Rightarrow> addr \<Rightarrow> u8 \<Rightarrow> omci_context \<Rightarrow> omci_error \<times> omci_context" where
  "arc_interval_set E a v c =
    (let r = the (arc_context (me_at c a));
         c = (if arc_timeout_id r \<noteq> 0 then arc_set_id a 0 (timeout_event_remove (arc_timeout_id r) c) else c);
         e = me_at c a; k = cls e in
     if the (me_data e) ! me_attr_offset_get k (arc_attr r) = 1 \<and> v > 0 \<and> v \<noteq> 255 then
       (case timeout_event_add E (ucast v * 60 * 1000) arc_interval_exp_timeout_handler (class_id k) (instance_id e)
          (ucast (class_id k)) (ucast (instance_id e)) 0 c of (err, i, c) \<Rightarrow>
        if err \<noteq> OMCI_SUCCESS then (err, c) else (OMCI_SUCCESS, arc_put a (arc_interval_attr r) v (arc_set_id a i c)))
     else (OMCI_SUCCESS, arc_put a (arc_interval_attr r) v c))"

definition arc_interval_exp :: "omci_env \<Rightarrow> timeout \<Rightarrow> omci_context \<Rightarrow> omci_error \<times> omci_context" where
  "arc_interval_exp E t c = (case mib_me_find c (ucast (arg1 t)) (ucast (arg2 t)) of
     (err, None) \<Rightarrow> (err, c)
   | (_, Some a) \<Rightarrow> (let attr = arc_attr (the (arc_context (me_at c a))) in
       case me_attr_write E a attr [0] False c of (err, c) \<Rightarrow> if err \<noteq> OMCI_SUCCESS then (err, c) else avc_send E a attr c))"

subsection \<open>Specification\<close>

text \<open>The mask of a list of attributes, and the entry of the copy that carries them.\<close>

definition mask_of :: "nat list \<Rightarrow> u16" where
  "mask_of as = fold (\<lambda>a m. m OR omci_attr2mask a) as 0"

definition upload_entry :: "(nat \<Rightarrow> octets) \<Rightarrow> u16 \<Rightarrow> u16 \<Rightarrow> nat list \<Rightarrow> mib_copy_entry" where
  "upload_entry val cid iid as = \<lparr> c_class = cid, c_instance = iid, c_mask = mask_of as,
     c_values = concat (map val as) @ replicate (MIB_UPLOAD_NEXT_RSP_VALUES_SIZE - length (concat (map val as))) 0 \<rparr>"

text \<open>The groups in which the attributes of an entity are sent: as many in one entry as fit.\<close>

fun pack :: "(nat \<Rightarrow> nat) \<Rightarrow> nat list \<Rightarrow> nat list \<Rightarrow> nat list list" where
  "pack sz cur [] = [cur]"
| "pack sz cur (a # as) = (if sum_list (map sz cur) + sz a > MIB_UPLOAD_NEXT_RSP_VALUES_SIZE then cur # pack sz [a] as
     else pack sz (cur @ [a]) as)"

text \<open>
  An entity the upload can carry: a well-formed class, quiet get handlers, data of the right length
  unless no attribute is supported, and values that fit into an entry.
\<close>

definition upload_ready :: "omci_env \<Rightarrow> omci_context \<Rightarrow> (string \<Rightarrow> octets \<Rightarrow> octets) \<Rightarrow> addr \<Rightarrow> bool" where
  "upload_ready E c g a \<longleftrightarrow> (let k = cls (me_at c a) in upload_me k \<longrightarrow>
     class_wf k \<and> \<not> is_pm k \<and> \<not> is_internal k \<and> (\<forall>c. quiet_get E c a g)
     \<and> (inv_attr_mask k OR opt_attr_mask k = 0xFFFF \<or> (\<exists>d. me_data (me_at c a) = Some d \<and> length d = data_size k))
     \<and> (\<forall>b. 1 \<le> b \<and> b \<le> 16 \<and> upload_attr k b \<longrightarrow> me_attr_size_get k b \<le> MIB_UPLOAD_NEXT_RSP_VALUES_SIZE))"

definition all_mes :: "omci_context \<Rightarrow> addr list" where
  "all_mes c = concat (map snd (me_class_array c))"

definition upload_mes :: "omci_context \<Rightarrow> addr list" where
  "upload_mes c = filter (\<lambda>a. upload_me (cls (me_at c a))) (all_mes c)"

definition upload_val :: "(string \<Rightarrow> octets \<Rightarrow> octets) \<Rightarrow> omci_context \<Rightarrow> addr \<Rightarrow> nat \<Rightarrow> octets" where
  "upload_val g c a = read_val g (cls (me_at c a)) (case me_data (me_at c a) of Some d \<Rightarrow> d | None \<Rightarrow> [])"

definition me_groups :: "omci_context \<Rightarrow> addr \<Rightarrow> nat list list" where
  "me_groups c a = (let k = cls (me_at c a) in pack (me_attr_size_get k) [] (filter (upload_attr k) [1..<17]))"

definition me_upload :: "(string \<Rightarrow> octets \<Rightarrow> octets) \<Rightarrow> omci_context \<Rightarrow> addr \<Rightarrow> mib_copy_entry list" where
  "me_upload g c a = map (upload_entry (upload_val g c a) (class_id (cls (me_at c a))) (iid_of c a)) (me_groups c a)"

text \<open>The upload commands of the OLT and what it reads from the responses.\<close>

definition upload_next_msg :: "u16 \<Rightarrow> omci_msg" where
  "upload_next_msg s = msg_put 0 (be16_octets s) msg_zero"

definition parse_upload :: "omci_msg \<Rightarrow> mib_copy_entry" where
  "parse_upload m = \<lparr> c_class = octets_be16 (memget (contents m) 0 2), c_instance = octets_be16 (memget (contents m) 2 2),
     c_mask = octets_be16 (memget (contents m) 4 2), c_values = memget (contents m) 6 26 \<rparr>"

fun fetch_upload :: "omci_env \<Rightarrow> addr \<Rightarrow> u16 list \<Rightarrow> omci_context \<Rightarrow> mib_copy_entry list" where
  "fetch_upload E a [] c = []"
| "fetch_upload E a (s # ss) c = (case mib_upload_next_action_handle E a (upload_next_msg s) msg_zero c of (err, rsp, c) \<Rightarrow>
     parse_upload rsp # fetch_upload E a ss c)"

text \<open>Examples: a base with the ONU data entity and an entity of TCP/UDP configuration.\<close>

definition example_onu_class :: me_class where
  "example_onu_class = me_onu_data_class\<lparr> inv_attr_mask := 0x7FFF, wr_attr_mask := 0x8000 \<rparr>"

definition example_upload_ctx :: omci_context where
  "example_upload_ctx = example_tcp_ctx\<lparr> me_class_array := [(example_onu_class, [3]), (example_tcp_class, [5])],
     heap := (heap example_tcp_ctx)(3 \<mapsto> \<lparr> cls = example_onu_class, instance_id = 0, bufs = [[7]], data = Some 0, alarm_bitmap = None,
       arc_context = None, pm = None, is_initialized = True, active = True \<rparr>), me_count := 2 \<rparr>"

section \<open>Packing\<close>

lemma pack_concat: "concat (pack sz cur as) = cur @ as"
  by (induction sz cur as rule: pack.induct) auto

lemma pack_fits:
  "sum_list (map sz cur) \<le> 26 \<Longrightarrow> \<forall>a \<in> set as. sz a \<le> 26 \<Longrightarrow> bs \<in> set (pack sz cur as) \<Longrightarrow> sum_list (map sz bs) \<le> 26"
  by (induction sz cur as rule: pack.induct) (auto split: if_splits)

lemma pack_nonempty [simp]: "pack sz cur as \<noteq> []"
  by (induction sz cur as rule: pack.induct) auto

lemma mask_of_snoc: "mask_of (as @ [a]) = mask_of as OR omci_attr2mask a"
  by (simp add: mask_of_def)

lemma copy_value_entry:
  assumes "mib_copy_list c = old @ [upload_entry val cid iid bs]" and "length (concat (map val bs)) = n" and "n + length (val a) \<le> 26"
  shows "copy_value n a (val a) c = c\<lparr> mib_copy_list := old @ [upload_entry val cid iid (bs @ [a])] \<rparr>"
  using assms by (simp add: copy_value_def upload_entry_def mask_of_snoc memput_def)

text \<open>The loop over the attributes with a current entry \<^verbatim>\<open>cur\<close>, and from the start.\<close>

lemma copy_attrs_cur:
  assumes al: "\<And>c s. env_alloc E c s" and lv: "\<And>a. a \<in> set as \<Longrightarrow> upload_attr k a \<Longrightarrow> length (attr_val k d a) = me_attr_size_get k a \<and> me_attr_size_get k a \<le> 26"
    and cur: "mib_copy_list c = old @ [upload_entry (attr_val k d) (class_id k) iid cur]"
    and n: "length (concat (map (attr_val k d) cur)) = sum_list (map (me_attr_size_get k) cur)" "sum_list (map (me_attr_size_get k) cur) \<le> 26"
  shows "copy_attrs E k iid d as (True, sum_list (map (me_attr_size_get k) cur), True) c =
    Inr (True, True, c\<lparr> mib_copy_list := old @ map (upload_entry (attr_val k d) (class_id k) iid) (pack (me_attr_size_get k) cur (filter (upload_attr k) as)),
      mib_copy_num := mib_copy_num c + (length (pack (me_attr_size_get k) cur (filter (upload_attr k) as)) - 1) \<rparr>)"
  using lv cur n
proof (induction as arbitrary: cur old c)
  case (Cons a as)
  let ?sz = "me_attr_size_get k" and ?ent = "upload_entry (attr_val k d) (class_id k) iid"
  show ?case
  proof (cases "upload_attr k a")
    case False
    then show ?thesis using Cons.IH[of c old cur] Cons.prems by simp
  next
    case True
    have la: "length (attr_val k d a) = ?sz a" "?sz a \<le> 26" using Cons.prems(1)[of a] True by auto
    show ?thesis
    proof (cases "sum_list (map ?sz cur) + ?sz a > 26")
      case big: True
      let ?c = "c\<lparr> mib_copy_num := mib_copy_num c + 1, mib_copy_list := (old @ [?ent cur]) @ [?ent []] \<rparr>"
      have nw: "copy_entry_new E (class_id k) iid (c\<lparr> mib_copy_num := mib_copy_num c + 1 \<rparr>) = Some ?c"
        using al Cons.prems(2) by (simp add: copy_entry_new_def upload_entry_def mask_of_def)
      have v: "copy_value 0 a (attr_val k d a) ?c = ?c\<lparr> mib_copy_list := (old @ [?ent cur]) @ [?ent [a]] \<rparr>"
        using copy_value_entry[of ?c "old @ [?ent cur]" "attr_val k d" "class_id k" iid "[]" 0 a] la by simp
      have "copy_attrs E k iid d (a # as) (True, sm, True) c
          = copy_attrs E k iid d as (True, sum_list (map ?sz [a]), True) (?c\<lparr> mib_copy_list := (old @ [?ent cur]) @ [?ent [a]] \<rparr>)"
        if "sm + ?sz a > 26" "sm \<noteq> 0" for sm
        using True la nw v that by (simp add: Let_def)
      then have st: "copy_attrs E k iid d (a # as) (True, sum_list (map ?sz cur), True) c
          = copy_attrs E k iid d as (True, sum_list (map ?sz [a]), True) (?c\<lparr> mib_copy_list := (old @ [?ent cur]) @ [?ent [a]] \<rparr>)"
        using big la by fastforce
      show ?thesis unfolding st
        by (subst Cons.IH[of _ "old @ [?ent cur]" "[a]"]) (use Cons.prems la big True in \<open>simp_all add: Suc_diff_le Suc_leI\<close>)
    next
      case small: False
      have v: "copy_value (sum_list (map ?sz cur)) a (attr_val k d a) c = c\<lparr> mib_copy_list := old @ [?ent (cur @ [a])] \<rparr>"
        using copy_value_entry[OF Cons.prems(2,3)] la small by simp
      have st: "copy_attrs E k iid d (a # as) (True, sum_list (map ?sz cur), True) c
          = copy_attrs E k iid d as (True, sum_list (map ?sz (cur @ [a])), True) (c\<lparr> mib_copy_list := old @ [?ent (cur @ [a])] \<rparr>)"
        using True small la v by (simp add: Let_def)
      show ?thesis unfolding st
        by (subst Cons.IH[of _ old "cur @ [a]"]) (use Cons.prems la small True in simp_all)
    qed
  qed
qed simp

lemma copy_attrs_start:
  assumes al: "\<And>c s. env_alloc E c s" and lv: "\<And>a. a \<in> set as \<Longrightarrow> upload_attr k a \<Longrightarrow> length (attr_val k d a) = me_attr_size_get k a \<and> me_attr_size_get k a \<le> 26"
  shows "copy_attrs E k iid d as (False, 0, False) c =
    (if filter (upload_attr k) as = [] then Inr (False, False, c)
     else Inr (True, True, c\<lparr> mib_copy_list := mib_copy_list c @ map (upload_entry (attr_val k d) (class_id k) iid) (pack (me_attr_size_get k) [] (filter (upload_attr k) as)),
      mib_copy_num := mib_copy_num c + (length (pack (me_attr_size_get k) [] (filter (upload_attr k) as)) - 1) \<rparr>))"
  using lv
proof (induction as)
  case (Cons a as)
  show ?case
  proof (cases "upload_attr k a")
    case True
    let ?ent = "upload_entry (attr_val k d) (class_id k) iid"
    have la: "length (attr_val k d a) = me_attr_size_get k a" "me_attr_size_get k a \<le> 26" using Cons.prems[of a] True by auto
    let ?c = "c\<lparr> mib_copy_list := mib_copy_list c @ [?ent []] \<rparr>"
    have nw: "copy_entry_new E (class_id k) iid c = Some ?c"
      using al by (simp add: copy_entry_new_def upload_entry_def mask_of_def)
    have v: "copy_value 0 a (attr_val k d a) ?c = ?c\<lparr> mib_copy_list := mib_copy_list c @ [?ent [a]] \<rparr>"
      using copy_value_entry[of ?c "mib_copy_list c" "attr_val k d" "class_id k" iid "[]" 0 a] la by simp
    have st: "copy_attrs E k iid d (a # as) (False, 0, False) c
          = copy_attrs E k iid d as (True, sum_list (map (me_attr_size_get k) [a]), True) (?c\<lparr> mib_copy_list := mib_copy_list c @ [?ent [a]] \<rparr>)"
      using True la nw v by (simp add: Let_def)
    have pk: "pack (me_attr_size_get k) [] (filter (upload_attr k) (a # as)) = pack (me_attr_size_get k) [a] (filter (upload_attr k) as)"
      using la True by simp
    show ?thesis unfolding st pk
      by (subst copy_attrs_cur[OF al, of _ _ _ _ "mib_copy_list c"]) (use Cons.prems la True in simp_all)
  qed (use Cons in simp)
qed simp

text \<open>An entity is copied into its entries; one without attributes into an empty one.\<close>

lemma upload_ready_attr:
  assumes "class_wf k" and "inv_attr_mask k OR opt_attr_mask k = 0xFFFF" and "1 \<le> b" and "b \<le> 16"
  shows "\<not> upload_attr k b"
proof -
  have "NOT (inv_attr_mask k OR opt_attr_mask k) = 0" unfolding assms(2) by simp
  then show ?thesis using read_mask[OF assms(1,3,4)] by (simp add: upload_attr_def)
qed

lemma copy_me_ok:
  assumes al: "\<And>c s. env_alloc E c s" and rd: "upload_ready E c g a" and up: "upload_me (cls (me_at c a))"
  shows "copy_me E a c = Inr (c\<lparr> mib_copy_list := mib_copy_list c @ me_upload g c a, mib_copy_num := mib_copy_num c + length (me_upload g c a) \<rparr>)"
proof -
  let ?k = "cls (me_at c a)"
  let ?as = "filter (upload_attr ?k) [1..<17]"
  note R = rd[unfolded upload_ready_def Let_def, rule_format, OF up]
  have wf: "class_wf ?k" using R by blast
  have r: "b \<in> set [1..<17] \<longleftrightarrow> 1 \<le> b \<and> b \<le> 16" for b :: nat by (auto simp del: upt_rec_numeral)
  obtain err d where d: "me_data_read E a (data_size ?k) OMCI_PM_INTERVAL_CURR c = (err, d, c)" and ld: "length d = data_size ?k"
    and w: "\<And>b. 1 \<le> b \<Longrightarrow> b \<le> 16 \<Longrightarrow> upload_attr ?k b \<Longrightarrow> attr_val ?k d b = upload_val g c a b"
  proof (cases "inv_attr_mask ?k OR opt_attr_mask ?k = 0xFFFF")
    case True
    then show thesis using that[of OMCI_SUCCESS "replicate (data_size ?k) 0"] upload_ready_attr[OF wf True]
      by (simp add: me_data_read_def)
  next
    case False
    then obtain d0 where d0: "me_data (me_at c a) = Some d0" "length d0 = data_size ?k" using R by blast
    show thesis using me_data_read_ok[OF wf _ _ _ d0 False, of E g OMCI_PM_INTERVAL_CURR] R that d0
      by (fastforce simp: upload_attr_def upload_val_def)
  qed
  have lv: "length (attr_val ?k d b) = me_attr_size_get ?k b \<and> me_attr_size_get ?k b \<le> 26" if "b \<in> set [1..<17]" "upload_attr ?k b" for b
    using that r R attr_val_length[OF wf ld, of b] by (simp del: upt_rec_numeral)
  have sub: "bs \<in> set (pack (me_attr_size_get ?k) [] ?as) \<Longrightarrow> set bs \<subseteq> set ?as" for bs
    using pack_concat[of "me_attr_size_get ?k" "[]" ?as] by (metis append_Nil set_concat UN_upper)
  have ent: "map (upload_entry (attr_val ?k d) (class_id ?k) (iid_of c a)) (pack (me_attr_size_get ?k) [] ?as) = me_upload g c a"
  proof -
    have "upload_entry (attr_val ?k d) (class_id ?k) (iid_of c a) bs = upload_entry (upload_val g c a) (class_id ?k) (iid_of c a) bs"
      if "bs \<in> set (pack (me_attr_size_get ?k) [] ?as)" for bs
    proof -
      have m: "map (attr_val ?k d) bs = map (upload_val g c a) bs" using sub[OF that] r w by (auto simp del: upt_rec_numeral)
      show ?thesis by (simp only: upload_entry_def m)
    qed
    then show ?thesis by (simp add: me_upload_def me_groups_def Let_def del: upt_rec_numeral)
  qed
  have len: "length (me_upload g c a) = length (pack (me_attr_size_get ?k) [] ?as)" unfolding ent[symmetric] by simp
  have run: "copy_attrs E ?k (iid_of c a) d [1..<17] (False, 0, False) c =
    (if ?as = [] then Inr (False, False, c)
     else Inr (True, True, c\<lparr> mib_copy_list := mib_copy_list c @ me_upload g c a,
       mib_copy_num := mib_copy_num c + (length (pack (me_attr_size_get ?k) [] ?as) - 1) \<rparr>))"
    unfolding ent[symmetric] by (rule copy_attrs_start[OF al lv])
  show ?thesis
  proof (cases "?as = []")
    case True
    have nw: "copy_entry_new E (class_id ?k) (iid_of c a) c = Some (c\<lparr> mib_copy_list := mib_copy_list c @ me_upload g c a \<rparr>)"
      using al True ent by (simp add: copy_entry_new_def upload_entry_def mask_of_def del: upt_rec_numeral)
    show ?thesis
      using up d nw run True len by (simp add: copy_me_def Let_def del: upt_rec_numeral One_nat_def)
  next
    case False
    obtain n where n: "length (pack (me_attr_size_get ?k) [] ?as) = Suc n" by (cases "pack (me_attr_size_get ?k) [] ?as") auto
    show ?thesis
      using up d run[unfolded n] False len[unfolded n] by (simp add: copy_me_def Let_def del: upt_rec_numeral One_nat_def)
  qed
qed

section \<open>The copy\<close>

lemma copy_mes_ok:
  assumes al: "\<And>c s. env_alloc E c s" and rd: "\<forall>a \<in> set as. upload_ready E c g a"
  shows "copy_mes E as c = (OMCI_SUCCESS, c\<lparr> mib_copy_list := mib_copy_list c @ concat (map (me_upload g c) (filter (\<lambda>a. upload_me (cls (me_at c a))) as)),
    mib_copy_num := mib_copy_num c + length (concat (map (me_upload g c) (filter (\<lambda>a. upload_me (cls (me_at c a))) as))) \<rparr>)"
  using rd
proof (induction as arbitrary: c)
  case (Cons a as)
  show ?case
  proof (cases "upload_me (cls (me_at c a))")
    case True
    define c1 where "c1 = c\<lparr> mib_copy_list := mib_copy_list c @ me_upload g c a, mib_copy_num := mib_copy_num c + length (me_upload g c a) \<rparr>"
    have at: "me_at c1 = me_at c" by (rule ext) (simp add: me_at_def c1_def)
    have iid: "iid_of c1 = iid_of c" by (rule ext) (simp add: iid_of_def at)
    have up: "me_upload g c1 = me_upload g c" by (rule ext) (simp add: me_upload_def upload_val_def me_groups_def at iid)
    have rd1: "\<forall>a \<in> set as. upload_ready E c1 g a" using Cons.prems by (simp add: upload_ready_def at)
    have st: "copy_mes E (a # as) c = copy_mes E as c1" using copy_me_ok[OF al, of c g a] Cons.prems True by (simp add: c1_def)
    show ?thesis unfolding st Cons.IH[OF rd1] up at using True by (simp add: c1_def)
  next
    case False
    then have "copy_me E a c = Inr c" by (simp add: copy_me_def)
    then show ?thesis using Cons False by simp
  qed
qed simp

lemma mib_copy_ok:
  assumes al: "\<And>c s. env_alloc E c s" and rd: "\<forall>a \<in> set (all_mes c). upload_ready E c g a"
  obtains c' where "mib_copy E c = (OMCI_SUCCESS, c')" "mib_copy_list c' = concat (map (me_upload g c) (upload_mes c))"
    "mib_copy_num c' = length (mib_copy_list c')" "mib_copy_timeout c' = 0" "heap c' = heap c" "me_class_array c' = me_class_array c"
proof -
  define c1 where "c1 = (if mib_copy_timeout c \<noteq> 0 then timeout_event_remove (mib_copy_timeout c) c else c)"
  define c2 where "c2 = c1\<lparr> mib_copy_list := [], mib_copy_num := 0, mib_copy_timeout := 0 \<rparr>"
  have h: "heap c2 = heap c" "me_class_array c2 = me_class_array c" by (simp_all add: c2_def c1_def timeout_event_remove_def)
  have at: "me_at c2 = me_at c" by (rule ext) (simp add: me_at_def h)
  have iid: "iid_of c2 = iid_of c" by (rule ext) (simp add: iid_of_def at)
  have up: "me_upload g c2 = me_upload g c" by (rule ext) (simp add: me_upload_def upload_val_def me_groups_def at iid)
  have rd2: "\<forall>a \<in> set (all_mes c). upload_ready E c2 g a" using rd by (simp add: upload_ready_def at)
  have "mib_copy E c = copy_mes E (all_mes c) c2" using h by (simp add: mib_copy_def all_mes_def c2_def c1_def Let_def timeout_event_remove_def)
  then show thesis
    using that[of "c2\<lparr> mib_copy_list := concat (map (me_upload g c) (upload_mes c)), mib_copy_num := length (concat (map (me_upload g c) (upload_mes c))) \<rparr>"]
      copy_mes_ok[OF al rd2] unfolding up at upload_mes_def[symmetric] by (simp add: h c2_def c1_def timeout_event_remove_def)
qed

lemma me_groups_ok:
  assumes "upload_ready E c g a" "upload_me (cls (me_at c a))"
  shows "concat (me_groups c a) = filter (upload_attr (cls (me_at c a))) [1..<17]" "me_groups c a \<noteq> []"
    "bs \<in> set (me_groups c a) \<Longrightarrow> sum_list (map (me_attr_size_get (cls (me_at c a))) bs) \<le> 26"
proof -
  let ?k = "cls (me_at c a)"
  show "concat (me_groups c a) = filter (upload_attr ?k) [1..<17]" by (simp add: me_groups_def Let_def pack_concat del: upt_rec_numeral)
  show "me_groups c a \<noteq> []" by (simp add: me_groups_def Let_def del: upt_rec_numeral)
  have "\<forall>b \<in> set (filter (upload_attr ?k) [1..<17]). me_attr_size_get ?k b \<le> 26"
    using assms by (auto simp: upload_ready_def Let_def simp del: upt_rec_numeral)
  from pack_fits[OF _ this, of "[]" bs] show "sum_list (map (me_attr_size_get ?k) bs) \<le> 26" if "bs \<in> set (me_groups c a)"
    using that by (simp add: me_groups_def Let_def del: upt_rec_numeral One_nat_def)
qed


section \<open>The transfer\<close>

lemma copy_nth_nth: "copy_nth s i es = (if i \<le> s \<and> s - i < length es then Some (es ! (s - i)) else None)"
  by (induction es arbitrary: i) (auto simp: nth_Cons' Suc_diff_Suc)

lemma copy_timeout_restart_ok:
  assumes "\<And>c s. env_alloc E c s"
  obtains c' where "mib_copy_timeout_restart E a c = (OMCI_SUCCESS, c')" "mib_copy_list c' = mib_copy_list c" "heap c' = heap c"
    "mib_copy_num c' = mib_copy_num c"
  using assms by (simp add: mib_copy_timeout_restart_def timeout_event_add_def event_entry_add_def timeout_event_remove_def Let_def split: if_splits)

lemma parse_upload_next:
  assumes "length (c_values e) = 26"
  shows "parse_upload (upload_next_rsp e msg_zero) = e"
proof -
  obtain x y where xy: "be16_octets v = [x v, y v]" for v by (simp add: be16_octets_def)
  have l: "length (contents msg_zero) = 32" by (simp add: msg_zero_def)
  have z: "contents msg_zero = replicate 32 0" by (simp add: msg_zero_def)
  have "contents (upload_next_rsp e msg_zero) = be16_octets (c_class e) @ be16_octets (c_instance e) @ be16_octets (c_mask e) @ c_values e"
    using assms by (simp add: upload_next_rsp_def msg_put_def memput_def z xy)
  moreover have "length (be16_octets v) = 2" for v by (simp add: xy)
  ultimately show ?thesis using assms octets_be16_octets by (simp add: parse_upload_def memget_def)
qed

lemma fetch_upload_ok:
  assumes al: "\<And>c s. env_alloc E c s" and v: "\<forall>e \<in> set (mib_copy_list c). length (c_values e) = 26"
    and ss: "\<forall>s \<in> set ss. unat s < length (mib_copy_list c)"
  shows "fetch_upload E a ss c = map (\<lambda>s. mib_copy_list c ! unat s) ss"
  using assms(2,3)
proof (induction ss arbitrary: c)
  case (Cons s ss)
  have n: "octets_be16 (memget (contents (upload_next_msg s)) 0 2) = s"
    using memget_put_same[of 0 "be16_octets s" "contents msg_zero"] by (simp add: upload_next_msg_def msg_zero_def be16_length)
  obtain c' where c': "mib_copy_timeout_restart E a c = (OMCI_SUCCESS, c')" "mib_copy_list c' = mib_copy_list c"
    using copy_timeout_restart_ok[OF al] by blast
  have st: "mib_upload_next_action_handle E a (upload_next_msg s) msg_zero c = (OMCI_SUCCESS, upload_next_rsp (mib_copy_list c ! unat s) msg_zero, c')"
    using Cons.prems(2) c' n by (auto simp: mib_upload_next_action_handle_def copy_nth_nth)
  show ?case using Cons.IH[of c'] Cons.prems c'(2) parse_upload_next by (simp add: st)
qed simp

lemma me_upload_values:
  assumes rd: "upload_ready E c g a" and up: "upload_me (cls (me_at c a))" and e: "e \<in> set (me_upload g c a)"
  shows "length (c_values e) = 26"
proof -
  let ?k = "cls (me_at c a)"
  note R = rd[unfolded upload_ready_def Let_def, rule_format, OF up]
  obtain bs where bs: "bs \<in> set (me_groups c a)" and e': "e = upload_entry (upload_val g c a) (class_id ?k) (iid_of c a) bs"
    using e by (auto simp: me_upload_def)
  have sub: "set bs \<subseteq> set (filter (upload_attr ?k) [1..<17])"
    using me_groups_ok(1)[OF rd up] bs by (metis UN_upper set_concat)
  have l: "length (upload_val g c a b) = me_attr_size_get ?k b" if "b \<in> set bs" for b
  proof -
    have b: "1 \<le> b" "b \<le> 16" "upload_attr ?k b" using sub that by (auto simp del: upt_rec_numeral)
    then have "inv_attr_mask ?k OR opt_attr_mask ?k \<noteq> 0xFFFF" using upload_ready_attr R by blast
    then obtain d where d: "me_data (me_at c a) = Some d" "length d = data_size ?k" using R by blast
    have "length (attr_val ?k d b) = me_attr_size_get ?k b" using attr_val_length R d(2) b(1,2) by blast
    then show ?thesis using R d(1) by (auto simp: upload_val_def read_val_def quiet_get_def split: option.splits)
  qed
  have "length (concat (map (upload_val g c a) bs)) = sum_list (map (me_attr_size_get ?k) bs)"
    using l by (simp add: length_concat comp_def cong: map_cong)
  then show ?thesis using me_groups_ok(3)[OF rd up bs] by (simp add: e' upload_entry_def)
qed

lemma unat_of_nat_u16: "n < 65536 \<Longrightarrow> unat (of_nat n :: u16) = n"
  by (simp add: unsigned_of_nat take_bit_nat_eq_self)

text \<open>
  C7: A MIB upload transfers the whole base: when the data sync counter is not zero, the response to
  MIB upload holds the number of commands to follow, and that many MIB upload next commands with the
  sequence numbers from zero on return, in order, the entries that \<^verbatim>\<open>me_upload\<close> gives for the entities:
  class, instance, mask and values of every readable attribute.
\<close>

theorem mib_upload_transfers:
  assumes al: "\<And>c s. env_alloc E c s" and rd: "\<forall>a \<in> set (all_mes c). upload_ready E c g a"
    and seq: "snd (mib_seq_num_get c) = Some s" "s \<noteq> 0" and len: "length (contents rsp) = 32"
    and spec: "spec = concat (map (me_upload g c) (upload_mes c))" and n: "0 < length spec" "length spec < 65536"
  shows "case mib_upload_action_handle E a rsp c of (err, rsp', c') \<Rightarrow> err = OMCI_SUCCESS
    \<and> unat (octets_be16 (memget (contents rsp') 0 2)) = length spec
    \<and> fetch_upload E a (map of_nat [0..<length spec]) c' = spec"
proof (rule mib_copy_ok[OF al rd])
  fix c1
  assume c1: "mib_copy E c = (OMCI_SUCCESS, c1)" "mib_copy_list c1 = concat (map (me_upload g c) (upload_mes c))"
    "mib_copy_num c1 = length (mib_copy_list c1)"
  obtain c' where c': "mib_copy_timeout_restart E a c1 = (OMCI_SUCCESS, c')" "mib_copy_list c' = mib_copy_list c1"
    using copy_timeout_restart_ok[OF al] by blast
  have u: "unat (of_nat (length spec) :: u16) = length spec" using n(2) by (simp add: unat_of_nat_u16)
  then have nz: "(of_nat (length spec) :: u16) \<noteq> 0" using n(1) by (metis less_numeral_extra(3) unat_eq_zero)
  have st: "mib_upload_action_handle E a rsp c = (OMCI_SUCCESS, msg_put 0 (be16_octets (of_nat (length spec))) rsp, c')"
    using seq c1 c' nz by (simp add: mib_upload_action_handle_def spec Let_def)
  have v: "\<forall>e \<in> set (mib_copy_list c'). length (c_values e) = 26"
    using me_upload_values rd by (fastforce simp: c'(2) c1(2) upload_mes_def)
  have ss: "\<forall>s \<in> set (map of_nat [0..<length spec] :: u16 list). unat s < length (mib_copy_list c')"
    using n(2) by (auto simp: c'(2) c1(2) spec[symmetric] unat_of_nat_u16)
  have "map ((!) spec \<circ> (unat \<circ> (of_nat :: nat \<Rightarrow> u16))) [0..<length spec] = map ((!) spec) [0..<length spec]"
    using n(2) by (intro map_cong) (simp_all add: unat_of_nat_u16)
  then have "fetch_upload E a (map of_nat [0..<length spec]) c' = spec"
    unfolding fetch_upload_ok[OF al v ss] by (simp add: c'(2) c1(2) spec[symmetric] comp_def map_nth)
  moreover have "memget (contents (msg_put 0 (be16_octets v) rsp)) 0 2 = be16_octets v" for v
    using memget_put_same[of 0 "be16_octets v" "contents rsp"] len by (simp add: be16_length)
  ultimately show ?thesis using st u by simp
qed

lemma example_onu_wf: "class_wf example_onu_class"
proof -
  have "list_all (\<lambda>a. mask_has (inv_attr_mask example_onu_class) a = (me_attr_prop_get example_onu_class a = 0)
     \<and> mask_has (opt_attr_mask example_onu_class) a = (me_attr_prop_get example_onu_class a AND OMCI_ATTR_PROP_NOT_SUPPORTED \<noteq> 0)
     \<and> mask_has (sbc_attr_mask example_onu_class) a = (me_attr_prop_get example_onu_class a AND OMCI_ATTR_PROP_SBC \<noteq> 0)
     \<and> mask_has (avc_attr_mask example_onu_class) a = (me_attr_prop_get example_onu_class a AND OMCI_ATTR_PROP_AVC \<noteq> 0)
     \<and> mask_has (wr_attr_mask example_onu_class) a = (me_attr_prop_get example_onu_class a AND OMCI_ATTR_PROP_WR \<noteq> 0)
     \<and> mask_has (vol_attr_mask example_onu_class) a = (me_attr_get_handler_get example_onu_class a \<noteq> None)) [1..<17]"
    by code_simp
  then have "masks_ok example_onu_class" unfolding masks_ok_def all_attrs .
  moreover have "length (attrs example_onu_class) = 16 \<and> length (actions example_onu_class) = 29 \<and> contiguous 0 (attrs example_onu_class)
     \<and> list_all (\<lambda>a. attr_prop a = 0 \<longrightarrow> attr_size a = 0) (attrs example_onu_class)
     \<and> sum_list (map attr_size (attrs example_onu_class)) = data_size example_onu_class \<and> data_size example_onu_class \<le> OMCI_ME_DATA_SIZE_MAX
     \<and> update_handler example_onu_class \<noteq> None" by code_simp
  ultimately show ?thesis by (simp add: class_wf_def)
qed

lemma example_upload_ready: "\<forall>a \<in> set (all_mes example_upload_ctx). upload_ready example_env example_upload_ctx (\<lambda>h bs. bs) a"
proof -
  have cl: "cls (me_at example_upload_ctx 3) = example_onu_class" "cls (me_at example_upload_ctx 5) = example_tcp_class"
    "me_data (me_at example_upload_ctx 3) = Some [7]" "me_data (me_at example_upload_ctx 5) = Some [0, 80, 6, 0, 0, 1]"
    by (simp_all add: example_upload_ctx_def me_at_def example_tcp_ctx_def me_data_def)
  have sz: "list_all (\<lambda>b. me_attr_size_get example_onu_class b \<le> 26 \<and> me_attr_size_get example_tcp_class b \<le> 26) [1..<17]
      \<and> data_size example_onu_class = 1 \<and> data_size example_tcp_class = 6"
    by code_simp
  have np: "\<not> is_pm example_tcp_class \<and> \<not> is_internal example_tcp_class \<and> \<not> is_pm example_onu_class \<and> \<not> is_internal example_onu_class"
    by (simp add: is_pm_def is_internal_def example_tcp_class_def me_tcp_udp_config_data_class_def example_onu_class_def me_onu_data_class_def mk_class_def)
  have q: "quiet_get example_env c a (\<lambda>h bs. bs)" for c a by (simp add: quiet_get_def example_env_def)
  have "set (all_mes example_upload_ctx) = {3, 5}" by (simp add: all_mes_def example_upload_ctx_def)
  moreover have s2: "\<forall>b. 1 \<le> b \<and> b \<le> 16 \<longrightarrow> me_attr_size_get example_onu_class b \<le> 26 \<and> me_attr_size_get example_tcp_class b \<le> 26"
    unfolding all_attrs using sz by (rule conjunct1)
  ultimately show ?thesis using example_onu_wf example_tcp_wf np q sz by (simp add: upload_ready_def cl)
qed

lemma example_upload_groups:
  "pack (me_attr_size_get example_onu_class) [] (filter (upload_attr example_onu_class) [1..<17]) = [[1]]"
  "pack (me_attr_size_get example_tcp_class) [] (filter (upload_attr example_tcp_class) [1..<17]) = [[1, 2, 3, 4]]"
  "upload_entry (read_val (\<lambda>h bs. bs) example_onu_class [7]) 2 0 [1] = \<lparr> c_class = 2, c_instance = 0, c_mask = 0x8000, c_values = 7 # replicate 25 0 \<rparr>"
  "upload_entry (read_val (\<lambda>h bs. bs) example_tcp_class [0, 80, 6, 0, 0, 1]) 136 0 [1, 2, 3, 4]
     = \<lparr> c_class = 136, c_instance = 0, c_mask = 0xF000, c_values = [0, 80, 6, 0, 0, 1] @ replicate 20 0 \<rparr>"
  by code_simp+

lemma example_upload_eval:
  "upload_mes example_upload_ctx = [3, 5]"
  "me_upload (\<lambda>h bs. bs) example_upload_ctx 3 = [\<lparr> c_class = 2, c_instance = 0, c_mask = 0x8000, c_values = 7 # replicate 25 0 \<rparr>]"
  "me_upload (\<lambda>h bs. bs) example_upload_ctx 5 = [\<lparr> c_class = 136, c_instance = 0, c_mask = 0xF000, c_values = [0, 80, 6, 0, 0, 1] @ replicate 20 0 \<rparr>]"
proof -
  have cl: "cls (me_at example_upload_ctx 3) = example_onu_class" "cls (me_at example_upload_ctx 5) = example_tcp_class"
    "me_data (me_at example_upload_ctx 3) = Some [7]" "me_data (me_at example_upload_ctx 5) = Some [0, 80, 6, 0, 0, 1]"
    "iid_of example_upload_ctx 3 = 0" "iid_of example_upload_ctx 5 = 0" "all_mes example_upload_ctx = [3, 5]"
    by (simp_all add: example_upload_ctx_def me_at_def example_tcp_ctx_def me_data_def iid_of_def all_mes_def)
  have k: "upload_me example_onu_class \<and> upload_me example_tcp_class \<and> class_id example_onu_class = 2 \<and> class_id example_tcp_class = 136"
    by code_simp
  show "upload_mes example_upload_ctx = [3, 5]" using k by (simp add: upload_mes_def cl)
  show "me_upload (\<lambda>h bs. bs) example_upload_ctx 3 = [\<lparr> c_class = 2, c_instance = 0, c_mask = 0x8000, c_values = 7 # replicate 25 0 \<rparr>]"
    unfolding me_upload_def me_groups_def Let_def upload_val_def cl option.case example_upload_groups(1) list.map using k example_upload_groups(3) by simp
  show "me_upload (\<lambda>h bs. bs) example_upload_ctx 5 = [\<lparr> c_class = 136, c_instance = 0, c_mask = 0xF000, c_values = [0, 80, 6, 0, 0, 1] @ replicate 20 0 \<rparr>]"
    unfolding me_upload_def me_groups_def Let_def upload_val_def cl option.case example_upload_groups(2) list.map using k example_upload_groups(4) by simp
qed

lemma example_upload_seq: "snd (mib_seq_num_get example_upload_ctx) = Some 7"
  by (simp add: mib_seq_num_get_def mib_me_find_def class_entry_find_def example_upload_ctx_def me_list_def me_at_def me_data_def
      example_onu_class_def me_onu_data_class_def mk_class_def)


theorem mib_upload_transfers_witness:
  "case mib_upload_action_handle example_env 3 msg_zero example_upload_ctx of (err, rsp', c') \<Rightarrow> err = OMCI_SUCCESS
    \<and> unat (octets_be16 (memget (contents rsp') 0 2)) = 2
    \<and> fetch_upload example_env 3 (map of_nat [0..<2]) c' =
      [\<lparr> c_class = 2, c_instance = 0, c_mask = 0x8000, c_values = 7 # replicate 25 0 \<rparr>,
       \<lparr> c_class = 136, c_instance = 0, c_mask = 0xF000, c_values = [0, 80, 6, 0, 0, 1] @ replicate 20 0 \<rparr>]"
proof -
  have al: "env_alloc example_env c s" for c s by (simp add: example_env_def)
  let ?spec = "concat (map (me_upload (\<lambda>h bs. bs) example_upload_ctx) (upload_mes example_upload_ctx))"
  have spec: "?spec = [\<lparr> c_class = 2, c_instance = 0, c_mask = 0x8000, c_values = 7 # replicate 25 0 \<rparr>,
       \<lparr> c_class = 136, c_instance = 0, c_mask = 0xF000, c_values = [0, 80, 6, 0, 0, 1] @ replicate 20 0 \<rparr>]"
    unfolding example_upload_eval(1) by (simp only: example_upload_eval(2,3) list.map concat.simps append.simps)
  have l: "length ?spec = 2" "0 < length ?spec" "length ?spec < 65536" unfolding spec by simp_all
  show ?thesis
    using mib_upload_transfers[OF al example_upload_ready example_upload_seq _ example_set_fields(4) refl l(2,3), of 3]
    unfolding l(1) unfolding spec by simp
qed

section \<open>Reset\<close>



end
