(* ===== verification/Omci_Core.thy ===== *)
theory Omci_Core
  imports Omci_Upload
begin

text \<open>
  The message service of the daemon (\<^verbatim>\<open>omci_core.c\<close>): dispatch of a command to the handler of its class,
  the message thread and the action thread with the responses they remember, and the timeout thread.
  The threads are a step relation; a step is what a thread does between two waits, in which the
  context is locked or nothing else writes what it reads.
\<close>

section \<open>Definitions\<close>

subsection \<open>Dispatch\<close>

definition rsp_create :: "omci_msg \<Rightarrow> omci_msg" where
  "rsp_create msg =
    (omci_msg_type_mt_set (of_nat (omci_msg_type_mt_get msg)) (omci_msg_type_ak_set (omci_msg_type_ar_get msg)
       (omci_msg_type_ar_set 0 (msg_zero\<lparr> tci := tci msg \<rparr>))))
      \<lparr> dev_id := OMCI_FORMAT_BASELINE, m_class := m_class msg, m_instance := m_instance msg \<rparr>"

definition omci_is_msg_correct :: "omci_msg \<Rightarrow> bool" where
  "omci_is_msg_correct msg \<longleftrightarrow> omci_msg_type_db_get msg = 0 \<and> omci_msg_type_mt_get msg \<le> 28 \<and> 4 \<le> omci_msg_type_mt_get msg
     \<and> dev_id msg = OMCI_FORMAT_BASELINE"

text \<open>
  The call through the action table. Handlers of the model are called by name, all others belong to
  the surroundings; only Create is called without an entity. \<^verbatim>\<open>n\<close> and \<^verbatim>\<open>cids\<close> are those of MIB reset.
\<close>

definition run_action ::
    "omci_env \<Rightarrow> nat \<Rightarrow> u16 list \<Rightarrow> string \<Rightarrow> addr option \<Rightarrow> omci_msg \<Rightarrow> omci_msg \<Rightarrow> omci_context \<Rightarrow> action_result option" where
  "run_action E n cids h me msg rsp c =
    (if h = ''create_action_handle'' then Some (create_action_handle E me msg rsp c)
     else case me of None \<Rightarrow> Some (h_action E h c None msg rsp)
     | Some a \<Rightarrow>
       if h = ''set_action_handle'' then Some (set_action_handle E a msg rsp c)
       else if h = ''get_action_handle'' \<or> h = ''get_current_data_action_handle'' then Some (get_action_handle E a msg rsp c)
       else if h = ''get_next_action_handle'' then Some (get_next_action_handle E a msg rsp c)
       else if h = ''delete_action_handle'' then Some (delete_action_handle E a rsp c)
       else if h = ''reboot_acion_handle'' then Some (reboot_acion_handle E rsp c)
       else if h = ''omci_onu_data.mib_upload_action_handle'' then Some (mib_upload_action_handle E a rsp c)
       else if h = ''omci_onu_data.mib_upload_next_action_handle'' then Some (mib_upload_next_action_handle E a msg rsp c)
       else if h = ''omci_onu_data.mib_reset_action_handle'' then mib_reset_action_handle E n cids rsp c
       else if h = ''omci_onu_data.get_all_alarms_action_handle'' then Some (get_all_alarms_action_handle E a msg rsp c)
       else if h = ''omci_onu_data.get_all_alarms_next_action_handle'' then Some (get_all_alarms_next_action_handle E a msg rsp c)
       else Some (h_action E h c (Some a) msg rsp))"

definition msg_dispatch ::
    "omci_env \<Rightarrow> nat \<Rightarrow> u16 list \<Rightarrow> me_class \<Rightarrow> addr option \<Rightarrow> omci_msg \<Rightarrow> omci_msg \<Rightarrow> omci_context \<Rightarrow> action_result option" where
  "msg_dispatch E n cids k me msg rsp c = (case me_action_handler_get k (omci_msg_type_mt_get msg) of (err, h) \<Rightarrow>
     if err \<noteq> OMCI_SUCCESS then Some (err, rsp, c)
     else case h of None \<Rightarrow> Some (OMCI_ERROR_ACTION, rsp_result OMCI_MR_CMD_NOT_SUPPORTED rsp, c)
     | Some h \<Rightarrow> run_action E n cids h me msg rsp c)"

definition msg_handle :: "omci_env \<Rightarrow> nat \<Rightarrow> u16 list \<Rightarrow> omci_msg \<Rightarrow> omci_context \<Rightarrow> action_result option" where
  "msg_handle E n cids msg c =
    (let rsp = rsp_create msg in
     if omci_msg_type_ak_get msg \<noteq> 0 then Some (OMCI_ERROR_ACTION, omci_msg_type_ak_set 0 rsp, c)
     else if \<not> omci_is_msg_correct msg then Some (OMCI_ERROR_ACTION, omci_msg_type_ak_set 0 rsp, c)
     else case snd (mib_me_find c (m_class msg) (m_instance msg)) of
       Some a \<Rightarrow> msg_dispatch E n cids (cls (me_at c a)) (Some a) msg rsp c
     | None \<Rightarrow>
       if omci_msg_type_mt_get msg \<noteq> OMCI_MT_CREATE then
         Some (OMCI_ERROR_ACTION, rsp_result (if fst (mib_me_class_resolve c (m_class msg)) = OMCI_ERROR_ME_NOT_SUPPORTED
                 then OMCI_MR_UNKNOWN_ME else OMCI_MR_UNKNOWN_ME_INST) rsp, c)
       else case snd (mib_me_class_resolve c (m_class msg)) of
         None \<Rightarrow> Some (OMCI_ERROR_ACTION, rsp_result OMCI_MR_UNKNOWN_ME rsp, c)
       | Some k \<Rightarrow> msg_dispatch E n cids k None msg rsp c)"

subsection \<open>Retransmission\<close>

text \<open>Two responses are remembered, one for each priority.\<close>

definition rsp_slot :: "u16 \<Rightarrow> omci_context \<Rightarrow> retransmit" where
  "rsp_slot t c = (if t AND 0x8000 \<noteq> 0 then retransmit_hi c else retransmit_lo c)"

definition rsp_remember :: "u16 \<Rightarrow> omci_msg \<Rightarrow> omci_context \<Rightarrow> omci_context" where
  "rsp_remember t rsp c =
    (let r = \<lparr> r_valid = True, r_tci = t, r_rsp = rsp \<rparr> in
     if t AND 0x8000 \<noteq> 0 then c\<lparr> retransmit_hi := r \<rparr> else c\<lparr> retransmit_lo := r \<rparr>)"

definition rsp_retransmit :: "u16 \<Rightarrow> omci_context \<Rightarrow> omci_msg option" where
  "rsp_retransmit t c = (let r = rsp_slot t c in if r_valid r \<and> t = r_tci r then Some (r_rsp r) else None)"

subsection \<open>The action thread\<close>

text \<open>One round for the message in \<^verbatim>\<open>context->action\<close>.\<close>

definition action_finish :: "omci_msg \<Rightarrow> omci_error \<times> omci_msg \<times> omci_context \<Rightarrow> omci_context" where
  "action_finish msg = (\<lambda>(err, rsp, c).
    let (err, rsp) = (if failsafe c \<and> err \<noteq> OMCI_SUCCESS then (OMCI_SUCCESS, rsp_create msg) else (err, rsp));
        mt = omci_msg_type_mt_get msg;
        c = (if (mt = OMCI_MT_CREATE \<or> mt = OMCI_MT_DELETE \<or> mt = OMCI_MT_SET) \<and> err = OMCI_SUCCESS then snd (mib_seq_num_inc c) else c);
        c = (if omci_msg_type_ak_get rsp = 1 then rsp_remember (tci msg) rsp c else c)
    in c\<lparr> action := (action c)\<lparr> a_rsp := rsp, a_run := False, a_ready := True \<rparr> \<rparr>)"

definition action_round :: "omci_env \<Rightarrow> nat \<Rightarrow> u16 list \<Rightarrow> omci_context \<Rightarrow> omci_context option" where
  "action_round E n cids c =
    (let msg = a_msg (action c) in
     map_option (action_finish msg) (msg_handle E n cids msg (c\<lparr> action := (action c)\<lparr> a_ready := False \<rparr> \<rparr>)))"

subsection \<open>The message thread\<close>

text \<open>
  The thread: its context, the FIFO of received messages, the response that \<^verbatim>\<open>service_busy_device\<close>
  keeps in a static variable, and the message it waits for while the action thread works.
\<close>

record omci_core =
  ctx :: omci_context
  msg_fifo :: "omci_msg list"
  busy_rsp :: omci_msg
  waiting :: "omci_msg option"

definition service_busy_device :: "omci_env \<Rightarrow> omci_msg option \<Rightarrow> omci_core \<Rightarrow> omci_core" where
  "service_busy_device E m s =
    (let r = (case m of None \<Rightarrow> busy_rsp s | Some msg \<Rightarrow> rsp_create msg)
     in s\<lparr> busy_rsp := r, ctx := snd (omci_msg_send E r (ctx s)) \<rparr>)"

definition service_delayed_action :: "omci_env \<Rightarrow> omci_context \<Rightarrow> bool \<times> omci_context" where
  "service_delayed_action E c =
    (if \<not> a_ready (action c) then (False, c)
     else let c = c\<lparr> action := (action c)\<lparr> a_ready := False \<rparr> \<rparr>; rsp = a_rsp (action c) in
       if omci_msg_type_ak_get rsp = 0 then (False, c) else (True, snd (omci_msg_send E rsp c)))"

definition service_retransmission :: "omci_env \<Rightarrow> omci_msg \<Rightarrow> omci_context \<Rightarrow> bool \<times> omci_context" where
  "service_retransmission E msg c = (case rsp_retransmit (tci msg) c of None \<Rightarrow> (False, c)
     | Some rsp \<Rightarrow> if omci_msg_type_ak_get rsp = 0 then (False, c) else (True, snd (omci_msg_send E rsp c)))"

text \<open>\<^verbatim>\<open>service_action\<close> hands the message over and waits; the second half follows when the action is done.\<close>

definition service_action_start :: "omci_msg \<Rightarrow> omci_context \<Rightarrow> omci_context" where
  "service_action_start msg c = c\<lparr> action := (action c)\<lparr> a_rsp := rsp_create msg, a_msg := msg, a_run := True \<rparr> \<rparr>"

definition service_action_done :: "omci_env \<Rightarrow> omci_context \<Rightarrow> omci_context" where
  "service_action_done E c =
    (let c = c\<lparr> action := (action c)\<lparr> a_ready := False \<rparr> \<rparr>; rsp = a_rsp (action c) in
     if omci_msg_type_ak_get rsp = 0 then c else snd (omci_msg_send E rsp c))"

definition core_take :: "omci_env \<Rightarrow> omci_msg \<Rightarrow> omci_core \<Rightarrow> omci_core" where
  "core_take E msg s =
    (if a_run (action (ctx s)) then service_busy_device E None s
     else case service_delayed_action E (ctx s) of (handled, c) \<Rightarrow>
       if handled then s\<lparr> ctx := c \<rparr>
       else case service_retransmission E msg c of (handled, c) \<Rightarrow>
         if handled then s\<lparr> ctx := c \<rparr> else s\<lparr> ctx := service_action_start msg c, waiting := Some msg \<rparr>)"

text \<open>
  The steps of the two threads and of the driver that delivers messages. A message may find the FIFO
  full; the wait for the action thread may end early even though the action is done.
\<close>

datatype omci_event = Recv omci_msg | Flush | Core | Act

inductive omci_step :: "omci_env \<Rightarrow> nat \<Rightarrow> u16 list \<Rightarrow> omci_core \<Rightarrow> omci_event \<Rightarrow> omci_core \<Rightarrow> bool" for E n cids where
  recv: "omci_step E n cids s (Recv m) (s\<lparr> msg_fifo := msg_fifo s @ [m] \<rparr>)"
| recv_full: "msg_fifo s \<noteq> [] \<Longrightarrow> omci_step E n cids s (Recv m) s"
| flush: "omci_step E n cids s Flush (s\<lparr> msg_fifo := [] \<rparr>)"
| take: "waiting s = None \<Longrightarrow> omci_enabled (ctx s) \<Longrightarrow> msg_fifo s = m # ms \<Longrightarrow> omci_step E n cids s Core (core_take E m (s\<lparr> msg_fifo := ms \<rparr>))"
| act: "a_run (action (ctx s)) \<Longrightarrow> action_round E n cids (ctx s) = Some c \<Longrightarrow> omci_step E n cids s Act (s\<lparr> ctx := c \<rparr>)"
| handled: "waiting s = Some m \<Longrightarrow> \<not> a_run (action (ctx s)) \<Longrightarrow>
    omci_step E n cids s Core (s\<lparr> ctx := service_action_done E (ctx s), waiting := None \<rparr>)"
| busy: "waiting s = Some m \<Longrightarrow> omci_step E n cids s Core ((service_busy_device E (Some m) s)\<lparr> waiting := None \<rparr>)"

inductive omci_run :: "omci_env \<Rightarrow> nat \<Rightarrow> u16 list \<Rightarrow> omci_core \<Rightarrow> omci_event list \<Rightarrow> omci_core \<Rightarrow> bool" for E n cids where
  run_nil: "omci_run E n cids s [] s"
| run_cons: "omci_step E n cids s e s' \<Longrightarrow> omci_run E n cids s' es s'' \<Longrightarrow> omci_run E n cids s (e # es) s''"

text \<open>The threads start with nothing to do.\<close>

definition core_init :: "omci_core \<Rightarrow> bool" where
  "core_init s \<longleftrightarrow> waiting s = None \<and> \<not> a_run (action (ctx s)) \<and> \<not> a_ready (action (ctx s)) \<and> msg_fifo s = []"

subsection \<open>Timeouts\<close>

definition avc_send_delayed_expired :: "omci_env \<Rightarrow> timeout \<Rightarrow> omci_context \<Rightarrow> omci_error \<times> omci_context" where
  "avc_send_delayed_expired E t c = (case mib_me_find c (ucast (arg1 t)) (ucast (arg2 t)) of
     (err, None) \<Rightarrow> (err, c) | (_, Some a) \<Rightarrow> avc_send E a (unat (arg3 t)) c)"

text \<open>The delay that is asked for is not used.\<close>

definition avc_send_delayed :: "omci_env \<Rightarrow> addr \<Rightarrow> nat \<Rightarrow> u32 \<Rightarrow> omci_context \<Rightarrow> omci_error \<times> omci_context" where
  "avc_send_delayed E a attr timeout c =
    (case timeout_event_add E 3000 avc_send_delayed_timeout_handler (class_id (cls (me_at c a))) (iid_of c a)
       (ucast (class_id (cls (me_at c a)))) (ucast (iid_of c a)) (of_nat attr) c of (err, _, c) \<Rightarrow> (err, c))"

text \<open>The handlers of the timeout list; \<^verbatim>\<open>other\<close> are those of the entities.\<close>

definition run_timeout :: "(string \<Rightarrow> timeout \<Rightarrow> omci_context \<Rightarrow> omci_context) \<Rightarrow> omci_env \<Rightarrow> timeout \<Rightarrow> omci_context \<Rightarrow> omci_context" where
  "run_timeout other E t c = (case handler t of
     get_next_tbl_copy_clean_timeout_handler \<Rightarrow> get_next_tbl_copy_clean t c
   | alarm_copy_clean_timeout_handle \<Rightarrow> alarm_copy_clean c
   | mib_copy_clean_timeout_handle \<Rightarrow> mib_copy_clean c
   | avc_send_delayed_timeout_handler \<Rightarrow> snd (avc_send_delayed_expired E t c)
   | arc_interval_exp_timeout_handler \<Rightarrow> snd (arc_interval_exp E t c)
   | other_timeout_handler h \<Rightarrow> other h t c)"

definition timeout_round :: "(string \<Rightarrow> timeout \<Rightarrow> omci_context \<Rightarrow> omci_context) \<Rightarrow> omci_env \<Rightarrow> u32 \<Rightarrow> omci_context \<Rightarrow> omci_context" where
  "timeout_round other E now c = (case next_active_event_get now (timeouts c) of None \<Rightarrow> c
     | Some (i, t) \<Rightarrow> timeout_event_remove i (run_timeout other E t c))"

subsection \<open>Invariant\<close>

text \<open>An action that is still running is that of the message waited for; else the stale response is for it.\<close>

definition core_inv :: "omci_core \<Rightarrow> bool" where
  "core_inv s \<longleftrightarrow> (a_run (action (ctx s)) \<longrightarrow>
     (case waiting s of Some m \<Rightarrow> a_msg (action (ctx s)) = m | None \<Rightarrow> busy_rsp s = rsp_create (a_msg (action (ctx s)))))"

text \<open>Examples: a Get of a class the daemon does not know, and the daemon before and while it runs.\<close>

definition example_get_msg :: omci_msg where
  "example_get_msg = msg_zero\<lparr> tci := 17, mtype := 0x49, dev_id := 0x0A, m_class := 999 \<rparr>"

definition example_core :: omci_core where
  "example_core = \<lparr> ctx = example_upload_ctx\<lparr> omci_enabled := True, failsafe := False,
      retransmit_lo := \<lparr> r_valid = False, r_tci = 0, r_rsp = msg_zero \<rparr>, retransmit_hi := \<lparr> r_valid = False, r_tci = 0, r_rsp = msg_zero \<rparr>,
      action := \<lparr> a_run = False, a_ready = False, a_msg = msg_zero, a_rsp = msg_zero \<rparr> \<rparr>,
    msg_fifo = [], busy_rsp = msg_zero, waiting = None \<rparr>"

section \<open>Message types\<close>

lemma mt_zero: "mtype msg_zero = 0" by (simp add: msg_zero_def)

lemma rsp_create_fields [simp]:
  "tci (rsp_create m) = tci m" "m_class (rsp_create m) = m_class m" "m_instance (rsp_create m) = m_instance m"
  "dev_id (rsp_create m) = OMCI_FORMAT_BASELINE" "contents (rsp_create m) = replicate 32 0"
  by (simp_all add: rsp_create_def omci_msg_type_mt_set_def omci_msg_type_ak_set_def omci_msg_type_ar_set_def msg_zero_def)

lemma ak_get_bit: "omci_msg_type_ak_get m = (if bit (mtype m) 5 then 1 else 0)"
  by (rule bit_word_eqI) (auto simp: omci_msg_type_ak_get_def bit_drop_bit_eq bit_and_iff bit_simps numeral_eq_Suc less_Suc_eq)

lemma ar_get_bit: "omci_msg_type_ar_get m = (if bit (mtype m) 6 then 1 else 0)"
  by (rule bit_word_eqI) (auto simp: omci_msg_type_ar_get_def bit_drop_bit_eq bit_and_iff bit_simps numeral_eq_Suc less_Suc_eq)

lemma rsp_create_mtype: "mtype (rsp_create m) = push_bit 5 (omci_msg_type_ar_get m) OR (mtype m AND 0x1F)"
proof -
  have "mtype (rsp_create m) = (push_bit 5 (omci_msg_type_ar_get m) AND 0xE0) OR (mtype m AND 0x1F)"
    by (simp add: rsp_create_def omci_msg_type_mt_set_def omci_msg_type_ak_set_def omci_msg_type_ar_set_def mt_zero omci_msg_type_mt_get_def)
  moreover have "push_bit 5 (omci_msg_type_ar_get m) AND 0xE0 = push_bit 5 (omci_msg_type_ar_get m)" by (simp add: ar_get_bit)
  ultimately show ?thesis by simp
qed

lemma rsp_create_ak [simp]: "omci_msg_type_ak_get (rsp_create m) = omci_msg_type_ar_get m"
proof -
  have "bit (mtype (rsp_create m)) 5 \<longleftrightarrow> bit (mtype m) 6"
    by (simp add: rsp_create_mtype bit_or_iff bit_and_iff ar_get_bit bit_push_bit_iff bit_numeral_rec)
  then show ?thesis by (simp add: ak_get_bit ar_get_bit)
qed

lemma ak_set_0 [simp]: "omci_msg_type_ak_get (omci_msg_type_ak_set 0 m) = 0"
  by (simp add: ak_get_bit omci_msg_type_ak_set_def bit_and_iff bit_not_iff bit_numeral_rec)

lemma rsp_result_fields [simp]:
  "mtype (rsp_result r m) = mtype m" "tci (rsp_result r m) = tci m" "m_class (rsp_result r m) = m_class m" "m_instance (rsp_result r m) = m_instance m"
  by (simp_all add: rsp_result_def msg_put_def)

lemma rsp_result_ak [simp]: "omci_msg_type_ak_get (rsp_result r m) = omci_msg_type_ak_get m"
  by (simp add: omci_msg_type_ak_get_def)

section \<open>Dispatch\<close>

lemma mib_me_class_resolve_cases:
  "mib_me_class_resolve c cid = (OMCI_ERROR_ME_NOT_SUPPORTED, None) \<and> class_entry_find c cid = None
   \<or> (\<exists>i. mib_me_class_resolve c cid = (OMCI_SUCCESS, Some (entry_class c i)) \<and> class_entry_find c cid = Some i)"
  by (cases "class_entry_find c cid") (simp_all add: mib_me_class_resolve_def)

text \<open>
  C21: What is refused before any handler runs, and how: a response of the OLT's side (AK set) or a malformed
  message gets no answer; a class the daemon does not know gives \<^verbatim>\<open>OMCI_MR_UNKNOWN_ME\<close>, an instance
  that does not exist \<^verbatim>\<open>OMCI_MR_UNKNOWN_ME_INST\<close>, an action whose slot is empty
  \<^verbatim>\<open>OMCI_MR_CMD_NOT_SUPPORTED\<close>, each in a response to this very command. The context is as it was.
\<close>

theorem msg_handle_refuses:
  "let found = snd (mib_me_find c (m_class msg) (m_instance msg)) in
     if omci_msg_type_ak_get msg = 0 \<and> omci_is_msg_correct msg then
       if class_entry_find c (m_class msg) = None
       then msg_handle E n cids msg c = Some (OMCI_ERROR_ACTION, rsp_result OMCI_MR_UNKNOWN_ME (rsp_create msg), c)
       else if found = None \<and> omci_msg_type_mt_get msg \<noteq> OMCI_MT_CREATE
       then msg_handle E n cids msg c = Some (OMCI_ERROR_ACTION, rsp_result OMCI_MR_UNKNOWN_ME_INST (rsp_create msg), c)
       else let k = (case found of Some a \<Rightarrow> cls (me_at c a) | None \<Rightarrow> entry_class c (the (class_entry_find c (m_class msg)))) in
         msg_handle E n cids msg c = (case actions k ! omci_msg_type_mt_get msg of
             None \<Rightarrow> Some (OMCI_ERROR_ACTION, rsp_result OMCI_MR_CMD_NOT_SUPPORTED (rsp_create msg), c)
           | Some h \<Rightarrow> run_action E n cids h found msg (rsp_create msg) c)
     else \<exists>rsp. msg_handle E n cids msg c = Some (OMCI_ERROR_ACTION, rsp, c) \<and> omci_msg_type_ak_get rsp = 0"
proof -
  define found where "found = snd (mib_me_find c (m_class msg) (m_instance msg))"
  have nf: "class_entry_find c (m_class msg) = None \<Longrightarrow> found = None" by (simp add: found_def mib_me_find_def)
  show ?thesis
  proof (cases "omci_msg_type_ak_get msg = 0 \<and> omci_is_msg_correct msg")
    case False
    then show ?thesis by (auto simp: msg_handle_def Let_def)
  next
    case True
    then have mt: "\<not> omci_msg_type_mt_get msg < 1" "\<not> 28 < omci_msg_type_mt_get msg" by (auto simp: omci_is_msg_correct_def)
    have d: "msg_dispatch E n cids k me msg rsp c = (case actions k ! omci_msg_type_mt_get msg of
            None \<Rightarrow> Some (OMCI_ERROR_ACTION, rsp_result OMCI_MR_CMD_NOT_SUPPORTED rsp, c)
          | Some h \<Rightarrow> run_action E n cids h me msg rsp c)" for k me rsp
      using mt by (auto simp: msg_dispatch_def me_action_handler_get_def split: option.splits)
    show ?thesis using True nf mib_me_class_resolve_cases[of c "m_class msg"]
      by (auto simp: msg_handle_def Let_def d found_def[symmetric] split: option.splits)
  qed
qed

section \<open>The message service\<close>

lemma rsp_slot_remember [simp]: "rsp_slot t (rsp_remember t rsp c) = \<lparr> r_valid = True, r_tci = t, r_rsp = rsp \<rparr>"
  by (simp add: rsp_slot_def rsp_remember_def Let_def)

lemma rsp_retransmit_remember [simp]: "rsp_retransmit t (rsp_remember t rsp c) = Some rsp"
  by (simp add: rsp_retransmit_def Let_def)

lemma rsp_retransmit_cong:
  "retransmit_hi c' = retransmit_hi c \<Longrightarrow> retransmit_lo c' = retransmit_lo c \<Longrightarrow> rsp_retransmit t c' = rsp_retransmit t c"
  by (simp add: rsp_retransmit_def rsp_slot_def)

lemma seq_num_inc_sent [simp]: "sent (snd (mib_seq_num_inc c)) = sent c"
  by (auto simp: mib_seq_num_inc_def mib_data_sync_put_def me_update_def split: prod.splits option.splits)

lemma rsp_remember_sent [simp]: "sent (rsp_remember t rsp c) = sent c" "action (rsp_remember t rsp c) = action c"
  by (simp_all add: rsp_remember_def Let_def)

text \<open>The end of an action: the response is stored, remembered if it is to be sent, and the thread is free.\<close>

lemma action_finish_ok:
  assumes "\<not> failsafe c"
  shows "a_rsp (action (action_finish msg (err, rsp, c))) = rsp" "\<not> a_run (action (action_finish msg (err, rsp, c)))"
    "sent (action_finish msg (err, rsp, c)) = sent c"
    "omci_msg_type_ak_get rsp = 1 \<Longrightarrow> rsp_retransmit (tci msg) (action_finish msg (err, rsp, c)) = Some rsp"
  using assms by (auto simp: action_finish_def Let_def rsp_retransmit_def rsp_slot_def rsp_remember_def)

lemma service_action_done_ok:
  "sent (service_action_done E c) = sent c @ (if omci_msg_type_ak_get (a_rsp (action c)) = 0 then [] else [a_rsp (action c)])"
  "rsp_retransmit t (service_action_done E c) = rsp_retransmit t c"
  "\<not> a_ready (action (service_action_done E c))" "a_run (action (service_action_done E c)) = a_run (action c)"
  by (auto simp: service_action_done_def omci_msg_send_def Let_def rsp_retransmit_def rsp_slot_def)


inductive_cases omci_stepE: "omci_step E n cids s Core s'"

lemma omci_step_idle:
  assumes "waiting s = None" "omci_enabled (ctx s)" "msg_fifo s = m # ms"
  shows "omci_step E n cids s Core s' \<longleftrightarrow> s' = core_take E m (s\<lparr> msg_fifo := ms \<rparr>)"
  using assms by (auto elim: omci_stepE intro: omci_step.take)


lemma action_finish_run: "\<not> a_run (action (action_finish msg r))"
  by (simp add: action_finish_def Let_def split_beta)

lemma action_round_run: "action_round E n cids c = Some c' \<Longrightarrow> \<not> a_run (action c')"
  by (auto simp: action_round_def Let_def action_finish_run)

lemma core_take_inv: "core_inv s \<Longrightarrow> waiting s = None \<Longrightarrow> core_inv (core_take E m (s\<lparr> msg_fifo := ms \<rparr>))"
  by (auto simp: core_inv_def core_take_def service_busy_device_def service_delayed_action_def service_retransmission_def service_action_start_def
      omci_msg_send_def Let_def split: option.splits prod.splits if_splits)

lemma core_step_inv: "omci_step E n cids s e s' \<Longrightarrow> core_inv s \<Longrightarrow> core_inv s'"
proof (induction rule: omci_step.induct)
  case (take s m ms)
  then show ?case by (simp add: core_take_inv)
next
  case (act s c)
  then show ?case using action_round_run by (simp add: core_inv_def)
next
  case (handled s m)
  then show ?case by (simp add: core_inv_def service_action_done_ok)
qed (auto simp: core_inv_def service_busy_device_def omci_msg_send_def Let_def split: option.splits)

lemma core_run_inv: "omci_run E n cids s es s' \<Longrightarrow> core_inv s \<Longrightarrow> core_inv s'"
  by (induction rule: omci_run.induct) (auto intro: core_step_inv)

text \<open>
  C22: While an action takes longer than the message thread waits, commands are lost: in every state the
  daemon reaches from its start, when the message thread no longer waits and the action still runs, the
  next message is dropped and the response goes out for the running command; once the action is done, its
  response answers the next message, which is dropped as well.
\<close>

theorem slow_action_loses_messages:
  assumes init: "core_init s0" "omci_run E n cids s0 es s" and idle: "waiting s = None" "omci_enabled (ctx s)" and m: "msg_fifo s = m # ms"
  shows "(if a_run (action (ctx s)) then
       omci_step E n cids s Core s' \<longleftrightarrow> s' = s\<lparr> msg_fifo := ms, ctx := (ctx s)\<lparr> sent := sent (ctx s) @ [rsp_create (a_msg (action (ctx s)))] \<rparr> \<rparr>
     else if a_ready (action (ctx s)) \<and> omci_msg_type_ak_get (a_rsp (action (ctx s))) = 1 then
       omci_step E n cids s Core s' \<longleftrightarrow> s' = s\<lparr> msg_fifo := ms,
         ctx := (ctx s)\<lparr> action := (action (ctx s))\<lparr> a_ready := False \<rparr>, sent := sent (ctx s) @ [a_rsp (action (ctx s))] \<rparr> \<rparr>
     else True)"
proof -
  have "core_inv s0" using init(1) by (simp add: core_init_def core_inv_def)
  then have inv: "core_inv s" using core_run_inv init(2) by blast
  have b: "s\<lparr> busy_rsp := busy_rsp s \<rparr> = s" by simp
  show ?thesis using inv idle
    by (auto simp: omci_step_idle[OF idle m] core_take_def service_busy_device_def service_delayed_action_def core_inv_def omci_msg_send_def Let_def)
qed

lemma example_get_bits: "omci_msg_type_ak_get example_get_msg = 0" "omci_msg_type_ar_get example_get_msg = 1" "omci_msg_type_mt_get example_get_msg = 9"
  "omci_is_msg_correct example_get_msg"
  by (simp_all add: example_get_msg_def omci_msg_type_ak_get_def omci_msg_type_ar_get_def omci_msg_type_mt_get_def omci_is_msg_correct_def omci_msg_type_db_get_def)

lemma example_class_unknown: "class_entry_find (service_action_start m (ctx example_core)) 999 = None"
  by (simp add: class_entry_find_def service_action_start_def example_core_def example_upload_ctx_def example_onu_class_def example_tcp_class_def
      me_onu_data_class_def me_tcp_udp_config_data_class_def mk_class_def)

lemma example_get_refused:
  "msg_handle E n cids example_get_msg (service_action_start m (ctx example_core))
   = Some (OMCI_ERROR_ACTION, rsp_result OMCI_MR_UNKNOWN_ME (rsp_create example_get_msg), service_action_start m (ctx example_core))"
proof -
  have "m_class example_get_msg = 999" by (simp add: example_get_msg_def)
  then show ?thesis using example_class_unknown[of m]
    by (simp add: msg_handle_def Let_def example_get_bits mib_me_find_def mib_me_class_resolve_def)
qed



theorem slow_action_loses_messages_witness:
  "\<exists>s s'. omci_run example_env 3 [] example_core [Recv example_get_msg, Core, Core, Recv msg_zero] s \<and> omci_step example_env 3 [] s Core s'
    \<and> msg_fifo s = [msg_zero] \<and> msg_fifo s' = [] \<and> sent (ctx s') = sent (ctx s) @ [rsp_create example_get_msg]"
proof -
  let ?s1 = "example_core\<lparr> msg_fifo := [example_get_msg] \<rparr>"
  let ?s2 = "example_core\<lparr> ctx := service_action_start example_get_msg (ctx example_core), waiting := Some example_get_msg \<rparr>"
  let ?s3 = "(service_busy_device example_env (Some example_get_msg) ?s2)\<lparr> waiting := None \<rparr>"
  let ?s4 = "?s3\<lparr> msg_fifo := [msg_zero] \<rparr>"
  have init: "core_init example_core" by (simp add: core_init_def example_core_def)
  have fe: "msg_fifo example_core = []" "waiting example_core = None" "omci_enabled (ctx example_core)" by (simp_all add: example_core_def)
  have 1: "omci_step example_env 3 [] example_core (Recv example_get_msg) ?s1"
    using omci_step.recv[where s = example_core and m = example_get_msg and E = example_env and n = 3 and cids = "[]"] by (simp add: fe)
  have "core_take example_env example_get_msg (?s1\<lparr> msg_fifo := [] \<rparr>) = ?s2"
    by (simp add: core_take_def service_delayed_action_def service_retransmission_def rsp_retransmit_def rsp_slot_def example_core_def Let_def)
  then have 2: "omci_step example_env 3 [] ?s1 Core ?s2"
    using omci_step.take[where s = ?s1 and m = example_get_msg and ms = "[]" and E = example_env and n = 3 and cids = "[]"] fe by simp
  have 3: "omci_step example_env 3 [] ?s2 Core ?s3"
    using omci_step.busy[where s = ?s2 and m = example_get_msg and E = example_env and n = 3 and cids = "[]"] by simp
  have "msg_fifo ?s3 = []" by (simp add: service_busy_device_def Let_def fe)
  then have 4: "omci_step example_env 3 [] ?s3 (Recv msg_zero) ?s4"
    using omci_step.recv[where s = ?s3 and m = msg_zero and E = example_env and n = 3 and cids = "[]"] by simp
  have run: "omci_run example_env 3 [] example_core [Recv example_get_msg, Core, Core, Recv msg_zero] ?s4"
    using 1 2 3 4 by (meson run_cons run_nil)
  have e: "waiting ?s4 = None" "omci_enabled (ctx ?s4)" "msg_fifo ?s4 = [msg_zero]" "a_run (action (ctx ?s4))" "a_msg (action (ctx ?s4)) = example_get_msg"
    using fe by (simp_all add: service_busy_device_def omci_msg_send_def service_action_start_def Let_def)
  let ?s5 = "?s4\<lparr> msg_fifo := [], ctx := (ctx ?s4)\<lparr> sent := sent (ctx ?s4) @ [rsp_create (a_msg (action (ctx ?s4)))] \<rparr> \<rparr>"
  have "omci_step example_env 3 [] ?s4 Core ?s5"
    using slow_action_loses_messages[OF init run e(1-3), of ?s5] e(4) by (simp only: if_True)
  then show ?thesis using run e(3,5) by (intro exI[of _ ?s4] exI[of _ ?s5]) simp
qed

end
