(* ===== verification/Omci_Interface.thy ===== *)
theory Omci_Interface
  imports Omci_Core
begin

text \<open>
  The interface of the daemon (\<^verbatim>\<open>omci_interface.c\<close>): the start with its clean-up, the events of the
  driver, which connect the state machine of PLOAM with the base, and the functions for other parts.
\<close>

section \<open>Definitions\<close>

subsection \<open>Start\<close>

text \<open>
  \<^verbatim>\<open>omci_init\<close> acquires one resource after another; \<^verbatim>\<open>res r\<close> is the error of the function that acquires
  \<^verbatim>\<open>r\<close>. The labels of the clean-up follow each other, so a label is what is released from there on.
  The events are deleted with the lock. The result has whether \<^verbatim>\<open>*ref_context\<close> is set, and what is held.
\<close>

datatype omci_resource =
    R_CONTEXT | R_LOCK | R_ALARM_COPY | R_MIB_COPY | R_TBL_COPY | R_MSG_FIFO | R_TIMEOUT | R_ACTION_EVENT | R_HANDLED_EVENT
  | R_MSG_EVENT | R_API | R_MIB | R_API_START | R_CORE_THREAD | R_ACTION_THREAD | R_PM

definition free_context :: "omci_resource list" where "free_context = [R_CONTEXT]"
definition delete_context_lock :: "omci_resource list" where
  "delete_context_lock = R_LOCK # R_MSG_EVENT # R_ACTION_EVENT # R_HANDLED_EVENT # free_context"
definition do_alarm_copy_shutdown :: "omci_resource list" where "do_alarm_copy_shutdown = R_ALARM_COPY # delete_context_lock"
definition do_mib_copy_shutdown :: "omci_resource list" where "do_mib_copy_shutdown = R_MIB_COPY # do_alarm_copy_shutdown"
definition do_tbl_copy_shutdown :: "omci_resource list" where "do_tbl_copy_shutdown = R_TBL_COPY # do_mib_copy_shutdown"
definition do_msg_fifo_shutdown :: "omci_resource list" where "do_msg_fifo_shutdown = R_MSG_FIFO # do_tbl_copy_shutdown"
definition do_timeout_shutdown :: "omci_resource list" where "do_timeout_shutdown = R_TIMEOUT # do_msg_fifo_shutdown"
definition do_omci_api_shutdown :: "omci_resource list" where "do_omci_api_shutdown = R_API # R_API_START # do_timeout_shutdown"
definition do_mib_destroy :: "omci_resource list" where "do_mib_destroy = R_MIB # do_omci_api_shutdown"
definition do_core_thread_stop :: "omci_resource list" where "do_core_thread_stop = R_CORE_THREAD # do_mib_destroy"
definition do_pm_shutdown :: "omci_resource list" where "do_pm_shutdown = R_PM # R_ACTION_THREAD # do_core_thread_stop"

text \<open>The steps in their order, with the label that a failure goes to. The events report no error.\<close>

definition omci_init_steps :: "(omci_resource \<times> omci_resource list \<times> bool) list" where
  "omci_init_steps =
    [(R_LOCK, free_context, True), (R_ALARM_COPY, delete_context_lock, True), (R_MIB_COPY, do_alarm_copy_shutdown, True),
     (R_TBL_COPY, do_mib_copy_shutdown, True), (R_MSG_FIFO, do_tbl_copy_shutdown, True), (R_TIMEOUT, do_msg_fifo_shutdown, True),
     (R_ACTION_EVENT, do_msg_fifo_shutdown, False), (R_HANDLED_EVENT, do_msg_fifo_shutdown, False), (R_MSG_EVENT, do_msg_fifo_shutdown, False),
     (R_API, do_timeout_shutdown, True), (R_MIB, do_omci_api_shutdown, True), (R_API_START, do_mib_destroy, True),
     (R_CORE_THREAD, do_mib_destroy, True), (R_ACTION_THREAD, do_core_thread_stop, True), (R_PM, do_pm_shutdown, True)]"

fun omci_init_loop ::
    "(omci_resource \<Rightarrow> omci_error) \<Rightarrow> (omci_resource \<times> omci_resource list \<times> bool) list \<Rightarrow> omci_resource list \<Rightarrow> omci_error \<times> bool \<times> omci_resource list" where
  "omci_init_loop res [] held = (OMCI_SUCCESS, True, held)"
| "omci_init_loop res ((r, label, reports) # steps) held =
    (if res r \<noteq> OMCI_SUCCESS
     then (if reports then res r else OMCI_SUCCESS, False, filter (\<lambda>x. x \<notin> set label) held)
     else omci_init_loop res steps (held @ [r]))"

definition omci_init :: "(omci_resource \<Rightarrow> omci_error) \<Rightarrow> omci_error \<times> bool \<times> omci_resource list" where
  "omci_init res =
    (if res R_CONTEXT \<noteq> OMCI_SUCCESS then (OMCI_ERROR_MEMORY, False, []) else omci_init_loop res omci_init_steps [R_CONTEXT])"

subsection \<open>Events of the driver\<close>

definition omci_msg_recv :: "bool \<Rightarrow> omci_msg \<Rightarrow> omci_core \<Rightarrow> omci_error \<times> omci_core" where
  "omci_msg_recv full msg s =
    (if full then (OMCI_ERROR_MSG_FIFO_FULL, s) else (OMCI_SUCCESS, s\<lparr> msg_fifo := msg_fifo s @ [msg] \<rparr>))"

definition ploam_state_change_cb :: "omci_env \<Rightarrow> nat \<Rightarrow> u16 list \<Rightarrow> int \<Rightarrow> omci_core \<Rightarrow> omci_core option" where
  "ploam_state_change_cb E n cids st s =
    (if st = 0 \<or> st = 1 \<or> st = 2 \<or> st = 7 then
       let s = s\<lparr> msg_fifo := [] \<rparr> in
       if st = 2 then map_option (\<lambda>(err, c). s\<lparr> ctx := c \<rparr>) (mib_reset E n cids False (ctx s)) else Some s
     else Some s)"

definition omci_me_alarm_set :: "omci_env \<Rightarrow> u16 \<Rightarrow> u16 \<Rightarrow> u32 \<Rightarrow> bool \<Rightarrow> omci_context \<Rightarrow> omci_error \<times> omci_context" where
  "omci_me_alarm_set E cid iid alarm act c = (case mib_me_find c cid iid of
     (err, None) \<Rightarrow> (err, c) | (_, Some a) \<Rightarrow> me_alarm_set E a (ucast alarm) act c)"

text \<open>
  \<^verbatim>\<open>link_state_cb\<close>: the attributes of the PPTP Ethernet UNI by their numbers (1 expected type, 2 sensed
  type, 5 administrative state, 6 operational state, 7 configuration indication). The error of the first
  read is not looked at; the variable is then what the stack holds.
\<close>

fun write_attrs :: "omci_env \<Rightarrow> addr \<Rightarrow> (nat \<times> u8) list \<Rightarrow> omci_context \<Rightarrow> omci_error \<times> omci_context" where
  "write_attrs E a [] c = (OMCI_SUCCESS, c)"
| "write_attrs E a ((i, v) # ws) c = (case me_attr_write E a i [v] False c of (err, c) \<Rightarrow>
     if err \<noteq> OMCI_SUCCESS then (err, c) else write_attrs E a ws c)"

definition link_state_cb :: "omci_env \<Rightarrow> u16 \<Rightarrow> bool \<Rightarrow> u8 \<Rightarrow> omci_context \<Rightarrow> omci_context" where
  "link_state_cb E iid state config_ind c = (case snd (mib_me_find c OMCI_ME_PPTP_ETHERNET_UNI iid) of None \<Rightarrow> c
     | Some a \<Rightarrow>
       (let oper = (if state then 0 else 1 :: u8) in
        case me_attr_read E a 5 c of (_, adm, c) \<Rightarrow>
        if (case adm of [] \<Rightarrow> ucast (hd (env_stack E)) | v # _ \<Rightarrow> v) = (1 :: u8) \<and> oper = 0 then c
        else case me_attr_read E a 1 c of (err, ty, c) \<Rightarrow>
        if err \<noteq> OMCI_SUCCESS then c
        else let sensed = (if state then (if hd ty \<noteq> 0 then hd ty else 47) else 0) in
        case write_attrs E a [(7, config_ind), (2, sensed), (6, oper)] c of (err, c) \<Rightarrow>
        if err \<noteq> OMCI_SUCCESS then c else snd (me_alarm_set E a 0 (\<not> state) c)))"

text \<open>The errors of entities are only logged; power shedding belongs to the surroundings.\<close>

datatype omci_api_event =
    OMCI_API_EVENT_ALARM u16 u16 u8 bool
  | OMCI_API_EVENT_OMCI omci_msg
  | OMCI_API_EVENT_PLOAM_STATE int int
  | OMCI_API_EVENT_INTERVAL_END u8
  | OMCI_API_EVENT_ERROR u16 u16
  | OMCI_API_EVENT_LINK_STATE u16 bool u8
  | OMCI_API_EVENT_AC_POWER_ON
  | OMCI_API_EVENT_AC_POWER_OFF

definition event_cb ::
    "omci_env \<Rightarrow> (bool \<Rightarrow> omci_context \<Rightarrow> omci_context) \<Rightarrow> bool \<Rightarrow> nat \<Rightarrow> u16 list \<Rightarrow> omci_api_event \<Rightarrow> omci_core \<Rightarrow> omci_core option" where
  "event_cb E ac full n cids ev s = (case ev of
     OMCI_API_EVENT_ALARM cid iid alarm act \<Rightarrow> Some (s\<lparr> ctx := snd (omci_me_alarm_set E cid iid (ucast alarm) act (ctx s)) \<rparr>)
   | OMCI_API_EVENT_OMCI msg \<Rightarrow> Some (snd (omci_msg_recv full msg s))
   | OMCI_API_EVENT_PLOAM_STATE prev st \<Rightarrow> ploam_state_change_cb E n cids st s
   | OMCI_API_EVENT_INTERVAL_END t \<Rightarrow> Some (s\<lparr> ctx := pm_interval_end E t (ctx s) \<rparr>)
   | OMCI_API_EVENT_ERROR cid iid \<Rightarrow> Some s
   | OMCI_API_EVENT_LINK_STATE iid state config_ind \<Rightarrow> Some (s\<lparr> ctx := link_state_cb E iid state config_ind (ctx s) \<rparr>)
   | OMCI_API_EVENT_AC_POWER_ON \<Rightarrow> Some (s\<lparr> ctx := ac True (ctx s) \<rparr>)
   | OMCI_API_EVENT_AC_POWER_OFF \<Rightarrow> Some (s\<lparr> ctx := ac False (ctx s) \<rparr>))"

subsection \<open>Functions of the daemon\<close>

definition with_me :: "u16 \<Rightarrow> u16 \<Rightarrow> (addr \<Rightarrow> omci_context \<Rightarrow> omci_error \<times> 'r \<times> omci_context) \<Rightarrow> 'r \<Rightarrow> omci_context \<Rightarrow> omci_error \<times> 'r \<times> omci_context" where
  "with_me cid iid f none c = (case mib_me_find c cid iid of (err, None) \<Rightarrow> (err, none, c) | (_, Some a) \<Rightarrow> f a c)"

definition omci_me_alarm_get :: "u16 \<Rightarrow> u16 \<Rightarrow> u32 \<Rightarrow> omci_context \<Rightarrow> omci_error \<times> bool \<times> omci_context" where
  "omci_me_alarm_get cid iid alarm c =
    with_me cid iid (\<lambda>a c. case alarm_get (alarm_bitmap (me_at c a)) (ucast alarm) of (err, v) \<Rightarrow> (err, v, c)) False c"

definition omci_processing_enable :: "bool \<Rightarrow> omci_context \<Rightarrow> omci_context" where
  "omci_processing_enable en c = c\<lparr> omci_enabled := en \<rparr>"

definition omci_me_prop_get :: "u16 \<Rightarrow> omci_context \<Rightarrow> omci_error \<times> u32 option" where
  "omci_me_prop_get cid c = (case mib_me_class_resolve c cid of (err, k) \<Rightarrow> (err, map_option class_prop k))"

definition omci_me_create :: "omci_env \<Rightarrow> bool \<Rightarrow> u16 \<Rightarrow> u16 \<Rightarrow> octets option \<Rightarrow> u16 \<Rightarrow> omci_context \<Rightarrow> omci_error \<times> omci_context" where
  "omci_me_create E act cid iid d suppress c = (case mib_me_create E act cid iid d suppress c of (err, _, c) \<Rightarrow> (err, c))"

definition omci_me_delete :: "omci_env \<Rightarrow> u16 \<Rightarrow> u16 \<Rightarrow> omci_context \<Rightarrow> omci_error \<times> omci_context" where
  "omci_me_delete E cid iid c = (case mib_me_find c cid iid of (err, None) \<Rightarrow> (err, c) | (_, Some a) \<Rightarrow> mib_me_delete E a c)"

text \<open>What the class description says of an attribute.\<close>

definition attr_info :: "(me_class \<Rightarrow> nat \<Rightarrow> 'r) \<Rightarrow> u16 \<Rightarrow> nat \<Rightarrow> omci_context \<Rightarrow> omci_error \<times> 'r option" where
  "attr_info f cid attr c = (case mib_me_class_resolve c cid of (err, None) \<Rightarrow> (err, None)
     | (_, Some k) \<Rightarrow> if attr = 0 \<or> attr > OMCI_ATTRIBUTES_NUM then (OMCI_ERROR_INVALID_ME_ATTR, None)
         else if me_attr_prop_get k attr = OMCI_ATTR_PROP_NONE then (OMCI_ERROR_INVALID_ME_ATTR, None)
         else (OMCI_SUCCESS, Some (f k attr)))"

definition omci_me_attr_size_get :: "u16 \<Rightarrow> nat \<Rightarrow> omci_context \<Rightarrow> omci_error \<times> nat option" where
  "omci_me_attr_size_get = attr_info me_attr_size_get"

definition omci_me_attr_prop_get :: "u16 \<Rightarrow> nat \<Rightarrow> omci_context \<Rightarrow> omci_error \<times> u32 option" where
  "omci_me_attr_prop_get = attr_info me_attr_prop_get"

definition omci_me_attr_type_get :: "u16 \<Rightarrow> nat \<Rightarrow> omci_context \<Rightarrow> omci_error \<times> omci_attr_type option" where
  "omci_me_attr_type_get = attr_info (\<lambda>k a. format (me_attr_get k a))"

definition omci_me_attr_offset_get :: "u16 \<Rightarrow> nat \<Rightarrow> omci_context \<Rightarrow> omci_error \<times> nat option" where
  "omci_me_attr_offset_get = attr_info me_attr_offset_get"

definition omci_me_data_get :: "omci_env \<Rightarrow> u16 \<Rightarrow> u16 \<Rightarrow> pm_interval \<Rightarrow> nat \<Rightarrow> omci_context \<Rightarrow> omci_error \<times> octets \<times> omci_context" where
  "omci_me_data_get E cid iid interval n c =
    (if interval = OMCI_PM_INTERVAL_END then (OMCI_ERROR_INVALID_VAL, [], c)
     else with_me cid iid (\<lambda>a. me_data_read E a n interval) [] c)"

definition me_tbl_data_read :: "omci_env \<Rightarrow> addr \<Rightarrow> nat \<Rightarrow> omci_context \<Rightarrow> omci_error \<times> octets option" where
  "me_tbl_data_read E a attr c =
    (let k = cls (me_at c a) in
     if me_attr_prop_get k attr AND OMCI_ATTR_PROP_TABLE = 0 then (OMCI_ERROR_INVALID_ME_ATTR, None)
     else case tbl_copy_handler k of None \<Rightarrow> (OMCI_ERROR_INVALID_ME_ATTR, None)
     | Some h \<Rightarrow> (case h_tbl_copy E h c a attr of (err, d, sz, fr) \<Rightarrow>
         if err \<noteq> OMCI_SUCCESS then (err, None) else (OMCI_SUCCESS, Some (take sz (the d)))))"

definition omci_me_tbl_data_get :: "omci_env \<Rightarrow> u16 \<Rightarrow> u16 \<Rightarrow> nat \<Rightarrow> omci_context \<Rightarrow> omci_error \<times> octets option" where
  "omci_me_tbl_data_get E cid iid attr c = (case mib_me_find c cid iid of (err, None) \<Rightarrow> (err, None)
     | (_, Some a) \<Rightarrow> if \<not> is_me_attr_exist (cls (me_at c a)) attr then (OMCI_ERROR_INVALID_ME_ATTR, None)
         else me_tbl_data_read E a attr c)"

definition omci_me_attr_get :: "omci_env \<Rightarrow> u16 \<Rightarrow> u16 \<Rightarrow> nat \<Rightarrow> omci_context \<Rightarrow> omci_error \<times> octets \<times> omci_context" where
  "omci_me_attr_get E cid iid attr c = with_me cid iid (\<lambda>a. me_attr_read E a attr) [] c"

definition omci_me_attr_set :: "omci_env \<Rightarrow> u16 \<Rightarrow> u16 \<Rightarrow> nat \<Rightarrow> octets \<Rightarrow> bool \<Rightarrow> omci_context \<Rightarrow> omci_error \<times> omci_context" where
  "omci_me_attr_set E cid iid attr bs suppress c = (case mib_me_find c cid iid of
     (err, None) \<Rightarrow> (err, c) | (_, Some a) \<Rightarrow> me_attr_write E a attr bs suppress c)"

definition omci_me_alarm_bitmap_get :: "u16 \<Rightarrow> u16 \<Rightarrow> omci_context \<Rightarrow> omci_error \<times> octets option" where
  "omci_me_alarm_bitmap_get cid iid c = (case mib_me_find c cid iid of (err, None) \<Rightarrow> (err, None)
     | (_, Some a) \<Rightarrow> (case alarm_bitmap (me_at c a) of None \<Rightarrow> (OMCI_ERROR_INVALID_ME_ACTION, None)
         | Some b \<Rightarrow> (OMCI_SUCCESS, Some (take OMCI_ALARM_BITMAP_SIZE b))))"

definition omci_me_count_get :: "omci_context \<Rightarrow> nat" where
  "omci_me_count_get c = me_count c"

text \<open>
  The list of entities: the result has the elements written into an array of \<^verbatim>\<open>array_size\<close> octets, four
  for an element, and whether the lock of the base is released.
\<close>

fun me_list_loop :: "nat \<Rightarrow> (u16 \<times> u16) list \<Rightarrow> (u16 \<times> u16) list \<Rightarrow> omci_error \<times> (u16 \<times> u16) list \<times> bool" where
  "me_list_loop cap [] w = (OMCI_SUCCESS, w, True)"
| "me_list_loop cap (m # ms) w = (if cap < length w then (OMCI_ERROR_BOUNDS, w, False) else me_list_loop cap ms (w @ [m]))"

definition me_ids :: "omci_context \<Rightarrow> (u16 \<times> u16) list" where
  "me_ids c = map (\<lambda>a. (class_id (cls (me_at c a)), iid_of c a)) (concat (map snd (me_class_array c)))"

definition omci_me_list_get :: "nat \<Rightarrow> omci_context \<Rightarrow> omci_error \<times> (u16 \<times> u16) list \<times> bool" where
  "omci_me_list_get array_size c = me_list_loop (array_size div 4) (me_ids c) []"

definition omci_attr_change :: "omci_env \<Rightarrow> u16 \<Rightarrow> u16 \<Rightarrow> nat \<Rightarrow> omci_context \<Rightarrow> omci_error \<times> omci_context" where
  "omci_attr_change E cid iid attr c = (case mib_me_find c cid iid of (err, None) \<Rightarrow> (err, c)
     | (_, Some a) \<Rightarrow>
       (let k = cls (me_at c a) in
        if \<not> is_me_attr_exist k attr then (OMCI_ERROR_INVALID_ME_ATTR, c)
        else if me_attr_prop_get k attr AND OMCI_ATTR_PROP_AVC = 0 then (OMCI_ERROR, c)
        else if me_attr_get_handler_get k attr = None then (OMCI_ERROR, c)
        else avc_send E a attr c))"

definition omci_mib_reset :: "omci_env \<Rightarrow> nat \<Rightarrow> u16 list \<Rightarrow> omci_context \<Rightarrow> (omci_error \<times> omci_context) option" where
  "omci_mib_reset E n cids c = mib_reset E n cids False c"

definition omci_me_is_supported :: "u16 \<Rightarrow> omci_context \<Rightarrow> omci_error" where
  "omci_me_is_supported cid c = fst (mib_me_class_resolve c cid)"

definition omci_failsafe_enable :: "bool \<Rightarrow> omci_context \<Rightarrow> omci_context" where
  "omci_failsafe_enable en c = c\<lparr> failsafe := en \<rparr>"

definition omci_msg_num_get :: "omci_core \<Rightarrow> nat" where
  "omci_msg_num_get s = length (msg_fifo s)"

definition omci_attr_avc_send :: "omci_env \<Rightarrow> u16 \<Rightarrow> u16 \<Rightarrow> nat \<Rightarrow> omci_context \<Rightarrow> omci_error \<times> omci_context" where
  "omci_attr_avc_send E cid iid attr c = (case mib_me_find c cid iid of (err, None) \<Rightarrow> (err, c) | (_, Some a) \<Rightarrow> avc_send E a attr c)"

text \<open>The update of an entity with its own data.\<close>

definition me_refresh :: "omci_env \<Rightarrow> addr \<Rightarrow> omci_context \<Rightarrow> omci_error \<times> omci_context" where
  "me_refresh E a c =
    (let e = me_at c a in
     if active e then (case call_update E a (case me_data e of Some d \<Rightarrow> d | None \<Rightarrow> []) (NOT (inv_attr_mask (cls e))) c of
        (err, d, c) \<Rightarrow> (err, me_update a (me_data_put d) c))
     else (OMCI_SUCCESS, c))"

text \<open>The entities of a class whose attribute has a value: those that fit into the array, and how many there are.\<close>

fun find_where_loop :: "omci_env \<Rightarrow> nat \<Rightarrow> octets \<Rightarrow> addr list \<Rightarrow> addr list \<Rightarrow> omci_context \<Rightarrow> omci_error \<times> addr list \<times> omci_context" where
  "find_where_loop E attr v [] found c = (OMCI_SUCCESS, found, c)"
| "find_where_loop E attr v (a # as) found c = (case me_attr_read E a attr c of (err, bs, c) \<Rightarrow>
     if err \<noteq> OMCI_SUCCESS then (err, found, c) else find_where_loop E attr v as (if bs = v then found @ [a] else found) c)"

definition mib_me_find_where :: "omci_env \<Rightarrow> u16 \<Rightarrow> nat \<Rightarrow> octets \<Rightarrow> nat \<Rightarrow> omci_context \<Rightarrow> omci_error \<times> addr list \<times> nat \<times> omci_context" where
  "mib_me_find_where E cid attr v cap c = (case class_entry_find c cid of None \<Rightarrow> (OMCI_ERROR_ME_NOT_SUPPORTED, [], 0, c)
     | Some i \<Rightarrow> (case find_where_loop E attr v (me_list c i) [] c of (err, found, c) \<Rightarrow>
         if err \<noteq> OMCI_SUCCESS then (err, take cap found, 0, c)
         else (if found \<noteq> [] then OMCI_SUCCESS else OMCI_ERROR_ME_NOT_FOUND, take cap found, length found, c)))"

section \<open>Start\<close>

text \<open>
  C37: Starting the daemon succeeds with every resource held, or fails with every resource released and
  without a context, except that it does neither when one of the three event objects cannot be created:
  then it reports success without a context, and the timeout thread goes on with a context that is freed.
\<close>

theorem omci_init_outcome:
  "case omci_init res of (err, ref, held) \<Rightarrow>
     (if \<forall>r. res r = OMCI_SUCCESS then err = OMCI_SUCCESS \<and> ref \<and> (\<forall>r. r \<in> set held)
      else if list_all (\<lambda>r. res r = OMCI_SUCCESS) [R_CONTEXT, R_LOCK, R_ALARM_COPY, R_MIB_COPY, R_TBL_COPY, R_MSG_FIFO, R_TIMEOUT]
        \<and> list_ex (\<lambda>r. res r \<noteq> OMCI_SUCCESS) [R_ACTION_EVENT, R_HANDLED_EVENT, R_MSG_EVENT]
      then err = OMCI_SUCCESS \<and> \<not> ref \<and> held = [R_TIMEOUT]
      else err \<noteq> OMCI_SUCCESS \<and> \<not> ref \<and> held = [])"
proof -
  let ?all = "[R_CONTEXT, R_LOCK, R_ALARM_COPY, R_MIB_COPY, R_TBL_COPY, R_MSG_FIFO, R_TIMEOUT, R_ACTION_EVENT, R_HANDLED_EVENT,
    R_MSG_EVENT, R_API, R_MIB, R_API_START, R_CORE_THREAD, R_ACTION_THREAD, R_PM]"
  have a: "(\<forall>r. P r) \<longleftrightarrow> list_all P ?all" for P :: "omci_resource \<Rightarrow> bool" by (auto, rename_tac r, case_tac r, auto)
  note labels = free_context_def delete_context_lock_def do_alarm_copy_shutdown_def do_mib_copy_shutdown_def do_tbl_copy_shutdown_def
    do_msg_fifo_shutdown_def do_timeout_shutdown_def do_omci_api_shutdown_def do_mib_destroy_def do_core_thread_stop_def do_pm_shutdown_def
  show ?thesis unfolding a by (simp add: omci_init_def omci_init_steps_def labels)
qed

section \<open>The list of entities\<close>

lemma me_list_loop_ok:
  "length w \<le> Suc cap \<Longrightarrow> me_list_loop cap ms w = (if length w + length ms \<le> Suc cap then (OMCI_SUCCESS, w @ ms, True)
     else if cap < length w then (OMCI_ERROR_BOUNDS, w, False) else (OMCI_ERROR_BOUNDS, w @ take (Suc cap - length w) ms, False))"
  by (induction ms arbitrary: w) (auto simp: take_Cons' Suc_diff_le)

text \<open>
  C38: The list of entities is copied into the array of the caller, but the test of its size is off by one:
  with one entity more than fits, an element is written behind the array; with still more, the
  same happens and the function returns with the lock of the base held.
\<close>

theorem me_list_overruns:
  "let n = length (me_ids c); cap = array_size div 4 in
   omci_me_list_get array_size c =
     (if n \<le> cap then (OMCI_SUCCESS, me_ids c, True)
      else if n = cap + 1 then (OMCI_SUCCESS, me_ids c, True)
      else (OMCI_ERROR_BOUNDS, take (cap + 1) (me_ids c), False))"
  by (auto simp: omci_me_list_get_def me_list_loop_ok Let_def)

end
