(* ===== verification/Omci_Fifo.thy ===== *)
theory Omci_Fifo
  imports Ifx_Vfifo Omci_Interface
begin

text \<open>
  The FIFO of received messages of \<^verbatim>\<open>omci_core.c\<close> over the FIFO library: its initialisation, the write of
  \<^verbatim>\<open>omci_msg_recv\<close>, the read of the message thread and the flush on a change of the PLOAM state. It
  implements the list that the model of the daemon keeps.
\<close>

section \<open>Definitions\<close>

abbreviation (input) OMCI_RECEIVED_MSG_FIFO_SIZE :: nat where "OMCI_RECEIVED_MSG_FIFO_SIZE \<equiv> 1024"
abbreviation (input) SIZEOF_OMCI_MSG :: nat where "SIZEOF_OMCI_MSG \<equiv> 40"

text \<open>The octets of a message and their words in memory.\<close>

definition msg_octets :: "omci_msg \<Rightarrow> octets" where
  "msg_octets msg = be16_octets (tci msg) @ [mtype msg, dev_id msg] @ be16_octets (m_class msg) @ be16_octets (m_instance msg) @ contents msg"

definition msg_of_octets :: "octets \<Rightarrow> omci_msg" where
  "msg_of_octets bs = \<lparr> tci = octets_be16 (memget bs 0 2), mtype = bs ! 2, dev_id = bs ! 3, m_class = octets_be16 (memget bs 4 2),
     m_instance = octets_be16 (memget bs 6 2), contents = memget bs 8 32 \<rparr>"

fun words_of :: "octets \<Rightarrow> u32 list" where
  "words_of (a # b # c # d # bs) = be32 a b c d # words_of bs"
| "words_of bs = []"

definition octets_of :: "u32 list \<Rightarrow> octets" where
  "octets_of ws = concat (map (\<lambda>w. [octet 24 w, octet 16 w, octet 8 w, octet 0 w]) ws)"

text \<open>
  The buffer is rounded up to the next multiple of a word, by a whole word where it is one already.
  \<^verbatim>\<open>buf\<close> is its address, \<^const>\<open>None\<close> when there is no memory.
\<close>

definition msg_fifo_init :: "nat option \<Rightarrow> IFX_FIFO \<Rightarrow> omci_error \<times> IFX_FIFO" where
  "msg_fifo_init buf f =
    (let buff_size = SIZEOF_OMCI_MSG * OMCI_RECEIVED_MSG_FIFO_SIZE;
         buff_size = buff_size + (4 - buff_size mod 4)
     in case buf of None \<Rightarrow> (OMCI_ERROR_MEMORY, f)
        | Some p \<Rightarrow> (case IFX_Var_Fifo_Init p (p + buff_size) SIZEOF_OMCI_MSG f of
            (ok, f) \<Rightarrow> (if ok then OMCI_SUCCESS else OMCI_ERROR_MEMORY, f)))"

definition msg_fifo_write :: "omci_msg \<Rightarrow> vfifo \<Rightarrow> omci_error \<times> vfifo" where
  "msg_fifo_write msg s = (case IFX_Var_Fifo_writeElement (of_nat SIZEOF_OMCI_MSG) s of
     (None, s) \<Rightarrow> (OMCI_ERROR_MSG_FIFO_FULL, s)
   | (Some p, f, m) \<Rightarrow> (OMCI_SUCCESS, f, vblit p (words_of (msg_octets msg)) m))"

definition msg_fifo_read :: "vfifo \<Rightarrow> omci_msg option \<times> vfifo" where
  "msg_fifo_read s = (case IFX_Var_Fifo_readElement s of
     ((None, _), s) \<Rightarrow> (None, s)
   | ((Some p, _), f, m) \<Rightarrow> (Some (msg_of_octets (octets_of (map m [p..<p + SIZEOF_OMCI_MSG div 4]))), f, m))"

definition msg_fifo_clear :: "vfifo \<Rightarrow> vfifo" where
  "msg_fifo_clear = (\<lambda>(f, m). (IFX_Var_Fifo_Clear f, m))"

text \<open>
  The number of messages that fit: the library needs twelve words for a message of ten. The relation
  to the list of messages, for a buffer at octet address \<^verbatim>\<open>p\<close>.
\<close>

definition msg_fifo_cap :: nat where
  "msg_fifo_cap = (SIZEOF_OMCI_MSG * OMCI_RECEIVED_MSG_FIFO_SIZE div 4 + 1) div 12"

definition msg_elem :: "omci_msg \<Rightarrow> u32 \<times> u32 list" where
  "msg_elem msg = (of_nat SIZEOF_OMCI_MSG, words_of (msg_octets msg))"

definition msg_fifo_rel :: "nat \<Rightarrow> vfifo \<Rightarrow> omci_msg list \<Rightarrow> bool" where
  "msg_fifo_rel p s q \<longleftrightarrow> vinv msg_fifo_cap 10 (p div 4) 5 s \<and> vlist msg_fifo_cap 10 (p div 4) s = map msg_elem q
     \<and> list_all (\<lambda>msg. length (contents msg) = 32) q"

section \<open>Messages in memory\<close>

lemma msg_fifo_cap: "msg_fifo_cap = 853" by (simp add: msg_fifo_cap_def)

lemma msg_octets_length: "length (contents m) = 32 \<Longrightarrow> length (msg_octets m) = 40"
  by (simp add: msg_octets_def be16_octets_def)

lemma words_of_length: "4 * length (words_of bs) = length bs - length bs mod 4"
  by (induction bs rule: words_of.induct) auto

lemma octets_of_words_of: "length bs mod 4 = 0 \<Longrightarrow> octets_of (words_of bs) = bs"
  by (induction bs rule: words_of.induct) (auto simp: octets_of_def)

lemma memget_append_left: "k + n \<le> length xs \<Longrightarrow> memget (xs @ ys) k n = memget xs k n"
  by (simp add: memget_def)

lemma msg_octets_roundtrip: "length (contents m) = 32 \<Longrightarrow> msg_of_octets (msg_octets m) = m"
proof -
  assume c: "length (contents m) = 32"
  have "memget (msg_octets m) 0 2 = be16_octets (tci m)" "memget (msg_octets m) 4 2 = be16_octets (m_class m)"
    "memget (msg_octets m) 6 2 = be16_octets (m_instance m)" "memget (msg_octets m) 8 32 = contents m"
    "msg_octets m ! 2 = mtype m" "msg_octets m ! 3 = dev_id m"
    using c by (simp_all add: memget_def msg_octets_def be16_octets_def numeral_2_eq_2 numeral_3_eq_3)
  then show ?thesis by (simp add: msg_of_octets_def)
qed

lemma msg_elem_ok: "length (contents m) = 32 \<Longrightarrow> velem_fits 10 (msg_elem m) \<and> msg_of_octets (octets_of (snd (msg_elem m))) = m"
  using words_of_length[of "msg_octets m"]
  by (simp add: velem_fits_def msg_elem_def to_ulong_size_def msg_octets_length octets_of_words_of msg_octets_roundtrip)

section \<open>Operations\<close>

lemma fifo_room: "msg_fifo_rel p s q \<Longrightarrow> length q = unat (count (fst s))"
  by (cases s) (auto simp: msg_fifo_rel_def vlist_def dest: arg_cong[of _ _ length])

lemma msg_fifo_write_full:
  assumes "msg_fifo_rel p s q" "length q = msg_fifo_cap"
  shows "msg_fifo_write msg s = (OMCI_ERROR_MSG_FIFO_FULL, s)"
proof -
  obtain f m where s: "s = (f, m)" by (cases s)
  have "unat (IFX_Var_Fifo_getRoom f) < 10"
    using assms vat_room[of msg_fifo_cap 10 "p div 4" 5 _ f m] fifo_room[OF assms(1)]
    by (force simp: s msg_fifo_rel_def vinv_def)
  then show ?thesis by (simp add: msg_fifo_write_def s IFX_Var_Fifo_writeElement_def to_ulong_size_def)
qed

lemma write_None: "IFX_Var_Fifo_writeElement sz s = (None, s') \<Longrightarrow> count (fst s') = count (fst s)"
  by (auto simp: IFX_Var_Fifo_writeElement_def Let_def split: prod.splits if_splits)

lemma msg_fifo_write_ok:
  assumes r: "msg_fifo_rel p s q" and len: "length q < msg_fifo_cap" and msg: "length (contents msg) = 32"
  shows "fst (msg_fifo_write msg s) = OMCI_SUCCESS \<and> msg_fifo_rel p (snd (msg_fifo_write msg s)) (q @ [msg])"
proof -
  obtain f m where s: "s = (f, m)" by (cases s)
  have at: "vat msg_fifo_cap 10 (p div 4) 5 ((pRead f - p div 4) div (10 + 2)) (f, m)" using r by (simp add: msg_fifo_rel_def vinv_def s)
  have "unat (count f) < msg_fifo_cap" using fifo_room[OF r] len s by simp
  from vpush_at[OF at this conjunct1[OF msg_elem_ok[OF msg]]]
  have at': "vinv msg_fifo_cap 10 (p div 4) 5 (vpush (msg_elem msg) (f, m))"
    and l: "vlist msg_fifo_cap 10 (p div 4) (vpush (msg_elem msg) (f, m)) = vlist msg_fifo_cap 10 (p div 4) (f, m) @ [msg_elem msg]"
    using vat_vinv by blast+
  obtain o1 s1 where w: "IFX_Var_Fifo_writeElement 40 (f, m) = (o1, s1)" by (cases "IFX_Var_Fifo_writeElement 40 (f, m)")
  then have push: "vpush (msg_elem msg) (f, m) = (case o1 of None \<Rightarrow> s1 | Some a \<Rightarrow> (fst s1, vblit a (words_of (msg_octets msg)) (snd s1)))"
    by (simp add: vpush_def msg_elem_def split: option.split prod.split)
  have "o1 \<noteq> None"
    using write_None[of 40 "(f, m)" s1] w push arg_cong[OF l, of length] by (cases o1; auto simp: vlist_def split: prod.splits)
  then have "snd (msg_fifo_write msg s) = vpush (msg_elem msg) (f, m)" "fst (msg_fifo_write msg s) = OMCI_SUCCESS"
    using w push by (auto simp: msg_fifo_write_def s split: prod.split)
  then show ?thesis using at' l r msg by (simp add: msg_fifo_rel_def s)
qed

lemma msg_fifo_read_rel:
  assumes r: "msg_fifo_rel p s q"
  shows "case q of [] \<Rightarrow> msg_fifo_read s = (None, s)
    | msg # q' \<Rightarrow> fst (msg_fifo_read s) = Some msg \<and> msg_fifo_rel p (snd (msg_fifo_read s)) q'"
proof (cases q)
  case Nil
  then have "count (fst s) = 0" using fifo_room[OF r] by (simp add: unat_eq_0)
  with Nil show ?thesis by (cases s) (auto simp: msg_fifo_read_def IFX_Var_Fifo_readElement_def)
next
  case (Cons msg q')
  obtain f m where s: "s = (f, m)" by (cases s)
  let ?S = "p div 4" and ?r = "(pRead f - p div 4) div (10 + 2)"
  have at: "vat msg_fifo_cap 10 ?S 5 ?r (f, m)" using r by (simp add: msg_fifo_rel_def vinv_def s)
  have "count f \<noteq> 0" using fifo_room[OF r] Cons by (auto simp: s)
  from vpop_at[OF at this] obtain f' where
    pop: "vpop (f, m) = Some (velem 10 m (vslot ?S 10 (?r mod msg_fifo_cap)), f', m)"
    and at': "vat msg_fifo_cap 10 ?S 5 (Suc (?r mod msg_fifo_cap)) (f', m)" and c: "unat (count f) = Suc (unat (count f'))" by blast
  have l: "vlist msg_fifo_cap 10 ?S (f, m) = velem 10 m (vslot ?S 10 (?r mod msg_fifo_cap)) # vlist msg_fifo_cap 10 ?S (f', m)"
    unfolding vlist_at[OF at] vlist_at[OF at'] c by (simp add: map_upt_Suc suc_mod_add del: upt_Suc)
  then have e: "velem 10 m (vslot ?S 10 (?r mod msg_fifo_cap)) = msg_elem msg" "vlist msg_fifo_cap 10 ?S (f', m) = map msg_elem q'"
    using r Cons by (simp_all add: msg_fifo_rel_def s)
  obtain a sz where rd: "IFX_Var_Fifo_readElement (f, m) = ((Some a, sz), f', m)" "msg_elem msg = (sz, map m [a..<a + to_ulong_size (unat sz)])"
    using pop e(1) by (auto simp: vpop_def split: prod.splits option.splits)
  have "length (contents msg) = 32" using r Cons by (simp add: msg_fifo_rel_def)
  then have "msg_of_octets (octets_of (map m [a..<a + 10])) = msg"
    using msg_elem_ok[of msg] rd(2) by (auto simp: msg_elem_def to_ulong_size_def)
  then have "msg_fifo_read s = (Some msg, f', m)" using rd(1) by (simp add: msg_fifo_read_def s)
  then show ?thesis using Cons vat_vinv[OF at'] e(2) r by (simp add: msg_fifo_rel_def)
qed

lemma msg_fifo_clear_rel: "msg_fifo_rel p s q \<Longrightarrow> msg_fifo_rel p (msg_fifo_clear s) []"
proof (cases s)
  case (Pair f m)
  assume "msg_fifo_rel p s q"
  then have "vat msg_fifo_cap 10 (p div 4) 5 0 (IFX_Var_Fifo_Clear f, m)"
    by (auto simp: Pair msg_fifo_rel_def vinv_def vat_def IFX_Var_Fifo_Clear_def vwpos_def)
  from vat_vinv[OF this] show ?thesis
    by (simp add: Pair msg_fifo_rel_def msg_fifo_clear_def vlist_def IFX_Var_Fifo_Clear_def)
qed

lemma msg_fifo_init_rel:
  assumes "msg_fifo_init (Some p) f0 = (OMCI_SUCCESS, f)" "p + 40964 < 2 ^ 32"
  shows "msg_fifo_rel p (f, m) []"
proof -
  have i: "IFX_Var_Fifo_Init p (p + 40964) 40 f0 = (True, f)"
    using assms(1) by (auto simp: msg_fifo_init_def split: prod.splits if_splits)
  then have "p mod 4 = 0" by (auto simp: IFX_Var_Fifo_Init_def split: if_splits)
  then have d: "(p + 40964) div 4 - p div 4 = 10241" by presburger
  have "vat msg_fifo_cap 10 (p div 4) 5 0 (f, m)"
    by (rule vinit_at[OF i]) (use assms(2) in \<open>simp_all add: d to_ulong_size_def msg_fifo_cap\<close>)
  from vat_vinv[OF this] i show ?thesis by (auto simp: msg_fifo_rel_def vlist_def IFX_Var_Fifo_Init_def split: if_splits)
qed

section \<open>Refinement\<close>

text \<open>
  C19: The FIFO of received messages implements the list of the message service: after its initialisation
  it is empty; a message is appended, and refused exactly when 853 are waiting, although the
  buffer is meant for 1024; the message thread reads the oldest unchanged; a flush empties it; and the
  count is that of the list.
\<close>

theorem msg_fifo_refines_list:
  assumes "msg_fifo_init (Some p) f0 = (OMCI_SUCCESS, f)" "p + 40964 < 2 ^ 32"
  shows "msg_fifo_rel p (f, m) []
    \<and> (\<forall>s (c :: omci_core) (msg :: omci_msg). msg_fifo_rel p s (msg_fifo c) \<longrightarrow> length (contents msg) = 32 \<longrightarrow>
        (case omci_msg_recv (length (msg_fifo c) = 853) msg c of (err, c') \<Rightarrow>
          fst (msg_fifo_write msg s) = err \<and> msg_fifo_rel p (snd (msg_fifo_write msg s)) (msg_fifo c')))
    \<and> (\<forall>s q. msg_fifo_rel p s q \<longrightarrow> length q \<le> 853 \<and> unat (IFX_Var_Fifo_getCount (fst s)) = length q
        \<and> msg_fifo_rel p (msg_fifo_clear s) []
        \<and> (case q of [] \<Rightarrow> msg_fifo_read s = (None, s)
           | msg # q' \<Rightarrow> fst (msg_fifo_read s) = Some msg \<and> msg_fifo_rel p (snd (msg_fifo_read s)) q'))"
proof (intro conjI allI impI)
  show "msg_fifo_rel p (f, m) []" using assms by (rule msg_fifo_init_rel)
next
  fix s :: vfifo and c :: omci_core and msg :: omci_msg
  assume r: "msg_fifo_rel p s (msg_fifo c)" and l: "length (contents msg) = 32"
  show "case omci_msg_recv (length (msg_fifo c) = 853) msg c of (err, c') \<Rightarrow>
      fst (msg_fifo_write msg s) = err \<and> msg_fifo_rel p (snd (msg_fifo_write msg s)) (msg_fifo c')"
  proof (cases "length (msg_fifo c) = 853")
    case True
    with r msg_fifo_write_full[OF r] show ?thesis by (simp add: omci_msg_recv_def msg_fifo_cap)
  next
    case False
    moreover have "length (msg_fifo c) \<le> msg_fifo_cap"
      using r fifo_room[OF r] by (cases s) (auto simp: msg_fifo_rel_def vinv_def vat_def)
    ultimately have "length (msg_fifo c) < msg_fifo_cap" by (simp add: msg_fifo_cap)
    from msg_fifo_write_ok[OF r this l] False show ?thesis by (simp add: omci_msg_recv_def)
  qed
next
  fix s :: vfifo and q
  assume r: "msg_fifo_rel p s q"
  show "length q \<le> 853" using r fifo_room[OF r] by (cases s) (auto simp: msg_fifo_rel_def vinv_def vat_def msg_fifo_cap)
  show "unat (IFX_Var_Fifo_getCount (fst s)) = length q" using fifo_room[OF r] by (simp add: IFX_Var_Fifo_getCount_def)
  show "msg_fifo_rel p (msg_fifo_clear s) []" using r by (rule msg_fifo_clear_rel)
  show "case q of [] \<Rightarrow> msg_fifo_read s = (None, s)
      | msg # q' \<Rightarrow> fst (msg_fifo_read s) = Some msg \<and> msg_fifo_rel p (snd (msg_fifo_read s)) q'"
    using r by (rule msg_fifo_read_rel)
qed

lemma msg_fifo_refines_list_witness:
  "fst (msg_fifo_read (snd (msg_fifo_write msg_zero (snd (msg_fifo_init (Some 0)
      \<lparr>pStart = 0, pEnd = 0, pRead = 0, pWrite = 0, fsize = 0, count = 0, max_size = 0\<rparr>), \<lambda>_. 0)))) = Some msg_zero"
proof -
  let ?f0 = "\<lparr>pStart = 0, pEnd = 0, pRead = 0, pWrite = 0, fsize = 0, count = 0, max_size = 0\<rparr>"
  let ?s = "(snd (msg_fifo_init (Some 0) ?f0), \<lambda>_. 0)"
  have z: "length (contents msg_zero) = 32" by (simp add: msg_zero_def)
  have i: "msg_fifo_init (Some 0) ?f0 = (OMCI_SUCCESS, snd (msg_fifo_init (Some 0) ?f0))"
    by (simp add: msg_fifo_init_def IFX_Var_Fifo_Init_def)
  have b: "0 + 40964 < (2 :: nat) ^ 32" by simp
  note t = msg_fifo_refines_list[OF i b, of "\<lambda>_. 0"]
  have t0: "msg_fifo_rel 0 ?s (msg_fifo example_core)" using t[THEN conjunct1] by (simp add: example_core_def)
  note t1 = t[THEN conjunct2, THEN conjunct1, rule_format]
    and t2 = t[THEN conjunct2, THEN conjunct2, rule_format, THEN conjunct2, THEN conjunct2, THEN conjunct2]
  from t1[OF t0 z] have "msg_fifo_rel 0 (snd (msg_fifo_write msg_zero ?s)) [msg_zero]"
    by (simp add: omci_msg_recv_def example_core_def)
  from t2[OF this] show ?thesis by simp
qed

end
