(* ===== verification/Omci_Api.thy ===== *)
theory Omci_Api
  imports Omci_Fifo Falcon_Onu_Dev Api_Mapper
begin

text \<open>
  The access of the daemon to the driver (\<^verbatim>\<open>omci_api.c\<close> and \<^verbatim>\<open>omci_api_event.c\<close>): the ioctl call with its
  exchange descriptor, capabilities, the mapping of ports, the framing of sent messages, and the thread
  that turns events of the driver into events of the daemon. The memory of the daemon is a function from
  addresses to octets; local variables are where a frame says. The driver is the model of the character
  devices or any other function of a command, its argument and the memory.
\<close>

section \<open>Definitions\<close>

subsection \<open>Memory of the daemon\<close>

type_synonym umem = "u32 \<Rightarrow> u8"

definition mem_put :: "u32 \<Rightarrow> u8 list \<Rightarrow> umem \<Rightarrow> umem" where
  "mem_put a bs m = (\<lambda>p. if unat (p - a) < length bs then bs ! unat (p - a) else m p)"

definition mem_get :: "u32 \<Rightarrow> nat \<Rightarrow> umem \<Rightarrow> u8 list" where
  "mem_get a n m = map (\<lambda>i. m (a + of_nat i)) [0..<n]"

definition mem_word :: "u32 \<Rightarrow> umem \<Rightarrow> u32" where
  "mem_word a m = be32 (m a) (m (a + 1)) (m (a + 2)) (m (a + 3))"

text \<open>The kernel's access to this memory; two objects that do not overlap.\<close>

definition user_mem :: "umem uaccess" where
  "user_mem = \<lparr> copy_to_user = (\<lambda>a bs m. (0, mem_put a bs m)), copy_from_user = (\<lambda>a n m. (0, mem_get a n m, m)),
     clear_user = (\<lambda>a n m. (0, mem_put a (replicate n 0) m)) \<rparr>"

definition apart :: "u32 \<Rightarrow> nat \<Rightarrow> u32 \<Rightarrow> nat \<Rightarrow> bool" where
  "apart a n b k \<longleftrightarrow> n \<le> unat (b - a) \<and> k \<le> unat (a - b)"

subsection \<open>ioctl\<close>

record fio_cmd = ioctl_cmd +
  ioc_write :: bool

type_synonym 'd driver = "ioctl_cmd \<Rightarrow> u32 \<Rightarrow> 'd \<times> umem \<Rightarrow> int \<times> 'd \<times> umem"

definition FIO_ONU_EVENT_FIFO :: fio_cmd where
  "FIO_ONU_EVENT_FIFO = \<lparr>ioc_type = ONU_EVENT_MAGIC, ioc_nr = 200, ioc_size = 8, ioc_read = True, ioc_write = False\<rparr>"
definition FIO_OPTIC_EVENT_FIFO :: fio_cmd where
  "FIO_OPTIC_EVENT_FIFO = \<lparr>ioc_type = OPTIC_EVENT_MAGIC, ioc_nr = 0, ioc_size = 16, ioc_read = True, ioc_write = False\<rparr>"
definition FIO_GPE_CAPABILITY_GET :: fio_cmd where
  "FIO_GPE_CAPABILITY_GET = \<lparr>ioc_type = GPE_MAGIC, ioc_nr = 0x61, ioc_size = 28, ioc_read = True, ioc_write = False\<rparr>"
definition FIO_GPE_OMCI_SEND :: fio_cmd where
  "FIO_GPE_OMCI_SEND = \<lparr>ioc_type = GPE_MAGIC, ioc_nr = 0x24, ioc_size = 1984, ioc_read = False, ioc_write = True\<rparr>"
definition FIO_LAN_PORT_CFG_GET :: fio_cmd where
  "FIO_LAN_PORT_CFG_GET = \<lparr>ioc_type = 7, ioc_nr = 4, ioc_size = 52, ioc_read = True, ioc_write = True\<rparr>"
definition FIO_ONU_LAN_PORTMAP_GET :: fio_cmd where
  "FIO_ONU_LAN_PORTMAP_GET = \<lparr>ioc_type = ONU_MAGIC, ioc_nr = 0x11, ioc_size = 12, ioc_read = True, ioc_write = False\<rparr>"

text \<open>The wrapper of the system call, which reports every error as -1.\<close>

definition IFXOS_DeviceControl :: "'d driver \<Rightarrow> int \<Rightarrow> fio_cmd \<Rightarrow> u32 \<Rightarrow> 'd \<times> umem \<Rightarrow> int \<times> 'd \<times> umem" where
  "IFXOS_DeviceControl drv fd cmd param s =
    (if fd = - 1 then (- 1, s) else case drv (ioctl_cmd.truncate cmd) param s of (r, s) \<Rightarrow> (if r < 0 then - 1 else r, s))"

text \<open>
  \<^verbatim>\<open>dev_ctl\<close>: the argument of the system call is the address \<^verbatim>\<open>x\<close> of the descriptor with error, length and
  pointer, in this order; the result is the smaller one of the result of the call and the error.
\<close>

definition dev_ctl :: "'d driver \<Rightarrow> u32 \<Rightarrow> int \<Rightarrow> fio_cmd \<Rightarrow> u32 \<Rightarrow> nat \<Rightarrow> 'd \<times> umem \<Rightarrow> int \<times> 'd \<times> umem" where
  "dev_ctl drv x fd cmd p_data data_sz = (\<lambda>(d, m).
    let m = (if ioc_read cmd \<and> \<not> ioc_write cmd then mem_put p_data (replicate data_sz 0) m else m);
        m = mem_put x (be32_bytes 0 @ be32_bytes (of_nat data_sz) @ be32_bytes p_data) m
    in case IFXOS_DeviceControl drv fd cmd x (d, m) of (ret, d, m) \<Rightarrow> (min ret (sint (mem_word x m)), d, m))"

subsection \<open>Capabilities and ports\<close>

record omci_api_capability =
  cap_max_meter :: u32
  cap_max_gpix :: u32
  cap_max_eth_uni :: u32
  cap_max_pots_uni :: u32
  cap_max_bridge_port :: u32
  cap_hw_version :: u32

definition capability_get :: "'d driver \<Rightarrow> u32 \<Rightarrow> u32 \<Rightarrow> int \<Rightarrow> 'd \<times> umem \<Rightarrow> omci_api_capability option \<times> 'd \<times> umem" where
  "capability_get drv x p fd = (\<lambda>(d, m).
    case dev_ctl drv x fd FIO_GPE_CAPABILITY_GET p 28 (d, mem_put p (replicate 28 0) m) of (err, d, m) \<Rightarrow>
      (if err \<noteq> 0 then None
       else Some \<lparr> cap_max_meter = mem_word p m, cap_max_gpix = mem_word (p + 4) m, cap_max_eth_uni = mem_word (p + 8) m,
         cap_max_pots_uni = mem_word (p + 12) m, cap_max_bridge_port = mem_word (p + 16) m, cap_hw_version = mem_word (p + 20) m \<rparr>, d, m))"

text \<open>The ports: entry \<^verbatim>\<open>lan\<close> of the list is the number of the UNI, or -1.\<close>

fun portmap_loop :: "u32 \<Rightarrow> umem \<Rightarrow> nat list \<Rightarrow> int list \<Rightarrow> int list" where
  "portmap_loop p m [] u = u"
| "portmap_loop p m (i # is) u =
    (let ph = unat (m (p + 1 + of_nat i)) in portmap_loop p m is (if ph < 4 then u[ph := int i + 1] else u))"

definition uni2lan_portmap_get :: "'d driver \<Rightarrow> u32 \<Rightarrow> u32 \<Rightarrow> int \<Rightarrow> int list \<Rightarrow> 'd \<times> umem \<Rightarrow> int \<times> int list \<times> 'd \<times> umem" where
  "uni2lan_portmap_get drv x p fd u = (\<lambda>(d, m).
    case dev_ctl drv x fd FIO_ONU_LAN_PORTMAP_GET p 12 (d, mem_put p (replicate 12 0) m) of (ret, d, m) \<Rightarrow>
      (ret, if ret = 0 then portmap_loop p m [0..<min (unat (m p)) 4] u else u, d, m))"

subsection \<open>Sending\<close>

text \<open>A baseline message gets its trailer; the frame is put at \<^verbatim>\<open>p\<close>, behind its length.\<close>

definition omci_api_frame :: "octets \<Rightarrow> nat \<Rightarrow> octets option" where
  "omci_api_frame msg len =
    (if msg ! 3 = 0x0A then if len \<noteq> 40 then None else Some (take 40 msg @ [0x00, 0x00, 0x00, 0x28])
     else if msg ! 3 = 0x0B then if len \<ge> 1980 then None else Some (take len msg)
     else None)"

definition omci_api_msg_send :: "'d driver \<Rightarrow> u32 \<Rightarrow> u32 \<Rightarrow> int \<Rightarrow> octets \<Rightarrow> nat \<Rightarrow> 'd \<times> umem \<Rightarrow> int \<times> 'd \<times> umem" where
  "omci_api_msg_send drv x p fd msg len = (\<lambda>(d, m).
    case omci_api_frame msg len of None \<Rightarrow> (- 1, d, m)
    | Some fr \<Rightarrow> (case dev_ctl drv x fd FIO_GPE_OMCI_SEND p (length fr + 4) (d, mem_put p (be32_bytes (of_nat (length fr)) @ fr) m) of
        (ret, d, m) \<Rightarrow> (if ret < 1 then ret else 0, d, m)))"

subsection \<open>Events\<close>

text \<open>
  Where the local variables of the event thread are: the descriptor, the event of the driver, the port
  configuration, the optical event; and what the stack holds where \<^verbatim>\<open>event.omci.msg\<close> is.
\<close>

record event_frame =
  f_exchange :: u32
  f_data :: u32
  f_cfg :: u32
  f_optic :: u32
  f_stack :: octets

text \<open>
  The events without another call. An OMCI message is copied with the length the driver gives into an
  array of 48 octets: beside the event, the octets written behind the array.
\<close>

definition onu_event_decode :: "event_frame \<Rightarrow> umem \<Rightarrow> (omci_api_event \<times> octets) option" where
  "onu_event_decode fr m =
    (let p = f_data fr; eid = mem_word p m in
     if eid = ONU_EVENT_STATE_CHANGE then
       Some (OMCI_API_EVENT_PLOAM_STATE (sint (mem_word (p + 12) m)) (sint (mem_word (p + 8) m)), [])
     else if eid = ONU_EVENT_OMCI_RECEIVE then
       let src = mem_get (p + 12) (unat (mem_word (p + 8) m)) m
       in Some (OMCI_API_EVENT_OMCI (msg_of_octets (take 48 (src @ drop (length src) (f_stack fr)))), drop 48 src)
     else None)"

definition config_ind_of :: "u32 \<Rightarrow> u32 \<Rightarrow> u8" where
  "config_ind_of speed duplex =
    (if speed = 1 then 1 else if speed = 2 then 2 else if speed = 4 then 3 else 0) OR (if duplex = 2 then 0x10 else 0)"

definition omci_api_onu_event_link_state_change ::
    "'d driver \<Rightarrow> event_frame \<Rightarrow> int \<Rightarrow> omci_api_ctx \<Rightarrow> 'd \<times> umem \<Rightarrow> ((omci_api_event \<times> octets) option \<times> 'd \<times> umem) option" where
  "omci_api_onu_event_link_state_change drv fr onu_fd actx = (\<lambda>(d, m).
    let p = f_data fr; q = f_cfg fr; state = mem_word (p + 16) m \<noteq> 0 in
    case dev_ctl drv (f_exchange fr) onu_fd FIO_LAN_PORT_CFG_GET q 52 (d, mem_put q (be32_bytes (mem_word (p + 8) m)) m) of (ret, d, m) \<Rightarrow>
    if ret \<noteq> 0 then Some (None, d, m)
    else let ind = config_ind_of (mem_word (q + 28) m) (mem_word (q + 20) m) in
      (case id_get MAPPER_PPTPETHUNI_MEID_TO_IDX 0 (mem_word (p + 8) m) actx of None \<Rightarrow> None
       | Some (r, me_id) \<Rightarrow> Some (if r \<noteq> OMCI_API_SUCCESS then None else Some (OMCI_API_EVENT_LINK_STATE (ucast me_id) state ind, []), d, m)))"

definition omci_api_onu_handle ::
    "'d driver \<Rightarrow> event_frame \<Rightarrow> int \<Rightarrow> int \<Rightarrow> omci_api_ctx \<Rightarrow> 'd \<times> umem \<Rightarrow> ((omci_api_event \<times> octets) option \<times> 'd \<times> umem) option" where
  "omci_api_onu_handle drv fr onu_fd_nfc onu_fd actx s =
    (case dev_ctl drv (f_exchange fr) onu_fd_nfc FIO_ONU_EVENT_FIFO (f_data fr) 1992 s of (ret, d, m) \<Rightarrow>
     if \<not> 0 \<le> ret then Some (None, d, m)
     else if mem_word (f_data fr) m = 13 then omci_api_onu_event_link_state_change drv fr onu_fd actx (d, m)
     else Some (onu_event_decode fr m, d, m))"

text \<open>Optical alarms by their interrupt: class and number.\<close>

definition goi_alarm :: "u32 \<Rightarrow> (u16 \<times> u8) option" where
  "goi_alarm a =
    (if a = 5 then Some (256, 8) else if a = 6 then Some (256, 9) else if a = 7 then Some (263, 6) else if a = 8 then Some (263, 5)
     else if a = 9 then Some (263, 4) else if a = 10 then Some (263, 1) else if a = 11 then Some (263, 0) else None)"

definition omci_api_goi_handle :: "'o driver \<Rightarrow> event_frame \<Rightarrow> int \<Rightarrow> 'o \<times> umem \<Rightarrow> omci_api_event option \<times> 'o \<times> umem" where
  "omci_api_goi_handle drv fr goi_fd_nfc s =
    (let o_data = f_optic fr in
     case dev_ctl drv (f_exchange fr) goi_fd_nfc FIO_OPTIC_EVENT_FIFO o_data 16 s of (ret, d, m) \<Rightarrow>
      (if ret < 0 \<or> mem_word o_data m \<noteq> 4 then None
       else map_option (\<lambda>(c, a). OMCI_API_EVENT_ALARM c 0 a (mem_word (o_data + 12) m \<noteq> 0)) (goi_alarm (mem_word (o_data + 8) m)), d, m))"

text \<open>A round of the event thread: which descriptors are ready, and the events passed on.\<close>

definition omci_api_event_round ::
    "'d driver \<Rightarrow> 'o driver \<Rightarrow> event_frame \<Rightarrow> int \<Rightarrow> int \<Rightarrow> int \<Rightarrow> omci_api_ctx \<Rightarrow> bool \<times> bool \<Rightarrow> 'd \<times> 'o \<times> umem \<Rightarrow>
      (omci_api_event list \<times> 'd \<times> 'o \<times> umem) option" where
  "omci_api_event_round onu optic fr onu_fd_nfc onu_fd goi_fd_nfc actx out = (\<lambda>(d, g, m).
    case (if fst out then omci_api_onu_handle onu fr onu_fd_nfc onu_fd actx (d, m) else Some (None, d, m)) of None \<Rightarrow> None
    | Some (ev, d, m) \<Rightarrow>
      (case (if snd out then omci_api_goi_handle optic fr goi_fd_nfc (g, m) else (None, g, m)) of (ev', g, m) \<Rightarrow>
        Some ((case ev of None \<Rightarrow> [] | Some (e, _) \<Rightarrow> [e]) @ (case ev' of None \<Rightarrow> [] | Some e \<Rightarrow> [e]), d, g, m)))"

text \<open>The drivers of the repository over the memory of the daemon.\<close>

definition falcon_onu :: "falcon_onu_event_ring driver" where
  "falcon_onu = falcon_onu_ioctl user_mem"

definition falcon_optic :: "unit driver" where
  "falcon_optic cmd argp = (\<lambda>(d, m). case falcon_optic_ioctl user_mem cmd argp m of (r, m) \<Rightarrow> (r, d, m))"

text \<open>An example: a frame with its variables apart from each other, and an empty mapper.\<close>

definition example_frame :: event_frame where
  "example_frame = \<lparr> f_exchange = 0x1000, f_data = 0x2000, f_cfg = 0x3000, f_optic = 0x4000, f_stack = replicate 48 0 \<rparr>"

definition example_api :: omci_api_ctx where
  "example_api = \<lparr> mapper_p = (\<lambda>_. None), mappers = (\<lambda>_. None), items = (\<lambda>_. None), max_bridge_port = 0 \<rparr>"

section \<open>Memory\<close>

lemma mem_put_same: "n = length bs \<Longrightarrow> n \<le> 2 ^ 32 \<Longrightarrow> mem_get a n (mem_put a bs m) = bs"
  by (rule nth_equalityI) (auto simp: mem_get_def mem_put_def unat_of_nat)

lemma apart_offset:
  assumes "apart a n b k" "i < n"
  shows "k \<le> unat (a + of_nat i - b)"
proof -
  have n: "n \<le> unat (b - a)" and k: "k \<le> unat (a - b)" using assms(1) by (simp_all add: apart_def)
  have b: "unat a < 2 ^ 32" "unat b < 2 ^ 32" "unat (b - a) < 2 ^ 32"
    using unsigned_less[of a, where 'a = nat] unsigned_less[of b, where 'a = nat] unsigned_less[of "b - a", where 'a = nat] by simp_all
  have i: "unat (of_nat i :: u32) = i" using n b assms(2) by (simp add: unat_of_nat)
  show ?thesis using n k b assms(2) by (auto simp: unat_sub_if' unat_plus_if' i split: if_splits)
qed

lemma mem_put_apart: "apart a n b k \<Longrightarrow> i < n \<Longrightarrow> length bs \<le> k \<Longrightarrow> mem_put b bs m (a + of_nat i) = m (a + of_nat i)"
  using apart_offset[of a n b k i] by (simp add: mem_put_def)

lemma mem_word_apart:
  assumes "apart a n b k" "i + 4 \<le> n" "length bs \<le> k"
  shows "mem_word (a + of_nat i) (mem_put b bs m) = mem_word (a + of_nat i) m"
proof -
  have "mem_put b bs m (a + of_nat (i + j)) = m (a + of_nat (i + j))" if "j < 4" for j
    using that assms by (intro mem_put_apart[where n = n and k = k]) auto
  from this[of 0] this[of 1] this[of 2] this[of 3] show ?thesis by (simp add: mem_word_def ac_simps)
qed

lemma mem_word_put:
  assumes "i + 4 \<le> length bs" "length bs < 2 ^ 32"
  shows "mem_word (a + of_nat i) (mem_put a bs m) = be32 (bs ! i) (bs ! (i + 1)) (bs ! (i + 2)) (bs ! (i + 3))"
proof -
  have "mem_put a bs m (a + of_nat (i + j)) = bs ! (i + j)" if "j < 4" for j
  proof -
    have "unat (of_nat (i + j) :: u32) = i + j" using that assms by (simp add: unat_of_nat del: of_nat_add)
    then show ?thesis using that assms by (simp add: mem_put_def)
  qed
  from this[of 0] this[of 1] this[of 2] this[of 3] show ?thesis by (simp add: mem_word_def ac_simps)
qed

lemma mem_put_hit: "i < length bs \<Longrightarrow> length bs < 2 ^ 32 \<Longrightarrow> mem_put a bs m (a + of_nat i) = bs ! i"
  by (simp add: mem_put_def unat_of_nat)

lemma mem_word_zero: "i + 4 \<le> n \<Longrightarrow> n < 2 ^ 32 \<Longrightarrow> mem_word (a + of_nat i) (mem_put a (replicate n 0) m) = 0"
  using mem_word_put[of i "replicate n 0" a m] by (simp add: be32_def)

section \<open>The event call on the driver\<close>

lemma be32_bytes_length [simp]: "length (be32_bytes w) = 4" by (simp add: be32_bytes_def)

lemma falcon_event_call:
  assumes "onu_ring_inv r"
  shows "falcon_onu (ioctl_cmd.truncate FIO_ONU_EVENT_FIFO) x (r, m) =
    (case ring_pop_event r of None \<Rightarrow> (- EAGAIN, r, m)
     | Some (e, r') \<Rightarrow> (0, r', mem_put x (be32_bytes (ev_id e) @ be32_bytes (ev_len e)) m))"
proof (cases "ring_pop_event r")
  case None
  then show ?thesis by (simp add: falcon_onu_def falcon_onu_ioctl_def FIO_ONU_EVENT_FIFO_def ioctl_cmd.truncate_def)
next
  case (Some er)
  obtain e r' where p: "ring_pop_event r = Some (e, r')" using Some by (cases er) simp
  from pop_event_Some[OF assms p] have l: "onu_ring_list r = e # onu_ring_list r'" by simp
  from pop_event_Cons[OF assms l] p have len: "unat (ev_len e) \<le> 2048" by auto
  have "take (copy_count 8 e) (ev_bytes e) = be32_bytes (ev_id e) @ be32_bytes (ev_len e)"
    by (simp add: copy_count_def ev_bytes_def)
  with event_ioctl_Some[OF p len, of "ioctl_cmd.truncate FIO_ONU_EVENT_FIFO" user_mem x m] p show ?thesis
    by (simp add: falcon_onu_def FIO_ONU_EVENT_FIFO_def ioctl_cmd.truncate_def user_mem_def)
qed

lemma falcon_onu_handle_lost:
  assumes "onu_ring_inv r" "apart (f_data fr) 1992 (f_exchange fr) 12"
  shows "\<exists>r' m'. omci_api_onu_handle falcon_onu fr nfc fd actx (r, m) = Some (None, r', m') \<and> onu_ring_inv r'
    \<and> onu_ring_list r' = (if nfc = - 1 then onu_ring_list r else tl (onu_ring_list r))"
proof -
  let ?p = "f_data fr" and ?x = "f_exchange fr"
  let ?m1 = "mem_put ?x (be32_bytes 0 @ be32_bytes 1992 @ be32_bytes ?p) (mem_put ?p (replicate 1992 0) m)"
  have neg: "min (- 1) k < 0" for k :: int by simp
  show ?thesis
  proof (cases "nfc = - 1 \<or> ring_pop_event r = None")
    case True
    have "ring_pop_event r = None \<Longrightarrow> onu_ring_list r = []" using pop_event_None[OF assms(1)] by simp
    with True falcon_event_call[OF assms(1), of ?x ?m1] assms(1) show ?thesis
      by (auto simp: omci_api_onu_handle_def dev_ctl_def Let_def IFXOS_DeviceControl_def neg[THEN not_le[THEN iffD2]]
          FIO_ONU_EVENT_FIFO_def[THEN arg_cong, of ioc_read] FIO_ONU_EVENT_FIFO_def[THEN arg_cong, of ioc_write])
  next
    case False
    then obtain e r' where p: "ring_pop_event r = Some (e, r')" and nfc: "nfc \<noteq> - 1" by auto
    let ?m2 = "mem_put ?x (be32_bytes (ev_id e) @ be32_bytes (ev_len e)) ?m1"
    have d: "dev_ctl falcon_onu ?x nfc FIO_ONU_EVENT_FIFO ?p 1992 (r, m) = (min 0 (sint (mem_word ?x ?m2)), r', ?m2)"
      using falcon_event_call[OF assms(1), of ?x ?m1] p nfc
      by (simp add: dev_ctl_def Let_def IFXOS_DeviceControl_def
          FIO_ONU_EVENT_FIFO_def[THEN arg_cong, of ioc_read] FIO_ONU_EVENT_FIFO_def[THEN arg_cong, of ioc_write])
    have "mem_word (?p + of_nat 0) ?m2 = 0"
      using assms(2) mem_word_zero[of 0 1992 ?p m] by (simp add: mem_word_apart[where n = 1992 and k = 12 and i = 0, simplified])
    then have "onu_event_decode fr ?m2 = None" "mem_word ?p ?m2 \<noteq> 13" by (simp_all add: onu_event_decode_def Let_def)
    with d pop_event_Some[OF assms(1) p] nfc show ?thesis by (simp add: omci_api_onu_handle_def)
  qed
qed

section \<open>Properties\<close>

lemma falcon_goi_handle_none: "\<exists>m'. omci_api_goi_handle falcon_optic fr goi ((), m) = (None, (), m')"
proof -
  have neg: "min (- 1) k < 0" for k :: int by simp
  have c: "ioc_read FIO_OPTIC_EVENT_FIFO" "\<not> ioc_write FIO_OPTIC_EVENT_FIFO" by (simp_all add: FIO_OPTIC_EVENT_FIFO_def)
  have "falcon_optic (ioctl_cmd.truncate FIO_OPTIC_EVENT_FIFO) x ((), m) = (- EAGAIN, (), m)" for x m
    by (simp add: falcon_optic_def falcon_optic_ioctl_def FIO_OPTIC_EVENT_FIFO_def ioctl_cmd.truncate_def)
  then show ?thesis
    by (auto simp: omci_api_goi_handle_def dev_ctl_def Let_def IFXOS_DeviceControl_def c neg)
qed

text \<open>
  C10: With the drivers of the repository no event reaches the daemon. The daemon hands the driver the
  address of its exchange descriptor, and the driver copies the event over it, so the buffer of the
  event stays zero. Whatever is in the event ring, a round of the event thread takes the oldest
  event out and passes nothing on: neither changes of the activation state nor OMCI messages nor alarms.
\<close>

theorem driver_events_lost:
  assumes "onu_ring_inv r" "apart (f_data fr) 1992 (f_exchange fr) 12"
  shows "\<exists>r' m'. omci_api_event_round falcon_onu falcon_optic fr nfc fd goi actx out (r, (), m) = Some ([], r', (), m') \<and> onu_ring_inv r'
    \<and> onu_ring_list r' = (if fst out \<and> nfc \<noteq> - 1 then tl (onu_ring_list r) else onu_ring_list r)"
proof -
  obtain r' m' where h: "omci_api_onu_handle falcon_onu fr nfc fd actx (r, m) = Some (None, r', m')" "onu_ring_inv r'"
    "onu_ring_list r' = (if nfc = - 1 then onu_ring_list r else tl (onu_ring_list r))"
    using falcon_onu_handle_lost[OF assms] by blast
  obtain m1 where g1: "omci_api_goi_handle falcon_optic fr goi ((), m') = (None, (), m1)" using falcon_goi_handle_none by blast
  obtain m2 where g2: "omci_api_goi_handle falcon_optic fr goi ((), m) = (None, (), m2)" using falcon_goi_handle_none by blast
  show ?thesis
    using h assms(1) by (cases "fst out"; cases "snd out") (simp_all add: omci_api_event_round_def g1 g2)
qed

lemma push_last:
  assumes "onu_ring_inv r" "n \<le> 2048" and el: "e = last (onu_ring_list (falcon_onu_push_event i (Some p) n r))"
  shows "take (8 + unat (ev_len e)) (ev_bytes e) = be32_bytes i @ be32_bytes n @ map p [0..<unat n]"
proof -
  let ?o = "events r ! unat (head r)"
  have d: "length (ev_data ?o) = 2048"
    using assms onu_inv_unat[OF assms(1)] by (auto simp: onu_ring_inv_def list_all_length)
  have "e = fill_entry i (Some p) n ?o"
    using assms(2) by (simp add: el push_event_list[OF assms(1)] last_n_def leD[OF assms(2)])
  then have e: "ev_view e = (i, map p [0..<unat n])" "ev_id e = i" "ev_len e = n"
    using fill_entry_view[OF d assms(2), of i p] by (simp_all add: fill_entry_def)
  then show ?thesis by (simp add: ev_bytes_def ev_view_def)
qed

lemma mem_get_put:
  assumes "i + n \<le> length bs" "length bs < 2 ^ 32"
  shows "mem_get (a + of_nat i) n (mem_put a bs m) = take n (drop i bs)"
proof (rule nth_equalityI)
  fix j assume "j < length (mem_get (a + of_nat i) n (mem_put a bs m))"
  then have j: "j < n" by (simp add: mem_get_def)
  then have "mem_put a bs m (a + of_nat (i + j)) = bs ! (i + j)" using assms by (intro mem_put_hit) auto
  then show "mem_get (a + of_nat i) n (mem_put a bs m) ! j = take n (drop i bs) ! j"
    using j assms by (simp add: mem_get_def ac_simps)
qed (use assms in \<open>simp add: mem_get_def\<close>)

lemma decode_state:
  "onu_event_decode fr (mem_put (f_data fr) (be32_bytes 3 @ be32_bytes n @ be32_bytes a @ be32_bytes b @ be32_bytes c) m) =
    Some (OMCI_API_EVENT_PLOAM_STATE (sint b) (sint a), [])"
  using mem_word_put[of 0 "be32_bytes 3 @ be32_bytes n @ be32_bytes a @ be32_bytes b @ be32_bytes c" "f_data fr" m]
    mem_word_put[of 8 "be32_bytes 3 @ be32_bytes n @ be32_bytes a @ be32_bytes b @ be32_bytes c" "f_data fr" m]
    mem_word_put[of 12 "be32_bytes 3 @ be32_bytes n @ be32_bytes a @ be32_bytes b @ be32_bytes c" "f_data fr" m]
  by (simp add: onu_event_decode_def Let_def) (simp add: be32_bytes_def)

lemma decode_omci:
  assumes "length bs = unat n" "unat n \<le> 1980"
  shows "onu_event_decode fr (mem_put (f_data fr) (be32_bytes 4 @ be32_bytes l @ be32_bytes n @ bs) m) =
    Some (OMCI_API_EVENT_OMCI (msg_of_octets (take 48 (bs @ drop (length bs) (f_stack fr)))), drop 48 bs)"
proof -
  let ?o = "be32_bytes 4 @ be32_bytes l @ be32_bytes n @ bs"
  let ?m = "mem_put (f_data fr) ?o m"
  have "mem_word (f_data fr + of_nat 0) ?m = 4" "mem_word (f_data fr + of_nat 8) ?m = n"
    using mem_word_put[of 0 ?o "f_data fr" m] mem_word_put[of 8 ?o "f_data fr" m] assms
    by (simp_all add: be32_bytes_def)
  moreover have "mem_get (f_data fr + of_nat 12) (unat n) ?m = bs"
    using mem_get_put[of 12 "unat n" ?o "f_data fr" m] assms by simp
  ultimately show ?thesis by (simp add: onu_event_decode_def Let_def)
qed

text \<open>
  C11: The layouts agree: if the newest event of the driver were copied as a whole into the buffer of the
  daemon, a change of the activation state would arrive with its old and its new state, and an OMCI frame
  as the message of its first 40 octets; of a frame of more than 48 octets, the rest is written behind
  the event on the stack of the event thread.
\<close>

theorem driver_event_layout:
  assumes "onu_ring_inv r" "0 < len" "n = min (unat len) 1980"
  shows "(let e = last (onu_ring_list (falcon_onu_notify_ploam_state new old r)) in
      onu_event_decode fr (mem_put (f_data fr) (take (8 + unat (ev_len e)) (ev_bytes e)) m) =
        Some (OMCI_API_EVENT_PLOAM_STATE (sint (ploam_state_code old)) (sint (ploam_state_code new)), []))
    \<and> (let e = last (onu_ring_list (falcon_onu_notify_omci_rx (Some frame) len r)); bs = map frame [0..<n] in
      onu_event_decode fr (mem_put (f_data fr) (take (8 + unat (ev_len e)) (ev_bytes e)) m) =
        Some (OMCI_API_EVENT_OMCI (msg_of_octets (take 48 (bs @ drop n (f_stack fr)))), drop 48 bs))"
proof
  let ?st = "be32_bytes (ploam_state_code new) @ be32_bytes (ploam_state_code old) @ be32_bytes 0"
  have "map ((!) ?st) [0..<12] = ?st" by (rule nth_equalityI) simp_all
  with push_last[OF assms(1) _ refl, of 12 3 "(!) ?st"]
  show "let e = last (onu_ring_list (falcon_onu_notify_ploam_state new old r)) in
      onu_event_decode fr (mem_put (f_data fr) (take (8 + unat (ev_len e)) (ev_bytes e)) m) =
        Some (OMCI_API_EVENT_PLOAM_STATE (sint (ploam_state_code old)) (sint (ploam_state_code new)), [])"
    by (simp add: falcon_onu_notify_ploam_state_def Let_def decode_state)
next
  let ?n = "if ONU_GPE_MAX_OMCI_FRAME_LEN < len then ONU_GPE_MAX_OMCI_FRAME_LEN else len"
  let ?bs = "map frame [0..<n]"
  let ?d = "be32_bytes ?n @ ?bs"
  have n: "unat ?n = n" using assms(3) by (auto simp: word_less_nat_alt min_def)
  then have le: "n \<le> 1980" and u: "unat (4 + ?n) = 4 + n" using assms(3) by (simp_all add: unat_word_ariths)
  have "map ((!) ?d) [0..<4 + n] = ?d" by (rule nth_equalityI) simp_all
  moreover have "4 + ?n \<le> 2048" using u le by (simp add: word_le_nat_alt)
  ultimately have "take (8 + unat (ev_len e)) (ev_bytes e) = be32_bytes 4 @ be32_bytes (4 + ?n) @ ?d"
    if "e = last (onu_ring_list (falcon_onu_push_event 4 (Some ((!) ?d)) (4 + ?n) r))" for e
    using push_last[OF assms(1) _ that] u by simp
  moreover have "falcon_onu_notify_omci_rx (Some frame) len r = falcon_onu_push_event 4 (Some ((!) ?d)) (4 + ?n) r"
    using assms(2) n by (simp add: falcon_onu_notify_omci_rx_def Let_def word_gt_0)
  ultimately show "let e = last (onu_ring_list (falcon_onu_notify_omci_rx (Some frame) len r)); bs = map frame [0..<n] in
      onu_event_decode fr (mem_put (f_data fr) (take (8 + unat (ev_len e)) (ev_bytes e)) m) =
        Some (OMCI_API_EVENT_OMCI (msg_of_octets (take 48 (bs @ drop n (f_stack fr)))), drop 48 bs)"
    using n le decode_omci[of ?bs ?n fr "4 + ?n" m] by (simp add: Let_def)
qed

lemma falcon_capability_call:
  "falcon_onu (ioctl_cmd.truncate FIO_GPE_CAPABILITY_GET) x (r, m) = (0, r, mem_put x gpe_capability m)"
  by (simp add: falcon_onu_def falcon_onu_ioctl_def FIO_GPE_CAPABILITY_GET_def ioctl_cmd.truncate_def put_user_bytes_def user_mem_def
      gpe_capability_def)

lemma gpe_capability_length: "length gpe_capability = 28" by (simp add: gpe_capability_def)

lemma falcon_portmap_call:
  assumes "x \<noteq> 0"
  shows "falcon_onu (ioctl_cmd.truncate FIO_ONU_LAN_PORTMAP_GET) x (r, m) = (0, r, mem_put x (replicate 12 0) m)"
  using assms by (simp add: falcon_onu_def falcon_onu_ioctl_def FIO_ONU_LAN_PORTMAP_GET_def ioctl_cmd.truncate_def ioctl_default_def user_mem_def)

lemma zero_words:
  assumes "apart p k x j" "length bs \<le> j" "i + 4 \<le> k" "i + 4 \<le> n" "n < 2 ^ 32" "length as \<le> j"
  shows "mem_word (p + of_nat i) (mem_put x bs (mem_put x as (mem_put p (replicate n 0) m))) = 0"
  using mem_word_apart[OF assms(1,3,2)] mem_word_apart[OF assms(1,3,6)] mem_word_zero[OF assms(4,5)] by simp

text \<open>
  C36: The start of the daemon on this driver succeeds and learns nothing: the capabilities are all zero and
  no port is mapped. The 28 octets of the capabilities go to the exchange descriptor, which has 12; the
  other 16 overwrite the stack of the caller.
\<close>

theorem driver_capabilities_lost:
  assumes "fd \<noteq> - 1" "apart p 28 x 28" "x \<noteq> 0"
  shows "(\<exists>m'. capability_get falcon_onu x p fd (r, m) =
      (Some \<lparr> cap_max_meter = 0, cap_max_gpix = 0, cap_max_eth_uni = 0, cap_max_pots_uni = 0, cap_max_bridge_port = 0, cap_hw_version = 0 \<rparr>, r, m')
      \<and> mem_get (x + 12) 16 m' = drop 12 gpe_capability)
    \<and> (\<exists>m'. uni2lan_portmap_get falcon_onu x p fd u (r, m) = (0, u, r, m'))"
proof
  let ?a = "be32_bytes 0 @ be32_bytes 28 @ be32_bytes p"
  let ?z = "mem_put p (replicate 28 0) (mem_put p (replicate 28 0) m)"
  let ?m = "mem_put x gpe_capability (mem_put x ?a ?z)"
  have c: "ioc_read FIO_GPE_CAPABILITY_GET" "\<not> ioc_write FIO_GPE_CAPABILITY_GET" by (simp_all add: FIO_GPE_CAPABILITY_GET_def)
  have "mem_word (x + of_nat 0) ?m = 64"
    using mem_word_put[of 0 gpe_capability x] by (simp add: gpe_capability_length) (simp add: gpe_capability_def be32_bytes_def)
  then have "dev_ctl falcon_onu x fd FIO_GPE_CAPABILITY_GET p 28 (r, mem_put p (replicate 28 0) m) = (0, r, ?m)"
    using assms(1) by (simp add: dev_ctl_def Let_def c IFXOS_DeviceControl_def falcon_capability_call)
  moreover have "mem_word (p + of_nat i) ?m = 0" if "i + 4 \<le> 28" for i
    using that by (intro zero_words[OF assms(2)]) (simp_all add: gpe_capability_length)
  from this[of 0] this[of 4] this[of 8] this[of 12] this[of 16] this[of 20]
  have "mem_word p ?m = 0" "mem_word (p + 4) ?m = 0" "mem_word (p + 8) ?m = 0" "mem_word (p + 12) ?m = 0" "mem_word (p + 16) ?m = 0"
    "mem_word (p + 20) ?m = 0" by simp_all
  moreover have "mem_get (x + of_nat 12) 16 ?m = take 16 (drop 12 gpe_capability)"
    by (rule mem_get_put) (simp_all add: gpe_capability_length)
  ultimately show "\<exists>m'. capability_get falcon_onu x p fd (r, m) =
      (Some \<lparr> cap_max_meter = 0, cap_max_gpix = 0, cap_max_eth_uni = 0, cap_max_pots_uni = 0, cap_max_bridge_port = 0, cap_hw_version = 0 \<rparr>, r, m')
      \<and> mem_get (x + 12) 16 m' = drop 12 gpe_capability"
    by (simp add: capability_get_def gpe_capability_length)
next
  let ?a = "be32_bytes 0 @ be32_bytes 12 @ be32_bytes p"
  let ?m = "mem_put x (replicate 12 0) (mem_put x ?a (mem_put p (replicate 12 0) (mem_put p (replicate 12 0) m)))"
  have c: "ioc_read FIO_ONU_LAN_PORTMAP_GET" "\<not> ioc_write FIO_ONU_LAN_PORTMAP_GET" by (simp_all add: FIO_ONU_LAN_PORTMAP_GET_def)
  have "mem_word (x + of_nat 0) ?m = 0" by (rule mem_word_zero) simp_all
  then have d: "dev_ctl falcon_onu x fd FIO_ONU_LAN_PORTMAP_GET p 12 (r, mem_put p (replicate 12 0) m) = (0, r, ?m)"
    using assms(1) by (simp add: dev_ctl_def Let_def c IFXOS_DeviceControl_def falcon_portmap_call[OF assms(3)])
  have "?m (p + of_nat 0) = 0"
    using mem_put_hit[of 0 "replicate 12 (0 :: u8)" p]
    by (simp only: mem_put_apart[OF assms(2)] length_replicate length_append be32_bytes_length) simp
  then show "\<exists>m'. uni2lan_portmap_get falcon_onu x p fd u (r, m) = (0, u, r, m')"
    by (simp add: uni2lan_portmap_get_def d)
qed

text \<open>What is sent as a baseline message is received as the same message.\<close>

lemma frame_received:
  assumes "length (contents m) = 32" "dev_id m = OMCI_FORMAT_BASELINE"
  shows "\<exists>f. omci_api_frame (msg_octets m) 40 = Some f \<and> length f = 44 \<and> msg_of_octets (take 48 (f @ ys)) = m"
proof -
  have l: "length (msg_octets m) = 40" using assms(1) by (rule msg_octets_length)
  have "msg_octets m ! 3 = 0x0A" using assms(2) by (simp add: msg_octets_def be16_octets_def numeral_3_eq_3)
  then have f: "omci_api_frame (msg_octets m) 40 = Some (msg_octets m @ [0, 0, 0, 0x28])" using l by (simp add: omci_api_frame_def)
  have "msg_of_octets (msg_octets m @ zs) = msg_of_octets (msg_octets m)" for zs
    using l by (simp add: msg_of_octets_def memget_append_left nth_append)
  with f l msg_octets_roundtrip[OF assms(1)] show ?thesis by simp
qed

section \<open>Witnesses\<close>

lemma driver_events_lost_witness:
  "\<exists>r' m'. omci_api_event_round falcon_onu falcon_optic example_frame 3 3 4 example_api (True, True)
      (falcon_onu_notify_ploam_state PLOAM_STATE_O2_STANDBY PLOAM_STATE_O1_INITIAL_RUN zero_ring, (), \<lambda>_. 0) = Some ([], r', (), m') \<and> onu_ring_list r' = []"
proof -
  let ?r = "falcon_onu_notify_ploam_state PLOAM_STATE_O2_STANDBY PLOAM_STATE_O1_INITIAL_RUN zero_ring"
  have i: "onu_ring_inv ?r" by (simp add: falcon_onu_notify_ploam_state_def Let_def push_event_inv zero_ring_ok)
  have a: "apart (f_data example_frame) 1992 (f_exchange example_frame) 12" by (simp add: apart_def example_frame_def)
  have "tl (onu_ring_list ?r) = []"
    by (simp add: falcon_onu_notify_ploam_state_def Let_def push_event_list zero_ring_ok last_n_def)
  with driver_events_lost[OF i a, of 3 3 4 example_api "(True, True)" "\<lambda>_. 0"] show ?thesis by auto
qed

lemma driver_event_layout_witness:
  "let e = last (onu_ring_list (falcon_onu_notify_ploam_state PLOAM_STATE_O2_STANDBY PLOAM_STATE_O1_INITIAL_RUN zero_ring)) in
    onu_event_decode example_frame (mem_put 0x2000 (take (8 + unat (ev_len e)) (ev_bytes e)) (\<lambda>_. 0)) =
      Some (OMCI_API_EVENT_PLOAM_STATE 1 2, [])"
proof -
  have f: "f_data example_frame = 0x2000" by (simp add: example_frame_def)
  from driver_event_layout[OF zero_ring_ok(1), where len = 44 and n = 44 and fr = example_frame and new = PLOAM_STATE_O2_STANDBY
      and old = PLOAM_STATE_O1_INITIAL_RUN and m = "\<lambda>_. 0", THEN conjunct1]
  show ?thesis by (simp add: f)
qed

lemma driver_capabilities_lost_witness:
  "\<exists>m'. uni2lan_portmap_get falcon_onu 0x1000 0x2000 3 [- 1, - 1, - 1, - 1] (zero_ring, \<lambda>_. 0) = (0, [- 1, - 1, - 1, - 1], zero_ring, m')"
  by (rule driver_capabilities_lost[THEN conjunct2]) (simp_all add: apart_def)

end
