(* ===== verification/Spec2Isabelle.thy ===== *)
theory Spec2Isabelle
  imports Falcon_Core Ifx_Crc Api_Mapper_Spec Omci_Api
begin

text \<open>
  Verification of the GPON stack of an OpenWrt image for Lantiq Falcon optical network units.

  \<^bold>\<open>The program\<close>

  An optical network unit (ONU) is a terminal of a passive optical network. Two programs of the
  repository control it.

  \<^item> The kernel module \<^verbatim>\<open>package/kernel/gpon-falcon/src\<close> drives the hardware: the PLOAM protocol engine
    (\<^verbatim>\<open>falcon_ploam.c\<close>) brings the ONU into the network through the activation states O1 to O7, the laser driver
    (\<^verbatim>\<open>falcon_bosa.c\<close>) may switch the transmitter on only where that is allowed, the packet engine
    (\<^verbatim>\<open>falcon_dma.c\<close>) sends frames, and two character devices (\<^verbatim>\<open>falcon_onu_dev.c\<close>) pass events to the daemon.
    \<^verbatim>\<open>falcon_gpon_core.c\<close> connects them.
  \<^item> The daemon \<^verbatim>\<open>package/network/services/omcid/src\<close> speaks OMCI, the management protocol between the central
    office (OLT) and the ONU. Its state is the management information base (MIB), a table of managed
    entities, instances of about 110 classes. \<^verbatim>\<open>gpon_omci_onu\<close> is the protocol, \<^verbatim>\<open>gpon_omci_api\<close> the access to
    the driver, \<^verbatim>\<open>lib_ifxos\<close> a library of containers and operating system wrappers.

  Driver and daemon meet in the ioctl interface: the driver puts changes of the activation state and
  received OMCI frames into an event ring, the daemon reads them, resets its base or executes a command, and
  sends the response.

  \<^bold>\<open>Theories and the code they model\<close>

  \<^item> \<^verbatim>\<open>Gpon_Prelude\<close>: words, octets, register accesses, ring indices, and the interfaces (locales) of a bounded
    FIFO and of registers.
  \<^item> \<^verbatim>\<open>Falcon_Ploam\<close>, \<^verbatim>\<open>Falcon_Bosa\<close>, \<^verbatim>\<open>Falcon_Dma\<close>, \<^verbatim>\<open>Falcon_Onu_Dev\<close>, \<^verbatim>\<open>Falcon_Core\<close>: the files of the same names of the
    kernel module, each with its structures as records and one definition per function. Registers, GPIO and
    the network stack are parameter records; interrupts, timers and the worker are operations.
  \<^item> \<^verbatim>\<open>Ifx_Fifo\<close>, \<^verbatim>\<open>Ifx_Vfifo\<close>, \<^verbatim>\<open>Ifx_Crc\<close>: \<^verbatim>\<open>ifx_fifo.c\<close> over word addresses, and \<^verbatim>\<open>ifx_crc.c\<close> with its tables.
  \<^item> \<^verbatim>\<open>Api_Mapper\<close>, \<^verbatim>\<open>Api_Mapper_Lists\<close>, \<^verbatim>\<open>Api_Mapper_Spec\<close>: \<^verbatim>\<open>omci_api_mapper.c\<close> over an explicit heap with its two
    sorted linked lists; allocation is a parameter.
  \<^item> \<^verbatim>\<open>Omci_Types\<close>, \<^verbatim>\<open>Omci_Classes_A\<close> to \<^verbatim>\<open>Omci_Classes_D\<close>, \<^verbatim>\<open>Omci_Class_Check\<close>: the class descriptions of \<^verbatim>\<open>src/me\<close> as data,
    in the order of \<^verbatim>\<open>omci_me_def.c\<close>, and the check that \<^verbatim>\<open>mib_create\<close> runs over them.
  \<^item> \<^verbatim>\<open>Omci_Timeout\<close>, \<^verbatim>\<open>Omci_Ctx\<close>, \<^verbatim>\<open>Omci_Alarm\<close>, \<^verbatim>\<open>Omci_Pm\<close>, \<^verbatim>\<open>Omci_Me\<close>, \<^verbatim>\<open>Omci_Mib\<close>: \<^verbatim>\<open>omci_timeout.c\<close>, \<^verbatim>\<open>struct omci_context\<close>,
    \<^verbatim>\<open>omci_alarm.c\<close>, \<^verbatim>\<open>omci_pm.c\<close>, \<^verbatim>\<open>omci_me.c\<close> with the default handlers, \<^verbatim>\<open>omci_mib.c\<close>. The context is a record that is
    passed through; entities live at addresses, so pointers and their reuse are visible.
  \<^item> \<^verbatim>\<open>Omci_Handlers\<close>, \<^verbatim>\<open>Omci_Handlers_Spec\<close>, \<^verbatim>\<open>Omci_Upload\<close>: the action handlers of \<^verbatim>\<open>omci_me_handlers.c\<close> and \<^verbatim>\<open>omci_onu_data.c\<close>.
  \<^item> \<^verbatim>\<open>Omci_Core\<close>, \<^verbatim>\<open>Omci_Interface\<close>, \<^verbatim>\<open>Omci_Fifo\<close>, \<^verbatim>\<open>Omci_Api\<close>: the threads of \<^verbatim>\<open>omci_core.c\<close>, the functions of
    \<^verbatim>\<open>omci_interface.c\<close>, the message FIFO over \<^verbatim>\<open>Ifx_Vfifo\<close>, and \<^verbatim>\<open>omci_api.c\<close> and \<^verbatim>\<open>omci_api_event.c\<close> over the model of
    the character devices.

  \<^bold>\<open>What is shown\<close>

  \<^item> Safety of the driver: in every reachable configuration the laser is off outside O3 to O5, the ONU-ID
    is clear before ranging, and the timers fit the state; message handling refines the activation automaton;
    the worker terminates and handles what the interrupt stored.
  \<^item> The base: creation and deletion refine insertion into and removal from a map of class and instance and keep
    the invariant of the structure (sorted lists, counts, disjoint buffers); reset terminates.
  \<^item> The commands: Set, Get, Get next, upload and the round trips between them, byte for byte; refusals; each
    command is executed once and answered; a repeated one is answered from memory.
  \<^item> Data structures: the FIFOs, the event ring and the timeout list against lists, the mapper against a
    partial bijection, the checksums against polynomial division.
  \<^item> Composition: the message FIFO implements the list of the message service, and the event path from the ring of
    the driver to the callback of the daemon. The latter is broken, and so are other parts; such theorems
    (of kind error) state what the code does, with the smallest hypotheses we found.

  \<^bold>\<open>Conventions\<close>

  The target is a 32-bit big-endian MIPS; \<^verbatim>\<open>char\<close> is signed, enumerations are 32-bit words, structures are packed.
  Words keep their width (\<^typ>\<open>u8\<close>, \<^typ>\<open>u16\<close>, \<^typ>\<open>u32\<close>) and wrap; sizes and positions that are bounded by
  the code are natural numbers. Errors are values. Handlers of the classes, allocation, the clock, the
  sending of messages and the value of uninitialised memory are the fields of \<^verbatim>\<open>omci_env\<close>; theorems that need a
  well-behaved handler assume it by name (a \<^verbatim>\<open>get\<close> handler that succeeds and returns as many octets as it was given).
  An assertion of the source is a precondition; \<^verbatim>\<open>assert(attr_mask)\<close> in \<^verbatim>\<open>me_data_fetch\<close> can be violated by a
  command, which is not modelled as a crash. Debug output has no effect and is left out, as is code that the
  configuration does not compile (byte swapping, self description, remote access).

  Fuel: \<^verbatim>\<open>mib_destroy\<close> and \<^verbatim>\<open>mib_reset\<close> take a number of rounds for a class; the number of entities suffices, and the
  theorem on the reset shows it. All other loops are structural recursions, so the functions are total;
  the mapper is in the option monad, where \<^const>\<open>None\<close> is an access outside the heap, and its theorems show
  that it does not happen.

  Concurrency: interrupts, timers, threads and the driver interleave by steps. A step is what runs under one
  lock or between two waits; the locks themselves are left out. The action thread runs a command in one
  step; the message thread may give up waiting for it at any time.

  \<^bold>\<open>Not modelled\<close>

  The functions of single classes in \<^verbatim>\<open>src/me\<close> and in \<^verbatim>\<open>gpon_omci_api/src/me\<close> write tables of a packet processor
  through ioctl commands whose driver is not in the repository; they are parameters. Multicast control, voice,
  the command line, the message dump, ubus and the start of the packet processor talk to the same driver, to sockets or to
  the console. The wrappers of system calls in \<^verbatim>\<open>lib_ifxos\<close> are assumed to do what their names say, except
  the device access. \<^verbatim>\<open>falcon_netdev.c\<close> is not part of the module. Scripts, web pages, build files and generated
  headers are data or glue.
\<close>

end
